(* ===== verification/Prelude.thy ===== *)
theory Prelude
  imports Main "HOL-Library.AList" "HOL-Library.List_Lexorder" "HOL-Library.Char_ord"
    "HOL-Library.Product_Lexorder"
begin

text \<open>
  Shared vocabulary of the development: the collections of simplification facts, results with an
  error value, maps as association lists (Go's \<open>map\<close> with one iteration order written down),
  sorting by a key, and the two interfaces every component with state is checked against: a
  labelled transition system with an invariant, and the choice of the newest record.
\<close>

named_theorems go_eval \<open>definitions that unfold when a closed term is evaluated\<close>
named_theorems frame \<open>what an operation leaves unchanged\<close>

subsection \<open>Results\<close>

text \<open>
  A Go function that returns a value and an error returns \<open>Inl e\<close> when the error is not nil and
  \<open>Inr v\<close> otherwise.
\<close>

definition bind_res :: "'e + 'a \<Rightarrow> ('a \<Rightarrow> 'e + 'b) \<Rightarrow> 'e + 'b" where
  "bind_res r f = (case r of Inl e \<Rightarrow> Inl e | Inr v \<Rightarrow> f v)"

lemma bind_res_simps [simp]:
  "bind_res (Inl e) f = Inl e"
  "bind_res (Inr v) f = f v"
  by (simp_all add: bind_res_def)

lemma bind_res_Inr_iff: "bind_res r f = Inr w \<longleftrightarrow> (\<exists>v. r = Inr v \<and> f v = Inr w)"
  by (cases r) auto

lemma bind_res_Inl_iff: "bind_res r f = Inl e \<longleftrightarrow> r = Inl e \<or> (\<exists>v. r = Inr v \<and> f v = Inl e)"
  by (cases r) auto

definition guard :: "bool \<Rightarrow> 'e \<Rightarrow> 'e + unit" where
  "guard bad e = (if bad then Inl e else Inr ())"

lemma guard_iff [simp]:
  "guard bad e = Inr u \<longleftrightarrow> \<not> bad"
  "guard bad e = Inl x \<longleftrightarrow> bad \<and> x = e"
  by (auto simp: guard_def)

lemma bind_guard: "bind_res (guard b e) f = (if b then Inl e else f ())"
  by (simp add: guard_def)

text \<open>The first error of a list of checks, as a \<open>for\<close> loop with an early return finds it.\<close>

fun first_error :: "('a \<Rightarrow> 'e option) \<Rightarrow> 'a list \<Rightarrow> 'e option" where
  "first_error f [] = None"
| "first_error f (x # xs) = (case f x of Some e \<Rightarrow> Some e | None \<Rightarrow> first_error f xs)"

lemma first_error_None [simp]: "first_error f xs = None \<longleftrightarrow> (\<forall>x \<in> set xs. f x = None)"
  by (induction xs) (auto split: option.splits)

lemma first_error_Some: "first_error f xs = Some e \<Longrightarrow> \<exists>x \<in> set xs. f x = Some e"
  by (induction xs) (auto split: option.splits)

subsection \<open>Maps\<close>

text \<open>
  A Go map is an association list with distinct keys. The list fixes one iteration order; a
  theorem about every list is therefore a theorem about every order the runtime may choose.
\<close>

type_synonym ('k, 'v) gomap = "('k \<times> 'v) list"

abbreviation lookup :: "('k, 'v) gomap \<Rightarrow> 'k \<Rightarrow> 'v option" where
  "lookup \<equiv> map_of"

abbreviation put :: "'k \<Rightarrow> 'v \<Rightarrow> ('k, 'v) gomap \<Rightarrow> ('k, 'v) gomap" where
  "put \<equiv> AList.update"

abbreviation remove :: "'k \<Rightarrow> ('k, 'v) gomap \<Rightarrow> ('k, 'v) gomap" where
  "remove \<equiv> AList.delete"

abbreviation keys :: "('k, 'v) gomap \<Rightarrow> 'k list" where
  "keys m \<equiv> map fst m"

definition wf_map :: "('k, 'v) gomap \<Rightarrow> bool" where
  "wf_map m \<longleftrightarrow> distinct (map fst m)"

lemma wf_map_Nil [simp]: "wf_map []"
  by (simp add: wf_map_def)

lemma wf_map_put [simp]: "wf_map m \<Longrightarrow> wf_map (put k v m)"
  by (simp add: wf_map_def distinct_update)

lemma wf_map_remove [simp]: "wf_map m \<Longrightarrow> wf_map (remove k m)"
  by (simp add: wf_map_def distinct_delete)

lemma wf_map_filter [simp]: "wf_map m \<Longrightarrow> wf_map (filter p m)"
  by (simp add: wf_map_def distinct_map_filter)

lemma lookup_put [simp]: "lookup (put k v m) x = (if x = k then Some v else lookup m x)"
  by (simp add: update_conv')

lemma lookup_remove [simp]: "lookup (remove k m) x = (if x = k then None else lookup m x)"
  by (simp add: delete_conv')

lemma in_set_lookup: "wf_map m \<Longrightarrow> (k, v) \<in> set m \<longleftrightarrow> lookup m k = Some v"
  by (auto simp: wf_map_def dest: map_of_SomeD)

lemma lookup_Some_in_set: "lookup m k = Some v \<Longrightarrow> (k, v) \<in> set m"
  by (rule map_of_SomeD)

lemma lookup_filter:
  "wf_map m \<Longrightarrow>
    lookup (filter p m) k = (case lookup m k of None \<Rightarrow> None | Some v \<Rightarrow> if p (k, v) then Some v else None)"
proof (induction m)
  case (Cons kv m)
  obtain k' v' where kv: "kv = (k', v')" by (cases kv)
  from Cons.prems kv have "lookup m k' = None" and "wf_map m"
    by (auto simp: wf_map_def map_of_eq_None_iff)
  with Cons.IH kv show ?case by auto
qed simp

lemma set_put: "wf_map m \<Longrightarrow> set (put k v m) = {(x, w) \<in> set m. x \<noteq> k} \<union> {(k, v)}"
  by (auto simp: in_set_lookup split: if_splits)

lemma set_remove: "set (remove k m) = {(x, w) \<in> set m. x \<noteq> k}"
  by (auto simp: AList.delete_eq)

lemma remove_put [simp]: "wf_map m \<Longrightarrow> lookup m k = None \<Longrightarrow> remove k (put k v m) = m"
  by (induction m) (auto simp: wf_map_def AList.delete_eq filter_id_conv map_of_eq_None_iff)

lemma put_put_same: "wf_map m \<Longrightarrow> lookup m k = Some v \<Longrightarrow> put k v (put k w m) = m"
  by (induction m) (auto simp: wf_map_def)

lemma put_same: "wf_map m \<Longrightarrow> lookup m k = Some v \<Longrightarrow> put k v m = m"
  by (induction m) (auto simp: wf_map_def)

lemma length_put: "length (put k v m) = (if lookup m k = None then Suc (length m) else length m)"
  by (induction m) (auto simp: map_of_eq_None_iff)

lemma keys_put: "fst ` set (put k v m) = insert k (fst ` set m)"
  by (simp add: dom_update)

lemma values_put: "wf_map m \<Longrightarrow> \<forall>(x, w) \<in> set m. P w \<Longrightarrow> P v \<Longrightarrow> \<forall>(x, w) \<in> set (put k v m). P w"
  by (auto simp: set_put)

lemma find_SomeD: "find P xs = Some x \<Longrightarrow> x \<in> set xs \<and> P x"
  by (induction xs) (auto split: if_splits)

subsection \<open>Choosing the newest record\<close>

text \<open>
  Several loops of the code scan a map for the newest record: they keep the first candidate and
  replace it when the next one is newer. \<open>pick\<close> is that loop. Go iterates a map in an arbitrary
  order, so what matters is that the choice does not depend on it.
\<close>

fun pick :: "('a \<Rightarrow> 'a \<Rightarrow> bool) \<Rightarrow> 'a option \<Rightarrow> 'a list \<Rightarrow> 'a option" where
  "pick newer best [] = best"
| "pick newer best (x # xs) =
     pick newer (case best of None \<Rightarrow> Some x | Some b \<Rightarrow> if newer x b then Some x else Some b) xs"

locale newest_choice =
  fixes newer :: "'a \<Rightarrow> 'a \<Rightarrow> bool" and rank :: "'a \<Rightarrow> 'k::linorder"
  assumes newer_iff: "newer x y \<longleftrightarrow> rank y < rank x"
begin

lemma pick_Some:
  "\<exists>m. pick newer (Some b) xs = Some m \<and> m \<in> insert b (set xs) \<and>
     (\<forall>x \<in> insert b (set xs). rank x \<le> rank m)"
proof (induction xs arbitrary: b)
  case (Cons x xs)
  let ?b = "if newer x b then x else b"
  from Cons.IH [of ?b] obtain m where m: "pick newer (Some ?b) xs = Some m"
    "m \<in> insert ?b (set xs)" "\<forall>y \<in> insert ?b (set xs). rank y \<le> rank m" by blast
  from m(3) have "rank x \<le> rank m" and "rank b \<le> rank m"
    using newer_iff [of x b] by (auto split: if_splits)
  with m show ?case
    by (intro exI [of _ m]) (auto split: if_splits)
qed simp

lemma pick_empty_iff: "pick newer None xs = None \<longleftrightarrow> xs = []"
  using pick_Some by (cases xs) (auto, metis option.distinct(1))

lemma pick_mem: "pick newer None xs = Some m \<Longrightarrow> m \<in> set xs"
  using pick_Some [of "hd xs" "tl xs"] by (cases xs) auto

lemma pick_greatest: "pick newer None xs = Some m \<Longrightarrow> x \<in> set xs \<Longrightarrow> rank x \<le> rank m"
  using pick_Some [of "hd xs" "tl xs"] by (cases xs) auto

lemma pick_order_irrelevant:
  assumes same: "set xs = set ys" and inj: "inj_on rank (set xs)"
  shows "pick newer None xs = pick newer None ys"
proof (cases "pick newer None xs")
  case None
  with same show ?thesis by (metis pick_empty_iff set_empty)
next
  case (Some m)
  then have "xs \<noteq> []" by auto
  with same have "ys \<noteq> []" by auto
  then obtain n where n: "pick newer None ys = Some n"
    using pick_empty_iff [of ys] by (cases "pick newer None ys") auto
  from Some n same have "m \<in> set xs" "n \<in> set xs" "rank m \<le> rank n" "rank n \<le> rank m"
    by (auto dest: pick_mem intro: pick_greatest)
  with inj have "m = n" by (auto dest: inj_onD)
  with Some n show ?thesis by simp
qed

end

subsection \<open>Labelled transition systems\<close>

text \<open>
  A component with state is a step relation between states, labelled with the operation and what
  the environment supplied (clock readings, random bytes, whether the disk accepted a write).
\<close>

inductive reach :: "('s \<Rightarrow> bool) \<Rightarrow> ('s \<Rightarrow> 'l \<Rightarrow> 's \<Rightarrow> bool) \<Rightarrow> 's \<Rightarrow> bool"
  for init :: "'s \<Rightarrow> bool" and step :: "'s \<Rightarrow> 'l \<Rightarrow> 's \<Rightarrow> bool" where
  reach_init: "init s \<Longrightarrow> reach init step s"
| reach_step: "reach init step s \<Longrightarrow> step s l t \<Longrightarrow> reach init step t"

inductive steps :: "('s \<Rightarrow> 'l \<Rightarrow> 's \<Rightarrow> bool) \<Rightarrow> 's \<Rightarrow> 'l list \<Rightarrow> 's \<Rightarrow> bool"
  for step :: "'s \<Rightarrow> 'l \<Rightarrow> 's \<Rightarrow> bool" where
  steps_Nil: "steps step s [] s"
| steps_Cons: "step s l t \<Longrightarrow> steps step t ls u \<Longrightarrow> steps step s (l # ls) u"

inductive_cases steps_NilE [elim!]: "steps step s [] t"
inductive_cases steps_ConsE [elim!]: "steps step s (l # ls) t"

locale invariant_system =
  fixes init :: "'s \<Rightarrow> bool" and step :: "'s \<Rightarrow> 'l \<Rightarrow> 's \<Rightarrow> bool" and inv :: "'s \<Rightarrow> bool"
  assumes inv_init: "init s \<Longrightarrow> inv s"
    and inv_step: "inv s \<Longrightarrow> step s l t \<Longrightarrow> inv t"
begin

lemma reach_inv: "reach init step s \<Longrightarrow> inv s"
  by (induction rule: reach.induct) (auto intro: inv_init inv_step)

lemma steps_inv: "steps step s ls t \<Longrightarrow> inv s \<Longrightarrow> inv t"
  by (induction rule: steps.induct) (auto intro: inv_step)

end

text \<open>
  A relation between an earlier and a later state (nothing bound is rebound, a counter never goes
  back) that every step keeps, from states that satisfy the invariant.
\<close>

locale monotone_system = invariant_system init step inv
  for init :: "'s \<Rightarrow> bool" and step :: "'s \<Rightarrow> 'l \<Rightarrow> 's \<Rightarrow> bool" and inv :: "'s \<Rightarrow> bool" +
  fixes rel :: "'s \<Rightarrow> 's \<Rightarrow> bool"
  assumes rel_refl: "rel s s"
    and rel_trans: "rel s t \<Longrightarrow> rel t u \<Longrightarrow> rel s u"
    and rel_step: "inv s \<Longrightarrow> step s l t \<Longrightarrow> rel s t"
begin

lemma steps_rel: "steps step s ls t \<Longrightarrow> inv s \<Longrightarrow> rel s t"
proof (induction rule: steps.induct)
  case (steps_Nil s)
  show ?case by (rule rel_refl)
next
  case (steps_Cons s l t ls u)
  then show ?case by (meson inv_step rel_step rel_trans)
qed

end

end
