(* ===== verification/GoStrings.thy ===== *)
theory GoStrings
  imports Prelude
begin

text \<open>
  What the program uses of Go's \<open>strings\<close>, \<open>strconv\<close> and \<open>encoding/hex\<close>. A Go string is a list
  of bytes, so it is an Isabelle \<open>string\<close> (a list of 8-bit characters), \<open>len\<close> is \<open>length\<close> and \<open><\<close>
  is the lexicographic order of bytes (\<open>List_Lexorder\<close> over \<open>Char_ord\<close>).
\<close>

subsection \<open>Prefixes and substrings\<close>

text \<open>\<open>strings.HasPrefix(s, p)\<close> and \<open>strings.TrimPrefix(s, p)\<close>.\<close>

fun has_prefix :: "string \<Rightarrow> string \<Rightarrow> bool" where
  "has_prefix s [] = True"
| "has_prefix [] (p # ps) = False"
| "has_prefix (c # s) (p # ps) = (c = p \<and> has_prefix s ps)"

lemma has_prefix_iff: "has_prefix s p \<longleftrightarrow> (\<exists>t. s = p @ t)"
  by (induction s p rule: has_prefix.induct) auto

lemma has_prefix_append [simp]: "has_prefix (p @ s) p"
  by (auto simp: has_prefix_iff)

lemma has_prefix_mono: "has_prefix s p \<Longrightarrow> has_prefix (s @ t) p"
  by (auto simp: has_prefix_iff)

lemma has_prefix_trans: "has_prefix s p \<Longrightarrow> has_prefix p q \<Longrightarrow> has_prefix s q"
  by (auto simp: has_prefix_iff)

lemma has_prefix_length: "has_prefix s p \<Longrightarrow> length p \<le> length s"
  by (auto simp: has_prefix_iff)

definition trim_prefix :: "string \<Rightarrow> string \<Rightarrow> string" where
  "trim_prefix s p = (if has_prefix s p then drop (length p) s else s)"

lemma trim_prefix_append [simp]: "trim_prefix (p @ s) p = s"
  by (simp add: trim_prefix_def)

definition has_suffix :: "string \<Rightarrow> string \<Rightarrow> bool" where
  "has_suffix s p = has_prefix (rev s) (rev p)"

definition trim_suffix :: "string \<Rightarrow> string \<Rightarrow> string" where
  "trim_suffix s p = (if has_suffix s p then take (length s - length p) s else s)"

text \<open>\<open>strings.Contains(s, p)\<close> for a string \<open>p\<close> and \<open>strings.ContainsAny(s, chars)\<close> for ASCII \<open>chars\<close>.\<close>

fun contains :: "string \<Rightarrow> string \<Rightarrow> bool" where
  "contains [] p = (p = [])"
| "contains (c # s) p = (has_prefix (c # s) p \<or> contains s p)"

lemma contains_iff: "contains s p \<longleftrightarrow> (\<exists>u v. s = u @ p @ v)"
proof (induction s)
  case (Cons c s)
  have "(\<exists>u v. c # s = u @ p @ v) \<longleftrightarrow> (\<exists>v. c # s = p @ v) \<or> (\<exists>u v. s = u @ p @ v)"
    by (metis append_Cons append_Nil list.exhaust list.inject)
  with Cons.IH show ?case by (auto simp: has_prefix_iff)
qed auto

definition contains_any :: "string \<Rightarrow> string \<Rightarrow> bool" where
  "contains_any s chars = list_ex (\<lambda>c. c \<in> set chars) s"

text \<open>\<open>strings.Split(s, sep)\<close> for a separator of one byte; the result is never empty.\<close>

fun split_on :: "char \<Rightarrow> string \<Rightarrow> string list" where
  "split_on c [] = [[]]"
| "split_on c (x # xs) =
     (if x = c then [] # split_on c xs
      else (case split_on c xs of [] \<Rightarrow> [[x]] | w # ws \<Rightarrow> (x # w) # ws))"

lemma split_on_not_Nil [simp]: "split_on c s \<noteq> []"
  by (induction s) (auto split: list.splits)

text \<open>\<open>strings.SplitN(s, sep, 2)[0]\<close>: what stands before the first separator.\<close>

definition before :: "char \<Rightarrow> string \<Rightarrow> string" where
  "before c s = takeWhile (\<lambda>x. x \<noteq> c) s"

lemma hd_split_on: "hd (split_on c s) = before c s"
  by (induction s) (auto simp: before_def split: list.splits)

text \<open>The lines a \<open>bufio.Scanner\<close> with this limit delivers: without the line end, up to the first line that is too long.\<close>

definition scan_lines :: "nat \<Rightarrow> string \<Rightarrow> string list" where
  "scan_lines limit s =
     (let ls = split_on CHR 0x0A s; body = (if last ls = '''' then butlast ls else ls)
      in map (\<lambda>l. if l \<noteq> '''' \<and> last l = CHR 0x0D then butlast l else l) (takeWhile (\<lambda>l. length l < limit) body))"

subsection \<open>White space\<close>

text \<open>
  The encodings of the runes \<open>unicode.IsSpace\<close> accepts: six ASCII bytes, U+0085, U+00A0, and in
  UTF-8 the longer ones (U+1680, U+2000 to U+200A, U+2028, U+2029, U+202F, U+205F, U+3000).
\<close>

definition ascii_spaces :: "string list" where
  "ascii_spaces = [[CHR 0x20], [CHR 0x09], [CHR 0x0A], [CHR 0x0B], [CHR 0x0C], [CHR 0x0D]]"

definition wide_spaces :: "string list" where
  "wide_spaces =
     [[CHR 0xC2, CHR 0x85], [CHR 0xC2, CHR 0xA0], [CHR 0xE1, CHR 0x9A, CHR 0x80],
      [CHR 0xE2, CHR 0x80, CHR 0x80], [CHR 0xE2, CHR 0x80, CHR 0x81],
      [CHR 0xE2, CHR 0x80, CHR 0x82], [CHR 0xE2, CHR 0x80, CHR 0x83],
      [CHR 0xE2, CHR 0x80, CHR 0x84], [CHR 0xE2, CHR 0x80, CHR 0x85],
      [CHR 0xE2, CHR 0x80, CHR 0x86], [CHR 0xE2, CHR 0x80, CHR 0x87],
      [CHR 0xE2, CHR 0x80, CHR 0x88], [CHR 0xE2, CHR 0x80, CHR 0x89],
      [CHR 0xE2, CHR 0x80, CHR 0x8A], [CHR 0xE2, CHR 0x80, CHR 0xA8],
      [CHR 0xE2, CHR 0x80, CHR 0xA9], [CHR 0xE2, CHR 0x80, CHR 0xAF],
      [CHR 0xE2, CHR 0x81, CHR 0x9F], [CHR 0xE3, CHR 0x80, CHR 0x80]]"

definition spaces :: "string list" where
  "spaces = ascii_spaces @ wide_spaces"

lemmas spaces_defs = spaces_def ascii_spaces_def wide_spaces_def

text \<open>The length of the first pattern at the head of \<open>s\<close>, 0 if there is none.\<close>

fun lead :: "string list \<Rightarrow> string \<Rightarrow> nat" where
  "lead [] s = 0"
| "lead (p # ps) s = (if p \<noteq> [] \<and> has_prefix s p then length p else lead ps s)"

lemma lead_le: "lead ps s \<le> length s"
  by (induction ps) (auto dest: has_prefix_length)

lemma lead_pos_iff: "0 < lead ps s \<longleftrightarrow> (\<exists>p \<in> set ps. p \<noteq> [] \<and> has_prefix s p)"
  by (induction ps) auto

lemma lead_append: "0 < lead ps s \<Longrightarrow> 0 < lead ps (s @ t)"
  by (auto simp: lead_pos_iff dest: has_prefix_mono)

function trim_lead :: "string list \<Rightarrow> string \<Rightarrow> string" where
  "trim_lead ps s = (let n = lead ps s in if n = 0 then s else trim_lead ps (drop n s))"
  by pat_completeness auto
termination
proof (relation "measure (\<lambda>(ps, s). length s)")
  fix ps s and n :: nat
  assume "n = lead ps s" and "n \<noteq> 0"
  then have "length s - n < length s" using lead_le [of ps s] by linarith
  then show "((ps, drop n s), ps, s) \<in> measure (\<lambda>(ps, s). length s)" by simp
qed simp

declare trim_lead.simps [simp del]

lemma trim_lead_done: "lead ps s = 0 \<Longrightarrow> trim_lead ps s = s"
  by (subst trim_lead.simps) simp

lemma trim_lead_step: "lead ps s \<noteq> 0 \<Longrightarrow> trim_lead ps s = trim_lead ps (drop (lead ps s) s)"
  by (subst trim_lead.simps) (simp add: Let_def)

lemma lead_trim_lead [simp]: "lead ps (trim_lead ps s) = 0"
proof (induction ps s rule: trim_lead.induct)
  case (1 ps s)
  then show ?case by (subst trim_lead.simps) (simp add: Let_def)
qed

lemma trim_lead_suffix: "\<exists>u. s = u @ trim_lead ps s"
proof (induction ps s rule: trim_lead.induct)
  case (1 ps s)
  show ?case
  proof (cases "lead ps s = 0")
    case True
    then show ?thesis by (simp add: trim_lead_done)
  next
    case False
    with 1 obtain u where "drop (lead ps s) s = u @ trim_lead ps (drop (lead ps s) s)" by auto
    with False have "drop (lead ps s) s = u @ trim_lead ps s"
      by (simp add: trim_lead_step)
    then have "s = (take (lead ps s) s @ u) @ trim_lead ps s"
      by (metis append.assoc append_take_drop_id)
    then show ?thesis ..
  qed
qed

text \<open>\<open>strings.TrimSpace\<close>: leading white space, then trailing white space.\<close>

definition trim_left_space :: "string \<Rightarrow> string" where
  "trim_left_space s = trim_lead spaces s"

definition trim_right_space :: "string \<Rightarrow> string" where
  "trim_right_space s = rev (trim_lead (map rev spaces) (rev s))"

definition trim_space :: "string \<Rightarrow> string" where
  "trim_space s = trim_right_space (trim_left_space s)"

definition trimmed :: "string \<Rightarrow> bool" where
  "trimmed s \<longleftrightarrow> lead spaces s = 0 \<and> lead (map rev spaces) (rev s) = 0"

lemma trimmed_trim_space [simp]: "trimmed (trim_space s)"
proof -
  let ?l = "trim_left_space s"
  have tail: "lead (map rev spaces) (rev (trim_space s)) = 0"
    by (simp add: trim_space_def trim_right_space_def)
  obtain u where "rev ?l = u @ trim_lead (map rev spaces) (rev ?l)"
    using trim_lead_suffix by blast
  then have "?l = trim_space s @ rev u"
    by (metis rev_append rev_rev_ident trim_right_space_def trim_space_def)
  moreover have "lead spaces ?l = 0" by (simp add: trim_left_space_def)
  ultimately have "lead spaces (trim_space s) = 0"
    by (metis lead_append not_gr_zero)
  with tail show ?thesis by (simp add: trimmed_def)
qed

lemma trim_space_id: "trimmed s \<Longrightarrow> trim_space s = s"
  by (simp add: trimmed_def trim_space_def trim_left_space_def trim_right_space_def trim_lead_done)

lemma trim_space_idem [simp]: "trim_space (trim_space s) = trim_space s"
  by (rule trim_space_id) simp

lemma trimmed_Nil [simp]: "trimmed []"
  by (simp add: trimmed_def spaces_defs)

lemma trim_space_Nil [simp]: "trim_space [] = []"
  by (rule trim_space_id) simp

text \<open>\<open>strings.Fields(s)\<close>: the maximal runs without white space.\<close>

function go_fields_from :: "string \<Rightarrow> string \<Rightarrow> string list" where
  "go_fields_from w [] = (if w = [] then [] else [rev w])"
| "go_fields_from w (c # s) =
     (let n = lead spaces (c # s) in
      if n = 0 then go_fields_from (c # w) s
      else (if w = [] then [] else [rev w]) @ go_fields_from [] (drop n (c # s)))"
  by pat_completeness auto
termination
  by (relation "measure (\<lambda>(w, s). length s)") (auto simp: less_Suc_eq_le)

definition go_fields :: "string \<Rightarrow> string list" where
  "go_fields s = go_fields_from [] s"

subsection \<open>Case and digits\<close>

definition code :: "char \<Rightarrow> nat" where
  "code c = of_char c"

definition in_range :: "char \<Rightarrow> char \<Rightarrow> char \<Rightarrow> bool" where
  "in_range lo hi c \<longleftrightarrow> code lo \<le> code c \<and> code c \<le> code hi"

abbreviation is_digit :: "char \<Rightarrow> bool" where
  "is_digit \<equiv> in_range CHR ''0'' CHR ''9''"

abbreviation is_lower :: "char \<Rightarrow> bool" where
  "is_lower \<equiv> in_range CHR ''a'' CHR ''z''"

abbreviation is_upper :: "char \<Rightarrow> bool" where
  "is_upper \<equiv> in_range CHR ''A'' CHR ''Z''"

definition is_alnum :: "char \<Rightarrow> bool" where
  "is_alnum c \<longleftrightarrow> is_digit c \<or> is_lower c \<or> is_upper c"

text \<open>
  \<open>strings.ToLower\<close> on ASCII; bytes from 128 on are kept. Every caller compares the result with
  ASCII text or admits only hexadecimal digits, and no other rune has such a lower case but the
  Kelvin sign and the dotted capital I (their lower cases k and i are not hexadecimal).
\<close>

definition lower_of :: "(char, char) gomap" where
  "lower_of = zip ''ABCDEFGHIJKLMNOPQRSTUVWXYZ'' ''abcdefghijklmnopqrstuvwxyz''"

definition to_lower_char :: "char \<Rightarrow> char" where
  "to_lower_char c = (case lookup lower_of c of Some l \<Rightarrow> l | None \<Rightarrow> c)"

definition to_lower :: "string \<Rightarrow> string" where
  "to_lower s = map to_lower_char s"

text \<open>
  \<open>strings.EqualFold(s, t)\<close> for an ASCII \<open>t\<close>: the only other runes whose case folding is an ASCII
  letter are the Kelvin sign U+212A and the long s U+017F.
\<close>

fun fold_case :: "string \<Rightarrow> string" where
  "fold_case [] = []"
| "fold_case (c # s) =
     (if has_prefix (c # s) [CHR 0xE2, CHR 0x84, CHR 0xAA] then CHR ''k'' # fold_case (drop 2 s)
      else if has_prefix (c # s) [CHR 0xC5, CHR 0xBF] then CHR ''s'' # fold_case (drop 1 s)
      else to_lower_char c # fold_case s)"

definition equal_fold :: "string \<Rightarrow> string \<Rightarrow> bool" where
  "equal_fold s t \<longleftrightarrow> fold_case s = fold_case t"

subsection \<open>Decimal and hexadecimal\<close>

definition digit_char :: "nat \<Rightarrow> char" where
  "digit_char d = ''0123456789'' ! d"

definition digit_val :: "char \<Rightarrow> nat" where
  "digit_val c = code c - 48"

text \<open>\<open>strconv.Itoa\<close> and the verb \<open>%d\<close>.\<close>

fun itoa_nat :: "nat \<Rightarrow> string" where
  "itoa_nat n = (if n < 10 then [digit_char n] else itoa_nat (n div 10) @ [digit_char (n mod 10)])"

declare itoa_nat.simps [simp del]

definition itoa :: "int \<Rightarrow> string" where
  "itoa z = (if z < 0 then CHR ''-'' # itoa_nat (nat (- z)) else itoa_nat (nat z))"

definition nat_of_digits :: "string \<Rightarrow> nat" where
  "nat_of_digits s = foldl (\<lambda>n c. 10 * n + digit_val c) 0 s"

definition max_int64 :: int where "max_int64 = 2 ^ 63 - 1"
definition min_int64 :: int where "min_int64 = - (2 ^ 63)"

text \<open>Two's complement of the result of an \<open>int\<close> or \<open>int64\<close> operation.\<close>

definition wrap64 :: "int \<Rightarrow> int" where
  "wrap64 z = (z + 2 ^ 63) mod 2 ^ 64 - 2 ^ 63"

lemma wrap64_id: "min_int64 \<le> z \<Longrightarrow> z \<le> max_int64 \<Longrightarrow> wrap64 z = z"
  by (simp add: wrap64_def min_int64_def max_int64_def)

text \<open>
  \<open>strconv.Atoi\<close>: the value and whether the error is nil. A syntax error gives 0; a value outside
  \<open>int64\<close> gives the nearest bound and a range error.
\<close>

definition atoi :: "string \<Rightarrow> int \<times> bool" where
  "atoi s =
     (let (neg, ds) = (case s of [] \<Rightarrow> (False, [])
                       | c # cs \<Rightarrow> if c = CHR ''-'' then (True, cs)
                                  else if c = CHR ''+'' then (False, cs) else (False, s));
          v = (if neg then - int (nat_of_digits ds) else int (nat_of_digits ds))
      in if ds = [] \<or> \<not> list_all is_digit ds then (0, False)
         else if max_int64 < v then (max_int64, False)
         else if v < min_int64 then (min_int64, False)
         else (v, True))"

definition is_hex :: "char \<Rightarrow> bool" where
  "is_hex c \<longleftrightarrow> is_digit c \<or> in_range CHR ''a'' CHR ''f'' c \<or> in_range CHR ''A'' CHR ''F'' c"

text \<open>\<open>hex.DecodeString(s)\<close> returns no error.\<close>

definition hex_ok :: "string \<Rightarrow> bool" where
  "hex_ok s \<longleftrightarrow> even (length s) \<and> list_all is_hex s"

definition hex_digit :: "nat \<Rightarrow> char" where
  "hex_digit d = ''0123456789abcdef'' ! d"

text \<open>\<open>hex.EncodeToString\<close> of a list of bytes.\<close>

definition hex_encode :: "nat list \<Rightarrow> string" where
  "hex_encode bs = concat (map (\<lambda>b. [hex_digit (b div 16 mod 16), hex_digit (b mod 16)]) bs)"

lemma length_hex_encode [simp]: "length (hex_encode bs) = 2 * length bs"
  by (induction bs) (auto simp: hex_encode_def)

lemma is_hex_hex_digit: "d < 16 \<Longrightarrow> is_hex (hex_digit d)"
proof -
  assume "d < 16"
  then have "d \<in> set [0..<16]" by simp
  moreover have "\<forall>d \<in> set [0..<16]. is_hex (hex_digit d)" by code_simp
  ultimately show ?thesis by blast
qed

lemma even_length_hex_encode: "even (length (hex_encode bs))"
  by simp

lemma list_all_hex_encode: "list_all is_hex (hex_encode bs)"
  by (induction bs) (simp_all add: hex_encode_def is_hex_hex_digit)

lemma hex_ok_hex_encode [simp]: "hex_ok (hex_encode bs)"
  by (simp only: hex_ok_def even_length_hex_encode list_all_hex_encode simp_thms)

lemma digit_val_digit_char [simp]: "d < 10 \<Longrightarrow> digit_val (digit_char d) = d"
proof -
  assume "d < 10"
  then have "d \<in> set [0..<10]" by simp
  moreover have "\<forall>d \<in> set [0..<10]. digit_val (digit_char d) = d" by code_simp
  ultimately show ?thesis by blast
qed

lemma nat_of_digits_snoc [simp]: "nat_of_digits (s @ [c]) = 10 * nat_of_digits s + digit_val c"
  by (simp add: nat_of_digits_def)

lemma nat_of_digits_itoa_nat [simp]: "nat_of_digits (itoa_nat n) = n"
proof (induction n rule: itoa_nat.induct)
  case (1 n)
  show ?case
  proof (cases "n < 10")
    case True
    then show ?thesis by (simp add: itoa_nat.simps [of n] nat_of_digits_def)
  next
    case False
    with 1 show ?thesis by (simp add: itoa_nat.simps [of n])
  qed
qed

lemma is_digit_digit_char: "d < 10 \<Longrightarrow> is_digit (digit_char d)"
proof -
  assume "d < 10"
  then have "d \<in> set [0..<10]" by simp
  moreover have "\<forall>d \<in> set [0..<10]. is_digit (digit_char d)" by code_simp
  ultimately show ?thesis by blast
qed

lemma itoa_nat_digits: "list_all is_digit (itoa_nat n)"
proof (induction n rule: itoa_nat.induct)
  case (1 n)
  then show ?case
    by (cases "n < 10") (simp_all add: itoa_nat.simps [of n] is_digit_digit_char)
qed

lemma itoa_nat_not_Nil [simp]: "itoa_nat n \<noteq> []"
  by (subst itoa_nat.simps) simp

lemma atoi_itoa:
  assumes "0 \<le> z" and "z \<le> max_int64"
  shows "atoi (itoa z) = (z, True)"
proof -
  obtain c cs where s: "itoa_nat (nat z) = c # cs" by (cases "itoa_nat (nat z)") auto
  with itoa_nat_digits [of "nat z"] have "is_digit c" by simp
  then have "c \<noteq> CHR ''-''" and "c \<noteq> CHR ''+''" by (auto simp: in_range_def code_def)
  with s assms itoa_nat_digits [of "nat z"] nat_of_digits_itoa_nat [of "nat z"] show ?thesis
    by (simp add: atoi_def itoa_def min_int64_def)
qed

end
