(* ===== verification/Sha256.thy ===== *)
theory Sha256
  imports GoStrings "HOL-Library.Word"
begin

text \<open>
  \<open>crypto/sha256\<close> (FIPS 180-4) on byte strings, with the 32-bit additions and rotations of the
  standard. The program writes a digest as lower-case hexadecimal, and recipe revisions, image
  digests and evidence hashes with the prefix \<open>sha256:\<close>.
\<close>

unbundle bit_operations_syntax

type_synonym u32 = "32 word"

record sha_state =
  sha_a :: u32
  sha_b :: u32
  sha_c :: u32
  sha_d :: u32
  sha_e :: u32
  sha_f :: u32
  sha_g :: u32
  sha_h :: u32

text \<open>The round constants and the initial state of the standard, in decimal.\<close>

definition sha_k :: "u32 list" where
  "sha_k =
    [1116352408, 1899447441, 3049323471, 3921009573, 961987163, 1508970993, 2453635748, 2870763221,
     3624381080, 310598401, 607225278, 1426881987, 1925078388, 2162078206, 2614888103, 3248222580,
     3835390401, 4022224774, 264347078, 604807628, 770255983, 1249150122, 1555081692, 1996064986,
     2554220882, 2821834349, 2952996808, 3210313671, 3336571891, 3584528711, 113926993, 338241895,
     666307205, 773529912, 1294757372, 1396182291, 1695183700, 1986661051, 2177026350, 2456956037,
     2730485921, 2820302411, 3259730800, 3345764771, 3516065817, 3600352804, 4094571909, 275423344,
     430227734, 506948616, 659060556, 883997877, 958139571, 1322822218, 1537002063, 1747873779,
     1955562222, 2024104815, 2227730452, 2361852424, 2428436474, 2756734187, 3204031479, 3329325298]"

definition sha_init :: sha_state where
  "sha_init = \<lparr>sha_a = 1779033703, sha_b = 3144134277, sha_c = 1013904242, sha_d = 2773480762,
     sha_e = 1359893119, sha_f = 2600822924, sha_g = 528734635, sha_h = 1541459225\<rparr>"

definition sha_pad :: "nat list \<Rightarrow> nat list" where
  "sha_pad m =
     (let n = length m; bits = 8 * n
      in m @ [128] @ replicate ((119 - n mod 64) mod 64) 0 @
         map (\<lambda>i. bits div 256 ^ i mod 256) [7, 6, 5, 4, 3, 2, 1, 0])"

fun sha_words :: "nat list \<Rightarrow> u32 list" where
  "sha_words (a # b # c # d # r) =
     of_nat (a * 2 ^ 24 + b * 2 ^ 16 + c * 2 ^ 8 + d) # sha_words r"
| "sha_words r = []"

text \<open>The message schedule, newest word first.\<close>

fun sha_extend :: "nat \<Rightarrow> u32 list \<Rightarrow> u32 list" where
  "sha_extend 0 r = r"
| "sha_extend (Suc n) r =
     (let x = r ! 1; y = r ! 14;
          s1 = word_rotr 17 x XOR word_rotr 19 x XOR drop_bit 10 x;
          s0 = word_rotr 7 y XOR word_rotr 18 y XOR drop_bit 3 y
      in sha_extend n ((s1 + r ! 6 + s0 + r ! 15) # r))"

definition sha_round :: "sha_state \<Rightarrow> u32 \<times> u32 \<Rightarrow> sha_state" where
  "sha_round s kw =
     (let e = sha_e s; a = sha_a s;
          big1 = word_rotr 6 e XOR word_rotr 11 e XOR word_rotr 25 e;
          ch = (e AND sha_f s) XOR (NOT e AND sha_g s);
          t1 = sha_h s + big1 + ch + fst kw + snd kw;
          big0 = word_rotr 2 a XOR word_rotr 13 a XOR word_rotr 22 a;
          maj = (a AND sha_b s) XOR (a AND sha_c s) XOR (sha_b s AND sha_c s)
      in \<lparr>sha_a = t1 + (big0 + maj), sha_b = a, sha_c = sha_b s, sha_d = sha_c s,
          sha_e = sha_d s + t1, sha_f = e, sha_g = sha_f s, sha_h = sha_g s\<rparr>)"

definition sha_block :: "sha_state \<Rightarrow> u32 list \<Rightarrow> sha_state" where
  "sha_block s ws =
     (let t = foldl sha_round s (zip sha_k (rev (sha_extend 48 (rev ws))))
      in \<lparr>sha_a = sha_a s + sha_a t, sha_b = sha_b s + sha_b t, sha_c = sha_c s + sha_c t,
          sha_d = sha_d s + sha_d t, sha_e = sha_e s + sha_e t, sha_f = sha_f s + sha_f t,
          sha_g = sha_g s + sha_g t, sha_h = sha_h s + sha_h t\<rparr>)"

function sha_blocks :: "sha_state \<Rightarrow> u32 list \<Rightarrow> sha_state" where
  "sha_blocks s ws = (if ws = [] then s else sha_blocks (sha_block s (take 16 ws)) (drop 16 ws))"
  by pat_completeness auto
termination
  by (relation "measure (\<lambda>(s, ws). length ws)") auto

declare sha_blocks.simps [simp del]

definition word_bytes :: "u32 \<Rightarrow> nat list" where
  "word_bytes w = map (\<lambda>i. unat w div 256 ^ i mod 256) [3, 2, 1, 0]"

definition sha256_sum :: "string \<Rightarrow> nat list" where
  "sha256_sum s =
     (let t = sha_blocks sha_init (sha_words (sha_pad (map code s)))
      in concat (map word_bytes
           [sha_a t, sha_b t, sha_c t, sha_d t, sha_e t, sha_f t, sha_g t, sha_h t]))"

definition sha256_hex :: "string \<Rightarrow> string" where
  "sha256_hex s = hex_encode (sha256_sum s)"

definition sha256_id :: "string \<Rightarrow> string" where
  "sha256_id s = ''sha256:'' @ sha256_hex s"

lemma length_sha256_sum [simp]: "length (sha256_sum s) = 32"
  by (simp add: sha256_sum_def word_bytes_def Let_def)

lemma length_sha256_hex [simp]: "length (sha256_hex s) = 64"
  by (simp add: sha256_hex_def)

lemma hex_ok_sha256_hex [simp]: "hex_ok (sha256_hex s)"
  by (simp add: sha256_hex_def)

lemma sha256_id_not_Nil [simp]: "sha256_id s \<noteq> []"
  by (simp add: sha256_id_def)

end
