(* ===== verification/GoJson.thy ===== *)
theory GoJson
  imports GoStrings
begin

text \<open>
  \<open>json.Marshal\<close> of the values the program hashes: objects in field order, maps in key order,
  strings with Go's escapes (including \<open><\<close>, \<open>>\<close>, \<open>&\<close>, U+2028 and U+2029; the strings are valid
  UTF-8, as every decoder that produced them guarantees), and float64 numbers.
\<close>

datatype json =
    JNull
  | JBool bool
  | JInt int
  | JNum string
  | JStr string
  | JArr "json list"
  | JObj "(string \<times> json) list"

definition quoted_hex :: "nat \<Rightarrow> string" where
  "quoted_hex n = CHR 0x5C # ''u00'' @ [hex_digit (n div 16), hex_digit (n mod 16)]"

definition escape_char :: "char \<Rightarrow> string" where
  "escape_char c =
     (if c = CHR 0x22 then [CHR 0x5C, CHR 0x22]
      else if c = CHR 0x5C then [CHR 0x5C, CHR 0x5C]
      else if c = CHR 0x08 then CHR 0x5C # ''b''
      else if c = CHR 0x0C then CHR 0x5C # ''f''
      else if c = CHR 0x0A then CHR 0x5C # ''n''
      else if c = CHR 0x0D then CHR 0x5C # ''r''
      else if c = CHR 0x09 then CHR 0x5C # ''t''
      else if code c < 32 \<or> c \<in> {CHR ''<'', CHR ''>'', CHR ''&''} then quoted_hex (code c)
      else [c])"

fun escape :: "string \<Rightarrow> string" where
  "escape [] = []"
| "escape (a # s) =
     (case s of
        b # c # r \<Rightarrow>
          if a = CHR 0xE2 \<and> b = CHR 0x80 \<and> c = CHR 0xA8 then CHR 0x5C # ''u2028'' @ escape r
          else if a = CHR 0xE2 \<and> b = CHR 0x80 \<and> c = CHR 0xA9 then CHR 0x5C # ''u2029'' @ escape r
          else escape_char a @ escape s
      | _ \<Rightarrow> escape_char a @ escape s)"

definition quote :: "string \<Rightarrow> string" where
  "quote s = CHR 0x22 # escape s @ [CHR 0x22]"

fun join :: "string \<Rightarrow> string list \<Rightarrow> string" where
  "join sep [] = []"
| "join sep [x] = x"
| "join sep (x # y # xs) = x @ sep @ join sep (y # xs)"

fun json_text :: "json \<Rightarrow> string" where
  "json_text JNull = ''null''"
| "json_text (JBool b) = (if b then ''true'' else ''false'')"
| "json_text (JInt z) = itoa z"
| "json_text (JNum t) = t"
| "json_text (JStr s) = quote s"
| "json_text (JArr xs) = ''['' @ join '','' (map json_text xs) @ '']''"
| "json_text (JObj kvs) =
     ''{'' @ join '','' (map (\<lambda>(k, v). quote k @ '':'' @ json_text v) kvs) @ ''}''"

text \<open>Struct fields: always present, or left out when empty (\<open>omitempty\<close>).\<close>

definition fld :: "string \<Rightarrow> json \<Rightarrow> (string \<times> json) list" where
  "fld k v = [(k, v)]"

definition opt_fld :: "string \<Rightarrow> bool \<Rightarrow> json \<Rightarrow> (string \<times> json) list" where
  "opt_fld k absent v = (if absent then [] else [(k, v)])"

definition str_omit :: "string \<Rightarrow> string \<Rightarrow> (string \<times> json) list" where
  "str_omit k s = opt_fld k (s = []) (JStr s)"

definition int_omit :: "string \<Rightarrow> int \<Rightarrow> (string \<times> json) list" where
  "int_omit k z = opt_fld k (z = 0) (JInt z)"

definition bool_omit :: "string \<Rightarrow> bool \<Rightarrow> (string \<times> json) list" where
  "bool_omit k b = opt_fld k (\<not> b) (JBool b)"

definition strs_omit :: "string \<Rightarrow> string list \<Rightarrow> (string \<times> json) list" where
  "strs_omit k xs = opt_fld k (xs = []) (JArr (map JStr xs))"

definition JMap :: "(string, string) gomap \<Rightarrow> json" where
  "JMap m = JObj (map (\<lambda>(k, v). (k, JStr v)) (sort_key fst m))"

definition map_omit :: "string \<Rightarrow> (string, string) gomap \<Rightarrow> (string \<times> json) list" where
  "map_omit k m = opt_fld k (m = []) (JMap m)"

text \<open>A slice without \<open>omitempty\<close> whose nil value (\<open>None\<close>) is written as \<open>null\<close>.\<close>

definition JSlice :: "string list option \<Rightarrow> json" where
  "JSlice x = (case x of None \<Rightarrow> JNull | Some xs \<Rightarrow> JArr (map JStr xs))"

subsection \<open>float64\<close>

text \<open>
  A float64 that comes from text: the decimal \<open>Dec m e\<close> is \<open>m * 10 ^ - e\<close>, with at most 15
  significant digits, which a float64 reproduces exactly when it is printed; YAML also admits NaN
  and the infinities, which \<open>json.Marshal\<close> refuses.
\<close>

datatype float64 = Dec int nat | NaN | Inf bool

fun f64_le_zero :: "float64 \<Rightarrow> bool" where
  "f64_le_zero (Dec m e) = (m \<le> 0)"
| "f64_le_zero NaN = False"
| "f64_le_zero (Inf neg) = neg"

fun f64_gt_one :: "float64 \<Rightarrow> bool" where
  "f64_gt_one (Dec m e) = (m > 10 ^ e)"
| "f64_gt_one NaN = False"
| "f64_gt_one (Inf neg) = (\<not> neg)"

definition trim_zeros :: "string \<Rightarrow> string" where
  "trim_zeros s = rev (dropWhile (\<lambda>c. c = CHR ''0'') (rev s))"

fun f64_text :: "float64 \<Rightarrow> string option" where
  "f64_text (Dec m e) =
     (let ds = itoa_nat (nat \<bar>m\<bar>); ex = int (length ds) - 1 - int e; sg = (if m < 0 then ''-'' else '''')
      in Some (if m = 0 then ''0''
         else if ex < - 6 \<or> 21 \<le> ex
         then (let t = trim_zeros ds
               in sg @ [hd ds] @ (if tl t = [] then [] else CHR ''.'' # tl t) @ ''e'' @
                  (if ex < 0 then '''' else ''+'') @ itoa ex)
         else (let p = replicate (Suc e - length ds) CHR ''0'' @ ds;
                   whole = take (length p - e) p; frac = trim_zeros (drop (length p - e) p)
               in sg @ whole @ (if frac = [] then [] else CHR ''.'' # frac))))"
| "f64_text NaN = None"
| "f64_text (Inf neg) = None"

end
