(* ===== verification/GoTime.thy ===== *)
theory GoTime
  imports GoStrings
begin

text \<open>
  \<open>time.Parse(time.RFC3339Nano, s)\<close>. The result is the instant in nanoseconds since the Unix
  epoch, \<open>None\<close> when the error is not nil. Like the library, the hour may have one digit, the
  fraction may follow a comma, may have any number of digits (nine count), and a zone offset may
  reach 24 hours and 60 minutes.
\<close>

definition leap_year :: "int \<Rightarrow> bool" where
  "leap_year y \<longleftrightarrow> y mod 4 = 0 \<and> (y mod 100 \<noteq> 0 \<or> y mod 400 = 0)"

definition days_in :: "nat \<Rightarrow> int \<Rightarrow> nat" where
  "days_in m y =
     (if m = 2 then (if leap_year y then 29 else 28)
      else if m \<in> {4, 6, 9, 11} then 30 else 31)"

definition days_before_year :: "int \<Rightarrow> int" where
  "days_before_year y = 365 * (y - 1) + (y - 1) div 4 - (y - 1) div 100 + (y - 1) div 400"

definition days_before_month :: "nat \<Rightarrow> int \<Rightarrow> int" where
  "days_before_month m y = int (sum_list (map (\<lambda>k. days_in k y) [1..<m]))"

text \<open>Days since 1970-01-01 (719162 days after 0001-01-01).\<close>

definition epoch_day :: "int \<Rightarrow> nat \<Rightarrow> nat \<Rightarrow> int" where
  "epoch_day y m d = days_before_year y + days_before_month m y + int d - 1 - 719162"

text \<open>Readers of a fixed layout: each returns the value and what is left.\<close>

type_synonym 'a reader = "string \<Rightarrow> ('a \<times> string) option"

definition read_byte :: "char \<Rightarrow> unit reader" where
  "read_byte c s = (case s of x # xs \<Rightarrow> if x = c then Some ((), xs) else None | [] \<Rightarrow> None)"

definition read_fixed :: "nat \<Rightarrow> nat reader" where
  "read_fixed n s =
     (if n \<le> length s \<and> list_all is_digit (take n s)
      then Some (nat_of_digits (take n s), drop n s) else None)"

text \<open>\<open>getnum(value, false)\<close>: two digits, or one when the second byte is not a digit.\<close>

definition read_hour :: "nat reader" where
  "read_hour s =
     (if length s \<ge> 2 \<and> list_all is_digit (take 2 s) then read_fixed 2 s else read_fixed 1 s)"

definition read_fraction :: "nat reader" where
  "read_fraction s =
     (case s of
        c # d # r \<Rightarrow>
          if (c = CHR ''.'' \<or> c = CHR '','') \<and> is_digit d
          then (let ds = takeWhile is_digit (d # r); kept = take 9 ds
                in Some (nat_of_digits kept * 10 ^ (9 - length kept), drop (length ds) (d # r)))
          else Some (0, s)
      | _ \<Rightarrow> Some (0, s))"

text \<open>The zone as an offset in seconds east of UTC.\<close>

definition read_zone :: "int reader" where
  "read_zone s =
     (case s of
        [] \<Rightarrow> None
      | c # r \<Rightarrow>
          if c = CHR ''Z'' then Some (0, r)
          else if (c = CHR ''+'' \<or> c = CHR ''-'') \<and> length r \<ge> 5 \<and> r ! 2 = CHR '':''
          then (case (read_fixed 2 r, read_fixed 2 (drop 3 r)) of
                  (Some (hh, _), Some (mm, _)) \<Rightarrow>
                    if hh \<le> 24 \<and> mm \<le> 60
                    then Some ((if c = CHR ''-'' then - 1 else 1) * (int hh * 3600 + int mm * 60), drop 5 r)
                    else None
                | _ \<Rightarrow> None)
          else None)"

definition parse_rfc3339 :: "string \<Rightarrow> int option" where
  "parse_rfc3339 s0 =
     Option.bind (read_fixed 4 s0) (\<lambda>(y, s1).
     Option.bind (read_byte CHR ''-'' s1) (\<lambda>(_, s2).
     Option.bind (read_fixed 2 s2) (\<lambda>(mo, s3).
     Option.bind (read_byte CHR ''-'' s3) (\<lambda>(_, s4).
     Option.bind (read_fixed 2 s4) (\<lambda>(d, s5).
     Option.bind (read_byte CHR ''T'' s5) (\<lambda>(_, s6).
     Option.bind (read_hour s6) (\<lambda>(h, s7).
     Option.bind (read_byte CHR '':'' s7) (\<lambda>(_, s8).
     Option.bind (read_fixed 2 s8) (\<lambda>(mi, s9).
     Option.bind (read_byte CHR '':'' s9) (\<lambda>(_, s10).
     Option.bind (read_fixed 2 s10) (\<lambda>(sec, s11).
     Option.bind (read_fraction s11) (\<lambda>(ns, s12).
     Option.bind (read_zone s12) (\<lambda>(off, rest).
       if rest = [] \<and> 1 \<le> mo \<and> mo \<le> 12 \<and> 1 \<le> d \<and> d \<le> days_in mo (int y) \<and>
          h < 24 \<and> mi < 60 \<and> sec < 60
       then Some ((epoch_day (int y) mo d * 86400 + int h * 3600 + int mi * 60 + int sec - off)
                    * 1000000000 + int ns)
       else None)))))))))))))"

definition time_ok :: "string \<Rightarrow> bool" where
  "time_ok s \<longleftrightarrow> parse_rfc3339 s \<noteq> None"

lemma time_ok_not_Nil: "time_ok s \<Longrightarrow> s \<noteq> []"
  by (auto simp: time_ok_def parse_rfc3339_def read_fixed_def)

text \<open>
  \<open>t.Sub(u)\<close>: the difference of two instants, saturated to the range of \<open>time.Duration\<close>. A failed
  parse leaves the zero time, the first instant of year 1.
\<close>

definition zero_time :: int where
  "zero_time = - 62135596800 * 1000000000"

definition time_sub :: "int \<Rightarrow> int \<Rightarrow> int" where
  "time_sub t u = max min_int64 (min max_int64 (t - u))"


text \<open>
  \<open>d.Seconds()\<close> converted to \<open>int64\<close>: the sum of the whole seconds and the nanoseconds is rounded to
  a 53-bit significand, half to even, and then cut. With \<open>2 ^ 24\<close> seconds or more the rounding can
  reach the next second.
\<close>

fun bit_len :: "nat \<Rightarrow> nat" where
  "bit_len n = (if n = 0 then 0 else Suc (bit_len (n div 2)))"

declare bit_len.simps [simp del]

definition round_even :: "nat \<Rightarrow> nat \<Rightarrow> nat" where
  "round_even n m =
     (let q = n div m; r = n mod m
      in if 2 * r < m \<or> (2 * r = m \<and> even q) then q * m else (q + 1) * m)"

definition seconds_nat :: "nat \<Rightarrow> nat" where
  "seconds_nat d =
     (let sec = d div 1000000000;
          frac = round_even ((d mod 1000000000) * 2 ^ 53) 1000000000 div 1000000000
      in if sec = 0 then 0 else round_even (sec * 2 ^ 53 + frac) (2 ^ bit_len sec) div 2 ^ 53)"

definition seconds_of :: "int \<Rightarrow> int" where
  "seconds_of d = (if d < 0 then - int (seconds_nat (nat (- d))) else int (seconds_nat (nat d)))"

lemma seconds_of_nonneg: "0 \<le> d \<Longrightarrow> 0 \<le> seconds_of d"
  by (simp add: seconds_of_def)

text \<open>\<open>t.UTC().Format(time.RFC3339)\<close>; the day number is turned into a date by counting 400-year cycles.\<close>

definition pad :: "nat \<Rightarrow> int \<Rightarrow> string" where
  "pad w z = (let s = itoa \<bar>z\<bar>; p = replicate (w - length s) CHR ''0'' @ s in if z < 0 then CHR ''-'' # p else p)"

definition civil :: "int \<Rightarrow> int \<times> int \<times> int" where
  "civil days =
     (let z = days + 719468; era = z div 146097; doe = z mod 146097;
          yoe = (doe - doe div 1460 + doe div 36524 - doe div 146096) div 365;
          doy = doe - (365 * yoe + yoe div 4 - yoe div 100);
          mp = (5 * doy + 2) div 153; d = doy - (153 * mp + 2) div 5 + 1;
          m = (if mp < 10 then mp + 3 else mp - 9)
      in (yoe + era * 400 + (if m \<le> 2 then 1 else 0), m, d))"

definition format_rfc3339 :: "int \<Rightarrow> string" where
  "format_rfc3339 t =
     (let secs = t div 1000000000; (y, m, d) = civil (secs div 86400); s = secs mod 86400
      in pad 4 y @ ''-'' @ pad 2 m @ ''-'' @ pad 2 d @ ''T'' @ pad 2 (s div 3600) @ '':'' @
         pad 2 (s div 60 mod 60) @ '':'' @ pad 2 (s mod 60) @ ''Z'')"

text \<open>What \<open>time.Now()\<close> returns: the wall clock and the monotonic reading, both in nanoseconds.\<close>

record Now =
  now_wall :: int
  now_mono :: int

text \<open>\<open>t.Sub(u)\<close> of two readings uses their monotonic parts.\<close>

definition now_sub :: "Now \<Rightarrow> Now \<Rightarrow> int" where
  "now_sub t u = time_sub (now_mono t) (now_mono u)"

end
