(* ===== verification/Recipes.thy ===== *)
theory Recipes
  imports Sha256 GoJson GoTime
begin

text \<open>
  The data of \<open>internal/localrecipes\<close>: a recipe is a complete execution specification, a draft is
  its editable part. Field prefixes stand for the struct a field belongs to. \<open>None\<close> in a slice
  or map field is Go's nil where JSON or the code tells nil from empty; elsewhere nil and empty
  are both \<open>[]\<close>.
\<close>

subsection \<open>Constants\<close>

definition DeepSeekDSparkID :: string where
  "DeepSeekDSparkID = ''deepseek-v4-flash-dspark-2x''"

definition DeepSeekDSparkSource :: string where
  "DeepSeekDSparkSource =
     ''https://github.com/tonyd2wild/DeepSeek-v4-Flash-DSpark-60-tok-s-900K-ctx-2x-DGX-Spark''"

definition DeepSeekDSparkRevision :: string where
  "DeepSeekDSparkRevision = ''51261f419a4a35a02966405ea9774b41735ec412''"

definition DeepSeekV4Flash1MID :: string where
  "DeepSeekV4Flash1MID = ''deepseek-v4-flash-dual-dspark-1m''"

definition DeepSeekV4Flash1MSource :: string where
  "DeepSeekV4Flash1MSource =
     ''https://github.com/MiaAI-Lab/DeepSeek-V4-Flash-Dual-DGX-Spark-1M-Context''"

definition DeepSeekV4Flash1MRevision :: string where
  "DeepSeekV4Flash1MRevision = ''ffa38f9e1bea5c06a6195fca9bff17c04f4785da''"

definition CloudlessModelAlias :: string where
  "CloudlessModelAlias = ''cloudless''"

definition DefaultRuntimePort :: int where
  "DefaultRuntimePort = 8890"

subsection \<open>Structs\<close>

record Command =
  cmd_Program :: string
  cmd_Args :: "string list option"

record Source =
  src_URL :: string
  src_Revision :: string
  src_Files :: "(string, string) gomap"

record Engine =
  eng_Type :: string
  eng_Image :: string
  eng_ServedModelName :: string
  eng_ContainerPort :: int
  eng_APIPath :: string
  eng_ProxyHost :: string
  eng_RestartPolicy :: string
  eng_Arguments :: "string list"
  eng_EntryPoint :: string
  eng_Command :: "string list"

record ModelDependency =
  dep_ID :: string
  dep_Revision :: string
  dep_Role :: string

record Model =
  mdl_ID :: string
  mdl_Revision :: string
  mdl_Quantization :: string
  mdl_DType :: string
  mdl_KVCacheDType :: string
  mdl_MaxContext :: int
  mdl_MaxSequences :: int
  mdl_GPUMemoryUtilization :: float64
  mdl_TensorParallel :: int
  mdl_PipelineParallel :: int
  mdl_TrustRemoteCode :: bool
  mdl_Dependencies :: "ModelDependency list"

record Distributed =
  dst_Nodes :: int
  dst_Backend :: string
  dst_MasterPort :: int
  dst_Interface :: string
  dst_HCA :: string
  dst_IBGIDIndex :: int
  dst_WorkerAlias :: string
  dst_SelectedNodes :: "string list"

record Lifecycle =
  lc_Build :: Command
  lc_Download :: Command
  lc_Start :: Command
  lc_Stop :: Command

record ContainerRuntime =
  ctr_User :: string
  ctr_ReadOnly :: bool
  ctr_IPC :: string
  ctr_ShmSize :: string
  ctr_Ulimits :: "string list"
  ctr_CapAdd :: "string list"
  ctr_CapDrop :: "string list"
  ctr_Tmpfs :: "string list"
  ctr_PidsLimit :: int
  ctr_ModelCachePath :: string
  ctr_Infiniband :: bool

record Runtime =
  rt_Adapter :: string
  rt_ArtifactDigest :: string
  rt_BuildOnce :: bool
  rt_DownloadOnce :: bool
  rt_WorkingDir :: string
  rt_TimeoutMinutes :: int
  rt_Prerequisites :: "string list"
  rt_Environment :: "(string, string) gomap"
  rt_Lifecycle :: Lifecycle
  rt_Container :: ContainerRuntime

record Health =
  hl_Scheme :: string
  hl_Host :: string
  hl_Port :: int
  hl_Path :: string
  hl_TimeoutSeconds :: int
  hl_IntervalSeconds :: int

record legacyPreset =
  lp_ID :: string
  lp_Context :: int

record Draft =
  d_Name :: string
  d_Description :: string
  d_Platform :: string
  d_Source :: Source
  d_Engine :: Engine
  d_Model :: Model
  d_Distributed :: Distributed
  d_Runtime :: Runtime
  d_Health :: Health

record CommunityProvenance =
  cp_RecipeID :: string
  cp_RevisionID :: string
  cp_Slug :: string
  cp_Version :: string
  cp_Digest :: string
  cp_SigningKeyID :: string
  cp_InstalledAt :: string
  cp_Revoked :: bool
  cp_RevokedReason :: string

record CommunityRollback =
  cr_Draft :: Draft
  cr_Provenance :: CommunityProvenance

record Recipe =
  r_ID :: string
  r_Name :: string
  r_Description :: string
  r_Platform :: string
  r_Origin :: string
  r_Trust :: string
  r_ImportedAt :: string
  r_UpdatedAt :: string
  r_TombstonedAt :: string
  r_Source :: Source
  r_Engine :: Engine
  r_Model :: Model
  r_Distributed :: Distributed
  r_Runtime :: Runtime
  r_Health :: Health
  r_SourceURL :: string
  r_Revision :: string
  r_Adapter :: string
  r_ModelID :: string
  r_ModelRevision :: string
  r_Nodes :: int
  r_Files :: "(string, string) gomap option"
  r_DefaultPreset :: string
  r_Presets :: "legacyPreset list"
  r_Community :: "CommunityProvenance option"
  r_CommunityRollback :: "CommunityRollback list"

text \<open>The zero values of the structs.\<close>

definition zero_Command :: Command where
  "zero_Command = \<lparr>cmd_Program = '''', cmd_Args = None\<rparr>"

definition zero_Source :: Source where
  "zero_Source = \<lparr>src_URL = '''', src_Revision = '''', src_Files = []\<rparr>"

definition zero_Container :: ContainerRuntime where
  "zero_Container = \<lparr>ctr_User = '''', ctr_ReadOnly = False, ctr_IPC = '''', ctr_ShmSize = '''',
     ctr_Ulimits = [], ctr_CapAdd = [], ctr_CapDrop = [], ctr_Tmpfs = [], ctr_PidsLimit = 0,
     ctr_ModelCachePath = '''', ctr_Infiniband = False\<rparr>"

definition zero_Lifecycle :: Lifecycle where
  "zero_Lifecycle = \<lparr>lc_Build = zero_Command, lc_Download = zero_Command,
     lc_Start = zero_Command, lc_Stop = zero_Command\<rparr>"

lemmas zero_defs [go_eval] =
  zero_Command_def zero_Source_def zero_Container_def zero_Lifecycle_def

subsection \<open>The canonical JSON of a draft\<close>

definition command_json :: "Command \<Rightarrow> json" where
  "command_json c = JObj (fld ''program'' (JStr (cmd_Program c)) @ fld ''args'' (JSlice (cmd_Args c)))"

definition source_json :: "Source \<Rightarrow> json" where
  "source_json s = JObj (fld ''url'' (JStr (src_URL s)) @ fld ''revision'' (JStr (src_Revision s)) @
     map_omit ''files'' (src_Files s))"

definition engine_json :: "Engine \<Rightarrow> json" where
  "engine_json e = JObj (fld ''type'' (JStr (eng_Type e)) @ fld ''image'' (JStr (eng_Image e)) @
     fld ''servedModelName'' (JStr (eng_ServedModelName e)) @
     fld ''containerPort'' (JInt (eng_ContainerPort e)) @ fld ''apiPath'' (JStr (eng_APIPath e)) @
     fld ''proxyHost'' (JStr (eng_ProxyHost e)) @ fld ''restartPolicy'' (JStr (eng_RestartPolicy e)) @
     strs_omit ''arguments'' (eng_Arguments e) @ str_omit ''entryPoint'' (eng_EntryPoint e) @
     strs_omit ''command'' (eng_Command e))"

definition dependency_json :: "ModelDependency \<Rightarrow> json" where
  "dependency_json p = JObj (fld ''id'' (JStr (dep_ID p)) @ fld ''revision'' (JStr (dep_Revision p)) @
     str_omit ''role'' (dep_Role p))"

text \<open>\<open>None\<close> when \<open>json.Marshal\<close> refuses the float64.\<close>

definition model_json :: "Model \<Rightarrow> json option" where
  "model_json m = map_option (\<lambda>f.
     JObj (fld ''id'' (JStr (mdl_ID m)) @ fld ''revision'' (JStr (mdl_Revision m)) @
       fld ''quantization'' (JStr (mdl_Quantization m)) @ fld ''dtype'' (JStr (mdl_DType m)) @
       fld ''kvCacheDtype'' (JStr (mdl_KVCacheDType m)) @ fld ''maxContext'' (JInt (mdl_MaxContext m)) @
       fld ''maxSequences'' (JInt (mdl_MaxSequences m)) @ fld ''gpuMemoryUtilization'' (JNum f) @
       fld ''tensorParallel'' (JInt (mdl_TensorParallel m)) @
       fld ''pipelineParallel'' (JInt (mdl_PipelineParallel m)) @
       fld ''trustRemoteCode'' (JBool (mdl_TrustRemoteCode m)) @
       opt_fld ''dependencies'' (mdl_Dependencies m = [])
         (JArr (map dependency_json (mdl_Dependencies m)))))
     (f64_text (mdl_GPUMemoryUtilization m))"

definition distributed_json :: "Distributed \<Rightarrow> json" where
  "distributed_json d = JObj (fld ''nodes'' (JInt (dst_Nodes d)) @ fld ''backend'' (JStr (dst_Backend d)) @
     fld ''masterPort'' (JInt (dst_MasterPort d)) @ fld ''interface'' (JStr (dst_Interface d)) @
     fld ''hca'' (JStr (dst_HCA d)) @ fld ''ibGidIndex'' (JInt (dst_IBGIDIndex d)) @
     fld ''workerAlias'' (JStr (dst_WorkerAlias d)) @ strs_omit ''selectedNodes'' (dst_SelectedNodes d))"

definition lifecycle_json :: "Lifecycle \<Rightarrow> json" where
  "lifecycle_json l = JObj (fld ''build'' (command_json (lc_Build l)) @
     fld ''download'' (command_json (lc_Download l)) @ fld ''start'' (command_json (lc_Start l)) @
     fld ''stop'' (command_json (lc_Stop l)))"

definition container_json :: "ContainerRuntime \<Rightarrow> json" where
  "container_json c = JObj (str_omit ''user'' (ctr_User c) @ bool_omit ''readOnly'' (ctr_ReadOnly c) @
     str_omit ''ipc'' (ctr_IPC c) @ str_omit ''shmSize'' (ctr_ShmSize c) @
     strs_omit ''ulimits'' (ctr_Ulimits c) @ strs_omit ''capAdd'' (ctr_CapAdd c) @
     strs_omit ''capDrop'' (ctr_CapDrop c) @ strs_omit ''tmpfs'' (ctr_Tmpfs c) @
     int_omit ''pidsLimit'' (ctr_PidsLimit c) @ str_omit ''modelCachePath'' (ctr_ModelCachePath c) @
     bool_omit ''infiniband'' (ctr_Infiniband c))"

definition runtime_json :: "Runtime \<Rightarrow> json" where
  "runtime_json r = JObj (fld ''adapter'' (JStr (rt_Adapter r)) @
     str_omit ''artifactDigest'' (rt_ArtifactDigest r) @ bool_omit ''buildOnce'' (rt_BuildOnce r) @
     bool_omit ''downloadOnce'' (rt_DownloadOnce r) @ fld ''workingDir'' (JStr (rt_WorkingDir r)) @
     fld ''timeoutMinutes'' (JInt (rt_TimeoutMinutes r)) @
     strs_omit ''prerequisites'' (rt_Prerequisites r) @ map_omit ''environment'' (rt_Environment r) @
     fld ''lifecycle'' (lifecycle_json (rt_Lifecycle r)) @
     fld ''container'' (container_json (rt_Container r)))"

definition health_json :: "Health \<Rightarrow> json" where
  "health_json h = JObj (fld ''scheme'' (JStr (hl_Scheme h)) @ fld ''host'' (JStr (hl_Host h)) @
     fld ''port'' (JInt (hl_Port h)) @ fld ''path'' (JStr (hl_Path h)) @
     fld ''timeoutSeconds'' (JInt (hl_TimeoutSeconds h)) @
     fld ''intervalSeconds'' (JInt (hl_IntervalSeconds h)))"

text \<open>The nine members of a draft, in field order, as JSON texts.\<close>

definition draft_members :: "Draft \<Rightarrow> (string \<times> string) list option" where
  "draft_members d = map_option (\<lambda>m.
     [(''name'', json_text (JStr (d_Name d))), (''description'', json_text (JStr (d_Description d))),
      (''platform'', json_text (JStr (d_Platform d))), (''source'', json_text (source_json (d_Source d))),
      (''engine'', json_text (engine_json (d_Engine d))), (''model'', json_text m),
      (''distributed'', json_text (distributed_json (d_Distributed d))),
      (''runtime'', json_text (runtime_json (d_Runtime d))),
      (''health'', json_text (health_json (d_Health d)))])
     (model_json (d_Model d))"

definition members_text :: "(string \<times> string) list \<Rightarrow> string" where
  "members_text kvs = ''{'' @ join '','' (map (\<lambda>(k, t). quote k @ '':'' @ t) kvs) @ ''}''"

text \<open>\<open>canonicalDraft\<close>: \<open>json.Marshal(draft)\<close>, \<open>None\<close> for an error.\<close>

definition canonicalDraft :: "Draft \<Rightarrow> string option" where
  "canonicalDraft d = map_option members_text (draft_members d)"

end
