(* ===== verification/RecipeProfiles.thy ===== *)
theory RecipeProfiles
  imports Recipes
begin

text \<open>
  The draft profiles, the compatibility fields, the in-place migration \<open>normalize\<close> and the recipe
  identity of \<open>internal/localrecipes/store.go\<close>, with the exact-profile review of
  \<open>internal/localrecipes/review.go\<close>.
\<close>

subsection \<open>Built-in profiles\<close>

definition command :: "string \<Rightarrow> string list \<Rightarrow> Command" where
  "command program args = \<lparr>cmd_Program = program, cmd_Args = (if args = [] then None else Some args)\<rparr>"

definition deepSeekCanonicalFiles :: "(string, string) gomap" where
  "deepSeekCanonicalFiles =
    [(''build-dspark-vllm-runtime.sh'', ''f563d82aaea11d48999fe485f12614cc54d8cac49bcaba4fe80b81596f7eb72e''),
     (''prepare-dspark-model-cache.sh'', ''a75249711a9900f10eb5d148e5ecdbcb53ea879841a8d6944ea2b27238d0183e''),
     (''start-deepseek-v4-flash-dspark.sh'', ''5de0da3c5f5151a80465bc823e8f6b5908d65070e36652ea282ceaeff6c460a6''),
     (''stop-deepseek-v4-flash-dspark.sh'', ''b8b252e129c22ca7984fae71d2efdf92f2a23a76009ab1f9ba3d6276e940b1aa''),
     (''docker-compose.dspark.yml'', ''9c3e6cf6fd9895fd304bad2357f9c03a486b97da6d1c73b4237487e9fe56da79'')]"

definition deepSeekV4Flash1MFiles :: "(string, string) gomap" where
  "deepSeekV4Flash1MFiles =
    [(''docker-compose.yml'', ''9b660f696c86ffbf59ce0a139568545977819ff218f6f5356cb8b536f851ce87''),
     (''start-deepseek-v4-flash.sh'', ''a6a279947a6714a7775eadb8764b4340e0765f29f679255544b912ab28eb397e''),
     (''stop-deepseek-v4-flash.sh'', ''efcd7350cec2d27d9d98f0ad541678ec2bd009e97935f95b72e8bb38dd096ee0''),
     (''.env.example'', ''8d0a0346e3d87aed2c1c0d670958bd51ecdc3a89135b0e8032aa574f6888598f'')]"

definition deepSeekWindowsCheckoutFiles :: "(string, string) gomap" where
  "deepSeekWindowsCheckoutFiles =
    [(''build-dspark-vllm-runtime.sh'', ''82d6c7e386ba16c59590a95a1e37d0f63e980bc6f6ccb6772cdcda96b9fb95f4''),
     (''prepare-dspark-model-cache.sh'', ''0c5da4efdd8a9196985ac7cef833f57123021200e773e2ee7374747bf5ec2f16''),
     (''start-deepseek-v4-flash-dspark.sh'', ''32790858c9d1fb6914ef5e8b0ba0f5219cf4aae1dd30eb8dfc094027088c8fef''),
     (''stop-deepseek-v4-flash-dspark.sh'', ''fb14350f96652063abad44a3791e2bb84fa20101083ba8c302d0a6b91850ee0a''),
     (''docker-compose.dspark.yml'', ''06865a3e0e1392bb2e3ccd5200fa9389df19d6ef411b012175f44fb0a1fce9ba'')]"

text \<open>A missing key reads as the zero value, the empty string.\<close>

definition get_str :: "(string, string) gomap \<Rightarrow> string \<Rightarrow> string" where
  "get_str m k = (case lookup m k of None \<Rightarrow> '''' | Some v \<Rightarrow> v)"

definition sameFiles :: "(string, string) gomap \<Rightarrow> (string, string) gomap \<Rightarrow> bool" where
  "sameFiles left right \<longleftrightarrow>
     length left = length right \<and> list_all (\<lambda>(name, sum). get_str right name = sum) left"

definition NewDraft :: Draft where
  "NewDraft = \<lparr>d_Name = ''My inference recipe'', d_Description = ''A repeatable local inference setup.'',
     d_Platform = ''dgx-spark'', d_Source = zero_Source,
     d_Engine = \<lparr>eng_Type = ''vllm'', eng_Image = ''cloudless/dspark-vllm:latest'',
       eng_ServedModelName = CloudlessModelAlias, eng_ContainerPort = DefaultRuntimePort,
       eng_APIPath = ''/v1'', eng_ProxyHost = ''host.docker.internal'', eng_RestartPolicy = ''no'',
       eng_Arguments = [], eng_EntryPoint = '''', eng_Command = []\<rparr>,
     d_Model = \<lparr>mdl_ID = ''deepseek-ai/DeepSeek-V4-Flash-DSpark'', mdl_Revision = ''main'',
       mdl_Quantization = ''none'', mdl_DType = ''auto'', mdl_KVCacheDType = ''auto'',
       mdl_MaxContext = 131072, mdl_MaxSequences = 1, mdl_GPUMemoryUtilization = Dec 80 2,
       mdl_TensorParallel = 2, mdl_PipelineParallel = 1, mdl_TrustRemoteCode = False,
       mdl_Dependencies = []\<rparr>,
     d_Distributed = \<lparr>dst_Nodes = 2, dst_Backend = ''nccl'', dst_MasterPort = 25000,
       dst_Interface = ''auto'', dst_HCA = ''auto'', dst_IBGIDIndex = 0,
       dst_WorkerAlias = ''cloudless-recipe-worker'', dst_SelectedNodes = []\<rparr>,
     d_Runtime = \<lparr>rt_Adapter = ''source-scripts-v1'', rt_ArtifactDigest = '''', rt_BuildOnce = False,
       rt_DownloadOnce = False, rt_WorkingDir = ''.'', rt_TimeoutMinutes = 480,
       rt_Prerequisites = [''git'', ''bash'', ''docker'', ''ssh'', ''scp'', ''rsync''],
       rt_Environment = [(''HF_HUB_DISABLE_XET'', ''1''), (''HF_CACHE'', ''/var/lib/cloudless/models-cache'')],
       rt_Lifecycle = \<lparr>lc_Build = command ''bash'' [''./build-dspark-vllm-runtime.sh''],
         lc_Download = command ''bash'' [''./prepare-dspark-model-cache.sh''],
         lc_Start = command ''bash'' [''./start-deepseek-v4-flash-dspark.sh''],
         lc_Stop = command ''bash'' [''./stop-deepseek-v4-flash-dspark.sh'']\<rparr>,
       rt_Container = zero_Container\<rparr>,
     d_Health = \<lparr>hl_Scheme = ''http'', hl_Host = ''127.0.0.1'', hl_Port = DefaultRuntimePort,
       hl_Path = ''/health'', hl_TimeoutSeconds = 180, hl_IntervalSeconds = 3\<rparr>\<rparr>"

definition ManagedContainerAdapter :: string where
  "ManagedContainerAdapter = ''managed-container-v1''"

definition AdvancedContainerAdapter :: string where
  "AdvancedContainerAdapter = ''advanced-container-v1''"

definition NewManagedDraft :: Draft where
  "NewManagedDraft = \<lparr>d_Name = ''My inference recipe'',
     d_Description = ''A repeatable, Cloudless-managed inference setup.'', d_Platform = ''generic'',
     d_Source = zero_Source,
     d_Engine = \<lparr>eng_Type = ''vllm'', eng_Image = '''', eng_ServedModelName = CloudlessModelAlias,
       eng_ContainerPort = DefaultRuntimePort, eng_APIPath = ''/v1'',
       eng_ProxyHost = ''host.docker.internal'', eng_RestartPolicy = ''no'',
       eng_Arguments = [], eng_EntryPoint = '''', eng_Command = []\<rparr>,
     d_Model = \<lparr>mdl_ID = '''', mdl_Revision = '''', mdl_Quantization = ''none'', mdl_DType = ''auto'',
       mdl_KVCacheDType = ''auto'', mdl_MaxContext = 32768, mdl_MaxSequences = 1,
       mdl_GPUMemoryUtilization = Dec 8 1, mdl_TensorParallel = 1, mdl_PipelineParallel = 1,
       mdl_TrustRemoteCode = False, mdl_Dependencies = []\<rparr>,
     d_Distributed = \<lparr>dst_Nodes = 1, dst_Backend = ''nccl'', dst_MasterPort = 25000,
       dst_Interface = '''', dst_HCA = '''', dst_IBGIDIndex = 0,
       dst_WorkerAlias = ''cloudless-recipe-worker'', dst_SelectedNodes = []\<rparr>,
     d_Runtime = \<lparr>rt_Adapter = ManagedContainerAdapter, rt_ArtifactDigest = '''', rt_BuildOnce = False,
       rt_DownloadOnce = False, rt_WorkingDir = ''.'', rt_TimeoutMinutes = 480,
       rt_Prerequisites = [], rt_Environment = [(''HF_HUB_DISABLE_XET'', ''1'')],
       rt_Lifecycle = zero_Lifecycle, rt_Container = zero_Container\<rparr>,
     d_Health = \<lparr>hl_Scheme = ''http'', hl_Host = ''127.0.0.1'', hl_Port = DefaultRuntimePort,
       hl_Path = ''/health'', hl_TimeoutSeconds = 7200, hl_IntervalSeconds = 3\<rparr>\<rparr>"

definition deepSeekDraft :: Draft where
  "deepSeekDraft = NewDraft\<lparr>
     d_Name := ''DeepSeek V4 Flash DSpark'',
     d_Description := ''A two-DGX-Spark vLLM runtime using tensor parallelism, FP8 KV cache, and DSpark speculative decoding.'',
     d_Source := \<lparr>src_URL = DeepSeekDSparkSource, src_Revision = DeepSeekDSparkRevision,
       src_Files = deepSeekCanonicalFiles\<rparr>,
     d_Engine := (d_Engine NewDraft)\<lparr>
       eng_Image := ''cloudless/dspark-vllm:'' @ take 12 DeepSeekDSparkRevision,
       eng_ServedModelName := ''deepseek-v4-flash-dspark''\<rparr>,
     d_Model := (d_Model NewDraft)\<lparr>
       mdl_ID := ''deepseek-ai/DeepSeek-V4-Flash-DSpark'',
       mdl_Revision := ''62af8fffb2f7030cac4de2f0169f5b8d1101b646'',
       mdl_KVCacheDType := ''fp8'', mdl_MaxContext := 262144\<rparr>,
     d_Runtime := (d_Runtime NewDraft)\<lparr>
       rt_Environment := put ''GPU_MEMORY_UTILIZATION'' ''0.80'' (rt_Environment (d_Runtime NewDraft)),
       rt_BuildOnce := True, rt_DownloadOnce := True\<rparr>\<rparr>"

definition middle_dot :: string where
  "middle_dot = [CHR 0xC2, CHR 0xB7]"

definition deepSeekV4Flash1MDraft :: Draft where
  "deepSeekV4Flash1MDraft = NewDraft\<lparr>
     d_Name := ''DeepSeek V4 Flash '' @ middle_dot @ '' Dual Spark '' @ middle_dot @ '' 1M'',
     d_Description := ''The reviewed MiaAI-Lab two-DGX-Spark vLLM recipe for DeepSeek V4 Flash with a one-million-token context window.'',
     d_Source := \<lparr>src_URL = DeepSeekV4Flash1MSource, src_Revision = DeepSeekV4Flash1MRevision,
       src_Files = deepSeekV4Flash1MFiles\<rparr>,
     d_Engine := (d_Engine NewDraft)\<lparr>eng_Image := ''aidendle94/sparkrun-vllm-ds4-gb10:production-ready''\<rparr>,
     d_Model := (d_Model NewDraft)\<lparr>
       mdl_ID := ''deepseek-ai/DeepSeek-V4-Flash'',
       mdl_Revision := ''60d8d70770c6776ff598c94bb586a859a38244f1'',
       mdl_KVCacheDType := ''fp8'', mdl_MaxContext := 1000000, mdl_MaxSequences := 6,
       mdl_GPUMemoryUtilization := Dec 83 2, mdl_TrustRemoteCode := True\<rparr>,
     d_Runtime := (d_Runtime NewDraft)\<lparr>
       rt_BuildOnce := False, rt_DownloadOnce := True,
       rt_Lifecycle := \<lparr>lc_Build = zero_Command,
         lc_Download = command ''bash'' [''./prepare-deepseek-v4-flash-model.sh''],
         lc_Start = command ''bash'' [''./start-deepseek-v4-flash.sh''],
         lc_Stop = command ''bash'' [''./stop-deepseek-v4-flash.sh'']\<rparr>,
       rt_Environment := put ''VLLM_ALLOW_LONG_MAX_MODEL_LEN'' ''1'' (rt_Environment (d_Runtime NewDraft))\<rparr>,
     d_Health := (d_Health NewDraft)\<lparr>hl_TimeoutSeconds := 7200\<rparr>\<rparr>"

subsection \<open>Drafts and recipes\<close>

text \<open>The source's file map is never nil when it holds a file, and nil and empty read alike.\<close>

definition files_opt :: "(string, string) gomap \<Rightarrow> (string, string) gomap option" where
  "files_opt m = (if m = [] then None else Some m)"

definition syncCompatibility :: "Recipe \<Rightarrow> Recipe" where
  "syncCompatibility r = r\<lparr>
     r_SourceURL := src_URL (r_Source r), r_Revision := src_Revision (r_Source r),
     r_Files := files_opt (src_Files (r_Source r)),
     r_Adapter := rt_Adapter (r_Runtime r), r_ModelID := mdl_ID (r_Model r),
     r_ModelRevision := mdl_Revision (r_Model r), r_Nodes := dst_Nodes (r_Distributed r)\<rparr>"

definition recipeFromDraft :: "string \<Rightarrow> string \<Rightarrow> string \<Rightarrow> string \<Rightarrow> Draft \<Rightarrow> Recipe" where
  "recipeFromDraft id0 origin trust now d = syncCompatibility
     \<lparr>r_ID = id0, r_Name = d_Name d, r_Description = d_Description d, r_Platform = d_Platform d,
      r_Origin = origin, r_Trust = trust, r_ImportedAt = now, r_UpdatedAt = now, r_TombstonedAt = '''',
      r_Source = d_Source d, r_Engine = d_Engine d, r_Model = d_Model d,
      r_Distributed = d_Distributed d, r_Runtime = d_Runtime d, r_Health = d_Health d,
      r_SourceURL = '''', r_Revision = '''', r_Adapter = '''', r_ModelID = '''', r_ModelRevision = '''',
      r_Nodes = 0, r_Files = None, r_DefaultPreset = '''', r_Presets = [], r_Community = None,
      r_CommunityRollback = []\<rparr>"

definition DraftFromSnapshot :: "Recipe \<Rightarrow> Draft" where
  "DraftFromSnapshot r = \<lparr>d_Name = r_Name r, d_Description = r_Description r, d_Platform = r_Platform r,
     d_Source = r_Source r, d_Engine = r_Engine r, d_Model = r_Model r,
     d_Distributed = r_Distributed r, d_Runtime = r_Runtime r, d_Health = r_Health r\<rparr>"

subsection \<open>Migration\<close>

text \<open>
  \<open>normalize\<close> in the order of its statements: the version-1 document, the fingerprints of the
  Windows checkout, the coordinator-once contract, the MiaAI-Lab profile, and the defaults with the
  two fields Cloudless owns. \<open>now\<close> is the clock reading \<open>time.Now().UTC().Format(time.RFC3339)\<close>.
\<close>

definition preset_context :: "string \<Rightarrow> legacyPreset list \<Rightarrow> int \<Rightarrow> int" where
  "preset_context selected presets context =
     foldl (\<lambda>c p. if lp_ID p = selected \<and> 0 < lp_Context p then lp_Context p else c) context presets"

definition legacy_draft :: "Recipe \<Rightarrow> Draft" where
  "legacy_draft r =
     (let d = deepSeekDraft; s = d_Source d; m = d_Model d; n = d_Distributed d;
          selected = (if r_DefaultPreset r = '''' then ''balanced'' else r_DefaultPreset r)
      in d\<lparr>d_Name := (if r_Name r \<noteq> '''' then r_Name r else d_Name d),
           d_Description := (if r_Description r \<noteq> '''' then r_Description r else d_Description d),
           d_Platform := (if r_Platform r \<noteq> '''' then r_Platform r else d_Platform d),
           d_Source := s\<lparr>src_URL := (if r_SourceURL r \<noteq> '''' then r_SourceURL r else src_URL s),
             src_Revision := (if r_Revision r \<noteq> '''' then r_Revision r else src_Revision s),
             src_Files := (case r_Files r of None \<Rightarrow> src_Files s | Some fs \<Rightarrow> fs)\<rparr>,
           d_Model := m\<lparr>mdl_ID := (if r_ModelID r \<noteq> '''' then r_ModelID r else mdl_ID m),
             mdl_Revision := (if r_ModelRevision r \<noteq> '''' then r_ModelRevision r else mdl_Revision m),
             mdl_TensorParallel := (if 0 < r_Nodes r then r_Nodes r else mdl_TensorParallel m),
             mdl_MaxContext := preset_context selected (r_Presets r) (mdl_MaxContext m)\<rparr>,
           d_Distributed := n\<lparr>dst_Nodes := (if 0 < r_Nodes r then r_Nodes r else dst_Nodes n)\<rparr>\<rparr>)"

definition normalize_legacy :: "Recipe \<Rightarrow> Recipe" where
  "normalize_legacy r =
     (if eng_Type (r_Engine r) = ''''
      then (recipeFromDraft (r_ID r) (r_Origin r) (r_Trust r) (r_ImportedAt r) (legacy_draft r))
             \<lparr>r_UpdatedAt := r_UpdatedAt r, r_TombstonedAt := r_TombstonedAt r\<rparr>
      else r)"

definition is_dspark :: "Recipe \<Rightarrow> bool" where
  "is_dspark r \<longleftrightarrow> src_URL (r_Source r) = DeepSeekDSparkSource \<and>
     src_Revision (r_Source r) = DeepSeekDSparkRevision"

definition normalize_fingerprints :: "Recipe \<Rightarrow> Recipe" where
  "normalize_fingerprints r =
     (if is_dspark r \<and> sameFiles (src_Files (r_Source r)) deepSeekWindowsCheckoutFiles
      then r\<lparr>r_Source := (r_Source r)\<lparr>src_Files := deepSeekCanonicalFiles\<rparr>\<rparr>
      else r)"

definition legacy_port :: "int \<Rightarrow> int" where
  "legacy_port p = (if p = 8888 then DefaultRuntimePort else p)"

definition normalize_dspark :: "Recipe \<Rightarrow> Recipe" where
  "normalize_dspark r =
     (if is_dspark r
      then r\<lparr>r_Runtime := (r_Runtime r)\<lparr>rt_BuildOnce := True, rt_DownloadOnce := True\<rparr>,
             r_Engine := (r_Engine r)\<lparr>eng_ContainerPort := legacy_port (eng_ContainerPort (r_Engine r))\<rparr>,
             r_Health := (r_Health r)\<lparr>hl_Port := legacy_port (hl_Port (r_Health r))\<rparr>\<rparr>
      else r)"

definition normalize_1m :: "Recipe \<Rightarrow> Recipe" where
  "normalize_1m r =
     (if src_URL (r_Source r) = DeepSeekV4Flash1MSource \<and>
         src_Revision (r_Source r) = DeepSeekV4Flash1MRevision
      then (let rt = r_Runtime r; env = rt_Environment rt;
                env' = (if r_ID r = DeepSeekV4Flash1MID \<and> r_Origin r = ''github'' \<and>
                           r_Trust r = ''reviewed-import'' \<and> get_str env ''HF_CACHE'' = ''cloudless-hf''
                        then put ''HF_CACHE'' ''/var/lib/cloudless/models-cache'' env else env)
            in r\<lparr>r_Runtime := rt\<lparr>rt_Environment := env', rt_DownloadOnce := True,
                   rt_Lifecycle := (rt_Lifecycle rt)
                     \<lparr>lc_Download := command ''bash'' [''./prepare-deepseek-v4-flash-model.sh'']\<rparr>\<rparr>,
                 r_Health := (r_Health r)\<lparr>hl_TimeoutSeconds := 7200\<rparr>\<rparr>)
      else r)"

definition normalize_defaults :: "string \<Rightarrow> Recipe \<Rightarrow> Recipe" where
  "normalize_defaults now r =
     (let imported = (if r_ImportedAt r = '''' then now else r_ImportedAt r); e = r_Engine r
      in r\<lparr>r_Origin := (if r_Origin r = '''' then ''local'' else r_Origin r),
           r_Trust := (if r_Trust r = '''' then ''local-custom'' else r_Trust r),
           r_ImportedAt := imported,
           r_UpdatedAt := (if r_UpdatedAt r = '''' then imported else r_UpdatedAt r),
           r_Engine := e\<lparr>
             eng_ProxyHost := (if eng_ProxyHost e = '''' then ''host.docker.internal'' else eng_ProxyHost e),
             eng_APIPath := (if trim_space (eng_APIPath e) = '''' then ''/v1'' else eng_APIPath e),
             eng_ServedModelName := CloudlessModelAlias,
             eng_RestartPolicy := ''no''\<rparr>\<rparr>)"

definition normalize :: "string \<Rightarrow> Recipe \<Rightarrow> Recipe" where
  "normalize now r = syncCompatibility (normalize_defaults now (normalize_1m
     (normalize_dspark (normalize_fingerprints (normalize_legacy r)))))"

lemmas normalize_steps =
  normalize_def normalize_defaults_def normalize_1m_def normalize_dspark_def
  normalize_fingerprints_def normalize_legacy_def syncCompatibility_def Let_def

text \<open>
  Marshalling a recipe and decoding the result gives the recipe back, but for an empty top-level
  file map, which \<open>omitempty\<close> leaves out and decoding makes nil.
\<close>

definition detach_recipe :: "Recipe \<Rightarrow> Recipe" where
  "detach_recipe r = r\<lparr>r_Files := Option.bind (r_Files r) files_opt\<rparr>"

text \<open>\<open>json.Marshal(recipe)\<close> fails exactly when a float64 in the recipe or its rollbacks does.\<close>

definition recipe_marshals :: "Recipe \<Rightarrow> bool" where
  "recipe_marshals r \<longleftrightarrow>
     model_json (r_Model r) \<noteq> None \<and>
     list_all (\<lambda>b. model_json (d_Model (cr_Draft b)) \<noteq> None) (r_CommunityRollback r)"

definition DraftFromRecipe :: "string \<Rightarrow> Recipe \<Rightarrow> Draft" where
  "DraftFromRecipe now r =
     DraftFromSnapshot (normalize now (if recipe_marshals r then detach_recipe r else r))"

subsection \<open>Exact reviewed profiles\<close>

record Review =
  rv_RecipeID :: string
  rv_Profile :: string
  rv_MetadataDigest :: string
  rv_Signer :: string
  rv_KeyFingerprint :: string

definition CloudlessArchiveFingerprint :: string where
  "CloudlessArchiveFingerprint = ''745BF7A97F64EB716DAF7677974145C2D867C99E''"

definition reviewed_draft :: "string \<Rightarrow> (string \<times> Draft) option" where
  "reviewed_draft rid =
     (if rid = DeepSeekDSparkID then Some (''deepseek-v4-flash-dspark-2x'', deepSeekDraft)
      else if rid = DeepSeekV4Flash1MID
      then Some (''deepseek-v4-flash-dual-dspark-1m'', deepSeekV4Flash1MDraft)
      else None)"

text \<open>\<open>now1\<close> and \<open>now2\<close> are the clock readings of the two normalizations.\<close>

definition ReviewedProfile :: "string \<Rightarrow> string \<Rightarrow> Recipe \<Rightarrow> Review option" where
  "ReviewedProfile now1 now2 r =
     (if r_Origin r \<noteq> ''github'' \<or> r_Trust r \<noteq> ''reviewed-import'' then None
      else case reviewed_draft (r_ID r) of
        None \<Rightarrow> None
      | Some (profile, expected) \<Rightarrow>
          (let expectedRecipe = recipeFromDraft (r_ID r) ''github'' ''reviewed-import'' (r_ImportedAt r) expected
           in case canonicalDraft (DraftFromRecipe now1 expectedRecipe) of
                None \<Rightarrow> None
              | Some want \<Rightarrow>
                  (case canonicalDraft (DraftFromRecipe now2 r) of
                     None \<Rightarrow> None
                   | Some got \<Rightarrow>
                       if got \<noteq> want then None
                       else Some \<lparr>rv_RecipeID = r_ID r, rv_Profile = profile,
                                  rv_MetadataDigest = sha256_id want,
                                  rv_Signer = ''CloudlessOS signed package'',
                                  rv_KeyFingerprint = CloudlessArchiveFingerprint\<rparr>)))"

definition ReviewInventory :: "string \<Rightarrow> Review list" where
  "ReviewInventory now =
     List.map_filter (ReviewedProfile now now)
       [recipeFromDraft DeepSeekDSparkID ''github'' ''reviewed-import'' '''' deepSeekDraft,
        recipeFromDraft DeepSeekV4Flash1MID ''github'' ''reviewed-import'' '''' deepSeekV4Flash1MDraft]"


subsection \<open>Copies and clock readings\<close>

lemma DraftFromRecipe_now: "DraftFromRecipe now r = DraftFromRecipe now' r"
  by (simp add: DraftFromRecipe_def normalize_def normalize_defaults_def DraftFromSnapshot_def
      syncCompatibility_def Let_def)

lemma detach_idem [simp]: "detach_recipe (detach_recipe r) = detach_recipe r"
  by (cases "r_Files r") (simp_all add: detach_recipe_def files_opt_def)

lemma marshals_detach [simp]: "recipe_marshals (detach_recipe r) = recipe_marshals r"
  by (simp add: recipe_marshals_def detach_recipe_def)

lemma detach_ID [simp]: "r_ID (detach_recipe r) = r_ID r"
  by (simp add: detach_recipe_def)


end
