(* ===== verification/RecipeOps.thy ===== *)
theory RecipeOps
  imports RecipeProfiles
begin

text \<open>
  The lifecycle records of \<open>internal/recipeops/operation.go\<close>: kinds, phases and their transition
  table, owned resources, preflight evidence, and the validity of a persisted operation. A Go
  string type with named constants is a datatype with one constructor per constant and a last one
  for any other string. \<open>Sequence\<close> is a \<open>uint64\<close>, a 64-bit word.
\<close>

type_synonym u64 = "64 word"

subsection \<open>Kinds, phases and transitions\<close>

datatype Kind = KindCheck | KindRun | KindStop | OtherKind string

datatype Phase =
    NoPhase
  | PhaseChecking
  | PhasePreparing
  | PhasePrepared
  | PhaseSwitching
  | PhaseStarting
  | PhaseVerifying
  | PhaseActive
  | PhaseStopping
  | PhaseStopped
  | PhaseFailed
  | PhaseAborted
  | PhaseRecovering
  | OtherPhase string

text \<open>\<open>NoPhase\<close> is the empty string. \<open>None\<close>: the phase is not a key of the table.\<close>

fun transitions :: "Phase \<Rightarrow> Phase list option" where
  "transitions NoPhase = Some [PhaseChecking, PhasePreparing, PhaseStopping, PhaseRecovering]"
| "transitions PhaseChecking = Some [PhasePrepared, PhaseFailed, PhaseAborted, PhaseRecovering]"
| "transitions PhasePreparing =
     Some [PhasePrepared, PhaseStopping, PhaseFailed, PhaseAborted, PhaseRecovering]"
| "transitions PhasePrepared =
     Some [PhaseSwitching, PhaseStopping, PhaseFailed, PhaseAborted, PhaseRecovering]"
| "transitions PhaseSwitching =
     Some [PhaseStarting, PhaseStopping, PhaseFailed, PhaseAborted, PhaseRecovering]"
| "transitions PhaseStarting =
     Some [PhaseVerifying, PhaseStopping, PhaseFailed, PhaseAborted, PhaseRecovering]"
| "transitions PhaseVerifying =
     Some [PhaseActive, PhaseStopping, PhaseFailed, PhaseAborted, PhaseRecovering]"
| "transitions PhaseActive = Some [PhaseStopping, PhaseRecovering]"
| "transitions PhaseStopping = Some [PhaseStopped, PhaseFailed, PhaseAborted, PhaseRecovering]"
| "transitions PhaseRecovering =
     Some [PhaseChecking, PhasePreparing, PhasePrepared, PhaseSwitching, PhaseStarting,
           PhaseVerifying, PhaseActive, PhaseStopping, PhaseStopped, PhaseFailed, PhaseAborted]"
| "transitions PhaseStopped = Some [PhaseRecovering]"
| "transitions PhaseFailed = Some [PhaseRecovering]"
| "transitions PhaseAborted = Some [PhaseRecovering]"
| "transitions (OtherPhase s) = None"

definition successors :: "Phase \<Rightarrow> Phase list" where
  "successors p = (case transitions p of None \<Rightarrow> [] | Some ps \<Rightarrow> ps)"

definition ValidTransition :: "Phase \<Rightarrow> Phase \<Rightarrow> bool" where
  "ValidTransition frm to \<longleftrightarrow> (frm = to \<and> frm \<noteq> NoPhase) \<or> to \<in> set (successors frm)"

definition validKind :: "Kind \<Rightarrow> bool" where
  "validKind k \<longleftrightarrow> k = KindCheck \<or> k = KindRun \<or> k = KindStop"

fun initialPhase :: "Kind \<Rightarrow> Phase" where
  "initialPhase KindCheck = PhaseChecking"
| "initialPhase KindRun = PhasePreparing"
| "initialPhase KindStop = PhaseStopping"
| "initialPhase (OtherKind s) = NoPhase"

text \<open>The phases of the table: its keys, then every destination.\<close>

definition table_phases :: "Phase list" where
  "table_phases =
     [NoPhase, PhaseChecking, PhasePreparing, PhasePrepared, PhaseSwitching, PhaseStarting,
      PhaseVerifying, PhaseActive, PhaseStopping, PhaseRecovering, PhaseStopped, PhaseFailed,
      PhaseAborted]"

definition validPhase :: "Phase \<Rightarrow> bool" where
  "validPhase p \<longleftrightarrow> transitions p \<noteq> None \<or> list_ex (\<lambda>q. p \<in> set (successors q)) table_phases"

subsection \<open>Resources\<close>

record Resource =
  res_Kind :: string
  res_ID :: string
  res_Node :: string
  res_Locator :: string

definition cleanup_kinds :: "string list" where
  "cleanup_kinds =
     [''container'', ''container-set'', ''compose-project'', ''private-port'', ''stable-port'',
      ''rendezvous-port'', ''process-set'', ''staging-checkout'']"

definition RequiresCleanup :: "Resource \<Rightarrow> bool" where
  "RequiresCleanup r \<longleftrightarrow> res_Kind r \<in> set cleanup_kinds"

text \<open>The order \<open>sortResources\<close> sorts by: node, kind, id, locator.\<close>

definition resource_rank :: "Resource \<Rightarrow> string \<times> string \<times> string \<times> string" where
  "resource_rank r = (res_Node r, res_Kind r, res_ID r, res_Locator r)"

definition sortResources :: "Resource list \<Rightarrow> Resource list" where
  "sortResources rs = sort_key resource_rank rs"

subsection \<open>Checks, progress, checkpoints\<close>

datatype CheckStatus = CheckPass | CheckFail | CheckWarning | CheckUnknown | OtherStatus string

fun status_text :: "CheckStatus \<Rightarrow> string" where
  "status_text CheckPass = ''pass''"
| "status_text CheckFail = ''fail''"
| "status_text CheckWarning = ''warning''"
| "status_text CheckUnknown = ''unknown''"
| "status_text (OtherStatus s) = s"

definition validCheckStatus :: "CheckStatus \<Rightarrow> bool" where
  "validCheckStatus s \<longleftrightarrow> s = CheckPass \<or> s = CheckFail \<or> s = CheckWarning \<or> s = CheckUnknown"

record CheckResult =
  ck_ID :: string
  ck_Status :: CheckStatus
  ck_Summary :: string
  ck_Detail :: string
  ck_ObservedAt :: string
  ck_Values :: "(string, string) gomap"

record ProgressComponent =
  pc_Name :: string
  pc_Status :: string
  pc_BytesDone :: int
  pc_BytesTotal :: int
  pc_BytesPerSecond :: int
  pc_ETASeconds :: int

record Progress =
  pg_Stage :: string
  pg_Message :: string
  pg_OverallPercent :: int
  pg_PhasePercent :: int
  pg_Completed :: int
  pg_Total :: int
  pg_BytesDone :: int
  pg_BytesTotal :: int
  pg_ElapsedSeconds :: int
  pg_ETASeconds :: int
  pg_BytesPerSecond :: int
  pg_StalledSeconds :: int
  pg_Components :: "ProgressComponent list"
  pg_UpdatedAt :: string

record Checkpoint =
  cpt_Phase :: Phase
  cpt_Sequence :: u64
  cpt_ObservedAt :: string

record PreviousRuntime =
  pr_Engine :: string
  pr_Model :: string
  pr_EngineUnloaded :: bool
  pr_ExecutionMode :: string
  pr_LocalRecipeID :: string

record PreflightArtifact =
  pf_RecipeID :: string
  pf_RecipeRevision :: string
  pf_SourceRevision :: string
  pf_ImageDigest :: string
  pf_PlatformFingerprint :: string
  pf_ClusterFingerprint :: string
  pf_Runnable :: bool
  pf_Launchable :: bool
  pf_CreatedAt :: string
  pf_Checks :: "CheckResult list"
  pf_EvidenceHash :: string

record Operation =
  o_ID :: string
  o_Kind :: Kind
  o_RecipeID :: string
  o_RecipeRevision :: string
  o_RecipeSnapshot :: Recipe
  o_ResolvedSourceRevision :: string
  o_PreparedImageReference :: string
  o_PreparedImageDigest :: string
  o_Phase :: Phase
  o_Sequence :: u64
  o_CreatedAt :: string
  o_UpdatedAt :: string
  o_Error :: string
  o_Resources :: "Resource list"
  o_Checks :: "CheckResult list"
  o_Preflight :: "PreflightArtifact option"
  o_Progress :: "Progress option"
  o_Checkpoints :: "Checkpoint list"
  o_PreviousRuntime :: "PreviousRuntime option"

definition final_phase :: "Phase \<Rightarrow> bool" where
  "final_phase p \<longleftrightarrow> p = PhaseStopped \<or> p = PhaseFailed \<or> p = PhaseAborted"

definition Terminal :: "Operation \<Rightarrow> bool" where
  "Terminal o' \<longleftrightarrow> (o_Kind o' = KindCheck \<and> o_Phase o' = PhasePrepared) \<or>
     o_Phase o' \<in> {PhaseActive, PhaseStopped, PhaseFailed, PhaseAborted}"

definition owns_runtime :: "Operation \<Rightarrow> bool" where
  "owns_runtime o' \<longleftrightarrow> list_ex RequiresCleanup (o_Resources o')"

definition NeedsRecovery :: "Operation \<Rightarrow> bool" where
  "NeedsRecovery o' =
     (if owns_runtime o' then True
      else if o_Kind o' = KindCheck \<and> o_Phase o' = PhasePrepared then False
      else \<not> final_phase (o_Phase o'))"

definition operationBlocksAdmission :: "Operation \<Rightarrow> Kind \<Rightarrow> bool" where
  "operationBlocksAdmission e incoming =
     (if o_Kind e = KindRun \<and> o_Phase e = PhaseActive \<and> incoming = KindStop then False
      else if owns_runtime e then True
      else if final_phase (o_Phase e) then False
      else if o_Kind e = KindCheck \<and> o_Phase e = PhasePrepared then False
      else True)"

definition operationBlocksMutation :: "Operation \<Rightarrow> bool" where
  "operationBlocksMutation o' =
     (if owns_runtime o' then True
      else if o_Kind o' = KindCheck \<and> o_Phase o' = PhasePrepared then False
      else \<not> final_phase (o_Phase o'))"

subsection \<open>Identities\<close>

definition validGitObjectID :: "string \<Rightarrow> bool" where
  "validGitObjectID v \<longleftrightarrow> (length v = 40 \<or> length v = 64) \<and> hex_ok v"

definition validSHA256Identity :: "string \<Rightarrow> bool" where
  "validSHA256Identity v \<longleftrightarrow>
     has_prefix v ''sha256:'' \<and> length v = length ''sha256:'' + 64 \<and>
     hex_ok (trim_prefix v ''sha256:'')"

text \<open>
  \<open>recipeRevisionForDraft\<close> over the normalized draft and over the draft as stored; \<open>None\<close> is the
  error of \<open>json.Marshal\<close>. The clock reading that \<open>normalize\<close> takes does not reach the draft
  (\<open>DraftFromRecipe_now\<close>), so the identity takes none.
\<close>

definition recipeRevisionForDraft :: "Draft \<Rightarrow> string option" where
  "recipeRevisionForDraft d = map_option sha256_id (canonicalDraft d)"

definition RecipeRevision :: "Recipe \<Rightarrow> string option" where
  "RecipeRevision r = recipeRevisionForDraft (DraftFromRecipe '''' r)"

definition snapshotRecipeRevision :: "Recipe \<Rightarrow> string option" where
  "snapshotRecipeRevision r = recipeRevisionForDraft (DraftFromSnapshot r)"

definition cloneRecipe :: "Recipe \<Rightarrow> Recipe option" where
  "cloneRecipe r = (if recipe_marshals r then Some (detach_recipe r) else None)"

text \<open>The project name handed to Docker Compose; \<open>None\<close> is the error.\<close>

definition RuntimeName :: "Operation \<Rightarrow> string option" where
  "RuntimeName op =
     (if \<not> has_prefix (o_ID op) ''rop-'' then None
      else (let hexID = trim_prefix (o_ID op) ''rop-''
            in if length hexID \<noteq> 32 \<or> \<not> hex_ok hexID then None
               else Some (''cloudless-recipe-'' @ take 16 hexID)))"

text \<open>\<open>newID\<close> from the 16 random bytes.\<close>

definition newID :: "nat list \<Rightarrow> string" where
  "newID bytes = ''rop-'' @ hex_encode bytes"

subsection \<open>Preflight evidence\<close>

definition check_json :: "CheckResult \<Rightarrow> json" where
  "check_json c = JObj (fld ''id'' (JStr (ck_ID c)) @ fld ''status'' (JStr (status_text (ck_Status c))) @
     fld ''summary'' (JStr (ck_Summary c)) @ str_omit ''detail'' (ck_Detail c) @
     fld ''observedAt'' (JStr (ck_ObservedAt c)) @ map_omit ''values'' (ck_Values c))"

text \<open>The list of checks is built by \<open>append\<close> to a nil slice, so an empty one is \<open>null\<close>.\<close>

definition artifact_json :: "PreflightArtifact \<Rightarrow> json" where
  "artifact_json a = JObj (fld ''recipeId'' (JStr (pf_RecipeID a)) @
     fld ''recipeRevision'' (JStr (pf_RecipeRevision a)) @
     str_omit ''sourceRevision'' (pf_SourceRevision a) @ str_omit ''imageDigest'' (pf_ImageDigest a) @
     fld ''platformFingerprint'' (JStr (pf_PlatformFingerprint a)) @
     fld ''clusterFingerprint'' (JStr (pf_ClusterFingerprint a)) @
     fld ''runnable'' (JBool (pf_Runnable a)) @ fld ''launchable'' (JBool (pf_Launchable a)) @
     fld ''createdAt'' (JStr (pf_CreatedAt a)) @
     fld ''checks'' (if pf_Checks a = [] then JNull else JArr (map check_json (pf_Checks a))) @
     fld ''evidenceHash'' (JStr (pf_EvidenceHash a)))"

definition preflightEvidenceHash :: "PreflightArtifact \<Rightarrow> string" where
  "preflightEvidenceHash a = sha256_id (json_text (artifact_json (a\<lparr>pf_EvidenceHash := ''''\<rparr>)))"

definition valid_check :: "CheckResult \<Rightarrow> bool" where
  "valid_check c \<longleftrightarrow> trim_space (ck_ID c) \<noteq> '''' \<and> trim_space (ck_Summary c) \<noteq> '''' \<and>
     validCheckStatus (ck_Status c) \<and> time_ok (ck_ObservedAt c)"

definition validPreflightArtifact :: "PreflightArtifact \<Rightarrow> bool" where
  "validPreflightArtifact a \<longleftrightarrow>
     pf_RecipeID a \<noteq> '''' \<and> pf_RecipeRevision a \<noteq> '''' \<and>
     validSHA256Identity (pf_PlatformFingerprint a) \<and>
     validSHA256Identity (pf_ClusterFingerprint a) \<and> validSHA256Identity (pf_EvidenceHash a) \<and>
     (pf_ImageDigest a = '''' \<or> validSHA256Identity (pf_ImageDigest a)) \<and>
     time_ok (pf_CreatedAt a) \<and> list_all valid_check (pf_Checks a) \<and>
     preflightEvidenceHash a = pf_EvidenceHash a"

definition Matches :: "PreflightArtifact \<Rightarrow> string \<Rightarrow> string \<Rightarrow> string \<Rightarrow> bool" where
  "Matches a recipeRevision platformFingerprint clusterFingerprint \<longleftrightarrow>
     validPreflightArtifact a \<and> pf_RecipeRevision a = recipeRevision \<and>
     pf_PlatformFingerprint a = platformFingerprint \<and> pf_ClusterFingerprint a = clusterFingerprint"

definition check_runnable :: "CheckResult \<Rightarrow> bool" where
  "check_runnable c \<longleftrightarrow> \<not> (ck_Status c = CheckFail \<or> ck_Status c = CheckUnknown)"

definition newPreflightArtifact ::
    "string \<Rightarrow> Operation \<Rightarrow> string \<Rightarrow> string \<Rightarrow> string \<Rightarrow> PreflightArtifact option" where
  "newPreflightArtifact now op imageDigest0 platform0 cluster0 =
     (let platform = trim_space platform0; cluster = trim_space cluster0;
          image = to_lower (trim_space imageDigest0)
      in if \<not> validSHA256Identity platform \<or> \<not> validSHA256Identity cluster \<or>
            (image \<noteq> '''' \<and> \<not> validSHA256Identity image)
         then None
         else (let a = \<lparr>pf_RecipeID = o_RecipeID op, pf_RecipeRevision = o_RecipeRevision op,
                  pf_SourceRevision = o_ResolvedSourceRevision op, pf_ImageDigest = image,
                  pf_PlatformFingerprint = platform, pf_ClusterFingerprint = cluster,
                  pf_Runnable = o_Checks op \<noteq> [] \<and> list_all check_runnable (o_Checks op),
                  pf_Launchable =
                    o_Checks op \<noteq> [] \<and> list_all (\<lambda>c. ck_Status c = CheckPass) (o_Checks op),
                  pf_CreatedAt = now, pf_Checks = o_Checks op, pf_EvidenceHash = ''''\<rparr>
               in Some (a\<lparr>pf_EvidenceHash := preflightEvidenceHash a\<rparr>)))"

subsection \<open>Valid persisted operations\<close>

definition bad_reference_bytes :: string where
  "bad_reference_bytes = [CHR 0x00, CHR 0x0D, CHR 0x0A, CHR 0x09, CHR 0x20]"

definition safe_reference :: "string \<Rightarrow> bool" where
  "safe_reference s \<longleftrightarrow> length s \<le> 512 \<and> \<not> contains_any s bad_reference_bytes"

definition valid_image_binding :: "Operation \<Rightarrow> bool" where
  "valid_image_binding op \<longleftrightarrow>
     (o_PreparedImageReference op = '''' \<longleftrightarrow> o_PreparedImageDigest op = '''') \<and>
     (o_PreparedImageReference op = '''' \<or>
        safe_reference (o_PreparedImageReference op) \<and> validSHA256Identity (o_PreparedImageDigest op))"

definition valid_snapshot :: "Operation \<Rightarrow> bool \<Rightarrow> bool" where
  "valid_snapshot op authentic \<longleftrightarrow>
     (let snap = o_RecipeSnapshot op
      in r_ID snap = '''' \<or>
         (r_ID snap = o_RecipeID op \<and>
          (RecipeRevision snap = Some (o_RecipeRevision op) \<or>
           snapshotRecipeRevision snap = Some (o_RecipeRevision op) \<or> authentic)))"

definition valid_preflight_of :: "Operation \<Rightarrow> bool" where
  "valid_preflight_of op \<longleftrightarrow>
     (case o_Preflight op of None \<Rightarrow> True
      | Some a \<Rightarrow> (o_Kind op = KindCheck \<or> o_Kind op = KindRun) \<and> pf_RecipeID a = o_RecipeID op \<and>
                  pf_RecipeRevision a = o_RecipeRevision op \<and> validPreflightArtifact a)"

definition valid_resource :: "Resource \<Rightarrow> bool" where
  "valid_resource r \<longleftrightarrow> trim_space (res_Kind r) \<noteq> '''' \<and> trim_space (res_ID r) \<noteq> ''''"

definition valid_progress :: "Progress option \<Rightarrow> bool" where
  "valid_progress po \<longleftrightarrow>
     (case po of None \<Rightarrow> True
      | Some p \<Rightarrow> pg_Stage p \<noteq> '''' \<and> pg_Message p \<noteq> '''' \<and>
          0 \<le> pg_OverallPercent p \<and> pg_OverallPercent p \<le> 100 \<and>
          0 \<le> pg_PhasePercent p \<and> pg_PhasePercent p \<le> 100 \<and> time_ok (pg_UpdatedAt p))"

definition valid_checkpoint :: "u64 \<Rightarrow> Checkpoint \<Rightarrow> bool" where
  "valid_checkpoint n c \<longleftrightarrow> cpt_Phase c \<noteq> NoPhase \<and> cpt_Sequence c \<noteq> 0 \<and> cpt_Sequence c \<le> n \<and>
     validPhase (cpt_Phase c) \<and> time_ok (cpt_ObservedAt c)"

definition validOperationWithHistoricalSnapshot :: "Operation \<Rightarrow> bool \<Rightarrow> bool" where
  "validOperationWithHistoricalSnapshot op authentic \<longleftrightarrow>
     o_ID op \<noteq> '''' \<and> validKind (o_Kind op) \<and> o_RecipeID op \<noteq> '''' \<and> o_RecipeRevision op \<noteq> '''' \<and>
     o_Sequence op \<noteq> 0 \<and> o_CreatedAt op \<noteq> '''' \<and> o_UpdatedAt op \<noteq> '''' \<and>
     (o_ResolvedSourceRevision op = '''' \<or> validGitObjectID (o_ResolvedSourceRevision op)) \<and>
     valid_image_binding op \<and> valid_snapshot op authentic \<and> valid_preflight_of op \<and>
     (transitions (o_Phase op) \<noteq> None \<or> final_phase (o_Phase op)) \<and>
     list_all valid_resource (o_Resources op) \<and> list_all valid_check (o_Checks op) \<and>
     valid_progress (o_Progress op) \<and> list_all (valid_checkpoint (o_Sequence op)) (o_Checkpoints op)"

definition validOperation :: "Operation \<Rightarrow> bool" where
  "validOperation op = validOperationWithHistoricalSnapshot op False"

lemmas valid_operation_defs =
  validOperation_def validOperationWithHistoricalSnapshot_def

lemma validOperation_historical:
  "validOperation op \<Longrightarrow> validOperationWithHistoricalSnapshot op b"
  by (auto simp: valid_operation_defs valid_snapshot_def Let_def)


lemma revision_clone: "cloneRecipe r = Some c \<Longrightarrow> RecipeRevision c = RecipeRevision r"
  by (auto simp: cloneRecipe_def RecipeRevision_def DraftFromRecipe_def split: if_splits)

lemma cloneRecipe_ID: "cloneRecipe r = Some c \<Longrightarrow> r_ID c = r_ID r"
  by (auto simp: cloneRecipe_def split: if_splits)

lemma cloneRecipe_idem: "cloneRecipe r = Some c \<Longrightarrow> cloneRecipe c = Some c"
  by (auto simp: cloneRecipe_def split: if_splits)

lemma sha256_id_valid [simp]: "validSHA256Identity (sha256_id s)"
proof -
  have "has_prefix (sha256_id s) ''sha256:''" "trim_prefix (sha256_id s) ''sha256:'' = sha256_hex s"
    unfolding sha256_id_def by (simp_all only: has_prefix_append trim_prefix_append)
  then show ?thesis
    by (simp add: validSHA256Identity_def) (simp add: sha256_id_def)
qed

lemma recipeRevision_nonempty: "recipeRevisionForDraft d = Some r \<Longrightarrow> r \<noteq> ''''"
  by (auto simp: recipeRevisionForDraft_def sha256_id_def)


end
