(* ===== verification/RecipeOpsStore.thy ===== *)
theory RecipeOpsStore
  imports RecipeOps
begin

text \<open>
  The operation journal of \<open>internal/recipeops/operation.go\<close>: the store, what is on disk, and every
  method of \<open>Store\<close> as a function on the state. A method runs under the store's mutex, so it is one
  atomic step. What the environment decides is an argument: the clock reading \<open>now\<close>, the random
  bytes of an identifier, the outcome \<open>fault\<close> of the file system (\<open>None\<close>: the write is durable,
  \<open>Some e\<close>: the error, with the file left as it was, since the new content is written to a
  temporary file that only a rename installs), and the outcome of a callback.
\<close>

subsection \<open>State\<close>

text \<open>
  A persisted operation is what decoding its JSON gives, with the members of its recipe snapshot as
  the raw JSON texts that stand in the file (\<open>None\<close>: no snapshot), which the revision of a
  historical snapshot is computed from.
\<close>

record disk_op =
  dk_Operation :: Operation
  dk_Raw :: "(string \<times> string) list option"

record disk_doc =
  dd_Version :: int
  dd_Operations :: "(string, disk_op) gomap"
  dd_Tombstones :: "(string, string) gomap"

record Store =
  st_Operations :: "(string, Operation) gomap"
  st_Tombstones :: "(string, string) gomap"
  st_Historical :: "(string, (string \<times> string) list) gomap"
  st_Disk :: "disk_doc option"

datatype ops_error =
    InvalidStart Kind Phase
  | MarshalFailed
  | EntropyFailed string
  | ErrRecipeTombstoned
  | StillActive string Kind Phase
  | ErrPreflightRequired
  | ErrNotExist
  | InvalidTransition Phase Phase
  | InvalidProgress
  | InvalidProgressTimestamp
  | BadSourceRevision
  | SourceAlreadyBound
  | BadImage
  | ImageAlreadyBound
  | BadCheck
  | BadCheckTime
  | PreflightNotChecking
  | BadPreflightIdentity
  | BadResource
  | MutationRequiresCallback
  | MutationConflict Operation
  | CallbackFailed string
  | CallbackAndSaveFailed string ops_error
  | BadRetention
  | IOFailed string
  | ReadFailed string
  | DecodeFailed
  | UnsupportedVersion int
  | InvalidPersisted string

definition documentVersion :: int where
  "documentVersion = 1"

subsection \<open>Loading\<close>

definition draft_keys :: "string list" where
  "draft_keys = [''name'', ''description'', ''platform'', ''source'', ''engine'', ''model'',
     ''distributed'', ''runtime'', ''health'']"

definition raw_revision :: "(string \<times> string) list \<Rightarrow> string" where
  "raw_revision ms =
     sha256_id (members_text (map (\<lambda>k. (k, case map_of ms k of None \<Rightarrow> ''null'' | Some t \<Rightarrow> t)) draft_keys))"

definition rawPersistedSnapshotRevision :: "disk_op \<Rightarrow> string option" where
  "rawPersistedSnapshotRevision d = map_option raw_revision (dk_Raw d)"

datatype read_result = FileMissing | FileError string | FileContent "disk_doc option"

definition empty_store :: "disk_doc option \<Rightarrow> Store" where
  "empty_store disk = \<lparr>st_Operations = [], st_Tombstones = [], st_Historical = [], st_Disk = disk\<rparr>"

definition authenticHistorical :: "disk_op \<Rightarrow> bool" where
  "authenticHistorical d \<longleftrightarrow>
     rawPersistedSnapshotRevision d = Some (o_RecipeRevision (dk_Operation d))"

definition loadable :: "string \<times> disk_op \<Rightarrow> bool" where
  "loadable e \<longleftrightarrow> o_ID (dk_Operation (snd e)) = fst e \<and>
     validOperationWithHistoricalSnapshot (dk_Operation (snd e)) (authenticHistorical (snd e))"

definition historical_of :: "string \<times> disk_op \<Rightarrow> (string \<times> (string \<times> string) list) option" where
  "historical_of e =
     (if authenticHistorical (snd e) \<and> \<not> validOperation (dk_Operation (snd e))
      then map_option (Pair (fst e)) (dk_Raw (snd e)) else None)"

fun OpenStore :: "read_result \<Rightarrow> ops_error + Store" where
  "OpenStore FileMissing = Inr (empty_store None)"
| "OpenStore (FileError e) = Inl (ReadFailed e)"
| "OpenStore (FileContent None) = Inl DecodeFailed"
| "OpenStore (FileContent (Some d)) =
     (if dd_Version d \<noteq> documentVersion then Inl (UnsupportedVersion (dd_Version d))
      else case find (\<lambda>e. \<not> loadable e) (dd_Operations d) of
             Some e \<Rightarrow> Inl (InvalidPersisted (fst e))
           | None \<Rightarrow> Inr \<lparr>st_Operations = map (\<lambda>e. (fst e, dk_Operation (snd e))) (dd_Operations d),
                          st_Tombstones = dd_Tombstones d,
                          st_Historical = List.map_filter historical_of (dd_Operations d),
                          st_Disk = Some d\<rparr>)"

subsection \<open>Saving\<close>

definition persisted_op :: "Store \<Rightarrow> string \<times> Operation \<Rightarrow> string \<times> disk_op" where
  "persisted_op s e = (fst e, \<lparr>dk_Operation = snd e,
     dk_Raw = (case lookup (st_Historical s) (fst e) of
                 Some raw \<Rightarrow> Some raw
               | None \<Rightarrow> draft_members (DraftFromSnapshot (o_RecipeSnapshot (snd e))))\<rparr>)"

definition persisted :: "Store \<Rightarrow> disk_doc" where
  "persisted s = \<lparr>dd_Version = documentVersion,
     dd_Operations = map (persisted_op s) (st_Operations s), dd_Tombstones = st_Tombstones s\<rparr>"

definition saveLocked :: "string option \<Rightarrow> Store \<Rightarrow> ops_error + Store" where
  "saveLocked fault s =
     (if \<not> list_all (\<lambda>e. recipe_marshals (o_RecipeSnapshot (snd e))) (st_Operations s)
      then Inl MarshalFailed
      else case fault of
             Some e \<Rightarrow> Inl (IOFailed e)
           | None \<Rightarrow> Inr (s\<lparr>st_Disk := Some (persisted s)\<rparr>))"

text \<open>A deep copy; the recipe goes through JSON.\<close>

definition detachedOperation :: "Operation \<Rightarrow> Operation" where
  "detachedOperation op =
     (case cloneRecipe (o_RecipeSnapshot op) of
        Some r \<Rightarrow> op\<lparr>o_RecipeSnapshot := r\<rparr> | None \<Rightarrow> op)"

definition set_operation :: "string \<Rightarrow> Operation \<Rightarrow> Store \<Rightarrow> Store" where
  "set_operation rid op s = s\<lparr>st_Operations := put rid op (st_Operations s)\<rparr>"

text \<open>
  The end of every method that changes one operation: install it, save, put the detached previous
  record back when the save fails.
\<close>

definition commit :: "string option \<Rightarrow> string \<Rightarrow> Operation \<Rightarrow> Operation \<Rightarrow> Store \<Rightarrow>
    (ops_error + Operation) \<times> Store" where
  "commit fault rid previous op s =
     (let s1 = set_operation rid op s
      in case saveLocked fault s1 of
           Inl e \<Rightarrow> (Inl e, set_operation rid (detachedOperation previous) s1)
         | Inr s2 \<Rightarrow> (Inr (detachedOperation op), s2))"

definition touch :: "string \<Rightarrow> Operation \<Rightarrow> Operation" where
  "touch now op = op\<lparr>o_Sequence := o_Sequence op + 1, o_UpdatedAt := now\<rparr>"

subsection \<open>Admission\<close>

definition created_rank :: "Operation \<Rightarrow> string \<times> string" where
  "created_rank op = (o_CreatedAt op, o_ID op)"

definition updated_rank :: "Operation \<Rightarrow> string \<times> string" where
  "updated_rank op = (o_UpdatedAt op, o_ID op)"

definition created_later :: "Operation \<Rightarrow> Operation \<Rightarrow> bool" where
  "created_later x y \<longleftrightarrow> o_CreatedAt y < o_CreatedAt x \<or> (o_CreatedAt x = o_CreatedAt y \<and> o_ID y < o_ID x)"

definition updated_later :: "Operation \<Rightarrow> Operation \<Rightarrow> bool" where
  "updated_later x y \<longleftrightarrow> o_UpdatedAt y < o_UpdatedAt x \<or> (o_UpdatedAt x = o_UpdatedAt y \<and> o_ID y < o_ID x)"

definition launchable_for :: "string \<Rightarrow> string \<Rightarrow> Operation \<Rightarrow> bool" where
  "launchable_for recipeID revision op \<longleftrightarrow>
     o_Kind op = KindCheck \<and> o_Phase op = PhasePrepared \<and> o_RecipeID op = recipeID \<and>
     o_RecipeRevision op = revision \<and>
     (case o_Preflight op of None \<Rightarrow> False | Some a \<Rightarrow> pf_Runnable a \<and> validPreflightArtifact a)"

definition latestLaunchablePreflight ::
    "(string, Operation) gomap \<Rightarrow> string \<Rightarrow> string \<Rightarrow> PreflightArtifact option" where
  "latestLaunchablePreflight ops recipeID revision =
     Option.bind (pick created_later None (filter (launchable_for recipeID revision) (map snd ops)))
       o_Preflight"

definition new_operation ::
    "string \<Rightarrow> string \<Rightarrow> Kind \<Rightarrow> Recipe \<Rightarrow> string \<Rightarrow> Recipe \<Rightarrow> Phase \<Rightarrow> PreviousRuntime option \<Rightarrow> Operation" where
  "new_operation now rid kind recipe revision snapshot initial previous =
     \<lparr>o_ID = rid, o_Kind = kind, o_RecipeID = r_ID recipe, o_RecipeRevision = revision,
      o_RecipeSnapshot = snapshot, o_ResolvedSourceRevision = '''', o_PreparedImageReference = '''',
      o_PreparedImageDigest = '''', o_Phase = initial, o_Sequence = 1, o_CreatedAt = now,
      o_UpdatedAt = now, o_Error = '''', o_Resources = [], o_Checks = [], o_Preflight = None,
      o_Progress = None,
      o_Checkpoints = [\<lparr>cpt_Phase = initial, cpt_Sequence = 1, cpt_ObservedAt = now\<rparr>],
      o_PreviousRuntime = previous\<rparr>"

record start_env =
  env_now :: string
  env_rand :: "string + nat list"
  env_fault :: "string option"

text \<open>The decision: the operation to install, with the evidence it is bound to, or the refusal.\<close>

definition admit :: "start_env \<Rightarrow> Kind \<Rightarrow> Recipe \<Rightarrow> Phase \<Rightarrow> bool \<Rightarrow> bool \<Rightarrow>
    PreviousRuntime option \<Rightarrow> Store \<Rightarrow> ops_error + Operation" where
  "admit env kind recipe initial unique requirePreflight previous s =
     (if \<not> validKind kind \<or> initialPhase kind \<noteq> initial \<or> \<not> ValidTransition NoPhase initial
      then Inl (InvalidStart kind initial)
      else case RecipeRevision recipe of None \<Rightarrow> Inl MarshalFailed
      | Some revision \<Rightarrow>
     (case cloneRecipe recipe of None \<Rightarrow> Inl MarshalFailed
      | Some snapshot \<Rightarrow>
     (case env_rand env of Inl e \<Rightarrow> Inl (EntropyFailed e)
      | Inr bytes \<Rightarrow>
     (let op = new_operation (env_now env) (newID bytes) kind recipe revision snapshot initial previous
      in if lookup (st_Tombstones s) (r_ID recipe) \<noteq> None then Inl ErrRecipeTombstoned
         else case (if unique then find (\<lambda>e. operationBlocksAdmission (snd e) kind) (st_Operations s) else None) of
           Some e \<Rightarrow> Inl (StillActive (o_ID (snd e)) (o_Kind (snd e)) (o_Phase (snd e)))
         | None \<Rightarrow>
            if requirePreflight
            then (case latestLaunchablePreflight (st_Operations s) (r_ID recipe) revision of
                    None \<Rightarrow> Inl ErrPreflightRequired
                  | Some artifact \<Rightarrow> Inr (op\<lparr>o_Preflight := Some artifact\<rparr>))
            else Inr op))))"

definition beginWithPrevious :: "start_env \<Rightarrow> Kind \<Rightarrow> Recipe \<Rightarrow> Phase \<Rightarrow> bool \<Rightarrow> bool \<Rightarrow>
    PreviousRuntime option \<Rightarrow> Store \<Rightarrow> (ops_error + Operation) \<times> Store" where
  "beginWithPrevious env kind recipe initial unique requirePreflight previous s =
     (case admit env kind recipe initial unique requirePreflight previous s of
        Inl e \<Rightarrow> (Inl e, s)
      | Inr op \<Rightarrow>
          (let s1 = set_operation (o_ID op) op s
           in case saveLocked (env_fault env) s1 of
                Inl e \<Rightarrow> (Inl e, s1\<lparr>st_Operations := remove (o_ID op) (st_Operations s1)\<rparr>)
              | Inr s2 \<Rightarrow> (Inr (detachedOperation op), s2)))"

definition Begin :: "start_env \<Rightarrow> Kind \<Rightarrow> Recipe \<Rightarrow> Phase \<Rightarrow> Store \<Rightarrow> (ops_error + Operation) \<times> Store" where
  "Begin env kind recipe initial s = beginWithPrevious env kind recipe initial False False None s"

definition BeginUnique :: "start_env \<Rightarrow> Kind \<Rightarrow> Recipe \<Rightarrow> Phase \<Rightarrow> Store \<Rightarrow> (ops_error + Operation) \<times> Store" where
  "BeginUnique env kind recipe initial s = beginWithPrevious env kind recipe initial True False None s"

definition zero_PreviousRuntime :: PreviousRuntime where
  "zero_PreviousRuntime = \<lparr>pr_Engine = '''', pr_Model = '''', pr_EngineUnloaded = False,
     pr_ExecutionMode = '''', pr_LocalRecipeID = ''''\<rparr>"

definition BeginRunValidatedWithPrevious ::
    "start_env \<Rightarrow> Recipe \<Rightarrow> PreviousRuntime \<Rightarrow> Store \<Rightarrow> (ops_error + Operation) \<times> Store" where
  "BeginRunValidatedWithPrevious env recipe previous s =
     beginWithPrevious env KindRun recipe PhasePreparing True True (Some previous) s"

definition BeginRunValidated :: "start_env \<Rightarrow> Recipe \<Rightarrow> Store \<Rightarrow> (ops_error + Operation) \<times> Store" where
  "BeginRunValidated env recipe s = BeginRunValidatedWithPrevious env recipe zero_PreviousRuntime s"

subsection \<open>Lifecycle and evidence\<close>

text \<open>\<open>cause\<close> is the text of the error the transition records, if any.\<close>

definition Transition :: "string \<Rightarrow> string option \<Rightarrow> string \<Rightarrow> Phase \<Rightarrow> string option \<Rightarrow> Store \<Rightarrow>
    (ops_error + Operation) \<times> Store" where
  "Transition now fault rid next cause s =
     (case lookup (st_Operations s) rid of None \<Rightarrow> (Inl ErrNotExist, s)
      | Some op \<Rightarrow>
          if \<not> ValidTransition (o_Phase op) next then (Inl (InvalidTransition (o_Phase op) next), s)
          else (let op1 = touch now (op\<lparr>o_Phase := next\<rparr>);
                    op2 = (if o_Phase op \<noteq> next
                           then op1\<lparr>o_Checkpoints := o_Checkpoints op1 @
                                  [\<lparr>cpt_Phase = next, cpt_Sequence = o_Sequence op1, cpt_ObservedAt = now\<rparr>]\<rparr>
                           else op1);
                    op3 = op2\<lparr>o_Error := (case cause of None \<Rightarrow> '''' | Some e \<Rightarrow> trim_space e)\<rparr>
                in commit fault rid op op3 s))"

definition bad_progress :: "Progress \<Rightarrow> bool" where
  "bad_progress p \<longleftrightarrow> pg_Stage p = '''' \<or> pg_Message p = '''' \<or> pg_OverallPercent p < 0 \<or>
     pg_OverallPercent p > 100 \<or> pg_PhasePercent p < 0 \<or> pg_PhasePercent p > 100 \<or>
     pg_Completed p < 0 \<or> pg_Total p < 0 \<or> pg_BytesDone p < 0 \<or> pg_BytesTotal p < 0 \<or>
     pg_ElapsedSeconds p < 0 \<or> pg_ETASeconds p < 0"

definition RecordProgress :: "string \<Rightarrow> string option \<Rightarrow> string \<Rightarrow> Progress \<Rightarrow> Store \<Rightarrow>
    (ops_error + Operation) \<times> Store" where
  "RecordProgress now fault rid progress s =
     (let p1 = progress\<lparr>pg_Stage := trim_space (pg_Stage progress),
                        pg_Message := trim_space (pg_Message progress)\<rparr>
      in if bad_progress p1 then (Inl InvalidProgress, s)
         else if pg_UpdatedAt p1 \<noteq> '''' \<and> \<not> time_ok (pg_UpdatedAt p1) then (Inl InvalidProgressTimestamp, s)
         else (let p2 = (if pg_UpdatedAt p1 = '''' then p1\<lparr>pg_UpdatedAt := now\<rparr> else p1)
               in case lookup (st_Operations s) rid of None \<Rightarrow> (Inl ErrNotExist, s)
                  | Some op \<Rightarrow>
                      (let p3 = (case o_Progress op of None \<Rightarrow> p2
                                 | Some old \<Rightarrow> if pg_OverallPercent p2 < pg_OverallPercent old
                                              then p2\<lparr>pg_OverallPercent := pg_OverallPercent old\<rparr> else p2)
                       in commit fault rid op
                            ((touch (pg_UpdatedAt p3) op)\<lparr>o_Progress := Some p3\<rparr>) s)))"

definition BindResolvedSource :: "string \<Rightarrow> string option \<Rightarrow> string \<Rightarrow> string \<Rightarrow> Store \<Rightarrow>
    (ops_error + Operation) \<times> Store" where
  "BindResolvedSource now fault rid revision0 s =
     (let revision = to_lower (trim_space revision0)
      in if \<not> validGitObjectID revision then (Inl BadSourceRevision, s)
         else case lookup (st_Operations s) rid of None \<Rightarrow> (Inl ErrNotExist, s)
         | Some op \<Rightarrow>
             if o_ResolvedSourceRevision op \<noteq> '''' \<and> o_ResolvedSourceRevision op \<noteq> revision
             then (Inl SourceAlreadyBound, s)
             else if o_ResolvedSourceRevision op = revision then (Inr (detachedOperation op), s)
             else commit fault rid op (touch now (op\<lparr>o_ResolvedSourceRevision := revision\<rparr>)) s)"

definition BindPreparedImage :: "string \<Rightarrow> string option \<Rightarrow> string \<Rightarrow> string \<Rightarrow> string \<Rightarrow> Store \<Rightarrow>
    (ops_error + Operation) \<times> Store" where
  "BindPreparedImage now fault rid reference0 digest0 s =
     (let reference = trim_space reference0; digest = to_lower (trim_space digest0)
      in if reference = '''' \<or> \<not> safe_reference reference \<or> \<not> validSHA256Identity digest
         then (Inl BadImage, s)
         else case lookup (st_Operations s) rid of None \<Rightarrow> (Inl ErrNotExist, s)
         | Some op \<Rightarrow>
             if o_PreparedImageReference op \<noteq> '''' \<and>
                (o_PreparedImageReference op \<noteq> reference \<or> o_PreparedImageDigest op \<noteq> digest)
             then (Inl ImageAlreadyBound, s)
             else if o_PreparedImageReference op = reference \<and> o_PreparedImageDigest op = digest
             then (Inr (detachedOperation op), s)
             else commit fault rid op
                    (touch now (op\<lparr>o_PreparedImageReference := reference, o_PreparedImageDigest := digest\<rparr>)) s)"

text \<open>The first check with the id is replaced, a new one is appended; then the checks are sorted by id.\<close>

fun upsert_check :: "CheckResult \<Rightarrow> CheckResult list \<Rightarrow> CheckResult list" where
  "upsert_check c [] = [c]"
| "upsert_check c (d # ds) = (if ck_ID d = ck_ID c then c # ds else d # upsert_check c ds)"

definition RecordCheck :: "string \<Rightarrow> string option \<Rightarrow> string \<Rightarrow> CheckResult \<Rightarrow> Store \<Rightarrow>
    (ops_error + Operation) \<times> Store" where
  "RecordCheck now fault rid result s =
     (let c1 = result\<lparr>ck_ID := trim_space (ck_ID result), ck_Summary := trim_space (ck_Summary result),
                      ck_Detail := trim_space (ck_Detail result)\<rparr>
      in if ck_ID c1 = '''' \<or> ck_Summary c1 = '''' \<or> \<not> validCheckStatus (ck_Status c1) then (Inl BadCheck, s)
         else if ck_ObservedAt c1 \<noteq> '''' \<and> \<not> time_ok (ck_ObservedAt c1) then (Inl BadCheckTime, s)
         else (let c2 = (if ck_ObservedAt c1 = '''' then c1\<lparr>ck_ObservedAt := now\<rparr> else c1)
               in case lookup (st_Operations s) rid of None \<Rightarrow> (Inl ErrNotExist, s)
                  | Some op \<Rightarrow>
                      commit fault rid op
                        (touch now (op\<lparr>o_Checks := sort_key ck_ID (upsert_check c2 (o_Checks op))\<rparr>)) s))"

definition BindPreflight :: "string \<Rightarrow> string \<Rightarrow> string option \<Rightarrow> string \<Rightarrow> string \<Rightarrow> string \<Rightarrow> string \<Rightarrow> Store \<Rightarrow>
    (ops_error + Operation) \<times> Store" where
  "BindPreflight created now fault rid imageDigest platform cluster s =
     (case lookup (st_Operations s) rid of None \<Rightarrow> (Inl ErrNotExist, s)
      | Some op \<Rightarrow>
          if o_Kind op \<noteq> KindCheck \<or> o_Phase op \<noteq> PhaseChecking then (Inl PreflightNotChecking, s)
          else case newPreflightArtifact created op imageDigest platform cluster of
                 None \<Rightarrow> (Inl BadPreflightIdentity, s)
               | Some a \<Rightarrow> commit fault rid op (touch now (op\<lparr>o_Preflight := Some a\<rparr>)) s)"

definition clean_resource :: "Resource \<Rightarrow> Resource" where
  "clean_resource r = r\<lparr>res_Kind := trim_space (res_Kind r), res_ID := trim_space (res_ID r),
     res_Node := trim_space (res_Node r), res_Locator := trim_space (res_Locator r)\<rparr>"

definition Claim :: "string \<Rightarrow> string option \<Rightarrow> string \<Rightarrow> Resource \<Rightarrow> Store \<Rightarrow>
    (ops_error + Operation) \<times> Store" where
  "Claim now fault rid resource0 s =
     (let resource = clean_resource resource0
      in if res_Kind resource = '''' \<or> res_ID resource = '''' then (Inl BadResource, s)
         else case lookup (st_Operations s) rid of None \<Rightarrow> (Inl ErrNotExist, s)
         | Some op \<Rightarrow>
             if resource \<in> set (o_Resources op) then (Inr (detachedOperation op), s)
             else commit fault rid op
                    (touch now (op\<lparr>o_Resources := sortResources (o_Resources op @ [resource])\<rparr>)) s)"

definition Release :: "string \<Rightarrow> string option \<Rightarrow> string \<Rightarrow> Resource \<Rightarrow> Store \<Rightarrow>
    (ops_error + Operation) \<times> Store" where
  "Release now fault rid resource s =
     (case lookup (st_Operations s) rid of None \<Rightarrow> (Inl ErrNotExist, s)
      | Some op \<Rightarrow>
          if resource \<notin> set (o_Resources op) then (Inr (detachedOperation op), s)
          else commit fault rid op
                 (touch now (op\<lparr>o_Resources := filter (\<lambda>r. r \<noteq> resource) (o_Resources op)\<rparr>)) s)"

subsection \<open>Reading\<close>

definition Get :: "string \<Rightarrow> Store \<Rightarrow> Operation option" where
  "Get rid s = map_option detachedOperation (lookup (st_Operations s) rid)"

definition ListOps :: "Store \<Rightarrow> Operation list" where
  "ListOps s = sort_key created_rank (map (\<lambda>e. detachedOperation (snd e)) (st_Operations s))"

definition ActiveForRecipe :: "string \<Rightarrow> Store \<Rightarrow> Operation option" where
  "ActiveForRecipe recipeID s =
     find (\<lambda>op. o_Kind op = KindRun \<and> o_RecipeID op = recipeID \<and> o_Phase op = PhaseActive) (rev (ListOps s))"

definition MutationBlocker :: "string \<Rightarrow> Store \<Rightarrow> Operation option" where
  "MutationBlocker recipeID s =
     find (\<lambda>op. o_RecipeID op = recipeID \<and> operationBlocksMutation op) (rev (ListOps s))"

definition IsTombstoned :: "string \<Rightarrow> Store \<Rightarrow> bool" where
  "IsTombstoned recipeID s \<longleftrightarrow> lookup (st_Tombstones s) recipeID \<noteq> None"

definition Tombstones :: "Store \<Rightarrow> string list" where
  "Tombstones s = sort (map fst (st_Tombstones s))"

subsection \<open>Recipe mutation and deletion\<close>

text \<open>
  The callbacks work on another store, the state \<open>'x\<close>; a missing callback is \<open>None\<close>. A callback
  returns its error, if any, and the state it leaves.
\<close>

type_synonym 'x callback = "'x \<Rightarrow> string option \<times> 'x"

definition ExecuteMutation :: "string \<Rightarrow> 'x callback option \<Rightarrow> Store \<Rightarrow> 'x \<Rightarrow> ops_error option \<times> 'x" where
  "ExecuteMutation recipeID mutate s x =
     (case mutate of None \<Rightarrow> (Some MutationRequiresCallback, x)
      | Some f \<Rightarrow>
          if trim_space recipeID = '''' then (Some MutationRequiresCallback, x)
          else if lookup (st_Tombstones s) recipeID \<noteq> None then (Some ErrRecipeTombstoned, x)
          else case pick updated_later None
                 (filter (\<lambda>op. o_RecipeID op = recipeID \<and> operationBlocksMutation op) (map snd (st_Operations s))) of
                 Some b \<Rightarrow> (Some (MutationConflict (detachedOperation b)), x)
               | None \<Rightarrow> map_prod (map_option CallbackFailed) id (f x))"

definition set_tombstones :: "(string, string) gomap \<Rightarrow> Store \<Rightarrow> Store" where
  "set_tombstones t s = s\<lparr>st_Tombstones := t\<rparr>"

text \<open>\<open>fault2\<close> is the outcome of the save that takes a tombstone back.\<close>

definition Tombstone :: "string \<Rightarrow> string option \<Rightarrow> string option \<Rightarrow> string \<Rightarrow> 'x callback option \<Rightarrow> Store \<Rightarrow> 'x \<Rightarrow>
    ops_error option \<times> Store \<times> 'x" where
  "Tombstone now fault fault2 recipeID mark s x =
     (case mark of None \<Rightarrow> (Some MutationRequiresCallback, s, x)
      | Some f \<Rightarrow>
          if trim_space recipeID = '''' then (Some MutationRequiresCallback, s, x)
          else if lookup (st_Tombstones s) recipeID \<noteq> None
          then (case f x of (e, x') \<Rightarrow> (map_option CallbackFailed e, s, x'))
          else (let s1 = set_tombstones (put recipeID now (st_Tombstones s)) s;
                    undo = (\<lambda>t. set_tombstones (remove recipeID (st_Tombstones t)) t)
                in case saveLocked fault s1 of
                     Inl e \<Rightarrow> (Some e, undo s1, x)
                   | Inr s2 \<Rightarrow>
                       (case f x of
                          (None, x') \<Rightarrow> (None, s2, x')
                        | (Some e, x') \<Rightarrow>
                            (case saveLocked fault2 (undo s2) of
                               Inl e2 \<Rightarrow> (Some (CallbackAndSaveFailed e e2), undo s2, x')
                             | Inr s3 \<Rightarrow> (Some (CallbackFailed e), s3, x')))))"

definition FinalizeTombstone :: "string option \<Rightarrow> string \<Rightarrow> 'x callback option \<Rightarrow> Store \<Rightarrow> 'x \<Rightarrow>
    (ops_error + bool) \<times> Store \<times> 'x" where
  "FinalizeTombstone fault recipeID purge s x =
     (case purge of None \<Rightarrow> (Inl MutationRequiresCallback, s, x)
      | Some f \<Rightarrow>
          if trim_space recipeID = '''' then (Inl MutationRequiresCallback, s, x)
          else if lookup (st_Tombstones s) recipeID = None then (Inr False, s, x)
          else if list_ex (\<lambda>e. o_RecipeID (snd e) = recipeID \<and> operationBlocksMutation (snd e)) (st_Operations s)
          then (Inr False, s, x)
          else (case f x of
                  (Some e, x') \<Rightarrow> (Inl (CallbackFailed e), s, x')
                | (None, x') \<Rightarrow>
                    (let s1 = set_tombstones (remove recipeID (st_Tombstones s)) s
                     in case saveLocked fault s1 of
                          Inl e \<Rightarrow> (Inl e, s1, x')
                        | Inr s2 \<Rightarrow> (Inr True, s2, x'))))"

subsection \<open>Retention\<close>

definition check_key :: "Operation \<Rightarrow> string" where
  "check_key op = o_RecipeID op @ [CHR 0x00] @ o_RecipeRevision op"

definition reusable_check :: "Operation \<Rightarrow> bool" where
  "reusable_check op \<longleftrightarrow> o_Kind op = KindCheck \<and> o_Phase op = PhasePrepared \<and> o_Preflight op \<noteq> None"

definition latest_check_step :: "(string, Operation) gomap \<Rightarrow> Operation \<Rightarrow> (string, Operation) gomap" where
  "latest_check_step m op =
     (if reusable_check op
      then (case lookup m (check_key op) of
              None \<Rightarrow> put (check_key op) op m
            | Some current \<Rightarrow> if updated_later op current then put (check_key op) op m else m)
      else m)"

definition latestChecks :: "(string, Operation) gomap \<Rightarrow> (string, Operation) gomap" where
  "latestChecks ops = foldl latest_check_step [] (map snd ops)"

definition protected_ids :: "(string, Operation) gomap \<Rightarrow> string list" where
  "protected_ids ops = map o_ID (filter NeedsRecovery (map snd ops)) @ map (\<lambda>e. o_ID (snd e)) (latestChecks ops)"

text \<open>Newest first.\<close>

definition prune_candidates :: "(string, Operation) gomap \<Rightarrow> Operation list" where
  "prune_candidates ops =
     rev (sort_key updated_rank (filter (\<lambda>op. o_ID op \<notin> set (protected_ids ops)) (map snd ops)))"

definition too_old :: "int \<Rightarrow> int \<Rightarrow> Operation \<Rightarrow> bool" where
  "too_old now maxAge op \<longleftrightarrow> 0 < maxAge \<and>
     maxAge < time_sub now (case parse_rfc3339 (o_UpdatedAt op) of None \<Rightarrow> zero_time | Some t \<Rightarrow> t)"

definition pruned_ids :: "int \<Rightarrow> int \<Rightarrow> int \<Rightarrow> (string, Operation) gomap \<Rightarrow> string list" where
  "pruned_ids retain maxAge now ops =
     map (\<lambda>(i, op). o_ID op)
       (filter (\<lambda>(i, op). retain \<le> int i \<or> too_old now maxAge op) (enumerate 0 (prune_candidates ops)))"

definition Prune :: "string option \<Rightarrow> int \<Rightarrow> int \<Rightarrow> int \<Rightarrow> Store \<Rightarrow> ops_error option \<times> Store" where
  "Prune fault now retain maxAge s =
     (if retain < 0 \<or> maxAge < 0 then (Some BadRetention, s)
      else (let gone = pruned_ids retain maxAge now (st_Operations s)
            in if gone = [] then (None, s)
               else (let s1 = s\<lparr>st_Operations := filter (\<lambda>e. fst e \<notin> set gone) (st_Operations s)\<rparr>
                     in case saveLocked fault s1 of
                          Inl e \<Rightarrow> (Some e, s)
                        | Inr s2 \<Rightarrow> (None, s2))))"

subsection \<open>Inventory\<close>

text \<open>
  \<open>inventory.go\<close>: a read-only probe of every owned resource. \<open>ctx\<close> tells whether the context is
  done before the probe of the i-th resource, with the text of its error.
\<close>

datatype Presence = PresencePresent | PresenceMissing | PresenceUnknown | OtherPresence string

record Observation =
  ob_Resource :: Resource
  ob_Presence :: Presence
  ob_Detail :: string

definition observe :: "(nat \<Rightarrow> string option) \<Rightarrow> (Resource \<Rightarrow> Observation) \<Rightarrow> nat \<times> Resource \<Rightarrow> Observation" where
  "observe ctx inspect e =
     (case ctx (fst e) of
        Some err \<Rightarrow> \<lparr>ob_Resource = snd e, ob_Presence = PresenceUnknown, ob_Detail = err\<rparr>
      | None \<Rightarrow>
          (let o1 = (inspect (snd e))\<lparr>ob_Resource := snd e\<rparr>
           in if ob_Presence o1 \<noteq> PresencePresent \<and> ob_Presence o1 \<noteq> PresenceMissing
              then o1\<lparr>ob_Presence := PresenceUnknown\<rparr> else o1))"

definition Inventory :: "(nat \<Rightarrow> string option) \<Rightarrow> Operation \<Rightarrow> (Resource \<Rightarrow> Observation) \<Rightarrow> Observation list" where
  "Inventory ctx op inspect =
     sort_key (\<lambda>ob. res_Node (ob_Resource ob))
       (map (observe ctx inspect) (enumerate 0 (sortResources (o_Resources op))))"

end
