(* ===== verification/RecipeOpsInv.thy ===== *)
theory RecipeOpsInv
  imports RecipeOpsStore
begin

text \<open>
  What the methods of the operation journal keep: the well-formedness of a stored record (its
  identity and its body), and how a record may evolve from one method to the next. Each method
  that updates one operation is shown to \<open>advances\<close> the store.
\<close>

subsection \<open>What every method keeps\<close>

definition detached :: "Operation \<Rightarrow> bool" where
  "detached op \<longleftrightarrow> cloneRecipe (o_RecipeSnapshot op) = Some (o_RecipeSnapshot op)"

definition op_ok :: "(string, (string \<times> string) list) gomap \<Rightarrow> string \<Rightarrow> Operation \<Rightarrow> bool" where
  "op_ok hist k op \<longleftrightarrow> o_ID op = k \<and> detached op \<and>
     (case lookup hist k of
        None \<Rightarrow> validOperation op
      | Some raw \<Rightarrow> raw_revision raw = o_RecipeRevision op \<and> validOperationWithHistoricalSnapshot op True)"

definition store_inv :: "Store \<Rightarrow> bool" where
  "store_inv s \<longleftrightarrow> wf_map (st_Operations s) \<and> wf_map (st_Tombstones s) \<and>
     (\<forall>(k, op) \<in> set (st_Operations s). op_ok (st_Historical s) k op)"

lemma store_invI:
  assumes "wf_map (st_Operations s)" "wf_map (st_Tombstones s)"
    and "\<And>k op. lookup (st_Operations s) k = Some op \<Longrightarrow> op_ok (st_Historical s) k op"
  shows "store_inv s"
  using assms by (auto simp: store_inv_def in_set_lookup)

lemma store_inv_lookup:
  "store_inv s \<Longrightarrow> lookup (st_Operations s) k = Some op \<Longrightarrow> op_ok (st_Historical s) k op"
  by (auto simp: store_inv_def dest!: lookup_Some_in_set)

lemma store_inv_wf: "store_inv s \<Longrightarrow> wf_map (st_Operations s)" "store_inv s \<Longrightarrow> wf_map (st_Tombstones s)"
  by (simp_all add: store_inv_def)

lemma detachedOperation_id [simp]: "detached op \<Longrightarrow> detachedOperation op = op"
  by (simp add: detached_def detachedOperation_def)

lemma detached_marshals: "detached op \<Longrightarrow> recipe_marshals (o_RecipeSnapshot op)"
  by (auto simp: detached_def cloneRecipe_def split: if_splits)

lemma store_inv_marshals:
  "store_inv s \<Longrightarrow> list_all (\<lambda>e. recipe_marshals (o_RecipeSnapshot (snd e))) (st_Operations s)"
  by (auto simp: store_inv_def list_all_iff op_ok_def detached_marshals)

lemma saveLocked_inv: "store_inv s \<Longrightarrow> saveLocked fault s =
   (case fault of Some e \<Rightarrow> Inl (IOFailed e) | None \<Rightarrow> Inr (s\<lparr>st_Disk := Some (persisted s)\<rparr>))"
  by (simp add: saveLocked_def store_inv_marshals)

text \<open>Neither the file nor the historical snapshots of other operations enter the invariant.\<close>

lemma store_inv_disk [simp]: "store_inv (s\<lparr>st_Disk := d\<rparr>) = store_inv s"
  by (simp add: store_inv_def)

lemma persisted_disk [simp]: "persisted (s\<lparr>st_Disk := d\<rparr>) = persisted s"
proof -
  have "persisted_op (s\<lparr>st_Disk := d\<rparr>) = persisted_op s"
    by (rule ext) (simp add: persisted_op_def)
  then show ?thesis by (simp add: persisted_def)
qed

lemma store_inv_set_operation:
  "store_inv s \<Longrightarrow> op_ok (st_Historical s) k op \<Longrightarrow> store_inv (set_operation k op s)"
  by (rule store_invI) (auto simp: set_operation_def store_inv_wf store_inv_lookup split: if_splits)

lemma set_operation_undo:
  "store_inv s \<Longrightarrow> lookup (st_Operations s) k = Some op \<Longrightarrow>
     set_operation k op (set_operation k op' s) = s"
  by (simp add: set_operation_def put_put_same put_same store_inv_wf)

lemma commit_inv:
  assumes "store_inv s" "lookup (st_Operations s) k = Some op" "op_ok (st_Historical s) k op'"
  shows "commit fault k op op' s =
    (case fault of Some e \<Rightarrow> (Inl (IOFailed e), s)
     | None \<Rightarrow> (Inr op', (set_operation k op' s)\<lparr>st_Disk := Some (persisted (set_operation k op' s))\<rparr>))"
proof -
  have "detached op" "detached op'"
    using assms store_inv_lookup by (auto simp: op_ok_def)
  with assms show ?thesis
    by (auto simp: commit_def Let_def saveLocked_inv store_inv_set_operation set_operation_undo
        split: option.splits)
qed

text \<open>
  An operation record is its identity, fixed when it is admitted, and its body, which the methods
  update. The validity of the recipe snapshot depends on the identity alone.
\<close>

definition identity :: "Operation \<Rightarrow> string \<times> Kind \<times> string \<times> string \<times> Recipe \<times> string \<times> PreviousRuntime option" where
  "identity op = (o_ID op, o_Kind op, o_RecipeID op, o_RecipeRevision op, o_RecipeSnapshot op,
     o_CreatedAt op, o_PreviousRuntime op)"

definition identity_ok :: "(string, (string \<times> string) list) gomap \<Rightarrow> string \<Rightarrow> Operation \<Rightarrow> bool" where
  "identity_ok hist k op \<longleftrightarrow> o_ID op = k \<and> k \<noteq> '''' \<and> detached op \<and> validKind (o_Kind op) \<and>
     o_RecipeID op \<noteq> '''' \<and> o_RecipeRevision op \<noteq> '''' \<and> o_CreatedAt op \<noteq> '''' \<and>
     (case lookup hist k of None \<Rightarrow> valid_snapshot op False
      | Some raw \<Rightarrow> raw_revision raw = o_RecipeRevision op \<and> valid_snapshot op True)"

definition body_ok :: "Operation \<Rightarrow> bool" where
  "body_ok op \<longleftrightarrow> o_Sequence op \<noteq> 0 \<and> o_UpdatedAt op \<noteq> '''' \<and>
     (o_ResolvedSourceRevision op = '''' \<or> validGitObjectID (o_ResolvedSourceRevision op)) \<and>
     valid_image_binding op \<and> valid_preflight_of op \<and>
     (transitions (o_Phase op) \<noteq> None \<or> final_phase (o_Phase op)) \<and>
     list_all valid_resource (o_Resources op) \<and> list_all valid_check (o_Checks op) \<and>
     valid_progress (o_Progress op) \<and> list_all (valid_checkpoint (o_Sequence op)) (o_Checkpoints op)"

lemma op_ok_iff: "op_ok hist k op \<longleftrightarrow> identity_ok hist k op \<and> body_ok op"
  by (auto simp: op_ok_def identity_ok_def body_ok_def valid_operation_defs split: option.splits)

lemma identity_ok_cong: "identity op' = identity op \<Longrightarrow> identity_ok hist k op' = identity_ok hist k op"
  by (simp add: identity_ok_def identity_def detached_def valid_snapshot_def Let_def split: option.splits)

lemma identity_touch [simp]: "identity (touch now op) = identity op"
  by (simp add: touch_def identity_def)

lemma identity_updates [simp]:
  "identity (op\<lparr>o_Phase := p\<rparr>) = identity op" "identity (op\<lparr>o_Error := e\<rparr>) = identity op"
  "identity (op\<lparr>o_Resources := rs\<rparr>) = identity op" "identity (op\<lparr>o_Checks := cs\<rparr>) = identity op"
  "identity (op\<lparr>o_Preflight := a\<rparr>) = identity op" "identity (op\<lparr>o_Progress := g\<rparr>) = identity op"
  "identity (op\<lparr>o_Checkpoints := ks\<rparr>) = identity op"
  "identity (op\<lparr>o_ResolvedSourceRevision := v\<rparr>) = identity op"
  "identity (op\<lparr>o_PreparedImageReference := v, o_PreparedImageDigest := w\<rparr>) = identity op"
  by (simp_all add: identity_def)

lemma next_sequence:
  fixes n :: u64
  assumes "n \<noteq> - 1"
  shows "n + 1 \<noteq> 0" "unat (n + 1) = Suc (unat n)" "c \<le> n \<Longrightarrow> c \<le> n + 1"
proof -
  show 1: "n + 1 \<noteq> 0" using assms by (metis eq_neg_iff_add_eq_0)
  then show 2: "unat (n + 1) = Suc (unat n)" by (metis add.commute unatSuc)
  show "c \<le> n \<Longrightarrow> c \<le> n + 1" using 2 by (simp add: word_le_nat_alt)
qed

lemma valid_preflight_iff:
  "valid_preflight_of op \<longleftrightarrow> (\<forall>a. o_Preflight op = Some a \<longrightarrow>
     (o_Kind op = KindCheck \<or> o_Kind op = KindRun) \<and> pf_RecipeID a = o_RecipeID op \<and>
     pf_RecipeRevision a = o_RecipeRevision op \<and> validPreflightArtifact a)"
  by (simp add: valid_preflight_of_def split: option.split)

lemma body_ok_touch: "body_ok op \<Longrightarrow> o_Sequence op \<noteq> - 1 \<Longrightarrow> now \<noteq> '''' \<Longrightarrow> body_ok (touch now op)"
  by (simp add: body_ok_def touch_def next_sequence valid_image_binding_def valid_preflight_iff
      list_all_iff valid_checkpoint_def) auto

lemma body_ok_updates:
  "body_ok op \<Longrightarrow> transitions p \<noteq> None \<or> final_phase p \<Longrightarrow> body_ok (op\<lparr>o_Phase := p\<rparr>)"
  "body_ok op \<Longrightarrow> body_ok (op\<lparr>o_Error := e\<rparr>)"
  "body_ok op \<Longrightarrow> list_all valid_resource rs \<Longrightarrow> body_ok (op\<lparr>o_Resources := rs\<rparr>)"
  "body_ok op \<Longrightarrow> list_all valid_check cs \<Longrightarrow> body_ok (op\<lparr>o_Checks := cs\<rparr>)"
  "body_ok op \<Longrightarrow> valid_preflight_of (op\<lparr>o_Preflight := a\<rparr>) \<Longrightarrow> body_ok (op\<lparr>o_Preflight := a\<rparr>)"
  "body_ok op \<Longrightarrow> valid_progress g \<Longrightarrow> body_ok (op\<lparr>o_Progress := g\<rparr>)"
  "body_ok op \<Longrightarrow> list_all (valid_checkpoint (o_Sequence op)) ks \<Longrightarrow> body_ok (op\<lparr>o_Checkpoints := ks\<rparr>)"
  "body_ok op \<Longrightarrow> validGitObjectID v \<Longrightarrow> body_ok (op\<lparr>o_ResolvedSourceRevision := v\<rparr>)"
  "body_ok op \<Longrightarrow> valid_image_binding (op\<lparr>o_PreparedImageReference := v, o_PreparedImageDigest := w\<rparr>) \<Longrightarrow>
     body_ok (op\<lparr>o_PreparedImageReference := v, o_PreparedImageDigest := w\<rparr>)"
  by (simp_all add: body_ok_def valid_image_binding_def valid_preflight_iff) auto

subsection \<open>How one operation evolves\<close>

fun phase_path :: "Phase \<Rightarrow> Phase list \<Rightarrow> bool" where
  "phase_path p [] = True"
| "phase_path p (q # qs) = (ValidTransition p q \<and> p \<noteq> q \<and> phase_path q qs)"

lemma phase_path_append:
  "phase_path p (xs @ ys) \<longleftrightarrow> phase_path p xs \<and> phase_path (last (p # xs)) ys"
  by (induction xs arbitrary: p) auto

definition overall :: "Operation \<Rightarrow> int" where
  "overall op = (case o_Progress op of None \<Rightarrow> 0 | Some g \<Rightarrow> pg_OverallPercent g)"

definition evolves :: "Operation \<Rightarrow> Operation \<Rightarrow> bool" where
  "evolves op op' \<longleftrightarrow> identity op' = identity op \<and>
     (o_ResolvedSourceRevision op \<noteq> '''' \<longrightarrow> o_ResolvedSourceRevision op' = o_ResolvedSourceRevision op) \<and>
     (o_PreparedImageReference op \<noteq> '''' \<longrightarrow>
        o_PreparedImageReference op' = o_PreparedImageReference op \<and>
        o_PreparedImageDigest op' = o_PreparedImageDigest op) \<and>
     (o_Kind op \<noteq> KindCheck \<longrightarrow> o_Preflight op' = o_Preflight op) \<and>
     unat (o_Sequence op) \<le> unat (o_Sequence op') \<and> overall op \<le> overall op' \<and>
     (\<exists>ks. o_Checkpoints op' = o_Checkpoints op @ ks \<and>
        phase_path (o_Phase op) (map cpt_Phase ks) \<and>
        o_Phase op' = last (o_Phase op # map cpt_Phase ks))"

lemma evolves_refl: "evolves op op"
  by (auto simp: evolves_def)

lemma evolves_trans:
  assumes ab: "evolves a b" and bc: "evolves b c"
  shows "evolves a c"
proof -
  from ab obtain ks where ks: "o_Checkpoints b = o_Checkpoints a @ ks"
    "phase_path (o_Phase a) (map cpt_Phase ks)" "o_Phase b = last (o_Phase a # map cpt_Phase ks)"
    by (auto simp: evolves_def)
  from bc obtain js where js: "o_Checkpoints c = o_Checkpoints b @ js"
    "phase_path (o_Phase b) (map cpt_Phase js)" "o_Phase c = last (o_Phase b # map cpt_Phase js)"
    by (auto simp: evolves_def)
  have "o_Kind b = o_Kind a" using ab by (simp add: evolves_def identity_def)
  moreover have "o_Checkpoints c = o_Checkpoints a @ (ks @ js) \<and>
      phase_path (o_Phase a) (map cpt_Phase (ks @ js)) \<and>
      o_Phase c = last (o_Phase a # map cpt_Phase (ks @ js))"
    using ks js by (auto simp: phase_path_append split: if_splits)
  ultimately show ?thesis
    using ab bc unfolding evolves_def by (intro conjI exI [of _ "ks @ js"]) auto
qed


subsection \<open>Methods that update one operation\<close>

definition durable :: "Store \<Rightarrow> Store" where
  "durable s = s\<lparr>st_Disk := Some (persisted s)\<rparr>"

text \<open>
  An error leaves the store as it was. A success leaves it as it was, or installs one operation
  that evolved from the stored one, in memory and on disk.
\<close>

definition advances :: "Store \<Rightarrow> (ops_error + Operation) \<times> Store \<Rightarrow> bool" where
  "advances s r \<longleftrightarrow> snd r = s \<or>
     (\<exists>k op op'. lookup (st_Operations s) k = Some op \<and> op_ok (st_Historical s) k op' \<and>
        evolves op op' \<and> r = (Inr op', durable (set_operation k op' s)))"

lemma advances_same [simp]: "advances s (x, s)"
  by (simp add: advances_def)

definition counters_ok :: "Store \<Rightarrow> bool" where
  "counters_ok s \<longleftrightarrow> list_all (\<lambda>e. o_Sequence (snd e) \<noteq> - 1) (st_Operations s)"

lemma counters_lookup: "counters_ok s \<Longrightarrow> lookup (st_Operations s) k = Some op \<Longrightarrow> o_Sequence op \<noteq> - 1"
  by (auto simp: counters_ok_def list_all_iff dest!: lookup_Some_in_set)

lemma advances_commit:
  assumes "store_inv s" "lookup (st_Operations s) k = Some op" "identity op' = identity op"
    and "body_ok op'" "evolves op op'"
  shows "advances s (commit fault k op op' s)"
proof -
  have "op_ok (st_Historical s) k op'"
    using store_inv_lookup [OF assms(1,2)] assms(3,4) by (simp add: op_ok_iff identity_ok_cong [OF assms(3)])
  note ok = this
  show ?thesis
  proof (cases fault)
    case None
    then show ?thesis using assms(2,5) ok
      unfolding commit_inv [OF assms(1,2) ok] advances_def durable_def by auto
  qed (simp add: commit_inv [OF assms(1,2) ok])
qed

lemma evolves_touch: "o_Sequence op \<noteq> - 1 \<Longrightarrow> evolves op (touch now op)"
  by (auto simp: evolves_def touch_def overall_def identity_def next_sequence)

lemma stored_body:
  "store_inv s \<Longrightarrow> lookup (st_Operations s) k = Some op \<Longrightarrow> body_ok op"
  by (auto simp: op_ok_iff dest: store_inv_lookup)

lemma touch_updates:
  "touch now (op\<lparr>o_Phase := p\<rparr>) = (touch now op)\<lparr>o_Phase := p\<rparr>"
  "touch now (op\<lparr>o_Resources := rs\<rparr>) = (touch now op)\<lparr>o_Resources := rs\<rparr>"
  "touch now (op\<lparr>o_Checks := cs\<rparr>) = (touch now op)\<lparr>o_Checks := cs\<rparr>"
  "touch now (op\<lparr>o_Preflight := a\<rparr>) = (touch now op)\<lparr>o_Preflight := a\<rparr>"
  "touch now (op\<lparr>o_ResolvedSourceRevision := v\<rparr>) = (touch now op)\<lparr>o_ResolvedSourceRevision := v\<rparr>"
  "touch now (op\<lparr>o_PreparedImageReference := v, o_PreparedImageDigest := w\<rparr>) =
     (touch now op)\<lparr>o_PreparedImageReference := v, o_PreparedImageDigest := w\<rparr>"
  by (cases op, simp add: touch_def)+

lemma evolves_cong:
  assumes "evolves op op'" "identity x = identity op'" "o_Sequence x = o_Sequence op'"
    "o_Checkpoints x = o_Checkpoints op'" "o_Phase x = o_Phase op'"
    "o_ResolvedSourceRevision op \<noteq> '''' \<longrightarrow> o_ResolvedSourceRevision x = o_ResolvedSourceRevision op'"
    "o_PreparedImageReference op \<noteq> '''' \<longrightarrow>
       o_PreparedImageReference x = o_PreparedImageReference op' \<and> o_PreparedImageDigest x = o_PreparedImageDigest op'"
    "o_Kind op \<noteq> KindCheck \<longrightarrow> o_Preflight x = o_Preflight op'" "overall op' \<le> overall x \<or> overall op \<le> overall x"
  shows "evolves op x"
  using assms unfolding evolves_def by auto

lemma evolves_updates:
  "evolves op op' \<Longrightarrow> evolves op (op'\<lparr>o_Error := e\<rparr>)"
  "evolves op op' \<Longrightarrow> evolves op (op'\<lparr>o_Resources := rs\<rparr>)"
  "evolves op op' \<Longrightarrow> evolves op (op'\<lparr>o_Checks := cs\<rparr>)"
  "evolves op op' \<Longrightarrow> o_Kind op = KindCheck \<Longrightarrow> evolves op (op'\<lparr>o_Preflight := a\<rparr>)"
  "evolves op op' \<Longrightarrow> o_ResolvedSourceRevision op = '''' \<Longrightarrow> evolves op (op'\<lparr>o_ResolvedSourceRevision := v\<rparr>)"
  "evolves op op' \<Longrightarrow> o_PreparedImageReference op = '''' \<Longrightarrow>
     evolves op (op'\<lparr>o_PreparedImageReference := v, o_PreparedImageDigest := w\<rparr>)"
  "evolves op op' \<Longrightarrow> overall op \<le> pg_OverallPercent g \<Longrightarrow> evolves op (op'\<lparr>o_Progress := Some g\<rparr>)"
  by (erule evolves_cong; simp add: overall_def)+

lemma ValidTransition_valid:
  assumes "ValidTransition p q" "transitions p \<noteq> None"
  shows "transitions q \<noteq> None \<and> q \<noteq> NoPhase \<and> validPhase q"
proof -
  have "\<forall>p' \<in> set table_phases. \<forall>q' \<in> set (successors p'). transitions q' \<noteq> None \<and> q' \<noteq> NoPhase"
    by code_simp
  with assms have "transitions q \<noteq> None \<and> q \<noteq> NoPhase"
    by (cases p) (auto simp: ValidTransition_def table_phases_def successors_def)
  then show ?thesis by (simp add: validPhase_def)
qed

lemma final_phase_known: "final_phase p \<Longrightarrow> transitions p \<noteq> None"
  by (auto simp: final_phase_def)

definition move_to :: "string \<Rightarrow> Phase \<Rightarrow> Operation \<Rightarrow> Operation" where
  "move_to now next op = (touch now op)\<lparr>o_Phase := next, o_Checkpoints := o_Checkpoints op @
     (if o_Phase op \<noteq> next
      then [\<lparr>cpt_Phase = next, cpt_Sequence = o_Sequence op + 1, cpt_ObservedAt = now\<rparr>] else [])\<rparr>"

lemma move_to:
  assumes body: "body_ok op" and now: "time_ok now" and n: "o_Sequence op \<noteq> - 1"
    and v: "ValidTransition (o_Phase op) next"
  shows "body_ok (move_to now next op)" "evolves op (move_to now next op)"
proof -
  note b = body_ok_touch [OF body n time_ok_not_Nil [OF now]]
  have q: "transitions next \<noteq> None" "next \<noteq> NoPhase" "validPhase next"
    using ValidTransition_valid [OF v] body by (auto simp: body_ok_def dest: final_phase_known)
  have "list_all (valid_checkpoint (o_Sequence op + 1)) (o_Checkpoints op)"
    using b by (simp add: body_ok_def touch_def)
  with q now n show "body_ok (move_to now next op)"
    unfolding move_to_def
    by (intro body_ok_updates b) (auto simp: valid_checkpoint_def touch_def next_sequence)
  show "evolves op (move_to now next op)"
    using v n by (auto simp: evolves_def move_to_def touch_def overall_def identity_def next_sequence)
qed

lemma step_Transition:
  assumes inv: "store_inv s" "counters_ok s" and now: "time_ok now"
  shows "advances s (Transition now fault k next cause s)"
proof (cases "lookup (st_Operations s) k")
  case (Some op)
  note m = move_to [OF stored_body [OF inv(1) Some] now counters_lookup [OF inv(2) Some]]
  have "Transition now fault k next cause s =
      (if \<not> ValidTransition (o_Phase op) next then (Inl (InvalidTransition (o_Phase op) next), s)
       else commit fault k op ((move_to now next op)\<lparr>o_Error := (case cause of None \<Rightarrow> '''' | Some e \<Rightarrow> trim_space e)\<rparr>) s)"
    by (cases op) (simp add: Transition_def Some Let_def move_to_def touch_def)
  then show ?thesis
    using m by (auto intro!: advances_commit [OF inv(1) Some] body_ok_updates evolves_updates
        simp: evolves_def)
qed (simp add: Transition_def)


text \<open>The seven methods that touch the record and change one field of its body.\<close>

lemma advances_touched:
  assumes inv: "store_inv s" "counters_ok s" and Some: "lookup (st_Operations s) k = Some op"
    and now: "time_ok now"
    and change: "body_ok (touch now op) \<Longrightarrow> evolves op (touch now op) \<Longrightarrow>
        identity op' = identity op \<and> body_ok op' \<and> evolves op op'"
  shows "advances s (commit fault k op op' s)"
proof -
  note n = counters_lookup [OF inv(2) Some]
  have "identity op' = identity op \<and> body_ok op' \<and> evolves op op'"
    by (intro change body_ok_touch evolves_touch n stored_body [OF inv(1) Some] time_ok_not_Nil [OF now])
  then show ?thesis by (intro advances_commit [OF inv(1) Some]) auto
qed

lemma touch_fields [simp]:
  "o_Resources (touch now op) = o_Resources op" "o_Checks (touch now op) = o_Checks op"
  "o_Kind (touch now op) = o_Kind op" "o_RecipeID (touch now op) = o_RecipeID op"
  "o_RecipeRevision (touch now op) = o_RecipeRevision op"
  "o_ResolvedSourceRevision (touch now op) = o_ResolvedSourceRevision op"
  "o_PreparedImageReference (touch now op) = o_PreparedImageReference op"
  "o_Progress (touch now op) = o_Progress op" "o_Preflight (touch now op) = o_Preflight op"
  by (simp_all add: touch_def)

lemma step_RecordProgress:
  assumes inv: "store_inv s" "counters_ok s" and now: "time_ok now"
  shows "advances s (RecordProgress now fault k progress s)"
proof (cases "lookup (st_Operations s) k")
  case (Some op)
  define p1 where "p1 = progress\<lparr>pg_Stage := trim_space (pg_Stage progress),
                        pg_Message := trim_space (pg_Message progress)\<rparr>"
  define p2 where "p2 = (if pg_UpdatedAt p1 = '''' then p1\<lparr>pg_UpdatedAt := now\<rparr> else p1)"
  define p3 where "p3 = (case o_Progress op of None \<Rightarrow> p2
     | Some old \<Rightarrow> if pg_OverallPercent p2 < pg_OverallPercent old
                  then p2\<lparr>pg_OverallPercent := pg_OverallPercent old\<rparr> else p2)"
  show ?thesis
  proof (cases "bad_progress p1 \<or> pg_UpdatedAt p1 \<noteq> '''' \<and> \<not> time_ok (pg_UpdatedAt p1)")
    case True
    then show ?thesis
      by (auto simp: RecordProgress_def Let_def p1_def [symmetric])
  next
    case False
    have old: "valid_progress (o_Progress op)" using stored_body [OF inv(1) Some] by (simp add: body_ok_def)
    from False now have p2: "valid_progress (Some p2)" "0 \<le> pg_OverallPercent p2"
      by (auto simp: p2_def bad_progress_def valid_progress_def)
    from p2 old have p3: "valid_progress (Some p3)" "overall op \<le> pg_OverallPercent p3"
      by (auto simp: p3_def valid_progress_def overall_def split: option.splits)
    then have "time_ok (pg_UpdatedAt p3)" by (simp add: valid_progress_def)
    then have "advances s (commit fault k op ((touch (pg_UpdatedAt p3) op)\<lparr>o_Progress := Some p3\<rparr>) s)"
      using p3 by (intro advances_touched [OF inv Some]) (auto intro: body_ok_updates evolves_updates)
    then show ?thesis using False
      by (simp add: RecordProgress_def Let_def p1_def [symmetric] p2_def [symmetric] p3_def [symmetric] Some)
  qed
qed (simp add: RecordProgress_def Let_def)

lemma step_BindResolvedSource:
  assumes inv: "store_inv s" "counters_ok s" and now: "time_ok now"
  shows "advances s (BindResolvedSource now fault k revision s)"
proof (cases "lookup (st_Operations s) k")
  case (Some op)
  show ?thesis
    by (auto simp: BindResolvedSource_def Let_def Some touch_updates intro!: advances_touched [OF inv Some now]
        body_ok_updates evolves_updates)
qed (simp add: BindResolvedSource_def Let_def)

lemma step_BindPreparedImage:
  assumes inv: "store_inv s" "counters_ok s" and now: "time_ok now"
  shows "advances s (BindPreparedImage now fault k reference digest s)"
proof (cases "lookup (st_Operations s) k")
  case (Some op)
  have bound: "valid_image_binding op" using stored_body [OF inv(1) Some] by (simp add: body_ok_def)
  show ?thesis
    by (auto simp: BindPreparedImage_def Let_def Some touch_updates valid_image_binding_def validSHA256Identity_def
        intro!: advances_touched [OF inv Some now] body_ok_updates evolves_updates)
qed (simp add: BindPreparedImage_def Let_def)

lemma upsert_check_all: "list_all P cs \<Longrightarrow> P c \<Longrightarrow> list_all P (upsert_check c cs)"
  by (induction c cs rule: upsert_check.induct) auto

lemma step_RecordCheck:
  assumes inv: "store_inv s" "counters_ok s" and now: "time_ok now"
  shows "advances s (RecordCheck now fault k result s)"
proof (cases "lookup (st_Operations s) k")
  case (Some op)
  have "list_all valid_check (o_Checks op)" using stored_body [OF inv(1) Some] by (simp add: body_ok_def)
  then have *: "list_all valid_check (sort_key ck_ID (upsert_check c (o_Checks op)))" if "valid_check c" for c
    using that upsert_check_all [of valid_check "o_Checks op" c] by (simp add: list_all_iff)
  show ?thesis using now
    by (auto simp: RecordCheck_def Let_def Some touch_updates valid_check_def intro!: * advances_touched [OF inv Some now]
        body_ok_updates evolves_updates)
qed (simp add: RecordCheck_def Let_def)

lemma step_Claim:
  assumes inv: "store_inv s" "counters_ok s" and now: "time_ok now"
  shows "advances s (Claim now fault k resource s)"
proof (cases "lookup (st_Operations s) k")
  case (Some op)
  have "list_all valid_resource (o_Resources op)" using stored_body [OF inv(1) Some] by (simp add: body_ok_def)
  then have *: "list_all valid_resource (sortResources (o_Resources op @ [clean_resource resource]))"
    if "res_Kind (clean_resource resource) \<noteq> ''''" "res_ID (clean_resource resource) \<noteq> ''''"
    using that by (auto simp: list_all_iff sortResources_def valid_resource_def clean_resource_def)
  show ?thesis
    by (auto simp: Claim_def Let_def Some touch_updates intro!: * advances_touched [OF inv Some now]
        body_ok_updates evolves_updates)
qed (simp add: Claim_def Let_def)

lemma step_Release:
  assumes inv: "store_inv s" "counters_ok s" and now: "time_ok now"
  shows "advances s (Release now fault k resource s)"
proof (cases "lookup (st_Operations s) k")
  case (Some op)
  have "list_all valid_resource (o_Resources op)" using stored_body [OF inv(1) Some] by (simp add: body_ok_def)
  then show ?thesis
    by (auto simp: Release_def Let_def Some touch_updates list_all_iff intro!: advances_touched [OF inv Some now]
        body_ok_updates evolves_updates)
qed (simp add: Release_def)


lemma preflightEvidenceHash_blank [simp]:
  "preflightEvidenceHash (a\<lparr>pf_EvidenceHash := h\<rparr>) = preflightEvidenceHash a"
  by (simp add: preflightEvidenceHash_def)

lemma preflightEvidenceHash_valid [simp]: "validSHA256Identity (preflightEvidenceHash a)"
  by (simp add: preflightEvidenceHash_def)

lemma newPreflightArtifact_valid:
  assumes "newPreflightArtifact now op img platform cluster = Some a"
    and "o_RecipeID op \<noteq> ''''" "o_RecipeRevision op \<noteq> ''''" "list_all valid_check (o_Checks op)" "time_ok now"
  shows "validPreflightArtifact a \<and> pf_RecipeID a = o_RecipeID op \<and> pf_RecipeRevision a = o_RecipeRevision op"
  using assms
  by (auto simp: newPreflightArtifact_def Let_def validPreflightArtifact_def preflightEvidenceHash_def split: if_splits)

lemma step_BindPreflight:
  assumes inv: "store_inv s" "counters_ok s" and now: "time_ok now" "time_ok created"
  shows "advances s (BindPreflight created now fault k img platform cluster s)"
proof (cases "lookup (st_Operations s) k")
  case (Some op)
  have "op_ok (st_Historical s) k op" by (rule store_inv_lookup [OF inv(1) Some])
  then have "valid_preflight_of (op\<lparr>o_Preflight := Some a\<rparr>)"
    if "newPreflightArtifact created op img platform cluster = Some a" "o_Kind op = KindCheck" for a
    using newPreflightArtifact_valid [OF that(1)] now(2) that(2)
    by (auto simp: op_ok_iff identity_ok_def body_ok_def valid_preflight_iff)
  then show ?thesis
    by (auto simp: BindPreflight_def Some touch_updates valid_preflight_iff
        intro!: advances_touched [OF inv Some now(1)] body_ok_updates evolves_updates split: option.split)
qed (simp add: BindPreflight_def)

end
