(* ===== verification/RecipeOpsSystem.thy ===== *)
theory RecipeOpsSystem
  imports RecipeOpsInv
begin

text \<open>
  The operation journal as a transition system: admission, the methods of \<open>RecipeOpsInv\<close>,
  tombstones, retention and restart, its invariant, the evolution of one record along a run, and
  the properties of the journal.
\<close>

subsection \<open>Choosing the newest record\<close>

interpretation newest_created: newest_choice created_later created_rank
  by unfold_locales (auto simp: created_later_def created_rank_def less_prod_def)

interpretation newest_updated: newest_choice updated_later updated_rank
  by unfold_locales (auto simp: updated_later_def updated_rank_def less_prod_def)

lemma latestLaunchablePreflight_Some:
  assumes "latestLaunchablePreflight ops recipeID revision = Some a"
  shows "\<exists>(k, c) \<in> set ops. launchable_for recipeID revision c \<and> o_Preflight c = Some a"
proof -
  from assms obtain c where c: "pick created_later None (filter (launchable_for recipeID revision) (map snd ops)) = Some c"
    "o_Preflight c = Some a"
    by (auto simp: latestLaunchablePreflight_def bind_eq_Some_conv)
  from newest_created.pick_mem [OF c(1)] c(2) show ?thesis by auto
qed

lemma latestLaunchablePreflight_None:
  "latestLaunchablePreflight ops recipeID revision = None \<longleftrightarrow>
     (\<forall>(k, c) \<in> set ops. \<not> launchable_for recipeID revision c)"
proof -
  let ?cs = "filter (launchable_for recipeID revision) (map snd ops)"
  have "o_Preflight c \<noteq> None" if "pick created_later None ?cs = Some c" for c
    using newest_created.pick_mem [OF that] by (auto simp: launchable_for_def split: option.splits)
  then have "latestLaunchablePreflight ops recipeID revision = None \<longleftrightarrow> ?cs = []"
    using newest_created.pick_empty_iff [of ?cs]
    by (auto simp: latestLaunchablePreflight_def bind_eq_None_conv)
  then show ?thesis by (auto simp: filter_empty_conv)
qed

subsection \<open>Admission\<close>

lemma newID_not_Nil [simp]: "newID bytes \<noteq> ''''"
  by (simp add: newID_def)

definition fresh_id :: "Store \<Rightarrow> string \<Rightarrow> bool" where
  "fresh_id s rid \<longleftrightarrow> lookup (st_Operations s) rid = None \<and> lookup (st_Historical s) rid = None"

text \<open>Everything a successful admission establishes.\<close>

definition admitted :: "start_env \<Rightarrow> Kind \<Rightarrow> Recipe \<Rightarrow> Phase \<Rightarrow> bool \<Rightarrow> bool \<Rightarrow> PreviousRuntime option \<Rightarrow>
    Store \<Rightarrow> Operation \<Rightarrow> bool" where
  "admitted env kind recipe initial unique requirePreflight previous s op \<longleftrightarrow>
     (\<exists>bytes. env_rand env = Inr bytes \<and> o_ID op = newID bytes) \<and>
     o_Kind op = kind \<and> o_Phase op = initial \<and> initial = initialPhase kind \<and> validKind kind \<and>
     o_RecipeID op = r_ID recipe \<and> RecipeRevision recipe = Some (o_RecipeRevision op) \<and>
     cloneRecipe recipe = Some (o_RecipeSnapshot op) \<and> o_PreviousRuntime op = previous \<and>
     lookup (st_Tombstones s) (r_ID recipe) = None \<and>
     (unique \<longrightarrow> (\<forall>(k, e) \<in> set (st_Operations s). \<not> operationBlocksAdmission e kind)) \<and>
     o_Preflight op = (if requirePreflight
       then latestLaunchablePreflight (st_Operations s) (r_ID recipe) (o_RecipeRevision op) else None) \<and>
     (requirePreflight \<longrightarrow> o_Preflight op \<noteq> None)"

lemma admit_admitted:
  assumes "admit env kind recipe initial unique requirePreflight previous s = Inr op"
  shows "admitted env kind recipe initial unique requirePreflight previous s op"
  using assms
  by (auto simp: admit_def admitted_def Let_def new_operation_def find_None_iff
      split: if_splits option.splits sum.splits)

lemma admit_body:
  assumes "admit env kind recipe initial unique requirePreflight previous s = Inr op"
  shows "o_CreatedAt op = env_now env \<and> o_UpdatedAt op = env_now env \<and> o_Sequence op = 1 \<and>
    o_ResolvedSourceRevision op = '''' \<and> o_PreparedImageReference op = '''' \<and>
    o_PreparedImageDigest op = '''' \<and> o_Resources op = [] \<and> o_Checks op = [] \<and> o_Progress op = None \<and>
    o_Checkpoints op = [\<lparr>cpt_Phase = initial, cpt_Sequence = 1, cpt_ObservedAt = env_now env\<rparr>]"
  using assms
  by (auto simp: admit_def Let_def new_operation_def split: if_splits option.splits sum.splits)

lemma initialPhase_known:
  "validKind kind \<Longrightarrow> transitions (initialPhase kind) \<noteq> None \<and> validPhase (initialPhase kind) \<and>
     initialPhase kind \<noteq> NoPhase"
  by (auto simp: validKind_def validPhase_def)

lemma admit_op_ok:
  assumes adm: "admit env kind recipe initial unique requirePreflight previous s = Inr op"
    and inv: "store_inv s" and fresh: "fresh_id s (o_ID op)"
    and recipe: "r_ID recipe \<noteq> ''''" and now: "time_ok (env_now env)"
    and run: "requirePreflight \<Longrightarrow> kind = KindRun"
  shows "op_ok (st_Historical s) (o_ID op) op"
proof -
  note a = admit_admitted [OF adm, unfolded admitted_def] and b = admit_body [OF adm]
  have "valid_preflight_of op"
  proof (cases "o_Preflight op")
    case (Some art)
    with a have l: "requirePreflight"
        "latestLaunchablePreflight (st_Operations s) (r_ID recipe) (o_RecipeRevision op) = Some art"
      by (auto split: if_splits)
    from latestLaunchablePreflight_Some [OF l(2)] obtain k c where c: "(k, c) \<in> set (st_Operations s)" "launchable_for (r_ID recipe) (o_RecipeRevision op) c"
        "o_Preflight c = Some art"
      by auto
    then have "op_ok (st_Historical s) k c" using inv by (auto simp: store_inv_def)
    with c a run l(1) Some show ?thesis
      by (auto simp: op_ok_iff body_ok_def valid_preflight_iff launchable_for_def split: if_splits)
  qed (simp add: valid_preflight_iff)
  then have body: "body_ok op"
    using a b initialPhase_known [of kind] time_ok_not_Nil [OF now] now
    by (simp add: body_ok_def valid_image_binding_def valid_progress_def valid_checkpoint_def)
  have "o_ID op \<noteq> []" using a newID_not_Nil by metis
  moreover have clone: "cloneRecipe recipe = Some (o_RecipeSnapshot op)"
      and rev: "RecipeRevision recipe = Some (o_RecipeRevision op)"
    using a by auto
  moreover note cloneRecipe_idem [OF clone] revision_clone [OF clone] cloneRecipe_ID [OF clone]
    recipeRevision_nonempty [OF rev [unfolded RecipeRevision_def]]
  moreover have "o_CreatedAt op \<noteq> []" "o_RecipeID op = r_ID recipe" "validKind (o_Kind op)"
    using a b time_ok_not_Nil [OF now] by auto
  ultimately have "identity_ok (st_Historical s) (o_ID op) op"
    using fresh recipe
    by (simp add: identity_ok_def fresh_id_def detached_def valid_snapshot_def Let_def)
  with body show ?thesis by (simp add: op_ok_iff)
qed

lemma begin_cases:
  assumes inv: "store_inv s"
    and fresh: "\<And>bytes. env_rand env = Inr bytes \<Longrightarrow> fresh_id s (newID bytes)"
    and recipe: "r_ID recipe \<noteq> ''''" and now: "time_ok (env_now env)"
    and run: "requirePreflight \<Longrightarrow> kind = KindRun"
  shows "(\<exists>e. beginWithPrevious env kind recipe initial unique requirePreflight previous s = (Inl e, s)) \<or>
    (\<exists>op. beginWithPrevious env kind recipe initial unique requirePreflight previous s =
        (Inr op, durable (set_operation (o_ID op) op s)) \<and>
      op_ok (st_Historical s) (o_ID op) op \<and> fresh_id s (o_ID op) \<and>
      admitted env kind recipe initial unique requirePreflight previous s op)"
proof (cases "admit env kind recipe initial unique requirePreflight previous s")
  case (Inr op)
  note a = admit_admitted [OF Inr]
  then have f: "fresh_id s (o_ID op)" using fresh by (auto simp: admitted_def)
  note ok = admit_op_ok [OF Inr inv f recipe now run]
  have "store_inv (set_operation (o_ID op) op s)" by (rule store_inv_set_operation [OF inv ok])
  moreover have "s\<lparr>st_Operations := remove (o_ID op) (put (o_ID op) op (st_Operations s))\<rparr> = s"
    using f inv by (simp add: fresh_id_def store_inv_wf)
  moreover have "detachedOperation op = op" using ok by (simp add: op_ok_def)
  ultimately show ?thesis
    using a f ok
    by (cases "env_fault env")
       (auto simp: beginWithPrevious_def Inr Let_def saveLocked_inv durable_def set_operation_def)
qed (simp add: beginWithPrevious_def)


subsection \<open>Tombstones, retention\<close>

lemma store_inv_tombstones: "store_inv s \<Longrightarrow> wf_map t \<Longrightarrow> store_inv (set_tombstones t s)"
  by (simp add: store_inv_def set_tombstones_def)

lemma set_tombstones_simps [simp]:
  "st_Operations (set_tombstones t s) = st_Operations s" "st_Tombstones (set_tombstones t s) = t"
  "st_Historical (set_tombstones t s) = st_Historical s" "st_Disk (set_tombstones t s) = st_Disk s"
  "set_tombstones t (set_tombstones t' s) = set_tombstones t s"
  "set_tombstones (st_Tombstones s) s = s"
  by (simp_all add: set_tombstones_def)

lemma set_operation_simps [simp]:
  "st_Operations (set_operation k op s) = put k op (st_Operations s)"
  "st_Tombstones (set_operation k op s) = st_Tombstones s"
  "st_Historical (set_operation k op s) = st_Historical s" "st_Disk (set_operation k op s) = st_Disk s"
  by (simp_all add: set_operation_def)

lemma durable_simps [simp]:
  "st_Operations (durable s) = st_Operations s" "st_Tombstones (durable s) = st_Tombstones s"
  "st_Historical (durable s) = st_Historical s" "st_Disk (durable s) = Some (persisted s)"
  "store_inv (durable s) = store_inv s" "durable (durable s) = durable s"
  by (simp_all add: durable_def)

lemma set_tombstones_durable:
  "set_tombstones t (durable s) = (set_tombstones t s)\<lparr>st_Disk := Some (persisted s)\<rparr>"
  by (simp add: set_tombstones_def durable_def)

lemma saveLocked_durable: "store_inv s \<Longrightarrow>
    saveLocked fault s = (case fault of Some e \<Rightarrow> Inl (IOFailed e) | None \<Rightarrow> Inr (durable s))"
  by (simp add: saveLocked_inv durable_def split: option.split)

text \<open>The states a tombstone can leave.\<close>

lemma Tombstone_cases:
  assumes inv: "store_inv s"
  shows "(let t = fst (snd (Tombstone now fault fault2 recipeID mark s x));
            marked = set_tombstones (put recipeID now (st_Tombstones s)) s
      in t = s \<or> t = durable marked \<or> t = durable s \<or>
         (lookup (st_Tombstones s) recipeID = None \<and> t = s\<lparr>st_Disk := Some (persisted marked)\<rparr>))"
proof (cases mark)
  case (Some f)
  let ?t = "put recipeID now (st_Tombstones s)"
  have "store_inv (set_tombstones ?t s)" "store_inv (s\<lparr>st_Disk := d\<rparr>)" for d
    using inv by (simp_all add: store_inv_tombstones store_inv_wf)
  moreover have "lookup (st_Tombstones s) recipeID = None \<Longrightarrow> remove recipeID ?t = st_Tombstones s"
    using inv by (simp add: store_inv_wf)
  moreover have "durable (s\<lparr>st_Disk := d\<rparr>) = durable s" for d
    by (simp add: durable_def)
  ultimately show ?thesis
    by (auto simp: Tombstone_def Some Let_def saveLocked_durable set_tombstones_durable
        split: option.splits prod.splits)
qed (simp add: Tombstone_def Let_def)

lemma FinalizeTombstone_cases:
  assumes inv: "store_inv s"
  shows "fst (snd (FinalizeTombstone fault recipeID purge s x)) \<in>
    {s, set_tombstones (remove recipeID (st_Tombstones s)) s,
     durable (set_tombstones (remove recipeID (st_Tombstones s)) s)}"
proof (cases purge)
  case (Some f)
  have "store_inv (set_tombstones (remove recipeID (st_Tombstones s)) s)"
    using inv by (simp add: store_inv_tombstones store_inv_wf)
  then show ?thesis
    by (auto simp: FinalizeTombstone_def Some Let_def saveLocked_durable split: option.splits prod.splits)
qed (simp add: FinalizeTombstone_def)

lemma store_inv_filter: "store_inv s \<Longrightarrow> store_inv (s\<lparr>st_Operations := filter p (st_Operations s)\<rparr>)"
  by (auto simp: store_inv_def)

lemma Prune_cases:
  assumes inv: "store_inv s"
  shows "snd (Prune fault now retain maxAge s) = s \<or>
    snd (Prune fault now retain maxAge s) =
      durable (s\<lparr>st_Operations := filter (\<lambda>e. fst e \<notin> set (pruned_ids retain maxAge now (st_Operations s))) (st_Operations s)\<rparr>)"
  using saveLocked_durable [OF store_inv_filter [OF inv]]
  by (auto simp: Prune_def Let_def split: option.splits)

subsection \<open>Restart\<close>

text \<open>What decoding the journal's JSON can give: one entry per key, and recipe snapshots as the
  decoder builds them.\<close>

definition decoded :: "disk_doc \<Rightarrow> bool" where
  "decoded d \<longleftrightarrow> wf_map (dd_Operations d) \<and> wf_map (dd_Tombstones d) \<and>
     list_all (\<lambda>e. detached (dk_Operation (snd e))) (dd_Operations d)"

definition disk_read :: "Store \<Rightarrow> read_result" where
  "disk_read s = (case st_Disk s of None \<Rightarrow> FileMissing | Some d \<Rightarrow> FileContent (Some d))"

definition disk_operations :: "disk_doc \<Rightarrow> (string, Operation) gomap" where
  "disk_operations d = map (\<lambda>e. (fst e, dk_Operation (snd e))) (dd_Operations d)"

definition loadable_doc :: "disk_doc \<Rightarrow> bool" where
  "loadable_doc d \<longleftrightarrow> decoded d \<and> dd_Version d = documentVersion \<and> list_all loadable (dd_Operations d)"

lemma OpenStore_loadable:
  assumes "loadable_doc d"
  shows "\<exists>s. OpenStore (FileContent (Some d)) = Inr s \<and> st_Operations s = disk_operations d \<and>
    st_Tombstones s = dd_Tombstones d \<and> st_Disk s = Some d"
proof -
  have "find (\<lambda>e. \<not> loadable e) (dd_Operations d) = None"
    using assms by (auto simp: loadable_doc_def find_None_iff list_all_iff)
  then show ?thesis using assms by (simp add: loadable_doc_def disk_operations_def)
qed

lemma OpenStore_Inr:
  assumes "OpenStore (FileContent (Some d)) = Inr s" "decoded d"
  shows "loadable_doc d \<and> st_Operations s = disk_operations d \<and> st_Tombstones s = dd_Tombstones d \<and>
    st_Disk s = Some d \<and> st_Historical s = List.map_filter historical_of (dd_Operations d)"
  using assms
  by (auto simp: loadable_doc_def disk_operations_def list_all_iff find_None_iff split: if_splits option.splits)

lemma lookup_map_filter:
  "wf_map m \<Longrightarrow> lookup (List.map_filter (\<lambda>e. map_option (Pair (fst e)) (f e)) m) k =
     Option.bind (lookup m k) (\<lambda>v. f (k, v))"
proof (induction m)
  case (Cons e m)
  have "k \<notin> fst ` set m \<Longrightarrow> lookup m k = None" by (simp add: map_of_eq_None_iff)
  with Cons show ?case
    by (cases e) (auto simp: wf_map_def List.map_filter_simps split: option.split)
qed (simp add: List.map_filter_simps)

lemma lookup_historical:
  assumes "wf_map m"
  shows "lookup (List.map_filter historical_of m) k = Option.bind (lookup m k) (\<lambda>v.
    if authenticHistorical v \<and> \<not> validOperation (dk_Operation v) then dk_Raw v else None)"
proof -
  have "historical_of = (\<lambda>e. map_option (Pair (fst e))
      (if authenticHistorical (snd e) \<and> \<not> validOperation (dk_Operation (snd e)) then dk_Raw (snd e) else None))"
    by (rule ext) (simp add: historical_of_def)
  then show ?thesis
    using lookup_map_filter [OF assms, of "\<lambda>e. if authenticHistorical (snd e) \<and>
        \<not> validOperation (dk_Operation (snd e)) then dk_Raw (snd e) else None"]
    by (cases "lookup m k") simp_all
qed

lemma lookup_map_snd: "lookup (map (\<lambda>e. (fst e, g (snd e))) m) k = map_option g (lookup m k)"
  by (induction m) auto

lemma OpenStore_inv:
  assumes o': "OpenStore (FileContent (Some d)) = Inr s" and d: "decoded d"
  shows "store_inv s"
proof (rule store_invI)
  note st = OpenStore_Inr [OF o' d]
  show "wf_map (st_Operations s)" "wf_map (st_Tombstones s)"
    using st d by (auto simp: decoded_def disk_operations_def wf_map_def comp_def)
  fix k op assume "lookup (st_Operations s) k = Some op"
  with st obtain v where v: "lookup (dd_Operations d) k = Some v" "op = dk_Operation v"
    by (auto simp: disk_operations_def lookup_map_snd)
  have "(k, v) \<in> set (dd_Operations d)" using v(1) by (rule lookup_Some_in_set)
  with st v have "loadable (k, v)" "detached op"
    by (auto simp: loadable_doc_def decoded_def list_all_iff)
  moreover have "lookup (st_Historical s) k = (if authenticHistorical v \<and> \<not> validOperation op then dk_Raw v else None)"
    using st v d by (simp add: lookup_historical decoded_def)
  moreover have "\<not> authenticHistorical v \<Longrightarrow> loadable (k, v) \<Longrightarrow> validOperation op"
    using v by (simp add: loadable_def validOperation_def)
  ultimately show "op_ok (st_Historical s) k op"
    using v
    by (cases "authenticHistorical v")
       (auto simp: op_ok_def loadable_def authenticHistorical_def rawPersistedSnapshotRevision_def)
qed

lemma persisted_loadable:
  assumes "store_inv s"
  shows "loadable_doc (persisted s) \<and> disk_operations (persisted s) = st_Operations s \<and>
    dd_Tombstones (persisted s) = st_Tombstones s"
proof -
  have "loadable (persisted_op s e) \<and> detached (snd e)" if "e \<in> set (st_Operations s)" for e
    using that assms
    by (cases e) (auto simp: store_inv_def op_ok_def loadable_def persisted_op_def authenticHistorical_def
        rawPersistedSnapshotRevision_def validOperation_historical split: option.splits)
  then show ?thesis using assms
    by (auto simp: loadable_doc_def decoded_def persisted_def disk_operations_def persisted_op_def list_all_iff
        store_inv_def wf_map_def comp_def)
qed


subsection \<open>The journal as a transition system\<close>

datatype journal_call =
    CBegin start_env Kind Recipe Phase
  | CBeginUnique start_env Kind Recipe Phase
  | CBeginRun start_env Recipe PreviousRuntime
  | CTransition string "string option" string Phase "string option"
  | CProgress string "string option" string Progress
  | CSource string "string option" string string
  | CImage string "string option" string string string
  | CCheck string "string option" string CheckResult
  | CPreflight string string "string option" string string string string
  | CClaim string "string option" string Resource
  | CRelease string "string option" string Resource
  | CTombstone string "string option" "string option" string "string option option"
  | CFinalize "string option" string "string option option"
  | CPrune "string option" int int int
  | CRestart

text \<open>A callback of the environment, of which only the error it returns matters here.\<close>

definition outcome :: "string option option \<Rightarrow> unit callback option" where
  "outcome m = map_option (\<lambda>e x. (e, x)) m"

fun exec :: "journal_call \<Rightarrow> Store \<Rightarrow> Store" where
  "exec (CBegin env kind recipe initial) s = snd (Begin env kind recipe initial s)"
| "exec (CBeginUnique env kind recipe initial) s = snd (BeginUnique env kind recipe initial s)"
| "exec (CBeginRun env recipe previous) s = snd (BeginRunValidatedWithPrevious env recipe previous s)"
| "exec (CTransition now fault k next cause) s = snd (Transition now fault k next cause s)"
| "exec (CProgress now fault k progress) s = snd (RecordProgress now fault k progress s)"
| "exec (CSource now fault k revision) s = snd (BindResolvedSource now fault k revision s)"
| "exec (CImage now fault k reference digest) s = snd (BindPreparedImage now fault k reference digest s)"
| "exec (CCheck now fault k result) s = snd (RecordCheck now fault k result s)"
| "exec (CPreflight created now fault k img platform cluster) s =
     snd (BindPreflight created now fault k img platform cluster s)"
| "exec (CClaim now fault k resource) s = snd (Claim now fault k resource s)"
| "exec (CRelease now fault k resource) s = snd (Release now fault k resource s)"
| "exec (CTombstone now fault fault2 recipeID m) s =
     fst (snd (Tombstone now fault fault2 recipeID (outcome m) s ()))"
| "exec (CFinalize fault recipeID m) s = fst (snd (FinalizeTombstone fault recipeID (outcome m) s ()))"
| "exec (CPrune fault now retain maxAge) s = snd (Prune fault now retain maxAge s)"
| "exec CRestart s = (case OpenStore (disk_read s) of Inl e \<Rightarrow> s | Inr s' \<Rightarrow> s')"

fun start_of :: "journal_call \<Rightarrow> (start_env \<times> Recipe) option" where
  "start_of (CBegin env kind recipe initial) = Some (env, recipe)"
| "start_of (CBeginUnique env kind recipe initial) = Some (env, recipe)"
| "start_of (CBeginRun env recipe previous) = Some (env, recipe)"
| "start_of _ = None"

fun clock_of :: "journal_call \<Rightarrow> string list" where
  "clock_of (CTransition now fault k next cause) = [now]"
| "clock_of (CProgress now fault k progress) = [now]"
| "clock_of (CSource now fault k revision) = [now]"
| "clock_of (CImage now fault k reference digest) = [now]"
| "clock_of (CCheck now fault k result) = [now]"
| "clock_of (CPreflight created now fault k img platform cluster) = [created, now]"
| "clock_of (CClaim now fault k resource) = [now]"
| "clock_of (CRelease now fault k resource) = [now]"
| "clock_of _ = []"

text \<open>The identifier an admission would give its operation.\<close>

definition new_id_of :: "journal_call \<Rightarrow> string option" where
  "new_id_of c = (case start_of c of None \<Rightarrow> None
     | Some (env, recipe) \<Rightarrow> (case env_rand env of Inl e \<Rightarrow> None | Inr bytes \<Rightarrow> Some (newID bytes)))"

text \<open>
  What the environment is assumed to give: RFC 3339 clock readings, 128 random bits that name no
  known operation, a counter below \<open>2 ^ 64 - 1\<close>; and what the callers ensure: a stored recipe has
  an identifier.
\<close>

definition call_ok :: "journal_call \<Rightarrow> Store \<Rightarrow> bool" where
  "call_ok c s \<longleftrightarrow> counters_ok s \<and> list_all time_ok (clock_of c) \<and>
     (case start_of c of None \<Rightarrow> True
      | Some (env, recipe) \<Rightarrow> time_ok (env_now env) \<and> r_ID recipe \<noteq> '''' \<and>
          (case env_rand env of Inl e \<Rightarrow> True | Inr bytes \<Rightarrow> fresh_id s (newID bytes)))"

inductive journal_step :: "Store \<Rightarrow> journal_call \<Rightarrow> Store \<Rightarrow> bool" where
  journal_call: "call_ok c s \<Longrightarrow> journal_step s c (exec c s)"

inductive_cases journal_stepE [elim!]: "journal_step s c t"

definition journal_init :: "Store \<Rightarrow> bool" where
  "journal_init s \<longleftrightarrow> OpenStore FileMissing = Inr s \<or>
     (\<exists>d. OpenStore (FileContent (Some d)) = Inr s \<and> decoded d)"

text \<open>
  Memory and disk. The operations agree at every moment; a tombstone that memory knows is on disk
  (not conversely: \<open>FinalizeTombstone\<close> forgets it in memory before the save that may fail).
\<close>

definition synced :: "Store \<Rightarrow> bool" where
  "synced s \<longleftrightarrow> (case st_Disk s of None \<Rightarrow> st_Operations s = [] \<and> st_Tombstones s = []
     | Some d \<Rightarrow> loadable_doc d \<and> disk_operations d = st_Operations s \<and>
         (\<forall>k t. lookup (st_Tombstones s) k = Some t \<longrightarrow> lookup (dd_Tombstones d) k = Some t))"

definition journal_inv :: "Store \<Rightarrow> bool" where
  "journal_inv s \<longleftrightarrow> store_inv s \<and> synced s"

lemma journal_inv_durable: "store_inv s \<Longrightarrow> journal_inv (durable s)"
  using persisted_loadable [of s] by (simp add: journal_inv_def synced_def)

lemma journal_inv_advances:
  "journal_inv s \<Longrightarrow> advances s r \<Longrightarrow> journal_inv (snd r)"
  unfolding advances_def
  by (elim disjE exE) (auto simp: journal_inv_def [of s] intro: journal_inv_durable store_inv_set_operation)

lemma restart_inv:
  assumes "journal_inv s"
  shows "\<exists>s'. OpenStore (disk_read s) = Inr s' \<and> journal_inv s' \<and> st_Operations s' = st_Operations s"
proof (cases "st_Disk s")
  case None
  then show ?thesis using assms
    by (auto simp: disk_read_def empty_store_def journal_inv_def synced_def store_inv_def)
next
  case (Some d)
  with assms have d: "loadable_doc d" "disk_operations d = st_Operations s"
    by (auto simp: journal_inv_def synced_def)
  from OpenStore_loadable [OF d(1)] obtain s' where s': "OpenStore (FileContent (Some d)) = Inr s'"
    "st_Operations s' = disk_operations d" "st_Tombstones s' = dd_Tombstones d" "st_Disk s' = Some d" by blast
  from OpenStore_inv [OF s'(1)] d have "store_inv s'" by (simp add: loadable_doc_def)
  with s' d Some show ?thesis
    by (auto simp: disk_read_def journal_inv_def synced_def)
qed

lemma begin_shape:
  assumes "call_ok c s" "start_of c = Some (env, recipe)" "store_inv s" "requirePreflight \<Longrightarrow> kind = KindRun"
  shows "snd (beginWithPrevious env kind recipe initial unique requirePreflight previous s) = s \<or>
    (\<exists>op. new_id_of c = Some (o_ID op) \<and> op_ok (st_Historical s) (o_ID op) op \<and>
       snd (beginWithPrevious env kind recipe initial unique requirePreflight previous s) =
         durable (set_operation (o_ID op) op s))"
  using begin_cases [of s env recipe requirePreflight kind initial unique previous] assms
  by (fastforce simp: call_ok_def new_id_of_def admitted_def)

text \<open>
  What a call does to the state: it installs an admitted record, advances one record, drops
  records, or works on the tombstones. \<open>new\<close> is the identifier an admission gives.
\<close>

inductive effect :: "Store \<Rightarrow> string option \<Rightarrow> Store \<Rightarrow> bool" for s :: Store and new :: "string option" where
  effect_none: "effect s new s"
| effect_admit: "new = Some (o_ID op) \<Longrightarrow> op_ok (st_Historical s) (o_ID op) op \<Longrightarrow>
     effect s new (durable (set_operation (o_ID op) op s))"
| effect_advance: "lookup (st_Operations s) k = Some op \<Longrightarrow> op_ok (st_Historical s) k op' \<Longrightarrow>
     evolves op op' \<Longrightarrow> effect s new (durable (set_operation k op' s))"
| effect_drop: "effect s new (durable (s\<lparr>st_Operations := filter p (st_Operations s)\<rparr>))"
| effect_tombstones: "wf_map t \<Longrightarrow> effect s new (durable (set_tombstones t s))"
| effect_forget: "effect s new (set_tombstones (remove k (st_Tombstones s)) s)"
| effect_unmark: "lookup (st_Tombstones s) k = None \<Longrightarrow>
     effect s new (s\<lparr>st_Disk := Some (persisted (set_tombstones (put k now (st_Tombstones s)) s))\<rparr>)"
| effect_restart: "OpenStore (disk_read s) = Inr t \<Longrightarrow> effect s new t"

lemma effect_advances: "advances s r \<Longrightarrow> effect s new (snd r)"
  by (auto simp: advances_def intro: effect.intros)

lemma effect_begin:
  assumes "call_ok c s" "start_of c = Some (env, recipe)" "store_inv s" "requirePreflight \<Longrightarrow> kind = KindRun"
  shows "effect s (new_id_of c)
    (snd (beginWithPrevious env kind recipe initial unique requirePreflight previous s))"
  using begin_shape [of c s env recipe requirePreflight kind initial unique previous] assms
  by (auto intro: effect.intros)

lemma effect_Tombstone:
  assumes "store_inv s"
  shows "effect s new (fst (snd (Tombstone now fault fault2 recipeID mark s x)))"
  using Tombstone_cases [OF assms, of now fault fault2 recipeID mark x] assms
    effect_tombstones [of "st_Tombstones s" s new] effect_tombstones [OF wf_map_put [OF store_inv_wf(2) [OF assms], of recipeID now]]
  by (auto simp: Let_def store_inv_wf intro: effect.intros)

lemma effect_Finalize:
  assumes "store_inv s"
  shows "effect s new (fst (snd (FinalizeTombstone fault recipeID purge s x)))"
  using FinalizeTombstone_cases [OF assms, of fault recipeID purge x]
    wf_map_remove [OF store_inv_wf(2) [OF assms], of recipeID]
  by (auto simp: store_inv_wf intro: effect.intros)

lemma effect_Prune:
  assumes "store_inv s"
  shows "effect s new (snd (Prune fault now retain maxAge s))"
  using Prune_cases [OF assms, of fault now retain maxAge]
  by (auto intro: effect.intros)

lemmas step_methods =
  step_Transition step_RecordProgress step_BindResolvedSource step_BindPreparedImage
  step_RecordCheck step_BindPreflight step_Claim step_Release

lemma exec_effect:
  assumes ok: "call_ok c s" and inv: "store_inv s"
  shows "effect s (new_id_of c) (exec c s)"
proof -
  have n: "counters_ok s" and t: "list_all time_ok (clock_of c)" using ok by (auto simp: call_ok_def)
  note start = effect_begin [OF _ _ inv]
  note advancing = step_methods [OF inv n, THEN effect_advances]
  from t ok show ?thesis
    by (cases c)
       (auto simp: Begin_def BeginUnique_def BeginRunValidatedWithPrevious_def
         intro!: start advancing effect_Tombstone [OF inv] effect_Finalize [OF inv] effect_Prune [OF inv]
         intro: effect.intros split: sum.split)
qed

lemma effect_inv: "effect s new t \<Longrightarrow> journal_inv s \<Longrightarrow> journal_inv t"
proof (induction rule: effect.induct)
  case (effect_restart t)
  with restart_inv show ?case by fastforce
next
  case (effect_forget k)
  then show ?case
    by (auto simp: journal_inv_def synced_def store_inv_tombstones store_inv_wf split: option.splits if_splits)
next
  case (effect_unmark k now)
  then have "store_inv (set_tombstones (put k now (st_Tombstones s)) s)"
    by (simp add: journal_inv_def store_inv_tombstones store_inv_wf)
  from persisted_loadable [OF this] effect_unmark show ?case
    by (auto simp: journal_inv_def synced_def)
qed (auto simp: journal_inv_def [of s] intro!: journal_inv_durable store_inv_set_operation
       store_inv_tombstones store_inv_filter)

interpretation journal: invariant_system journal_init journal_step journal_inv
proof
  fix s assume "journal_init s"
  then show "journal_inv s"
  proof (unfold journal_init_def, elim disjE exE conjE)
    assume "OpenStore FileMissing = Inr s"
    then show ?thesis by (auto simp: empty_store_def journal_inv_def store_inv_def synced_def)
  next
    fix d assume d: "OpenStore (FileContent (Some d)) = Inr s" "decoded d"
    with OpenStore_inv [OF d] OpenStore_Inr [OF d] show ?thesis
      by (auto simp: journal_inv_def synced_def)
  qed
next
  fix s c t assume "journal_inv s" "journal_step s c t"
  then show "journal_inv t"
    by (auto simp: journal_inv_def [of s] intro: effect_inv [OF exec_effect] simp del: exec.simps)
qed

end
