(* ===== verification/RecipeOpsProps.thy ===== *)
theory RecipeOpsProps
  imports RecipeOpsSystem "HOL-Library.Multiset"
begin

text \<open>
  Properties of the operation journal: restart, validity and evolution of records, atomic methods,
  admission on evidence, tombstones, guarded mutations, retention, inventory, and the one place
  where memory and disk part.
\<close>

subsection \<open>One record along a run\<close>

definition keeps :: "string \<Rightarrow> Store \<Rightarrow> Store \<Rightarrow> bool" where
  "keeps k s t \<longleftrightarrow> (\<forall>op'. lookup (st_Operations t) k = Some op' \<longrightarrow>
     (\<exists>op. lookup (st_Operations s) k = Some op \<and> evolves op op'))"

text \<open>A step that does not admit an operation under the identifier \<open>k\<close>.\<close>

definition quiet_step :: "string \<Rightarrow> Store \<Rightarrow> journal_call \<Rightarrow> Store \<Rightarrow> bool" where
  "quiet_step k s c t \<longleftrightarrow> journal_step s c t \<and> new_id_of c \<noteq> Some k"

lemma keeps_same: "st_Operations t = st_Operations s \<Longrightarrow> keeps k s t"
  by (auto simp: keeps_def intro: evolves_refl)

lemma effect_keeps: "effect s new t \<Longrightarrow> journal_inv s \<Longrightarrow> new \<noteq> Some k \<Longrightarrow> keeps k s t"
proof (induction rule: effect.induct)
  case (effect_restart t)
  with restart_inv show ?case by (fastforce intro: keeps_same)
next
  case (effect_drop p)
  then show ?case
    by (auto simp: keeps_def journal_inv_def store_inv_def lookup_filter split: option.splits if_splits
        intro: evolves_refl)
qed (auto simp: keeps_def intro: evolves_refl)

interpretation one_record: monotone_system journal_init "quiet_step k" journal_inv "keeps k" for k
proof
  show "journal_init s \<Longrightarrow> journal_inv s" for s by (rule journal.inv_init)
  show "journal_inv s \<Longrightarrow> quiet_step k s c t \<Longrightarrow> journal_inv t" for s c t
    unfolding quiet_step_def by (elim conjE, rule journal.inv_step)
  show "keeps k s s" for s by (rule keeps_same) simp
  show "keeps k s t \<Longrightarrow> keeps k t u \<Longrightarrow> keeps k s u" for s t u
    by (fastforce simp: keeps_def intro: evolves_trans)
  show "journal_inv s \<Longrightarrow> quiet_step k s c t \<Longrightarrow> keeps k s t" for s c t
    by (auto simp: quiet_step_def journal_inv_def [of s] simp del: exec.simps
        intro!: effect_keeps [OF exec_effect])
qed


lemma keepsD:
  "keeps k s t \<Longrightarrow> lookup (st_Operations t) k = Some op' \<Longrightarrow>
     \<exists>op. lookup (st_Operations s) k = Some op \<and> evolves op op'"
  by (simp add: keeps_def)

subsection \<open>Properties of runs\<close>

definition some_time :: string where
  "some_time = ''2025-01-02T03:04:05Z''"

definition run_example :: Store where
  "run_example = exec (CTombstone some_time None None ''r1'' (Some None)) (empty_store None)"

lemma run_example_reach: "reach journal_init journal_step run_example"
proof -
  have "reach journal_init journal_step (empty_store None)"
    by (rule reach_init) (simp add: journal_init_def)
  moreover have "journal_step (empty_store None) (CTombstone some_time None None ''r1'' (Some None)) run_example"
    unfolding run_example_def
    by (rule journal_call) (simp add: call_ok_def counters_ok_def empty_store_def)
  ultimately show ?thesis by (rule reach_step)
qed

lemma run_example_facts: "time_ok some_time" "trim_space ''r1'' \<noteq> ''''"
  by code_simp+

lemma run_example_eq:
  "st_Operations run_example = []" "st_Tombstones run_example = [(''r1'', some_time)]"
  "st_Disk run_example = Some \<lparr>dd_Version = 1, dd_Operations = [], dd_Tombstones = [(''r1'', some_time)]\<rparr>"
  by (simp_all add: run_example_def outcome_def Tombstone_def empty_store_def set_tombstones_def saveLocked_def
      run_example_facts persisted_def documentVersion_def Let_def)



text \<open>In every reachable state each operation is stored under its own identifier and passes the
  validation that \<open>Open\<close> applies, with the historical exception for its recipe snapshot only when
  the raw members of the snapshot hash to the recorded revision.\<close>
theorem journal_operations_valid:
  assumes "reach journal_init journal_step s" "lookup (st_Operations s) k = Some op"
  shows "o_ID op = k \<and>
    (case lookup (st_Historical s) k of None \<Rightarrow> validOperation op
     | Some raw \<Rightarrow> raw_revision raw = o_RecipeRevision op \<and> validOperationWithHistoricalSnapshot op True)"
  using store_inv_lookup [OF _ assms(2)] journal.reach_inv [OF assms(1)]
  by (simp add: journal_inv_def op_ok_def)

text \<open>C2: While operations run, records are pruned and the daemon restarts, a record keeps its
  identity (kind, recipe, revision, snapshot, creation time, previous runtime); a bound source
  revision, a bound image and the evidence of a run never change; the sequence number and the
  overall progress never go back; and the checkpoints only grow, along valid phase transitions that
  lead from the old phase to the new one.\<close>
theorem record_evolution:
  assumes "reach journal_init journal_step s" "steps (quiet_step k) s cs t"
    and "lookup (st_Operations t) k = Some op'"
  shows "\<exists>op. lookup (st_Operations s) k = Some op \<and> evolves op op'"
  by (rule keepsD [OF one_record.steps_rel [OF assms(2) journal.reach_inv [OF assms(1)]] assms(3)])


text \<open>A journal with one run that was written before snapshots were recorded.\<close>

definition old_run :: Operation where
  "old_run = (new_operation some_time ''op1'' KindRun (recipeFromDraft ''r1'' '''' '''' '''' deepSeekDraft) ''v1''
     (recipeFromDraft '''' '''' '''' '''' deepSeekDraft) PhasePreparing None)"

definition old_journal :: disk_doc where
  "old_journal = \<lparr>dd_Version = 1,
     dd_Operations = [(''op1'', \<lparr>dk_Operation = old_run, dk_Raw = None\<rparr>)], dd_Tombstones = []\<rparr>"

definition old_store :: Store where
  "old_store = \<lparr>st_Operations = [(''op1'', old_run)], st_Tombstones = [], st_Historical = [],
     st_Disk = Some old_journal\<rparr>"

lemma old_run_facts:
  "o_ID old_run = ''op1'' \<and> o_Sequence old_run = 1 \<and> o_Phase old_run = PhasePreparing \<and>
    o_Kind old_run = KindRun \<and> o_RecipeID old_run = ''r1'' \<and> o_Resources old_run = []"
  "detached old_run" "validOperation old_run"
  by (simp add: old_run_def new_operation_def recipeFromDraft_def) code_simp+

lemma old_store_reach: "reach journal_init journal_step old_store"
proof (rule reach_init)
  have "OpenStore (FileContent (Some old_journal)) = Inr old_store"
    using old_run_facts
    by (simp add: old_journal_def old_store_def documentVersion_def loadable_def authenticHistorical_def
        rawPersistedSnapshotRevision_def validOperation_def historical_of_def List.map_filter_simps)
  moreover have "decoded old_journal"
    using old_run_facts by (simp add: decoded_def old_journal_def wf_map_def)
  ultimately show "journal_init old_store" unfolding journal_init_def by blast
qed

theorem journal_operations_valid_witness: "o_ID old_run = ''op1'' \<and> validOperation old_run"
  using journal_operations_valid [OF old_store_reach, of "''op1''" old_run] by (simp add: old_store_def)


definition old_run_failed :: Store where
  "old_run_failed = exec (CTransition some_time None ''op1'' PhaseFailed (Some ''boom'')) old_store"

theorem record_evolution_witness:
  "\<exists>op op'. lookup (st_Operations old_store) ''op1'' = Some op \<and>
     lookup (st_Operations old_run_failed) ''op1'' = Some op' \<and> evolves op op' \<and> o_Phase op' = PhaseFailed"
proof -
  have "quiet_step ''op1'' old_store (CTransition some_time None ''op1'' PhaseFailed (Some ''boom'')) old_run_failed"
    unfolding quiet_step_def old_run_failed_def
    by (intro conjI journal_call)
       (simp_all add: call_ok_def counters_ok_def old_store_def old_run_facts new_id_of_def some_time_def, code_simp)
  then have run: "steps (quiet_step ''op1'') old_store
      [CTransition some_time None ''op1'' PhaseFailed (Some ''boom'')] old_run_failed"
    by (auto intro: steps.intros)
  have "\<exists>op'. lookup (st_Operations old_run_failed) ''op1'' = Some op' \<and> o_Phase op' = PhaseFailed"
    using detached_marshals [OF old_run_facts(2)] old_run_facts
    by (simp add: old_run_failed_def old_store_def Transition_def ValidTransition_def successors_def commit_def
        saveLocked_def set_operation_def Let_def touch_def)
  then obtain op' where "lookup (st_Operations old_run_failed) ''op1'' = Some op'" "o_Phase op' = PhaseFailed"
    by blast
  with record_evolution [OF old_store_reach run] show ?thesis by blast
qed


subsection \<open>Admission\<close>

lemma beginWithPrevious_Inr:
  assumes "beginWithPrevious env kind recipe initial unique requirePreflight previous s = (Inr op, t)"
  obtains op' where "admit env kind recipe initial unique requirePreflight previous s = Inr op'"
    "op = detachedOperation op'" "st_Operations t = put (o_ID op') op' (st_Operations s)"
    "st_Disk t = Some (persisted t)" "st_Tombstones t = st_Tombstones s"
  using assms
  by (auto simp: beginWithPrevious_def Let_def saveLocked_def split: sum.splits option.splits if_splits)

lemma detachedOperation_fields [simp]:
  "o_ID (detachedOperation op) = o_ID op" "o_Kind (detachedOperation op) = o_Kind op"
  "o_Phase (detachedOperation op) = o_Phase op" "o_Preflight (detachedOperation op) = o_Preflight op"
  "o_RecipeID (detachedOperation op) = o_RecipeID op" "o_Resources (detachedOperation op) = o_Resources op"
  "o_RecipeRevision (detachedOperation op) = o_RecipeRevision op" "o_CreatedAt (detachedOperation op) = o_CreatedAt op"
  by (simp_all add: detachedOperation_def split: option.split)

lemma initial_blocks:
  "validKind kind \<Longrightarrow> o_Kind op = kind \<Longrightarrow> o_Phase op = initialPhase kind \<Longrightarrow> operationBlocksAdmission op incoming"
  by (auto simp: validKind_def operationBlocksAdmission_def final_phase_def)


text \<open>C4: Unique admission is exclusive: after \<open>BeginUnique\<close> or a validated run succeeds, every
  further unique admission is refused and leaves the store unchanged, as long as the admitted
  record is still in its first phase.\<close>
theorem unique_admission_exclusive:
  assumes first: "beginWithPrevious env kind recipe initial True requirePreflight previous s = (Inr op, t)"
    and held: "lookup (st_Operations u) (o_ID op) = Some e" "o_Kind e = o_Kind op" "o_Phase e = o_Phase op"
  shows "\<exists>err. beginWithPrevious env' kind' recipe' initial' True requirePreflight' previous' u = (Inl err, u)"
proof (cases "admit env' kind' recipe' initial' True requirePreflight' previous' u")
  case (Inr x)
  from first obtain op' where "admit env kind recipe initial True requirePreflight previous s = Inr op'"
    "op = detachedOperation op'" by (rule beginWithPrevious_Inr)
  with admit_admitted [OF this(1)] held have "operationBlocksAdmission e kind'"
    by (auto simp: admitted_def intro: initial_blocks)
  with admit_admitted [OF Inr] lookup_Some_in_set [OF held(1)] show ?thesis
    by (auto simp: admitted_def)
qed (simp add: beginWithPrevious_def)

lemma tombstoned_admit:
  "IsTombstoned (r_ID recipe) s \<Longrightarrow>
    \<exists>e. admit env kind recipe initial unique requirePreflight previous s = Inl e"
  by (cases "admit env kind recipe initial unique requirePreflight previous s")
     (auto simp: IsTombstoned_def dest!: admit_admitted simp: admitted_def)

text \<open>A deletion mark closes a recipe: while it is tombstoned no operation of it is admitted and
  no guarded mutation runs its callback; both leave every state unchanged.\<close>
theorem tombstoned_recipe_closed:
  assumes "IsTombstoned (r_ID recipe) s"
  shows "(\<exists>e. beginWithPrevious env kind recipe initial unique requirePreflight previous s = (Inl e, s)) \<and>
    (\<exists>e. ExecuteMutation (r_ID recipe) mutate s x = (Some e, x))"
  using tombstoned_admit [OF assms, of env kind initial unique requirePreflight previous] assms
  by (auto simp: beginWithPrevious_def ExecuteMutation_def IsTombstoned_def split: option.split)

theorem tombstoned_recipe_closed_witness:
  "fst (ExecuteMutation ''r1'' (Some (\<lambda>n. (None, Suc n))) run_example 0) \<noteq> None"
proof -
  let ?r = "recipeFromDraft ''r1'' '''' '''' '''' deepSeekDraft"
  have r: "r_ID ?r = ''r1''" by (simp add: recipeFromDraft_def syncCompatibility_def)
  then have "IsTombstoned (r_ID ?r) run_example" by (simp add: IsTombstoned_def run_example_eq)
  from tombstoned_recipe_closed [OF this, where mutate = "Some (\<lambda>n. (None, Suc n))" and x = "0 :: nat"] obtain e where
    "ExecuteMutation (r_ID ?r) (Some (\<lambda>n. (None, Suc n))) run_example 0 = (Some e, 0)" by blast
  then show ?thesis by (simp add: r)
qed

text \<open>\<open>ExecuteMutation\<close> runs its callback exactly when the recipe is not tombstoned and none of
  its operations blocks a mutation; otherwise the callback's state is unchanged, and the reported
  conflict is the blocking operation that was updated last, whatever order the map is read in.\<close>
theorem ExecuteMutation_behaviour:
  assumes "store_inv s" "trim_space recipeID \<noteq> ''''" "\<not> IsTombstoned recipeID s"
  shows "(if \<exists>(k, op) \<in> set (st_Operations s). o_RecipeID op = recipeID \<and> operationBlocksMutation op
    then \<exists>(k, b) \<in> set (st_Operations s). o_RecipeID b = recipeID \<and> operationBlocksMutation b \<and>
       (\<forall>(k', op) \<in> set (st_Operations s). o_RecipeID op = recipeID \<and> operationBlocksMutation op \<longrightarrow> \<not> updated_later op b) \<and>
       ExecuteMutation recipeID (Some f) s x = (Some (MutationConflict b), x)
    else ExecuteMutation recipeID (Some f) s x = map_prod (map_option CallbackFailed) id (f x))"
proof -
  let ?bs = "filter (\<lambda>op. o_RecipeID op = recipeID \<and> operationBlocksMutation op) (map snd (st_Operations s))"
  show ?thesis
  proof (cases "pick updated_later None ?bs")
    case None
    then have "?bs = []" by (simp only: newest_updated.pick_empty_iff)
    then have "\<not> (\<exists>(k, op) \<in> set (st_Operations s). o_RecipeID op = recipeID \<and> operationBlocksMutation op)"
      by (auto simp: filter_empty_conv)
    then show ?thesis using None assms by (simp add: ExecuteMutation_def IsTombstoned_def)
  next
    case (Some b)
    from newest_updated.pick_mem [OF Some] obtain k where
      k: "(k, b) \<in> set (st_Operations s)" "o_RecipeID b = recipeID" "operationBlocksMutation b" by auto
    have "detached b" using k(1) assms(1) by (auto simp: store_inv_def op_ok_def)
    moreover have "\<not> updated_later op b" if "(k', op) \<in> set (st_Operations s)"
        "o_RecipeID op = recipeID" "operationBlocksMutation op" for k' op
      using newest_updated.pick_greatest [OF Some, of op] that newest_updated.newer_iff
      by (force simp: not_less)
    ultimately show ?thesis using Some k assms
      by (auto simp: ExecuteMutation_def IsTombstoned_def intro!: bexI [of _ "(k, b)"])
  qed
qed


subsection \<open>Concrete admissions\<close>

definition ex_recipe :: Recipe where
  "ex_recipe = recipeFromDraft ''r1'' '''' '''' '''' deepSeekDraft"

definition ex_env :: start_env where
  "ex_env = \<lparr>env_now = some_time, env_rand = Inr (replicate 16 7), env_fault = None\<rparr>"

definition ex_revision :: string where
  "ex_revision = (case RecipeRevision ex_recipe of None \<Rightarrow> '''' | Some r \<Rightarrow> r)"

lemma ex_recipe_facts:
  "r_ID ex_recipe = ''r1''" "recipe_marshals ex_recipe" "RecipeRevision ex_recipe = Some ex_revision"
proof -
  show "r_ID ex_recipe = ''r1''" "recipe_marshals ex_recipe" by code_simp+
  have "f64_text (mdl_GPUMemoryUtilization (d_Model (DraftFromRecipe '''' ex_recipe))) \<noteq> None"
    by code_simp
  then have "canonicalDraft (DraftFromRecipe '''' ex_recipe) \<noteq> None"
    by (simp add: canonicalDraft_def draft_members_def model_json_def)
  then show "RecipeRevision ex_recipe = Some ex_revision"
    by (auto simp: ex_revision_def RecipeRevision_def recipeRevisionForDraft_def)
qed

definition ex_fingerprint :: string where
  "ex_fingerprint = ''sha256:0123456789abcdef0123456789abcdef0123456789abcdef0123456789abcdef''"

definition ex_passed :: CheckResult where
  "ex_passed = \<lparr>ck_ID = ''disk'', ck_Status = CheckPass, ck_Summary = ''enough space'', ck_Detail = '''',
     ck_ObservedAt = some_time, ck_Values = []\<rparr>"

definition ex_checking :: Operation where
  "ex_checking = (new_operation some_time ''op0'' KindCheck ex_recipe ex_revision (detach_recipe ex_recipe)
     PhaseChecking None)\<lparr>o_Checks := [ex_passed]\<rparr>"

definition ex_artifact :: PreflightArtifact where
  "ex_artifact = (case newPreflightArtifact some_time ex_checking '''' ex_fingerprint ex_fingerprint of
     None \<Rightarrow> undefined | Some a \<Rightarrow> a)"

definition ex_store :: Store where
  "ex_store = (empty_store None)\<lparr>st_Operations :=
     [(''op0'', ex_checking\<lparr>o_Phase := PhasePrepared, o_Preflight := Some ex_artifact\<rparr>)]\<rparr>"

lemma newPreflightArtifact_verdict:
  "newPreflightArtifact now op img platform cluster = Some a \<Longrightarrow>
    pf_Runnable a = (o_Checks op \<noteq> [] \<and> list_all check_runnable (o_Checks op)) \<and>
    pf_Launchable a = (o_Checks op \<noteq> [] \<and> list_all (\<lambda>c. ck_Status c = CheckPass) (o_Checks op)) \<and>
    pf_Checks a = o_Checks op"
  by (auto simp: newPreflightArtifact_def Let_def split: if_splits)

lemma ex_artifact_facts:
  "newPreflightArtifact some_time ex_checking '''' ex_fingerprint ex_fingerprint = Some ex_artifact"
  "validPreflightArtifact ex_artifact" "pf_Runnable ex_artifact"
proof -
  have fp: "trim_space ex_fingerprint = ex_fingerprint" "validSHA256Identity ex_fingerprint"
    "to_lower (trim_space '''') = ''''" "valid_check ex_passed" "check_runnable ex_passed" by code_simp+
  then show made: "newPreflightArtifact some_time ex_checking '''' ex_fingerprint ex_fingerprint = Some ex_artifact"
    by (simp add: ex_artifact_def newPreflightArtifact_def Let_def)
  from recipeRevision_nonempty ex_recipe_facts(3) have "ex_revision \<noteq> ''''"
    unfolding RecipeRevision_def by blast
  with newPreflightArtifact_valid [OF made] fp run_example_facts show "validPreflightArtifact ex_artifact"
    by (simp add: ex_checking_def new_operation_def ex_recipe_facts)
  from newPreflightArtifact_verdict [OF made] fp show "pf_Runnable ex_artifact"
    by (simp add: ex_checking_def)
qed

lemma ex_run_admitted:
  "\<exists>op t. BeginRunValidatedWithPrevious ex_env ex_recipe zero_PreviousRuntime ex_store = (Inr op, t)"
proof -
  have "latestLaunchablePreflight (st_Operations ex_store) ''r1'' ex_revision = Some ex_artifact"
    by (simp add: ex_store_def latestLaunchablePreflight_def launchable_for_def ex_checking_def new_operation_def
        ex_recipe_facts ex_artifact_facts)
  moreover have "cloneRecipe ex_recipe = Some (detach_recipe ex_recipe)"
    by (simp add: cloneRecipe_def ex_recipe_facts)
  moreover have "\<not> operationBlocksAdmission (snd e) KindRun" if "e \<in> set (st_Operations ex_store)" for e
    using that by (auto simp: ex_store_def operationBlocksAdmission_def owns_runtime_def ex_checking_def new_operation_def)
  ultimately have "\<exists>op. admit ex_env KindRun ex_recipe PhasePreparing True True (Some zero_PreviousRuntime) ex_store = Inr op \<and>
      recipe_marshals (o_RecipeSnapshot op)"
    by (auto simp: admit_def Let_def validKind_def ValidTransition_def successors_def ex_recipe_facts ex_env_def
        new_operation_def find_None_iff split: option.split) (auto simp: ex_store_def empty_store_def)
  then show ?thesis
    by (auto simp: BeginRunValidatedWithPrevious_def beginWithPrevious_def Let_def saveLocked_def ex_env_def
        set_operation_def ex_store_def ex_checking_def new_operation_def ex_recipe_facts)
qed


theorem unique_admission_exclusive_witness:
  "\<exists>op t err. BeginRunValidatedWithPrevious ex_env ex_recipe zero_PreviousRuntime ex_store = (Inr op, t) \<and>
     BeginUnique ex_env KindCheck ex_recipe PhaseChecking t = (Inl err, t)"
proof -
  from ex_run_admitted obtain op t where
    r: "beginWithPrevious ex_env KindRun ex_recipe PhasePreparing True True (Some zero_PreviousRuntime) ex_store = (Inr op, t)"
    unfolding BeginRunValidatedWithPrevious_def by blast
  then obtain op' where "op = detachedOperation op'" "st_Operations t = put (o_ID op') op' (st_Operations ex_store)"
    by (rule beginWithPrevious_Inr)
  with unique_admission_exclusive [OF r, of t op'] r show ?thesis
    unfolding BeginUnique_def BeginRunValidatedWithPrevious_def by simp
qed

theorem ExecuteMutation_behaviour_witness:
  "ExecuteMutation ''r1'' (Some (\<lambda>n. (None, Suc n))) old_store 0 = (Some (MutationConflict old_run), 0)"
proof -
  have "store_inv old_store"
    using journal.reach_inv [OF old_store_reach] by (simp add: journal_inv_def)
  from ExecuteMutation_behaviour [OF this run_example_facts(2), of "\<lambda>n. (None, Suc n)" 0] old_run_facts show ?thesis
    by (simp add: old_store_def IsTombstoned_def operationBlocksMutation_def owns_runtime_def final_phase_def)
qed


subsection \<open>Preflight evidence\<close>

text \<open>The artifact that a check binds is sound evidence: it validates, names the recipe and the
  revision of the check, is runnable exactly when every check was observed and none failed, is
  launchable exactly when all passed (which implies runnable), matches the fingerprints it was made
  for, and no other evidence hash validates on it.\<close>
theorem preflight_artifact_sound:
  assumes "newPreflightArtifact now op img platform cluster = Some a"
    and "o_RecipeID op \<noteq> ''''" "o_RecipeRevision op \<noteq> ''''" "list_all valid_check (o_Checks op)" "time_ok now"
  shows "Matches a (o_RecipeRevision op) (trim_space platform) (trim_space cluster) \<and> pf_RecipeID a = o_RecipeID op \<and>
    (pf_Runnable a \<longleftrightarrow> o_Checks op \<noteq> [] \<and> list_all check_runnable (o_Checks op)) \<and>
    (pf_Launchable a \<longleftrightarrow> o_Checks op \<noteq> [] \<and> list_all (\<lambda>c. ck_Status c = CheckPass) (o_Checks op)) \<and>
    (pf_Launchable a \<longrightarrow> pf_Runnable a) \<and>
    (\<forall>h. validPreflightArtifact (a\<lparr>pf_EvidenceHash := h\<rparr>) \<longrightarrow> h = pf_EvidenceHash a)"
proof -
  note v = newPreflightArtifact_valid [OF assms] and r = newPreflightArtifact_verdict [OF assms(1)]
  have "pf_PlatformFingerprint a = trim_space platform \<and> pf_ClusterFingerprint a = trim_space cluster"
    using assms(1) by (auto simp: newPreflightArtifact_def Let_def split: if_splits)
  moreover have "pf_Runnable a" if "pf_Launchable a"
    using that r by (auto simp: list_all_iff check_runnable_def)
  moreover have "h = pf_EvidenceHash a" if "validPreflightArtifact (a\<lparr>pf_EvidenceHash := h\<rparr>)" for h
    using that v by (simp add: validPreflightArtifact_def)
  ultimately show ?thesis using v r by (auto simp: Matches_def)
qed

theorem preflight_artifact_sound_witness:
  "Matches ex_artifact ex_revision ex_fingerprint ex_fingerprint \<and> pf_Launchable ex_artifact"
proof -
  have fp: "trim_space ex_fingerprint = ex_fingerprint" "valid_check ex_passed" "ck_Status ex_passed = CheckPass"
    by code_simp+
  from recipeRevision_nonempty ex_recipe_facts(3) have "ex_revision \<noteq> ''''"
    unfolding RecipeRevision_def by blast
  with preflight_artifact_sound [OF ex_artifact_facts(1)] fp run_example_facts show ?thesis
    by (simp add: ex_checking_def new_operation_def ex_recipe_facts)
qed

subsection \<open>Retention\<close>

lemma lookup_latest_fold:
  "lookup (foldl latest_check_step m xs) key =
     pick updated_later (lookup m key) (filter (\<lambda>op. reusable_check op \<and> check_key op = key) xs)"
proof (induction xs arbitrary: m)
  case (Cons op xs)
  have "lookup (latest_check_step m op) key =
      (if reusable_check op \<and> check_key op = key
       then (case lookup m key of None \<Rightarrow> Some op | Some b \<Rightarrow> if updated_later op b then Some op else Some b)
       else lookup m key)"
    by (auto simp: latest_check_step_def split: option.split)
  then show ?case using Cons.IH by simp
qed simp

lemma lookup_latestChecks:
  "lookup (latestChecks ops) key =
     pick updated_later None (filter (\<lambda>op. reusable_check op \<and> check_key op = key) (map snd ops))"
  by (simp add: latestChecks_def lookup_latest_fold)

lemma store_ids:
  "store_inv s \<Longrightarrow> (k, op) \<in> set (st_Operations s) \<Longrightarrow> o_ID op = k"
  by (auto simp: store_inv_def op_ok_def)

lemma updated_rank_inj: "updated_rank x = updated_rank y \<Longrightarrow> o_ID x = o_ID y"
  by (simp add: updated_rank_def)

lemma latest_check_protected:
  assumes inv: "store_inv s" and op: "(k, op) \<in> set (st_Operations s)" "reusable_check op"
    and latest: "\<And>k' c. (k', c) \<in> set (st_Operations s) \<Longrightarrow> reusable_check c \<Longrightarrow>
        check_key c = check_key op \<Longrightarrow> \<not> updated_later c op"
  shows "o_ID op \<in> set (protected_ids (st_Operations s))"
proof -
  let ?cs = "filter (\<lambda>c. reusable_check c \<and> check_key c = check_key op) (map snd (st_Operations s))"
  have mem: "op \<in> set ?cs" using op by force
  then have "?cs \<noteq> []" by (metis empty_iff list.set(1))
  then obtain c where c: "pick updated_later None ?cs = Some c"
    using newest_updated.pick_empty_iff [of ?cs] by (cases "pick updated_later None ?cs") blast+
  from newest_updated.pick_mem [OF c] latest have "\<not> updated_later c op" by auto
  moreover have "updated_rank op \<le> updated_rank c" by (rule newest_updated.pick_greatest [OF c mem])
  ultimately have "updated_rank c = updated_rank op" using newest_updated.newer_iff by (metis antisym not_less)
  then have "o_ID c = o_ID op" by (rule updated_rank_inj)
  moreover have "(check_key op, c) \<in> set (latestChecks (st_Operations s))"
    using c lookup_latestChecks [of "st_Operations s" "check_key op"] by (auto intro: lookup_Some_in_set)
  ultimately show ?thesis by (force simp: protected_ids_def)
qed

lemma pruned_not_protected:
  "i \<in> set (pruned_ids retain maxAge now ops) \<Longrightarrow> i \<notin> set (protected_ids ops)"
  by (auto simp: pruned_ids_def prune_candidates_def enumerate_eq_zip dest!: set_zip_rightD)

lemma Prune_operations:
  assumes "store_inv s" "snd (Prune fault now retain maxAge s) = t"
  shows "st_Operations t = st_Operations s \<or> st_Operations t =
    filter (\<lambda>e. fst e \<notin> set (pruned_ids retain maxAge now (st_Operations s))) (st_Operations s)"
  using Prune_cases [OF assms(1), of fault now retain maxAge] assms(2) by auto

text \<open>Pruning never drops an operation that needs recovery nor, for any recipe and revision, the
  most recently updated reusable check, whatever the clock, the bounds and the outcome of the save;
  what it keeps is unchanged.\<close>
theorem Prune_keeps_protected:
  assumes "store_inv s" "snd (Prune fault now retain maxAge s) = t" "lookup (st_Operations s) k = Some op"
    and "NeedsRecovery op \<or> (reusable_check op \<and>
      (\<forall>(k', c) \<in> set (st_Operations s). reusable_check c \<and> check_key c = check_key op \<longrightarrow> \<not> updated_later c op))"
  shows "lookup (st_Operations t) k = Some op"
proof -
  have op: "(k, op) \<in> set (st_Operations s)" "o_ID op = k"
    using lookup_Some_in_set [OF assms(3)] store_ids [OF assms(1)] by auto
  from assms(4) have "o_ID op \<in> set (protected_ids (st_Operations s))"
  proof
    assume "NeedsRecovery op" then show ?thesis using op(1) by (force simp: protected_ids_def)
  qed (use latest_check_protected [OF assms(1) op(1)] in blast)
  with op pruned_not_protected have "k \<notin> set (pruned_ids retain maxAge now (st_Operations s))" by metis
  with Prune_operations [OF assms(1,2)] assms(1,3) show ?thesis
    by (auto simp: lookup_filter store_inv_wf)
qed


lemma prune_survivor:
  assumes "(k, op) \<in> set ops" "o_ID op \<notin> set (protected_ids ops)" "o_ID op \<notin> set (pruned_ids retain maxAge now ops)"
    and "0 \<le> retain"
  shows "op \<in> set (take (nat retain) (prune_candidates ops)) \<and> \<not> too_old now maxAge op"
proof -
  have "op \<in> set (prune_candidates ops)" using assms(1,2) by (force simp: prune_candidates_def)
  then obtain i where i: "i < length (prune_candidates ops)" "prune_candidates ops ! i = op"
    by (auto simp: in_set_conv_nth)
  then have "(i, op) \<in> set (enumerate 0 (prune_candidates ops))" by (simp add: in_set_enumerate_eq)
  with assms(3) have "\<not> (retain \<le> int i \<or> too_old now maxAge op)" by (force simp: pruned_ids_def)
  with i assms(4) show ?thesis by (auto simp: in_set_conv_nth intro!: exI [of _ i])
qed

text \<open>A successful prune bounds the history: of the operations that neither need recovery nor are
  the newest reusable check of their revision at most \<open>retain\<close> are left, and none of them is older
  than the retention age.\<close>
theorem Prune_bounds_history:
  assumes "store_inv s" "Prune fault now retain maxAge s = (None, t)"
  shows "length (filter (\<lambda>e. o_ID (snd e) \<notin> set (protected_ids (st_Operations s))) (st_Operations t)) \<le> nat retain \<and>
    (\<forall>(k, op) \<in> set (st_Operations t). o_ID op \<notin> set (protected_ids (st_Operations s)) \<longrightarrow> \<not> too_old now maxAge op)"
proof -
  let ?ops = "st_Operations s"
  let ?gone = "pruned_ids retain maxAge now ?ops"
  let ?free = "filter (\<lambda>e. o_ID (snd e) \<notin> set (protected_ids ?ops)) (st_Operations t)"
  have r: "0 \<le> retain" using assms(2) by (auto simp: Prune_def split: if_splits)
  have t: "st_Operations t = filter (\<lambda>e. fst e \<notin> set ?gone) ?ops"
    using assms(2) r by (auto simp: Prune_def Let_def saveLocked_def split: if_splits option.splits sum.splits)
  have alive: "op \<in> set (take (nat retain) (prune_candidates ?ops)) \<and> \<not> too_old now maxAge op"
    if "(k, op) \<in> set ?free" for k op
    using that t store_ids [OF assms(1), of k op] by (intro prune_survivor [OF _ _ _ r]) auto
  have "distinct (map fst ?free)"
    using wf_map_filter [of ?ops] store_inv_wf(1) [OF assms(1)] by (auto simp: t wf_map_def intro: distinct_map_filter)
  then have "length ?free = card (set (map fst ?free))" by (metis distinct_card length_map)
  also have "\<dots> \<le> card (set (map o_ID (take (nat retain) (prune_candidates ?ops))))"
  proof (rule card_mono)
    show "set (map fst ?free) \<subseteq> set (map o_ID (take (nat retain) (prune_candidates ?ops)))"
      using alive store_ids [OF assms(1)] t by fastforce
  qed simp
  also have "\<dots> \<le> nat retain" using card_length [of "map o_ID (take (nat retain) (prune_candidates ?ops))"] by simp
  finally show ?thesis using alive by auto
qed


text \<open>A journal whose only run has failed.\<close>

definition failed_store :: Store where
  "failed_store = old_store\<lparr>st_Operations := [(''op1'', old_run\<lparr>o_Phase := PhaseFailed\<rparr>)]\<rparr>"

lemma old_store_inv: "store_inv old_store"
  using journal.reach_inv [OF old_store_reach] by (simp add: journal_inv_def)

lemma failed_store_inv: "store_inv failed_store"
proof -
  have "op_ok [] ''op1'' old_run" using old_store_inv by (simp add: store_inv_def old_store_def)
  then have "op_ok [] ''op1'' (old_run\<lparr>o_Phase := PhaseFailed\<rparr>)"
    by (auto simp: op_ok_iff identity_ok_cong [of "old_run\<lparr>o_Phase := PhaseFailed\<rparr>" old_run]
        final_phase_def intro!: body_ok_updates)
  then show ?thesis by (simp add: store_inv_def failed_store_def old_store_def wf_map_def)
qed

theorem Prune_keeps_protected_witness:
  "lookup (st_Operations (snd (Prune None 0 0 1 old_store))) ''op1'' = Some old_run"
  using Prune_keeps_protected [OF old_store_inv refl, of "''op1''" old_run] old_run_facts
  by (simp add: old_store_def NeedsRecovery_def owns_runtime_def final_phase_def)

theorem Prune_bounds_history_witness:
  "\<exists>t. Prune None 0 0 0 failed_store = (None, t) \<and> st_Operations t = []"
proof -
  have free: "protected_ids (st_Operations failed_store) = []"
    using old_run_facts
    by (simp add: protected_ids_def failed_store_def NeedsRecovery_def owns_runtime_def final_phase_def
        latestChecks_def latest_check_step_def reusable_check_def)
  have "fst (Prune None 0 0 0 failed_store) = None"
    by (simp add: Prune_def Let_def saveLocked_durable [OF store_inv_filter [OF failed_store_inv]])
  then obtain t where t: "Prune None 0 0 0 failed_store = (None, t)"
    by (metis prod.collapse)
  with Prune_bounds_history [OF failed_store_inv t] show ?thesis by (simp add: free)
qed

subsection \<open>Lifecycle\<close>

text \<open>The lifecycle is sound: from every phase an operation can be in recovery is possible and a
  final phase is at most two steps away, a final phase is left only for recovery, nothing returns to
  the start, and a runtime becomes active only after verification or during recovery.\<close>
theorem lifecycle_sound:
  "\<forall>p \<in> set table_phases. \<forall>q \<in> set table_phases.
     (p \<noteq> NoPhase \<longrightarrow> ValidTransition p PhaseRecovering) \<and>
     (\<exists>m \<in> set table_phases. \<exists>f \<in> set table_phases. ValidTransition p m \<and> ValidTransition m f \<and> final_phase f) \<and>
     (final_phase p \<and> ValidTransition p q \<longrightarrow> q = p \<or> q = PhaseRecovering) \<and>
     \<not> ValidTransition p NoPhase \<and>
     (ValidTransition p PhaseActive \<longrightarrow> p = PhaseActive \<or> p = PhaseVerifying \<or> p = PhaseRecovering)"
  unfolding ValidTransition_def final_phase_def by code_simp

theorem lifecycle_sound_witness:
  "ValidTransition PhaseSwitching PhaseRecovering \<and> \<not> ValidTransition PhaseSwitching PhaseActive"
proof -
  have "PhaseSwitching \<in> set table_phases" by (simp add: table_phases_def)
  with lifecycle_sound show ?thesis by fastforce
qed

text \<open>An operation that needs no recovery is over and owns nothing: it is terminal, it owns no
  resource that requires cleanup, and it blocks neither an admission nor a mutation; conversely an
  operation blocks a mutation exactly when it needs recovery.\<close>
theorem recovery_is_blocking:
  "operationBlocksMutation op = NeedsRecovery op \<and>
   (NeedsRecovery op \<or> Terminal op \<and> (\<forall>r \<in> set (o_Resources op). \<not> RequiresCleanup r) \<and>
      \<not> operationBlocksAdmission op KindCheck \<and> \<not> operationBlocksAdmission op KindRun \<and>
      \<not> operationBlocksAdmission op KindStop)"
  by (auto simp: operationBlocksMutation_def NeedsRecovery_def Terminal_def operationBlocksAdmission_def
      owns_runtime_def final_phase_def list_ex_iff)

theorem recovery_is_blocking_witness: "operationBlocksMutation old_run"
  using recovery_is_blocking [of old_run] old_run_facts
  by (simp add: NeedsRecovery_def owns_runtime_def final_phase_def)

subsection \<open>Inventory\<close>

text \<open>An inventory observes every owned resource exactly once, ordered by node; the presence is
  one of the three states of the protocol, a resource is reported present or missing only when its
  probe said so, and a cancelled context gives unknown, never missing.\<close>
theorem Inventory_complete:
  "mset (map ob_Resource (Inventory ctx op inspect)) = mset (o_Resources op) \<and>
   sorted (map (\<lambda>ob. res_Node (ob_Resource ob)) (Inventory ctx op inspect)) \<and>
   (\<forall>ob \<in> set (Inventory ctx op inspect).
      ob_Presence ob = PresenceUnknown \<or>
      (ob_Presence ob \<in> {PresencePresent, PresenceMissing} \<and>
       ob_Presence (inspect (ob_Resource ob)) = ob_Presence ob \<and> (\<exists>i. ctx i = None)))"
proof -
  have res: "ob_Resource (observe ctx inspect e) = snd e" for e
    by (simp add: observe_def Let_def split: option.split)
  have "map ob_Resource (map (observe ctx inspect) (enumerate 0 rs)) = rs" for rs
    by (simp add: comp_def res)
  then have "mset (map ob_Resource (Inventory ctx op inspect)) = mset (sortResources (o_Resources op))"
    unfolding Inventory_def by (metis mset_map mset_sort)
  moreover have "ob_Presence (observe ctx inspect e) = PresenceUnknown \<or>
      ob_Presence (observe ctx inspect e) \<in> {PresencePresent, PresenceMissing} \<and>
      ob_Presence (inspect (snd e)) = ob_Presence (observe ctx inspect e) \<and> (\<exists>i. ctx i = None)" for e
    by (auto simp: observe_def Let_def split: option.splits)
  ultimately show ?thesis
    by (auto simp: Inventory_def sortResources_def res)
qed

theorem Inventory_complete_witness:
  "ob_Presence (hd (Inventory (\<lambda>i. Some ''cancelled'') (old_run\<lparr>o_Resources := [\<lparr>res_Kind = ''container'',
     res_ID = ''c'', res_Node = '''', res_Locator = ''''\<rparr>]\<rparr>)
     (\<lambda>r. \<lparr>ob_Resource = r, ob_Presence = PresenceMissing, ob_Detail = ''''\<rparr>))) = PresenceUnknown"
proof -
  let ?op = "old_run\<lparr>o_Resources := [\<lparr>res_Kind = ''container'', res_ID = ''c'', res_Node = '''', res_Locator = ''''\<rparr>]\<rparr>"
  let ?inv = "Inventory (\<lambda>i. Some ''cancelled'') ?op (\<lambda>r. \<lparr>ob_Resource = r, ob_Presence = PresenceMissing, ob_Detail = ''''\<rparr>)"
  note c = Inventory_complete [of "\<lambda>i. Some ''cancelled''" ?op
      "\<lambda>r. \<lparr>ob_Resource = r, ob_Presence = PresenceMissing, ob_Detail = ''''\<rparr>"]
  then have "length (map ob_Resource ?inv) = length (o_Resources ?op)" by (blast dest: mset_eq_length)
  then have "length ?inv = 1" by simp
  moreover have "\<forall>ob \<in> set ?inv. ob_Presence ob = PresenceUnknown" using c by auto
  ultimately
  show ?thesis by (cases ?inv) auto
qed

subsection \<open>Where memory and disk part\<close>

text \<open>When the save of \<open>FinalizeTombstone\<close> fails, the call reports the error but memory has
  already forgotten the tombstone, while the disk still holds it: the recipe is open again until the
  daemon restarts.\<close>
theorem FinalizeTombstone_failed_save:
  assumes "store_inv s" "trim_space recipeID \<noteq> ''''" "IsTombstoned recipeID s"
    and "\<forall>(k, op) \<in> set (st_Operations s). \<not> (o_RecipeID op = recipeID \<and> operationBlocksMutation op)"
  shows "\<exists>t. FinalizeTombstone (Some e) recipeID (Some (\<lambda>x. (None, x))) s x = (Inl (IOFailed e), t, x) \<and>
    \<not> IsTombstoned recipeID t \<and> st_Disk t = st_Disk s"
proof -
  have "store_inv (set_tombstones (remove recipeID (st_Tombstones s)) s)"
    using assms(1) by (simp add: store_inv_tombstones store_inv_wf)
  then show ?thesis using assms
    by (auto simp: FinalizeTombstone_def IsTombstoned_def Let_def saveLocked_durable list_ex_iff)
qed

theorem FinalizeTombstone_failed_save_witness:
  "\<exists>t. FinalizeTombstone (Some ''disk full'') ''r1'' (Some (\<lambda>x. (None, x))) run_example () = (Inl (IOFailed ''disk full''), t, ()) \<and>
    \<not> IsTombstoned ''r1'' t \<and> st_Disk t = st_Disk run_example"
proof -
  have "store_inv run_example" using journal.reach_inv [OF run_example_reach] by (simp add: journal_inv_def)
  from FinalizeTombstone_failed_save [OF this run_example_facts(2), of "''disk full''" "()"] show ?thesis
    by (simp add: IsTombstoned_def run_example_eq)
qed

end
