(* ===== verification/GoUrl.thy ===== *)
theory GoUrl
  imports GoStrings
begin

text \<open>
  What the program uses of Go's \<open>net/url\<close>: \<open>url.Parse\<close> with the scheme, host and path of its
  result (Go 1.26, which the build files pin), and the forms of \<open>strings\<close> it is used with. \<open>None\<close>
  is an error.
\<close>

record url =
  url_Scheme :: string
  url_Host :: string
  url_Path :: string

subsection \<open>Cutting strings\<close>

text \<open>\<open>strings.Cut\<close> at one byte; the second part is empty when the byte does not occur.\<close>

definition cut :: "char \<Rightarrow> string \<Rightarrow> string \<times> string" where
  "cut c s = (takeWhile (\<lambda>x. x \<noteq> c) s, drop 1 (dropWhile (\<lambda>x. x \<noteq> c) s))"

text \<open>\<open>strings.LastIndex\<close> of one byte: what stands before and after it.\<close>

definition cut_last :: "char \<Rightarrow> string \<Rightarrow> (string \<times> string) option" where
  "cut_last c s = (if c \<in> set s then (case cut c (rev s) of (a, b) \<Rightarrow> Some (rev b, rev a)) else None)"

text \<open>\<open>strings.Trim\<close> and \<open>strings.TrimRight\<close> with a set of ASCII bytes.\<close>

definition trim_right :: "string \<Rightarrow> string \<Rightarrow> string" where
  "trim_right chars s = rev (dropWhile (\<lambda>c. c \<in> set chars) (rev s))"

definition trim_chars :: "string \<Rightarrow> string \<Rightarrow> string" where
  "trim_chars chars s = trim_right chars (dropWhile (\<lambda>c. c \<in> set chars) s)"

definition count_char :: "char \<Rightarrow> string \<Rightarrow> nat" where
  "count_char c s = length (filter (\<lambda>x. x = c) s)"

subsection \<open>Percent encoding\<close>

datatype escape_mode = PathMode | HostMode | ZoneMode

definition hex_value :: "char \<Rightarrow> nat" where
  "hex_value c = (if is_digit c then code c - 48 else code (to_lower_char c) - 87)"

definition host_bytes :: string where
  "host_bytes = ''!$&'' @ [CHR 0x27] @ ''()*+,;=:[]<>-_.~'' @ [CHR 0x22]"

definition host_escape :: "char \<Rightarrow> bool" where
  "host_escape c \<longleftrightarrow> \<not> (is_alnum c \<or> c \<in> set host_bytes)"

definition escape_ok :: "escape_mode \<Rightarrow> char \<Rightarrow> char \<Rightarrow> bool" where
  "escape_ok mode a b =
     (case mode of
        PathMode \<Rightarrow> True
      | HostMode \<Rightarrow> 8 \<le> hex_value a \<or> (a = CHR ''2'' \<and> b = CHR ''5'')
      | ZoneMode \<Rightarrow> (a = CHR ''2'' \<and> b = CHR ''5'') \<or>
          char_of (16 * hex_value a + hex_value b) = CHR '' '' \<or>
          \<not> host_escape (char_of (16 * hex_value a + hex_value b)))"

fun unescape :: "escape_mode \<Rightarrow> string \<Rightarrow> string option" where
  "unescape mode [] = Some []"
| "unescape mode (c # s) =
     (if c = CHR ''%''
      then (case s of
              a # b # t \<Rightarrow>
                if is_hex a \<and> is_hex b \<and> escape_ok mode a b
                then map_option ((#) (char_of (16 * hex_value a + hex_value b))) (unescape mode t)
                else None
            | _ \<Rightarrow> None)
      else if mode \<noteq> PathMode \<and> code c < 128 \<and> host_escape c then None
      else map_option ((#) c) (unescape mode s))"

subsection \<open>IPv6 literals\<close>

text \<open>\<open>netip.ParseAddr\<close> on the content of the brackets: eight groups of at most four hexadecimal
  digits, one run of them possibly elided, the last two possibly a dotted quad, an optional zone.\<close>

definition ipv4_ok :: "string \<Rightarrow> bool" where
  "ipv4_ok s \<longleftrightarrow> length (split_on CHR ''.'' s) = 4 \<and>
     list_all (\<lambda>p. p \<noteq> [] \<and> length p \<le> 3 \<and> list_all is_digit p \<and> nat_of_digits p \<le> 255 \<and>
                   (hd p = CHR ''0'' \<longrightarrow> length p = 1)) (split_on CHR ''.'' s)"

definition group_ok :: "string \<Rightarrow> bool" where
  "group_ok g \<longleftrightarrow> g \<noteq> [] \<and> length g \<le> 4 \<and> list_all is_hex g"

text \<open>The number of 16-bit groups of a list of parts, if they are well-formed.\<close>

fun groups_of :: "bool \<Rightarrow> string list \<Rightarrow> nat option" where
  "groups_of v4 [] = Some 0"
| "groups_of v4 [g] = (if group_ok g then Some 1 else if v4 \<and> ipv4_ok g then Some 2 else None)"
| "groups_of v4 (g # gs) = (if group_ok g then map_option Suc (groups_of v4 gs) else None)"

fun split_ellipsis :: "string \<Rightarrow> (string \<times> string) option" where
  "split_ellipsis (a # b # s) =
     (if a = CHR '':'' \<and> b = CHR '':'' then Some ([], s)
      else map_option (map_prod ((#) a) id) (split_ellipsis (b # s)))"
| "split_ellipsis _ = None"

definition parts :: "string \<Rightarrow> string list" where
  "parts s = (if s = [] then [] else split_on CHR '':'' s)"

definition ipv6_ok :: "string \<Rightarrow> bool" where
  "ipv6_ok s0 \<longleftrightarrow>
     (let s = takeWhile (\<lambda>c. c \<noteq> CHR ''%'') s0
      in (CHR ''%'' \<in> set s0 \<longrightarrow> drop 1 (dropWhile (\<lambda>c. c \<noteq> CHR ''%'') s0) \<noteq> []) \<and>
         (case split_ellipsis s of
            None \<Rightarrow> groups_of True (parts s) = Some 8
          | Some (l, r) \<Rightarrow>
              (case (groups_of False (parts l), groups_of True (parts r)) of
                 (Some m, Some n) \<Rightarrow> m + n \<le> 7 | _ \<Rightarrow> False)))"

subsection \<open>Authority\<close>

definition valid_optional_port :: "string \<Rightarrow> bool" where
  "valid_optional_port p \<longleftrightarrow> p = [] \<or> (hd p = CHR '':'' \<and> list_all is_digit (tl p))"

definition parse_bracketed :: "string \<Rightarrow> string option" where
  "parse_bracketed host =
     (case cut_last CHR '']'' host of
        None \<Rightarrow> None
      | Some (bracketed, port) \<Rightarrow>
          if \<not> valid_optional_port port then None
          else (let name = tl bracketed;
                    plain = takeWhile (\<lambda>c. c \<noteq> CHR ''%'') name; zone = drop (length plain) name;
                    decoded = (if has_prefix zone ''%25''
                               then Option.bind (unescape HostMode plain) (\<lambda>h. map_option ((@) h) (unescape ZoneMode zone))
                               else unescape HostMode name)
                in case decoded of
                     None \<Rightarrow> None
                   | Some d \<Rightarrow> if ipv6_ok d then Some (''['' @ d @ '']'' @ port) else None))"

definition parse_host :: "string \<Rightarrow> string option" where
  "parse_host host =
     (if CHR ''['' \<in> set (tl host) then None
      else if host \<noteq> [] \<and> hd host = CHR ''['' then parse_bracketed host
      else if CHR '':'' \<in> set host \<and> \<not> valid_optional_port (dropWhile (\<lambda>c. c \<noteq> CHR '':'') host) then None
      else unescape HostMode host)"

definition user_bytes :: string where
  "user_bytes = ''-._:~!$&'' @ [CHR 0x27] @ ''()*+,;=%@''"

definition valid_userinfo :: "string \<Rightarrow> bool" where
  "valid_userinfo u \<longleftrightarrow> list_all (\<lambda>c. is_alnum c \<or> c \<in> set user_bytes) u \<and> unescape PathMode u \<noteq> None"

definition parse_authority :: "string \<Rightarrow> string option" where
  "parse_authority a =
     (case cut_last CHR ''@'' a of
        None \<Rightarrow> parse_host a
      | Some (user, host) \<Rightarrow> if valid_userinfo user then parse_host host else None)"

subsection \<open>URLs\<close>

text \<open>\<open>getScheme\<close>: \<open>None\<close> when the colon comes first; no scheme is the empty string.\<close>

definition scheme_byte :: "char \<Rightarrow> bool" where
  "scheme_byte c \<longleftrightarrow> is_alnum c \<or> c \<in> set ''+-.''"

definition get_scheme :: "string \<Rightarrow> (string \<times> string) option" where
  "get_scheme s =
     (let p = takeWhile scheme_byte s; r = drop (length p) s
      in if s \<noteq> [] \<and> hd s = CHR '':'' then None
         else if r \<noteq> [] \<and> hd r = CHR '':'' \<and> (is_lower (hd p) \<or> is_upper (hd p)) then Some (p, tl r)
         else Some ('''', s))"

definition control_byte :: "char \<Rightarrow> bool" where
  "control_byte c \<longleftrightarrow> code c < 32 \<or> code c = 127"

definition drop_query :: "string \<Rightarrow> string" where
  "drop_query s = fst (cut CHR ''?'' s)"

definition parse_url :: "string \<Rightarrow> url option" where
  "parse_url raw =
     (let (u, frag) = cut CHR ''#'' raw
      in if unescape PathMode frag = None \<or> list_ex control_byte u then None
         else if u = ''*'' then Some \<lparr>url_Scheme = '''', url_Host = '''', url_Path = ''*''\<rparr>
         else case get_scheme u of
                None \<Rightarrow> None
              | Some (scheme0, r0) \<Rightarrow>
                 (let scheme = to_lower scheme0; r = drop_query r0
                  in if \<not> has_prefix r ''/'' \<and> scheme \<noteq> ''''
                     then Some \<lparr>url_Scheme = scheme, url_Host = '''', url_Path = ''''\<rparr>
                     else if \<not> has_prefix r ''/'' \<and> CHR '':'' \<in> set (fst (cut CHR ''/'' r)) then None
                     else if has_prefix r ''//'' \<and> (scheme \<noteq> '''' \<or> \<not> has_prefix r ''///'')
                     then (let auth = takeWhile (\<lambda>c. c \<noteq> CHR ''/'') (drop 2 r);
                               path = drop (length auth) (drop 2 r)
                           in case (parse_authority auth, unescape PathMode path) of
                                (Some h, Some p) \<Rightarrow> Some \<lparr>url_Scheme = scheme, url_Host = h, url_Path = p\<rparr>
                              | _ \<Rightarrow> None)
                     else map_option (\<lambda>p. \<lparr>url_Scheme = scheme, url_Host = '''', url_Path = p\<rparr>)
                            (unescape PathMode r)))"

end
