(* ===== verification/GoPath.thy ===== *)
theory GoPath
  imports GoStrings "HOL-Library.Sublist"
begin

text \<open>
  What the program uses of Go's \<open>path/filepath\<close> on Unix: \<open>IsAbs\<close>, \<open>Clean\<close>, \<open>Join\<close>, \<open>Base\<close>, \<open>Abs\<close> and \<open>Rel\<close>. A path is
  split at its slashes; \<open>Clean\<close> drops empty elements and \<open>.\<close>, and lets \<open>..\<close> take back the element
  before it, at the root nothing.
\<close>

definition IsAbs :: "string \<Rightarrow> bool" where
  "IsAbs p = has_prefix p ''/''"

definition elements :: "string \<Rightarrow> string list" where
  "elements p = filter (\<lambda>e. e \<noteq> '''' \<and> e \<noteq> ''.'') (split_on CHR ''/'' p)"

text \<open>The stack of kept elements, last one first.\<close>

definition clean_step :: "bool \<Rightarrow> string list \<Rightarrow> string \<Rightarrow> string list" where
  "clean_step rooted out e =
     (if e = ''..''
      then (case out of
              [] \<Rightarrow> if rooted then [] else [''..'']
            | x # xs \<Rightarrow> if x = ''..'' then ''..'' # out else xs)
      else e # out)"

definition clean_elements :: "string \<Rightarrow> string list" where
  "clean_elements p = rev (foldl (clean_step (IsAbs p)) [] (elements p))"

fun join_path :: "string list \<Rightarrow> string" where
  "join_path [] = ''''"
| "join_path [e] = e"
| "join_path (e # es) = e @ ''/'' @ join_path es"

definition Clean :: "string \<Rightarrow> string" where
  "Clean p =
     (if IsAbs p then CHR ''/'' # join_path (clean_elements p)
      else if clean_elements p = [] then ''.'' else join_path (clean_elements p))"

text \<open>\<open>filepath.Join\<close> of two elements.\<close>

definition Join :: "string \<Rightarrow> string \<Rightarrow> string" where
  "Join a b = (if a = '''' \<and> b = '''' then '''' else if a = '''' then Clean b
     else if b = '''' then Clean a else Clean (a @ ''/'' @ b))"

lemma clean_step_rooted: "''..'' \<notin> set out \<Longrightarrow> ''..'' \<notin> set (clean_step True out e)"
  by (auto simp: clean_step_def split: list.splits)

lemma clean_rooted_no_dotdot:
  assumes "IsAbs p" shows "''..'' \<notin> set (clean_elements p)"
proof -
  have "''..'' \<notin> set (foldl (clean_step True) out es)" if "''..'' \<notin> set out" for out es
    using that
  proof (induction es arbitrary: out)
    case (Cons e es)
    show ?case unfolding foldl_Cons by (rule Cons.IH [OF clean_step_rooted [OF Cons.prems]])
  qed simp
  moreover have "''..'' \<notin> set []" by simp
  ultimately show ?thesis using assms unfolding clean_elements_def set_rev by metis
qed

text \<open>\<open>filepath.Base\<close>, and \<open>filepath.Abs\<close> in the working directory (nothing when it is unknown).\<close>

definition strip_slashes :: "string \<Rightarrow> string" where
  "strip_slashes p = rev (dropWhile (\<lambda>c. c = CHR ''/'') (rev p))"

definition Base :: "string \<Rightarrow> string" where
  "Base p = (if p = '''' then ''.''
     else let e = last (split_on CHR ''/'' (strip_slashes p)) in if e = '''' then ''/'' else e)"

definition Abs :: "string option \<Rightarrow> string \<Rightarrow> string option" where
  "Abs cwd p = (if IsAbs p then Some (Clean p) else map_option (\<lambda>d. Join d p) cwd)"

text \<open>
  \<open>filepath.Rel(base, target)\<close>: the elements both share are dropped, and one \<open>..\<close> stands for each
  element of the base that is left.
\<close>

fun strip_common :: "string list \<Rightarrow> string list \<Rightarrow> string list \<times> string list" where
  "strip_common (x # xs) (y # ys) = (if x = y then strip_common xs ys else (x # xs, y # ys))"
| "strip_common xs ys = (xs, ys)"

definition Rel :: "string \<Rightarrow> string \<Rightarrow> string option" where
  "Rel base targ =
     (let b = Clean base; t = Clean targ in
      if t = b then Some ''.''
      else if IsAbs b \<noteq> IsAbs t then None
      else (let (bs, ts) = strip_common (clean_elements b) (if t = ''.'' then [t] else clean_elements t)
            in if bs \<noteq> [] \<and> ts \<noteq> [] \<and> hd bs = ''..'' then None
               else Some (join_path (replicate (length bs) ''..'' @ ts))))"

text \<open>The idiom of the program for containment: the relative path does not start with \<open>..\<close>.\<close>

definition pathWithin :: "string \<Rightarrow> string \<Rightarrow> bool" where
  "pathWithin path root = (case Rel root path of None \<Rightarrow> False
     | Some r \<Rightarrow> r \<noteq> ''..'' \<and> \<not> has_prefix r ''../'')"


subsection \<open>Clean paths\<close>

lemma split_on_no_sep: "e \<in> set (split_on c s) \<Longrightarrow> c \<notin> set e"
  by (induction s arbitrary: e) (auto split: if_splits list.splits)

lemma elements_ok: "e \<in> set (elements p) \<Longrightarrow> e \<noteq> '''' \<and> e \<noteq> ''.'' \<and> CHR ''/'' \<notin> set e"
  by (auto simp: elements_def split_on_no_sep)

lemma clean_step_set: "set (clean_step r out e) \<subseteq> insert e (set out)"
  by (auto simp: clean_step_def split: list.splits)

lemma foldl_clean_set: "set (foldl (clean_step r) out es) \<subseteq> set es \<union> set out"
proof (induction es arbitrary: out)
  case (Cons e es)
  from Cons.IH [of "clean_step r out e"] clean_step_set [of r out e] show ?case by auto
qed simp

lemma clean_elements_ok: "e \<in> set (clean_elements p) \<Longrightarrow> e \<noteq> '''' \<and> e \<noteq> ''.'' \<and> CHR ''/'' \<notin> set e"
  using foldl_clean_set [of "IsAbs p" "[]" "elements p"] elements_ok by (fastforce simp: clean_elements_def)

lemma split_on_prefix: "c \<notin> set e \<Longrightarrow> split_on c (e @ c # s) = e # split_on c s"
  by (induction e) auto

lemma split_on_none: "c \<notin> set e \<Longrightarrow> split_on c e = [e]"
  by (induction e) auto

lemma elements_join: "\<forall>e \<in> set es. e \<noteq> '''' \<and> e \<noteq> ''.'' \<and> CHR ''/'' \<notin> set e \<Longrightarrow> elements (join_path es) = es"
  by (induction es rule: join_path.induct) (auto simp: elements_def split_on_prefix split_on_none)

lemma elements_slash: "elements (CHR ''/'' # p) = elements p"
  by (simp add: elements_def)

lemma foldl_clean_plain: "''..'' \<notin> set es \<Longrightarrow> foldl (clean_step r) out es = rev es @ out"
  by (induction es arbitrary: out) (auto simp: clean_step_def)

lemma clean_elements_rooted [simp]: "IsAbs p \<Longrightarrow> clean_elements (Clean p) = clean_elements p"
proof -
  assume p: "IsAbs p"
  then have c: "Clean p = CHR ''/'' # join_path (clean_elements p)" by (simp add: Clean_def)
  have "elements (Clean p) = clean_elements p"
    unfolding c elements_slash by (rule elements_join) (use clean_elements_ok in auto)
  moreover have "IsAbs (Clean p)" by (simp add: c IsAbs_def)
  ultimately show ?thesis
    using clean_rooted_no_dotdot [OF p] by (simp add: clean_elements_def [of "Clean p"] foldl_clean_plain)
qed

lemma IsAbs_Clean [simp]: "IsAbs p \<Longrightarrow> IsAbs (Clean p)"
  by (simp add: Clean_def IsAbs_def)

lemma Clean_idem: "IsAbs p \<Longrightarrow> Clean (Clean p) = Clean p"
  by (subst Clean_def) (simp, simp add: Clean_def)

lemma Clean_eq_iff: "IsAbs p \<Longrightarrow> IsAbs q \<Longrightarrow> Clean p = Clean q \<longleftrightarrow> clean_elements p = clean_elements q"
  by (metis Clean_def clean_elements_rooted)

lemma strip_common_props:
  "strip_common xs ys = (bs, ts) \<Longrightarrow> \<exists>zs. xs = zs @ bs \<and> ys = zs @ ts \<and> (bs = [] \<or> ts = [] \<or> hd bs \<noteq> hd ts)"
proof (induction xs ys arbitrary: bs ts rule: strip_common.induct)
  case (1 x xs y ys)
  show ?case
  proof (cases "x = y")
    case True
    with 1 obtain zs where "xs = zs @ bs" "ys = zs @ ts" "bs = [] \<or> ts = [] \<or> hd bs \<noteq> hd ts" by auto
    with True show ?thesis by (intro exI [of _ "x # zs"]) simp
  qed (use 1 in \<open>auto intro: exI [of _ "[]"]\<close>)
qed auto

lemma join_path_dotdot:
  "has_prefix (join_path (''..'' # es)) ''../'' \<or> join_path (''..'' # es) = ''..''"
  by (cases es) auto

lemma join_path_no_dotdot:
  assumes "es \<noteq> []" "\<forall>e \<in> set es. e \<noteq> ''..'' \<and> CHR ''/'' \<notin> set e"
  shows "join_path es \<noteq> ''..'' \<and> \<not> has_prefix (join_path es) ''../''"
proof (cases es)
  case (Cons e fs)
  with assms(2) have e: "e \<noteq> ''..''" "CHR ''/'' \<notin> set e" by auto
  then show ?thesis
  proof (cases fs)
    case (Cons f gs)
    with \<open>es = e # fs\<close> have "join_path es = e @ CHR ''/'' # join_path fs" by simp
    moreover have "e @ CHR ''/'' # r = ''../'' @ t \<Longrightarrow> False" for r t
      using e by (auto simp: Cons_eq_append_conv append_eq_Cons_conv)
    moreover have "e @ CHR ''/'' # r \<noteq> ''..''" for r using e by (auto simp: append_eq_Cons_conv)
    ultimately show ?thesis by (auto simp: has_prefix_iff)
  qed (use \<open>es = e # fs\<close> in \<open>auto simp: has_prefix_iff\<close>)
qed (use assms in simp)

text \<open>On absolute paths the idiom is containment of the elements.\<close>

lemma pathWithin_iff:
  assumes "IsAbs path" "IsAbs root"
  shows "pathWithin path root \<longleftrightarrow> prefix (clean_elements root) (clean_elements path)"
proof -
  obtain bs ts where st: "strip_common (clean_elements root) (clean_elements path) = (bs, ts)" by fastforce
  from strip_common_props [OF st] obtain zs where z: "clean_elements root = zs @ bs" "clean_elements path = zs @ ts"
    "bs = [] \<or> ts = [] \<or> hd bs \<noteq> hd ts" by blast
  have nd: "''..'' \<notin> set bs" "''..'' \<notin> set ts"
    using clean_rooted_no_dotdot [OF assms(1)] clean_rooted_no_dotdot [OF assms(2)] z by auto
  have sl: "\<forall>e \<in> set ts. CHR ''/'' \<notin> set e" using clean_elements_ok [of _ path] z(2) by auto
  have hb: "bs \<noteq> [] \<Longrightarrow> hd bs \<noteq> ''..''" using nd(1) by (cases bs) auto
  have nr: "Clean path \<noteq> ''.''" using assms(1) by (simp add: Clean_def)
  have rel: "Rel root path = (if zs @ ts = zs @ bs then Some ''.'' else Some (join_path (replicate (length bs) ''..'' @ ts)))"
    using assms nr hb z Clean_eq_iff [OF assms] st by (auto simp: Rel_def Let_def)
  have p: "prefix (zs @ bs) (zs @ ts) \<longleftrightarrow> bs = []" using z(3) by (cases bs; cases ts) auto
  show ?thesis
  proof (cases bs)
    case Nil
    have "ts \<noteq> [] \<Longrightarrow> join_path ts \<noteq> ''..'' \<and> \<not> has_prefix (join_path ts) ''../''"
      by (rule join_path_no_dotdot) (use nd sl in auto)
    with Nil p z show ?thesis by (auto simp: pathWithin_def rel)
  next
    case (Cons b cs)
    then have "zs @ ts \<noteq> zs @ bs" using z(3) by auto
    with Cons p z join_path_dotdot [of "replicate (length cs) ''..'' @ ts"] show ?thesis
      by (auto simp: pathWithin_def rel)
  qed
qed

end
