(* ===== verification/RecipeValidation.thy ===== *)
theory RecipeValidation
  imports RecipeProfiles GoUrl GoPath
begin

text \<open>
  Validation of drafts: \<open>validateDraft\<close> of \<open>internal/localrecipes/store.go\<close> in stages, one per
  part of the struct, and \<open>managed_container.go\<close>. A stage trims and defaults its fields and returns
  the first error. An error is the format of its message with the value it is about; where the code
  iterates a map, which error is reported depends on the order of iteration, whether one is
  reported does not.
\<close>

datatype draft_error = Invalid string | InvalidFor string string | Within string draft_error

type_synonym 'a checked = "draft_error + 'a"

definition refuse :: "bool \<Rightarrow> draft_error \<Rightarrow> 'a checked \<Rightarrow> 'a checked" where
  "refuse bad e rest = (if bad then Inl e else rest)"

definition reject :: "bool \<Rightarrow> string \<Rightarrow> 'a checked \<Rightarrow> 'a checked" where
  "reject bad msg rest = refuse bad (Invalid msg) rest"

lemma refuse_Inr [simp]: "refuse bad e rest = Inr x \<longleftrightarrow> \<not> bad \<and> rest = Inr x"
  by (simp add: refuse_def)

lemma reject_Inr [simp]: "reject bad msg rest = Inr x \<longleftrightarrow> \<not> bad \<and> rest = Inr x"
  by (simp add: reject_def)

text \<open>The NUL byte; the bytes that end a line.\<close>

definition NUL :: char where "NUL = CHR 0x00"

definition line_bytes :: string where
  "line_bytes = [CHR 0x00, CHR 0x0D, CHR 0x0A]"

subsection \<open>Lists of strings and commands\<close>

fun clean_values :: "nat \<Rightarrow> string \<Rightarrow> string list \<Rightarrow> string list checked" where
  "clean_values limit msg [] = Inr []"
| "clean_values limit msg (v # vs) =
     (let t = trim_space v
      in if t = '''' then clean_values limit msg vs
         else if limit < length t \<or> NUL \<in> set t then Inl (Invalid msg)
         else bind_res (clean_values limit msg vs) (\<lambda>ts. Inr (t # ts)))"

definition cleanStrings :: "string list \<Rightarrow> nat \<Rightarrow> string list checked" where
  "cleanStrings vs limit =
     (if limit < length vs then Inl (InvalidFor ''no more than %d values are allowed'' (itoa (int limit)))
      else clean_values 1024 ''runtime values must be plain text under 1024 characters'' vs)"

definition within :: "string \<Rightarrow> 'a checked \<Rightarrow> 'a checked" where
  "within label r = (case r of Inl e \<Rightarrow> Inl (Within label e) | Inr v \<Rightarrow> Inr v)"

lemma within_Inr [simp]: "within label r = Inr v \<longleftrightarrow> r = Inr v"
  by (simp add: within_def split: sum.split)

text \<open>\<open>make([]string, 0, n)\<close> is never nil, so a validated argument list is \<open>Some\<close>.\<close>

definition validateCommand :: "string \<Rightarrow> Command \<Rightarrow> Command checked" where
  "validateCommand label c0 =
     (let c = c0\<lparr>cmd_Program := trim_space (cmd_Program c0)\<rparr>
      in if cmd_Program c = '''' then Inr c
         else if contains_any (cmd_Program c) line_bytes \<or> 256 < length (cmd_Program c)
         then Inl (InvalidFor ''%s command is invalid'' label)
         else bind_res (within (label @ '' arguments'')
                (cleanStrings (case cmd_Args c of None \<Rightarrow> [] | Some as \<Rightarrow> as) 128))
                (\<lambda>args. Inr (c\<lparr>cmd_Args := Some args\<rparr>)))"

subsection \<open>Names and source\<close>

definition validate_names :: "Draft \<Rightarrow> Draft checked" where
  "validate_names d0 =
     (let d = d0\<lparr>d_Name := trim_space (d_Name d0), d_Description := trim_space (d_Description d0),
                 d_Platform := trim_space (d_Platform d0)\<rparr>
      in reject (length (d_Name d) < 2 \<or> 80 < length (d_Name d)) ''recipe name must be between 2 and 80 characters''
        (reject (1000 < length (d_Description d)) ''recipe description must be 1000 characters or fewer''
        (reject (d_Platform d = '''' \<or> 64 < length (d_Platform d)) ''choose a target platform''
        (Inr d))))"

definition source_url_ok :: "string \<Rightarrow> bool" where
  "source_url_ok s \<longleftrightarrow> (case parse_url s of None \<Rightarrow> False
     | Some u \<Rightarrow> (url_Scheme u = ''https'' \<or> url_Scheme u = ''http'') \<and> url_Host u \<noteq> '''')"

definition source_file_error :: "string \<times> string \<Rightarrow> draft_error option" where
  "source_file_error f =
     (if fst f = '''' \<or> IsAbs (fst f) \<or> contains (Clean (fst f)) ''..''
      then Some (Invalid ''source checksum paths must stay inside the repository'')
      else if length (snd f) \<noteq> 64 then Some (InvalidFor ''source checksum for %s must be SHA-256'' (fst f))
      else None)"

definition validate_source :: "Source \<Rightarrow> Source checked" where
  "validate_source s0 =
     (let s = s0\<lparr>src_URL := trim_space (src_URL s0), src_Revision := trim_space (src_Revision s0)\<rparr>
      in reject (src_URL s \<noteq> '''' \<and> \<not> source_url_ok (src_URL s)) ''source URL must be an HTTP or HTTPS repository URL''
        (reject (src_URL s \<noteq> '''' \<and> (src_Revision s = '''' \<or> 128 < length (src_Revision s)))
           ''enter the exact source branch, tag, or commit''
        (reject (128 < length (src_Files s)) ''no more than 128 source file checksums are allowed''
        (case first_error source_file_error (src_Files s) of Some e \<Rightarrow> Inl e | None \<Rightarrow> Inr s))))"

subsection \<open>Engine\<close>

definition image_byte :: "char \<Rightarrow> bool" where
  "image_byte c \<longleftrightarrow> is_alnum c \<or> c \<in> set ''._/:@-''"

definition containerImagePattern :: "string \<Rightarrow> bool" where
  "containerImagePattern s \<longleftrightarrow> s \<noteq> [] \<and> is_alnum (hd s) \<and> list_all image_byte (tl s) \<and> length s \<le> 512"

definition proxy_bytes :: string where
  "proxy_bytes = line_bytes @ '' /'' @ [CHR 0x5C]"

definition validate_engine_identity :: "Engine \<Rightarrow> Engine checked" where
  "validate_engine_identity e0 =
     (let path = trim_space (eng_APIPath e0);
          e = e0\<lparr>eng_Type := trim_space (eng_Type e0), eng_Image := trim_space (eng_Image e0),
                 eng_APIPath := (if path = '''' then ''/v1'' else path),
                 eng_ServedModelName := CloudlessModelAlias,
                 eng_ProxyHost := trim_space (eng_ProxyHost e0),
                 eng_RestartPolicy := trim_space (eng_RestartPolicy e0)\<rparr>
      in reject (eng_Type e = '''' \<or> 64 < length (eng_Type e)) ''choose an inference engine''
        (reject (\<not> containerImagePattern (eng_Image e)) ''engine image is invalid''
        (reject (eng_ContainerPort e < 1 \<or> 65535 < eng_ContainerPort e) ''engine port must be between 1 and 65535''
        (reject (trim_right ''/'' (eng_APIPath e) \<noteq> ''/v1'')
           ''engine API path must preserve the OpenAI-compatible /v1 contract''
        (reject (eng_ProxyHost e = '''' \<or> 253 < length (eng_ProxyHost e) \<or> contains_any (eng_ProxyHost e) proxy_bytes)
           ''engine proxy host is invalid''
        (reject (64 < length (eng_RestartPolicy e) \<or> contains_any (eng_RestartPolicy e) line_bytes)
           ''engine restart policy is invalid''
        (Inr (e\<lparr>eng_RestartPolicy := ''no''\<rparr>))))))))"

definition validate_engine_command :: "Engine \<Rightarrow> Engine checked" where
  "validate_engine_command e0 =
     bind_res (within ''engine arguments'' (cleanStrings (eng_Arguments e0) 256)) (\<lambda>args.
       (let e = e0\<lparr>eng_Arguments := args, eng_EntryPoint := trim_space (eng_EntryPoint e0)\<rparr>
        in reject (1024 < length (eng_EntryPoint e) \<or> NUL \<in> set (eng_EntryPoint e)) ''engine entry point is invalid''
          (reject (512 < length (eng_Command e)) ''engine command cannot contain more than 512 arguments''
          (bind_res (clean_values 65536 ''engine command arguments must be plain text under 64 KiB'' (eng_Command e))
             (\<lambda>cmd. Inr (e\<lparr>eng_Command := cmd\<rparr>))))))"

subsection \<open>Model and distribution\<close>

definition clean_dependency :: "ModelDependency \<Rightarrow> ModelDependency" where
  "clean_dependency x = x\<lparr>dep_ID := trim_space (dep_ID x), dep_Revision := trim_space (dep_Revision x),
     dep_Role := trim_space (dep_Role x)\<rparr>"

definition bad_dependency :: "ModelDependency \<Rightarrow> bool" where
  "bad_dependency x \<longleftrightarrow> dep_ID x = '''' \<or> 256 < length (dep_ID x) \<or> dep_Revision x = '''' \<or>
     128 < length (dep_Revision x) \<or> 64 < length (dep_Role x)"

definition validate_model :: "Model \<Rightarrow> Model checked" where
  "validate_model m0 =
     (let m = m0\<lparr>mdl_ID := trim_space (mdl_ID m0), mdl_Revision := trim_space (mdl_Revision m0)\<rparr>;
          deps = map clean_dependency (mdl_Dependencies m)
      in reject (mdl_ID m = '''' \<or> 256 < length (mdl_ID m)) ''enter a model ID or path''
        (reject (mdl_Revision m = '''' \<or> 128 < length (mdl_Revision m)) ''enter a model revision''
        (reject (mdl_MaxContext m < 1 \<or> 10000000 < mdl_MaxContext m)
           ''context window must be between 1 and 10,000,000 tokens''
        (reject (16 < length deps) ''no more than 16 additional model dependencies are allowed''
        (reject (list_ex bad_dependency deps)
           ''additional model dependencies require a model ID, revision, and optional short role''
        (reject (mdl_MaxSequences m < 1 \<or> 65536 < mdl_MaxSequences m)
           ''maximum sequences must be between 1 and 65,536''
        (reject (f64_le_zero (mdl_GPUMemoryUtilization m) \<or> f64_gt_one (mdl_GPUMemoryUtilization m))
           ''GPU memory utilization must be above 0 and at most 1''
        (reject (mdl_TensorParallel m < 1 \<or> 1024 < mdl_TensorParallel m \<or> mdl_PipelineParallel m < 1 \<or>
                 1024 < mdl_PipelineParallel m) ''parallelism values must be between 1 and 1024''
        (Inr (m\<lparr>mdl_Dependencies := deps\<rparr>))))))))))"

definition validate_distributed :: "Distributed \<Rightarrow> Distributed checked" where
  "validate_distributed n =
     reject (dst_Nodes n < 1 \<or> 64 < dst_Nodes n) ''node count must be between 1 and 64''
    (reject (dst_MasterPort n < 1 \<or> 65535 < dst_MasterPort n) ''distributed master port must be between 1 and 65535''
    (reject (dst_WorkerAlias n = '''' \<or> 64 < length (dst_WorkerAlias n)) ''enter a worker alias''
    (bind_res (within ''selected nodes'' (cleanStrings (dst_SelectedNodes n) 63)) (\<lambda>nodes.
     refuse (nodes \<noteq> [] \<and> int (length nodes) \<noteq> dst_Nodes n - 1)
       (InvalidFor ''select exactly %d worker node(s), or leave selection empty for automatic placement''
          (itoa (dst_Nodes n - 1)))
    (reject (\<not> distinct nodes) ''selected worker nodes must be unique''
       (Inr (n\<lparr>dst_SelectedNodes := nodes\<rparr>)))))))"


subsection \<open>Runtime\<close>

definition environment_error :: "string \<times> string \<Rightarrow> draft_error option" where
  "environment_error e =
     (if fst e = '''' \<or> 128 < length (fst e) \<or> contains_any (fst e) (CHR ''='' # line_bytes) \<or>
         8192 < length (snd e) \<or> contains_any (snd e) line_bytes
      then Some (InvalidFor ''environment variable %q is invalid'' (fst e)) else None)"

definition artifact_digest_ok :: "string \<Rightarrow> bool" where
  "artifact_digest_ok s \<longleftrightarrow> length s = 64 \<and> list_all is_hex s"

definition validate_lifecycle :: "Lifecycle \<Rightarrow> Lifecycle checked" where
  "validate_lifecycle l =
     bind_res (validateCommand ''build'' (lc_Build l)) (\<lambda>b.
     bind_res (validateCommand ''download'' (lc_Download l)) (\<lambda>dl.
     bind_res (validateCommand ''start'' (lc_Start l)) (\<lambda>st.
     bind_res (validateCommand ''stop'' (lc_Stop l)) (\<lambda>sp.
       Inr \<lparr>lc_Build = b, lc_Download = dl, lc_Start = st, lc_Stop = sp\<rparr>))))"

definition validate_container :: "ContainerRuntime \<Rightarrow> ContainerRuntime checked" where
  "validate_container c =
     bind_res (within ''container ulimits'' (cleanStrings (ctr_Ulimits c) 32)) (\<lambda>ul.
     bind_res (within ''container capabilities'' (cleanStrings (ctr_CapAdd c) 64)) (\<lambda>ca.
     bind_res (within ''container dropped capabilities'' (cleanStrings (ctr_CapDrop c) 64)) (\<lambda>cd.
     bind_res (within ''container tmpfs'' (cleanStrings (ctr_Tmpfs c) 32)) (\<lambda>tm.
       Inr (c\<lparr>ctr_Ulimits := ul, ctr_CapAdd := ca, ctr_CapDrop := cd, ctr_Tmpfs := tm,
              ctr_User := trim_space (ctr_User c), ctr_ModelCachePath := trim_space (ctr_ModelCachePath c)\<rparr>)))))"

definition validate_runtime :: "Runtime \<Rightarrow> Runtime checked" where
  "validate_runtime r =
     reject (rt_Adapter r = '''' \<or> 64 < length (rt_Adapter r)) ''choose a runtime adapter''
    (reject (rt_ArtifactDigest r \<noteq> '''' \<and> \<not> artifact_digest_ok (rt_ArtifactDigest r))
       ''catalog artifact digest must be SHA-256''
    (reject (rt_TimeoutMinutes r < 1 \<or> 10080 < rt_TimeoutMinutes r)
       ''runtime timeout must be between 1 minute and 7 days''
    (bind_res (within ''prerequisites'' (cleanStrings (rt_Prerequisites r) 64)) (\<lambda>pre.
     reject (256 < length (rt_Environment r)) ''no more than 256 environment variables are allowed''
    (case first_error environment_error (rt_Environment r) of Some e \<Rightarrow> Inl e
     | None \<Rightarrow>
        bind_res (validate_lifecycle (rt_Lifecycle r)) (\<lambda>l.
        bind_res (validate_container (rt_Container r)) (\<lambda>c.
          Inr (r\<lparr>rt_Prerequisites := pre, rt_Lifecycle := l, rt_Container := c\<rparr>))))))))"

subsection \<open>Managed containers\<close>

definition IsContainerAdapter :: "string \<Rightarrow> bool" where
  "IsContainerAdapter adapter \<longleftrightarrow>
     trim_space adapter = ManagedContainerAdapter \<or> trim_space adapter = AdvancedContainerAdapter"

definition containerRuntimeConfigured :: "ContainerRuntime \<Rightarrow> bool" where
  "containerRuntimeConfigured v \<longleftrightarrow> ctr_User v \<noteq> '''' \<or> ctr_ReadOnly v \<or> ctr_IPC v \<noteq> '''' \<or>
     ctr_ShmSize v \<noteq> '''' \<or> ctr_Ulimits v \<noteq> [] \<or> ctr_CapAdd v \<noteq> [] \<or> ctr_CapDrop v \<noteq> [] \<or>
     ctr_Tmpfs v \<noteq> [] \<or> ctr_PidsLimit v \<noteq> 0 \<or> ctr_ModelCachePath v \<noteq> '''' \<or> ctr_Infiniband v"

text \<open>The pattern ends in a fixed suffix of 72 bytes; what stands before it is at most 431 bytes.\<close>

definition immutableContainerImagePattern :: "string \<Rightarrow> bool" where
  "immutableContainerImagePattern s \<longleftrightarrow>
     (let n = length s - 72; p = take n s; q = drop n s
      in 72 < length s \<and> n \<le> 431 \<and> is_alnum (hd p) \<and> list_all image_byte (tl p) \<and>
         has_prefix q ''@sha256:'' \<and> list_all is_hex (drop 8 q))"

definition immutableModelRevisionPattern :: "string \<Rightarrow> bool" where
  "immutableModelRevisionPattern s \<longleftrightarrow> (length s = 40 \<or> length s = 64) \<and> list_all is_hex s"

definition managedVLLMBooleanArguments :: "string list" where
  "managedVLLMBooleanArguments =
     [''--disable-log-requests'', ''--disable-sliding-window'', ''--enable-chunked-prefill'',
      ''--enable-prefix-caching'', ''--enforce-eager'', ''--enable-reasoning'', ''--disable-custom-all-reduce'']"

definition lifecycle_commands :: "Lifecycle \<Rightarrow> (string \<times> Command) list" where
  "lifecycle_commands l = [(''build'', lc_Build l), (''download'', lc_Download l), (''start'', lc_Start l), (''stop'', lc_Stop l)]"

definition host_command_error :: "string \<times> Command \<Rightarrow> draft_error option" where
  "host_command_error c =
     (if cmd_Program (snd c) \<noteq> '''' \<or> (case cmd_Args (snd c) of None \<Rightarrow> False | Some as \<Rightarrow> as \<noteq> [])
      then Some (InvalidFor ''managed container recipes cannot provide a %s command'' (fst c)) else None)"

definition vllm_argument_error :: "string \<Rightarrow> draft_error option" where
  "vllm_argument_error a =
     (if a \<in> set managedVLLMBooleanArguments then None
      else Some (InvalidFor ''vLLM argument %q is not available in the constrained recipe runtime'' a))"

definition validate_managed_distribution :: "string \<Rightarrow> Draft \<Rightarrow> unit checked" where
  "validate_managed_distribution adapter d =
     (let n = d_Distributed d; m = d_Model d; r = d_Runtime d
      in reject (adapter = ManagedContainerAdapter \<and>
            (dst_Nodes n \<noteq> 1 \<or> dst_SelectedNodes n \<noteq> [] \<or> rt_BuildOnce r \<or> rt_DownloadOnce r))
           ''managed-container-v1 supports one local node; use advanced-container-v1 for a distributed container''
        (if adapter = AdvancedContainerAdapter \<and> 1 < dst_Nodes n
         then reject (8 < dst_Nodes n) ''distributed advanced containers support two through eight DGX Sparks''
             (reject (mdl_TensorParallel m \<noteq> dst_Nodes n \<or> mdl_PipelineParallel m \<noteq> 1)
                ''distributed advanced containers require tensor parallelism equal to node count and pipeline parallelism 1''
             (reject (d_Platform d \<noteq> ''dgx-spark'' \<or> \<not> rt_BuildOnce r \<or> \<not> rt_DownloadOnce r)
                ''distributed advanced containers require DGX Spark and coordinator-owned image and model distribution''
             (reject (dst_Backend n \<noteq> ''nccl'' \<or> ctr_IPC (rt_Container r) \<noteq> ''host'' \<or> \<not> ctr_Infiniband (rt_Container r))
                ''distributed advanced containers require NCCL, host IPC, and the bounded InfiniBand device permission''
             (Inr ()))))
         else Inr ()))"

definition validate_managed_command :: "string \<Rightarrow> Draft \<Rightarrow> unit checked" where
  "validate_managed_command adapter d =
     (let e = d_Engine d; r = d_Runtime d; c = rt_Container r
      in if adapter = ManagedContainerAdapter
         then reject (eng_EntryPoint e \<noteq> '''' \<or> eng_Command e \<noteq> [] \<or> mdl_Dependencies (d_Model d) \<noteq> [] \<or>
                      containerRuntimeConfigured c)
                ''managed-container-v1 cannot override the container command or security profile; use advanced-container-v1''
             (case first_error vllm_argument_error (eng_Arguments e) of Some x \<Rightarrow> Inl x | None \<Rightarrow> Inr ())
         else reject (eng_Command e = [] \<and> trim_space (eng_EntryPoint e) \<noteq> '''')
                ''advanced container entryPoint requires an explicit command''
             (reject (NUL \<in> set (eng_EntryPoint e)) ''advanced container entryPoint contains an invalid byte''
             (reject (ctr_ModelCachePath c \<noteq> '''' \<and> \<not> has_prefix (ctr_ModelCachePath c) ''/'')
                ''advanced container modelCachePath must be absolute''
             (Inr ()))))"

definition validateManagedContainerDraft :: "Draft \<Rightarrow> unit checked" where
  "validateManagedContainerDraft d =
     (let adapter = trim_space (rt_Adapter (d_Runtime d)); s = d_Source d; e = d_Engine d; m = d_Model d;
          r = d_Runtime d; h = d_Health d
      in reject (\<not> IsContainerAdapter adapter) ''runtime adapter must be %q or %q''
        (reject (src_URL s \<noteq> '''' \<or> src_Revision s \<noteq> '''' \<or> src_Files s \<noteq> [])
           ''managed container recipes cannot include source repositories''
        (reject (\<not> immutableContainerImagePattern (trim_space (eng_Image e)))
           ''managed container recipes require an image pinned as repository@sha256:<digest>''
        (reject (trim_space (eng_Type e) = '''' \<or>
                 (adapter = ManagedContainerAdapter \<and> to_lower (trim_space (eng_Type e)) \<noteq> ''vllm''))
           ''managed-container-v1 requires vLLM; advanced-container-v1 may declare another OpenAI-compatible engine''
        (reject (eng_ServedModelName e \<noteq> CloudlessModelAlias \<or> eng_APIPath e \<noteq> ''/v1'')
           ''managed container recipes must preserve the Cloudless model and /v1 API contract''
        (reject (eng_ProxyHost e \<noteq> ''host.docker.internal'')
           ''managed container recipes must use the Cloudless host gateway''
        (reject (\<not> immutableModelRevisionPattern (trim_space (mdl_Revision m)))
           ''managed container recipes require an immutable 40- or 64-character model revision''
        (reject (list_ex (\<lambda>x. trim_space (dep_ID x) = '''' \<or>
                     \<not> immutableModelRevisionPattern (trim_space (dep_Revision x))) (mdl_Dependencies m))
           ''advanced container model dependencies require an ID and immutable 40- or 64-character revision''
        (bind_res (validate_managed_distribution adapter d) (\<lambda>_.
         reject (rt_Prerequisites r \<noteq> []) ''managed container recipes cannot request host prerequisites''
        (reject (rt_WorkingDir r \<noteq> '''' \<and> rt_WorkingDir r \<noteq> ''.'')
           ''managed container recipes cannot select a host working directory''
        (case first_error host_command_error (lifecycle_commands (rt_Lifecycle r)) of Some x \<Rightarrow> Inl x
         | None \<Rightarrow>
            bind_res (validate_managed_command adapter d) (\<lambda>_.
            reject (hl_Scheme h \<noteq> ''http'' \<or> hl_Host h \<noteq> ''127.0.0.1'' \<or> hl_Port h \<noteq> eng_ContainerPort e)
              ''managed container health checks must use the managed loopback port over HTTP''
              (Inr ()))))))))))))))"

definition ValidateManagedContainerRecipe :: "Recipe \<Rightarrow> unit checked" where
  "ValidateManagedContainerRecipe r = validateManagedContainerDraft (DraftFromRecipe '''' r)"

subsection \<open>The whole draft\<close>

definition validate_health :: "Health \<Rightarrow> Health checked" where
  "validate_health h =
     reject (hl_Scheme h \<noteq> ''http'' \<and> hl_Scheme h \<noteq> ''https'') ''health-check scheme must be HTTP or HTTPS''
    (reject (hl_Port h < 1 \<or> 65535 < hl_Port h \<or> hl_TimeoutSeconds h < 1 \<or> 86400 < hl_TimeoutSeconds h \<or>
             hl_IntervalSeconds h < 1 \<or> 3600 < hl_IntervalSeconds h) ''health-check port or timing is invalid''
    (reject (\<not> has_prefix (hl_Path h) ''/'') ''health-check path must begin with /''
    (Inr h)))"

definition validateDraft :: "Draft \<Rightarrow> Draft checked" where
  "validateDraft d0 =
     bind_res (validate_names d0) (\<lambda>d1.
     bind_res (validate_source (d_Source d1)) (\<lambda>s.
     bind_res (validate_engine_identity (d_Engine d1)) (\<lambda>e1.
     bind_res (validate_engine_command e1) (\<lambda>e.
     bind_res (validate_model (d_Model d1)) (\<lambda>m.
     bind_res (validate_distributed (d_Distributed d1)) (\<lambda>n.
     bind_res (validate_runtime (d_Runtime d1)) (\<lambda>r.
       (let d = d1\<lparr>d_Source := s, d_Engine := e, d_Model := m, d_Distributed := n, d_Runtime := r\<rparr>
        in bind_res (if IsContainerAdapter (rt_Adapter r) then validateManagedContainerDraft d
                     else guard (cmd_Program (lc_Start (rt_Lifecycle r)) = '''') (Invalid ''a start command is required''))
             (\<lambda>_. bind_res (validate_health (d_Health d)) (\<lambda>h. Inr d))))))))))"

subsection \<open>Repository addresses and import profiles\<close>

definition canonicalGitHub :: "string \<Rightarrow> string option" where
  "canonicalGitHub raw =
     (case parse_url (trim_space raw) of
        None \<Rightarrow> None
      | Some u \<Rightarrow>
          if url_Scheme u \<noteq> ''https'' \<or> \<not> equal_fold (url_Host u) ''github.com'' then None
          else (case split_on CHR ''/'' (trim_chars ''/'' (trim_suffix (url_Path u) ''.git'')) of
                  [owner, repo] \<Rightarrow> if owner = '''' \<or> repo = '''' then None
                                 else Some (''https://github.com/'' @ owner @ ''/'' @ repo)
                | _ \<Rightarrow> None))"

definition recognized :: "string \<Rightarrow> string \<Rightarrow> Recipe option" where
  "recognized now raw =
     (case canonicalGitHub raw of
        None \<Rightarrow> None
      | Some source \<Rightarrow>
          if equal_fold source DeepSeekDSparkSource
          then Some (recipeFromDraft DeepSeekDSparkID ''github'' ''reviewed-import'' now deepSeekDraft)
          else if equal_fold source DeepSeekV4Flash1MSource
          then Some (recipeFromDraft DeepSeekV4Flash1MID ''github'' ''reviewed-import'' now deepSeekV4Flash1MDraft)
          else None)"


end
