(* ===== verification/RecipeStore.thy ===== *)
theory RecipeStore
  imports RecipeValidation
begin

text \<open>
  The recipe store of \<open>internal/localrecipes/store.go\<close>. It keeps nothing in memory: every operation
  reads the index file, changes the document and replaces the file, all under one mutex, so an
  operation is a function from the file to its result and the file it leaves. \<open>now\<close> is the clock
  reading, \<open>fault\<close> the outcome of the write (the temporary file is renamed over the index, so a
  failed write leaves it as it was). What is on disk is the document as JSON gives it back, with
  detached recipes.
\<close>

datatype index_file = NoIndex | IndexUnreadable string | IndexMalformed | Index int "Recipe list"

datatype recipe_error =
    LoadFailed string
  | LoadMalformed
  | LoadVersion int
  | SaveUnmarshalable
  | SaveFailed string
  | BadDraft draft_error
  | BadProvenance
  | NotRecognized
  | NoEntropy string
  | NoRollback
  | RollbackRevoked
  | RecipeNotExist

subsection \<open>Reading and writing the index\<close>

definition load_recipes :: "string \<Rightarrow> index_file \<Rightarrow> recipe_error + Recipe list" where
  "load_recipes now f =
     (case f of
        NoIndex \<Rightarrow> Inr []
      | IndexUnreadable e \<Rightarrow> Inl (LoadFailed e)
      | IndexMalformed \<Rightarrow> Inl LoadMalformed
      | Index v rs \<Rightarrow> if v \<noteq> 1 \<and> v \<noteq> 2 then Inl (LoadVersion v) else Inr (map (normalize now) rs))"

definition save_recipes :: "string option \<Rightarrow> Recipe list \<Rightarrow> index_file \<Rightarrow> recipe_error + index_file" where
  "save_recipes fault rs f =
     (if \<not> list_all recipe_marshals rs then Inl SaveUnmarshalable
      else case fault of Some e \<Rightarrow> Inl (SaveFailed e) | None \<Rightarrow> Inr (Index 2 (map detach_recipe rs)))"

text \<open>Save \<open>rs\<close> and return \<open>v\<close>, or the error with the file as it was.\<close>

definition store_and_return :: "string option \<Rightarrow> Recipe list \<Rightarrow> 'a \<Rightarrow> index_file \<Rightarrow> (recipe_error + 'a) \<times> index_file" where
  "store_and_return fault rs v f =
     (case save_recipes fault rs f of Inl e \<Rightarrow> (Inl e, f) | Inr f' \<Rightarrow> (Inr v, f'))"

text \<open>\<open>sort.Slice\<close> by name; for equal names it fixes no order, and the stable order is one of them.\<close>

definition ListAll :: "string \<Rightarrow> index_file \<Rightarrow> recipe_error + Recipe list" where
  "ListAll now f = bind_res (load_recipes now f) (\<lambda>rs. Inr (sort_key r_Name rs))"

definition ListRecipes :: "string \<Rightarrow> index_file \<Rightarrow> recipe_error + Recipe list" where
  "ListRecipes now f = bind_res (ListAll now f) (\<lambda>rs. Inr (filter (\<lambda>r. r_TombstonedAt r = '''') rs))"

definition with_id :: "string \<Rightarrow> Recipe \<Rightarrow> bool" where
  "with_id rid r \<longleftrightarrow> r_ID r = rid"

definition GetRecipe :: "string \<Rightarrow> string \<Rightarrow> index_file \<Rightarrow> recipe_error + Recipe option" where
  "GetRecipe now rid f = bind_res (ListRecipes now f) (\<lambda>rs. Inr (find (with_id rid) rs))"

definition GetAny :: "string \<Rightarrow> string \<Rightarrow> index_file \<Rightarrow> recipe_error + Recipe option" where
  "GetAny now rid f = bind_res (ListAll now f) (\<lambda>rs. Inr (find (with_id rid) rs))"

subsection \<open>Import and creation\<close>

text \<open>Every recipe with the identifier is replaced; a new one is appended.\<close>

definition replace_or_append :: "Recipe \<Rightarrow> Recipe list \<Rightarrow> Recipe list" where
  "replace_or_append r rs =
     (if list_ex (with_id (r_ID r)) rs then map (\<lambda>x. if with_id (r_ID r) x then r else x) rs else rs @ [r])"

definition Import :: "string \<Rightarrow> string option \<Rightarrow> string \<Rightarrow> index_file \<Rightarrow> (recipe_error + Recipe) \<times> index_file" where
  "Import now fault source f =
     (case recognized now source of
        None \<Rightarrow> (Inl NotRecognized, f)
      | Some r \<Rightarrow>
          (case load_recipes now f of
             Inl e \<Rightarrow> (Inl e, f)
           | Inr rs \<Rightarrow> store_and_return fault (replace_or_append r rs) r f))"

definition PreviewImport :: "string \<Rightarrow> string \<Rightarrow> recipe_error + Recipe" where
  "PreviewImport now source = (case recognized now source of None \<Rightarrow> Inl NotRecognized | Some r \<Rightarrow> Inr r)"

text \<open>\<open>recipeID\<close>: eight random bytes.\<close>

definition recipeID :: "string + nat list \<Rightarrow> recipe_error + string" where
  "recipeID rand = (case rand of Inl e \<Rightarrow> Inl (NoEntropy e) | Inr bytes \<Rightarrow> Inr (''local-'' @ hex_encode bytes))"

definition create :: "string \<Rightarrow> string + nat list \<Rightarrow> string option \<Rightarrow> Draft \<Rightarrow> string \<Rightarrow> string \<Rightarrow> index_file \<Rightarrow>
    (recipe_error + Recipe) \<times> index_file" where
  "create now rand fault draft origin trust f =
     (case validateDraft draft of
        Inl e \<Rightarrow> (Inl (BadDraft e), f)
      | Inr d \<Rightarrow>
          (case recipeID rand of
             Inl e \<Rightarrow> (Inl e, f)
           | Inr rid \<Rightarrow>
               (case load_recipes now f of
                  Inl e \<Rightarrow> (Inl e, f)
                | Inr rs \<Rightarrow>
                    (let r = recipeFromDraft rid origin trust now d
                     in store_and_return fault (rs @ [r]) r f))))"

definition Create :: "string \<Rightarrow> string + nat list \<Rightarrow> string option \<Rightarrow> Draft \<Rightarrow> index_file \<Rightarrow>
    (recipe_error + Recipe) \<times> index_file" where
  "Create now rand fault draft f = create now rand fault draft ''local'' ''local-custom'' f"

definition CreateIndexed :: "string \<Rightarrow> string + nat list \<Rightarrow> string option \<Rightarrow> Draft \<Rightarrow> string \<Rightarrow> string \<Rightarrow> index_file \<Rightarrow>
    (recipe_error + Recipe) \<times> index_file" where
  "CreateIndexed now rand fault draft trust0 digest f =
     (let trust = (if trust0 \<in> {''upstream-official'', ''community'', ''discovered''} then trust0 else ''discovered'');
          d = draft\<lparr>d_Runtime := (d_Runtime draft)\<lparr>rt_ArtifactDigest := to_lower (trim_space digest)\<rparr>\<rparr>
      in create now rand fault d ''catalog'' trust f)"

subsection \<open>Community revisions\<close>

definition bad_provenance :: "CommunityProvenance \<Rightarrow> bool" where
  "bad_provenance p \<longleftrightarrow> trim_space (cp_RecipeID p) = '''' \<or> trim_space (cp_RevisionID p) = '''' \<or>
     trim_space (cp_Version p) = '''' \<or> \<not> has_prefix (to_lower (cp_Digest p)) ''sha256:'' \<or>
     trim_space (cp_SigningKeyID p) = '''' \<or> cp_Revoked p"

definition community_id :: "string \<Rightarrow> string" where
  "community_id rid = take 42 (''community-'' @ filter (\<lambda>c. c \<noteq> CHR ''-'') (to_lower rid))"

definition of_community :: "string \<Rightarrow> Recipe \<Rightarrow> bool" where
  "of_community rid r \<longleftrightarrow> (case r_Community r of None \<Rightarrow> False | Some p \<Rightarrow> cp_RecipeID p = rid)"

definition last_three :: "'a list \<Rightarrow> 'a list" where
  "last_three xs = drop (length xs - 3) xs"

text \<open>The first element that satisfies \<open>p\<close> is replaced, as a loop with a \<open>break\<close> does.\<close>

fun update_first :: "('a \<Rightarrow> bool) \<Rightarrow> ('a \<Rightarrow> 'a) \<Rightarrow> 'a list \<Rightarrow> 'a list" where
  "update_first p g [] = []"
| "update_first p g (x # xs) = (if p x then g x # xs else x # update_first p g xs)"

definition InstallCommunity :: "string \<Rightarrow> string option \<Rightarrow> Draft \<Rightarrow> CommunityProvenance \<Rightarrow> index_file \<Rightarrow>
    (recipe_error + Recipe) \<times> index_file" where
  "InstallCommunity now fault draft prov0 f =
     (if bad_provenance prov0 then (Inl BadProvenance, f)
      else case validateDraft draft of
        Inl e \<Rightarrow> (Inl (BadDraft e), f)
      | Inr d \<Rightarrow>
          (let prov = prov0\<lparr>cp_InstalledAt := now\<rparr>;
               recipe = (recipeFromDraft (community_id (cp_RecipeID prov)) ''community'' ''community-signed'' now d)
                  \<lparr>r_Community := Some prov\<rparr>
           in case load_recipes now f of
                Inl e \<Rightarrow> (Inl e, f)
              | Inr rs \<Rightarrow>
                  (case find (of_community (cp_RecipeID prov)) rs of
                     None \<Rightarrow> store_and_return fault (rs @ [recipe]) recipe f
                   | Some previous \<Rightarrow>
                       (case r_Community previous of
                          None \<Rightarrow> (Inr previous, f)
                        | Some q \<Rightarrow>
                            if cp_RevisionID q = cp_RevisionID prov \<and> cp_Digest q = cp_Digest prov then (Inr previous, f)
                            else (let r = recipe\<lparr>r_CommunityRollback := last_three (r_CommunityRollback previous @
                                         [\<lparr>cr_Draft = DraftFromSnapshot previous, cr_Provenance = q\<rparr>])\<rparr>
                                  in store_and_return fault
                                       (update_first (of_community (cp_RecipeID prov)) (\<lambda>_. r) rs) r f)))))"

definition is_community :: "string \<Rightarrow> Recipe \<Rightarrow> bool" where
  "is_community rid r \<longleftrightarrow> r_ID r = rid \<and> r_Community r \<noteq> None"

definition restored :: "Recipe \<Rightarrow> CommunityRollback \<Rightarrow> Recipe" where
  "restored current b = (recipeFromDraft (r_ID current) ''community'' ''community-signed'' (r_ImportedAt current) (cr_Draft b))
     \<lparr>r_Community := Some (cr_Provenance b), r_CommunityRollback := butlast (r_CommunityRollback current)\<rparr>"

definition RollbackCommunity :: "string \<Rightarrow> string option \<Rightarrow> string \<Rightarrow> index_file \<Rightarrow> (recipe_error + Recipe) \<times> index_file" where
  "RollbackCommunity now fault rid f =
     (case load_recipes now f of
        Inl e \<Rightarrow> (Inl e, f)
      | Inr rs \<Rightarrow>
          (case find (is_community rid) rs of
             None \<Rightarrow> (Inl RecipeNotExist, f)
           | Some current \<Rightarrow>
               if r_CommunityRollback current = [] then (Inl NoRollback, f)
               else (let b = last (r_CommunityRollback current)
                     in if cp_Revoked (cr_Provenance b) then (Inl RollbackRevoked, f)
                        else store_and_return fault (update_first (is_community rid) (\<lambda>x. restored x b) rs)
                               (restored current b) f)))"

definition revoke :: "string \<Rightarrow> string \<Rightarrow> CommunityProvenance \<Rightarrow> CommunityProvenance" where
  "revoke revision reason p =
     (if cp_RevisionID p = revision then p\<lparr>cp_Revoked := True, cp_RevokedReason := trim_space reason\<rparr> else p)"

definition names_revision :: "string \<Rightarrow> Recipe \<Rightarrow> bool" where
  "names_revision revision r \<longleftrightarrow>
     (case r_Community r of None \<Rightarrow> False | Some p \<Rightarrow> cp_RevisionID p = revision) \<or>
     list_ex (\<lambda>b. cp_RevisionID (cr_Provenance b) = revision) (r_CommunityRollback r)"

definition revoke_recipe :: "string \<Rightarrow> string \<Rightarrow> Recipe \<Rightarrow> Recipe" where
  "revoke_recipe revision reason r =
     r\<lparr>r_Trust := (case r_Community r of None \<Rightarrow> r_Trust r
         | Some p \<Rightarrow> if cp_RevisionID p = revision then ''community-revoked'' else r_Trust r),
       r_Community := map_option (revoke revision reason) (r_Community r),
       r_CommunityRollback := map (\<lambda>b. b\<lparr>cr_Provenance := revoke revision reason (cr_Provenance b)\<rparr>) (r_CommunityRollback r)\<rparr>"

definition MarkCommunityRevoked :: "string \<Rightarrow> string option \<Rightarrow> string \<Rightarrow> string \<Rightarrow> index_file \<Rightarrow>
    (recipe_error + unit) \<times> index_file" where
  "MarkCommunityRevoked now fault revision reason f =
     (case load_recipes now f of
        Inl e \<Rightarrow> (Inl e, f)
      | Inr rs \<Rightarrow>
          if \<not> list_ex (names_revision revision) rs then (Inl RecipeNotExist, f)
          else store_and_return fault (map (revoke_recipe revision reason) rs) () f)"

subsection \<open>Editing and deletion\<close>

definition updated_recipe :: "string \<Rightarrow> Draft \<Rightarrow> Recipe \<Rightarrow> Recipe" where
  "updated_recipe now d r =
     (recipeFromDraft (r_ID r) (r_Origin r) ''local-custom'' (r_ImportedAt r) d)\<lparr>r_UpdatedAt := now\<rparr>"

definition Update :: "string \<Rightarrow> string option \<Rightarrow> string \<Rightarrow> Draft \<Rightarrow> index_file \<Rightarrow> (recipe_error + Recipe) \<times> index_file" where
  "Update now fault rid draft f =
     (case validateDraft draft of
        Inl e \<Rightarrow> (Inl (BadDraft e), f)
      | Inr d \<Rightarrow>
          (case load_recipes now f of
             Inl e \<Rightarrow> (Inl e, f)
           | Inr rs \<Rightarrow>
               (case find (with_id rid) rs of
                  None \<Rightarrow> (Inl RecipeNotExist, f)
                | Some r \<Rightarrow> store_and_return fault (update_first (with_id rid) (updated_recipe now d) rs)
                              (updated_recipe now d r) f)))"

definition Delete :: "string \<Rightarrow> string option \<Rightarrow> string \<Rightarrow> index_file \<Rightarrow> (recipe_error + unit) \<times> index_file" where
  "Delete now fault rid f =
     (case load_recipes now f of
        Inl e \<Rightarrow> (Inl e, f)
      | Inr rs \<Rightarrow> store_and_return fault (filter (\<lambda>r. \<not> with_id rid r) rs) () f)"

definition mark_tombstoned :: "string \<Rightarrow> Recipe \<Rightarrow> Recipe" where
  "mark_tombstoned now r = (if r_TombstonedAt r = '''' then r\<lparr>r_TombstonedAt := now\<rparr> else r)"

definition TombstoneRecipe :: "string \<Rightarrow> string option \<Rightarrow> string \<Rightarrow> index_file \<Rightarrow> (recipe_error + unit) \<times> index_file" where
  "TombstoneRecipe now fault rid f =
     (case load_recipes now f of
        Inl e \<Rightarrow> (Inl e, f)
      | Inr rs \<Rightarrow>
          if \<not> list_ex (with_id rid) rs then (Inl RecipeNotExist, f)
          else store_and_return fault (update_first (with_id rid) (mark_tombstoned now) rs) () f)"

end
