(* ===== verification/RecipeStoreProps.thy ===== *)
theory RecipeStoreProps
  imports RecipeStore "HOL-Library.Multiset"
begin

text \<open>
  Properties of drafts and of the recipe store: normalization and validation are projections, the
  limits of a validated draft, the containment of container recipes, and the operations of the
  store.
\<close>

subsection \<open>Normalization is a projection\<close>

definition is_1m :: "Recipe \<Rightarrow> bool" where
  "is_1m r \<longleftrightarrow> src_URL (r_Source r) = DeepSeekV4Flash1MSource \<and>
     src_Revision (r_Source r) = DeepSeekV4Flash1MRevision"

text \<open>What every normalized recipe satisfies, part by part.\<close>

definition normal_engine :: "Engine \<Rightarrow> bool" where
  "normal_engine e \<longleftrightarrow> eng_Type e \<noteq> '''' \<and> eng_ProxyHost e \<noteq> '''' \<and> trim_space (eng_APIPath e) \<noteq> '''' \<and>
     eng_ServedModelName e = CloudlessModelAlias \<and> eng_RestartPolicy e = ''no''"

definition normal_dspark :: "Recipe \<Rightarrow> bool" where
  "normal_dspark r \<longleftrightarrow> (is_dspark r \<longrightarrow>
     \<not> sameFiles (src_Files (r_Source r)) deepSeekWindowsCheckoutFiles \<and>
     rt_BuildOnce (r_Runtime r) \<and> rt_DownloadOnce (r_Runtime r) \<and>
     eng_ContainerPort (r_Engine r) \<noteq> 8888 \<and> hl_Port (r_Health r) \<noteq> 8888)"

definition normal_1m :: "Recipe \<Rightarrow> bool" where
  "normal_1m r \<longleftrightarrow> (is_1m r \<longrightarrow>
     \<not> (r_ID r = DeepSeekV4Flash1MID \<and> r_Origin r = ''github'' \<and> r_Trust r = ''reviewed-import'' \<and>
        get_str (rt_Environment (r_Runtime r)) ''HF_CACHE'' = ''cloudless-hf'') \<and>
     rt_DownloadOnce (r_Runtime r) \<and>
     lc_Download (rt_Lifecycle (r_Runtime r)) = command ''bash'' [''./prepare-deepseek-v4-flash-model.sh''] \<and>
     hl_TimeoutSeconds (r_Health r) = 7200)"

definition normal_recipe :: "Recipe \<Rightarrow> bool" where
  "normal_recipe r \<longleftrightarrow> normal_engine (r_Engine r) \<and> normal_dspark r \<and> normal_1m r \<and>
     r_Origin r \<noteq> '''' \<and> r_Trust r \<noteq> '''' \<and> r_ImportedAt r \<noteq> '''' \<and> r_UpdatedAt r \<noteq> '''' \<and>
     syncCompatibility r = r"

lemma sync_idem [simp]: "syncCompatibility (syncCompatibility r) = syncCompatibility r"
  by (simp add: syncCompatibility_def)

lemma sync_fields [simp]:
  "r_ID (syncCompatibility r) = r_ID r" "r_Origin (syncCompatibility r) = r_Origin r"
  "r_Trust (syncCompatibility r) = r_Trust r" "r_ImportedAt (syncCompatibility r) = r_ImportedAt r"
  "r_UpdatedAt (syncCompatibility r) = r_UpdatedAt r" "r_Source (syncCompatibility r) = r_Source r"
  "r_Engine (syncCompatibility r) = r_Engine r" "r_Model (syncCompatibility r) = r_Model r"
  "r_Distributed (syncCompatibility r) = r_Distributed r" "r_Runtime (syncCompatibility r) = r_Runtime r"
  "r_Health (syncCompatibility r) = r_Health r" "r_TombstonedAt (syncCompatibility r) = r_TombstonedAt r"
  "r_Name (syncCompatibility r) = r_Name r" "r_Community (syncCompatibility r) = r_Community r"
  "r_CommunityRollback (syncCompatibility r) = r_CommunityRollback r"
  by (simp_all add: syncCompatibility_def)

lemma normal_fixed:
  assumes "normal_recipe r"
  shows "normalize now r = r"
proof -
  have "normalize_legacy r = r" "normalize_fingerprints r = r"
    using assms by (auto simp: normal_recipe_def normal_engine_def normal_dspark_def normalize_legacy_def normalize_fingerprints_def)
  moreover have "normalize_dspark r = r"
    using assms by (auto simp: normal_recipe_def normal_dspark_def normalize_dspark_def legacy_port_def)
  moreover have "normalize_1m r = r"
    using assms by (auto simp: normal_recipe_def normal_1m_def is_1m_def normalize_1m_def Let_def)
  moreover have "normalize_defaults now r = r"
    using assms by (simp add: normal_recipe_def normal_engine_def normalize_defaults_def Let_def)
  ultimately show ?thesis using assms by (simp add: normalize_def normal_recipe_def)
qed

lemma canonical_not_windows: "\<not> sameFiles deepSeekCanonicalFiles deepSeekWindowsCheckoutFiles"
  by code_simp

lemma dspark_not_1m: "is_dspark r \<Longrightarrow> \<not> is_1m r"
  by (simp add: is_dspark_def is_1m_def DeepSeekDSparkSource_def DeepSeekV4Flash1MSource_def)

lemma legacy_engine_type: "eng_Type (r_Engine (normalize_legacy r)) \<noteq> ''''"
proof -
  have "eng_Type (d_Engine (legacy_draft r)) = eng_Type (d_Engine deepSeekDraft)"
    by (simp add: legacy_draft_def Let_def)
  moreover have "eng_Type (d_Engine deepSeekDraft) \<noteq> ''''" by code_simp
  ultimately show ?thesis
    by (simp add: normalize_legacy_def recipeFromDraft_def)
qed

lemma normal_after_dspark:
  "normal_dspark (normalize_dspark (normalize_fingerprints r))"
  using canonical_not_windows
  by (auto simp: normal_dspark_def normalize_dspark_def normalize_fingerprints_def is_dspark_def legacy_port_def
      DefaultRuntimePort_def)

lemma normalize_1m_dspark: "is_dspark (normalize_1m r) = is_dspark r"
  by (simp add: normalize_1m_def is_dspark_def Let_def)

lemma normal_dspark_1m: "normal_dspark r \<Longrightarrow> normal_dspark (normalize_1m r)"
proof (cases "is_dspark r")
  case True
  then have "normalize_1m r = r" using dspark_not_1m by (auto simp: is_1m_def normalize_1m_def)
  then show "normal_dspark r \<Longrightarrow> ?thesis" by simp
next
  case False
  then show ?thesis by (simp add: normal_dspark_def normalize_1m_dspark)
qed

lemma normal_after_1m: "normal_1m (normalize_1m r)"
  by (auto simp: normal_1m_def normalize_1m_def is_1m_def Let_def get_str_def)

lemma normal_dspark_defaults: "normal_dspark r \<Longrightarrow> normal_dspark (normalize_defaults now r)"
  by (simp add: normal_dspark_def normalize_defaults_def is_dspark_def Let_def)

lemma normal_1m_defaults: "normal_1m r \<Longrightarrow> normal_1m (normalize_defaults now r)"
  by (auto simp: normal_1m_def normalize_defaults_def is_1m_def Let_def)

lemma engine_type_stages:
  "eng_Type (r_Engine (normalize_fingerprints r)) = eng_Type (r_Engine r)"
  "eng_Type (r_Engine (normalize_dspark r)) = eng_Type (r_Engine r)"
  "eng_Type (r_Engine (normalize_1m r)) = eng_Type (r_Engine r)"
  by (simp_all add: normalize_fingerprints_def normalize_dspark_def normalize_1m_def Let_def)

lemma normal_after_defaults:
  assumes "eng_Type (r_Engine r) \<noteq> ''''" "now \<noteq> ''''"
  shows "normal_engine (r_Engine (normalize_defaults now r))"
    "r_Origin (normalize_defaults now r) \<noteq> ''''" "r_Trust (normalize_defaults now r) \<noteq> ''''"
    "r_ImportedAt (normalize_defaults now r) \<noteq> ''''" "r_UpdatedAt (normalize_defaults now r) \<noteq> ''''"
proof -
  have "trim_space ''/v1'' \<noteq> ''''" by code_simp
  with assms show "normal_engine (r_Engine (normalize_defaults now r))"
    by (auto simp: normal_engine_def normalize_defaults_def Let_def)
qed (use assms in \<open>auto simp: normalize_defaults_def Let_def\<close>)

lemma normal_dspark_sync [simp]: "normal_dspark (syncCompatibility r) = normal_dspark r"
  by (simp add: normal_dspark_def is_dspark_def)

lemma normal_1m_sync [simp]: "normal_1m (syncCompatibility r) = normal_1m r"
  by (simp add: normal_1m_def is_1m_def)

lemma normalize_normal:
  assumes "now \<noteq> ''''"
  shows "normal_recipe (normalize now r)"
proof -
  let ?r = "normalize_1m (normalize_dspark (normalize_fingerprints (normalize_legacy r)))"
  have "eng_Type (r_Engine ?r) \<noteq> ''''" by (simp add: engine_type_stages legacy_engine_type)
  note d = normal_after_defaults [OF this assms]
  have "normal_dspark (normalize_defaults now ?r)" "normal_1m (normalize_defaults now ?r)"
    by (intro normal_dspark_defaults normal_1m_defaults normal_dspark_1m normal_after_1m normal_after_dspark)+
  with d show ?thesis by (simp add: normal_recipe_def normalize_def)
qed

lemma normalize_idem: "now \<noteq> '''' \<Longrightarrow> normalize now' (normalize now r) = normalize now r"
  by (rule normal_fixed [OF normalize_normal])

lemma normalize_keeps [simp]:
  "r_ID (normalize now r) = r_ID r" "r_TombstonedAt (normalize now r) = r_TombstonedAt r"
  by (simp_all add: normalize_steps recipeFromDraft_def)

subsection \<open>Validation is a projection\<close>

lemmas stage_simps = Let_def bind_res_Inr_iff

definition value_ok :: "nat \<Rightarrow> string \<Rightarrow> bool" where
  "value_ok limit t \<longleftrightarrow> trim_space t = t \<and> t \<noteq> '''' \<and> length t \<le> limit \<and> NUL \<notin> set t"

lemma clean_values_ok:
  "clean_values limit msg vs = Inr ts \<Longrightarrow> list_all (value_ok limit) ts \<and> length ts \<le> length vs"
  by (induction vs arbitrary: ts)
     (auto simp: Let_def bind_res_Inr_iff value_ok_def split: if_splits)

lemma clean_values_fixed: "list_all (value_ok limit) ts \<Longrightarrow> clean_values limit msg ts = Inr ts"
  by (induction ts) (auto simp: value_ok_def Let_def)

lemma cleanStrings_ok:
  "cleanStrings vs limit = Inr ts \<Longrightarrow> list_all (value_ok 1024) ts \<and> length ts \<le> limit"
  using clean_values_ok by (fastforce simp: cleanStrings_def split: if_splits)

text \<open>A list that validation leaves as it is, a command it leaves as it is.\<close>

definition cleaned :: "nat \<Rightarrow> string list \<Rightarrow> bool" where
  "cleaned limit ts \<longleftrightarrow> cleanStrings ts limit = Inr ts"

definition cleaned_command :: "string \<Rightarrow> Command \<Rightarrow> bool" where
  "cleaned_command label c \<longleftrightarrow> validateCommand label c = Inr c"

lemma cleaned_iff [simp]: "cleaned limit ts \<Longrightarrow> cleanStrings ts limit = Inr ts"
  by (simp add: cleaned_def)

lemma cleaned_command_iff [simp]: "cleaned_command label c \<Longrightarrow> validateCommand label c = Inr c"
  by (simp add: cleaned_command_def)

lemma cleanStrings_fixed: "cleanStrings vs limit = Inr ts \<Longrightarrow> cleaned limit ts"
  using cleanStrings_ok [of vs limit ts] by (simp add: cleaned_def cleanStrings_def clean_values_fixed)

lemma validateCommand_fixed: "validateCommand label c = Inr c' \<Longrightarrow> cleaned_command label c'"
  unfolding cleaned_command_def
  by (auto simp: validateCommand_def Let_def bind_res_Inr_iff split: if_splits dest!: cleanStrings_fixed)

lemma validate_names_fixed: "validate_names d = Inr d' \<Longrightarrow> validate_names d' = Inr d'"
  by (auto simp: validate_names_def Let_def)

lemma validate_source_fixed: "validate_source s = Inr s' \<Longrightarrow> validate_source s' = Inr s'"
  by (auto simp: validate_source_def Let_def split: option.splits)

lemma trim_no: "trim_space ''no'' = ''no''" "trim_space ''/v1'' = ''/v1''"
  "contains_any ''no'' line_bytes = False"
  by code_simp+

lemma validate_engine_identity_fixed:
  "validate_engine_identity e = Inr e' \<Longrightarrow> validate_engine_identity e' = Inr e'"
proof -
  assume "validate_engine_identity e = Inr e'"
  moreover define path where "path = (if trim_space (eng_APIPath e) = '''' then ''/v1'' else trim_space (eng_APIPath e))"
  moreover have "trim_space path = path" "path \<noteq> ''''" by (simp_all add: path_def trim_no)
  ultimately show ?thesis
    by (auto simp: validate_engine_identity_def Let_def trim_no)
qed

lemma validate_engine_command_fixed:
  assumes "validate_engine_command e = Inr e'"
  shows "validate_engine_command e' = Inr e'"
proof -
  from assms obtain args cmd where ok: "cleanStrings (eng_Arguments e) 256 = Inr args" "length (eng_Command e) \<le> 512"
      "clean_values 65536 ''engine command arguments must be plain text under 64 KiB'' (eng_Command e) = Inr cmd"
      "length (trim_space (eng_EntryPoint e)) \<le> 1024" "NUL \<notin> set (trim_space (eng_EntryPoint e))"
      "e' = e\<lparr>eng_Arguments := args, eng_EntryPoint := trim_space (eng_EntryPoint e), eng_Command := cmd\<rparr>"
    by (auto simp: validate_engine_command_def stage_simps not_less)
  have "cleaned 256 args" by (rule cleanStrings_fixed [OF ok(1)])
  moreover have "list_all (value_ok 65536) cmd" "length cmd \<le> 512" using clean_values_ok [OF ok(3)] ok(2) by auto
  ultimately show ?thesis using ok(4-6)
    by (simp add: validate_engine_command_def stage_simps clean_values_fixed)
qed

lemma clean_dependency_idem [simp]: "clean_dependency (clean_dependency x) = clean_dependency x"
  by (simp add: clean_dependency_def)

lemma validate_model_fixed: "validate_model m = Inr m' \<Longrightarrow> validate_model m' = Inr m'"
  by (auto simp: validate_model_def Let_def comp_def list_ex_iff)

lemma validate_distributed_fixed:
  assumes "validate_distributed n = Inr n'"
  shows "validate_distributed n' = Inr n'"
proof -
  from assms obtain nodes where ok: "cleanStrings (dst_SelectedNodes n) 63 = Inr nodes"
      "\<not> (nodes \<noteq> [] \<and> int (length nodes) \<noteq> dst_Nodes n - 1)" "distinct nodes"
      "n' = n\<lparr>dst_SelectedNodes := nodes\<rparr>"
    by (auto simp: validate_distributed_def bind_res_Inr_iff)
  from cleanStrings_fixed [OF ok(1)] ok assms show ?thesis
    by (simp add: validate_distributed_def bind_res_Inr_iff)
qed

lemma validate_lifecycle_fixed: "validate_lifecycle l = Inr l' \<Longrightarrow> validate_lifecycle l' = Inr l'"
  by (auto simp: validate_lifecycle_def bind_res_Inr_iff dest!: validateCommand_fixed)

lemma validate_container_fixed: "validate_container c = Inr c' \<Longrightarrow> validate_container c' = Inr c'"
  by (auto simp: validate_container_def bind_res_Inr_iff dest!: cleanStrings_fixed)

lemma validate_runtime_fixed:
  assumes "validate_runtime r = Inr r'"
  shows "validate_runtime r' = Inr r'"
proof -
  have none: "first_error environment_error (rt_Environment r) = None"
    using assms unfolding validate_runtime_def reject_Inr bind_res_Inr_iff
    by (cases "first_error environment_error (rt_Environment r)") (simp_all del: first_error_None)
  with assms obtain pre l c where ok: "cleanStrings (rt_Prerequisites r) 64 = Inr pre"
      "validate_lifecycle (rt_Lifecycle r) = Inr l" "validate_container (rt_Container r) = Inr c"
      "length (rt_Environment r) \<le> 256" "r' = r\<lparr>rt_Prerequisites := pre, rt_Lifecycle := l, rt_Container := c\<rparr>"
    by (auto simp: validate_runtime_def bind_res_Inr_iff simp del: first_error_None)
  from cleanStrings_fixed [OF ok(1)] validate_lifecycle_fixed [OF ok(2)] validate_container_fixed [OF ok(3)]
    ok(4,5) assms none show ?thesis
    by (simp add: validate_runtime_def bind_res_Inr_iff not_less del: first_error_None)
qed

lemma identity_keeps_command:
  "validate_engine_identity e = Inr e1 \<Longrightarrow> eng_Arguments e1 = eng_Arguments e \<and>
     eng_EntryPoint e1 = eng_EntryPoint e \<and> eng_Command e1 = eng_Command e"
  by (auto simp: validate_engine_identity_def Let_def)


lemma validate_engine_command_shape:
  "validate_engine_command e1 = Inr e \<Longrightarrow>
     \<exists>a p c. e = e1\<lparr>eng_Arguments := a, eng_EntryPoint := p, eng_Command := c\<rparr>"
  by (auto simp: validate_engine_command_def stage_simps)

lemma validate_engine_identity_update:
  "validate_engine_identity e = Inr e1 \<Longrightarrow>
     validate_engine_identity (e\<lparr>eng_Arguments := a, eng_EntryPoint := p, eng_Command := c\<rparr>) =
     Inr (e1\<lparr>eng_Arguments := a, eng_EntryPoint := p, eng_Command := c\<rparr>)"
  by (auto simp: validate_engine_identity_def Let_def)

lemma validate_engine_fixed:
  assumes "validate_engine_identity e0 = Inr e1" "validate_engine_command e1 = Inr e"
  shows "validate_engine_identity e = Inr e"
  using validate_engine_command_shape [OF assms(2)]
    validate_engine_identity_update [OF validate_engine_identity_fixed [OF assms(1)]] by auto

text \<open>The stages of a successful validation.\<close>

definition draft_stages :: "Draft \<Rightarrow> Draft \<Rightarrow> bool" where
  "draft_stages d0 d \<longleftrightarrow> (\<exists>d1 e1. validate_names d0 = Inr d1 \<and>
     validate_source (d_Source d1) = Inr (d_Source d) \<and>
     validate_engine_identity (d_Engine d1) = Inr e1 \<and> validate_engine_command e1 = Inr (d_Engine d) \<and>
     validate_model (d_Model d1) = Inr (d_Model d) \<and>
     validate_distributed (d_Distributed d1) = Inr (d_Distributed d) \<and>
     validate_runtime (d_Runtime d1) = Inr (d_Runtime d) \<and>
     d = d1\<lparr>d_Source := d_Source d, d_Engine := d_Engine d, d_Model := d_Model d,
            d_Distributed := d_Distributed d, d_Runtime := d_Runtime d\<rparr>) \<and>
   (if IsContainerAdapter (rt_Adapter (d_Runtime d)) then validateManagedContainerDraft d = Inr ()
    else cmd_Program (lc_Start (rt_Lifecycle (d_Runtime d))) \<noteq> '''') \<and>
   validate_health (d_Health d) = Inr (d_Health d)"

lemma validate_health_same: "validate_health h = Inr h' \<Longrightarrow> h' = h"
  by (simp add: validate_health_def)

lemma validateDraft_stages: "validateDraft d0 = Inr d \<longleftrightarrow> draft_stages d0 d"
proof
  assume "validateDraft d0 = Inr d"
  then show "draft_stages d0 d"
    unfolding validateDraft_def draft_stages_def Let_def bind_res_Inr_iff
    by (elim exE conjE) (auto dest: validate_health_same split: if_splits)
next
  assume "draft_stages d0 d"
  then obtain d1 e1 where s: "validate_names d0 = Inr d1" "validate_source (d_Source d1) = Inr (d_Source d)"
     "validate_engine_identity (d_Engine d1) = Inr e1" "validate_engine_command e1 = Inr (d_Engine d)"
     "validate_model (d_Model d1) = Inr (d_Model d)" "validate_distributed (d_Distributed d1) = Inr (d_Distributed d)"
     "validate_runtime (d_Runtime d1) = Inr (d_Runtime d)"
     "d1\<lparr>d_Source := d_Source d, d_Engine := d_Engine d, d_Model := d_Model d,
            d_Distributed := d_Distributed d, d_Runtime := d_Runtime d\<rparr> = d"
    "if IsContainerAdapter (rt_Adapter (d_Runtime d)) then validateManagedContainerDraft d = Inr ()
    else cmd_Program (lc_Start (rt_Lifecycle (d_Runtime d))) \<noteq> ''''"
    "validate_health (d_Health d) = Inr (d_Health d)"
    unfolding draft_stages_def by metis
  have "d_Health d1 = d_Health d" by (subst s(8) [symmetric]) simp
  with s show "validateDraft d0 = Inr d"
    by (simp add: validateDraft_def Let_def guard_def)
qed

lemma validateDraft_fixed:
  assumes "validateDraft d0 = Inr d" shows "validateDraft d = Inr d"
proof -
  from assms obtain d1 e1 where s: "validate_names d0 = Inr d1" "validate_source (d_Source d1) = Inr (d_Source d)"
     "validate_engine_identity (d_Engine d1) = Inr e1" "validate_engine_command e1 = Inr (d_Engine d)"
     "validate_model (d_Model d1) = Inr (d_Model d)" "validate_distributed (d_Distributed d1) = Inr (d_Distributed d)"
     "validate_runtime (d_Runtime d1) = Inr (d_Runtime d)"
     "d1\<lparr>d_Source := d_Source d, d_Engine := d_Engine d, d_Model := d_Model d,
            d_Distributed := d_Distributed d, d_Runtime := d_Runtime d\<rparr> = d"
    and rest: "if IsContainerAdapter (rt_Adapter (d_Runtime d)) then validateManagedContainerDraft d = Inr ()
    else cmd_Program (lc_Start (rt_Lifecycle (d_Runtime d))) \<noteq> ''''"
    "validate_health (d_Health d) = Inr (d_Health d)"
    unfolding validateDraft_stages draft_stages_def by metis
  have "d_Name d = d_Name d1 \<and> d_Description d = d_Description d1 \<and> d_Platform d = d_Platform d1"
    by (subst (1 2 3) s(8) [symmetric]) simp
  moreover have "trim_space (d_Name d1) = d_Name d1 \<and> trim_space (d_Description d1) = d_Description d1 \<and>
      trim_space (d_Platform d1) = d_Platform d1 \<and> 2 \<le> length (d_Name d1) \<and> length (d_Name d1) \<le> 80 \<and>
      length (d_Description d1) \<le> 1000 \<and> d_Platform d1 \<noteq> '''' \<and> length (d_Platform d1) \<le> 64"
    using s(1) by (auto simp: validate_names_def Let_def)
  ultimately have "validate_names d = Inr d"
    by (simp add: validate_names_def Let_def)
  with validate_source_fixed [OF s(2)] validate_engine_fixed [OF s(3,4)] validate_engine_command_fixed [OF s(4)]
    validate_model_fixed [OF s(5)] validate_distributed_fixed [OF s(6)] validate_runtime_fixed [OF s(7)] rest
  show ?thesis unfolding validateDraft_stages draft_stages_def by (intro conjI exI [of _ d] exI [of _ "d_Engine d"]) auto
qed


subsection \<open>Properties of validated drafts\<close>

lemma contains_mono: "contains t p \<Longrightarrow> contains (u @ t @ v) p"
proof -
  assume "contains t p"
  then obtain x y where "t = x @ p @ y" by (auto simp: contains_iff)
  then have "u @ t @ v = (u @ x) @ p @ (y @ v)" by simp
  then show ?thesis unfolding contains_iff by blast
qed

lemma contains_self [simp]: "contains p p"
  unfolding contains_iff by (rule exI [of _ "[]"], rule exI [of _ "[]"]) simp

lemma join_path_contains: "e \<in> set es \<Longrightarrow> contains (join_path es) e"
proof (induction es rule: join_path.induct)
  case (3 x y es)
  show ?case
  proof (cases "e = x")
    case True
    then show ?thesis using contains_mono [of x x "[]" "''/'' @ join_path (y # es)"] by simp
  next
    case False
    with 3 have "contains (join_path (y # es)) e" by simp
    then show ?thesis using contains_mono [of "join_path (y # es)" e "x @ ''/''" "[]"] by simp
  qed
qed auto

lemma clean_stays_inside:
  assumes "\<not> IsAbs p" "\<not> contains (Clean p) ''..''"
  shows "''..'' \<notin> set (clean_elements p)"
proof
  assume dd: "''..'' \<in> set (clean_elements p)"
  then have "contains (join_path (clean_elements p)) ''..''" by (rule join_path_contains)
  moreover from dd have "clean_elements p \<noteq> []" by (metis empty_iff list.set(1))
  ultimately show False using assms by (simp add: Clean_def)
qed

lemma immutable_image:
  assumes "immutableContainerImagePattern s"
  shows "\<exists>p h. s = p @ ''@sha256:'' @ h \<and> p \<noteq> [] \<and> length h = 64 \<and> list_all is_hex h"
proof -
  let ?n = "length s - 72"
  have n: "72 < length s" "has_prefix (drop ?n s) ''@sha256:''" "list_all is_hex (drop 8 (drop ?n s))"
    using assms by (auto simp: immutableContainerImagePattern_def Let_def)
  then obtain t where t: "drop ?n s = ''@sha256:'' @ t" by (auto simp: has_prefix_iff)
  then have d: "drop 8 (drop ?n s) = t" by simp
  have "length (drop 8 (drop ?n s)) = 64" using n(1) by simp
  with d n(3) have "length t = 64" "list_all is_hex t" by auto
  moreover have "s = take ?n s @ ''@sha256:'' @ t" by (metis append_take_drop_id t)
  moreover have "take ?n s \<noteq> []" using n(1) by (cases s) auto
  ultimately show ?thesis by blast
qed

lemma validated_parts:
  assumes "validateDraft d0 = Inr d"
  shows "validate_names d = Inr d" "validate_source (d_Source d) = Inr (d_Source d)"
    "validate_engine_identity (d_Engine d) = Inr (d_Engine d)"
    "validate_engine_command (d_Engine d) = Inr (d_Engine d)" "validate_model (d_Model d) = Inr (d_Model d)"
    "validate_distributed (d_Distributed d) = Inr (d_Distributed d)"
    "validate_runtime (d_Runtime d) = Inr (d_Runtime d)" "validate_health (d_Health d) = Inr (d_Health d)"
    "IsContainerAdapter (rt_Adapter (d_Runtime d)) \<Longrightarrow> validateManagedContainerDraft d = Inr ()"
proof -
  from validateDraft_fixed [OF assms] obtain d1 e1 where s: "validate_names d = Inr d1"
     "validate_source (d_Source d1) = Inr (d_Source d)"
     "validate_engine_identity (d_Engine d1) = Inr e1" "validate_engine_command e1 = Inr (d_Engine d)"
     "validate_model (d_Model d1) = Inr (d_Model d)" "validate_distributed (d_Distributed d1) = Inr (d_Distributed d)"
     "validate_runtime (d_Runtime d1) = Inr (d_Runtime d)"
     "d1\<lparr>d_Source := d_Source d, d_Engine := d_Engine d, d_Model := d_Model d,
            d_Distributed := d_Distributed d, d_Runtime := d_Runtime d\<rparr> = d"
    and rest: "if IsContainerAdapter (rt_Adapter (d_Runtime d)) then validateManagedContainerDraft d = Inr ()
    else cmd_Program (lc_Start (rt_Lifecycle (d_Runtime d))) \<noteq> ''''"
    "validate_health (d_Health d) = Inr (d_Health d)"
    unfolding validateDraft_stages draft_stages_def by metis
  have same: "d_Source d1 = d_Source d \<and> d_Engine d1 = d_Engine d \<and> d_Model d1 = d_Model d \<and>
      d_Distributed d1 = d_Distributed d \<and> d_Runtime d1 = d_Runtime d"
    using s(1) by (auto simp: validate_names_def Let_def)
  then show "validate_source (d_Source d) = Inr (d_Source d)" "validate_model (d_Model d) = Inr (d_Model d)"
    "validate_distributed (d_Distributed d) = Inr (d_Distributed d)" "validate_runtime (d_Runtime d) = Inr (d_Runtime d)"
    "validate_health (d_Health d) = Inr (d_Health d)"
    "IsContainerAdapter (rt_Adapter (d_Runtime d)) \<Longrightarrow> validateManagedContainerDraft d = Inr ()"
    using s rest by auto
  show "validate_engine_identity (d_Engine d) = Inr (d_Engine d)" by (rule validate_engine_fixed [OF s(3,4)])
  show "validate_engine_command (d_Engine d) = Inr (d_Engine d)" by (rule validate_engine_command_fixed [OF s(4)])
  have "d1\<lparr>d_Source := d_Source d1, d_Engine := d_Engine d1, d_Model := d_Model d1,
            d_Distributed := d_Distributed d1, d_Runtime := d_Runtime d1\<rparr> = d"
    unfolding same [THEN conjunct1] using same s(8) by (metis (no_types))
  then have "d1 = d" by simp
  with s(1) show "validate_names d = Inr d" by simp
qed

definition no_host_command :: "Command \<Rightarrow> bool" where
  "no_host_command c \<longleftrightarrow> cmd_Program c = '''' \<and> (case cmd_Args c of None \<Rightarrow> True | Some as \<Rightarrow> as = [])"

text \<open>The limits one stage establishes.\<close>

lemma names_limits:
  "validate_names d0 = Inr d \<Longrightarrow> 2 \<le> length (d_Name d) \<and> length (d_Name d) \<le> 80 \<and> length (d_Description d) \<le> 1000"
  by (auto simp: validate_names_def Let_def)

lemma engine_limits:
  "validate_engine_identity e0 = Inr e \<Longrightarrow>
    1 \<le> eng_ContainerPort e \<and> eng_ContainerPort e \<le> 65535 \<and> containerImagePattern (eng_Image e) \<and>
    eng_ServedModelName e = CloudlessModelAlias \<and> eng_RestartPolicy e = ''no'' \<and>
    trim_right ''/'' (eng_APIPath e) = ''/v1'' \<and> trim_space (eng_Image e) = eng_Image e"
  by (auto simp: validate_engine_identity_def Let_def)

lemma model_limits:
  "validate_model m0 = Inr m \<Longrightarrow> 1 \<le> mdl_MaxContext m \<and> mdl_MaxContext m \<le> 10000000 \<and>
    \<not> f64_le_zero (mdl_GPUMemoryUtilization m) \<and> \<not> f64_gt_one (mdl_GPUMemoryUtilization m) \<and>
    trim_space (mdl_Revision m) = mdl_Revision m"
  by (auto simp: validate_model_def Let_def)

lemma distributed_limits:
  "validate_distributed n0 = Inr n \<Longrightarrow> 1 \<le> dst_Nodes n \<and> dst_Nodes n \<le> 64 \<and>
    1 \<le> dst_MasterPort n \<and> dst_MasterPort n \<le> 65535"
  by (auto simp: validate_distributed_def bind_res_Inr_iff)

lemma runtime_limits:
  "validate_runtime r0 = Inr r \<Longrightarrow> 1 \<le> rt_TimeoutMinutes r \<and> rt_TimeoutMinutes r \<le> 10080"
  by (auto simp: validate_runtime_def bind_res_Inr_iff split: option.splits)

lemma health_limits:
  "validate_health h0 = Inr h \<Longrightarrow> 1 \<le> hl_Port h \<and> hl_Port h \<le> 65535"
  by (auto simp: validate_health_def)

lemma source_limits:
  assumes "validate_source s0 = Inr s" "(name, digest) \<in> set (src_Files s)"
  shows "\<not> IsAbs name \<and> ''..'' \<notin> set (clean_elements name) \<and> length digest = 64"
proof -
  have "source_file_error (name, digest) = None"
    using assms by (auto simp: validate_source_def Let_def split: option.splits)
  then have "\<not> IsAbs name" "\<not> contains (Clean name) ''..''" "length digest = 64"
    by (auto simp: source_file_error_def split: if_splits)
  with clean_stays_inside show ?thesis by blast
qed

text \<open>Validation is a projection: a draft that passed passes again unchanged.\<close>
theorem validateDraft_idempotent:
  assumes "validateDraft d0 = Inr d" shows "validateDraft d = Inr d"
  by (rule validateDraft_fixed [OF assms])

text \<open>A validated draft respects the limits of the product: names and sizes are bounded, every
  port is a TCP port, timeouts and parallelism are bounded, the engine keeps the model alias and
  never restarts on its own, and the checksum paths stay inside the checkout.\<close>
theorem validated_draft_limits:
  assumes "validateDraft d0 = Inr d"
  shows "2 \<le> length (d_Name d) \<and> length (d_Name d) \<le> 80 \<and> length (d_Description d) \<le> 1000 \<and>
    1 \<le> eng_ContainerPort (d_Engine d) \<and> eng_ContainerPort (d_Engine d) \<le> 65535 \<and>
    1 \<le> hl_Port (d_Health d) \<and> hl_Port (d_Health d) \<le> 65535 \<and>
    1 \<le> dst_MasterPort (d_Distributed d) \<and> dst_MasterPort (d_Distributed d) \<le> 65535 \<and>
    1 \<le> dst_Nodes (d_Distributed d) \<and> dst_Nodes (d_Distributed d) \<le> 64 \<and>
    1 \<le> rt_TimeoutMinutes (d_Runtime d) \<and> rt_TimeoutMinutes (d_Runtime d) \<le> 10080 \<and>
    1 \<le> mdl_MaxContext (d_Model d) \<and> mdl_MaxContext (d_Model d) \<le> 10000000 \<and>
    eng_ServedModelName (d_Engine d) = CloudlessModelAlias \<and> eng_RestartPolicy (d_Engine d) = ''no'' \<and>
    trim_right ''/'' (eng_APIPath (d_Engine d)) = ''/v1'' \<and>
    (\<forall>(name, digest) \<in> set (src_Files (d_Source d)).
       \<not> IsAbs name \<and> ''..'' \<notin> set (clean_elements name) \<and> length digest = 64)"
  using names_limits [OF validated_parts(1) [OF assms]] engine_limits [OF validated_parts(3) [OF assms]]
    model_limits [OF validated_parts(5) [OF assms]] distributed_limits [OF validated_parts(6) [OF assms]]
    runtime_limits [OF validated_parts(7) [OF assms]] health_limits [OF validated_parts(8) [OF assms]]
    source_limits [OF validated_parts(2) [OF assms]]
  by auto

text \<open>C37: A validated container recipe brings no host code: it has no source repository, no host
  command, no prerequisite; its image is pinned by a SHA-256 digest and its model by a commit; and
  it is reached only through the managed loopback port.\<close>
theorem container_recipe_contained:
  assumes "validateDraft d0 = Inr d" "IsContainerAdapter (rt_Adapter (d_Runtime d))"
  shows "src_URL (d_Source d) = '''' \<and> src_Files (d_Source d) = [] \<and>
    (\<exists>p h. eng_Image (d_Engine d) = p @ ''@sha256:'' @ h \<and> p \<noteq> [] \<and> length h = 64 \<and> list_all is_hex h) \<and>
    immutableModelRevisionPattern (mdl_Revision (d_Model d)) \<and>
    (\<forall>(label, c) \<in> set (lifecycle_commands (rt_Lifecycle (d_Runtime d))). no_host_command c) \<and>
    rt_Prerequisites (d_Runtime d) = [] \<and> eng_ProxyHost (d_Engine d) = ''host.docker.internal'' \<and>
    hl_Host (d_Health d) = ''127.0.0.1'' \<and> hl_Port (d_Health d) = eng_ContainerPort (d_Engine d)"
proof -
  have m: "validateManagedContainerDraft d = Inr ()" by (rule validated_parts(9) [OF assms])
  have trimmed: "trim_space (eng_Image (d_Engine d)) = eng_Image (d_Engine d)"
      "trim_space (mdl_Revision (d_Model d)) = mdl_Revision (d_Model d)"
    using engine_limits [OF validated_parts(3) [OF assms(1)]] model_limits [OF validated_parts(5) [OF assms(1)]] by auto
  have cmds: "first_error host_command_error (lifecycle_commands (rt_Lifecycle (d_Runtime d))) = None"
    using m unfolding validateManagedContainerDraft_def Let_def reject_Inr bind_res_Inr_iff
    by (cases "first_error host_command_error (lifecycle_commands (rt_Lifecycle (d_Runtime d)))")
       (simp_all del: first_error_None)
  then have "\<forall>(label, c) \<in> set (lifecycle_commands (rt_Lifecycle (d_Runtime d))). no_host_command c"
    by (fastforce simp: host_command_error_def no_host_command_def split: if_splits option.splits)
  moreover have "immutableContainerImagePattern (eng_Image (d_Engine d))"
    using m trimmed by (simp add: validateManagedContainerDraft_def Let_def)
  moreover note immutable_image [OF this]
  ultimately show ?thesis
    using m cmds trimmed by (simp add: validateManagedContainerDraft_def Let_def bind_res_Inr_iff del: first_error_None)
qed

definition ex_container :: Draft where
  "ex_container = NewManagedDraft\<lparr>
     d_Engine := (d_Engine NewManagedDraft)\<lparr>eng_Image :=
       ''vllm/vllm-openai@sha256:0123456789abcdef0123456789abcdef0123456789abcdef0123456789abcdef''\<rparr>,
     d_Model := (d_Model NewManagedDraft)\<lparr>mdl_ID := ''org/model'',
       mdl_Revision := ''0123456789abcdef0123456789abcdef01234567''\<rparr>\<rparr>"


lemma ex_container_stages:
  "validate_names ex_container = Inr ex_container"
  "validate_source (d_Source ex_container) = Inr (d_Source ex_container)"
  "validate_engine_identity (d_Engine ex_container) = Inr (d_Engine ex_container)"
  "validate_model (d_Model ex_container) = Inr (d_Model ex_container)"
  "validate_distributed (d_Distributed ex_container) = Inr (d_Distributed ex_container)"
  "validate_runtime (d_Runtime ex_container) = Inr (d_Runtime ex_container)"
  "validate_health (d_Health ex_container) = Inr (d_Health ex_container)"
  by code_simp+

lemma ex_container_command: "validate_engine_command (d_Engine ex_container) = Inr (d_Engine ex_container)"
  by (simp add: validate_engine_command_def ex_container_def NewManagedDraft_def cleanStrings_def within_def reject_def refuse_def)

lemma ex_container_managed:
  "validateManagedContainerDraft ex_container = Inr ()"
  "IsContainerAdapter (rt_Adapter (d_Runtime ex_container))"
  by code_simp+

lemma ex_container_valid: "validateDraft ex_container = Inr ex_container"
  unfolding validateDraft_stages draft_stages_def
  using ex_container_stages ex_container_command ex_container_managed
  by (intro conjI exI [of _ ex_container] exI [of _ "d_Engine ex_container"]) auto

theorem validateDraft_idempotent_witness: "validateDraft ex_container = Inr ex_container"
  by (rule validateDraft_idempotent [OF ex_container_valid])

theorem validated_draft_limits_witness:
  "1 \<le> eng_ContainerPort (d_Engine ex_container) \<and> eng_RestartPolicy (d_Engine ex_container) = ''no''"
  using validated_draft_limits [OF ex_container_valid] by blast

theorem container_recipe_contained_witness:
  "\<exists>p h. eng_Image (d_Engine ex_container) = p @ ''@sha256:'' @ h \<and> length h = 64"
  using container_recipe_contained [OF ex_container_valid ex_container_managed(2)] by blast

subsection \<open>The operations of the store\<close>





lemmas operation_splits = sum.splits option.splits if_splits












subsection \<open>Reading back\<close>

lemma normal_detach [simp]: "normal_recipe r \<Longrightarrow> detach_recipe r = r"
proof -
  assume "normal_recipe r"
  then have "syncCompatibility r = r" by (simp add: normal_recipe_def)
  moreover have "r_Files (syncCompatibility r) = files_opt (src_Files (r_Source r))"
    by (simp add: syncCompatibility_def)
  ultimately have "r_Files r = files_opt (src_Files (r_Source r))" by metis
  then have "Option.bind (r_Files r) files_opt = r_Files r"
    by (cases "src_Files (r_Source r)") (simp_all add: files_opt_def)
  then show ?thesis by (simp add: detach_recipe_def)
qed

lemma load_normal:
  assumes "load_recipes now f = Inr rs" "now \<noteq> ''''"
  shows "list_all normal_recipe rs"
  using assms by (auto simp: load_recipes_def list_all_iff normalize_normal split: index_file.splits if_splits)

lemma load_saved: "list_all normal_recipe rs \<Longrightarrow> load_recipes now (Index 2 (map detach_recipe rs)) = Inr rs"
  by (simp add: load_recipes_def list_all_iff normal_fixed map_idI)

abbreviation ids :: "Recipe list \<Rightarrow> string list" where
  "ids rs \<equiv> map r_ID rs"

lemma find_with_id:
  "distinct (ids rs) \<Longrightarrow> find (with_id i) rs = Some r \<longleftrightarrow> r \<in> set rs \<and> r_ID r = i"
  by (induction rs) (auto simp: with_id_def)

lemma find_with_id_None: "find (with_id i) rs = None \<longleftrightarrow> i \<notin> set (ids rs)"
  by (induction rs) (auto simp: with_id_def)

lemma distinct_sort_ids: "distinct (ids rs) \<Longrightarrow> distinct (ids (sort_key k rs))"
  by (rule mset_eq_imp_distinct_iff [THEN iffD1]) simp_all

lemma find_sorted:
  assumes "distinct (ids rs)"
  shows "find (with_id i) (sort_key k rs) = find (with_id i) rs"
proof (cases "find (with_id i) rs")
  case None
  then have "i \<notin> set (ids (sort_key k rs))" by (simp add: find_with_id_None)
  with None show ?thesis by (simp only: find_with_id_None [symmetric])
next
  case (Some r)
  then have "r \<in> set (sort_key k rs)" "r_ID r = i" using assms by (auto simp: find_with_id)
  then have "find (with_id i) (sort_key k rs) = Some r"
    by (simp only: find_with_id [OF distinct_sort_ids [OF assms]])
  with Some show ?thesis by simp
qed

definition live :: "Recipe \<Rightarrow> bool" where
  "live r \<longleftrightarrow> r_TombstonedAt r = ''''"

lemma find_live:
  "distinct (ids rs) \<Longrightarrow> find (with_id i) (filter live rs) =
     (case find (with_id i) rs of None \<Rightarrow> None | Some r \<Rightarrow> if live r then Some r else None)"
proof (cases "find (with_id i) (filter live rs)")
  case None
  then have "\<forall>r \<in> set rs. live r \<longrightarrow> r_ID r \<noteq> i" by (auto simp: find_with_id_None)
  then show "distinct (ids rs) \<Longrightarrow> ?thesis" using None
    by (auto simp: find_with_id split: option.split)
next
  case (Some r)
  assume d: "distinct (ids rs)"
  then have "r \<in> set rs" "live r" "r_ID r = i"
    using Some find_with_id [of "filter live rs" i r] by (auto simp: distinct_map_filter)
  with d have "find (with_id i) rs = Some r" by (simp add: find_with_id)
  with Some \<open>live r\<close> show ?thesis by simp
qed

text \<open>What the two lookups return on a loaded list.\<close>

lemma lookups:
  assumes "load_recipes now f = Inr rs" "distinct (ids rs)"
  shows "GetAny now i f = Inr (find (with_id i) rs)"
    and "GetRecipe now i f = Inr (case find (with_id i) rs of None \<Rightarrow> None | Some r \<Rightarrow> if live r then Some r else None)"
proof -
  show "GetAny now i f = Inr (find (with_id i) rs)"
    using assms by (simp add: GetAny_def ListAll_def find_sorted)
  have "(\<lambda>r. r_TombstonedAt r = '''') = live" by (rule ext) (simp add: live_def)
  then show "GetRecipe now i f = Inr (case find (with_id i) rs of None \<Rightarrow> None | Some r \<Rightarrow> if live r then Some r else None)"
    using assms by (simp add: GetRecipe_def ListRecipes_def ListAll_def find_live distinct_sort_ids find_sorted)
qed

lemma update_first_ids: "(\<And>r. r_ID (g r) = r_ID r) \<Longrightarrow> ids (update_first p g rs) = ids rs"
  by (induction rs) auto

lemma update_first_find:
  "distinct (ids rs) \<Longrightarrow> (\<And>r. r_ID (g r) = r_ID r) \<Longrightarrow>
     find (with_id i) (update_first (with_id j) g rs) =
       (if i = j then map_option g (find (with_id i) rs) else find (with_id i) rs)"
  by (induction rs) (auto simp: with_id_def)

lemma update_first_all: "list_all P rs \<Longrightarrow> (\<And>r. P r \<Longrightarrow> P (g r)) \<Longrightarrow> list_all P (update_first p g rs)"
  by (induction rs) auto


lemma normal_tombstoned: "normal_recipe r \<Longrightarrow> normal_recipe (mark_tombstoned now r)"
proof -
  have "normal_dspark (r\<lparr>r_TombstonedAt := t\<rparr>) = normal_dspark r" "normal_1m (r\<lparr>r_TombstonedAt := t\<rparr>) = normal_1m r"
      "syncCompatibility (r\<lparr>r_TombstonedAt := t\<rparr>) = (syncCompatibility r)\<lparr>r_TombstonedAt := t\<rparr>" for t
    by (simp_all add: normal_dspark_def is_dspark_def normal_1m_def is_1m_def syncCompatibility_def)
  then show "normal_recipe r \<Longrightarrow> ?thesis" by (simp add: normal_recipe_def mark_tombstoned_def)
qed

lemma mark_tombstoned_keeps [simp]:
  "r_ID (mark_tombstoned now r) = r_ID r" "DraftFromSnapshot (mark_tombstoned now r) = DraftFromSnapshot r"
  by (simp_all add: mark_tombstoned_def DraftFromSnapshot_def)

lemma store_and_return_Inr:
  "store_and_return fault rs v f = (Inr w, f') \<Longrightarrow> w = v \<and> f' = Index 2 (map detach_recipe rs)"
  by (auto simp: store_and_return_def save_recipes_def split: operation_splits)

text \<open>A tombstoned recipe disappears from the executable catalogue and from nothing else: after
  the mark \<open>Get\<close> does not return it, \<open>GetAny\<close> still returns it with the same lifecycle
  specification, and every other recipe reads as before.\<close>
theorem tombstone_hides_recipe:
  assumes "TombstoneRecipe now fault rid f = (Inr (), f')" "now \<noteq> ''''" "load_recipes now f = Inr rs" "distinct (ids rs)"
  shows "GetRecipe later rid f' = Inr None \<and>
    (\<exists>r t. GetAny now rid f = Inr (Some r) \<and> GetAny later rid f' = Inr (Some t) \<and>
       DraftFromSnapshot t = DraftFromSnapshot r \<and> r_TombstonedAt t \<noteq> '''') \<and>
    (\<forall>i. i \<noteq> rid \<longrightarrow> GetRecipe later i f' = GetRecipe now i f \<and> GetAny later i f' = GetAny now i f)"
proof -
  let ?rs = "update_first (with_id rid) (mark_tombstoned now) rs"
  from assms(1,3) have found: "list_ex (with_id rid) rs" and f': "f' = Index 2 (map detach_recipe ?rs)"
    by (auto simp: TombstoneRecipe_def split: if_splits dest!: store_and_return_Inr)
  have "list_all normal_recipe ?rs"
    by (rule update_first_all [OF load_normal [OF assms(3,2)] normal_tombstoned])
  then have l: "load_recipes later f' = Inr ?rs" unfolding f' by (rule load_saved)
  have d: "distinct (ids ?rs)" using assms(4) by (simp add: update_first_ids)
  note before = lookups [OF assms(3,4)] and after = lookups [OF l d]
  have find: "find (with_id i) ?rs = (if i = rid then map_option (mark_tombstoned now) (find (with_id i) rs) else find (with_id i) rs)" for i
    by (rule update_first_find [OF assms(4)]) simp
  from found have "find (with_id rid) rs \<noteq> None"
    by (auto simp: find_with_id_None list_ex_iff with_id_def)
  then obtain r where r: "find (with_id rid) rs = Some r" by blast
  have dead: "r_TombstonedAt (mark_tombstoned now r) \<noteq> ''''"
    using assms(2) by (simp add: mark_tombstoned_def)
  show ?thesis using r dead unfolding before after find by (auto simp: live_def)
qed



subsection \<open>Community revisions\<close>

text \<open>No provenance of the recipe names the revision without being revoked.\<close>

definition revoked_in :: "string \<Rightarrow> Recipe \<Rightarrow> bool" where
  "revoked_in revision r \<longleftrightarrow>
     (case r_Community r of None \<Rightarrow> True | Some p \<Rightarrow> cp_RevisionID p = revision \<longrightarrow> cp_Revoked p) \<and>
     list_all (\<lambda>b. cp_RevisionID (cr_Provenance b) = revision \<longrightarrow> cp_Revoked (cr_Provenance b)) (r_CommunityRollback r)"

lemma revoke_recipe_revoked: "revoked_in revision (revoke_recipe revision reason r)"
  by (auto simp: revoked_in_def revoke_recipe_def revoke_def list_all_iff split: option.split)

lemma normalize_community:
  "eng_Type (r_Engine r) \<noteq> '''' \<Longrightarrow> r_Community (normalize now r) = r_Community r \<and>
     r_CommunityRollback (normalize now r) = r_CommunityRollback r"
  by (simp add: normalize_steps)

lemma revoked_in_normalize: "revoked_in revision r \<Longrightarrow> revoked_in revision (normalize now r)"
proof (cases "eng_Type (r_Engine r) = ''''")
  case True
  then show ?thesis by (simp add: revoked_in_def normalize_steps recipeFromDraft_def)
qed (simp add: revoked_in_def normalize_community)

lemma revoked_in_detach [simp]: "revoked_in revision (detach_recipe r) = revoked_in revision r"
  by (simp add: revoked_in_def detach_recipe_def)

text \<open>A revocation is final: once \<open>MarkCommunityRevoked\<close> has succeeded for a revision, a rollback
  never restores it, nor any other revoked revision, and it makes the history shorter.\<close>
theorem revoked_revision_not_restored:
  assumes "MarkCommunityRevoked now fault revision reason f = (Inr (), f1)"
    and "RollbackCommunity later fault' rid f1 = (Inr r, f2)"
  shows "\<exists>p. r_Community r = Some p \<and> cp_RevisionID p \<noteq> revision \<and> \<not> cp_Revoked p"
proof -
  from assms(1) obtain rs where f1: "f1 = Index 2 (map detach_recipe (map (revoke_recipe revision reason) rs))"
    by (auto simp: MarkCommunityRevoked_def split: operation_splits dest!: store_and_return_Inr)
  let ?us = "map (\<lambda>x. normalize later (detach_recipe (revoke_recipe revision reason x))) rs"
  have l: "load_recipes later f1 = Inr ?us"
    by (simp add: f1 load_recipes_def)
  have all: "\<forall>u \<in> set ?us. revoked_in revision u"
    by (simp add: revoked_in_normalize revoke_recipe_revoked)
  from assms(2) l obtain u where u: "find (is_community rid) ?us = Some u" "r_CommunityRollback u \<noteq> []"
    "\<not> cp_Revoked (cr_Provenance (last (r_CommunityRollback u)))" "r = restored u (last (r_CommunityRollback u))"
    by (auto simp: RollbackCommunity_def Let_def simp del: map_map split: operation_splits dest!: store_and_return_Inr)
  from u(1) all have "revoked_in revision u" by (blast dest: find_SomeD)
  with u(2,3) have "cp_RevisionID (cr_Provenance (last (r_CommunityRollback u))) \<noteq> revision"
    by (auto simp: revoked_in_def list_all_iff)
  with u(3,4) show ?thesis by (simp add: restored_def)
qed

lemma last_three_last:
  assumes "xs \<noteq> []"
  shows "last_three xs \<noteq> [] \<and> last (last_three xs) = last xs \<and> length (last_three xs) \<le> 3 \<and> last xs \<in> set (last_three xs)"
proof -
  have "length xs - 3 < length xs" using assms by (cases xs) auto
  then have "last_three xs \<noteq> [] \<and> last (last_three xs) = last xs \<and> length (last_three xs) \<le> 3"
    by (auto simp: last_three_def)
  then show ?thesis by (metis last_in_set)
qed

lemma update_first_set: "set (update_first p g xs) \<subseteq> set xs \<union> g ` {x \<in> set xs. p x}"
  by (induction xs) auto

lemma update_first_found: "find p xs = Some y \<Longrightarrow> g y \<in> set (update_first p g xs)"
  by (induction xs) (auto split: if_splits)

lemma update_first_map: "(\<And>x. x \<in> set xs \<Longrightarrow> h x = x) \<Longrightarrow> map h (update_first p (\<lambda>_. y) xs) = update_first p (\<lambda>_. h y) xs"
  by (induction xs) (auto simp: map_idI)

lemma find_community:
  "distinct (ids rs) \<Longrightarrow> x \<in> set rs \<Longrightarrow> r_Community x \<noteq> None \<Longrightarrow> find (is_community (r_ID x)) rs = Some x"
  by (induction rs) (auto simp: is_community_def)

lemma marshals_normalize:
  "eng_Type (r_Engine r) \<noteq> '''' \<Longrightarrow> recipe_marshals (normalize now r) = recipe_marshals r"
  by (simp add: recipe_marshals_def normalize_steps)

lemma marshals_restored:
  "recipe_marshals x \<Longrightarrow> b \<in> set (r_CommunityRollback x) \<Longrightarrow> recipe_marshals (restored x b)"
  by (auto simp: recipe_marshals_def restored_def recipeFromDraft_def list_all_iff syncCompatibility_def dest: in_set_butlastD)

lemma DraftFromSnapshot_recipeFromDraft [simp]:
  "DraftFromSnapshot (recipeFromDraft i origin trust now d) = d"
  by (simp add: DraftFromSnapshot_def recipeFromDraft_def syncCompatibility_def)

lemma DraftFromSnapshot_community [simp]:
  "DraftFromSnapshot (r\<lparr>r_Community := p\<rparr>) = DraftFromSnapshot r"
  "DraftFromSnapshot (r\<lparr>r_CommunityRollback := b\<rparr>) = DraftFromSnapshot r"
  by (simp_all add: DraftFromSnapshot_def)

text \<open>Replacing the first recipe that satisfies \<open>p\<close> by one with the same identifier, and reading back.\<close>

lemma replaced_reload:
  assumes normal: "list_all normal_recipe rs" and d: "distinct (ids rs)" and found: "find p rs = Some previous"
    and r: "r_ID r = r_ID previous" "detach_recipe r = r" "r_Community n \<noteq> None" "n = normalize later r"
  shows "load_recipes later (Index 2 (map detach_recipe (update_first p (\<lambda>_. r) rs))) = Inr (update_first p (\<lambda>_. n) rs)"
    and "find (is_community (r_ID r)) (update_first p (\<lambda>_. n) rs) = Some n"
    and "x \<in> set (update_first p (\<lambda>_. n) rs) \<Longrightarrow> is_community (r_ID r) x \<Longrightarrow> x = n"
proof -
  let ?us = "update_first p (\<lambda>_. n) rs"
  have "map (normalize later \<circ> detach_recipe) (update_first p (\<lambda>_. r) rs) = ?us"
    using normal update_first_map [of rs "normalize later \<circ> detach_recipe" p r] r
    by (simp add: list_all_iff normal_fixed)
  then show "load_recipes later (Index 2 (map detach_recipe (update_first p (\<lambda>_. r) rs))) = Inr ?us"
    by (simp add: load_recipes_def)
  have n: "r_ID n = r_ID r" by (simp add: r(4))
  have "ids (update_first p (\<lambda>_. n) xs) = ids xs" if "find p xs = Some previous" for xs
    using that n r(1) by (induction xs) (auto split: if_splits)
  with d found have u: "distinct (ids ?us)" by simp
  have m: "n \<in> set ?us" by (rule update_first_found [OF found])
  show "find (is_community (r_ID r)) ?us = Some n"
    using find_community [OF u m r(3)] n by simp
  show "x \<in> set ?us \<Longrightarrow> is_community (r_ID r) x \<Longrightarrow> x = n"
    using u m n unfolding is_community_def distinct_map by (metis inj_onD)
qed

lemma replaced_marshals:
  assumes saved: "list_all recipe_marshals (update_first p (\<lambda>_. r) rs)" and found: "find p rs = Some previous"
    and n: "recipe_marshals n = recipe_marshals r" "b \<in> set (r_CommunityRollback n)"
    and only: "\<And>x. x \<in> set (update_first p (\<lambda>_. n) rs) \<Longrightarrow> c x \<Longrightarrow> x = n"
  shows "list_all recipe_marshals (update_first c (\<lambda>x. restored x b) (update_first p (\<lambda>_. n) rs))"
proof -
  have nm: "recipe_marshals n"
    using saved update_first_found [OF found, of "\<lambda>_. r"] n(1) by (auto simp: list_all_iff)
  have "set (update_first p (\<lambda>_. n) xs) \<subseteq> insert n (set (update_first p (\<lambda>_. r) xs))" for xs
    by (induction xs) auto
  with saved nm have all: "recipe_marshals x" if "x \<in> set (update_first p (\<lambda>_. n) rs)" for x
    using that by (auto simp: list_all_iff)
  have rest: "recipe_marshals (restored n b)" by (rule marshals_restored [OF nm n(2)])
  have "recipe_marshals y" if "y \<in> set (update_first c (\<lambda>x. restored x b) xs)"
      "\<And>x. x \<in> set xs \<Longrightarrow> recipe_marshals x" "\<And>x. x \<in> set xs \<Longrightarrow> c x \<Longrightarrow> x = n" for y xs
    using that rest by (induction xs) (auto split: if_splits)
  with all only show ?thesis unfolding list_all_iff by blast
qed

text \<open>Installing a new community revision and rolling back gives the previous revision again: the
  same specification and the same provenance; and the history never holds more than three
  revisions.\<close>
theorem install_then_rollback:
  assumes installed: "InstallCommunity now fault draft prov f = (Inr r, f1)" and now: "now \<noteq> ''''"
    and loaded: "load_recipes now f = Inr rs" "distinct (ids rs)"
    and previous: "find (of_community (cp_RecipeID prov)) rs = Some previous" "r_Community previous = Some q"
      "r_ID previous = community_id (cp_RecipeID prov)"
    and new: "cp_RevisionID q \<noteq> cp_RevisionID prov" "\<not> cp_Revoked q"
  shows "length (r_CommunityRollback r) \<le> 3 \<and>
    (\<exists>r'. fst (RollbackCommunity later None (r_ID r) f1) = Inr r' \<and>
       DraftFromSnapshot r' = DraftFromSnapshot previous \<and> r_Community r' = Some q)"
proof -
  let ?b = "\<lparr>cr_Draft = DraftFromSnapshot previous, cr_Provenance = q\<rparr>"
  let ?h = "last_three (r_CommunityRollback previous @ [?b])" and ?p = "of_community (cp_RecipeID prov)"
  from installed loaded(1) previous new obtain d where d: "validateDraft draft = Inr d"
    "r = (recipeFromDraft (community_id (cp_RecipeID prov)) ''community'' ''community-signed'' now d)
       \<lparr>r_Community := Some (prov\<lparr>cp_InstalledAt := now\<rparr>), r_CommunityRollback := ?h\<rparr>"
    and saved: "store_and_return fault (update_first ?p (\<lambda>_. r) rs) r f = (Inr r, f1)"
    by (auto simp: InstallCommunity_def Let_def split: operation_splits dest: store_and_return_Inr)
  have h: "?h \<noteq> []" "last ?h = ?b" "length ?h \<le> 3" "?b \<in> set ?h"
    using last_three_last [of "r_CommunityRollback previous @ [?b]"] by auto
  have f1: "f1 = Index 2 (map detach_recipe (update_first ?p (\<lambda>_. r) rs))"
    and m: "list_all recipe_marshals (update_first ?p (\<lambda>_. r) rs)"
    using saved by (auto simp: store_and_return_def save_recipes_def split: operation_splits)
  have r: "r_ID r = r_ID previous" "detach_recipe r = r" "r_Community r \<noteq> None"
    by (simp_all add: d(2) previous(3) recipeFromDraft_def detach_recipe_def syncCompatibility_def files_opt_def)
  have et: "eng_Type (r_Engine r) \<noteq> ''''"
    using validated_parts(3) [OF d(1)] by (auto simp: d(2) recipeFromDraft_def validate_engine_identity_def Let_def)
  define n where "n = normalize later r"
  have n: "r_Community n \<noteq> None" "r_CommunityRollback n = ?h" "recipe_marshals n = recipe_marshals r"
    using normalize_community [OF et, of later] marshals_normalize [OF et] r(3) by (simp_all add: n_def) (simp add: d(2))
  note reload = replaced_reload [OF load_normal [OF loaded(1) now] loaded(2) previous(1) r(1,2) n(1) n_def]
  have "list_all recipe_marshals (update_first (is_community (r_ID r)) (\<lambda>x. restored x ?b) (update_first ?p (\<lambda>_. n) rs))"
    using h(4) n(2) by (intro replaced_marshals [OF m previous(1) n(3)] reload(3)) auto
  then have "fst (RollbackCommunity later None (r_ID r) f1) = Inr (restored n ?b)"
    using reload(1,2) h n(2) new(2)
    by (simp add: f1 RollbackCommunity_def Let_def store_and_return_def save_recipes_def)
  then show ?thesis using h(3) by (simp add: d(2) restored_def)
qed

text \<open>\<open>InstallCommunity\<close> brings a deleted recipe back: installing another revision of a recipe that
  is tombstoned succeeds, and the recipe that replaces it is not tombstoned, whatever operations of
  the old one still wait for cleanup.\<close>
theorem install_resurrects_tombstoned:
  assumes "InstallCommunity now fault draft prov f = (Inr r, f1)"
    and "load_recipes now f = Inr rs" "find (of_community (cp_RecipeID prov)) rs = Some previous"
    and "r_TombstonedAt previous \<noteq> ''''" "r_Community previous = Some q" "cp_RevisionID q \<noteq> cp_RevisionID prov"
  shows "r_TombstonedAt r = '''' \<and> live r"
  using assms
  by (auto simp: InstallCommunity_def Let_def recipeFromDraft_def live_def split: operation_splits
      dest!: store_and_return_Inr)


subsection \<open>Concrete stores\<close>





definition ex_provenance :: "string \<Rightarrow> CommunityProvenance" where
  "ex_provenance v = \<lparr>cp_RecipeID = ''c1'', cp_RevisionID = v, cp_Slug = ''s'', cp_Version = ''1.0'',
     cp_Digest = ''sha256:00'', cp_SigningKeyID = ''k1'', cp_InstalledAt = '''', cp_Revoked = False,
     cp_RevokedReason = ''''\<rparr>"

definition ex_installed :: "string \<Rightarrow> CommunityRollback list \<Rightarrow> Recipe" where
  "ex_installed v rb = (recipeFromDraft (community_id ''c1'') ''community'' ''community-signed'' ''now'' ex_container)
     \<lparr>r_Community := Some (ex_provenance v), r_CommunityRollback := rb\<rparr>"

definition ex_back :: CommunityRollback where
  "ex_back = \<lparr>cr_Draft = ex_container, cr_Provenance = ex_provenance ''v1''\<rparr>"

lemma ex_installed_fields [simp]:
  "r_ID (ex_installed v rb) = community_id ''c1''" "r_Community (ex_installed v rb) = Some (ex_provenance v)"
  "r_CommunityRollback (ex_installed v rb) = rb" "r_TombstonedAt (ex_installed v rb) = ''''"
  "DraftFromSnapshot (ex_installed v rb) = ex_container"
  by (simp_all add: ex_installed_def) (simp_all add: recipeFromDraft_def)

lemma ex_provenance_fields [simp]:
  "cp_RecipeID (ex_provenance v) = ''c1''" "cp_RevisionID (ex_provenance v) = v" "\<not> cp_Revoked (ex_provenance v)"
  "cp_Digest (ex_provenance v) = ''sha256:00''"
  by (simp_all add: ex_provenance_def)

lemma ex_installed_normal: "normal_recipe (ex_installed v rb)"
proof -
  have e: "normal_engine (d_Engine ex_container)" "src_URL (d_Source ex_container) = ''''" by code_simp+
  have u: "'''' \<noteq> DeepSeekDSparkSource" "'''' \<noteq> DeepSeekV4Flash1MSource" by code_simp+
  from e u show ?thesis
    by (simp add: normal_recipe_def normal_dspark_def normal_1m_def is_dspark_def is_1m_def ex_installed_def
        recipeFromDraft_def syncCompatibility_def)
qed

lemma ex_model: "model_json (d_Model ex_container) \<noteq> None"
  by code_simp

lemma ex_installed_marshals: "rb = [] \<or> rb = [ex_back] \<Longrightarrow> recipe_marshals (ex_installed v rb)"
  using ex_model by (auto simp: recipe_marshals_def ex_installed_def recipeFromDraft_def syncCompatibility_def ex_back_def)

lemma ex_good_provenance: "v \<in> {''v1'', ''v2''} \<Longrightarrow> \<not> bad_provenance (ex_provenance v)"
proof -
  have "\<forall>v \<in> set [''v1'', ''v2'']. \<not> bad_provenance (ex_provenance v)" by code_simp
  then show "v \<in> {''v1'', ''v2''} \<Longrightarrow> ?thesis" by auto
qed

lemma ex_load: "list_all normal_recipe rs \<Longrightarrow> load_recipes now (Index 2 rs) = Inr rs"
  using load_saved [of rs now] by (simp add: list_all_iff map_idI)

theorem tombstone_hides_recipe_witness:
  "\<exists>f'. TombstoneRecipe ''then'' None (community_id ''c1'') (Index 2 [ex_installed ''v1'' []]) = (Inr (), f') \<and>
     GetRecipe ''later'' (community_id ''c1'') f' = Inr None"
proof -
  have l: "load_recipes ''then'' (Index 2 [ex_installed ''v1'' []]) = Inr [ex_installed ''v1'' []]"
    by (rule ex_load) (simp add: ex_installed_normal)
  have "recipe_marshals (mark_tombstoned ''then'' (ex_installed ''v1'' []))"
    using ex_installed_marshals [of "[]" "''v1''"] by (simp add: mark_tombstoned_def recipe_marshals_def)
  then obtain f' where f': "TombstoneRecipe ''then'' None (community_id ''c1'') (Index 2 [ex_installed ''v1'' []]) = (Inr (), f')"
    using l by (simp add: TombstoneRecipe_def store_and_return_def save_recipes_def with_id_def)
  from tombstone_hides_recipe [OF f' _ l] f' show ?thesis by simp
qed

theorem revoked_revision_not_restored_witness:
  "\<exists>f1 f2 r. MarkCommunityRevoked ''now'' None ''v2'' ''bad'' (Index 2 [ex_installed ''v2'' [ex_back]]) = (Inr (), f1) \<and>
     RollbackCommunity ''later'' None (community_id ''c1'') f1 = (Inr r, f2) \<and>
     r_Community r \<noteq> Some (ex_provenance ''v2'')"
proof -
  let ?r = "revoke_recipe ''v2'' ''bad'' (ex_installed ''v2'' [ex_back])"
  have l: "load_recipes ''now'' (Index 2 [ex_installed ''v2'' [ex_back]]) = Inr [ex_installed ''v2'' [ex_back]]"
    by (rule ex_load) (simp add: ex_installed_normal)
  have m: "recipe_marshals ?r"
    using ex_installed_marshals [of "[ex_back]" "''v2''"] by (simp add: revoke_recipe_def recipe_marshals_def)
  have f1: "MarkCommunityRevoked ''now'' None ''v2'' ''bad'' (Index 2 [ex_installed ''v2'' [ex_back]]) = (Inr (), Index 2 [detach_recipe ?r])"
    using l m by (simp add: MarkCommunityRevoked_def store_and_return_def save_recipes_def names_revision_def)
  have et: "eng_Type (r_Engine (detach_recipe ?r)) \<noteq> ''''"
    using ex_installed_normal [of "''v2''" "[ex_back]"]
    by (simp add: detach_recipe_def revoke_recipe_def normal_recipe_def normal_engine_def)
  let ?n = "normalize ''later'' (detach_recipe ?r)"
  have n: "r_ID ?n = community_id ''c1''" "r_Community ?n \<noteq> None" "r_CommunityRollback ?n = [ex_back]" "recipe_marshals ?n"
    using normalize_community [OF et, of "''later''"] marshals_normalize [OF et, of "''later''"] m
    by (simp_all add: detach_recipe_def revoke_recipe_def revoke_def ex_back_def) (simp_all add: recipe_marshals_def)
  have "load_recipes ''later'' (Index 2 [detach_recipe ?r]) = Inr [?n]" by (simp add: load_recipes_def)
  moreover have "recipe_marshals (restored ?n ex_back)" using n by (intro marshals_restored) auto
  moreover have "\<not> cp_Revoked (cr_Provenance ex_back)" by (simp add: ex_back_def)
  ultimately obtain r f2 where r: "RollbackCommunity ''later'' None (community_id ''c1'') (Index 2 [detach_recipe ?r]) = (Inr r, f2)"
    using n by (auto simp: RollbackCommunity_def Let_def is_community_def store_and_return_def save_recipes_def)
  from revoked_revision_not_restored [OF f1 r] f1 r show ?thesis by auto
qed

lemma ex_install:
  assumes "p = ex_installed ''v1'' [] \<or> p = mark_tombstoned ''then'' (ex_installed ''v1'' [])"
  shows "\<exists>r f1. InstallCommunity ''now'' None ex_container (ex_provenance ''v2'') (Index 2 [p]) = (Inr r, f1) \<and>
    r_ID r = community_id ''c1''"
proof -
  let ?new = "(recipeFromDraft (community_id ''c1'') ''community'' ''community-signed'' ''now'' ex_container)
     \<lparr>r_Community := Some ((ex_provenance ''v2'')\<lparr>cp_InstalledAt := ''now''\<rparr>),
      r_CommunityRollback := [\<lparr>cr_Draft = ex_container, cr_Provenance = ex_provenance ''v1''\<rparr>]\<rparr>"
  have p: "normal_recipe p" "DraftFromSnapshot p = ex_container" "r_Community p = Some (ex_provenance ''v1'')"
      "r_CommunityRollback p = []" "of_community ''c1'' p"
    using assms ex_installed_normal [of "''v1''" "[]"]
    by (auto simp: normal_tombstoned of_community_def) (simp_all add: mark_tombstoned_def)
  have "recipe_marshals ?new"
    using ex_model by (simp add: recipe_marshals_def recipeFromDraft_def syncCompatibility_def)
  with p ex_good_provenance [of "''v2''"] show ?thesis
    by (simp add: InstallCommunity_def ex_container_valid ex_load Let_def store_and_return_def save_recipes_def last_three_def)
       (simp add: recipeFromDraft_def)
qed

theorem install_then_rollback_witness:
  "\<exists>r f1 r'. InstallCommunity ''now'' None ex_container (ex_provenance ''v2'') (Index 2 [ex_installed ''v1'' []]) = (Inr r, f1) \<and>
     fst (RollbackCommunity ''later'' None (r_ID r) f1) = Inr r' \<and> r_Community r' = Some (ex_provenance ''v1'')"
proof -
  obtain r f1 where i: "InstallCommunity ''now'' None ex_container (ex_provenance ''v2'') (Index 2 [ex_installed ''v1'' []]) = (Inr r, f1)"
    using ex_install by blast
  have l: "load_recipes ''now'' (Index 2 [ex_installed ''v1'' []]) = Inr [ex_installed ''v1'' []]"
    by (rule ex_load) (simp add: ex_installed_normal)
  from install_then_rollback [OF i _ l, of "ex_installed ''v1'' []" "ex_provenance ''v1''" "''later''"] i show ?thesis
    by (simp add: of_community_def) blast
qed

theorem install_resurrects_tombstoned_witness:
  "\<exists>r f1. InstallCommunity ''now'' None ex_container (ex_provenance ''v2'')
       (Index 2 [mark_tombstoned ''then'' (ex_installed ''v1'' [])]) = (Inr r, f1) \<and> live r"
proof -
  let ?p = "mark_tombstoned ''then'' (ex_installed ''v1'' [])"
  obtain r f1 where i: "InstallCommunity ''now'' None ex_container (ex_provenance ''v2'') (Index 2 [?p]) = (Inr r, f1)"
    using ex_install by blast
  have l: "load_recipes ''now'' (Index 2 [?p]) = Inr [?p]"
    by (rule ex_load) (simp add: ex_installed_normal normal_tombstoned)
  have "r_TombstonedAt ?p \<noteq> ''''" "r_Community ?p = Some (ex_provenance ''v1'')" "of_community ''c1'' ?p"
    by (simp_all add: mark_tombstoned_def of_community_def)
  with install_resurrects_tombstoned [OF i l, of ?p "ex_provenance ''v1''"] i show ?thesis by auto
qed

end
