(* ===== verification/DisplayLayout.thy ===== *)
theory DisplayLayout
  imports GoStrings
begin

text \<open>
  \<open>internal/displaylayout/layout.go\<close>: the XRandR layout policy. \<open>Parse\<close> reads the output of
  \<open>xrandr --query\<close>, \<open>BuildPlan\<close> resolves a preference against the connected outputs, \<open>Matches\<close>
  checks the result. An \<open>int\<close> is a 64-bit integer: products and sums wrap.
\<close>

definition LayoutSingle :: string where "LayoutSingle = ''single''"
definition LayoutMirror :: string where "LayoutMirror = ''mirror''"
definition LayoutExtend :: string where "LayoutExtend = ''extend''"

lemmas layout_names = LayoutSingle_def LayoutMirror_def LayoutExtend_def

record Mode =
  mo_Width :: int
  mo_Height :: int
  mo_Current :: bool
  mo_Preferred :: bool

record Output =
  ou_Name :: string
  ou_Primary :: bool
  ou_Width :: int
  ou_Height :: int
  ou_X :: int
  ou_Y :: int
  ou_Modes :: "Mode list"

type_synonym Snapshot = "Output list"

record Preference =
  dp_Layout :: string
  dp_Output :: string
  dp_Width :: int
  dp_Height :: int

record Plan =
  pl_Args :: "string list"
  pl_Effective :: Preference
  pl_Fallback :: bool
  pl_Reason :: string
  pl_WasChanged :: bool

definition Active :: "Output \<Rightarrow> bool" where
  "Active o' \<longleftrightarrow> ou_Width o' > 0 \<and> ou_Height o' > 0"

definition ValidLayout :: "string \<Rightarrow> bool" where
  "ValidLayout l \<longleftrightarrow> l = LayoutSingle \<or> l = LayoutMirror \<or> l = LayoutExtend"

subsection \<open>Parsing\<close>

text \<open>A maximal run of digits at the head of the text.\<close>

definition digits :: "string \<Rightarrow> (string \<times> string) option" where
  "digits s = (let d = takeWhile is_digit s in if d = [] then None else Some (d, drop (length d) s))"

definition signed_digits :: "string \<Rightarrow> (string \<times> string) option" where
  "signed_digits s = (case s of [] \<Rightarrow> None
     | c # t \<Rightarrow> if c = CHR ''+'' \<or> c = CHR ''-'' then map_option (map_prod ((#) c) id) (digits t) else None)"

definition size_digits :: "string \<Rightarrow> (string \<times> string \<times> string) option" where
  "size_digits s = Option.bind (digits s) (\<lambda>(w, t).
     if has_prefix t ''x'' then map_option (\<lambda>(h, r). (w, h, r)) (digits (tl t)) else None)"

text \<open>The two patterns, with the numbers as \<open>strconv.Atoi\<close> reads them.\<close>

definition resolutionPattern :: "string \<Rightarrow> (int \<times> int) option" where
  "resolutionPattern s = (case size_digits s of None \<Rightarrow> None
     | Some (w, h, r) \<Rightarrow> if r = [] then Some (fst (atoi w), fst (atoi h)) else None)"

definition geometryPattern :: "string \<Rightarrow> (int \<times> int \<times> int \<times> int) option" where
  "geometryPattern s = (case size_digits s of None \<Rightarrow> None
     | Some (w, h, r) \<Rightarrow> (case signed_digits r of None \<Rightarrow> None
         | Some (x, r2) \<Rightarrow> (case signed_digits r2 of None \<Rightarrow> None
             | Some (y, r3) \<Rightarrow> if r3 = [] then Some (fst (atoi w), fst (atoi h), fst (atoi x), fst (atoi y)) else None)))"

definition read_field :: "Output \<Rightarrow> string \<Rightarrow> Output" where
  "read_field o0 f =
     (let o1 = (if f = ''primary'' then o0\<lparr>ou_Primary := True\<rparr> else o0)
      in case geometryPattern f of None \<Rightarrow> o1
         | Some (w, h, x, y) \<Rightarrow> o1\<lparr>ou_Width := w, ou_Height := h, ou_X := x, ou_Y := y\<rparr>)"

definition new_output :: "string \<Rightarrow> Output" where
  "new_output name = \<lparr>ou_Name = name, ou_Primary = False, ou_Width = 0, ou_Height = 0, ou_X = 0, ou_Y = 0, ou_Modes = []\<rparr>"

definition mode_key :: "Mode \<Rightarrow> string" where
  "mode_key m = itoa (mo_Width m) @ ''x'' @ itoa (mo_Height m)"

text \<open>The first mode of the same size takes over the flags; a new size is appended.\<close>

fun add_mode :: "Mode \<Rightarrow> Mode list \<Rightarrow> Mode list" where
  "add_mode m [] = [m]"
| "add_mode m (n # ns) =
     (if mode_key n = mode_key m
      then n\<lparr>mo_Current := mo_Current n \<or> mo_Current m, mo_Preferred := mo_Preferred n \<or> mo_Preferred m\<rparr> # ns
      else n # add_mode m ns)"

definition read_mode :: "string list \<Rightarrow> Mode option" where
  "read_mode fs = (case fs of
       name # rate # rates \<Rightarrow>
         (case resolutionPattern name of None \<Rightarrow> None
          | Some (w, h) \<Rightarrow> Some \<lparr>mo_Width = w, mo_Height = h,
              mo_Current = list_ex (\<lambda>r. contains r ''*'') (rate # rates),
              mo_Preferred = list_ex (\<lambda>r. contains r ''+'') (rate # rates)\<rparr>)
     | _ \<Rightarrow> None)"

text \<open>
  The loop over the lines: the outputs that are complete, in reverse order, and the one the mode
  lines belong to, if any.
\<close>

type_synonym parse_state = "Output list \<times> Output option"

definition close_output :: "parse_state \<Rightarrow> Output list" where
  "close_output st = (case snd st of None \<Rightarrow> fst st | Some o' \<Rightarrow> o' # fst st)"

definition parse_line :: "parse_state \<Rightarrow> string \<Rightarrow> parse_state" where
  "parse_line st line =
     (if line = [] then st
      else if hd line \<noteq> CHR '' '' \<and> hd line \<noteq> CHR 0x09
      then (case go_fields line of
              name # status # rest \<Rightarrow>
                if status \<noteq> ''connected'' then (close_output st, None)
                else (close_output st, Some (foldl read_field (new_output name) rest))
            | _ \<Rightarrow> (close_output st, None))
      else (case snd st of None \<Rightarrow> st
            | Some o' \<Rightarrow>
                (case read_mode (go_fields line) of None \<Rightarrow> st
                 | Some m \<Rightarrow> (fst st, Some (o'\<lparr>ou_Modes := add_mode m (ou_Modes o')\<rparr>)))))"

definition parse_lines :: "string list \<Rightarrow> Snapshot" where
  "parse_lines ls = rev (close_output (foldl parse_line ([], None) ls))"

definition Parse :: "string \<Rightarrow> Snapshot option" where
  "Parse raw = (let s = parse_lines (split_on CHR 0x0A raw) in if s = [] then None else Some s)"

subsection \<open>Reading a snapshot\<close>

definition same_place :: "Output \<Rightarrow> Output \<Rightarrow> bool" where
  "same_place a b \<longleftrightarrow> ou_X a = ou_X b \<and> ou_Y a = ou_Y b \<and> ou_Width a = ou_Width b \<and> ou_Height a = ou_Height b"

definition currentLayout :: "Snapshot \<Rightarrow> string" where
  "currentLayout s =
     (case filter Active s of
        [] \<Rightarrow> LayoutSingle
      | [o'] \<Rightarrow> LayoutSingle
      | first # rest \<Rightarrow> if list_ex (\<lambda>o'. \<not> same_place o' first) rest then LayoutExtend else LayoutMirror)"

text \<open>The last alternative is \<open>snapshot.Outputs[0]\<close>: the callers have checked that there is one.\<close>

definition primaryOutput :: "Snapshot \<Rightarrow> Output" where
  "primaryOutput s = (case find ou_Primary s of Some o' \<Rightarrow> o'
     | None \<Rightarrow> (case find Active s of Some o' \<Rightarrow> o' | None \<Rightarrow> hd s))"

definition safeOutput :: "Snapshot \<Rightarrow> Output" where
  "safeOutput s = (case find (\<lambda>o'. Active o' \<and> ou_X o' = 0 \<and> ou_Y o' = 0) s of Some o' \<Rightarrow> o'
     | None \<Rightarrow> primaryOutput s)"

definition findOutput :: "Snapshot \<Rightarrow> string \<Rightarrow> Output option" where
  "findOutput s name = find (\<lambda>o'. ou_Name o' = name) s"

definition has_size :: "int \<Rightarrow> int \<Rightarrow> Mode \<Rightarrow> bool" where
  "has_size w h m \<longleftrightarrow> mo_Width m = w \<and> mo_Height m = h"

definition hasMode :: "Output \<Rightarrow> int \<Rightarrow> int \<Rightarrow> bool" where
  "hasMode o' w h = list_ex (has_size w h) (ou_Modes o')"

definition first_mode :: "Output \<Rightarrow> Mode" where
  "first_mode o' =
     (case find mo_Current (ou_Modes o') of Some m \<Rightarrow> m
      | None \<Rightarrow> (case find mo_Preferred (ou_Modes o') of Some m \<Rightarrow> m
          | None \<Rightarrow> (case ou_Modes o' of m # ms \<Rightarrow> m
              | [] \<Rightarrow> \<lparr>mo_Width = ou_Width o', mo_Height = ou_Height o', mo_Current = False, mo_Preferred = False\<rparr>)))"

definition bestMode :: "Output \<Rightarrow> int \<Rightarrow> int \<Rightarrow> Mode" where
  "bestMode o' w h =
     (case (if w > 0 \<and> h > 0 then find (has_size w h) (ou_Modes o') else None) of
        Some m \<Rightarrow> m | None \<Rightarrow> first_mode o')"

text \<open>Largest area first, among equal areas the preferred one; the sort is stable.\<close>

definition mode_rank :: "Mode \<Rightarrow> int \<times> bool" where
  "mode_rank m = (- wrap64 (mo_Width m * mo_Height m), \<not> mo_Preferred m)"

definition commonMode :: "Output list \<Rightarrow> int \<Rightarrow> int \<Rightarrow> (int \<times> int) option" where
  "commonMode os w h =
     (if w > 0 \<and> h > 0 \<and> list_all (\<lambda>o'. hasMode o' w h) os then Some (w, h)
      else map_option (\<lambda>m. (mo_Width m, mo_Height m))
        (find (\<lambda>m. mo_Width m > 0 \<and> mo_Height m > 0 \<and>
                   list_all (\<lambda>o'. hasMode o' (mo_Width m) (mo_Height m)) (tl os))
          (sort_key mode_rank (ou_Modes (hd os)))))"

subsection \<open>Checking an effective policy\<close>

definition overlap :: "Output \<Rightarrow> Output \<Rightarrow> bool" where
  "overlap a b \<longleftrightarrow> ou_X a < wrap64 (ou_X b + ou_Width b) \<and> wrap64 (ou_X a + ou_Width a) > ou_X b \<and>
     ou_Y a < wrap64 (ou_Y b + ou_Height b) \<and> wrap64 (ou_Y a + ou_Height a) > ou_Y b"

fun no_overlap :: "Output list \<Rightarrow> bool" where
  "no_overlap [] = True"
| "no_overlap (a # bs) = (list_all (\<lambda>b. \<not> overlap a b) bs \<and> no_overlap bs)"

definition Matches_layout :: "Snapshot \<Rightarrow> Preference \<Rightarrow> bool" where
  "Matches_layout s p =
     (case findOutput s (dp_Output p) of
        None \<Rightarrow> False
      | Some sel \<Rightarrow>
          if \<not> ou_Primary sel \<or> ou_Width sel \<noteq> dp_Width p \<or> ou_Height sel \<noteq> dp_Height p then False
          else (let active = filter Active s
                in if dp_Layout p = LayoutSingle
                   then length active = 1 \<and> ou_Name (hd active) = ou_Name sel \<and> ou_X sel = 0 \<and> ou_Y sel = 0
                   else if dp_Layout p = LayoutMirror
                   then length active = length s \<and>
                        list_all (\<lambda>o'. ou_X o' = ou_X sel \<and> ou_Y o' = ou_Y sel \<and>
                                       ou_Width o' = dp_Width p \<and> ou_Height o' = dp_Height p) active
                   else if dp_Layout p = LayoutExtend
                   then length active = length s \<and> no_overlap active
                   else currentLayout s = dp_Layout p))"

subsection \<open>Plans\<close>

datatype plan_error = NoDisplay | InvalidLayout string | NoUsableMode string | PlanDiverges

definition resolution :: "int \<Rightarrow> int \<Rightarrow> string" where
  "resolution w h = itoa w @ ''x'' @ itoa h"

definition zero_Preference :: Preference where
  "zero_Preference = \<lparr>dp_Layout = '''', dp_Output = '''', dp_Width = 0, dp_Height = 0\<rparr>"

definition primary_args :: "Output \<Rightarrow> int \<Rightarrow> int \<Rightarrow> string list" where
  "primary_args sel w h = [''--output'', ou_Name sel, ''--mode'', resolution w h, ''--primary'', ''--pos'', ''0x0'']"

definition others :: "Snapshot \<Rightarrow> Output \<Rightarrow> Output list" where
  "others s sel = filter (\<lambda>o'. ou_Name o' \<noteq> ou_Name sel) s"

definition effective :: "string \<Rightarrow> Output \<Rightarrow> int \<Rightarrow> int \<Rightarrow> Preference" where
  "effective layout sel w h = \<lparr>dp_Layout = layout, dp_Output = ou_Name sel, dp_Width = w, dp_Height = h\<rparr>"

definition finish_plan :: "Snapshot \<Rightarrow> bool \<Rightarrow> string \<Rightarrow> string list \<Rightarrow> Preference \<Rightarrow> Plan" where
  "finish_plan s fallback reason args eff =
     \<lparr>pl_Args = args, pl_Effective = eff, pl_Fallback = fallback, pl_Reason = reason,
      pl_WasChanged = (\<not> Matches_layout s eff)\<rparr>"

definition off_args :: "Output \<Rightarrow> string list" where
  "off_args o' = [''--output'', ou_Name o', ''--off'']"

definition mirror_args :: "Output \<Rightarrow> int \<Rightarrow> int \<Rightarrow> Output \<Rightarrow> string list" where
  "mirror_args sel w h o' = [''--output'', ou_Name o', ''--mode'', resolution w h, ''--same-as'', ou_Name sel]"

text \<open>Each further output stands to the right of the one before it.\<close>

fun extend_args :: "string \<Rightarrow> Output list \<Rightarrow> plan_error + string list" where
  "extend_args previous [] = Inr []"
| "extend_args previous (o' # os) =
     (let m = bestMode o' 0 0
      in if mo_Width m \<le> 0 \<or> mo_Height m \<le> 0 then Inl (NoUsableMode (ou_Name o'))
         else bind_res (extend_args (ou_Name o') os) (\<lambda>args.
           Inr ([''--output'', ou_Name o', ''--mode'', resolution (mo_Width m) (mo_Height m), ''--right-of'', previous] @ args)))"

definition requested_layout :: "Snapshot \<Rightarrow> Preference \<Rightarrow> string" where
  "requested_layout s p =
     (if dp_Layout p \<noteq> '''' then dp_Layout p
      else if dp_Output p \<noteq> '''' then LayoutSingle
      else if 1 < length s then LayoutMirror else LayoutSingle)"

text \<open>
  \<open>BuildPlan\<close> calls itself once, for a single-display plan when the outputs share no mode. The
  recursive call is fuel here; two rounds are enough (\<open>BuildPlan_fuel\<close>).
\<close>

primrec BuildPlan_with :: "nat \<Rightarrow> Snapshot \<Rightarrow> Preference \<Rightarrow> plan_error + Plan" where
  "BuildPlan_with 0 s p = Inl PlanDiverges"
| "BuildPlan_with (Suc n) s p =
     (if s = [] then Inl NoDisplay
      else (let found = findOutput s (dp_Output p);
                sel = (case found of Some o' \<Rightarrow> o' | None \<Rightarrow> safeOutput s);
                stale = (found = None \<and> dp_Output p \<noteq> '''');
                reason = (if stale then ''the saved display is no longer connected'' else '''');
                layout0 = requested_layout s p
            in if \<not> ValidLayout layout0 then Inl (InvalidLayout layout0)
               else (let layout = (if stale then (if 1 < length s then LayoutMirror else LayoutSingle) else layout0);
                         m = bestMode sel (dp_Width p) (dp_Height p); w = mo_Width m; h = mo_Height m
                     in if layout = LayoutSingle
                        then (if w \<le> 0 \<or> h \<le> 0 then Inl (NoUsableMode (ou_Name sel))
                              else Inr (finish_plan s stale reason
                                     (primary_args sel w h @ concat (map off_args (others s sel)))
                                     (effective layout sel w h)))
                        else if layout = LayoutMirror
                        then (case commonMode s (dp_Width p) (dp_Height p) of
                                None \<Rightarrow>
                                  bind_res (BuildPlan_with n s (effective LayoutSingle sel (dp_Width p) (dp_Height p)))
                                    (\<lambda>fb. Inr (fb\<lparr>pl_Fallback := True,
                                       pl_Reason := ''connected displays have no common mirror resolution''\<rparr>))
                              | Some (cw, ch) \<Rightarrow>
                                  Inr (finish_plan s stale reason
                                    (primary_args sel cw ch @ concat (map (mirror_args sel cw ch) (others s sel)))
                                    (effective layout sel cw ch)))
                        else (if w \<le> 0 \<or> h \<le> 0 then Inl (NoUsableMode (ou_Name sel))
                              else bind_res (extend_args (ou_Name sel) (others s sel)) (\<lambda>args.
                                Inr (finish_plan s stale reason (primary_args sel w h @ args)
                                       (effective layout sel w h)))))))"

definition BuildPlan :: "Snapshot \<Rightarrow> Preference \<Rightarrow> plan_error + Plan" where
  "BuildPlan s p = BuildPlan_with 2 s p"

definition DetectPreference :: "Snapshot \<Rightarrow> Preference" where
  "DetectPreference s =
     (let sel = primaryOutput s; m = bestMode sel (ou_Width sel) (ou_Height sel)
      in \<lparr>dp_Layout = currentLayout s, dp_Output = ou_Name sel, dp_Width = mo_Width m, dp_Height = mo_Height m\<rparr>)"

end
