(* ===== verification/DisplayLayoutProps.thy ===== *)
theory DisplayLayoutProps
  imports DisplayLayout
begin

text \<open>
  What the display policy of \<open>DisplayLayout\<close> guarantees. A plan's command line is read back as a list
  of directives (\<open>render\<close>), and \<open>arranges\<close> says which directives a preference allows; the plans of
  the three layouts, and the single-display plan a mirror layout falls back to, are shown to be such
  lists.
\<close>

subsection \<open>Choices\<close>

lemma primaryOutput_in: "s \<noteq> [] \<Longrightarrow> primaryOutput s \<in> set s"
  by (auto dest: find_SomeD simp: primaryOutput_def split: option.splits)

lemma safeOutput_in: "s \<noteq> [] \<Longrightarrow> safeOutput s \<in> set s"
  by (auto dest: find_SomeD simp: safeOutput_def primaryOutput_in split: option.splits)

lemma findOutput_Some: "findOutput s n = Some o' \<Longrightarrow> o' \<in> set s \<and> ou_Name o' = n"
  by (auto dest: find_SomeD simp: findOutput_def)

lemma findOutput_None: "findOutput s n = None \<longleftrightarrow> n \<notin> set (map ou_Name s)"
  by (auto simp: findOutput_def find_None_iff)

lemma findOutput_self: "distinct (map ou_Name s) \<Longrightarrow> o' \<in> set s \<Longrightarrow> findOutput s (ou_Name o') = Some o'"
  by (induction s) (auto simp: findOutput_def)

text \<open>The output a plan selects.\<close>

definition selected :: "Snapshot \<Rightarrow> Preference \<Rightarrow> Output" where
  "selected s p = (case findOutput s (dp_Output p) of Some o' \<Rightarrow> o' | None \<Rightarrow> safeOutput s)"

lemma selected_in: "s \<noteq> [] \<Longrightarrow> selected s p \<in> set s"
  by (auto simp: selected_def safeOutput_in dest: findOutput_Some split: option.splits)

definition stale :: "Snapshot \<Rightarrow> Preference \<Rightarrow> bool" where
  "stale s p \<longleftrightarrow> findOutput s (dp_Output p) = None \<and> dp_Output p \<noteq> ''''"

definition chosen_layout :: "Snapshot \<Rightarrow> Preference \<Rightarrow> string" where
  "chosen_layout s p = (if stale s p then (if 1 < length s then LayoutMirror else LayoutSingle) else requested_layout s p)"

text \<open>A mode the output can show: one of its modes, or its current geometry when it lists none.\<close>

definition usable :: "Output \<Rightarrow> int \<Rightarrow> int \<Rightarrow> bool" where
  "usable o' w h \<longleftrightarrow> hasMode o' w h \<or> (ou_Modes o' = [] \<and> w = ou_Width o' \<and> h = ou_Height o')"

lemma listed_usable: "m \<in> set (ou_Modes o') \<Longrightarrow> usable o' (mo_Width m) (mo_Height m)"
  by (auto simp: usable_def hasMode_def list_ex_iff has_size_def)

lemma first_mode_cases:
  "first_mode o' \<in> set (ou_Modes o') \<or>
   (ou_Modes o' = [] \<and> mo_Width (first_mode o') = ou_Width o' \<and> mo_Height (first_mode o') = ou_Height o')"
  unfolding first_mode_def by (auto dest!: find_SomeD split: option.split list.split)

lemma first_mode_usable: "usable o' (mo_Width (first_mode o')) (mo_Height (first_mode o'))"
  using first_mode_cases [of o'] listed_usable [of "first_mode o'" o'] by (auto simp: usable_def)

lemma bestMode_usable: "usable o' (mo_Width (bestMode o' w h)) (mo_Height (bestMode o' w h))"
proof (cases "if w > 0 \<and> h > 0 then find (has_size w h) (ou_Modes o') else None")
  case None
  then show ?thesis using first_mode_usable by (simp add: bestMode_def)
next
  case (Some m)
  then have "m \<in> set (ou_Modes o')" by (auto dest: find_SomeD split: if_splits)
  with Some show ?thesis by (simp add: bestMode_def listed_usable)
qed

lemma commonMode_common:
  assumes "commonMode os w h = Some (cw, ch)" "os \<noteq> []"
  shows "cw > 0 \<and> ch > 0 \<and> (\<forall>o' \<in> set os. hasMode o' cw ch)"
proof (cases "w > 0 \<and> h > 0 \<and> list_all (\<lambda>o'. hasMode o' w h) os")
  case True
  then show ?thesis using assms(1) by (simp add: commonMode_def list_all_iff)
next
  case False
  with assms(1) obtain m where m: "find (\<lambda>m. mo_Width m > 0 \<and> mo_Height m > 0 \<and>
        list_all (\<lambda>o'. hasMode o' (mo_Width m) (mo_Height m)) (tl os)) (sort_key mode_rank (ou_Modes (hd os))) = Some m"
      "cw = mo_Width m" "ch = mo_Height m"
    by (auto simp: commonMode_def simp del: not_gr_zero split: if_splits)
  then have "m \<in> set (sort_key mode_rank (ou_Modes (hd os)))" "cw > 0" "ch > 0"
      "list_all (\<lambda>o'. hasMode o' cw ch) (tl os)"
    using find_SomeD [OF m(1)] by simp_all
  moreover from this(1) have "hasMode (hd os) cw ch"
    by (auto simp: hasMode_def list_ex_iff has_size_def m)
  ultimately show ?thesis using assms(2) by (cases os) (auto simp: list_all_iff)
qed

subsection \<open>The three kinds of plan\<close>

lemma layouts_differ [simp]:
  "LayoutSingle \<noteq> LayoutMirror" "LayoutSingle \<noteq> LayoutExtend" "LayoutMirror \<noteq> LayoutExtend"
  "LayoutMirror \<noteq> LayoutSingle" "LayoutExtend \<noteq> LayoutSingle" "LayoutExtend \<noteq> LayoutMirror"
  "LayoutSingle \<noteq> ''''" "LayoutMirror \<noteq> ''''" "LayoutExtend \<noteq> ''''"
  by (simp_all add: layout_names)

lemma ValidLayout_names [simp]: "ValidLayout LayoutSingle" "ValidLayout LayoutMirror" "ValidLayout LayoutExtend"
  by (simp_all add: ValidLayout_def)

text \<open>\<open>BuildPlan\<close> as one case distinction over the layout it chose.\<close>

definition stale_reason :: "Snapshot \<Rightarrow> Preference \<Rightarrow> string" where
  "stale_reason s p = (if stale s p then ''the saved display is no longer connected'' else '''')"

definition single_plan :: "Snapshot \<Rightarrow> Preference \<Rightarrow> plan_error + Plan" where
  "single_plan s p = (let sel = selected s p; m = bestMode sel (dp_Width p) (dp_Height p); w = mo_Width m; h = mo_Height m
     in if w \<le> 0 \<or> h \<le> 0 then Inl (NoUsableMode (ou_Name sel))
        else Inr (finish_plan s (stale s p) (stale_reason s p)
          (primary_args sel w h @ concat (map off_args (others s sel))) (effective LayoutSingle sel w h)))"

definition mirror_plan :: "Snapshot \<Rightarrow> Preference \<Rightarrow> int \<Rightarrow> int \<Rightarrow> Plan" where
  "mirror_plan s p w h = (let sel = selected s p in finish_plan s (stale s p) (stale_reason s p)
     (primary_args sel w h @ concat (map (mirror_args sel w h) (others s sel))) (effective LayoutMirror sel w h))"

definition extend_plan :: "Snapshot \<Rightarrow> Preference \<Rightarrow> plan_error + Plan" where
  "extend_plan s p = (let sel = selected s p; m = bestMode sel (dp_Width p) (dp_Height p); w = mo_Width m; h = mo_Height m
     in if w \<le> 0 \<or> h \<le> 0 then Inl (NoUsableMode (ou_Name sel))
        else bind_res (extend_args (ou_Name sel) (others s sel)) (\<lambda>args.
          Inr (finish_plan s (stale s p) (stale_reason s p) (primary_args sel w h @ args) (effective LayoutExtend sel w h))))"

definition without_mirror :: "Snapshot \<Rightarrow> Preference \<Rightarrow> Preference" where
  "without_mirror s p = effective LayoutSingle (selected s p) (dp_Width p) (dp_Height p)"

lemma chosen_layout_valid:
  "ValidLayout (requested_layout s p) \<Longrightarrow> ValidLayout (chosen_layout s p)"
  by (simp add: chosen_layout_def)

lemma BuildPlan_with_cases:
  "BuildPlan_with (Suc n) s p =
     (if s = [] then Inl NoDisplay
      else if \<not> ValidLayout (requested_layout s p) then Inl (InvalidLayout (requested_layout s p))
      else if chosen_layout s p = LayoutSingle then single_plan s p
      else if chosen_layout s p = LayoutMirror
      then (case commonMode s (dp_Width p) (dp_Height p) of
              Some (w, h) \<Rightarrow> Inr (mirror_plan s p w h)
            | None \<Rightarrow> bind_res (BuildPlan_with n s (without_mirror s p)) (\<lambda>fb. Inr (fb\<lparr>pl_Fallback := True,
                 pl_Reason := ''connected displays have no common mirror resolution''\<rparr>)))
      else extend_plan s p)"
  unfolding BuildPlan_with.simps Let_def single_plan_def mirror_plan_def extend_plan_def without_mirror_def
    selected_def [symmetric] stale_def [symmetric] stale_reason_def [symmetric] chosen_layout_def [symmetric]
  using chosen_layout_valid [of s p] by (auto simp: ValidLayout_def split: option.split)

lemma without_mirror_single:
  assumes "s \<noteq> []"
  shows "requested_layout s (without_mirror s p) = LayoutSingle" "\<not> stale s (without_mirror s p)"
    "chosen_layout s (without_mirror s p) = LayoutSingle"
proof -
  have "ou_Name (selected s p) \<in> set (map ou_Name s)" using selected_in [OF assms] by simp
  then have "findOutput s (ou_Name (selected s p)) \<noteq> None" by (simp add: findOutput_None)
  then show "requested_layout s (without_mirror s p) = LayoutSingle" "\<not> stale s (without_mirror s p)"
    "chosen_layout s (without_mirror s p) = LayoutSingle"
    by (auto simp: requested_layout_def without_mirror_def effective_def stale_def chosen_layout_def)
qed

text \<open>The plan as one function of the choices, with the single recursive call unfolded.\<close>

definition plan_result :: "Snapshot \<Rightarrow> Preference \<Rightarrow> plan_error + Plan" where
  "plan_result s p =
     (if s = [] then Inl NoDisplay
      else if \<not> ValidLayout (requested_layout s p) then Inl (InvalidLayout (requested_layout s p))
      else if chosen_layout s p = LayoutSingle then single_plan s p
      else if chosen_layout s p = LayoutMirror
      then (case commonMode s (dp_Width p) (dp_Height p) of
              Some (w, h) \<Rightarrow> Inr (mirror_plan s p w h)
            | None \<Rightarrow> bind_res (single_plan s (without_mirror s p)) (\<lambda>fb. Inr (fb\<lparr>pl_Fallback := True,
                 pl_Reason := ''connected displays have no common mirror resolution''\<rparr>)))
      else extend_plan s p)"

lemma BuildPlan_fuel: "BuildPlan_with (Suc (Suc n)) s p = plan_result s p"
proof -
  have "BuildPlan_with (Suc n) s (without_mirror s p) = single_plan s (without_mirror s p)" if "s \<noteq> []"
    using that without_mirror_single [OF that] by (simp add: BuildPlan_with_cases del: BuildPlan_with.simps)
  then show ?thesis
    by (simp add: BuildPlan_with_cases [of "Suc n"] plan_result_def del: BuildPlan_with.simps split: option.split)
qed

lemma BuildPlan_result: "BuildPlan s p = plan_result s p"
  using BuildPlan_fuel [of 0] by (simp add: BuildPlan_def numeral_2_eq_2)

subsection \<open>The command line as directives\<close>

datatype placement = Primary int int | Mirrors string int int | Right_of string int int | Off

datatype directive = Directive (dir_output: string) (dir_placement: placement)

primrec render :: "directive \<Rightarrow> string list" where
  "render (Directive name pl) = ''--output'' # name #
     (case pl of Primary w h \<Rightarrow> [''--mode'', resolution w h, ''--primary'', ''--pos'', ''0x0'']
      | Mirrors base w h \<Rightarrow> [''--mode'', resolution w h, ''--same-as'', base]
      | Right_of base w h \<Rightarrow> [''--mode'', resolution w h, ''--right-of'', base]
      | Off \<Rightarrow> [''--off''])"

lemma render_directive:
  "render (Directive (ou_Name sel) (Primary w h)) = primary_args sel w h"
  "render (Directive (ou_Name o') (Mirrors (ou_Name sel) w h)) = mirror_args sel w h o'"
  "render (Directive (ou_Name o') Off) = off_args o'"
  by (simp_all add: primary_args_def mirror_args_def off_args_def)

fun beside :: "Snapshot \<Rightarrow> string \<Rightarrow> directive list \<Rightarrow> bool" where
  "beside s previous [] = True"
| "beside s previous (d # ds) =
     ((\<exists>w h. dir_placement d = Right_of previous w h \<and> w > 0 \<and> h > 0 \<and>
         (\<exists>o' \<in> set s. ou_Name o' = dir_output d \<and> usable o' w h)) \<and>
      beside s (dir_output d) ds)"

text \<open>
  What a plan for the effective preference \<open>e\<close> may say: the primary output comes first, in a mode
  it offers, every other output follows in the order of the snapshot, and the placements fit the
  layout.
\<close>

definition arranges :: "Snapshot \<Rightarrow> Preference \<Rightarrow> directive list \<Rightarrow> bool" where
  "arranges s e ds \<longleftrightarrow> dp_Width e > 0 \<and> dp_Height e > 0 \<and>
     (\<exists>o' \<in> set s. ou_Name o' = dp_Output e \<and> usable o' (dp_Width e) (dp_Height e)) \<and>
     (\<exists>rest. ds = Directive (dp_Output e) (Primary (dp_Width e) (dp_Height e)) # rest \<and>
        map dir_output rest = filter (\<lambda>n. n \<noteq> dp_Output e) (map ou_Name s) \<and>
        (if dp_Layout e = LayoutSingle then \<forall>d \<in> set rest. dir_placement d = Off
         else if dp_Layout e = LayoutMirror
         then (\<forall>o' \<in> set s. hasMode o' (dp_Width e) (dp_Height e)) \<and>
              (\<forall>d \<in> set rest. dir_placement d = Mirrors (dp_Output e) (dp_Width e) (dp_Height e))
         else dp_Layout e = LayoutExtend \<and> beside s (dp_Output e) rest))"

definition arranged :: "Snapshot \<Rightarrow> Plan \<Rightarrow> bool" where
  "arranged s pl \<longleftrightarrow> (\<exists>ds. pl_Args pl = concat (map render ds) \<and> arranges s (pl_Effective pl) ds)"

lemma names_others: "map ou_Name (others s sel) = filter (\<lambda>n. n \<noteq> ou_Name sel) (map ou_Name s)"
  by (simp add: others_def filter_map o_def)

lemma plan_fields [simp]:
  "pl_Args (finish_plan s f r a e) = a" "pl_Effective (finish_plan s f r a e) = e"
  "pl_Fallback (finish_plan s f r a e) = f" "pl_Reason (finish_plan s f r a e) = r"
  "pl_WasChanged (finish_plan s f r a e) = (\<not> Matches_layout s e)"
  by (simp_all add: finish_plan_def)

lemma effective_fields [simp]:
  "dp_Layout (effective l sel w h) = l" "dp_Output (effective l sel w h) = ou_Name sel"
  "dp_Width (effective l sel w h) = w" "dp_Height (effective l sel w h) = h"
  by (simp_all add: effective_def)

lemma single_plan_arranged:
  assumes "s \<noteq> []" "single_plan s p = Inr pl"
  shows "arranged s pl \<and> dp_Layout (pl_Effective pl) = LayoutSingle \<and> pl_Fallback pl = stale s p"
proof -
  let ?sel = "selected s p" let ?m = "bestMode ?sel (dp_Width p) (dp_Height p)"
  let ?ds = "Directive (ou_Name ?sel) (Primary (mo_Width ?m) (mo_Height ?m)) #
               map (\<lambda>o'. Directive (ou_Name o') Off) (others s ?sel)"
  from assms have pl: "pl = finish_plan s (stale s p) (stale_reason s p)
      (primary_args ?sel (mo_Width ?m) (mo_Height ?m) @ concat (map off_args (others s ?sel)))
      (effective LayoutSingle ?sel (mo_Width ?m) (mo_Height ?m))" "mo_Width ?m > 0" "mo_Height ?m > 0"
    by (auto simp: single_plan_def Let_def split: if_splits)
  have "pl_Args pl = concat (map render ?ds)"
    by (simp add: pl render_directive comp_def del: render.simps)
  moreover have "arranges s (pl_Effective pl) ?ds"
    using pl selected_in [OF assms(1), of p] bestMode_usable
    by (auto simp: arranges_def names_others o_def)
  ultimately have "arranged s pl" unfolding arranged_def by blast
  then show ?thesis by (simp add: pl)
qed

lemma mirror_plan_arranged:
  assumes "s \<noteq> []" "commonMode s (dp_Width p) (dp_Height p) = Some (w, h)"
  shows "arranged s (mirror_plan s p w h)"
proof -
  let ?sel = "selected s p"
  let ?ds = "Directive (ou_Name ?sel) (Primary w h) #
               map (\<lambda>o'. Directive (ou_Name o') (Mirrors (ou_Name ?sel) w h)) (others s ?sel)"
  have "pl_Args (mirror_plan s p w h) = concat (map render ?ds)"
    by (simp add: mirror_plan_def Let_def render_directive comp_def del: render.simps)
  moreover have "arranges s (pl_Effective (mirror_plan s p w h)) ?ds"
    using commonMode_common [OF assms(2,1)] selected_in [OF assms(1), of p]
    by (auto simp: arranges_def names_others mirror_plan_def Let_def usable_def o_def)
  ultimately show ?thesis unfolding arranged_def by blast
qed

lemma extend_args_directives:
  "extend_args previous os = Inr args \<Longrightarrow> set os \<subseteq> set s \<Longrightarrow>
   \<exists>ds. args = concat (map render ds) \<and> map dir_output ds = map ou_Name os \<and> beside s previous ds"
proof (induction previous os arbitrary: args rule: extend_args.induct)
  case (1 previous)
  then show ?case by simp
next
  case (2 previous o' os)
  let ?m = "bestMode o' 0 0"
  from 2(2) obtain rest where rest: "extend_args (ou_Name o') os = Inr rest"
    and args: "args = [''--output'', ou_Name o', ''--mode'', resolution (mo_Width ?m) (mo_Height ?m), ''--right-of'', previous] @ rest"
    and pos: "mo_Width ?m > 0" "mo_Height ?m > 0"
    by (auto simp: Let_def bind_res_Inr_iff split: if_splits)
  from 2(1) [OF refl _ rest] pos 2(3) obtain ds
    where "rest = concat (map render ds)" "map dir_output ds = map ou_Name os" "beside s (ou_Name o') ds" by auto
  moreover have "usable o' (mo_Width ?m) (mo_Height ?m)" by (rule bestMode_usable)
  ultimately show ?case using args pos 2(3)
    by (intro exI [of _ "Directive (ou_Name o') (Right_of previous (mo_Width ?m) (mo_Height ?m)) # ds"]) auto
qed

lemma extend_plan_arranged:
  assumes "s \<noteq> []" "extend_plan s p = Inr pl"
  shows "arranged s pl \<and> dp_Layout (pl_Effective pl) = LayoutExtend"
proof -
  let ?sel = "selected s p" let ?m = "bestMode ?sel (dp_Width p) (dp_Height p)"
  from assms obtain args where args: "extend_args (ou_Name ?sel) (others s ?sel) = Inr args"
    and pl: "pl = finish_plan s (stale s p) (stale_reason s p)
      (primary_args ?sel (mo_Width ?m) (mo_Height ?m) @ args)
      (effective LayoutExtend ?sel (mo_Width ?m) (mo_Height ?m))" "mo_Width ?m > 0" "mo_Height ?m > 0"
    by (auto simp: extend_plan_def Let_def bind_res_Inr_iff split: if_splits)
  from extend_args_directives [OF args, of s] obtain ds
    where ds: "args = concat (map render ds)" "map dir_output ds = map ou_Name (others s ?sel)" "beside s (ou_Name ?sel) ds"
    by (auto simp: others_def)
  let ?ds = "Directive (ou_Name ?sel) (Primary (mo_Width ?m) (mo_Height ?m)) # ds"
  have "pl_Args pl = concat (map render ?ds)" by (simp add: pl render_directive ds del: render.simps)
  moreover have "arranges s (pl_Effective pl) ?ds"
    using pl ds selected_in [OF assms(1), of p] bestMode_usable
    by (auto simp: arranges_def names_others)
  ultimately have "arranged s pl" unfolding arranged_def by blast
  then show ?thesis by (simp add: pl)
qed

lemma plan_result_cases:
  assumes "plan_result s p = Inr pl"
  obtains (single) "s \<noteq> []" "chosen_layout s p = LayoutSingle" "single_plan s p = Inr pl"
  | (mirror) w h where "s \<noteq> []" "chosen_layout s p = LayoutMirror" "commonMode s (dp_Width p) (dp_Height p) = Some (w, h)"
      "pl = mirror_plan s p w h"
  | (unshared) fb where "s \<noteq> []" "chosen_layout s p = LayoutMirror" "commonMode s (dp_Width p) (dp_Height p) = None"
      "single_plan s (without_mirror s p) = Inr fb"
      "pl = fb\<lparr>pl_Fallback := True, pl_Reason := ''connected displays have no common mirror resolution''\<rparr>"
  | (extend) "s \<noteq> []" "chosen_layout s p = LayoutExtend" "extend_plan s p = Inr pl"
  using assms chosen_layout_valid [of s p]
  by (auto simp: plan_result_def bind_res_Inr_iff ValidLayout_def split: if_splits option.splits)

lemma plan_arranged: "plan_result s p = Inr pl \<Longrightarrow> arranged s pl"
proof (erule plan_result_cases, goal_cases)
  case 1
  then show ?case by (simp add: single_plan_arranged)
next
  case (2 w h)
  then show ?case by (simp add: mirror_plan_arranged)
next
  case (3 fb)
  then have "arranged s fb" using single_plan_arranged by blast
  with 3 show ?case by (simp add: arranged_def)
next
  case 4
  then show ?case by (simp add: extend_plan_arranged)
qed


subsection \<open>Which layout\<close>

lemma commonMode_None:
  assumes "commonMode os w h = None" "os \<noteq> []" "cw > 0" "ch > 0"
  shows "\<exists>o' \<in> set os. \<not> hasMode o' cw ch"
proof (rule ccontr)
  assume all: "\<not> ?thesis"
  then have "hasMode (hd os) cw ch" using assms(2) by auto
  then obtain m where m: "m \<in> set (ou_Modes (hd os))" "mo_Width m = cw" "mo_Height m = ch"
    by (auto simp: hasMode_def list_ex_iff has_size_def)
  have "list_all (\<lambda>o'. hasMode o' cw ch) (tl os)"
    using all assms(2) by (cases os) (auto simp: list_all_iff)
  with m assms show False
    by (auto simp: commonMode_def find_None_iff split: if_splits)
qed

lemma selected_found:
  "dp_Output p \<in> set (map ou_Name s) \<Longrightarrow> ou_Name (selected s p) = dp_Output p \<and> \<not> stale s p"
proof -
  assume "dp_Output p \<in> set (map ou_Name s)"
  then obtain o' where "findOutput s (dp_Output p) = Some o'"
    using findOutput_None [of s "dp_Output p"] by (cases "findOutput s (dp_Output p)") auto
  then show ?thesis using findOutput_Some by (simp add: selected_def stale_def)
qed

lemma stale_iff: "stale s p \<longleftrightarrow> dp_Output p \<noteq> '''' \<and> dp_Output p \<notin> set (map ou_Name s)"
  using findOutput_None [of s "dp_Output p"] by (auto simp: stale_def)

lemma plan_output:
  assumes "plan_result s p = Inr pl"
  shows "dp_Output (pl_Effective pl) = ou_Name (selected s p)"
  using assms
proof (rule plan_result_cases, goal_cases)
  case (3 fb)
  have "ou_Name (selected s (without_mirror s p)) = ou_Name (selected s p)"
    using selected_found [of "without_mirror s p" s] selected_in [OF 3(1), of p] by (simp add: without_mirror_def)
  with 3 show ?case by (auto simp: single_plan_def Let_def split: if_splits)
qed (auto simp: single_plan_def mirror_plan_def extend_plan_def Let_def bind_res_Inr_iff split: if_splits)

lemma plan_layout:
  assumes "plan_result s p = Inr pl"
  shows "dp_Layout (pl_Effective pl) = chosen_layout s p \<and> pl_Fallback pl = stale s p \<or>
    chosen_layout s p = LayoutMirror \<and> dp_Layout (pl_Effective pl) = LayoutSingle \<and> pl_Fallback pl \<and>
    commonMode s (dp_Width p) (dp_Height p) = None"
  using assms
proof (rule plan_result_cases, goal_cases)
  case (3 fb)
  then show ?case using single_plan_arranged by auto
qed (auto simp: single_plan_def mirror_plan_def extend_plan_def Let_def bind_res_Inr_iff split: if_splits)

text \<open>C29: Whatever plan is built, its command line is one primary directive, at the origin and in a
  mode the output offers, followed by one directive for every other connected output: off in a single
  layout, the same mode (which every output offers) in a mirror layout, right of the previous output
  in an extended one. Every connected output is placed exactly once.\<close>

theorem BuildPlan_arranges:
  assumes "BuildPlan s p = Inr pl" and "distinct (map ou_Name s)"
  shows "\<exists>ds. pl_Args pl = concat (map render ds) \<and> arranges s (pl_Effective pl) ds \<and>
    distinct (map dir_output ds) \<and> set (map dir_output ds) = set (map ou_Name s)"
proof -
  from assms(1) have "arranged s pl" by (simp add: BuildPlan_result plan_arranged)
  then obtain ds where ds: "pl_Args pl = concat (map render ds)" "arranges s (pl_Effective pl) ds"
    unfolding arranged_def by blast
  from ds(2) obtain rest where "dp_Output (pl_Effective pl) \<in> set (map ou_Name s)"
    and rest: "map dir_output ds = dp_Output (pl_Effective pl) # rest"
      "rest = filter (\<lambda>n. n \<noteq> dp_Output (pl_Effective pl)) (map ou_Name s)"
    unfolding arranges_def by force
  then have "distinct (map dir_output ds)" "set (map dir_output ds) = set (map ou_Name s)"
    using distinct_filter [OF assms(2), of "\<lambda>n. n \<noteq> dp_Output (pl_Effective pl)"] by auto
  with ds show ?thesis by blast
qed

definition panel :: Output where
  "panel = \<lparr>ou_Name = ''eDP-1'', ou_Primary = True, ou_Width = 1920, ou_Height = 1080, ou_X = 0, ou_Y = 0,
     ou_Modes = [\<lparr>mo_Width = 1920, mo_Height = 1080, mo_Current = True, mo_Preferred = True\<rparr>,
                 \<lparr>mo_Width = 1280, mo_Height = 720, mo_Current = False, mo_Preferred = False\<rparr>]\<rparr>"

definition projector :: Output where
  "projector = \<lparr>ou_Name = ''HDMI-1'', ou_Primary = False, ou_Width = 1280, ou_Height = 720, ou_X = 1920, ou_Y = 0,
     ou_Modes = [\<lparr>mo_Width = 1280, mo_Height = 720, mo_Current = True, mo_Preferred = True\<rparr>]\<rparr>"

lemma mirror_example:
  "BuildPlan [panel, projector] zero_Preference =
     Inr \<lparr>pl_Args = [''--output'', ''eDP-1'', ''--mode'', ''1280x720'', ''--primary'', ''--pos'', ''0x0'',
             ''--output'', ''HDMI-1'', ''--mode'', ''1280x720'', ''--same-as'', ''eDP-1''],
           pl_Effective = \<lparr>dp_Layout = LayoutMirror, dp_Output = ''eDP-1'', dp_Width = 1280, dp_Height = 720\<rparr>,
           pl_Fallback = False, pl_Reason = '''', pl_WasChanged = True\<rparr>"
  by code_simp

theorem BuildPlan_arranges_witness:
  "\<exists>pl ds. BuildPlan [panel, projector] zero_Preference = Inr pl \<and> pl_Args pl = concat (map render ds) \<and>
     set (map dir_output ds) = {''eDP-1'', ''HDMI-1''}"
  using BuildPlan_arranges [OF mirror_example] mirror_example by (auto simp: panel_def projector_def)

text \<open>Outputs are extended only when an extended layout was requested for no particular output or
  for one that is connected. A requested output that is connected becomes the primary one; a plan that
  is not a fallback has the requested layout; and several outputs that were not asked to be single are
  reduced to one only if no mode is common to all of them.\<close>

theorem BuildPlan_layout:
  assumes "BuildPlan s p = Inr pl"
  shows "(dp_Layout (pl_Effective pl) = LayoutExtend \<longrightarrow>
            dp_Layout p = LayoutExtend \<and> (dp_Output p = '''' \<or> dp_Output p \<in> set (map ou_Name s))) \<and>
    (dp_Output p \<in> set (map ou_Name s) \<longrightarrow> dp_Output (pl_Effective pl) = dp_Output p) \<and>
    (\<not> pl_Fallback pl \<longrightarrow> dp_Layout (pl_Effective pl) = requested_layout s p \<and>
       (dp_Output p = '''' \<or> dp_Output (pl_Effective pl) = dp_Output p)) \<and>
    (dp_Layout (pl_Effective pl) = LayoutSingle \<and> requested_layout s p \<noteq> LayoutSingle \<and> 1 < length s \<longrightarrow>
       (\<forall>w h. w > 0 \<and> h > 0 \<longrightarrow> (\<exists>o' \<in> set s. \<not> hasMode o' w h)))"
proof -
  from assms have r: "plan_result s p = Inr pl" by (simp add: BuildPlan_result)
  note lay = plan_layout [OF r] and out = plan_output [OF r]
  have req: "dp_Layout p = LayoutExtend" if "requested_layout s p = LayoutExtend"
    using that by (simp add: requested_layout_def split: if_splits)
  have 1: "dp_Layout p = LayoutExtend \<and> \<not> stale s p" if "dp_Layout (pl_Effective pl) = LayoutExtend"
    using lay that req by (auto simp: chosen_layout_def split: if_splits)
  have 2: "dp_Layout (pl_Effective pl) = requested_layout s p \<and> \<not> stale s p" if "\<not> pl_Fallback pl"
    using lay that by (auto simp: chosen_layout_def)
  have 3: "\<exists>o' \<in> set s. \<not> hasMode o' w h"
    if "dp_Layout (pl_Effective pl) = LayoutSingle" "requested_layout s p \<noteq> LayoutSingle" "1 < length s" "w > 0" "h > 0" for w h
  proof -
    have "commonMode s (dp_Width p) (dp_Height p) = None"
      using lay that by (auto simp: chosen_layout_def split: if_splits)
    then show ?thesis using that(3,4,5) by (intro commonMode_None) auto
  qed
  show ?thesis using 1 2 3 selected_found [of p s] out by (auto simp: stale_iff)
qed

theorem BuildPlan_layout_witness:
  "\<exists>pl. BuildPlan [panel, projector] zero_Preference = Inr pl \<and>
     (\<not> pl_Fallback pl \<longrightarrow> dp_Layout (pl_Effective pl) = requested_layout [panel, projector] zero_Preference)"
  using BuildPlan_layout [OF mirror_example] mirror_example by blast


subsection \<open>A plan exists\<close>

definition displayable :: "Output \<Rightarrow> bool" where
  "displayable o' \<longleftrightarrow> ou_Modes o' \<noteq> [] \<and> (\<forall>m \<in> set (ou_Modes o'). mo_Width m > 0 \<and> mo_Height m > 0)"

lemma bestMode_displayable:
  "displayable o' \<Longrightarrow> mo_Width (bestMode o' w h) > 0 \<and> mo_Height (bestMode o' w h) > 0"
  using bestMode_usable [of o' w h] by (auto simp: displayable_def usable_def hasMode_def list_ex_iff has_size_def)

lemma single_plan_succeeds:
  "displayable (selected s p) \<Longrightarrow> \<exists>pl. single_plan s p = Inr pl"
  using bestMode_displayable [of "selected s p" "dp_Width p" "dp_Height p"] by (auto simp: single_plan_def Let_def)

lemma extend_args_succeeds:
  "\<forall>o' \<in> set os. displayable o' \<Longrightarrow> \<exists>args. extend_args previous os = Inr args"
proof (induction os arbitrary: previous)
  case (Cons o' os)
  then obtain args where "extend_args (ou_Name o') os = Inr args" by force
  with Cons.prems bestMode_displayable [of o' 0 0] show ?case by (auto simp: Let_def)
qed simp

text \<open>When every connected output lists modes, all of positive size, a plan exists for every
  preference whose layout is empty or one of the three names, and \<open>BuildPlan\<close> reaches it after at most
  one recursive call: more rounds do not change the result.\<close>

theorem BuildPlan_succeeds:
  assumes "s \<noteq> []" and "\<forall>o' \<in> set s. displayable o'" and "dp_Layout p = '''' \<or> ValidLayout (dp_Layout p)"
  shows "\<exists>pl. BuildPlan s p = Inr pl \<and> (\<forall>n. BuildPlan_with (Suc (Suc n)) s p = Inr pl)"
proof -
  have "ValidLayout (requested_layout s p)"
    using assms(3) by (auto simp: requested_layout_def)
  moreover have "\<exists>pl. single_plan s q = Inr pl" for q
    by (rule single_plan_succeeds) (use assms selected_in in blast)
  moreover have "\<exists>pl. extend_plan s p = Inr pl"
  proof -
    have "\<forall>o' \<in> set (others s (selected s p)). displayable o'" using assms(2) by (simp add: others_def)
    then obtain args where "extend_args (ou_Name (selected s p)) (others s (selected s p)) = Inr args"
      using extend_args_succeeds by blast
    moreover have "displayable (selected s p)" using assms selected_in by blast
    ultimately show ?thesis
      using bestMode_displayable [of "selected s p" "dp_Width p" "dp_Height p"] by (auto simp: extend_plan_def Let_def)
  qed
  ultimately have "\<exists>pl. plan_result s p = Inr pl"
    using assms(1) by (force simp: plan_result_def bind_res_Inr_iff split: option.splits)
  then show ?thesis by (auto simp: BuildPlan_result BuildPlan_fuel simp del: BuildPlan_with.simps)
qed

theorem BuildPlan_succeeds_witness:
  "\<exists>pl. BuildPlan [panel, projector] \<lparr>dp_Layout = LayoutExtend, dp_Output = '''', dp_Width = 0, dp_Height = 0\<rparr> = Inr pl"
  using BuildPlan_succeeds [of "[panel, projector]" "\<lparr>dp_Layout = LayoutExtend, dp_Output = '''', dp_Width = 0, dp_Height = 0\<rparr>"]
  by (auto simp: displayable_def panel_def projector_def)

subsection \<open>What a matching extended layout shows\<close>

text \<open>A coordinate that a 16-bit X server can give; no edge of such an output wraps.\<close>

definition on_screen :: "Output \<Rightarrow> bool" where
  "on_screen o' \<longleftrightarrow> - (2 ^ 31) \<le> ou_X o' \<and> ou_X o' < 2 ^ 31 \<and> - (2 ^ 31) \<le> ou_Y o' \<and> ou_Y o' < 2 ^ 31 \<and>
     ou_Width o' < 2 ^ 31 \<and> ou_Height o' < 2 ^ 31"

definition pixels :: "Output \<Rightarrow> (int \<times> int) set" where
  "pixels o' = {ou_X o' ..< ou_X o' + ou_Width o'} \<times> {ou_Y o' ..< ou_Y o' + ou_Height o'}"

lemma wrap64_small: "- (2 ^ 63) \<le> i \<Longrightarrow> i < 2 ^ 63 \<Longrightarrow> wrap64 i = i"
  by (simp add: wrap64_def)

lemma edges: "on_screen o' \<Longrightarrow> ou_Width o' > 0 \<Longrightarrow> ou_Height o' > 0 \<Longrightarrow>
    wrap64 (ou_X o' + ou_Width o') = ou_X o' + ou_Width o' \<and> wrap64 (ou_Y o' + ou_Height o') = ou_Y o' + ou_Height o'"
  by (auto simp: on_screen_def intro!: wrap64_small)

lemma no_overlap_nth: "no_overlap os \<Longrightarrow> i < j \<Longrightarrow> j < length os \<Longrightarrow> \<not> overlap (os ! i) (os ! j)"
proof (induction os arbitrary: i j)
  case (Cons o' os)
  then show ?case by (cases i; cases j) (auto simp: list_all_iff)
qed simp

text \<open>An extended layout that \<open>Matches\<close> accepts shows every connected output, the requested primary
  at its requested size, and no pixel of the desktop belongs to two outputs, as long as no edge wraps.\<close>

theorem Matches_extend_disjoint:
  assumes "Matches_layout s p" and "dp_Layout p = LayoutExtend" and "\<forall>o' \<in> set s. on_screen o'"
  shows "(\<forall>o' \<in> set s. pixels o' \<noteq> {}) \<and>
    (\<forall>i j. i < j \<and> j < length s \<longrightarrow> pixels (s ! i) \<inter> pixels (s ! j) = {}) \<and>
    (\<exists>o' \<in> set s. ou_Name o' = dp_Output p \<and> ou_Primary o' \<and> ou_Width o' = dp_Width p \<and> ou_Height o' = dp_Height p)"
proof -
  from assms obtain sel where sel: "findOutput s (dp_Output p) = Some sel" "ou_Primary sel"
      "ou_Width sel = dp_Width p" "ou_Height sel = dp_Height p"
    and all: "length (filter Active s) = length s" "no_overlap (filter Active s)"
    by (auto simp: Matches_layout_def Let_def split: option.splits if_splits)
  have act: "\<forall>o' \<in> set s. Active o'"
    using all(1) by (metis length_filter_less less_irrefl)
  then have filt: "filter Active s = s" by simp
  have "pixels o' \<noteq> {}" if "o' \<in> set s" for o' using act that by (auto simp: pixels_def Active_def)
  moreover have "pixels (s ! i) \<inter> pixels (s ! j) = {}" if "i < j" "j < length s" for i j
  proof -
    have "\<not> overlap (s ! i) (s ! j)" using no_overlap_nth [OF all(2)] that filt by simp
    moreover have in_s: "s ! i \<in> set s" "s ! j \<in> set s" using that by auto
    ultimately show ?thesis
      using edges [of "s ! i"] edges [of "s ! j"] act assms(3)
      by (auto simp: overlap_def pixels_def Active_def)
  qed
  ultimately show ?thesis using findOutput_Some [OF sel(1)] sel by blast
qed

lemma extended_example:
  "Matches_layout [panel, projector] \<lparr>dp_Layout = LayoutExtend, dp_Output = ''eDP-1'', dp_Width = 1920, dp_Height = 1080\<rparr>"
  by code_simp

theorem Matches_extend_disjoint_witness:
  "pixels panel \<noteq> {} \<and> pixels projector \<noteq> {}"
  using Matches_extend_disjoint [OF extended_example] by (simp add: on_screen_def panel_def projector_def)

subsection \<open>A detected layout is kept\<close>

definition lists_current :: "Output \<Rightarrow> bool" where
  "lists_current o' \<longleftrightarrow> (Active o' \<longrightarrow> hasMode o' (ou_Width o') (ou_Height o'))"

lemma bestMode_found:
  assumes "hasMode o' w h" "w > 0" "h > 0"
  shows "mo_Width (bestMode o' w h) = w \<and> mo_Height (bestMode o' w h) = h"
proof -
  from assms(1) have "find (has_size w h) (ou_Modes o') \<noteq> None"
    by (auto simp: hasMode_def list_ex_iff find_None_iff)
  then obtain m where "find (has_size w h) (ou_Modes o') = Some m" by blast
  with assms find_SomeD [OF this] show ?thesis by (simp add: bestMode_def has_size_def)
qed

lemma currentLayout_valid: "ValidLayout (currentLayout s)" "currentLayout s \<noteq> ''''"
  by (auto simp: currentLayout_def split: list.split)

lemma commonMode_requested:
  "w > 0 \<Longrightarrow> h > 0 \<Longrightarrow> \<forall>o' \<in> set os. hasMode o' w h \<Longrightarrow> commonMode os w h = Some (w, h)"
  by (simp add: commonMode_def list_all_iff)

lemma detected_choice:
  assumes "Matches_layout s (DetectPreference s)" "distinct (map ou_Name s)"
    and "\<forall>o' \<in> set s. displayable o' \<and> lists_current o'"
  shows "s \<noteq> []" "findOutput s (dp_Output (DetectPreference s)) = Some (primaryOutput s)"
    "dp_Width (DetectPreference s) > 0" "dp_Height (DetectPreference s) > 0"
    "hasMode (primaryOutput s) (dp_Width (DetectPreference s)) (dp_Height (DetectPreference s))"
proof -
  let ?d = "DetectPreference s"
  show ne: "s \<noteq> []" using assms(1) by (auto simp: Matches_layout_def findOutput_def)
  note prim = primaryOutput_in [OF ne]
  show found: "findOutput s (dp_Output ?d) = Some (primaryOutput s)"
    using findOutput_self [OF assms(2) prim] by (simp add: DetectPreference_def Let_def)
  show dims: "dp_Width ?d > 0" "dp_Height ?d > 0"
    using bestMode_displayable [of "primaryOutput s"] assms(3) prim by (auto simp: DetectPreference_def Let_def)
  have shown: "ou_Width (primaryOutput s) = dp_Width ?d" "ou_Height (primaryOutput s) = dp_Height ?d"
    using assms(1) found by (auto simp: Matches_layout_def split: if_splits)
  then have "Active (primaryOutput s)" using dims by (simp add: Active_def)
  then show "hasMode (primaryOutput s) (dp_Width ?d) (dp_Height ?d)"
    using assms(3) prim shown by (auto simp: lists_current_def)
qed

lemma detected_mirror:
  assumes "Matches_layout s (DetectPreference s)" "dp_Layout (DetectPreference s) = LayoutMirror"
    and "findOutput s (dp_Output (DetectPreference s)) = Some sel"
  shows "\<forall>o' \<in> set s. Active o' \<and> ou_Width o' = dp_Width (DetectPreference s) \<and> ou_Height o' = dp_Height (DetectPreference s)"
  using assms
  by (auto simp: Matches_layout_def Let_def list_all_iff split: if_splits) (metis length_filter_less less_irrefl)+

text \<open>A layout that is detected and matches is a fixed point of planning: saving the detected
  preference and planning from it asks for exactly that preference, needs no fallback and changes
  nothing on screen.\<close>

theorem DetectPreference_stable:
  assumes "Matches_layout s (DetectPreference s)" and "distinct (map ou_Name s)"
    and "\<forall>o' \<in> set s. displayable o' \<and> lists_current o'"
  shows "\<exists>pl. BuildPlan s (DetectPreference s) = Inr pl \<and> pl_Effective pl = DetectPreference s \<and>
    \<not> pl_Fallback pl \<and> \<not> pl_WasChanged pl"
proof -
  let ?d = "DetectPreference s"
  note choice = detected_choice [OF assms]
  have sel: "selected s ?d = primaryOutput s" and fresh: "\<not> stale s ?d"
    using choice(2) by (simp_all add: selected_def stale_def)
  note best = bestMode_found [OF choice(5,3,4)]
  have lay: "requested_layout s ?d = currentLayout s" "chosen_layout s ?d = currentLayout s" "dp_Layout ?d = currentLayout s"
    using fresh currentLayout_valid(2) by (simp_all add: requested_layout_def chosen_layout_def DetectPreference_def Let_def)
  have eff: "effective (currentLayout s) (primaryOutput s) (dp_Width ?d) (dp_Height ?d) = ?d"
    by (simp add: effective_def DetectPreference_def Let_def)
  note facts = choice(1) lay best choice(3,4) fresh sel eff currentLayout_valid(1) [of s]
  consider "currentLayout s = LayoutSingle" | "currentLayout s = LayoutMirror" | "currentLayout s = LayoutExtend"
    using currentLayout_valid(1) by (auto simp: ValidLayout_def)
  then have "\<exists>pl. plan_result s ?d = Inr pl \<and> pl_Effective pl = ?d \<and> \<not> pl_Fallback pl \<and>
    pl_WasChanged pl = (\<not> Matches_layout s ?d)"
  proof cases
    case 1
    then show ?thesis using facts by (simp add: plan_result_def single_plan_def Let_def)
  next
    case 2
    with detected_mirror [OF assms(1) _ choice(2)] lay assms(3)
    have "commonMode s (dp_Width ?d) (dp_Height ?d) = Some (dp_Width ?d, dp_Height ?d)"
      by (intro commonMode_requested choice) (auto simp: lists_current_def)
    with 2 facts show ?thesis by (simp add: plan_result_def mirror_plan_def Let_def)
  next
    case 3
    obtain args where "extend_args (ou_Name (primaryOutput s)) (others s (primaryOutput s)) = Inr args"
      using extend_args_succeeds [of "others s (primaryOutput s)"] assms(3) by (force simp: others_def)
    with 3 facts show ?thesis by (simp add: plan_result_def extend_plan_def Let_def)
  qed
  with assms(1) show ?thesis by (auto simp: BuildPlan_result)
qed

lemma detected_example: "Matches_layout [panel, projector] (DetectPreference [panel, projector])"
  by code_simp

theorem DetectPreference_stable_witness:
  "\<exists>pl. BuildPlan [panel, projector] (DetectPreference [panel, projector]) = Inr pl \<and> \<not> pl_WasChanged pl"
  using DetectPreference_stable [OF detected_example]
  by (force simp: displayable_def lists_current_def hasMode_def has_size_def panel_def projector_def)

subsection \<open>What is parsed\<close>

text \<open>The lines that announce a connected output.\<close>

definition announces :: "string \<Rightarrow> bool" where
  "announces line \<longleftrightarrow> line \<noteq> [] \<and> hd line \<noteq> CHR '' '' \<and> hd line \<noteq> CHR 0x09 \<and>
     (case go_fields line of name # status # rest \<Rightarrow> status = ''connected'' | _ \<Rightarrow> False)"

lemma add_mode_keys:
  "set (map mode_key (add_mode m ms)) = insert (mode_key m) (set (map mode_key ms))"
  "distinct (map mode_key ms) \<Longrightarrow> distinct (map mode_key (add_mode m ms))"
proof -
  show "set (map mode_key (add_mode m ms)) = insert (mode_key m) (set (map mode_key ms))" for ms
    by (induction ms) (auto simp: mode_key_def)
  then show "distinct (map mode_key ms) \<Longrightarrow> distinct (map mode_key (add_mode m ms))"
    by (induction ms) (auto simp: mode_key_def)
qed

definition parsed_ok :: "string list \<Rightarrow> parse_state \<Rightarrow> bool" where
  "parsed_ok ls st \<longleftrightarrow> map ou_Name (rev (close_output st)) = map (hd \<circ> go_fields) (filter announces ls) \<and>
     (\<forall>o' \<in> set (close_output st). distinct (map mode_key (ou_Modes o')))"

lemma read_fields_keep:
  "ou_Name (foldl read_field o' fs) = ou_Name o' \<and> ou_Modes (foldl read_field o' fs) = ou_Modes o'"
  by (induction fs arbitrary: o') (auto simp: read_field_def Let_def split: option.splits)

lemma parse_line_ok:
  assumes "parsed_ok ls st"
  shows "parsed_ok (ls @ [line]) (parse_line st line)"
proof (cases "line \<noteq> [] \<and> hd line \<noteq> CHR '' '' \<and> hd line \<noteq> CHR 0x09")
  case True
  then show ?thesis
    using assms
    by (auto simp: parsed_ok_def parse_line_def announces_def close_output_def read_fields_keep new_output_def
        split: list.splits option.splits)
next
  case False
  then have "\<not> announces line" by (auto simp: announces_def)
  with False assms show ?thesis
    by (auto simp: parsed_ok_def parse_line_def close_output_def add_mode_keys split: option.splits)
qed

lemma parse_lines_ok: "parsed_ok ls (foldl parse_line ([], None) ls)"
proof (induction ls rule: rev_induct)
  case Nil
  then show ?case by (simp add: parsed_ok_def close_output_def)
next
  case (snoc l ls)
  then show ?case using parse_line_ok by simp
qed

text \<open>\<open>Parse\<close> returns one output per line that announces a connected one, in that order and under
  the announced name, keeps no size twice among the modes of an output, and fails exactly when no line
  announces one.\<close>

theorem Parse_connected:
  "case Parse raw of
     None \<Rightarrow> filter announces (split_on CHR 0x0A raw) = []
   | Some s \<Rightarrow> s \<noteq> [] \<and> map ou_Name s = map (hd \<circ> go_fields) (filter announces (split_on CHR 0x0A raw)) \<and>
       (\<forall>o' \<in> set s. distinct (map mode_key (ou_Modes o')))"
  using parse_lines_ok [of "split_on CHR 0x0A raw"]
  by (auto simp: Parse_def Let_def parse_lines_def parsed_ok_def)

definition xrandr_text :: string where
  "xrandr_text = ''Screen 0: minimum'' @ [CHR 0x0A] @ ''eDP-1 connected primary 1920x1080+0+0'' @ [CHR 0x0A] @
     ''   1920x1080 60.0*+ 59.9'' @ [CHR 0x0A] @ ''HDMI-1 disconnected'' @ [CHR 0x0A]"

theorem Parse_connected_witness: "map_option (map ou_Name) (Parse xrandr_text) = Some [''eDP-1'']"
proof -
  have "map (hd \<circ> go_fields) (filter announces (split_on CHR 0x0A xrandr_text)) = [''eDP-1'']"
    by code_simp
  with Parse_connected [of xrandr_text] show ?thesis by (auto split: option.splits)
qed

end
