(* ===== verification/Jobs.thy ===== *)
theory Jobs
  imports GoTime
begin

text \<open>
  \<open>internal/jobs/jobs.go\<close>: asynchronous operations with progress. A \<open>Job\<close> holds its latest \<open>Update\<close>
  and the channels of its subscribers; the \<open>Manager\<close> owns the jobs. A pointer to a job is its number:
  the manager's map gives pointers, and a job that was pruned stays reachable through them. Sending on
  a closed channel and closing one twice are the panics of the runtime.
\<close>

record ComponentProgress =
  cp_Name :: string
  cp_Status :: string
  cp_BytesDone :: int
  cp_BytesTotal :: int
  cp_BytesPerSec :: int
  cp_ETASeconds :: int

record NodeProgress =
  np_Node :: string
  np_Phase :: string
  np_Message :: string
  np_BytesDone :: int
  np_BytesTotal :: int
  np_Percent :: int
  np_ETASecs :: int

record Update =
  up_Phase :: string
  up_Message :: string
  up_LayersDone :: int
  up_LayersTotal :: int
  up_BytesDone :: int
  up_BytesTotal :: int
  up_ContainerID :: string
  up_Error :: string
  up_Done :: bool
  up_Percent :: int
  up_ItemsDone :: int
  up_ItemsTotal :: int
  up_CurrentItem :: string
  up_StartedAt :: string
  up_UpdatedAt :: string
  up_ElapsedSecs :: int
  up_ETASecs :: int
  up_BytesPerSec :: int
  up_StalledSecs :: int
  up_Components :: "ComponentProgress list"
  up_Nodes :: "NodeProgress list"
  up_etaOverride :: int

definition zero_Update :: Update where
  "zero_Update = \<lparr>up_Phase = '''', up_Message = '''', up_LayersDone = 0, up_LayersTotal = 0, up_BytesDone = 0,
     up_BytesTotal = 0, up_ContainerID = '''', up_Error = '''', up_Done = False, up_Percent = 0, up_ItemsDone = 0,
     up_ItemsTotal = 0, up_CurrentItem = '''', up_StartedAt = '''', up_UpdatedAt = '''', up_ElapsedSecs = 0,
     up_ETASecs = 0, up_BytesPerSec = 0, up_StalledSecs = 0, up_Components = [], up_Nodes = [], up_etaOverride = 0\<rparr>"

text \<open>A channel \<open>make(chan Update, 16)\<close>: what it holds, and whether it was closed.\<close>

record Chan =
  ch_buf :: "Update list"
  ch_closed :: bool

definition chan_capacity :: nat where "chan_capacity = 16"

datatype job_panic = SendOnClosed | CloseOfClosed

text \<open>\<open>jb_chans\<close> are all channels the job ever made, \<open>jb_subs\<close> the ones in its \<open>subs\<close> map.\<close>

record Job =
  jb_ID :: string
  jb_AppID :: string
  jb_seq :: int
  jb_state :: Update
  jb_subs :: "nat list"
  jb_chans :: "(nat, Chan) gomap"
  jb_start :: Now
  jb_observer :: "nat option"

record JobSnapshot =
  sn_ID :: string
  sn_AppID :: string
  sn_Update :: Update

record Manager =
  mg_seq :: int
  mg_jobs :: "(string, int) gomap"
  mg_heap :: "(int, Job) gomap"
  mg_maxTerminal :: int

subsection \<open>Reading a job\<close>

definition clampPercent :: "int \<Rightarrow> int" where
  "clampPercent v = (if v < 0 then 0 else if v > 100 then 100 else v)"

text \<open>Division of two \<open>int64\<close> values truncates; the callers have checked the divisor to be positive.\<close>

definition quot64 :: "int \<Rightarrow> int \<Rightarrow> int" where
  "quot64 a b = wrap64 (sgn a * sgn b * (\<bar>a\<bar> div \<bar>b\<bar>))"

definition snapshotLocked :: "Now \<Rightarrow> Job \<Rightarrow> Update" where
  "snapshotLocked now j =
     (let u = jb_state j;
          u1 = (if now_wall (jb_start j) \<noteq> zero_time
                then u\<lparr>up_ElapsedSecs := seconds_of (now_sub now (jb_start j))\<rparr> else u);
          eta = (if \<not> up_Done u1 \<and> up_etaOverride u1 > 0 then up_etaOverride u1
                 else if \<not> up_Done u1 \<and> up_Percent u1 > 0 \<and> up_Percent u1 < 100 \<and> up_ElapsedSecs u1 > 0
                 then quot64 (wrap64 (up_ElapsedSecs u1 * wrap64 (100 - up_Percent u1))) (up_Percent u1)
                 else 0)
      in u1\<lparr>up_ETASecs := eta\<rparr>)"

definition job_Snapshot :: "Now \<Rightarrow> Job \<Rightarrow> Update" where
  "job_Snapshot now j = snapshotLocked now j"

subsection \<open>Subscribers\<close>

definition Subscribe :: "Now \<Rightarrow> Job \<Rightarrow> Job \<times> nat" where
  "Subscribe now j =
     (let ch = length (jb_chans j)
      in (j\<lparr>jb_chans := put ch \<lparr>ch_buf = [snapshotLocked now j], ch_closed = False\<rparr> (jb_chans j),
            jb_subs := jb_subs j @ [ch]\<rparr>, ch))"

definition close_chan :: "nat \<Rightarrow> (nat, Chan) gomap \<Rightarrow> job_panic + (nat, Chan) gomap" where
  "close_chan ch chans =
     (case lookup chans ch of None \<Rightarrow> Inr chans
      | Some c \<Rightarrow> if ch_closed c then Inl CloseOfClosed else Inr (put ch (c\<lparr>ch_closed := True\<rparr>) chans))"

definition Unsubscribe :: "nat \<Rightarrow> Job \<Rightarrow> job_panic + Job" where
  "Unsubscribe ch j =
     (if ch \<in> set (jb_subs j)
      then bind_res (close_chan ch (jb_chans j)) (\<lambda>chans.
             Inr (j\<lparr>jb_subs := filter (\<lambda>c. c \<noteq> ch) (jb_subs j), jb_chans := chans\<rparr>))
      else Inr j)"

text \<open>The receiving side: the next update, if one is buffered.\<close>

definition receive :: "nat \<Rightarrow> Job \<Rightarrow> Job \<times> Update option" where
  "receive ch j =
     (case lookup (jb_chans j) ch of
        Some c \<Rightarrow> (case ch_buf c of [] \<Rightarrow> (j, None)
                   | u # us \<Rightarrow> (j\<lparr>jb_chans := put ch (c\<lparr>ch_buf := us\<rparr>) (jb_chans j)\<rparr>, Some u))
      | None \<Rightarrow> (j, None))"

definition try_send :: "Update \<Rightarrow> nat \<Rightarrow> (nat, Chan) gomap \<Rightarrow> job_panic + (nat, Chan) gomap" where
  "try_send u ch chans =
     (case lookup chans ch of None \<Rightarrow> Inr chans
      | Some c \<Rightarrow>
          if ch_closed c then Inl SendOnClosed
          else if length (ch_buf c) < chan_capacity then Inr (put ch (c\<lparr>ch_buf := ch_buf c @ [u]\<rparr>) chans)
          else Inr chans)"

primrec broadcast :: "Update \<Rightarrow> nat list \<Rightarrow> (nat, Chan) gomap \<Rightarrow> job_panic + (nat, Chan) gomap" where
  "broadcast u [] chans = Inr chans"
| "broadcast u (ch # chs) chans = bind_res (try_send u ch chans) (broadcast u chs)"

text \<open>The calls of the observer a step makes: which one, and with what.\<close>

type_synonym observed = "(nat \<times> Update) list"

definition apply_update :: "(Update \<Rightarrow> Update) \<Rightarrow> Now \<Rightarrow> Job \<Rightarrow> job_panic + (Job \<times> observed)" where
  "apply_update f now j =
     (let j1 = j\<lparr>jb_state := (f (jb_state j))\<lparr>up_UpdatedAt := format_rfc3339 (now_wall now)\<rparr>\<rparr>;
          update = snapshotLocked now j1
      in bind_res (broadcast update (jb_subs j1) (jb_chans j1)) (\<lambda>chans.
           Inr (j1\<lparr>jb_chans := chans\<rparr>, (case jb_observer j1 of None \<Rightarrow> [] | Some ob \<Rightarrow> [(ob, update)]))))"

definition Observe :: "nat option \<Rightarrow> Now \<Rightarrow> Job \<Rightarrow> Job \<times> observed" where
  "Observe ob now j =
     (let j1 = j\<lparr>jb_observer := ob\<rparr>; update = snapshotLocked now j1
      in (j1, (case ob of None \<Rightarrow> [] | Some o' \<Rightarrow> [(o', update)])))"

subsection \<open>Progress\<close>

definition no_items :: "Update \<Rightarrow> Update" where
  "no_items u = u\<lparr>up_etaOverride := 0, up_ItemsDone := 0, up_ItemsTotal := 0, up_CurrentItem := ''''\<rparr>"

definition no_transfer :: "Update \<Rightarrow> Update" where
  "no_transfer u = u\<lparr>up_BytesDone := 0, up_BytesTotal := 0, up_BytesPerSec := 0, up_StalledSecs := 0,
     up_Components := [], up_Nodes := []\<rparr>"

definition byte_percent :: "int \<Rightarrow> int \<Rightarrow> Update \<Rightarrow> Update" where
  "byte_percent fin whole u =
     (if whole > 0 then u\<lparr>up_Percent := clampPercent (quot64 (wrap64 (fin * 100)) whole)\<rparr> else u)"

definition ProgressNodes :: "string \<Rightarrow> string \<Rightarrow> NodeProgress list \<Rightarrow> int \<Rightarrow> int \<Rightarrow> Update \<Rightarrow> Update" where
  "ProgressNodes phase msg nodes fin whole u =
     (let u1 = (if up_Phase u \<noteq> phase then no_items u else u)
      in byte_percent fin whole
           (u1\<lparr>up_Phase := phase, up_Message := msg, up_Nodes := nodes, up_BytesDone := fin, up_BytesTotal := whole\<rparr>))"

definition Progress :: "string \<Rightarrow> string \<Rightarrow> int \<Rightarrow> int \<Rightarrow> Update \<Rightarrow> Update" where
  "Progress phase msg fin whole u =
     (let u1 = (if up_Phase u \<noteq> phase then no_items (no_transfer u) else u);
          u2 = u1\<lparr>up_Phase := phase, up_Message := msg\<rparr>;
          u3 = (if fin \<ge> 0 then u2\<lparr>up_LayersDone := fin\<rparr> else u2);
          u4 = (if whole \<ge> 0 then u3\<lparr>up_LayersTotal := whole\<rparr> else u3)
      in if fin \<ge> 0 \<and> whole > 0
         then u4\<lparr>up_Percent := clampPercent (quot64 (wrap64 (fin * 100)) whole)\<rparr> else u4)"

definition progressOperation :: "string \<Rightarrow> string \<Rightarrow> string \<Rightarrow> int \<Rightarrow> int \<Rightarrow> int \<Rightarrow> int \<Rightarrow> Update \<Rightarrow> Update" where
  "progressOperation phase msg currentItem percent fin whole etaSeconds u =
     (let u1 = (if up_Phase u \<noteq> phase then (no_transfer u)\<lparr>up_LayersDone := 0, up_LayersTotal := 0\<rparr> else u)
      in u1\<lparr>up_Phase := phase, up_Message := msg, up_CurrentItem := currentItem,
            up_Percent := clampPercent percent, up_ItemsDone := fin, up_ItemsTotal := whole,
            up_etaOverride := max 0 etaSeconds\<rparr>)"

definition ProgressOperation :: "string \<Rightarrow> string \<Rightarrow> string \<Rightarrow> int \<Rightarrow> int \<Rightarrow> int \<Rightarrow> Update \<Rightarrow> Update" where
  "ProgressOperation phase msg currentItem percent fin whole =
     progressOperation phase msg currentItem percent fin whole 0"

definition ProgressOperationETA :: "string \<Rightarrow> string \<Rightarrow> string \<Rightarrow> int \<Rightarrow> int \<Rightarrow> int \<Rightarrow> int \<Rightarrow> Update \<Rightarrow> Update" where
  "ProgressOperationETA phase msg currentItem percent fin whole etaSeconds =
     progressOperation phase msg currentItem percent fin whole etaSeconds"

definition ProgressDetail :: "string \<Rightarrow> string \<Rightarrow> int \<Rightarrow> int \<Rightarrow> Update \<Rightarrow> Update" where
  "ProgressDetail phase msg fin whole u =
     (let u1 = (if up_Phase u \<noteq> phase then no_items u else u)
      in u1\<lparr>up_Phase := phase, up_Message := msg, up_LayersDone := fin, up_LayersTotal := whole\<rparr>)"

definition ProgressBytes :: "string \<Rightarrow> string \<Rightarrow> int \<Rightarrow> int \<Rightarrow> Update \<Rightarrow> Update" where
  "ProgressBytes phase msg fin whole u =
     (let u1 = (if up_Phase u \<noteq> phase then (no_items u)\<lparr>up_Nodes := []\<rparr> else u)
      in byte_percent fin whole
           (u1\<lparr>up_Phase := phase, up_Message := msg, up_BytesDone := fin, up_BytesTotal := whole\<rparr>))"

definition ProgressBytesDetail :: "string \<Rightarrow> string \<Rightarrow> int \<Rightarrow> int \<Rightarrow> Update \<Rightarrow> Update" where
  "ProgressBytesDetail phase msg fin whole u =
     (let u1 = (if up_Phase u \<noteq> phase then no_items u else u)
      in u1\<lparr>up_Phase := phase, up_Message := msg, up_BytesDone := fin, up_BytesTotal := whole\<rparr>)"

definition ProgressTransfer ::
  "string \<Rightarrow> string \<Rightarrow> string \<Rightarrow> int \<Rightarrow> int \<Rightarrow> int \<Rightarrow> int \<Rightarrow> int \<Rightarrow> int \<Rightarrow> ComponentProgress list \<Rightarrow> Update \<Rightarrow> Update" where
  "ProgressTransfer phase msg currentItem percent fin whole bytesPerSecond stalledSeconds etaSeconds components u =
     u\<lparr>up_Phase := phase, up_Message := msg, up_CurrentItem := currentItem, up_Percent := clampPercent percent,
       up_BytesDone := fin, up_BytesTotal := whole, up_BytesPerSec := max 0 bytesPerSecond,
       up_StalledSecs := max 0 stalledSeconds, up_etaOverride := max 0 etaSeconds, up_Components := components\<rparr>"

definition finished :: "Update \<Rightarrow> Update" where
  "finished u = u\<lparr>up_ETASecs := 0, up_etaOverride := 0, up_BytesPerSec := 0, up_StalledSecs := 0,
     up_Components := [], up_Done := True\<rparr>"

definition Succeed :: "string \<Rightarrow> Update \<Rightarrow> Update" where
  "Succeed containerID u =
     finished (u\<lparr>up_Phase := ''running'', up_Message := ''Running'', up_ContainerID := containerID,
       up_LayersDone := up_LayersTotal u, up_Percent := 100\<rparr>)"

definition Fail :: "string \<Rightarrow> Update \<Rightarrow> Update" where
  "Fail err u = finished (u\<lparr>up_Phase := ''error'', up_Message := ''Failed'', up_Error := err\<rparr>)"

definition Cancel :: "Update \<Rightarrow> Update" where
  "Cancel u = finished (u\<lparr>up_Phase := ''canceled'', up_Message := ''Canceled'', up_Error := ''''\<rparr>)"

subsection \<open>The manager\<close>

definition NewManager :: Manager where
  "NewManager = \<lparr>mg_seq = 0, mg_jobs = [], mg_heap = [], mg_maxTerminal = 200\<rparr>"

definition job_id :: "int \<Rightarrow> string" where
  "job_id n = ''job-'' @ itoa n"

definition new_job :: "int \<Rightarrow> Now \<Rightarrow> string \<Rightarrow> Job" where
  "new_job n now appID =
     \<lparr>jb_ID = job_id n, jb_AppID = appID, jb_seq = n,
      jb_state = zero_Update\<lparr>up_Phase := ''pending'', up_Message := ''Queued'',
        up_StartedAt := format_rfc3339 (now_wall now), up_UpdatedAt := format_rfc3339 (now_wall now)\<rparr>,
      jb_subs = [], jb_chans = [], jb_start = now, jb_observer = None\<rparr>"

definition createLocked :: "Now \<Rightarrow> string \<Rightarrow> Manager \<Rightarrow> Manager \<times> int" where
  "createLocked now appID m =
     (let n = wrap64 (mg_seq m + 1); j = new_job n now appID
      in (m\<lparr>mg_seq := n, mg_heap := put n j (mg_heap m), mg_jobs := put (jb_ID j) n (mg_jobs m)\<rparr>, n))"

definition job_Create :: "Now \<Rightarrow> string \<Rightarrow> Manager \<Rightarrow> Manager \<times> int" where
  "job_Create now appID m = createLocked now appID m"

text \<open>The registered jobs with their pointers, in the order the map is iterated in.\<close>

definition registered :: "Manager \<Rightarrow> (int \<times> Job) list" where
  "registered m = concat (map (\<lambda>(_, p). case lookup (mg_heap m) p of None \<Rightarrow> [] | Some j \<Rightarrow> [(p, j)]) (mg_jobs m))"

definition active_match :: "Now \<Rightarrow> string \<Rightarrow> Job \<Rightarrow> bool" where
  "active_match now activePrefix j \<longleftrightarrow> has_prefix (jb_AppID j) activePrefix \<and> \<not> up_Done (job_Snapshot now j)"

definition CreateUnique :: "Now \<Rightarrow> string \<Rightarrow> string \<Rightarrow> Manager \<Rightarrow> Manager \<times> int \<times> bool" where
  "CreateUnique now appID activePrefix m =
     (case find (\<lambda>(_, j). active_match now activePrefix j) (registered m) of
        Some (p, j) \<Rightarrow> (m, p, False)
      | None \<Rightarrow> (let (m1, p) = createLocked now appID m in (m1, p, True)))"

definition job_Get :: "string \<Rightarrow> Manager \<Rightarrow> int option" where
  "job_Get i m = lookup (mg_jobs m) i"

definition pruneTerminalLocked :: "Now \<Rightarrow> Manager \<Rightarrow> Manager" where
  "pruneTerminalLocked now m =
     (let limit = nat (if mg_maxTerminal m \<le> 0 then 200 else mg_maxTerminal m);
          terminal = map snd (filter (\<lambda>(_, j). up_Done (job_Snapshot now j)) (registered m))
      in if length terminal \<le> limit then m
         else m\<lparr>mg_jobs := foldl (\<lambda>js j. remove (jb_ID j) js) (mg_jobs m)
                  (drop limit (sort_key (\<lambda>j. - jb_seq j) terminal))\<rparr>)"

definition snapshot_of :: "Now \<Rightarrow> Job \<Rightarrow> JobSnapshot" where
  "snapshot_of now j = \<lparr>sn_ID = jb_ID j, sn_AppID = jb_AppID j, sn_Update = job_Snapshot now j\<rparr>"

text \<open>The sort looks the sequence number of a snapshot up through the map.\<close>

definition seq_of :: "Manager \<Rightarrow> string \<Rightarrow> int" where
  "seq_of m i = (case lookup (mg_jobs m) i of None \<Rightarrow> 0
     | Some p \<Rightarrow> (case lookup (mg_heap m) p of None \<Rightarrow> 0 | Some j \<Rightarrow> jb_seq j))"

definition List_jobs :: "Now \<Rightarrow> string \<Rightarrow> Manager \<Rightarrow> Manager \<times> JobSnapshot list" where
  "List_jobs now prefix m =
     (let m1 = pruneTerminalLocked now m;
          out = map (snapshot_of now \<circ> snd)
                  (filter (\<lambda>(_, j). \<not> (prefix \<noteq> '''' \<and> \<not> has_prefix (jb_AppID j) prefix)) (registered m1))
      in (m1, sort_key (\<lambda>s. seq_of m1 (sn_ID s)) out))"

end
