(* ===== verification/JobsProps.thy ===== *)
theory JobsProps
  imports Jobs
begin

text \<open>
  What the job manager of \<open>Jobs\<close> guarantees. A job keeps \<open>well_subscribed\<close> (its counters are in range,
  the channels in its subscriber map are open, no buffer is over its capacity); the manager keeps
  \<open>manager_inv\<close> over every schedule of calls (\<open>manager_step\<close>), and \<open>job_kept\<close> relates what a job was to
  what it becomes.
\<close>

subsection \<open>Time\<close>

lemma round_even_le: "0 < m \<Longrightarrow> round_even n m \<le> n + m"
proof -
  assume "0 < m"
  have "n div m * m \<le> n + m" by (rule trans_le_add1) simp
  then show ?thesis by (simp add: round_even_def Let_def)
qed

lemma bit_len_le: "n < 2 ^ k \<Longrightarrow> bit_len n \<le> k"
proof (induction k arbitrary: n)
  case 0
  then show ?case by (simp add: bit_len.simps)
next
  case (Suc k)
  then have "bit_len (n div 2) \<le> k" by (intro Suc.IH) (simp add: less_mult_imp_div_less mult.commute)
  then show ?case by (subst bit_len.simps) simp
qed

lemma seconds_nat_le:
  assumes "d < 2 ^ 63"
  shows "seconds_nat d \<le> d div 1000000000 + 2"
proof -
  let ?sec = "d div 1000000000"
  let ?frac = "round_even (d mod 1000000000 * 2 ^ 53) 1000000000 div 1000000000"
  have "?sec < 2 ^ 53" using assms by simp
  then have "bit_len ?sec \<le> 53" by (rule bit_len_le)
  then have m: "(2::nat) ^ bit_len ?sec \<le> 2 ^ 53" by (rule power_increasing) simp
  have "round_even (d mod 1000000000 * 2 ^ 53) 1000000000 \<le> d mod 1000000000 * 2 ^ 53 + 1000000000"
    by (rule round_even_le) simp
  also have "\<dots> \<le> 999999999 * 2 ^ 53 + 1000000000"
    by (intro add_right_mono mult_right_mono) (simp_all add: less_Suc_eq_le [symmetric])
  also have "\<dots> \<le> 1000000000 * 2 ^ 53" by simp
  finally have f: "?frac \<le> 2 ^ 53" by simp
  have "round_even (?sec * 2 ^ 53 + ?frac) (2 ^ bit_len ?sec) \<le> ?sec * 2 ^ 53 + ?frac + 2 ^ bit_len ?sec"
    by (rule round_even_le) simp
  also have "\<dots> \<le> (?sec + 2) * 2 ^ 53" using f m by (simp add: algebra_simps)
  finally have "round_even (?sec * 2 ^ 53 + ?frac) (2 ^ bit_len ?sec) div 2 ^ 53 \<le> ((?sec + 2) * 2 ^ 53) div 2 ^ 53"
    by (rule div_le_mono)
  also have "\<dots> = ?sec + 2" by (rule nonzero_mult_div_cancel_right) simp
  finally show ?thesis by (simp add: seconds_nat_def Let_def)
qed

lemma elapsed_le: "seconds_of (now_sub t u) \<le> 9223372039"
proof -
  let ?d = "now_sub t u"
  have d: "?d \<le> max_int64" by (simp add: now_sub_def time_sub_def max_int64_def min_int64_def)
  show ?thesis
  proof (cases "?d < 0")
    case False
    then have "nat ?d < 2 ^ 63" using d by (simp add: max_int64_def nat_less_iff)
    with seconds_nat_le [of "nat ?d"] have "seconds_nat (nat ?d) \<le> nat ?d div 1000000000 + 2" by blast
    also have "\<dots> \<le> (2 ^ 63) div 1000000000 + 2"
      using \<open>nat ?d < 2 ^ 63\<close> by (intro add_right_mono div_le_mono) simp
    finally show ?thesis using False by (simp add: seconds_of_def)
  qed (simp add: seconds_of_def)
qed


subsection \<open>What every job keeps\<close>

definition update_ok :: "Update \<Rightarrow> bool" where
  "update_ok u \<longleftrightarrow> 0 \<le> up_Percent u \<and> up_Percent u \<le> 100 \<and> 0 \<le> up_etaOverride u \<and>
     0 \<le> up_BytesPerSec u \<and> 0 \<le> up_StalledSecs u \<and> 0 \<le> up_ETASecs u \<and> (up_Done u \<longrightarrow> up_ETASecs u = 0)"

definition chan_ok :: "Chan \<Rightarrow> bool" where
  "chan_ok c \<longleftrightarrow> length (ch_buf c) \<le> chan_capacity \<and> (\<forall>u \<in> set (ch_buf c). update_ok u)"

definition open_in :: "(nat, Chan) gomap \<Rightarrow> nat \<Rightarrow> bool" where
  "open_in chans ch \<longleftrightarrow> (case lookup chans ch of None \<Rightarrow> False | Some c \<Rightarrow> \<not> ch_closed c)"

definition chans_ok :: "(nat, Chan) gomap \<Rightarrow> bool" where
  "chans_ok chans \<longleftrightarrow> wf_map chans \<and> fst ` set chans = {..<length chans} \<and> (\<forall>(k, c) \<in> set chans. chan_ok c)"

definition job_ok :: "Job \<Rightarrow> bool" where
  "job_ok j \<longleftrightarrow> update_ok (jb_state j) \<and> up_ETASecs (jb_state j) = 0 \<and> chans_ok (jb_chans j) \<and>
     (\<forall>ch \<in> set (jb_subs j). open_in (jb_chans j) ch)"

lemma clampPercent_range: "0 \<le> clampPercent v" "clampPercent v \<le> 100"
  by (simp_all add: clampPercent_def)

lemmas update_defs = ProgressNodes_def Progress_def progressOperation_def ProgressOperation_def
  ProgressOperationETA_def ProgressDetail_def ProgressBytes_def ProgressBytesDetail_def ProgressTransfer_def
  Succeed_def Fail_def Cancel_def no_items_def no_transfer_def byte_percent_def finished_def

subsection \<open>Snapshots\<close>

lemma quot64_pos: "0 \<le> a \<Longrightarrow> a \<le> max_int64 \<Longrightarrow> 0 < b \<Longrightarrow> quot64 a b = a div b"
proof -
  assume a: "0 \<le> a" "a \<le> max_int64" "0 < b"
  have "a div b \<le> a" using a zdiv_mono2 [of a 1 b] by simp
  moreover have "0 \<le> a div b" using a by (simp add: pos_imp_zdiv_nonneg_iff)
  ultimately have "wrap64 (a div b) = a div b" using a by (simp add: wrap64_id min_int64_def)
  with a show ?thesis by (cases "a = 0") (simp_all add: quot64_def)
qed

lemma snapshot_eta:
  assumes "job_ok j"
  shows "up_ETASecs (snapshotLocked now j) =
    (if up_Done (jb_state j) then 0
     else if up_etaOverride (jb_state j) > 0 then up_etaOverride (jb_state j)
     else (let e = up_ElapsedSecs (snapshotLocked now j); p = up_Percent (jb_state j)
           in if 0 < p \<and> p < 100 \<and> 0 < e then quot64 (wrap64 (e * (100 - p))) p else 0))"
proof -
  have "wrap64 (100 - up_Percent (jb_state j)) = 100 - up_Percent (jb_state j)"
    using assms by (intro wrap64_id) (auto simp: job_ok_def update_ok_def min_int64_def max_int64_def)
  then show ?thesis by (simp add: snapshotLocked_def Let_def)
qed

lemma snapshot_keeps [simp]:
  "up_Done (snapshotLocked now j) = up_Done (jb_state j)"
  "up_Percent (snapshotLocked now j) = up_Percent (jb_state j)"
  "up_Phase (snapshotLocked now j) = up_Phase (jb_state j)"
  "up_etaOverride (snapshotLocked now j) = up_etaOverride (jb_state j)"
  "up_BytesPerSec (snapshotLocked now j) = up_BytesPerSec (jb_state j)"
  "up_StalledSecs (snapshotLocked now j) = up_StalledSecs (jb_state j)"
  by (simp_all add: snapshotLocked_def Let_def)

text \<open>With a job started at a real time the remaining time is extrapolated without overflow.\<close>

lemma snapshot_elapsed:
  "now_wall (jb_start j) \<noteq> zero_time \<Longrightarrow> up_ElapsedSecs (snapshotLocked now j) = seconds_of (now_sub now (jb_start j))"
  by (simp add: snapshotLocked_def Let_def)

lemma estimate_exact:
  assumes "0 < e" "e \<le> 9223372039" "0 < p" "p < 100"
  shows "quot64 (wrap64 (e * (100 - p))) p = e * (100 - p) div p"
proof -
  have "e * (100 - p) \<le> 9223372039 * 100" using assms by (intro mult_mono) auto
  moreover have "0 \<le> e * (100 - p)" using assms by simp
  ultimately have "0 \<le> e * (100 - p)" "e * (100 - p) \<le> max_int64" by (simp_all add: max_int64_def)
  moreover have "min_int64 \<le> 0" by (simp add: min_int64_def)
  ultimately show ?thesis using wrap64_id order_trans quot64_pos assms(3) by metis
qed

definition started :: "Job \<Rightarrow> bool" where
  "started j \<longleftrightarrow> now_wall (jb_start j) \<noteq> zero_time"

lemma snapshot_ok:
  assumes "job_ok j" "started j"
  shows "update_ok (snapshotLocked now j)"
proof -
  let ?e = "up_ElapsedSecs (snapshotLocked now j)" let ?p = "up_Percent (jb_state j)"
  have "?e \<le> 9223372039" using assms(2) by (simp add: snapshot_elapsed started_def elapsed_le)
  then have "0 \<le> quot64 (wrap64 (?e * (100 - ?p))) ?p" if "0 < ?p" "?p < 100" "0 < ?e"
    using estimate_exact [of ?e ?p] that by (simp add: pos_imp_zdiv_nonneg_iff)
  with assms show ?thesis by (simp add: update_ok_def job_ok_def snapshot_eta Let_def)
qed

subsection \<open>Channels\<close>

lemma chans_okD: "chans_ok chans \<Longrightarrow> lookup chans ch = Some c \<Longrightarrow> chan_ok c"
  by (auto simp: chans_ok_def dest: lookup_Some_in_set)

lemma chans_ok_new:
  assumes "chans_ok chans" "chan_ok c"
  shows "chans_ok (put (length chans) c chans)" "lookup chans (length chans) = None"
proof -
  show none: "lookup chans (length chans) = None"
    using assms(1) by (auto simp: chans_ok_def map_of_eq_None_iff)
  with assms values_put [of chans chan_ok c "length chans"] show "chans_ok (put (length chans) c chans)"
    by (auto simp: chans_ok_def keys_put length_put lessThan_Suc)
qed

lemma chans_ok_put:
  assumes "chans_ok chans" "lookup chans ch = Some d" "chan_ok c"
  shows "chans_ok (put ch c chans)"
proof -
  have "ch \<in> fst ` set chans" using assms(2) by (force dest: lookup_Some_in_set)
  with assms values_put [of chans chan_ok c ch] show ?thesis
    by (auto simp: chans_ok_def keys_put length_put insert_absorb)
qed

text \<open>What a channel holds after an update was sent: a full buffer drops it.\<close>

definition sent :: "Update \<Rightarrow> Chan \<Rightarrow> Chan" where
  "sent u c = (if length (ch_buf c) < chan_capacity then c\<lparr>ch_buf := ch_buf c @ [u]\<rparr> else c)"

lemma open_in_put: "open_in (put ch c chans) k = (if k = ch then \<not> ch_closed c else open_in chans k)"
  by (simp add: open_in_def)

lemma try_send_open:
  assumes "chans_ok chans" "open_in chans ch" "update_ok u"
  shows "\<exists>chans'. try_send u ch chans = Inr chans' \<and> chans_ok chans' \<and> (\<forall>k. open_in chans' k = open_in chans k) \<and>
    (\<forall>k. k \<noteq> ch \<longrightarrow> lookup chans' k = lookup chans k) \<and>
    (\<exists>c. lookup chans ch = Some c \<and> lookup chans' ch =
      Some (sent u c))"
proof -
  obtain c where c: "lookup chans ch = Some c" "\<not> ch_closed c"
    using assms(2) by (auto simp: open_in_def split: option.splits)
  have ok: "chan_ok c" by (rule chans_okD [OF assms(1) c(1)])
  show ?thesis
  proof (cases "length (ch_buf c) < chan_capacity")
    case True
    then have "chan_ok (c\<lparr>ch_buf := ch_buf c @ [u]\<rparr>)" using ok assms(3) by (auto simp: chan_ok_def)
    from chans_ok_put [OF assms(1) c(1) this] True c show ?thesis
      by (auto simp: try_send_def sent_def open_in_put open_in_def)
  next
    case False
    with c assms(1) show ?thesis by (auto simp: try_send_def sent_def)
  qed
qed

lemma broadcast_open:
  assumes "chans_ok chans" "\<forall>ch \<in> set chs. open_in chans ch" "update_ok u" "distinct chs"
  shows "\<exists>chans'. broadcast u chs chans = Inr chans' \<and> chans_ok chans' \<and> (\<forall>k. open_in chans' k = open_in chans k) \<and>
    (\<forall>k. k \<notin> set chs \<longrightarrow> lookup chans' k = lookup chans k) \<and>
    (\<forall>ch \<in> set chs. \<exists>c. lookup chans ch = Some c \<and> lookup chans' ch =
      Some (sent u c))"
  using assms
proof (induction chs arbitrary: chans)
  case (Cons ch chs)
  from try_send_open [of chans ch u] Cons.prems obtain chans1
    where 1: "try_send u ch chans = Inr chans1" "chans_ok chans1" "\<forall>k. open_in chans1 k = open_in chans k"
      "\<forall>k. k \<noteq> ch \<longrightarrow> lookup chans1 k = lookup chans k"
      "\<exists>c. lookup chans ch = Some c \<and> lookup chans1 ch =
        Some (sent u c)" by auto
  have "\<forall>ch \<in> set chs. open_in chans1 ch" "distinct chs" using Cons.prems 1(3) by auto
  from Cons.IH [OF 1(2) this(1) Cons.prems(3) this(2)] obtain chans2
    where 2: "broadcast u chs chans1 = Inr chans2" "chans_ok chans2" "\<forall>k. open_in chans2 k = open_in chans1 k"
      "\<forall>k. k \<notin> set chs \<longrightarrow> lookup chans2 k = lookup chans1 k"
      "\<forall>ch \<in> set chs. \<exists>c. lookup chans1 ch = Some c \<and> lookup chans2 ch =
        Some (sent u c)" by blast
  have "\<exists>c. lookup chans x = Some c \<and> lookup chans2 x =
        Some (sent u c)" if "x \<in> set (ch # chs)" for x
    using that Cons.prems(4) 1(4,5) 2(4,5) by (cases "x = ch") force+
  with 1 2 show ?case by auto
qed simp


subsection \<open>One job\<close>

text \<open>The reporting calls as data; \<open>run_report\<close> is the change each makes to the update.\<close>

datatype report =
    RpNodes string string "NodeProgress list" int int
  | RpProgress string string int int
  | RpOperation string string string int int int
  | RpOperationETA string string string int int int int
  | RpDetail string string int int
  | RpBytes string string int int
  | RpBytesDetail string string int int
  | RpTransfer string string string int int int int int int "ComponentProgress list"
  | RpSucceed string
  | RpFail string
  | RpCancel

fun run_report :: "report \<Rightarrow> Update \<Rightarrow> Update" where
  "run_report (RpNodes ph msg nodes d t) = ProgressNodes ph msg nodes d t"
| "run_report (RpProgress ph msg d t) = Progress ph msg d t"
| "run_report (RpOperation ph msg item p d t) = ProgressOperation ph msg item p d t"
| "run_report (RpOperationETA ph msg item p d t eta) = ProgressOperationETA ph msg item p d t eta"
| "run_report (RpDetail ph msg d t) = ProgressDetail ph msg d t"
| "run_report (RpBytes ph msg d t) = ProgressBytes ph msg d t"
| "run_report (RpBytesDetail ph msg d t) = ProgressBytesDetail ph msg d t"
| "run_report (RpTransfer ph msg item p d t bps stalled eta cs) = ProgressTransfer ph msg item p d t bps stalled eta cs"
| "run_report (RpSucceed cid) = Succeed cid"
| "run_report (RpFail err) = Fail err"
| "run_report RpCancel = Cancel"

fun ends_job :: "report \<Rightarrow> bool" where
  "ends_job (RpSucceed cid) = True"
| "ends_job (RpFail err) = True"
| "ends_job RpCancel = True"
| "ends_job r = False"

lemma run_report_ok:
  assumes "update_ok u" "up_ETASecs u = 0"
  shows "update_ok (run_report r u)" "up_ETASecs (run_report r u) = 0"
    "up_Done (run_report r u) = (up_Done u \<or> ends_job r)"
proof -
  show "update_ok (run_report r u)"
    using assms by (cases r) (auto simp: update_defs update_ok_def Let_def clampPercent_range)
  show "up_ETASecs (run_report r u) = 0"
    using assms by (cases r) (auto simp: update_defs Let_def)
  show "up_Done (run_report r u) = (up_Done u \<or> ends_job r)"
    by (cases r) (auto simp: update_defs Let_def)
qed

datatype job_call = JSubscribe | JUnsubscribe nat | JReceive nat | JObserve "nat option" | JReport report

fun exec_job :: "Now \<Rightarrow> job_call \<Rightarrow> Job \<Rightarrow> job_panic + Job" where
  "exec_job now JSubscribe j = Inr (fst (Subscribe now j))"
| "exec_job now (JUnsubscribe ch) j = Unsubscribe ch j"
| "exec_job now (JReceive ch) j = Inr (fst (receive ch j))"
| "exec_job now (JObserve ob) j = Inr (fst (Observe ob now j))"
| "exec_job now (JReport r) j = bind_res (apply_update (run_report r) now j) (\<lambda>(j', _). Inr j')"

text \<open>What never changes in a job, and what only grows.\<close>

definition job_identity :: "Job \<Rightarrow> string \<times> string \<times> int \<times> Now" where
  "job_identity j = (jb_ID j, jb_AppID j, jb_seq j, jb_start j)"

definition well_subscribed :: "Job \<Rightarrow> bool" where
  "well_subscribed j \<longleftrightarrow> job_ok j \<and> distinct (jb_subs j) \<and> started j"

definition advances_job :: "Job \<Rightarrow> Job \<Rightarrow> bool" where
  "advances_job j j' \<longleftrightarrow> job_identity j' = job_identity j \<and> (up_Done (jb_state j) \<longrightarrow> up_Done (jb_state j'))"

lemma started_identity: "job_identity j' = job_identity j \<Longrightarrow> started j' = started j"
  by (simp add: job_identity_def started_def)

lemma subscribed_fresh: "job_ok j \<Longrightarrow> length (jb_chans j) \<notin> set (jb_subs j)"
proof
  assume "job_ok j" "length (jb_chans j) \<in> set (jb_subs j)"
  then obtain c where "lookup (jb_chans j) (length (jb_chans j)) = Some c" "chans_ok (jb_chans j)"
    by (auto simp: job_ok_def open_in_def split: option.splits)
  then show False by (force simp: chans_ok_def dest: lookup_Some_in_set)
qed

lemma snapshot_cong: "jb_state j = jb_state k \<Longrightarrow> jb_start j = jb_start k \<Longrightarrow> snapshotLocked now j = snapshotLocked now k"
  by (simp add: snapshotLocked_def cong: if_cong)

lemma apply_update_ok:
  assumes "well_subscribed j"
  shows "\<exists>j' obs. apply_update (run_report r) now j = Inr (j', obs) \<and> well_subscribed j' \<and> advances_job j j' \<and>
    jb_subs j' = jb_subs j \<and> up_Done (jb_state j') = (up_Done (jb_state j) \<or> ends_job r) \<and>
    (\<forall>ch \<in> set (jb_subs j). \<exists>c. lookup (jb_chans j) ch = Some c \<and>
       lookup (jb_chans j') ch = Some (sent (snapshotLocked now j') c))"
proof -
  let ?j = "j\<lparr>jb_state := (run_report r (jb_state j))\<lparr>up_UpdatedAt := format_rfc3339 (now_wall now)\<rparr>\<rparr>"
  let ?u = "snapshotLocked now ?j"
  have st: "update_ok (jb_state j)" "up_ETASecs (jb_state j) = 0" "chans_ok (jb_chans j)"
      "\<forall>ch \<in> set (jb_subs j). open_in (jb_chans j) ch" "distinct (jb_subs j)" "started j"
    using assms by (auto simp: well_subscribed_def job_ok_def)
  have ok: "job_ok ?j" "started ?j"
    using st run_report_ok [OF st(1,2), of r] by (auto simp: job_ok_def update_ok_def started_def)
  have u: "update_ok ?u" by (rule snapshot_ok [OF ok])
  from broadcast_open [OF st(3,4) u st(5)] obtain chans'
    where c: "broadcast ?u (jb_subs j) (jb_chans j) = Inr chans'" "chans_ok chans'"
      "\<forall>k. open_in chans' k = open_in (jb_chans j) k"
      "\<forall>ch \<in> set (jb_subs j). \<exists>c. lookup (jb_chans j) ch = Some c \<and> lookup chans' ch = Some (sent ?u c)" by blast
  let ?j' = "?j\<lparr>jb_chans := chans'\<rparr>"
  have snap: "snapshotLocked now ?j' = ?u" by (rule snapshot_cong) simp_all
  have "well_subscribed ?j'" using ok st c by (simp add: well_subscribed_def job_ok_def started_def)
  moreover have "advances_job j ?j'"
    using run_report_ok(3) [OF st(1,2), of r] by (simp add: advances_job_def job_identity_def)
  moreover have "up_Done (jb_state ?j') = (up_Done (jb_state j) \<or> ends_job r)"
    using run_report_ok(3) [OF st(1,2), of r] by simp
  moreover have "\<exists>obs. apply_update (run_report r) now j = Inr (?j', obs)"
    using c(1) by (simp add: apply_update_def Let_def)
  ultimately show ?thesis using c(4) snap by (intro exI [of _ ?j']) auto
qed

lemma exec_job_ok:
  assumes "well_subscribed j"
  shows "\<exists>j'. exec_job now c j = Inr j' \<and> well_subscribed j' \<and> advances_job j j'"
proof -
  have st: "update_ok (jb_state j)" "up_ETASecs (jb_state j) = 0" "chans_ok (jb_chans j)"
      "\<forall>ch \<in> set (jb_subs j). open_in (jb_chans j) ch" "distinct (jb_subs j)" "started j" "job_ok j"
    using assms by (auto simp: well_subscribed_def job_ok_def)
  show ?thesis
  proof (cases c)
    case JSubscribe
    let ?c = "\<lparr>ch_buf = [snapshotLocked now j], ch_closed = False\<rparr>"
    have "chan_ok ?c" using snapshot_ok [OF st(7,6)] by (simp add: chan_ok_def chan_capacity_def)
    from chans_ok_new [OF st(3) this] st subscribed_fresh [OF st(7)] JSubscribe show ?thesis
      by (auto simp: Subscribe_def Let_def well_subscribed_def job_ok_def started_def open_in_put
          advances_job_def job_identity_def)
  next
    case (JUnsubscribe ch)
    show ?thesis
    proof (cases "ch \<in> set (jb_subs j)")
      case True
      then obtain d where d: "lookup (jb_chans j) ch = Some d" "\<not> ch_closed d"
        using st(4) by (auto simp: open_in_def split: option.splits)
      have "chan_ok (d\<lparr>ch_closed := True\<rparr>)" using chans_okD [OF st(3) d(1)] by (simp add: chan_ok_def)
      from chans_ok_put [OF st(3) d(1) this] True d st JUnsubscribe show ?thesis
        by (auto simp: Unsubscribe_def close_chan_def well_subscribed_def job_ok_def started_def open_in_put
            advances_job_def job_identity_def)
    next
      case False
      with JUnsubscribe assms show ?thesis by (simp add: Unsubscribe_def advances_job_def)
    qed
  next
    case (JReceive ch)
    show ?thesis
    proof (cases "\<exists>d u us. lookup (jb_chans j) ch = Some d \<and> ch_buf d = u # us")
      case True
      then obtain d u us where d: "lookup (jb_chans j) ch = Some d" "ch_buf d = u # us" by blast
      have "chan_ok (d\<lparr>ch_buf := us\<rparr>)" using chans_okD [OF st(3) d(1)] d by (simp add: chan_ok_def)
      from chans_ok_put [OF st(3) d(1) this] d st JReceive show ?thesis
        by (auto simp: receive_def well_subscribed_def job_ok_def started_def open_in_put open_in_def
            advances_job_def job_identity_def)
    next
      case False
      then have "fst (receive ch j) = j" by (auto simp: receive_def split: option.split list.split)
      with JReceive assms show ?thesis by (simp add: advances_job_def)
    qed
  next
    case (JObserve ob)
    with assms st show ?thesis
      by (auto simp: Observe_def Let_def well_subscribed_def job_ok_def started_def advances_job_def job_identity_def)
  next
    case (JReport r)
    with apply_update_ok [OF assms, of r now] show ?thesis by auto
  qed
qed


subsection \<open>The manager as a transition system\<close>

datatype manager_call = MCreate string | MCreateUnique string string | MList string | MJob int job_call

fun exec_manager :: "Now \<Rightarrow> manager_call \<Rightarrow> Manager \<Rightarrow> job_panic + Manager" where
  "exec_manager now (MCreate app) m = Inr (fst (job_Create now app m))"
| "exec_manager now (MCreateUnique app prefix) m = Inr (fst (CreateUnique now app prefix m))"
| "exec_manager now (MList prefix) m = Inr (fst (List_jobs now prefix m))"
| "exec_manager now (MJob p c) m =
     (case lookup (mg_heap m) p of None \<Rightarrow> Inr m
      | Some j \<Rightarrow> bind_res (exec_job now c j) (\<lambda>j'. Inr (m\<lparr>mg_heap := put p j' (mg_heap m)\<rparr>)))"

text \<open>
  The environment: the wall clock is past year 1, and fewer than \<open>2 ^ 63 - 1\<close> jobs are created.
\<close>

definition call_possible :: "Manager \<Rightarrow> Now \<Rightarrow> bool" where
  "call_possible m now \<longleftrightarrow> now_wall now \<noteq> zero_time \<and> mg_seq m < max_int64"

inductive manager_step :: "Manager \<Rightarrow> Now \<times> manager_call \<Rightarrow> Manager \<Rightarrow> bool" where
  "call_possible m now \<Longrightarrow> exec_manager now c m = Inr m' \<Longrightarrow> manager_step m (now, c) m'"

inductive_simps manager_step_iff: "manager_step m (now, c) m'"

definition manager_init :: "Manager \<Rightarrow> bool" where
  "manager_init m \<longleftrightarrow> m = NewManager"

definition heap_entry_ok :: "int \<Rightarrow> int \<times> Job \<Rightarrow> bool" where
  "heap_entry_ok n e \<longleftrightarrow> 1 \<le> fst e \<and> fst e \<le> n \<and> jb_seq (snd e) = fst e \<and> jb_ID (snd e) = job_id (fst e) \<and> well_subscribed (snd e)"

definition manager_inv :: "Manager \<Rightarrow> bool" where
  "manager_inv m \<longleftrightarrow> 0 \<le> mg_seq m \<and> mg_seq m \<le> max_int64 \<and> mg_maxTerminal m = 200 \<and>
     wf_map (mg_heap m) \<and> (\<forall>e \<in> set (mg_heap m). heap_entry_ok (mg_seq m) e) \<and>
     wf_map (mg_jobs m) \<and> (\<forall>(i, p) \<in> set (mg_jobs m). i = job_id p \<and> lookup (mg_heap m) p \<noteq> None)"

text \<open>A job is registered when the map still points to it.\<close>

definition is_registered :: "Manager \<Rightarrow> int \<Rightarrow> bool" where
  "is_registered m p \<longleftrightarrow> lookup (mg_jobs m) (job_id p) = Some p"

lemma job_id_inj:
  assumes "1 \<le> p" "1 \<le> q" shows "job_id p = job_id q \<longleftrightarrow> p = q"
proof
  assume "job_id p = job_id q"
  then have "itoa_nat (nat p) = itoa_nat (nat q)" using assms by (simp add: job_id_def itoa_def)
  then have "nat p = nat q" by (metis nat_of_digits_itoa_nat)
  then show "p = q" using assms by simp
qed simp

lemma heap_lookup:
  assumes "manager_inv m" "lookup (mg_heap m) p = Some j"
  shows "1 \<le> p" "p \<le> mg_seq m" "jb_seq j = p" "jb_ID j = job_id p" "well_subscribed j"
  using assms lookup_Some_in_set [OF assms(2)] by (auto simp: manager_inv_def heap_entry_ok_def)

lemma set_registered:
  assumes "manager_inv m"
  shows "set (registered m) = {(p, j). is_registered m p \<and> lookup (mg_heap m) p = Some j}"
proof -
  have "(p, j) \<in> set (registered m) \<longleftrightarrow> (\<exists>i. (i, p) \<in> set (mg_jobs m) \<and> lookup (mg_heap m) p = Some j)" for p j
    by (force simp: registered_def split: option.splits)
  moreover have "(i, p) \<in> set (mg_jobs m) \<longleftrightarrow> i = job_id p \<and> is_registered m p" for i p
    using assms in_set_lookup [of "mg_jobs m" i p] by (auto simp: manager_inv_def is_registered_def)
  ultimately show ?thesis by auto
qed

lemma distinct_registered:
  assumes "manager_inv m" shows "distinct (map fst (registered m))"
proof -
  have "distinct (map fst (concat (map (\<lambda>(_, p). case lookup h p of None \<Rightarrow> [] | Some j \<Rightarrow> [(p, j)]) xs)))"
    if "distinct (map snd xs)" for h and xs :: "(string \<times> int) list"
    using that by (induction xs) (force split: option.splits)+
  moreover have "distinct (map snd (mg_jobs m))"
  proof -
    have "distinct (map fst (mg_jobs m))" "\<forall>(i, p) \<in> set (mg_jobs m). i = job_id p"
      using assms by (auto simp: manager_inv_def wf_map_def)
    moreover from this have "map fst (mg_jobs m) = map job_id (map snd (mg_jobs m))" by auto
    ultimately have "distinct (map job_id (map snd (mg_jobs m)))" by simp
    then show ?thesis by (simp only: distinct_map [of job_id])
  qed
  ultimately show ?thesis by (simp add: registered_def)
qed

lemma new_job_ok: "now_wall now \<noteq> zero_time \<Longrightarrow> well_subscribed (new_job n now app)"
  by (simp add: well_subscribed_def job_ok_def new_job_def update_ok_def zero_Update_def chans_ok_def started_def)

lemma create_ok:
  assumes "manager_inv m" "call_possible m now"
  shows "createLocked now app m = (m\<lparr>mg_seq := mg_seq m + 1,
      mg_heap := put (mg_seq m + 1) (new_job (mg_seq m + 1) now app) (mg_heap m),
      mg_jobs := put (job_id (mg_seq m + 1)) (mg_seq m + 1) (mg_jobs m)\<rparr>, mg_seq m + 1)"
    "manager_inv (fst (createLocked now app m))" "lookup (mg_heap m) (mg_seq m + 1) = None"
proof -
  let ?n = "mg_seq m + 1"
  have n: "wrap64 ?n = ?n" using assms by (intro wrap64_id) (auto simp: manager_inv_def call_possible_def min_int64_def)
  show eq: "createLocked now app m = (m\<lparr>mg_seq := ?n, mg_heap := put ?n (new_job ?n now app) (mg_heap m),
      mg_jobs := put (job_id ?n) ?n (mg_jobs m)\<rparr>, ?n)"
    by (simp add: createLocked_def Let_def n new_job_def)
  show "lookup (mg_heap m) ?n = None"
    using heap_lookup(2) [OF assms(1), of ?n] by (cases "lookup (mg_heap m) ?n") auto
  have entry: "heap_entry_ok ?n (?n, new_job ?n now app)"
    using assms new_job_ok by (simp add: heap_entry_ok_def manager_inv_def call_possible_def new_job_def)
  have old: "heap_entry_ok ?n e" if "e \<in> set (mg_heap m)" for e
    using assms(1) that by (auto simp: manager_inv_def heap_entry_ok_def)
  show "manager_inv (fst (createLocked now app m))"
    unfolding eq using assms entry old
    by (auto simp: manager_inv_def call_possible_def set_put)
qed


lemma put_heap_inv:
  assumes "manager_inv m" "lookup (mg_heap m) p = Some j" "well_subscribed j'" "job_identity j' = job_identity j"
  shows "manager_inv (m\<lparr>mg_heap := put p j' (mg_heap m)\<rparr>)"
proof -
  have "heap_entry_ok (mg_seq m) (p, j')"
    using heap_lookup [OF assms(1,2)] assms(3,4) by (simp add: heap_entry_ok_def job_identity_def)
  with assms(1,2) show ?thesis by (auto simp: manager_inv_def set_put)
qed

subsection \<open>Pruning\<close>

definition terminal_jobs :: "Now \<Rightarrow> Manager \<Rightarrow> Job list" where
  "terminal_jobs now m = map snd (filter (\<lambda>(_, j). up_Done (job_Snapshot now j)) (registered m))"

definition pruned_jobs :: "Now \<Rightarrow> Manager \<Rightarrow> Job list" where
  "pruned_jobs now m = (if length (terminal_jobs now m) \<le> 200 then []
     else drop 200 (sort_key (\<lambda>j. - jb_seq j) (terminal_jobs now m)))"

lemma foldl_remove:
  "foldl (\<lambda>js j. remove (jb_ID j) js) m js = filter (\<lambda>(i, p). i \<notin> jb_ID ` set js) m"
proof (induction js arbitrary: m)
  case (Cons j js)
  then show ?case by (auto simp: AList.delete_eq intro!: filter_cong)
qed (simp add: case_prod_unfold)

lemma prune_eq:
  assumes "manager_inv m"
  shows "pruneTerminalLocked now m =
    m\<lparr>mg_jobs := filter (\<lambda>(i, p). i \<notin> jb_ID ` set (pruned_jobs now m)) (mg_jobs m)\<rparr>"
proof -
  have "mg_maxTerminal m = 200" using assms by (simp add: manager_inv_def)
  then show ?thesis
    unfolding pruneTerminalLocked_def Let_def terminal_jobs_def [symmetric]
    by (simp add: pruned_jobs_def foldl_remove case_prod_unfold)
qed

lemma prune_inv: "manager_inv m \<Longrightarrow> manager_inv (pruneTerminalLocked now m)"
  by (auto simp: prune_eq manager_inv_def)

lemma set_terminal:
  "manager_inv m \<Longrightarrow> set (terminal_jobs now m) =
    {j. \<exists>p. is_registered m p \<and> lookup (mg_heap m) p = Some j \<and> up_Done (jb_state j)}"
  by (auto simp: terminal_jobs_def set_registered job_Snapshot_def image_iff)

lemma pruned_terminal: "j \<in> set (pruned_jobs now m) \<Longrightarrow> j \<in> set (terminal_jobs now m)"
  using set_drop_subset by (fastforce simp: pruned_jobs_def split: if_splits)

lemma prune_registered:
  assumes "manager_inv m" "lookup (mg_heap m) p = Some j"
  shows "is_registered (pruneTerminalLocked now m) p \<longleftrightarrow> is_registered m p \<and> j \<notin> set (pruned_jobs now m)"
proof -
  have "job_id p \<in> jb_ID ` set (pruned_jobs now m) \<longleftrightarrow> j \<in> set (pruned_jobs now m)" if "is_registered m p"
  proof
    assume "job_id p \<in> jb_ID ` set (pruned_jobs now m)"
    then obtain k where k: "k \<in> set (pruned_jobs now m)" "jb_ID k = job_id p" by force
    from pruned_terminal [OF k(1)] obtain q where q: "lookup (mg_heap m) q = Some k"
      using set_terminal [OF assms(1)] by auto
    with k heap_lookup [OF assms(1) q] heap_lookup [OF assms] have "p = q" by (simp add: job_id_inj)
    with q assms(2) k show "j \<in> set (pruned_jobs now m)" by simp
  next
    assume "j \<in> set (pruned_jobs now m)"
    then show "job_id p \<in> jb_ID ` set (pruned_jobs now m)" using heap_lookup(4) [OF assms] by force
  qed
  moreover have "wf_map (mg_jobs m)" using assms(1) by (simp add: manager_inv_def)
  ultimately show ?thesis
    by (auto simp: prune_eq [OF assms(1)] is_registered_def lookup_filter split: option.splits)
qed

subsection \<open>The invariant, and what steps never undo\<close>

lemma exec_manager_ok:
  assumes "manager_inv m" "call_possible m now"
  shows "\<exists>m'. exec_manager now c m = Inr m' \<and> manager_inv m'"
proof (cases c)
  case (MCreate app)
  with create_ok(2) [OF assms] show ?thesis by (simp add: job_Create_def)
next
  case (MCreateUnique app prefix)
  have "manager_inv (fst (CreateUnique now app prefix m))"
    using assms create_ok(2) [OF assms, of app] by (auto simp: CreateUnique_def Let_def split: option.splits prod.splits)
  with MCreateUnique show ?thesis by simp
next
  case (MList prefix)
  with prune_inv [OF assms(1)] show ?thesis by (simp add: List_jobs_def Let_def)
next
  case (MJob p c)
  show ?thesis
  proof (cases "lookup (mg_heap m) p")
    case (Some j)
    with exec_job_ok [OF heap_lookup(5) [OF assms(1) Some], of now c] put_heap_inv [OF assms(1) Some] MJob
    show ?thesis by (auto simp: advances_job_def)
  qed (use assms MJob in simp)
qed

interpretation manager: invariant_system manager_init manager_step manager_inv
proof
  fix m assume "manager_init m"
  then show "manager_inv m"
    by (simp add: manager_init_def NewManager_def manager_inv_def max_int64_def)
next
  fix m l m' assume "manager_inv m" "manager_step m l m'"
  then obtain now c where "call_possible m now" "exec_manager now c m = Inr m'" by (auto elim: manager_step.cases)
  with exec_manager_ok [OF \<open>manager_inv m\<close>, of now c] show "manager_inv m'" by auto
qed

definition job_kept :: "int \<Rightarrow> Manager \<Rightarrow> Manager \<Rightarrow> bool" where
  "job_kept p m m' \<longleftrightarrow> (\<forall>j. lookup (mg_heap m) p = Some j \<longrightarrow>
     (\<exists>j'. lookup (mg_heap m') p = Some j' \<and> advances_job j j' \<and>
        (is_registered m p \<and> \<not> up_Done (jb_state j') \<longrightarrow> is_registered m' p)))"

lemma job_kept_trans: "job_kept p m n \<Longrightarrow> job_kept p n k \<Longrightarrow> job_kept p m k"
  by (fastforce simp: job_kept_def advances_job_def)

lemma job_kept_same: "mg_heap m' = mg_heap m \<Longrightarrow> (is_registered m p \<Longrightarrow> is_registered m' p) \<Longrightarrow> job_kept p m m'"
  by (auto simp: job_kept_def advances_job_def)

lemma job_kept_create:
  assumes "manager_inv m" "call_possible m now"
  shows "job_kept p m (fst (createLocked now app m))"
proof -
  note new = create_ok [OF assms]
  have "is_registered (fst (createLocked now app m)) p" if "is_registered m p" "lookup (mg_heap m) p = Some j" for j
    using that new(1,3) heap_lookup(1,2) [OF assms(1) that(2)] assms(1)
    by (auto simp: is_registered_def manager_inv_def job_id_inj)
  with new show ?thesis by (auto simp: job_kept_def advances_job_def)
qed

lemma job_kept_prune:
  assumes "manager_inv m" shows "job_kept p m (pruneTerminalLocked now m)"
proof -
  have "\<not> up_Done (jb_state j) \<Longrightarrow> j \<notin> set (pruned_jobs now m)" for j
    using pruned_terminal set_terminal [OF assms] by blast
  then show ?thesis using prune_registered [OF assms] by (auto simp: job_kept_def advances_job_def prune_eq [OF assms])
qed

lemma job_kept_step:
  assumes "manager_inv m" "manager_step m l m'"
  shows "job_kept p m m'"
proof -
  obtain now c where c: "exec_manager now c m = Inr m'" "call_possible m now"
    using assms(2) by (auto elim: manager_step.cases)
  show ?thesis
  proof (cases c)
    case (MCreate app)
    with c job_kept_create [OF assms(1) c(2)] show ?thesis by (auto simp: job_Create_def)
  next
    case (MCreateUnique app prefix)
    with c job_kept_create [OF assms(1) c(2), of p app] job_kept_same show ?thesis
      by (auto simp: CreateUnique_def Let_def split: option.splits prod.splits)
  next
    case (MList prefix)
    with c job_kept_prune [OF assms(1)] show ?thesis by (auto simp: List_jobs_def Let_def)
  next
    case (MJob q jc)
    show ?thesis
    proof (cases "lookup (mg_heap m) q")
      case None
      with MJob c job_kept_same show ?thesis by auto
    next
      case (Some j)
      with exec_job_ok [OF heap_lookup(5) [OF assms(1) Some], of now jc] MJob c show ?thesis
        by (auto simp: job_kept_def is_registered_def advances_job_def)
    qed
  qed
qed

interpretation one_job: monotone_system manager_init manager_step manager_inv "job_kept p" for p
proof
  fix m :: Manager
  show "job_kept p m m" by (rule job_kept_same) auto
next
  fix m n k assume "job_kept p m n" "job_kept p n k"
  then show "job_kept p m k" by (rule job_kept_trans)
next
  fix m l m' assume "manager_inv m" "manager_step m l m'"
  then show "job_kept p m m'" by (rule job_kept_step)
qed


subsection \<open>Properties\<close>

lemma start_reach: "reach manager_init manager_step NewManager"
  by (rule reach_init) (simp add: manager_init_def)

text \<open>C27: No schedule of calls makes a job panic: no update is sent on a closed channel and none is closed
  twice, so every call returns; and at any time every job of every reachable manager shows a percentage
  from 0 to 100 and a remaining time that is not negative, is 0 once the job is over, and otherwise is
  extrapolated from the elapsed time without overflow, while no subscriber holds more than 16 updates.\<close>

theorem jobs_never_panic:
  assumes "reach manager_init manager_step m" and "call_possible m now"
  shows "(\<exists>m'. exec_manager now c m = Inr m') \<and>
    (\<forall>p j. lookup (mg_heap m) p = Some j \<longrightarrow>
       (let u = job_Snapshot now j
        in 0 \<le> up_Percent u \<and> up_Percent u \<le> 100 \<and> 0 \<le> up_ETASecs u \<and> (up_Done u \<longrightarrow> up_ETASecs u = 0) \<and>
           (\<not> up_Done u \<and> up_etaOverride u = 0 \<and> 0 < up_Percent u \<and> up_Percent u < 100 \<and> 0 < up_ElapsedSecs u \<longrightarrow>
              up_ETASecs u = up_ElapsedSecs u * (100 - up_Percent u) div up_Percent u) \<and>
           (\<forall>ch k. lookup (jb_chans j) ch = Some k \<longrightarrow> length (ch_buf k) \<le> 16)))"
proof -
  have inv: "manager_inv m" by (rule manager.reach_inv [OF assms(1)])
  have "let u = job_Snapshot now j
        in 0 \<le> up_Percent u \<and> up_Percent u \<le> 100 \<and> 0 \<le> up_ETASecs u \<and> (up_Done u \<longrightarrow> up_ETASecs u = 0) \<and>
           (\<not> up_Done u \<and> up_etaOverride u = 0 \<and> 0 < up_Percent u \<and> up_Percent u < 100 \<and> 0 < up_ElapsedSecs u \<longrightarrow>
              up_ETASecs u = up_ElapsedSecs u * (100 - up_Percent u) div up_Percent u) \<and>
           (\<forall>ch k. lookup (jb_chans j) ch = Some k \<longrightarrow> length (ch_buf k) \<le> 16)"
    if "lookup (mg_heap m) p = Some j" for p j
  proof -
    have j: "job_ok j" "started j" using heap_lookup(5) [OF inv that] by (simp_all add: well_subscribed_def)
    have "up_ElapsedSecs (snapshotLocked now j) \<le> 9223372039"
      using j(2) by (simp add: snapshot_elapsed started_def elapsed_le)
    then have "\<not> up_Done (jb_state j) \<and> up_etaOverride (jb_state j) = 0 \<and> 0 < up_Percent (jb_state j) \<and>
        up_Percent (jb_state j) < 100 \<and> 0 < up_ElapsedSecs (snapshotLocked now j) \<longrightarrow>
      up_ETASecs (snapshotLocked now j) =
        up_ElapsedSecs (snapshotLocked now j) * (100 - up_Percent (jb_state j)) div up_Percent (jb_state j)"
      using snapshot_eta [OF j(1), of now] estimate_exact by (simp add: Let_def)
    moreover have "length (ch_buf k) \<le> 16" if "lookup (jb_chans j) ch = Some k" for ch k
      using j(1) chans_okD [OF _ that] by (simp add: job_ok_def chan_ok_def chan_capacity_def)
    ultimately show ?thesis
      using snapshot_ok [OF j, of now] by (simp add: job_Snapshot_def Let_def update_ok_def)
  qed
  with exec_manager_ok [OF inv assms(2), of c] show ?thesis by auto
qed

definition noon :: Now where
  "noon = \<lparr>now_wall = 1000000000, now_mono = 0\<rparr>"

lemma noon_possible: "call_possible NewManager noon"
  by (simp add: call_possible_def noon_def NewManager_def zero_time_def max_int64_def)

theorem jobs_never_panic_witness:
  "\<exists>m'. exec_manager noon (MJob 1 (JReport RpCancel)) NewManager = Inr m'"
  using jobs_never_panic [OF start_reach noon_possible, of "MJob 1 (JReport RpCancel)"] by blast

text \<open>C28: A job is never lost and never comes back to life: whatever calls follow, its record keeps its
  identifier, application, number and start, a job that is done stays done, and an active job stays
  registered with its manager.\<close>

theorem job_evolution:
  assumes "reach manager_init manager_step m" and "steps manager_step m cs m'"
    and "lookup (mg_heap m) p = Some j"
  shows "\<exists>j'. lookup (mg_heap m') p = Some j' \<and>
    jb_ID j' = jb_ID j \<and> jb_AppID j' = jb_AppID j \<and> jb_seq j' = jb_seq j \<and> jb_start j' = jb_start j \<and>
    (up_Done (jb_state j) \<longrightarrow> up_Done (jb_state j')) \<and>
    (job_Get (jb_ID j) m = Some p \<and> \<not> up_Done (jb_state j') \<longrightarrow> job_Get (jb_ID j) m' = Some p)"
proof -
  have inv: "manager_inv m" by (rule manager.reach_inv [OF assms(1)])
  have "job_kept p m m'" by (rule one_job.steps_rel [OF assms(2) inv])
  with assms(3) heap_lookup(4) [OF inv assms(3)] show ?thesis
    by (auto simp: job_kept_def advances_job_def job_identity_def job_Get_def is_registered_def)
qed

lemma first_job:
  "createLocked noon app NewManager =
     (NewManager\<lparr>mg_seq := 1, mg_heap := [(1, new_job 1 noon app)], mg_jobs := [(job_id 1, 1)]\<rparr>, 1)"
  using create_ok(1) [of NewManager noon app] manager.reach_inv [OF start_reach] noon_possible
  by (simp add: NewManager_def)

lemma first_job_step: "manager_step NewManager (noon, MCreate app) (fst (createLocked noon app NewManager))"
  by (rule manager_step.intros [OF noon_possible]) (simp add: job_Create_def)

theorem job_evolution_witness:
  "\<exists>j'. lookup (mg_heap (fst (createLocked noon ''app'' NewManager))) 1 = Some j' \<and> jb_AppID j' = ''app''"
  using job_evolution [OF reach_step [OF start_reach first_job_step] steps_Nil, of "''app''" 1 "new_job 1 noon ''app''"]
  by (simp add: first_job new_job_def)

text \<open>\<open>CreateUnique\<close> admits one active job per prefix: it returns an active registered job with the
  prefix when there is one, and otherwise registers a new pending job under a fresh number; a second call
  for the same prefix then returns the same job and changes nothing, whatever order the map is read in.\<close>

theorem CreateUnique_exclusive:
  assumes "reach manager_init manager_step m" and "call_possible m now" and "has_prefix app prefix"
    and "CreateUnique now app prefix m = (m', p, fresh)"
  shows "(\<exists>j. lookup (mg_heap m') p = Some j \<and> job_Get (jb_ID j) m' = Some p \<and> has_prefix (jb_AppID j) prefix \<and>
            \<not> up_Done (jb_state j)) \<and>
    (if fresh then lookup (mg_heap m) p = None \<and>
       (\<forall>q j. lookup (mg_heap m) q = Some j \<and> job_Get (jb_ID j) m = Some q \<and> has_prefix (jb_AppID j) prefix \<longrightarrow>
          up_Done (jb_state j))
     else m' = m) \<and>
    (fresh \<longrightarrow> (\<forall>now' app'. CreateUnique now' app' prefix m' = (m', p, False)))"
proof -
  have inv: "manager_inv m" by (rule manager.reach_inv [OF assms(1)])
  have active: "active_match t prefix j \<longleftrightarrow> has_prefix (jb_AppID j) prefix \<and> \<not> up_Done (jb_state j)" for t j
    by (simp add: active_match_def job_Snapshot_def)
  show ?thesis
  proof (cases "find (\<lambda>(_, j). active_match now prefix j) (registered m)")
    case (Some e)
    then obtain q j where e: "e = (q, j)" by (cases e)
    from find_Some_iff [THEN iffD1, OF Some] have "e \<in> set (registered m)" "active_match now prefix j"
      using e by (auto simp: in_set_conv_nth)
    with e inv assms(4) Some active heap_lookup(4) [OF inv] show ?thesis
      by (auto simp: CreateUnique_def set_registered job_Get_def is_registered_def)
  next
    case None
    note new = create_ok [OF inv assms(2)]
    have m': "m' = fst (createLocked now app m)" "p = mg_seq m + 1" "fresh"
      using assms(4) None new(1) by (auto simp: CreateUnique_def)
    then have inv': "manager_inv m'" using new(2) by simp
    let ?j = "new_job p now app"
    have heap: "mg_heap m' = put p ?j (mg_heap m)" "mg_jobs m' = put (job_id p) p (mg_jobs m)" "jb_ID ?j = job_id p"
      using m' new(1) by (simp_all add: new_job_def)
    have act: "active_match t prefix ?j" for t using assms(3) by (simp add: active new_job_def zero_Update_def)
    have old: "up_Done (jb_state j)" if "is_registered m q" "lookup (mg_heap m) q = Some j" "has_prefix (jb_AppID j) prefix" for q j
      using None that inv active by (fastforce simp: find_None_iff set_registered)
    have only: "e = (p, ?j)" if "e \<in> set (registered m')" "active_match t prefix (snd e)" for e t
    proof (cases "fst e = p")
      case True
      with that inv' heap show ?thesis by (auto simp: set_registered)
    next
      case False
      with that inv' heap have e: "lookup (mg_heap m) (fst e) = Some (snd e)" "is_registered m' (fst e)"
        by (auto simp: set_registered split: if_splits)
      with False heap heap_lookup(1) [OF inv e(1)] m'(2) inv have "is_registered m (fst e)"
        by (auto simp: is_registered_def manager_inv_def job_id_inj)
      with old [OF this e(1)] that(2) show ?thesis by (simp add: active)
    qed
    have reg: "(p, ?j) \<in> set (registered m')" using inv' heap by (simp add: set_registered is_registered_def)
    have again: "CreateUnique now' app' prefix m' = (m', p, False)" for now' app'
    proof -
      have "find (\<lambda>(_, j). active_match now' prefix j) (registered m') \<noteq> None"
        using reg act by (auto simp: find_None_iff)
      then obtain e where e: "find (\<lambda>(_, j). active_match now' prefix j) (registered m') = Some e" by blast
      then have "e \<in> set (registered m')" "active_match now' prefix (snd e)"
        by (auto simp: find_Some_iff case_prod_unfold)
      from only [OF this] e show ?thesis by (simp add: CreateUnique_def)
    qed
    from again m'(3) old heap act [of now] new(3) m'(2) heap_lookup(4) [OF inv] show ?thesis
      by (auto simp: active job_Get_def is_registered_def)
  qed
qed

theorem CreateUnique_exclusive_witness:
  "CreateUnique noon ''update:2'' ''update:'' (fst (CreateUnique noon ''update:1'' ''update:'' NewManager)) =
     (fst (CreateUnique noon ''update:1'' ''update:'' NewManager), 1, False)"
proof -
  have "CreateUnique noon ''update:1'' ''update:'' NewManager = (fst (createLocked noon ''update:1'' NewManager), 1, True)"
  proof -
    have "registered NewManager = []" by (simp add: registered_def NewManager_def)
    then show ?thesis by (simp add: CreateUnique_def first_job)
  qed
  from CreateUnique_exclusive [OF start_reach noon_possible _ this] this show ?thesis by simp
qed


text \<open>The registered jobs are listed by age; only old finished jobs go.\<close>

lemma seq_of_registered:
  assumes "manager_inv m" "is_registered m p" "lookup (mg_heap m) p = Some j"
  shows "seq_of m (jb_ID j) = p"
  using assms heap_lookup [OF assms(1,3)] by (simp add: seq_of_def is_registered_def)

lemma pruned_older:
  assumes "manager_inv m" "j \<in> set (pruned_jobs now m)" "k \<in> set (terminal_jobs now m)" "k \<notin> set (pruned_jobs now m)"
  shows "jb_seq j < jb_seq k"
proof -
  let ?ts = "sort_key (\<lambda>j. - jb_seq j) (terminal_jobs now m)"
  have drop: "pruned_jobs now m = drop 200 ?ts" using assms(2) by (auto simp: pruned_jobs_def split: if_splits)
  have "k \<in> set (take 200 ?ts)"
    using assms(3,4) drop by (metis append_take_drop_id set_sort Un_iff set_append)
  moreover have "sorted (map (\<lambda>j. - jb_seq j) (take 200 ?ts @ drop 200 ?ts))" by simp
  ultimately have "- jb_seq k \<le> - jb_seq j"
    using assms(2) drop unfolding map_append sorted_append by auto
  moreover have "jb_seq j \<noteq> jb_seq k"
  proof
    assume eq: "jb_seq j = jb_seq k"
    from pruned_terminal [OF assms(2)] assms(3) obtain p q
      where "lookup (mg_heap m) p = Some j" "lookup (mg_heap m) q = Some k"
      using set_terminal [OF assms(1)] by auto
    with eq heap_lookup(3) [OF assms(1)] have "j = k" by force
    with assms(2,4) show False by simp
  qed
  ultimately show ?thesis by simp
qed

lemma distinct_terminal:
  assumes "manager_inv m" shows "distinct (terminal_jobs now m)"
proof -
  have "inj_on snd (set (registered m))"
    by (rule inj_onI) (auto simp: set_registered [OF assms], metis heap_lookup(3) [OF assms])
  then have "distinct (map snd (registered m))"
    using distinct_registered [OF assms] by (simp add: distinct_map)
  then show ?thesis unfolding terminal_jobs_def by (rule distinct_map_filter)
qed

lemma terminal_after_prune:
  assumes "manager_inv m"
  shows "set (terminal_jobs now (pruneTerminalLocked now m)) = set (terminal_jobs now m) - set (pruned_jobs now m)"
    "length (terminal_jobs now (pruneTerminalLocked now m)) \<le> 200"
proof -
  have heap: "mg_heap (pruneTerminalLocked now m) = mg_heap m" by (simp add: prune_eq [OF assms])
  show kept: "set (terminal_jobs now (pruneTerminalLocked now m)) = set (terminal_jobs now m) - set (pruned_jobs now m)"
    unfolding set_terminal [OF assms] set_terminal [OF prune_inv [OF assms]] heap
    using prune_registered [OF assms] by blast
  let ?ts = "sort_key (\<lambda>j. - jb_seq j) (terminal_jobs now m)"
  show "length (terminal_jobs now (pruneTerminalLocked now m)) \<le> 200"
  proof (cases "length (terminal_jobs now m) \<le> 200")
    case True
    then have "pruneTerminalLocked now m = m"
      unfolding pruneTerminalLocked_def Let_def terminal_jobs_def [symmetric] using assms by (simp add: manager_inv_def)
    with True show ?thesis by simp
  next
    case False
    then have "set (terminal_jobs now (pruneTerminalLocked now m)) \<subseteq> set (take 200 ?ts)"
      unfolding kept pruned_jobs_def by (auto dest: in_set_takeD) (metis append_take_drop_id set_sort Un_iff set_append)
    then have "card (set (terminal_jobs now (pruneTerminalLocked now m))) \<le> card (set (take 200 ?ts))"
      by (rule card_mono [rotated]) simp
    also have "\<dots> \<le> 200" by (rule order_trans [OF card_length]) simp
    finally show ?thesis by (simp add: distinct_card [OF distinct_terminal [OF prune_inv [OF assms]]])
  qed
qed

text \<open>\<open>List\<close> answers with every registered job of the prefix that is still active, in the order of
  creation; of the finished jobs it keeps at most 200, and each one it drops is older than all it keeps.\<close>

theorem List_jobs_complete:
  assumes "reach manager_init manager_step m" and "List_jobs now prefix m = (m', out)"
  shows "sorted (map (\<lambda>s. seq_of m' (sn_ID s)) out) \<and>
    (\<forall>p j. lookup (mg_heap m) p = Some j \<and> job_Get (jb_ID j) m = Some p \<and> has_prefix (jb_AppID j) prefix \<and>
       \<not> up_Done (jb_state j) \<longrightarrow> snapshot_of now j \<in> set out) \<and>
    length (terminal_jobs now m') \<le> 200 \<and>
    (\<forall>j k. j \<in> set (terminal_jobs now m) \<and> j \<notin> set (terminal_jobs now m') \<and> k \<in> set (terminal_jobs now m') \<longrightarrow>
       jb_seq j < jb_seq k)"
proof -
  have inv: "manager_inv m" by (rule manager.reach_inv [OF assms(1)])
  have m': "m' = pruneTerminalLocked now m" using assms(2) by (simp add: List_jobs_def Let_def)
  have out: "out = sort_key (\<lambda>s. seq_of m' (sn_ID s)) (map (snapshot_of now \<circ> snd)
      (filter (\<lambda>(_, j). \<not> (prefix \<noteq> '''' \<and> \<not> has_prefix (jb_AppID j) prefix)) (registered m')))"
    using assms(2) m' by (simp add: List_jobs_def Let_def)
  have "snapshot_of now j \<in> set out"
    if j: "lookup (mg_heap m) p = Some j" "job_Get (jb_ID j) m = Some p" "has_prefix (jb_AppID j) prefix" "\<not> up_Done (jb_state j)" for p j
  proof -
    have "is_registered m p" using j heap_lookup(4) [OF inv j(1)] by (simp add: job_Get_def is_registered_def)
    moreover have "j \<notin> set (pruned_jobs now m)" using j(4) pruned_terminal set_terminal [OF inv] by blast
    ultimately have "(p, j) \<in> set (registered m')"
      using prune_registered [OF inv j(1)] prune_inv [OF inv] j(1) m' by (simp add: set_registered prune_eq [OF inv])
    with j(3) show ?thesis unfolding out by (force simp: image_iff)
  qed
  moreover have "jb_seq j < jb_seq k"
    if "j \<in> set (terminal_jobs now m)" "j \<notin> set (terminal_jobs now m')" "k \<in> set (terminal_jobs now m')" for j k
    using that terminal_after_prune(1) [OF inv] pruned_older [OF inv] unfolding m' by blast
  ultimately show ?thesis using terminal_after_prune(2) [OF inv] out m' by auto
qed

theorem List_jobs_complete_witness:
  "snapshot_of noon (new_job 1 noon ''install:a'') \<in>
     set (snd (List_jobs noon ''install:'' (fst (createLocked noon ''install:a'' NewManager))))"
proof -
  let ?m = "fst (createLocked noon ''install:a'' NewManager)"
  have "List_jobs noon ''install:'' ?m = (fst (List_jobs noon ''install:'' ?m), snd (List_jobs noon ''install:'' ?m))"
    by simp
  from List_jobs_complete [OF reach_step [OF start_reach first_job_step] this] show ?thesis
    by (simp add: first_job new_job_def job_Get_def zero_Update_def)
qed

text \<open>The last update of a job reaches exactly the subscribers with room: after \<open>Succeed\<close>, \<open>Fail\<close> or
  \<open>Cancel\<close> the job is done, and a subscriber whose buffer held only updates of the running job finds a
  final one in it if and only if fewer than 16 were waiting; no later update is promised to it.\<close>

theorem final_update_delivery:
  assumes "reach manager_init manager_step m" and "lookup (mg_heap m) p = Some j" and "ends_job r"
    and "ch \<in> set (jb_subs j)" and "lookup (jb_chans j) ch = Some c" and "\<forall>u \<in> set (ch_buf c). \<not> up_Done u"
  shows "\<exists>j' c'. exec_job now (JReport r) j = Inr j' \<and> up_Done (jb_state j') \<and> lookup (jb_chans j') ch = Some c' \<and>
    ((\<exists>u \<in> set (ch_buf c'). up_Done u) \<longleftrightarrow> length (ch_buf c) < 16)"
proof -
  have "well_subscribed j" by (rule heap_lookup(5) [OF manager.reach_inv [OF assms(1)] assms(2)])
  from apply_update_ok [OF this, of r now] obtain j' obs
    where j': "apply_update (run_report r) now j = Inr (j', obs)" "up_Done (jb_state j')"
      "\<forall>ch \<in> set (jb_subs j). \<exists>c. lookup (jb_chans j) ch = Some c \<and>
         lookup (jb_chans j') ch = Some (sent (snapshotLocked now j') c)"
    using assms(3) by auto
  with assms(4,5) have "lookup (jb_chans j') ch = Some (sent (snapshotLocked now j') c)" by auto
  with j' assms(6) show ?thesis by (auto simp: sent_def chan_capacity_def)
qed


definition watched :: Job where
  "watched = fst (Subscribe noon (new_job 1 noon ''app''))"

lemma watched_reach:
  "reach manager_init manager_step
     (NewManager\<lparr>mg_seq := 1, mg_heap := [(1, watched)], mg_jobs := [(job_id 1, 1)]\<rparr>)"
proof -
  have "now_wall noon \<noteq> zero_time" by (simp add: noon_def zero_time_def)
  then have "manager_step (fst (createLocked noon ''app'' NewManager)) (noon, MJob 1 JSubscribe)
     (NewManager\<lparr>mg_seq := 1, mg_heap := [(1, watched)], mg_jobs := [(job_id 1, 1)]\<rparr>)"
    by (intro manager_step.intros)
      (simp_all add: first_job watched_def call_possible_def max_int64_def)
  then show ?thesis by (rule reach_step [OF reach_step [OF start_reach first_job_step]])
qed

theorem final_update_delivery_witness:
  "\<exists>j' c'. exec_job noon (JReport RpCancel) watched = Inr j' \<and> lookup (jb_chans j') 0 = Some c' \<and>
     (\<exists>u \<in> set (ch_buf c'). up_Done u)"
proof -
  have "jb_subs watched = [0]"
    "lookup (jb_chans watched) 0 = Some \<lparr>ch_buf = [snapshotLocked noon (new_job 1 noon ''app'')], ch_closed = False\<rparr>"
    "\<not> up_Done (jb_state (new_job 1 noon ''app''))"
    by (simp_all add: watched_def Subscribe_def Let_def new_job_def zero_Update_def)
  then show ?thesis
    using final_update_delivery [OF watched_reach, of 1 watched RpCancel 0 _ noon] by fastforce
qed

end
