(* ===== verification/StateStore.thy ===== *)
theory StateStore
  imports GoTime GoPath Sha256 GoJson
begin

text \<open>
  \<open>internal/state/state.go\<close>: the JSON file with the state of the daemon. \<open>ss_st\<close> is the state in
  memory, \<open>ss_disk\<close> the file (its decoded content); the token of the Hugging Face account is a file of
  its own. A method runs under the store's mutex and is one atomic step. The clock (\<open>now\<close>, already
  formatted), the random bytes and the outcome of a write (\<open>fault\<close>) are arguments. Snapshots are
  values: what a caller does to a slice or map it got from \<open>Get\<close> is not modelled.
\<close>

record Profile =
  pr_Name :: string
  pr_Region :: string

record DisplayPreference =
  di_Layout :: string
  di_Output :: string
  di_Width :: int
  di_Height :: int

record InferenceContract =
  ic_Port :: int
  ic_ModelAlias :: string

record CustomEngine =
  ce_ID :: string
  ce_Name :: string
  ce_Image :: string
  ce_ResolvedImage :: string
  ce_ImageDigest :: string
  ce_Architecture :: string
  ce_Base :: string
  ce_CommandMode :: string
  ce_ProfileVersion :: int
  ce_ContractVersion :: string
  ce_ValidationStatus :: string
  ce_LastValidated :: string
  ce_LastError :: string
  ce_Created :: string

record ModelPromotion =
  mp_Phase :: string
  mp_Bootstrap :: string
  mp_Target :: string
  mp_Active :: string
  mp_Rollback :: string
  mp_Message :: string
  mp_BytesDone :: int
  mp_BytesTotal :: int
  mp_Started :: string
  mp_Updated :: string
  mp_Error :: string
  mp_TargetReady :: bool
  mp_Attempts :: int

record ModelDownload =
  md_ModelID :: string
  md_Revision :: string
  md_Phase :: string
  md_Message :: string
  md_BytesDone :: int
  md_BytesTotal :: int
  md_Started :: string
  md_Updated :: string
  md_Error :: string

record InferenceRuntime =
  ir_Engine :: string
  ir_Model :: string
  ir_EngineUnloaded :: bool
  ir_ExecutionMode :: string
  ir_LocalRecipeID :: string

record InferenceNodeProgress =
  in_Node :: string
  in_Phase :: string
  in_Message :: string
  in_BytesDone :: int
  in_BytesTotal :: int
  in_Percent :: int
  in_ETASecs :: int

record InferenceOperation =
  io_ID :: string
  io_Action :: string
  io_TargetEngine :: string
  io_TargetModel :: string
  io_TargetMode :: string
  io_Previous :: InferenceRuntime
  io_Phase :: string
  io_Message :: string
  io_Percent :: int
  io_ItemsDone :: int
  io_ItemsTotal :: int
  io_BytesDone :: int
  io_BytesTotal :: int
  io_Started :: string
  io_Updated :: string
  io_Error :: string
  io_Nodes :: "InferenceNodeProgress list"

record RuntimeRestartOffer =
  ro_InstanceID :: string
  ro_Runtime :: InferenceRuntime
  ro_Created :: string
  ro_Automatic :: bool

record ManagedEngineArtifact =
  ma_EngineID :: string
  ma_Image :: string
  ma_DownloadedDigest :: string
  ma_ActiveDigest :: string
  ma_Source :: string
  ma_Channel :: string
  ma_Verified :: bool
  ma_Updated :: string

record APIKey =
  ak_ID :: string
  ak_Name :: string
  ak_Prefix :: string
  ak_Hash :: string
  ak_Created :: string
  ak_LastUsed :: string
  ak_Requests :: int
  ak_Successes :: int
  ak_Failures :: int
  ak_PromptTokens :: int
  ak_CompletionTokens :: int
  ak_Scope :: string
  ak_ModelRequests :: int
  ak_AgentRequests :: int

text \<open>\<open>models.FitProfile\<close> and \<open>models.Model\<close>: the store keeps imported models under their identifier.\<close>

record FitProfile =
  fp_ID :: string
  fp_Evidence :: string
  fp_Source :: string
  fp_Engine :: string
  fp_Architectures :: "string list"
  fp_Platforms :: "string list"
  fp_MemoryTypes :: "string list"
  fp_MinNodes :: int
  fp_MaxNodes :: int
  fp_Sharded :: bool
  fp_ContextK :: int
  fp_RequiredPerNodeGB :: float64

record HubModel =
  hm_ID :: string
  hm_Name :: string
  hm_Family :: string
  hm_Params :: string
  hm_Quant :: string
  hm_ContextK :: int
  hm_MinVRAMGB :: int
  hm_Use :: string
  hm_Tags :: "string list"
  hm_ToolCalling :: bool
  hm_Vision :: bool
  hm_License :: string
  hm_Description :: string
  hm_Default :: bool
  hm_Region :: string
  hm_Gated :: bool
  hm_Source :: string
  hm_SourceURL :: string
  hm_RuntimeStatus :: string
  hm_RuntimeNote :: string
  hm_Revision :: string
  hm_PreferredEngine :: string
  hm_RuntimeImage :: string
  hm_RuntimeBuild :: string
  hm_RuntimeEntry :: string
  hm_RuntimeCommand :: "string list"
  hm_SingleNodeOnly :: bool
  hm_FitProfiles :: "FitProfile list"

record State =
  s_FirstSeen :: string
  s_Onboarded :: bool
  s_FirstLaunchSetup :: string
  s_RecipeLaunchGuidanceAck :: bool
  s_Engine :: string
  s_Model :: string
  s_EngineUnloaded :: bool
  s_AutomaticRuntimeRestart :: bool
  s_ExecutionMode :: string
  s_LocalRecipeID :: string
  s_Pinned :: "string list"
  s_PinnedSet :: bool
  s_LocalNet :: bool
  s_LocalNetSet :: bool
  s_Profile :: Profile
  s_APIKeys :: "APIKey list"
  s_Display :: DisplayPreference
  s_InferenceAPI :: InferenceContract
  s_CustomModels :: "(string, HubModel) gomap"
  s_ModelPromotion :: ModelPromotion
  s_ModelDownloads :: "(string, ModelDownload) gomap"
  s_InferenceOperation :: InferenceOperation
  s_RuntimeRestartOffer :: RuntimeRestartOffer
  s_ManagedEngineArtifacts :: "(string, ManagedEngineArtifact) gomap"
  s_InstalledPacks :: "string list"
  s_CustomEngines :: "CustomEngine list"
  s_EngineCmds :: "(string, string list) gomap"

datatype state_file = NoFile | Unreadable string | Corrupt | Saved State

datatype token_file = NoToken | TokenUnreadable string | Token string

record StateStore =
  ss_st :: State
  ss_persist :: bool
  ss_firstRun :: bool
  ss_dirty :: bool
  ss_disk :: state_file
  ss_token :: token_file

datatype state_error =
    WriteFailed string
  | MarshalFailed
  | ReadError string
  | DirFailed string
  | InvalidSetupChoice string
  | UnknownCustomEngine string
  | EntropyError string

definition DefaultInferenceAPIPort :: int where "DefaultInferenceAPIPort = 8766"
definition DefaultInferenceAlias :: string where "DefaultInferenceAlias = ''cloudless''"

definition APIKeyScopeModel :: string where "APIKeyScopeModel = ''model''"
definition APIKeyScopeAgent :: string where "APIKeyScopeAgent = ''agent''"
definition APIKeyScopeBoth :: string where "APIKeyScopeBoth = ''both''"

definition FirstLaunchSetupPending :: string where "FirstLaunchSetupPending = ''pending''"
definition FirstLaunchSetupInstall :: string where "FirstLaunchSetupInstall = ''install''"
definition FirstLaunchSetupManual :: string where "FirstLaunchSetupManual = ''manual''"

lemmas state_names = APIKeyScopeModel_def APIKeyScopeAgent_def APIKeyScopeBoth_def
  FirstLaunchSetupPending_def FirstLaunchSetupInstall_def FirstLaunchSetupManual_def

subsection \<open>Zero values\<close>

definition zero_Runtime :: InferenceRuntime where
  "zero_Runtime = \<lparr>ir_Engine = '''', ir_Model = '''', ir_EngineUnloaded = False, ir_ExecutionMode = '''', ir_LocalRecipeID = ''''\<rparr>"

definition zero_Promotion :: ModelPromotion where
  "zero_Promotion = \<lparr>mp_Phase = '''', mp_Bootstrap = '''', mp_Target = '''', mp_Active = '''', mp_Rollback = '''',
     mp_Message = '''', mp_BytesDone = 0, mp_BytesTotal = 0, mp_Started = '''', mp_Updated = '''', mp_Error = '''',
     mp_TargetReady = False, mp_Attempts = 0\<rparr>"

definition zero_Operation :: InferenceOperation where
  "zero_Operation = \<lparr>io_ID = '''', io_Action = '''', io_TargetEngine = '''', io_TargetModel = '''', io_TargetMode = '''',
     io_Previous = zero_Runtime, io_Phase = '''', io_Message = '''', io_Percent = 0, io_ItemsDone = 0, io_ItemsTotal = 0,
     io_BytesDone = 0, io_BytesTotal = 0, io_Started = '''', io_Updated = '''', io_Error = '''', io_Nodes = []\<rparr>"

definition zero_Offer :: RuntimeRestartOffer where
  "zero_Offer = \<lparr>ro_InstanceID = '''', ro_Runtime = zero_Runtime, ro_Created = '''', ro_Automatic = False\<rparr>"

definition zero_State :: State where
  "zero_State = \<lparr>s_FirstSeen = '''', s_Onboarded = False, s_FirstLaunchSetup = '''', s_RecipeLaunchGuidanceAck = False,
     s_Engine = '''', s_Model = '''', s_EngineUnloaded = False, s_AutomaticRuntimeRestart = False, s_ExecutionMode = '''',
     s_LocalRecipeID = '''', s_Pinned = [], s_PinnedSet = False, s_LocalNet = False, s_LocalNetSet = False,
     s_Profile = \<lparr>pr_Name = '''', pr_Region = ''''\<rparr>, s_APIKeys = [],
     s_Display = \<lparr>di_Layout = '''', di_Output = '''', di_Width = 0, di_Height = 0\<rparr>,
     s_InferenceAPI = \<lparr>ic_Port = 0, ic_ModelAlias = ''''\<rparr>, s_CustomModels = [], s_ModelPromotion = zero_Promotion,
     s_ModelDownloads = [], s_InferenceOperation = zero_Operation, s_RuntimeRestartOffer = zero_Offer,
     s_ManagedEngineArtifacts = [], s_InstalledPacks = [], s_CustomEngines = [], s_EngineCmds = []\<rparr>"

subsection \<open>Saving and opening\<close>

text \<open>\<open>json.MarshalIndent\<close> fails only on a float64 that is not finite.\<close>

definition state_marshals :: "State \<Rightarrow> bool" where
  "state_marshals st \<longleftrightarrow> list_all (\<lambda>(_, m). list_all (\<lambda>p. f64_text (fp_RequiredPerNodeGB p) \<noteq> None) (hm_FitProfiles m)) (s_CustomModels st)"

definition save_state :: "string option \<Rightarrow> StateStore \<Rightarrow> state_error option \<times> StateStore" where
  "save_state fault s =
     (if \<not> ss_persist s then (None, s)
      else if \<not> state_marshals (ss_st s) then (Some MarshalFailed, s)
      else case fault of Some e \<Rightarrow> (Some (WriteFailed e), s)
           | None \<Rightarrow> (None, s\<lparr>ss_disk := Saved (ss_st s)\<rparr>))"

definition fresh_State :: "string \<Rightarrow> State" where
  "fresh_State now = zero_State\<lparr>s_FirstSeen := now, s_FirstLaunchSetup := FirstLaunchSetupPending, s_EngineUnloaded := True\<rparr>"

text \<open>\<open>dir\<close> is the error of \<open>MkdirAll\<close>, if any. A corrupt file starts over like a missing one.\<close>

definition OpenState :: "string \<Rightarrow> string option \<Rightarrow> string option \<Rightarrow> state_file \<Rightarrow> token_file \<Rightarrow> state_error option \<times> StateStore" where
  "OpenState now dir fault disk token =
     (let s = \<lparr>ss_st = zero_State, ss_persist = True, ss_firstRun = False, ss_dirty = False, ss_disk = disk, ss_token = token\<rparr>;
          first = s\<lparr>ss_st := fresh_State now, ss_firstRun := True\<rparr>
      in case dir of
           Some e \<Rightarrow> (Some (DirFailed e), first\<lparr>ss_persist := False\<rparr>)
         | None \<Rightarrow>
             (case disk of
                Saved st \<Rightarrow> (None, s\<lparr>ss_st := st\<rparr>)
              | Unreadable e \<Rightarrow> (Some (ReadError e), s)
              | NoFile \<Rightarrow> (None, snd (save_state fault first))
              | Corrupt \<Rightarrow> (None, snd (save_state fault first))))"

text \<open>\<open>os.Getenv\<close> of the two variables, the home directory if it is known, and the temporary directory.\<close>

definition DefaultDir :: "string \<Rightarrow> string \<Rightarrow> string option \<Rightarrow> string \<Rightarrow> string" where
  "DefaultDir cloudless_state_dir xdg_state_home home tmp =
     (if cloudless_state_dir \<noteq> '''' then cloudless_state_dir
      else if xdg_state_home \<noteq> '''' then Join xdg_state_home ''cloudless''
      else case home of
             Some h \<Rightarrow> if h \<noteq> '''' then Clean (h @ ''/.local/state/cloudless'') else Join tmp ''cloudless''
           | None \<Rightarrow> Join tmp ''cloudless'')"

end
