(* ===== verification/StateOps.thy ===== *)
theory StateOps
  imports StateStore
begin

text \<open>
  The methods of \<open>internal/state/state.go\<close>. Most of them change the state in memory and return the
  error of the save (\<open>change\<close>); four put the previous values back when the save fails (\<open>transact\<close>).
\<close>

type_synonym outcome = "state_error option \<times> StateStore"

definition set_state :: "State \<Rightarrow> StateStore \<Rightarrow> StateStore" where
  "set_state st s = s\<lparr>ss_st := st\<rparr>"

definition change :: "string option \<Rightarrow> (State \<Rightarrow> State) \<Rightarrow> StateStore \<Rightarrow> outcome" where
  "change fault f s = save_state fault (set_state (f (ss_st s)) s)"

definition transact :: "string option \<Rightarrow> (State \<Rightarrow> State) \<Rightarrow> (State \<Rightarrow> State \<Rightarrow> State) \<Rightarrow> StateStore \<Rightarrow> outcome" where
  "transact fault f restore s =
     (case change fault f s of
        (None, s') \<Rightarrow> (None, s')
      | (Some e, s') \<Rightarrow> (Some e, set_state (restore (ss_st s) (ss_st s')) s'))"

definition State_Get :: "StateStore \<Rightarrow> State" where
  "State_Get s = ss_st s"

subsection \<open>Restart decisions\<close>

definition state_runtime :: "State \<Rightarrow> InferenceRuntime" where
  "state_runtime st = \<lparr>ir_Engine = s_Engine st, ir_Model = s_Model st, ir_EngineUnloaded = s_EngineUnloaded st,
     ir_ExecutionMode = s_ExecutionMode st, ir_LocalRecipeID = s_LocalRecipeID st\<rparr>"

definition RuntimeRestartAutomatic :: "StateStore \<Rightarrow> bool" where
  "RuntimeRestartAutomatic s = s_AutomaticRuntimeRestart (ss_st s)"

definition SetRuntimeRestartAutomatic :: "string option \<Rightarrow> bool \<Rightarrow> StateStore \<Rightarrow> outcome" where
  "SetRuntimeRestartAutomatic fault enabled =
     transact fault (\<lambda>st. st\<lparr>s_AutomaticRuntimeRestart := enabled\<rparr>)
       (\<lambda>old st. st\<lparr>s_AutomaticRuntimeRestart := s_AutomaticRuntimeRestart old\<rparr>)"

definition restart_offer :: "string \<Rightarrow> string \<Rightarrow> State \<Rightarrow> State" where
  "restart_offer now instanceID st =
     (let st1 = st\<lparr>s_RuntimeRestartOffer := \<lparr>ro_InstanceID = instanceID, ro_Runtime = state_runtime st,
                     ro_Created = now, ro_Automatic = s_AutomaticRuntimeRestart st\<rparr>\<rparr>
      in if s_AutomaticRuntimeRestart st then st1 else st1\<lparr>s_EngineUnloaded := True\<rparr>)"

definition PrepareRuntimeRestartOffer :: "string \<Rightarrow> string option \<Rightarrow> string \<Rightarrow> StateStore \<Rightarrow> outcome" where
  "PrepareRuntimeRestartOffer now fault instanceID0 s =
     (let instanceID = trim_space instanceID0
      in if instanceID = '''' then (None, s)
         else if s_EngineUnloaded (ss_st s) \<or> io_ID (s_InferenceOperation (ss_st s)) \<noteq> '''' then (None, s)
         else transact fault (restart_offer now instanceID)
                (\<lambda>old st. st\<lparr>s_RuntimeRestartOffer := s_RuntimeRestartOffer old, s_EngineUnloaded := s_EngineUnloaded old\<rparr>) s)"

definition ClearRuntimeRestartOffer :: "string option \<Rightarrow> string \<Rightarrow> StateStore \<Rightarrow> outcome" where
  "ClearRuntimeRestartOffer fault instanceID s =
     (let current = ro_InstanceID (s_RuntimeRestartOffer (ss_st s))
      in if current = '''' \<or> current \<noteq> trim_space instanceID then (None, s)
         else transact fault (\<lambda>st. st\<lparr>s_RuntimeRestartOffer := zero_Offer\<rparr>)
                (\<lambda>old st. st\<lparr>s_RuntimeRestartOffer := s_RuntimeRestartOffer old\<rparr>) s)"

subsection \<open>Custom engines\<close>

definition CustomEngineList :: "StateStore \<Rightarrow> CustomEngine list" where
  "CustomEngineList s = s_CustomEngines (ss_st s)"

text \<open>The first element that satisfies \<open>p\<close> is changed.\<close>

fun change_first :: "('a \<Rightarrow> bool) \<Rightarrow> ('a \<Rightarrow> 'a) \<Rightarrow> 'a list \<Rightarrow> 'a list" where
  "change_first p g [] = []"
| "change_first p g (x # xs) = (if p x then g x # xs else x # change_first p g xs)"

definition UpsertCustomEngine :: "string option \<Rightarrow> CustomEngine \<Rightarrow> StateStore \<Rightarrow> outcome" where
  "UpsertCustomEngine fault def =
     change fault (\<lambda>st. st\<lparr>s_CustomEngines :=
       (if list_ex (\<lambda>e. ce_ID e = ce_ID def) (s_CustomEngines st)
        then change_first (\<lambda>e. ce_ID e = ce_ID def) (\<lambda>_. def) (s_CustomEngines st)
        else s_CustomEngines st @ [def])\<rparr>)"

definition validated_engine :: "string \<Rightarrow> string \<Rightarrow> string \<Rightarrow> CustomEngine \<Rightarrow> CustomEngine" where
  "validated_engine now status err e =
     (let e1 = e\<lparr>ce_ValidationStatus := status, ce_LastError := err\<rparr>
      in if status = ''compatible'' \<or> status = ''failed'' then e1\<lparr>ce_LastValidated := now\<rparr> else e1)"

definition SetCustomEngineValidation :: "string \<Rightarrow> string option \<Rightarrow> string \<Rightarrow> string \<Rightarrow> string \<Rightarrow> StateStore \<Rightarrow> outcome" where
  "SetCustomEngineValidation now fault eid status err s =
     (if \<not> list_ex (\<lambda>e. ce_ID e = eid) (s_CustomEngines (ss_st s)) then (Some (UnknownCustomEngine eid), s)
      else change fault (\<lambda>st. st\<lparr>s_CustomEngines :=
             change_first (\<lambda>e. ce_ID e = eid) (validated_engine now status err) (s_CustomEngines st)\<rparr>) s)"

definition DeleteCustomEngine :: "string option \<Rightarrow> string \<Rightarrow> StateStore \<Rightarrow> outcome" where
  "DeleteCustomEngine fault eid =
     change fault (\<lambda>st. st\<lparr>s_CustomEngines := filter (\<lambda>e. ce_ID e \<noteq> eid) (s_CustomEngines st)\<rparr>)"

subsection \<open>First launch\<close>

definition SetOnboarded :: "string option \<Rightarrow> bool \<Rightarrow> StateStore \<Rightarrow> outcome" where
  "SetOnboarded fault v = change fault (\<lambda>st. st\<lparr>s_Onboarded := v\<rparr>)"

definition AcknowledgeRecipeLaunchGuidance :: "string option \<Rightarrow> StateStore \<Rightarrow> outcome" where
  "AcknowledgeRecipeLaunchGuidance fault = change fault (\<lambda>st. st\<lparr>s_RecipeLaunchGuidanceAck := True\<rparr>)"

definition FirstLaunchSetup :: "StateStore \<Rightarrow> string" where
  "FirstLaunchSetup s =
     (if s_FirstLaunchSetup (ss_st s) = '''' then FirstLaunchSetupInstall else s_FirstLaunchSetup (ss_st s))"

definition FirstLaunchSetupRequired :: "StateStore \<Rightarrow> bool" where
  "FirstLaunchSetupRequired s \<longleftrightarrow> FirstLaunchSetup s = FirstLaunchSetupPending"

definition StartupProvisioningEnabled :: "StateStore \<Rightarrow> bool" where
  "StartupProvisioningEnabled s =
     (let choice = s_FirstLaunchSetup (ss_st s)
      in if choice = '''' \<or> choice = FirstLaunchSetupInstall then True
         else choice = FirstLaunchSetupManual \<and>
              (s_Model (ss_st s) \<noteq> '''' \<or> s_Engine (ss_st s) \<noteq> '''' \<or> s_LocalRecipeID (ss_st s) \<noteq> ''''))"

definition SetFirstLaunchSetup :: "string option \<Rightarrow> string \<Rightarrow> StateStore \<Rightarrow> outcome" where
  "SetFirstLaunchSetup fault choice s =
     (if choice \<noteq> FirstLaunchSetupInstall \<and> choice \<noteq> FirstLaunchSetupManual then (Some (InvalidSetupChoice choice), s)
      else change fault (\<lambda>st. st\<lparr>s_FirstLaunchSetup := choice, s_EngineUnloaded := (choice \<noteq> FirstLaunchSetupInstall)\<rparr>) s)"

subsection \<open>Settings\<close>

definition Display_Get :: "StateStore \<Rightarrow> DisplayPreference" where
  "Display_Get s = s_Display (ss_st s)"

definition SetDisplayPreference :: "string option \<Rightarrow> DisplayPreference \<Rightarrow> StateStore \<Rightarrow> outcome" where
  "SetDisplayPreference fault pref = change fault (\<lambda>st. st\<lparr>s_Display := pref\<rparr>)"

definition Normalized :: "InferenceContract \<Rightarrow> InferenceContract" where
  "Normalized c =
     (let c1 = (if ic_Port c = 0 then c\<lparr>ic_Port := DefaultInferenceAPIPort\<rparr> else c);
          c2 = (if trim_space (ic_ModelAlias c1) = '''' then c1\<lparr>ic_ModelAlias := DefaultInferenceAlias\<rparr> else c1)
      in c2\<lparr>ic_ModelAlias := trim_space (ic_ModelAlias c2)\<rparr>)"

definition Contract_Get :: "StateStore \<Rightarrow> InferenceContract" where
  "Contract_Get s = Normalized (s_InferenceAPI (ss_st s))"

definition SetInferenceContract :: "string option \<Rightarrow> InferenceContract \<Rightarrow> StateStore \<Rightarrow> outcome" where
  "SetInferenceContract fault c = change fault (\<lambda>st. st\<lparr>s_InferenceAPI := Normalized c\<rparr>)"

definition SetEngine :: "string option \<Rightarrow> string \<Rightarrow> StateStore \<Rightarrow> outcome" where
  "SetEngine fault eid = change fault (\<lambda>st. st\<lparr>s_Engine := eid\<rparr>)"

definition SetEngineUnloaded :: "string option \<Rightarrow> bool \<Rightarrow> StateStore \<Rightarrow> outcome" where
  "SetEngineUnloaded fault v = change fault (\<lambda>st. st\<lparr>s_EngineUnloaded := v\<rparr>)"

definition SetLocalRecipe :: "string option \<Rightarrow> string \<Rightarrow> StateStore \<Rightarrow> outcome" where
  "SetLocalRecipe fault rid = change fault (\<lambda>st. st\<lparr>s_LocalRecipeID := rid\<rparr>)"

definition with_runtime :: "InferenceRuntime \<Rightarrow> State \<Rightarrow> State" where
  "with_runtime r st = st\<lparr>s_Engine := ir_Engine r, s_Model := ir_Model r, s_EngineUnloaded := ir_EngineUnloaded r,
     s_ExecutionMode := ir_ExecutionMode r, s_LocalRecipeID := ir_LocalRecipeID r\<rparr>"

definition CommitInferenceRuntime :: "string option \<Rightarrow> InferenceRuntime \<Rightarrow> StateStore \<Rightarrow> outcome" where
  "CommitInferenceRuntime fault r =
     transact fault (with_runtime r) (\<lambda>old st. with_runtime (state_runtime old) st)"

definition SetModel :: "string option \<Rightarrow> string \<Rightarrow> StateStore \<Rightarrow> outcome" where
  "SetModel fault model = change fault (\<lambda>st. st\<lparr>s_Model := model\<rparr>)"

definition SetExecutionMode :: "string option \<Rightarrow> string \<Rightarrow> StateStore \<Rightarrow> outcome" where
  "SetExecutionMode fault mode = change fault (\<lambda>st. st\<lparr>s_ExecutionMode := (if mode \<noteq> ''cluster'' then ''local'' else mode)\<rparr>)"

definition Profile_Get :: "StateStore \<Rightarrow> Profile" where
  "Profile_Get s = s_Profile (ss_st s)"

definition SetProfile :: "string option \<Rightarrow> Profile \<Rightarrow> StateStore \<Rightarrow> outcome" where
  "SetProfile fault p = change fault (\<lambda>st. st\<lparr>s_Profile := p\<rparr>)"

definition Pins :: "StateStore \<Rightarrow> string list \<times> bool" where
  "Pins s = (s_Pinned (ss_st s), s_PinnedSet (ss_st s))"

definition SetPins :: "string option \<Rightarrow> string list \<Rightarrow> StateStore \<Rightarrow> outcome" where
  "SetPins fault ids = change fault (\<lambda>st. st\<lparr>s_Pinned := ids, s_PinnedSet := True\<rparr>)"

definition LocalNetwork :: "StateStore \<Rightarrow> bool" where
  "LocalNetwork s = (if \<not> s_LocalNetSet (ss_st s) then True else s_LocalNet (ss_st s))"

definition SetLocalNetwork :: "string option \<Rightarrow> bool \<Rightarrow> StateStore \<Rightarrow> outcome" where
  "SetLocalNetwork fault v = change fault (\<lambda>st. st\<lparr>s_LocalNet := v, s_LocalNetSet := True\<rparr>)"

definition Packs :: "StateStore \<Rightarrow> string list" where
  "Packs s = s_InstalledPacks (ss_st s)"

definition packs_after :: "string \<Rightarrow> bool \<Rightarrow> string list \<Rightarrow> string list" where
  "packs_after pid installed packs =
     (let next' = (if installed then packs else filter (\<lambda>p. p \<noteq> pid) packs)
      in if installed \<and> pid \<notin> set packs then next' @ [pid] else next')"

definition SetPackInstalled :: "string option \<Rightarrow> string \<Rightarrow> bool \<Rightarrow> StateStore \<Rightarrow> outcome" where
  "SetPackInstalled fault pid installed =
     change fault (\<lambda>st. st\<lparr>s_InstalledPacks := packs_after pid installed (s_InstalledPacks st)\<rparr>)"

subsection \<open>Models\<close>

definition stamped_promotion :: "string \<Rightarrow> ModelPromotion \<Rightarrow> ModelPromotion" where
  "stamped_promotion now p =
     (let p1 = p\<lparr>mp_Updated := now\<rparr>
      in if mp_Started p1 = '''' \<and> mp_Phase p1 \<noteq> '''' \<and> mp_Phase p1 \<noteq> ''idle'' then p1\<lparr>mp_Started := now\<rparr> else p1)"

definition SetModelPromotion :: "string \<Rightarrow> string option \<Rightarrow> ModelPromotion \<Rightarrow> StateStore \<Rightarrow> outcome" where
  "SetModelPromotion now fault p = change fault (\<lambda>st. st\<lparr>s_ModelPromotion := stamped_promotion now p\<rparr>)"

definition ModelDownloads :: "StateStore \<Rightarrow> ModelDownload list" where
  "ModelDownloads s = map snd (s_ModelDownloads (ss_st s))"

definition stamped_download :: "string \<Rightarrow> ModelDownload \<Rightarrow> ModelDownload" where
  "stamped_download now d =
     (let d1 = d\<lparr>md_Updated := now\<rparr> in if md_Started d1 = '''' then d1\<lparr>md_Started := now\<rparr> else d1)"

definition SetModelDownload :: "string \<Rightarrow> string option \<Rightarrow> ModelDownload \<Rightarrow> StateStore \<Rightarrow> outcome" where
  "SetModelDownload now fault d =
     change fault (\<lambda>st. st\<lparr>s_ModelDownloads := put (md_ModelID d) (stamped_download now d) (s_ModelDownloads st)\<rparr>)"

definition RemoveModelDownload :: "string option \<Rightarrow> string \<Rightarrow> StateStore \<Rightarrow> outcome" where
  "RemoveModelDownload fault mid =
     change fault (\<lambda>st. st\<lparr>s_ModelDownloads := remove mid (s_ModelDownloads st)\<rparr>)"

definition CustomModels :: "StateStore \<Rightarrow> (string, HubModel) gomap" where
  "CustomModels s = s_CustomModels (ss_st s)"

definition UpsertCustomModel :: "string option \<Rightarrow> HubModel \<Rightarrow> StateStore \<Rightarrow> outcome" where
  "UpsertCustomModel fault m =
     change fault (\<lambda>st. st\<lparr>s_CustomModels := put (hm_ID m) m (s_CustomModels st)\<rparr>)"

definition Artifact_Get :: "string \<Rightarrow> StateStore \<Rightarrow> ManagedEngineArtifact option" where
  "Artifact_Get eid s = lookup (s_ManagedEngineArtifacts (ss_st s)) eid"

definition SetManagedEngineArtifact :: "string \<Rightarrow> string option \<Rightarrow> ManagedEngineArtifact \<Rightarrow> StateStore \<Rightarrow> outcome" where
  "SetManagedEngineArtifact now fault a =
     change fault (\<lambda>st. st\<lparr>s_ManagedEngineArtifacts := put (ma_EngineID a) (a\<lparr>ma_Updated := now\<rparr>) (s_ManagedEngineArtifacts st)\<rparr>)"

definition cmdKey :: "string \<Rightarrow> string \<Rightarrow> string" where
  "cmdKey engine model = engine @ [CHR 0x00] @ model"

definition EngineCmd :: "string \<Rightarrow> string \<Rightarrow> StateStore \<Rightarrow> string list option" where
  "EngineCmd engine model s =
     (case lookup (s_EngineCmds (ss_st s)) (cmdKey engine model) of
        None \<Rightarrow> None | Some a \<Rightarrow> if a = [] then None else Some a)"

definition SetEngineCmd :: "string option \<Rightarrow> string \<Rightarrow> string \<Rightarrow> string list \<Rightarrow> StateStore \<Rightarrow> outcome" where
  "SetEngineCmd fault engine model args =
     change fault (\<lambda>st. st\<lparr>s_EngineCmds := put (cmdKey engine model) args (s_EngineCmds st)\<rparr>)"

definition ClearEngineCmd :: "string option \<Rightarrow> string \<Rightarrow> string \<Rightarrow> StateStore \<Rightarrow> outcome" where
  "ClearEngineCmd fault engine model =
     change fault (\<lambda>st. st\<lparr>s_EngineCmds := remove (cmdKey engine model) (s_EngineCmds st)\<rparr>)"

subsection \<open>The inference journal\<close>

definition stamped_operation :: "string \<Rightarrow> InferenceOperation \<Rightarrow> InferenceOperation" where
  "stamped_operation now op =
     (let op1 = op\<lparr>io_Updated := now\<rparr> in if io_Started op1 = '''' then op1\<lparr>io_Started := now\<rparr> else op1)"

definition BeginInferenceOperation :: "string \<Rightarrow> string option \<Rightarrow> InferenceOperation \<Rightarrow> StateStore \<Rightarrow> outcome" where
  "BeginInferenceOperation now fault op = change fault (\<lambda>st. st\<lparr>s_InferenceOperation := stamped_operation now op\<rparr>)"

definition continued :: "string \<Rightarrow> InferenceOperation \<Rightarrow> InferenceOperation \<Rightarrow> InferenceOperation" where
  "continued now old op = op\<lparr>io_Started := io_Started old, io_Previous := io_Previous old, io_Action := io_Action old,
     io_TargetEngine := io_TargetEngine old, io_TargetModel := io_TargetModel old, io_TargetMode := io_TargetMode old,
     io_Updated := now\<rparr>"

definition UpdateInferenceOperation :: "string \<Rightarrow> string option \<Rightarrow> InferenceOperation \<Rightarrow> StateStore \<Rightarrow> bool \<times> outcome" where
  "UpdateInferenceOperation now fault op s =
     (if io_ID op = '''' \<or> io_ID (s_InferenceOperation (ss_st s)) \<noteq> io_ID op then (False, None, s)
      else (True, change fault (\<lambda>st. st\<lparr>s_InferenceOperation := continued now (s_InferenceOperation st) op\<rparr>) s))"

definition ClearInferenceOperation :: "string option \<Rightarrow> string \<Rightarrow> StateStore \<Rightarrow> bool \<times> outcome" where
  "ClearInferenceOperation fault oid s =
     (if oid = '''' \<or> io_ID (s_InferenceOperation (ss_st s)) \<noteq> oid then (False, None, s)
      else (True, change fault (\<lambda>st. st\<lparr>s_InferenceOperation := zero_Operation\<rparr>) s))"

subsection \<open>API keys\<close>

definition NormalizeAPIKeyScope :: "string \<Rightarrow> string" where
  "NormalizeAPIKeyScope scope = (if scope = APIKeyScopeAgent \<or> scope = APIKeyScopeBoth then scope else APIKeyScopeModel)"

definition APIKeys :: "StateStore \<Rightarrow> APIKey list" where
  "APIKeys s = s_APIKeys (ss_st s)"

definition zero_APIKey :: APIKey where
  "zero_APIKey = \<lparr>ak_ID = '''', ak_Name = '''', ak_Prefix = '''', ak_Hash = '''', ak_Created = '''', ak_LastUsed = '''',
     ak_Requests = 0, ak_Successes = 0, ak_Failures = 0, ak_PromptTokens = 0, ak_CompletionTokens = 0, ak_Scope = '''',
     ak_ModelRequests = 0, ak_AgentRequests = 0\<rparr>"

definition key_secret :: "nat list \<Rightarrow> string" where
  "key_secret raw = ''sk-cloudless-'' @ hex_encode raw"

definition new_key :: "string \<Rightarrow> string \<Rightarrow> string option \<Rightarrow> string \<Rightarrow> nat list \<Rightarrow> APIKey" where
  "new_key now name requestedScope secret idb =
     zero_APIKey\<lparr>ak_ID := hex_encode idb, ak_Name := name, ak_Prefix := take 20 secret, ak_Hash := sha256_hex secret,
       ak_Created := now,
       ak_Scope := (case requestedScope of None \<Rightarrow> APIKeyScopeModel | Some sc \<Rightarrow> NormalizeAPIKeyScope sc)\<rparr>"

text \<open>\<open>rand\<close>: the 24 bytes of the secret and the 6 of the identifier. The key is returned with the error of the save.\<close>

definition AddAPIKey :: "string \<Rightarrow> string + (nat list \<times> nat list) \<Rightarrow> string option \<Rightarrow> string \<Rightarrow> string option \<Rightarrow> StateStore \<Rightarrow>
    (string \<times> APIKey) \<times> outcome" where
  "AddAPIKey now rand fault name requestedScope s =
     (case rand of
        Inl e \<Rightarrow> (('''', zero_APIKey), Some (EntropyError e), s)
      | Inr (raw, idb) \<Rightarrow>
          (let secret = key_secret raw; key = new_key now name requestedScope secret idb
           in ((secret, key), change fault (\<lambda>st. st\<lparr>s_APIKeys := s_APIKeys st @ [key]\<rparr>) s)))"

definition DeleteAPIKey :: "string option \<Rightarrow> string \<Rightarrow> StateStore \<Rightarrow> outcome" where
  "DeleteAPIKey fault kid = change fault (\<lambda>st. st\<lparr>s_APIKeys := filter (\<lambda>k. ak_ID k \<noteq> kid) (s_APIKeys st)\<rparr>)"

definition ValidateAPIKey :: "string \<Rightarrow> StateStore \<Rightarrow> string option" where
  "ValidateAPIKey secret s =
     (if secret = '''' then None
      else map_option ak_ID (find (\<lambda>k. ak_Hash k = sha256_hex secret) (s_APIKeys (ss_st s))))"

definition scope_allows :: "string \<Rightarrow> string \<Rightarrow> bool" where
  "scope_allows scope required \<longleftrightarrow> (let sc = NormalizeAPIKeyScope scope
     in sc = APIKeyScopeBoth \<or> sc = NormalizeAPIKeyScope required)"

text \<open>The identifier of the key with the hash, and whether its scope allows the request.\<close>

definition ValidateAPIKeyFor :: "string \<Rightarrow> string \<Rightarrow> StateStore \<Rightarrow> string \<times> bool" where
  "ValidateAPIKeyFor secret required s =
     (if secret = '''' then ('''', False)
      else case find (\<lambda>k. ak_Hash k = sha256_hex secret) (s_APIKeys (ss_st s)) of
             None \<Rightarrow> ('''', False)
           | Some k \<Rightarrow> (ak_ID k, scope_allows (ak_Scope k) required))"

definition used_key :: "string \<Rightarrow> string \<Rightarrow> bool \<Rightarrow> int \<Rightarrow> int \<Rightarrow> APIKey \<Rightarrow> APIKey" where
  "used_key now kind success promptTokens completionTokens k =
     (let k1 = k\<lparr>ak_Requests := wrap64 (ak_Requests k + 1)\<rparr>;
          k2 = (if NormalizeAPIKeyScope kind = APIKeyScopeAgent
                then k1\<lparr>ak_AgentRequests := wrap64 (ak_AgentRequests k1 + 1)\<rparr>
                else k1\<lparr>ak_ModelRequests := wrap64 (ak_ModelRequests k1 + 1)\<rparr>);
          k3 = (if success then k2\<lparr>ak_Successes := wrap64 (ak_Successes k2 + 1)\<rparr>
                else k2\<lparr>ak_Failures := wrap64 (ak_Failures k2 + 1)\<rparr>);
          k4 = (if promptTokens > 0 then k3\<lparr>ak_PromptTokens := wrap64 (ak_PromptTokens k3 + promptTokens)\<rparr> else k3);
          k5 = (if completionTokens > 0
                then k4\<lparr>ak_CompletionTokens := wrap64 (ak_CompletionTokens k4 + completionTokens)\<rparr> else k4)
      in k5\<lparr>ak_LastUsed := now\<rparr>)"

definition RecordAPIUsageKind :: "string \<Rightarrow> string \<Rightarrow> string \<Rightarrow> bool \<Rightarrow> int \<Rightarrow> int \<Rightarrow> StateStore \<Rightarrow> StateStore" where
  "RecordAPIUsageKind now kid kind success promptTokens completionTokens s =
     (if list_ex (\<lambda>k. ak_ID k = kid) (s_APIKeys (ss_st s))
      then (set_state ((ss_st s)\<lparr>s_APIKeys := change_first (\<lambda>k. ak_ID k = kid)
              (used_key now kind success promptTokens completionTokens) (s_APIKeys (ss_st s))\<rparr>) s)\<lparr>ss_dirty := True\<rparr>
      else s)"

definition RecordAPIUsage :: "string \<Rightarrow> string \<Rightarrow> bool \<Rightarrow> int \<Rightarrow> int \<Rightarrow> StateStore \<Rightarrow> StateStore" where
  "RecordAPIUsage now kid success promptTokens completionTokens s =
     RecordAPIUsageKind now kid APIKeyScopeModel success promptTokens completionTokens s"

definition PersistIfDirty :: "string option \<Rightarrow> StateStore \<Rightarrow> StateStore" where
  "PersistIfDirty fault s = (if ss_dirty s then (snd (save_state fault s))\<lparr>ss_dirty := False\<rparr> else s)"

definition FirstRun :: "StateStore \<Rightarrow> bool" where
  "FirstRun s = ss_firstRun s"

subsection \<open>The Hugging Face token\<close>

definition HuggingFaceToken :: "StateStore \<Rightarrow> state_error + string" where
  "HuggingFaceToken s =
     (case ss_token s of NoToken \<Rightarrow> Inr '''' | TokenUnreadable e \<Rightarrow> Inl (ReadError e) | Token t \<Rightarrow> Inr (trim_space t))"

text \<open>A failure before the rename leaves the old file; the last \<open>Chmod\<close> may fail after it.\<close>

datatype token_fault = BeforeRename string | AfterRename string

definition SetHuggingFaceToken :: "token_fault option \<Rightarrow> string \<Rightarrow> StateStore \<Rightarrow> outcome" where
  "SetHuggingFaceToken fault token s =
     (if \<not> ss_persist s then (None, s)
      else (let s' = s\<lparr>ss_token := Token (trim_space token @ [CHR 0x0A])\<rparr>
            in case fault of None \<Rightarrow> (None, s')
               | Some (BeforeRename e) \<Rightarrow> (Some (WriteFailed e), s)
               | Some (AfterRename e) \<Rightarrow> (Some (WriteFailed e), s')))"

definition ClearHuggingFaceToken :: "string option \<Rightarrow> StateStore \<Rightarrow> outcome" where
  "ClearHuggingFaceToken fault s =
     (case ss_token s of NoToken \<Rightarrow> (None, s)
      | _ \<Rightarrow> (case fault of Some e \<Rightarrow> (Some (WriteFailed e), s) | None \<Rightarrow> (None, s\<lparr>ss_token := NoToken\<rparr>)))"

end
