(* ===== verification/StateProps.thy ===== *)
theory StateProps
  imports StateOps
begin

text \<open>
  What \<open>state.go\<close> guarantees. The calls of the store and the restarts of the daemon form a transition
  system; \<open>effect\<close> is the abstract specification of a call, its effect on the state when it succeeds.
\<close>

subsection \<open>Calls\<close>

datatype state_call =
    CallRestartAutomatic bool
  | CallPrepareOffer string
  | CallClearOffer string
  | CallUpsertEngine CustomEngine
  | CallEngineValidation string string string
  | CallDeleteEngine string
  | CallOnboarded bool
  | CallAcknowledge
  | CallFirstLaunch string
  | CallDisplay DisplayPreference
  | CallContract InferenceContract
  | CallEngine string
  | CallEngineUnloaded bool
  | CallLocalRecipe string
  | CallCommit InferenceRuntime
  | CallModel string
  | CallExecutionMode string
  | CallProfile Profile
  | CallPins "string list"
  | CallLocalNetwork bool
  | CallPack string bool
  | CallPromotion ModelPromotion
  | CallDownload ModelDownload
  | CallRemoveDownload string
  | CallUpsertModel HubModel
  | CallArtifact ManagedEngineArtifact
  | CallEngineCmd string string "string list"
  | CallClearEngineCmd string string
  | CallBegin InferenceOperation
  | CallUpdate InferenceOperation
  | CallClear string
  | CallAddKey "string + (nat list \<times> nat list)" string "string option"
  | CallDeleteKey string
  | CallUsage string string bool int int
  | CallFlush
  | CallSetToken "token_fault option" string
  | CallClearToken

fun exec :: "string \<Rightarrow> string option \<Rightarrow> state_call \<Rightarrow> StateStore \<Rightarrow> outcome" where
  "exec now fault (CallRestartAutomatic b) s = SetRuntimeRestartAutomatic fault b s"
| "exec now fault (CallPrepareOffer i) s = PrepareRuntimeRestartOffer now fault i s"
| "exec now fault (CallClearOffer i) s = ClearRuntimeRestartOffer fault i s"
| "exec now fault (CallUpsertEngine e) s = UpsertCustomEngine fault e s"
| "exec now fault (CallEngineValidation i v err) s = SetCustomEngineValidation now fault i v err s"
| "exec now fault (CallDeleteEngine i) s = DeleteCustomEngine fault i s"
| "exec now fault (CallOnboarded b) s = SetOnboarded fault b s"
| "exec now fault CallAcknowledge s = AcknowledgeRecipeLaunchGuidance fault s"
| "exec now fault (CallFirstLaunch x) s = SetFirstLaunchSetup fault x s"
| "exec now fault (CallDisplay p) s = SetDisplayPreference fault p s"
| "exec now fault (CallContract c) s = SetInferenceContract fault c s"
| "exec now fault (CallEngine i) s = SetEngine fault i s"
| "exec now fault (CallEngineUnloaded b) s = SetEngineUnloaded fault b s"
| "exec now fault (CallLocalRecipe i) s = SetLocalRecipe fault i s"
| "exec now fault (CallCommit r) s = CommitInferenceRuntime fault r s"
| "exec now fault (CallModel m) s = SetModel fault m s"
| "exec now fault (CallExecutionMode m) s = SetExecutionMode fault m s"
| "exec now fault (CallProfile p) s = SetProfile fault p s"
| "exec now fault (CallPins is) s = SetPins fault is s"
| "exec now fault (CallLocalNetwork b) s = SetLocalNetwork fault b s"
| "exec now fault (CallPack i b) s = SetPackInstalled fault i b s"
| "exec now fault (CallPromotion p) s = SetModelPromotion now fault p s"
| "exec now fault (CallDownload d) s = SetModelDownload now fault d s"
| "exec now fault (CallRemoveDownload i) s = RemoveModelDownload fault i s"
| "exec now fault (CallUpsertModel m) s = UpsertCustomModel fault m s"
| "exec now fault (CallArtifact a) s = SetManagedEngineArtifact now fault a s"
| "exec now fault (CallEngineCmd e m args) s = SetEngineCmd fault e m args s"
| "exec now fault (CallClearEngineCmd e m) s = ClearEngineCmd fault e m s"
| "exec now fault (CallBegin op) s = BeginInferenceOperation now fault op s"
| "exec now fault (CallUpdate op) s = snd (UpdateInferenceOperation now fault op s)"
| "exec now fault (CallClear i) s = snd (ClearInferenceOperation fault i s)"
| "exec now fault (CallAddKey r n sc) s = snd (AddAPIKey now r fault n sc s)"
| "exec now fault (CallDeleteKey i) s = DeleteAPIKey fault i s"
| "exec now fault (CallUsage i k ok p c) s = (None, RecordAPIUsageKind now i k ok p c s)"
| "exec now fault CallFlush s = (None, PersistIfDirty fault s)"
| "exec now fault (CallSetToken f t) s = SetHuggingFaceToken f t s"
| "exec now fault CallClearToken s = ClearHuggingFaceToken fault s"

fun effect :: "string \<Rightarrow> state_call \<Rightarrow> State \<Rightarrow> State" where
  "effect now (CallRestartAutomatic b) st = st\<lparr>s_AutomaticRuntimeRestart := b\<rparr>"
| "effect now (CallPrepareOffer i) st =
     (if trim_space i = '''' \<or> s_EngineUnloaded st \<or> io_ID (s_InferenceOperation st) \<noteq> '''' then st
      else restart_offer now (trim_space i) st)"
| "effect now (CallClearOffer i) st =
     (if ro_InstanceID (s_RuntimeRestartOffer st) \<in> {trim_space i} - {''''} then st\<lparr>s_RuntimeRestartOffer := zero_Offer\<rparr> else st)"
| "effect now (CallUpsertEngine e) st = st\<lparr>s_CustomEngines :=
     (if list_ex (\<lambda>x. ce_ID x = ce_ID e) (s_CustomEngines st) then change_first (\<lambda>x. ce_ID x = ce_ID e) (\<lambda>_. e) (s_CustomEngines st)
      else s_CustomEngines st @ [e])\<rparr>"
| "effect now (CallEngineValidation i v err) st =
     st\<lparr>s_CustomEngines := change_first (\<lambda>x. ce_ID x = i) (validated_engine now v err) (s_CustomEngines st)\<rparr>"
| "effect now (CallDeleteEngine i) st = st\<lparr>s_CustomEngines := filter (\<lambda>e. ce_ID e \<noteq> i) (s_CustomEngines st)\<rparr>"
| "effect now (CallOnboarded b) st = st\<lparr>s_Onboarded := b\<rparr>"
| "effect now CallAcknowledge st = st\<lparr>s_RecipeLaunchGuidanceAck := True\<rparr>"
| "effect now (CallFirstLaunch x) st =
     (if x \<in> {FirstLaunchSetupInstall, FirstLaunchSetupManual}
      then st\<lparr>s_FirstLaunchSetup := x, s_EngineUnloaded := (x \<noteq> FirstLaunchSetupInstall)\<rparr> else st)"
| "effect now (CallDisplay p) st = st\<lparr>s_Display := p\<rparr>"
| "effect now (CallContract c) st = st\<lparr>s_InferenceAPI := Normalized c\<rparr>"
| "effect now (CallEngine i) st = st\<lparr>s_Engine := i\<rparr>"
| "effect now (CallEngineUnloaded b) st = st\<lparr>s_EngineUnloaded := b\<rparr>"
| "effect now (CallLocalRecipe i) st = st\<lparr>s_LocalRecipeID := i\<rparr>"
| "effect now (CallCommit r) st = with_runtime r st"
| "effect now (CallModel m) st = st\<lparr>s_Model := m\<rparr>"
| "effect now (CallExecutionMode m) st = st\<lparr>s_ExecutionMode := (if m = ''cluster'' then m else ''local'')\<rparr>"
| "effect now (CallProfile p) st = st\<lparr>s_Profile := p\<rparr>"
| "effect now (CallPins is) st = st\<lparr>s_Pinned := is, s_PinnedSet := True\<rparr>"
| "effect now (CallLocalNetwork b) st = st\<lparr>s_LocalNet := b, s_LocalNetSet := True\<rparr>"
| "effect now (CallPack i b) st = st\<lparr>s_InstalledPacks :=
     (if \<not> b then filter (\<lambda>p. p \<noteq> i) (s_InstalledPacks st)
      else if i \<in> set (s_InstalledPacks st) then s_InstalledPacks st else s_InstalledPacks st @ [i])\<rparr>"
| "effect now (CallPromotion p) st = st\<lparr>s_ModelPromotion := stamped_promotion now p\<rparr>"
| "effect now (CallDownload d) st = st\<lparr>s_ModelDownloads := put (md_ModelID d) (stamped_download now d) (s_ModelDownloads st)\<rparr>"
| "effect now (CallRemoveDownload i) st = st\<lparr>s_ModelDownloads := remove i (s_ModelDownloads st)\<rparr>"
| "effect now (CallUpsertModel m) st = st\<lparr>s_CustomModels := put (hm_ID m) m (s_CustomModels st)\<rparr>"
| "effect now (CallArtifact a) st =
     st\<lparr>s_ManagedEngineArtifacts := put (ma_EngineID a) (a\<lparr>ma_Updated := now\<rparr>) (s_ManagedEngineArtifacts st)\<rparr>"
| "effect now (CallEngineCmd e m args) st = st\<lparr>s_EngineCmds := put (cmdKey e m) args (s_EngineCmds st)\<rparr>"
| "effect now (CallClearEngineCmd e m) st = st\<lparr>s_EngineCmds := remove (cmdKey e m) (s_EngineCmds st)\<rparr>"
| "effect now (CallBegin op) st = st\<lparr>s_InferenceOperation := stamped_operation now op\<rparr>"
| "effect now (CallUpdate op) st =
     (if io_ID (s_InferenceOperation st) \<in> {io_ID op} - {''''}
      then st\<lparr>s_InferenceOperation := continued now (s_InferenceOperation st) op\<rparr> else st)"
| "effect now (CallClear i) st =
     (if io_ID (s_InferenceOperation st) \<in> {i} - {''''} then st\<lparr>s_InferenceOperation := zero_Operation\<rparr> else st)"
| "effect now (CallAddKey r n sc) st =
     (case r of Inl e \<Rightarrow> st
      | Inr (raw, idb) \<Rightarrow> st\<lparr>s_APIKeys := s_APIKeys st @ [new_key now n sc (key_secret raw) idb]\<rparr>)"
| "effect now (CallDeleteKey i) st = st\<lparr>s_APIKeys := filter (\<lambda>k. ak_ID k \<noteq> i) (s_APIKeys st)\<rparr>"
| "effect now (CallUsage i k ok p c) st =
     st\<lparr>s_APIKeys := change_first (\<lambda>x. ak_ID x = i) (used_key now k ok p c) (s_APIKeys st)\<rparr>"
| "effect now CallFlush st = st"
| "effect now (CallSetToken f t) st = st"
| "effect now CallClearToken st = st"

subsection \<open>What one call does to memory and disk\<close>

lemmas call_defs =
  SetRuntimeRestartAutomatic_def PrepareRuntimeRestartOffer_def ClearRuntimeRestartOffer_def UpsertCustomEngine_def
  SetCustomEngineValidation_def DeleteCustomEngine_def SetOnboarded_def AcknowledgeRecipeLaunchGuidance_def
  SetFirstLaunchSetup_def SetDisplayPreference_def SetInferenceContract_def SetEngine_def SetEngineUnloaded_def
  SetLocalRecipe_def CommitInferenceRuntime_def SetModel_def SetExecutionMode_def SetProfile_def SetPins_def
  SetLocalNetwork_def SetPackInstalled_def packs_after_def SetModelPromotion_def SetModelDownload_def RemoveModelDownload_def
  UpsertCustomModel_def SetManagedEngineArtifact_def SetEngineCmd_def ClearEngineCmd_def BeginInferenceOperation_def
  UpdateInferenceOperation_def ClearInferenceOperation_def AddAPIKey_def DeleteAPIKey_def

text \<open>The ways a call ends: \<open>refused\<close> (nothing happens), saved, or the save failed (rolled back or not).\<close>

inductive ends :: "(State \<Rightarrow> State) \<Rightarrow> StateStore \<Rightarrow> outcome \<Rightarrow> bool" for f s where
  ends_refused: "e = None \<Longrightarrow> f (ss_st s) = ss_st s \<Longrightarrow> ends f s (e, s)"
| ends_invalid: "ends f s (Some e, s)"
| ends_saved: "ss_persist s \<Longrightarrow> ends f s (None, s\<lparr>ss_st := f (ss_st s), ss_disk := Saved (f (ss_st s))\<rparr>)"
| ends_memory: "\<not> ss_persist s \<Longrightarrow> ends f s (None, s\<lparr>ss_st := f (ss_st s)\<rparr>)"
| ends_unsaved: "ends f s (Some e, s\<lparr>ss_st := f (ss_st s)\<rparr>)"

lemma ends_change [intro]: "f (ss_st s) = g (ss_st s) \<Longrightarrow> ends f s (change fault g s)"
  by (auto simp: change_def save_state_def set_state_def split: option.splits
        intro: ends_saved ends_memory ends_unsaved
        dest: sym intro!: ends.intros) 

lemma ends_transact [intro]:
  assumes "f (ss_st s) = g (ss_st s)" and "r (ss_st s) (g (ss_st s)) = ss_st s"
  shows "ends f s (transact fault g r s)"
proof (cases "fst (change fault g s)")
  case None
  moreover from assms(1) have "ends f s (change fault g s)" by (rule ends_change)
  ultimately show ?thesis
    by (cases "change fault g s") (simp add: transact_def)
next
  case (Some e)
  with assms have "transact fault g r s = (Some e, s)"
    by (auto simp: transact_def change_def save_state_def set_state_def split: option.splits if_splits)
  then show ?thesis by (simp add: ends_invalid)
qed

lemma change_first_absent: "\<not> list_ex p xs \<Longrightarrow> change_first p g xs = xs"
  by (induction xs) auto

lemma with_runtime_restore [simp]: "with_runtime (state_runtime st) (with_runtime r st) = st"
  by (simp add: with_runtime_def state_runtime_def)

fun bookkeeping :: "state_call \<Rightarrow> bool" where
  "bookkeeping (CallUsage i k ok p c) = True"
| "bookkeeping CallFlush = True"
| "bookkeeping (CallSetToken f t) = True"
| "bookkeeping CallClearToken = True"
| "bookkeeping _ = False"

lemma exec_ends: "\<not> bookkeeping c \<Longrightarrow> ends (effect now c) s (exec now fault c s)"
proof (cases c)
  case (CallAddKey r n sc)
  then show ?thesis by (auto simp: AddAPIKey_def Let_def split: sum.splits prod.splits intro: ends.intros)
qed (auto simp: call_defs restart_offer_def Let_def intro: ends_refused ends_invalid)

lemma usage_effect:
  "ss_st (RecordAPIUsageKind now i k ok p c s) = effect now (CallUsage i k ok p c) (ss_st s)"
  by (simp add: RecordAPIUsageKind_def set_state_def change_first_absent)

subsection \<open>The transition system\<close>

datatype state_label =
    Call string "string option" state_call "state_error option"
  | Reopen string "string option" "string option" "state_error option"

inductive state_step :: "StateStore \<Rightarrow> state_label \<Rightarrow> StateStore \<Rightarrow> bool" where
  step_call: "exec now fault c s = (e, t) \<Longrightarrow> state_step s (Call now fault c e) t"
| step_reopen: "OpenState now dir fault (ss_disk s) (ss_token s) = (e, t) \<Longrightarrow> state_step s (Reopen now dir fault e) t"

inductive_cases step_callE: "state_step s (Call now fault c e) t"
inductive_cases step_reopenE: "state_step s (Reopen now dir fault e) t"

text \<open>Where a call can leave the state in memory and on disk.\<close>

lemma exec_memory:
  assumes "exec now fault c s = (e, t)"
  shows "(ss_st t = ss_st s \<or> ss_st t = effect now c (ss_st s)) \<and> (ss_disk t = ss_disk s \<or> ss_disk t = Saved (ss_st t)) \<and>
    ss_persist t = ss_persist s"
proof (cases "bookkeeping c")
  case False
  then have "ends (effect now c) s (e, t)" using exec_ends [of c now s fault] assms by simp
  then show ?thesis by (cases rule: ends.cases) auto
next
  case True
  then show ?thesis
    using assms usage_effect [of now _ _ _ _ _ s]
    by (cases c) (auto simp: RecordAPIUsageKind_def set_state_def PersistIfDirty_def save_state_def change_first_absent
        SetHuggingFaceToken_def ClearHuggingFaceToken_def Let_def split: if_splits option.splits token_fault.splits token_file.splits)
qed

lemma OpenState_memory:
  assumes "OpenState now dir fault disk token = (e, t)"
  shows "(ss_st t \<in> {fresh_State now} \<or> disk = Saved (ss_st t) \<or> (\<exists>r. disk = Unreadable r \<and> ss_st t = zero_State)) \<and>
    (ss_disk t = disk \<or> ss_disk t = Saved (fresh_State now))"
  using assms by (auto simp: OpenState_def Let_def save_state_def split: option.splits state_file.splits if_splits)

lemma marshals_fresh [simp]: "state_marshals (fresh_State now)"
  by (simp add: state_marshals_def fresh_State_def zero_State_def)

text \<open>
  A property of the state that a fresh state has and that every allowed call keeps, whatever fails: it
  then holds in memory and on disk across every schedule of allowed calls and restarts.
\<close>

definition everywhere :: "(State \<Rightarrow> bool) \<Rightarrow> StateStore \<Rightarrow> bool" where
  "everywhere P s \<longleftrightarrow> P (ss_st s) \<and> (case ss_disk s of Saved d \<Rightarrow> P d | Unreadable _ \<Rightarrow> False | _ \<Rightarrow> True)"

fun of_kind :: "(state_call \<Rightarrow> bool) \<Rightarrow> state_label \<Rightarrow> bool" where
  "of_kind ok (Call now fault c e) = ok c"
| "of_kind ok (Reopen now dir fault e) = True"


locale kept_property =
  fixes P :: "State \<Rightarrow> bool" and ok :: "state_call \<Rightarrow> bool"
  assumes fresh: "P (fresh_State now)"
    and kept: "P st \<Longrightarrow> ok c \<Longrightarrow> P (effect now c st)"
begin

lemma everywhere_step:
  assumes "everywhere P s" "state_step s l t" "of_kind ok l"
  shows "everywhere P t"
  using assms(2)
proof cases
  case (step_call now fault c e)
  with assms exec_memory [OF step_call(2)] kept [of "ss_st s" c now] show ?thesis
    by (auto simp: everywhere_def split: state_file.splits)
next
  case (step_reopen now dir fault e)
  with assms(1) OpenState_memory [OF step_reopen(2)] fresh [of now] show ?thesis
    by (auto simp: everywhere_def split: state_file.splits)
qed

lemma everywhere_steps:
  "steps state_step s ls t \<Longrightarrow> everywhere P s \<Longrightarrow> \<forall>l \<in> set ls. of_kind ok l \<Longrightarrow> everywhere P t"
  by (induction rule: steps.induct) (auto dest: everywhere_step)

end

subsection \<open>Settings survive a crash\<close>

definition idle_key :: "APIKey \<Rightarrow> APIKey" where
  "idle_key k = k\<lparr>ak_LastUsed := '''', ak_Requests := 0, ak_Successes := 0, ak_Failures := 0, ak_PromptTokens := 0,
     ak_CompletionTokens := 0, ak_ModelRequests := 0, ak_AgentRequests := 0\<rparr>"

definition settings :: "State \<Rightarrow> State" where
  "settings st = st\<lparr>s_APIKeys := map idle_key (s_APIKeys st)\<rparr>"

lemma idle_key_used [simp]: "idle_key (used_key now k ok p c x) = idle_key x"
  by (simp add: idle_key_def used_key_def Let_def)

lemma idle_key_idle [simp]: "idle_key (idle_key k) = idle_key k"
  by (simp add: idle_key_def)

lemma idle_key_ID [simp]: "ak_ID (idle_key k) = ak_ID k"
  by (simp add: idle_key_def)

lemma map_idle_change_first [simp]:
  "map idle_key (change_first p (used_key now k ok q c) xs) = map idle_key xs"
  by (induction xs) auto

lemma settings_fields [simp]:
  "s_InferenceOperation (settings st) = s_InferenceOperation st" "s_EngineUnloaded (settings st) = s_EngineUnloaded st"
  "s_RuntimeRestartOffer (settings st) = s_RuntimeRestartOffer st" "s_CustomEngines (settings st) = s_CustomEngines st"
  "s_InstalledPacks (settings st) = s_InstalledPacks st" "s_ModelDownloads (settings st) = s_ModelDownloads st"
  "s_CustomModels (settings st) = s_CustomModels st" "s_ManagedEngineArtifacts (settings st) = s_ManagedEngineArtifacts st"
  "s_EngineCmds (settings st) = s_EngineCmds st" "s_AutomaticRuntimeRestart (settings st) = s_AutomaticRuntimeRestart st"
  "state_runtime (settings st) = state_runtime st" "s_APIKeys (settings st) = map idle_key (s_APIKeys st)"
  "settings (settings st) = settings st"
  by (simp_all add: settings_def state_runtime_def comp_def)












subsection \<open>A fresh installation stays inert\<close>

fun no_setup_choice :: "state_call \<Rightarrow> bool" where
  "no_setup_choice (CallFirstLaunch x) = (x \<noteq> FirstLaunchSetupInstall \<and> x \<noteq> FirstLaunchSetupManual)"
| "no_setup_choice _ = True"

lemma first_launch_kept: "no_setup_choice c \<Longrightarrow> s_FirstLaunchSetup (effect now c st) = s_FirstLaunchSetup st"
  by (cases c) (auto simp: restart_offer_def Let_def with_runtime_def split: sum.splits)

interpretation setup_pending: kept_property "\<lambda>st. s_FirstLaunchSetup st = FirstLaunchSetupPending" no_setup_choice
  by unfold_locales (auto simp: first_launch_kept fresh_State_def)

lemma open_fresh:
  assumes "OpenState now dir fault disk token = (e, s)" and "disk = NoFile \<or> disk = Corrupt" and "\<And>n. P (fresh_State n)"
  shows "everywhere P s"
  using assms by (auto simp: OpenState_def Let_def save_state_def everywhere_def split: option.splits state_file.splits)

text \<open>A new installation starts nothing by itself: until the user has chosen a first-launch setup, the choice is
  still required and startup provisioning is off, whatever else is called, whatever fails and however often the daemon
  restarts.\<close>

theorem fresh_install_inert:
  assumes "OpenState now dir fault disk token = (e, s)" and "disk = NoFile \<or> disk = Corrupt"
    and "steps state_step s ls t" and "\<forall>l \<in> set ls. of_kind no_setup_choice l"
  shows "FirstLaunchSetupRequired t \<and> \<not> StartupProvisioningEnabled t"
proof -
  have "everywhere (\<lambda>st. s_FirstLaunchSetup st = FirstLaunchSetupPending) s"
    using assms(1,2) by (rule open_fresh) (simp add: fresh_State_def)
  with assms(3,4) have "s_FirstLaunchSetup (ss_st t) = FirstLaunchSetupPending"
    using setup_pending.everywhere_steps by (auto simp: everywhere_def)
  then show ?thesis
    by (simp add: FirstLaunchSetupRequired_def FirstLaunchSetup_def StartupProvisioningEnabled_def state_names)
qed

subsection \<open>The inference journal\<close>

definition same_operation :: "InferenceOperation \<Rightarrow> InferenceOperation \<Rightarrow> bool" where
  "same_operation a b \<longleftrightarrow> io_ID a = io_ID b \<and> io_Action a = io_Action b \<and> io_TargetEngine a = io_TargetEngine b \<and>
     io_TargetModel a = io_TargetModel b \<and> io_TargetMode a = io_TargetMode b \<and> io_Previous a = io_Previous b \<and>
     io_Started a = io_Started b"

fun no_begin :: "state_call \<Rightarrow> bool" where
  "no_begin (CallBegin op) = False"
| "no_begin _ = True"

lemma operation_kept:
  "no_begin c \<Longrightarrow> s_InferenceOperation st = zero_Operation \<or> same_operation op (s_InferenceOperation st) \<Longrightarrow>
    s_InferenceOperation (effect now c st) = zero_Operation \<or> same_operation op (s_InferenceOperation (effect now c st))"
  by (cases c) (auto simp: restart_offer_def Let_def with_runtime_def same_operation_def continued_def zero_Operation_def
      split: sum.splits)

interpretation operation_identity: kept_property
    "\<lambda>st. s_InferenceOperation st = zero_Operation \<or> same_operation op (s_InferenceOperation st)" no_begin for op
  by unfold_locales (auto simp: operation_kept fresh_State_def zero_State_def)

text \<open>C40: between two calls of \<open>BeginInferenceOperation\<close> the journaled operation is the one that was begun, with the
  identifier, action, target, start time and previous runtime (the rollback) it was begun with, or it is cleared: no late
  writer replaces it, across failures and restarts.\<close>

theorem operation_keeps_rollback:
  assumes "BeginInferenceOperation now None op s = (None, s0)" and "ss_persist s"
    and "steps state_step s0 ls t" and "\<forall>l \<in> set ls. of_kind no_begin l"
  shows "s_InferenceOperation (ss_st t) = zero_Operation \<or>
    same_operation (stamped_operation now op) (s_InferenceOperation (ss_st t))"
proof -
  have "everywhere (\<lambda>st. s_InferenceOperation st = zero_Operation \<or>
      same_operation (stamped_operation now op) (s_InferenceOperation st)) s0"
    using assms(1,2)
    by (auto simp: BeginInferenceOperation_def change_def save_state_def set_state_def everywhere_def same_operation_def
        split: if_splits)
  from operation_identity.everywhere_steps [OF assms(3) this assms(4)] show ?thesis by (simp add: everywhere_def)
qed

subsection \<open>Restart offers\<close>

text \<open>An offer holds the exact runtime that was active: on the next start without automatic recovery the runtime is
  stopped behind an offer (asked again it does nothing), and accepting the offer (committing its runtime, clearing the
  offer) restores the state as it was, with no offer left.\<close>

theorem restart_offer_roundtrip:
  assumes "\<not> s_EngineUnloaded (ss_st s)" "io_ID (s_InferenceOperation (ss_st s)) = ''''" "\<not> RuntimeRestartAutomatic s"
    and "trim_space i \<noteq> ''''"
    and "PrepareRuntimeRestartOffer now None i s = (None, s1)"
    and "CommitInferenceRuntime None (ro_Runtime (s_RuntimeRestartOffer (ss_st s1))) s1 = (None, s2)"
    and "ClearRuntimeRestartOffer None i s2 = (None, s3)"
  shows "s_EngineUnloaded (ss_st s1) \<and> ro_Runtime (s_RuntimeRestartOffer (ss_st s1)) = state_runtime (ss_st s) \<and>
    PrepareRuntimeRestartOffer now' fault j s1 = (None, s1) \<and>
    ss_st s3 = (ss_st s)\<lparr>s_RuntimeRestartOffer := zero_Offer\<rparr>"
proof -
  have s1: "ss_st s1 = restart_offer now (trim_space i) (ss_st s)"
    using assms(1,2,4,5)
    by (auto simp: PrepareRuntimeRestartOffer_def Let_def transact_def change_def save_state_def set_state_def split: if_splits)
  have s2: "ss_st s2 = with_runtime (state_runtime (ss_st s)) (ss_st s1)"
    using assms(3,6)
    by (auto simp: s1 restart_offer_def Let_def RuntimeRestartAutomatic_def CommitInferenceRuntime_def transact_def
        change_def save_state_def set_state_def split: if_splits)
  have s3: "ss_st s3 = (ss_st s2)\<lparr>s_RuntimeRestartOffer := zero_Offer\<rparr>"
    using assms(3,4,7)
    by (auto simp: s2 s1 restart_offer_def Let_def RuntimeRestartAutomatic_def with_runtime_def ClearRuntimeRestartOffer_def
        transact_def change_def save_state_def set_state_def split: if_splits)
  show ?thesis
    using assms(1-4) s1 s2 s3
    by (simp add: restart_offer_def Let_def RuntimeRestartAutomatic_def PrepareRuntimeRestartOffer_def with_runtime_def
        state_runtime_def)
qed

subsection \<open>API keys\<close>

lemma find_filter_Some: "find p xs = Some x \<Longrightarrow> q x \<Longrightarrow> find p (filter q xs) = Some x"
  by (induction xs) (auto split: if_splits)



lemma saved_reopens:
  assumes "change fault g s = (None, t)" and "ss_persist s" and "OpenState now dir w (ss_disk t) token = (None, u)"
  shows "ss_st u = ss_st t"
  using assms
  by (auto simp: change_def save_state_def set_state_def OpenState_def Let_def split: if_splits option.splits)

lemma change_memory: "change fault g s = (e, t) \<Longrightarrow> ss_st t = g (ss_st s)"
  by (auto simp: change_def save_state_def set_state_def split: if_splits option.splits)

lemma key_secret_nonempty [simp]: "key_secret raw \<noteq> ''''"
  by (simp add: key_secret_def)

lemma scope_allows_iff:
  "scope_allows sc req \<longleftrightarrow> NormalizeAPIKeyScope sc \<in> {APIKeyScopeBoth, NormalizeAPIKeyScope req}"
  by (auto simp: scope_allows_def Let_def)


text \<open>A revoked key authenticates nothing any more, also after a restart when the save succeeded; every secret of
  another key authenticates as before.\<close>

theorem DeleteAPIKey_revokes:
  assumes run: "DeleteAPIKey fault kid s = (e, t)"
  shows "ValidateAPIKey secret t \<noteq> Some kid \<and>
    (\<forall>k. ValidateAPIKey secret s = Some k \<and> k \<noteq> kid \<longrightarrow> ValidateAPIKey secret t = Some k) \<and>
    (\<forall>u. e = None \<and> ss_persist s \<and> OpenState now dir w (ss_disk t) token = (None, u) \<longrightarrow> ValidateAPIKey secret u \<noteq> Some kid)"
proof -
  from run have keys: "s_APIKeys (ss_st t) = filter (\<lambda>k. ak_ID k \<noteq> kid) (s_APIKeys (ss_st s))"
    by (auto simp: DeleteAPIKey_def dest: change_memory)
  then have gone: "ValidateAPIKey secret t \<noteq> Some kid"
    by (auto simp: ValidateAPIKey_def dest: find_SomeD split: if_splits)
  moreover have "ValidateAPIKey secret t = Some k" if "ValidateAPIKey secret s = Some k" "k \<noteq> kid" for k
    using that by (auto simp: ValidateAPIKey_def keys find_filter_Some split: if_splits)
  moreover have "ValidateAPIKey secret u = ValidateAPIKey secret t"
    if "e = None" "ss_persist s" "OpenState now dir w (ss_disk t) token = (None, u)" for u
    using that run saved_reopens [of fault _ s t now dir w token u] by (simp add: DeleteAPIKey_def ValidateAPIKey_def)
  ultimately show ?thesis by auto
qed

subsection \<open>What the store does not guarantee\<close>

text \<open>When the save of a revocation fails, the caller gets the error, the key is refused in memory, and it is valid again
  after the next restart.\<close>

theorem failed_revocation_returns:
  assumes "ss_persist s" "state_marshals (ss_st s)" "ss_disk s = Saved (ss_st s)" "ValidateAPIKey secret s = Some kid"
  shows "\<exists>t u. DeleteAPIKey (Some x) kid s = (Some (WriteFailed x), t) \<and> ValidateAPIKey secret t \<noteq> Some kid \<and>
    OpenState now None w (ss_disk t) token = (None, u) \<and> ValidateAPIKey secret u = Some kid"
proof -
  let ?t = "set_state ((ss_st s)\<lparr>s_APIKeys := filter (\<lambda>k. ak_ID k \<noteq> kid) (s_APIKeys (ss_st s))\<rparr>) s"
  have "DeleteAPIKey (Some x) kid s = (Some (WriteFailed x), ?t)"
    using assms(1,2) by (simp add: DeleteAPIKey_def change_def save_state_def set_state_def state_marshals_def)
  moreover have "ValidateAPIKey secret ?t \<noteq> Some kid"
    by (auto simp: ValidateAPIKey_def set_state_def dest: find_SomeD split: if_splits)
  moreover obtain u where "OpenState now None w (ss_disk ?t) token = (None, u)" "ss_st u = ss_st s"
    using assms(3) by (simp add: OpenState_def Let_def set_state_def)
  moreover from this(2) have "ValidateAPIKey secret u = Some kid" using assms(4) by (metis ValidateAPIKey_def)
  ultimately show ?thesis by blast
qed

text \<open>A flush that fails is never retried: the counters stay in memory only and the next flush does nothing.\<close>

theorem failed_flush_not_retried:
  assumes "ss_persist s" "ss_dirty s"
  shows "ss_disk (PersistIfDirty (Some x) s) = ss_disk s \<and> ss_st (PersistIfDirty (Some x) s) = ss_st s \<and>
    PersistIfDirty fault (PersistIfDirty (Some x) s) = PersistIfDirty (Some x) s"
  using assms by (simp add: PersistIfDirty_def save_state_def)

text \<open>A state file that cannot be read opens as an empty store that persists: startup provisioning is on, and the next
  successful call replaces the file, and with it the keys and settings of the installation.\<close>

theorem unreadable_state_overwritten:
  assumes "OpenState now None fault (Unreadable x) token = (e, s)"
  shows "e = Some (ReadError x) \<and> StartupProvisioningEnabled s \<and>
    SetOnboarded None b s = (None, s\<lparr>ss_st := zero_State\<lparr>s_Onboarded := b\<rparr>, ss_disk := Saved (zero_State\<lparr>s_Onboarded := b\<rparr>)\<rparr>)"
  using assms
  by (auto simp: OpenState_def Let_def StartupProvisioningEnabled_def SetOnboarded_def change_def save_state_def
      set_state_def state_marshals_def zero_State_def)

subsection \<open>Witnesses\<close>

definition wit_state :: StateStore where
  "wit_state = \<lparr>ss_st = (fresh_State ''2026-01-01T00:00:00Z'')\<lparr>s_EngineUnloaded := False, s_Engine := ''vllm'', s_Model := ''m''\<rparr>,
     ss_persist = True, ss_firstRun = False, ss_dirty = False,
     ss_disk = Saved ((fresh_State ''2026-01-01T00:00:00Z'')\<lparr>s_EngineUnloaded := False, s_Engine := ''vllm'', s_Model := ''m''\<rparr>),
     ss_token = NoToken\<rparr>"

definition wit_key :: "nat list \<times> nat list" where
  "wit_key = (replicate 24 7, [1, 2, 3, 4, 5, 6])"

lemma wit_keys: "APIKeys wit_state = []" "ss_persist wit_state" "ss_disk wit_state = Saved (ss_st wit_state)"
  by (simp_all add: APIKeys_def wit_state_def fresh_State_def zero_State_def)


theorem fresh_install_inert_witness:
  "\<not> StartupProvisioningEnabled (snd (OpenState ''t'' None None NoFile NoToken))"
proof -
  define s where "s = snd (OpenState ''t'' None None NoFile NoToken)"
  have "OpenState ''t'' None None NoFile NoToken = (None, s)" by (simp add: s_def OpenState_def Let_def)
  from fresh_install_inert [OF this _ steps_Nil] show ?thesis by (simp add: s_def)
qed

definition wit_operation :: InferenceOperation where
  "wit_operation = zero_Operation\<lparr>io_ID := ''op'', io_Action := ''load'', io_TargetModel := ''m''\<rparr>"

theorem operation_keeps_rollback_witness:
  "\<exists>s0. BeginInferenceOperation ''t'' None wit_operation wit_state = (None, s0) \<and>
     same_operation (stamped_operation ''t'' wit_operation) (s_InferenceOperation (ss_st s0))"
proof -
  define s0 where "s0 = snd (BeginInferenceOperation ''t'' None wit_operation wit_state)"
  have run: "BeginInferenceOperation ''t'' None wit_operation wit_state = (None, s0)"
    by (simp add: s0_def BeginInferenceOperation_def change_def save_state_def wit_state_def set_state_def state_marshals_def
        fresh_State_def zero_State_def)
  have "io_ID (s_InferenceOperation (ss_st s0)) = ''op''"
    by (simp add: s0_def BeginInferenceOperation_def change_def save_state_def wit_state_def set_state_def state_marshals_def
        fresh_State_def zero_State_def stamped_operation_def wit_operation_def Let_def)
  then have "s_InferenceOperation (ss_st s0) \<noteq> zero_Operation" by (auto simp: zero_Operation_def)
  with operation_keeps_rollback [OF run wit_keys(2) steps_Nil] run show ?thesis by auto
qed

theorem restart_offer_roundtrip_witness:
  "\<exists>s1 s2 s3. PrepareRuntimeRestartOffer ''t'' None ''boot-2'' wit_state = (None, s1) \<and> s_EngineUnloaded (ss_st s1) \<and>
     CommitInferenceRuntime None (ro_Runtime (s_RuntimeRestartOffer (ss_st s1))) s1 = (None, s2) \<and>
     ClearRuntimeRestartOffer None ''boot-2'' s2 = (None, s3) \<and>
     ss_st s3 = (ss_st wit_state)\<lparr>s_RuntimeRestartOffer := zero_Offer\<rparr>"
proof -
  define s1 where "s1 = snd (PrepareRuntimeRestartOffer ''t'' None ''boot-2'' wit_state)"
  define s2 where "s2 = snd (CommitInferenceRuntime None (ro_Runtime (s_RuntimeRestartOffer (ss_st s1))) s1)"
  define s3 where "s3 = snd (ClearRuntimeRestartOffer None ''boot-2'' s2)"
  have c: "fst (PrepareRuntimeRestartOffer ''t'' None ''boot-2'' wit_state) = None"
    "fst (CommitInferenceRuntime None (ro_Runtime (s_RuntimeRestartOffer (ss_st s1))) s1) = None"
    "fst (ClearRuntimeRestartOffer None ''boot-2'' s2) = None"
    unfolding s1_def s2_def by code_simp+
  have h: "\<not> s_EngineUnloaded (ss_st wit_state)" "io_ID (s_InferenceOperation (ss_st wit_state)) = ''''"
    "\<not> RuntimeRestartAutomatic wit_state" "trim_space ''boot-2'' \<noteq> ''''"
    by code_simp+
  have r: "PrepareRuntimeRestartOffer ''t'' None ''boot-2'' wit_state = (None, s1)"
    "CommitInferenceRuntime None (ro_Runtime (s_RuntimeRestartOffer (ss_st s1))) s1 = (None, s2)"
    "ClearRuntimeRestartOffer None ''boot-2'' s2 = (None, s3)"
    using c by (simp_all add: s1_def s2_def s3_def prod_eq_iff)
  from restart_offer_roundtrip [OF h r] r show ?thesis by blast
qed


theorem DeleteAPIKey_revokes_witness:
  "ValidateAPIKey ''sk'' (snd (DeleteAPIKey None ''k1'' wit_state)) \<noteq> Some ''k1''"
  using DeleteAPIKey_revokes [of None "''k1''" wit_state "fst (DeleteAPIKey None ''k1'' wit_state)"
      "snd (DeleteAPIKey None ''k1'' wit_state)"] by simp

theorem failed_revocation_returns_witness:
  "\<exists>s t u kid. ValidateAPIKey (key_secret (fst wit_key)) s = Some kid \<and> DeleteAPIKey (Some ''disk full'') kid s = (Some (WriteFailed ''disk full''), t) \<and>
     OpenState ''t'' None None (ss_disk t) NoToken = (None, u) \<and> ValidateAPIKey (key_secret (fst wit_key)) u = Some kid"
proof -
  let ?key = "new_key ''t'' ''cli'' None (key_secret (fst wit_key)) (snd wit_key)"
  let ?st = "zero_State\<lparr>s_APIKeys := [?key]\<rparr>"
  define s where "s = wit_state\<lparr>ss_st := ?st, ss_disk := Saved ?st\<rparr>"
  have h: "ss_persist s" "state_marshals (ss_st s)" "ss_disk s = Saved (ss_st s)"
    by (simp_all add: s_def wit_state_def state_marshals_def zero_State_def)
  have v: "ValidateAPIKey (key_secret (fst wit_key)) s = Some (ak_ID ?key)"
    by (simp add: s_def ValidateAPIKey_def new_key_def zero_APIKey_def)
  from failed_revocation_returns [OF h v] v show ?thesis by blast
qed

theorem unreadable_state_overwritten_witness:
  "StartupProvisioningEnabled (snd (OpenState ''t'' None None (Unreadable ''EIO'') NoToken))"
  using unreadable_state_overwritten [of "''t''" None "''EIO''" NoToken "fst (OpenState ''t'' None None (Unreadable ''EIO'') NoToken)"
      "snd (OpenState ''t'' None None (Unreadable ''EIO'') NoToken)"] by simp

end
