(* ===== verification/EnginePolicy.thy ===== *)
theory EnginePolicy
  imports GoPath
begin

text \<open>
  \<open>internal/platform/platform.go\<close> and \<open>internal/engine/policy.go\<close>: which containers, volumes and
  images the privileged container broker admits. What the code reads of the host (environment
  variables, working and temporary directory, file metadata and identity files) is one record; a Go
  error that is nil is \<open>None\<close>.
\<close>

datatype file_kind = Regular | Directory | Symlink | OtherFile

datatype file_stat = Missing | StatError string | File file_kind nat

record host =
  h_env :: "string \<Rightarrow> string"
  h_cwd :: "string option"
  h_tmp :: string
  h_lstat :: "string \<Rightarrow> file_stat"
  h_read :: "string \<Rightarrow> string option"

subsection \<open>Errors\<close>

text \<open>A list of checks in the order of the code: the first error is returned.\<close>

definition checks :: "'e option list \<Rightarrow> 'e option" where
  "checks cs = first_error (\<lambda>c. c) cs"

definition fail_if :: "bool \<Rightarrow> 'e \<Rightarrow> 'e option" where
  "fail_if bad e = (if bad then Some e else None)"

lemma checks_None [simp]: "checks cs = None \<longleftrightarrow> (\<forall>c \<in> set cs. c = None)"
  by (simp add: checks_def)

lemma fail_if_None [simp]: "fail_if b e = None \<longleftrightarrow> \<not> b"
  by (simp add: fail_if_def)

datatype engine_error =
    OutsideNamespace string string
  | BadImageReference
  | BadNetwork string
  | BadPort
  | BadVolume
  | BadMountTarget string
  | DockerSocketMount
  | BadVolumeSource string
  | VolumeNotCanonical string
  | VolumeSymlink string string
  | OutsideStorage string
  | SecretOutside
  | SecretInspect string
  | SecretNotRegular
  | SecretNotOwnerOnly
  | BadEnvironmentName string
  | BadSecurityOption string
  | BadCapability string
  | BadUlimit string
  | BadIPC string
  | BadPids
  | BadShm
  | BadTmpfs string
  | BadDevice string
  | BadExtraHost string
  | BadEntrypoint
  | BadUser
  | BadArgument
  | BadBuildImage
  | BuildOutside
  | BuildInspect string
  | BuildNotDirectory
  | BuildSymlink string
  | BadGPU

subsection \<open>The platform\<close>

text \<open>
  \<open>strings.ToLower\<close> as far as its result is compared with ASCII text: U+0130 and U+212A become \<open>i\<close> and
  \<open>k\<close>; every other byte from 128 on stays in a sequence that is not ASCII.
\<close>

fun to_lower_text :: "string \<Rightarrow> string" where
  "to_lower_text [] = []"
| "to_lower_text (c # s) =
     (if has_prefix (c # s) [CHR 0xE2, CHR 0x84, CHR 0xAA] then CHR ''k'' # to_lower_text (drop 2 s)
      else if has_prefix (c # s) [CHR 0xC4, CHR 0xB0] then CHR ''i'' # to_lower_text (drop 1 s)
      else to_lower_char c # to_lower_text s)"

definition Generic :: string where "Generic = ''generic''"
definition DGXSpark :: string where "DGXSpark = ''dgx-spark''"
definition GPUDocker :: string where "GPUDocker = ''docker''"
definition GPUCDI :: string where "GPUCDI = ''cdi''"

definition identityFiles :: "string list" where
  "identityFiles = [''etc/dgx-release'', ''proc/device-tree/model'', ''sys/firmware/devicetree/base/model'',
     ''sys/devices/virtual/dmi/id/product_name'']"

definition spark_identity :: "string \<Rightarrow> bool" where
  "spark_identity content =
     (let identity = to_lower_text (map (\<lambda>c. if c = CHR 0x00 then CHR 0x0A else c) content)
      in list_ex (contains identity) [''dgx spark'', ''dgx-spark'', ''dgx_spark'', ''gb10''])"

definition DetectAt :: "host \<Rightarrow> string \<Rightarrow> string" where
  "DetectAt h root =
     (if list_ex (\<lambda>n. case h_read h (Join root n) of None \<Rightarrow> False | Some c \<Rightarrow> spark_identity c) identityFiles
      then DGXSpark else Generic)"

definition Detect :: "host \<Rightarrow> string" where
  "Detect h =
     (let value = trim_space (h_env h ''CLOUDLESS_PLATFORM'')
      in if value \<noteq> '''' then to_lower_text value else DetectAt h ''/'')"

definition IsDGXSpark :: "host \<Rightarrow> bool" where
  "IsDGXSpark h \<longleftrightarrow> Detect h = DGXSpark"

definition Architecture :: "string \<Rightarrow> host \<Rightarrow> string" where
  "Architecture goarch h =
     (let value = trim_space (h_env h ''CLOUDLESS_ARCH'') in if value \<noteq> '''' then to_lower_text value else goarch)"

definition GPUContainerMode :: "host \<Rightarrow> string" where
  "GPUContainerMode h =
     (let mode = to_lower_text (trim_space (h_env h ''CLOUDLESS_GPU_MODE''))
      in if mode = GPUCDI then GPUCDI else if mode = GPUDocker then GPUDocker
         else if IsDGXSpark h then GPUCDI else GPUDocker)"

subsection \<open>Patterns\<close>

abbreviation is_word :: "char \<Rightarrow> bool" where
  "is_word c \<equiv> is_alnum c \<or> c = CHR ''_''"

definition name_char :: "char \<Rightarrow> bool" where
  "name_char c \<longleftrightarrow> is_lower c \<or> is_digit c \<or> c \<in> set ''_.-''"

text \<open>\<open>-[a-z0-9][a-z0-9_.-]{0,118}\<close>, the part of a managed name after \<open>cloudless\<close>.\<close>

definition name_suffix :: "string \<Rightarrow> bool" where
  "name_suffix s = (case s of
       d # c # cs \<Rightarrow> d = CHR ''-'' \<and> (is_lower c \<or> is_digit c) \<and> list_all name_char cs \<and> length cs \<le> 118
     | _ \<Rightarrow> False)"

definition managedRuntimeName :: "string \<Rightarrow> bool" where
  "managedRuntimeName s \<longleftrightarrow> has_prefix s ''cloudless'' \<and>
     (trim_prefix s ''cloudless'' = '''' \<or> name_suffix (trim_prefix s ''cloudless''))"

definition managedVolumeName :: "string \<Rightarrow> bool" where
  "managedVolumeName s \<longleftrightarrow> has_prefix s ''cloudless'' \<and> name_suffix (trim_prefix s ''cloudless'')"

definition imageReference :: "string \<Rightarrow> bool" where
  "imageReference s = (case s of [] \<Rightarrow> False
     | c # cs \<Rightarrow> is_alnum c \<and> list_all (\<lambda>x. is_alnum x \<or> x \<in> set ''._/:@+-'') cs \<and> length cs \<le> 511)"

definition environmentName :: "string \<Rightarrow> bool" where
  "environmentName s = (case s of [] \<Rightarrow> False
     | c # cs \<Rightarrow> is_word c \<and> \<not> is_digit c \<and> list_all is_word cs \<and> length cs \<le> 127)"

definition signed_digits :: "string \<Rightarrow> bool" where
  "signed_digits s = (let ds = trim_prefix s ''-'' in ds \<noteq> '''' \<and> list_all is_digit ds)"

definition ulimitValue :: "string \<Rightarrow> bool" where
  "ulimitValue s \<longleftrightarrow> list_ex (\<lambda>p. has_prefix s p \<and>
       (let parts = split_on CHR '':'' (trim_prefix s p) in length parts \<le> 2 \<and> list_all signed_digits parts))
     [''memlock='', ''stack='']"

definition positive_digits :: "string \<Rightarrow> bool" where
  "positive_digits s = (case s of [] \<Rightarrow> False | c # cs \<Rightarrow> is_digit c \<and> c \<noteq> CHR ''0'' \<and> list_all is_digit cs)"

definition sizeValue :: "string \<Rightarrow> bool" where
  "sizeValue s \<longleftrightarrow> positive_digits s \<or> (s \<noteq> '''' \<and> last s \<in> set ''kKmMgG'' \<and> positive_digits (butlast s))"

definition labelValue :: "string \<Rightarrow> bool" where
  "labelValue s = (case s of [] \<Rightarrow> False
     | c # cs \<Rightarrow> is_alnum c \<and> list_all (\<lambda>x. is_word x \<or> x \<in> set ''.:-'') cs \<and> length cs \<le> 191)"

definition capabilityName :: "string \<Rightarrow> bool" where
  "capabilityName s \<longleftrightarrow> s = ''ALL'' \<or> (case s of [] \<Rightarrow> False
     | c # cs \<Rightarrow> is_upper c \<and> list_all (\<lambda>x. is_upper x \<or> is_digit x \<or> x = CHR ''_'') cs \<and> length cs \<le> 63)"

definition unprivilegedUser :: "string \<Rightarrow> bool" where
  "unprivilegedUser s = (let parts = split_on CHR '':'' s in length parts = 2 \<and> list_all positive_digits parts)"

subsection \<open>Paths on the host\<close>

definition envPath :: "host \<Rightarrow> string \<Rightarrow> string \<Rightarrow> string" where
  "envPath h name fallback = (let value = trim_space (h_env h name) in if value \<noteq> '''' then value else fallback)"

definition state_dir :: "host \<Rightarrow> string" where
  "state_dir h = envPath h ''CLOUDLESS_STATE_DIR'' ''/var/lib/cloudless''"

definition allowedHostRoots :: "host \<Rightarrow> string list" where
  "allowedHostRoots h =
     map Clean (List.map_filter (Abs (h_cwd h))
       [state_dir h, envPath h ''CLOUDLESS_HOME'' ''/home/cloudless/Cloudless'',
        Join (envPath h ''CLOUDLESS_DESKTOP_HOME'' ''/home/cloudless'') ''Downloads''])"

text \<open>The components of a path below a root, in order: an error of \<open>Lstat\<close>, or a symbolic link.\<close>

fun walk :: "(string \<Rightarrow> file_stat) \<Rightarrow> string \<Rightarrow> string list \<Rightarrow> string option" where
  "walk lstat current [] = None"
| "walk lstat current (part # parts) =
     (let next' = (if part = ''.'' then current else Join current part)
      in case lstat next' of
           Missing \<Rightarrow> None
         | StatError e \<Rightarrow> Some e
         | File kind perm \<Rightarrow> if kind = Symlink then Some ''must not traverse a symlink'' else walk lstat next' parts)"

definition rejectSymlinkComponents :: "host \<Rightarrow> string \<Rightarrow> string \<Rightarrow> string option" where
  "rejectSymlinkComponents h root path =
     (case Rel root path of
        None \<Rightarrow> Some ''Rel''
      | Some relative \<Rightarrow>
          walk (h_lstat h) root (''.'' # (if relative = ''.'' then [] else split_on CHR ''/'' relative)))"

definition HuggingFaceTokenContainerPath :: string where
  "HuggingFaceTokenContainerPath = ''/run/secrets/cloudless-huggingface-token''"

definition owner_only :: "nat \<Rightarrow> bool" where
  "owner_only perm \<longleftrightarrow> perm mod 64 = 0"

definition validateSecretFile :: "host \<Rightarrow> string \<Rightarrow> string \<Rightarrow> engine_error option" where
  "validateSecretFile h source0 target0 =
     (let source = trim_space source0; target = trim_space target0
      in if source \<noteq> Join (state_dir h) ''huggingface-token'' \<or> target \<noteq> HuggingFaceTokenContainerPath
         then Some SecretOutside
         else case h_lstat h source of
                Missing \<Rightarrow> Some (SecretInspect ''not exist'')
              | StatError e \<Rightarrow> Some (SecretInspect e)
              | File kind perm \<Rightarrow>
                  if kind \<noteq> Regular then Some SecretNotRegular
                  else if \<not> owner_only perm then Some SecretNotOwnerOnly else None)"

definition validateVolume :: "host \<Rightarrow> string \<Rightarrow> string \<Rightarrow> engine_error option" where
  "validateVolume h source0 target0 =
     (let source = trim_space source0; target = trim_space target0; targetPath = before CHR '':'' target
      in if source = '''' \<or> target = '''' \<or> CHR 0x00 \<in> set (source @ target) then Some BadVolume
         else if \<not> IsAbs targetPath \<or> Clean targetPath \<noteq> targetPath then Some (BadMountTarget target)
         else if targetPath = ''/var/run/docker.sock'' \<or> targetPath = ''/run/docker.sock'' then Some DockerSocketMount
         else if managedVolumeName source then None
         else if \<not> IsAbs source then Some (BadVolumeSource source)
         else if Clean source \<noteq> source then Some (VolumeNotCanonical source)
         else case find (\<lambda>root. pathWithin source root) (allowedHostRoots h) of
                None \<Rightarrow> Some (OutsideStorage source)
              | Some root \<Rightarrow> map_option (VolumeSymlink source) (rejectSymlinkComponents h root source))"

definition validateBuild :: "host \<Rightarrow> string \<Rightarrow> string \<Rightarrow> engine_error option" where
  "validateBuild h img contextDir =
     (let clean = Clean (trim_space contextDir)
      in if \<not> imageReference (trim_space img) then Some BadBuildImage
         else if \<not> has_prefix (Base clean) ''cloudless-build-'' then Some BuildOutside
         else case find (\<lambda>c. pathWithin clean c \<and> clean \<noteq> c) [Clean (h_tmp h), Join (state_dir h) ''builds''] of
                None \<Rightarrow> Some BuildOutside
              | Some root \<Rightarrow>
                  if root = '''' then Some BuildOutside
                  else (case h_lstat h clean of
                          Missing \<Rightarrow> Some (BuildInspect ''not exist'')
                        | StatError e \<Rightarrow> Some (BuildInspect e)
                        | File kind perm \<Rightarrow>
                            if kind \<noteq> Directory then Some BuildNotDirectory
                            else map_option BuildSymlink (rejectSymlinkComponents h root clean)))"

subsection \<open>Container specifications\<close>

record RunSpec =
  rs_Name :: string
  rs_Image :: string
  rs_RestartPolicy :: string
  rs_Ports :: "(int, int) gomap"
  rs_Env :: "(string, string) gomap"
  rs_Labels :: "(string, string) gomap"
  rs_Volumes :: "(string, string) gomap"
  rs_SecretFiles :: "(string, string) gomap"
  rs_GPUs :: string
  rs_Network :: string
  rs_NetworkAlias :: string
  rs_IPC :: string
  rs_Ulimits :: "string list"
  rs_ExtraHosts :: "string list"
  rs_EntryPoint :: string
  rs_User :: string
  rs_Args :: "string list"
  rs_ReadOnly :: bool
  rs_CapAdd :: "string list"
  rs_CapDrop :: "string list"
  rs_SecurityOpts :: "string list"
  rs_Tmpfs :: "string list"
  rs_PidsLimit :: int
  rs_ShmSize :: string
  rs_Devices :: "string list"

definition validateManagedName :: "string \<Rightarrow> string \<Rightarrow> engine_error option" where
  "validateManagedName kind name = fail_if (\<not> managedRuntimeName (trim_space name)) (OutsideNamespace kind name)"

definition validateNetwork :: "RunSpec \<Rightarrow> engine_error option" where
  "validateNetwork spec = checks [
     fail_if (rs_Network spec \<notin> {'''', ''host'', ''none'', ''bridge''} \<and> \<not> managedRuntimeName (rs_Network spec))
       (BadNetwork (rs_Network spec)),
     fail_if (rs_NetworkAlias spec \<noteq> '''' \<and> \<not> managedRuntimeName (rs_NetworkAlias spec))
       (BadNetwork (rs_NetworkAlias spec))]"

definition bad_port :: "int \<Rightarrow> bool" where
  "bad_port p \<longleftrightarrow> p < 1 \<or> p > 65535"

definition bad_user :: "string \<Rightarrow> bool" where
  "bad_user u \<longleftrightarrow> u \<noteq> '''' \<and> u \<noteq> ''0'' \<and> \<not> unprivilegedUser u"

definition ValidateRunSpec :: "host \<Rightarrow> RunSpec \<Rightarrow> engine_error option" where
  "ValidateRunSpec h spec = checks [
     fail_if (\<not> managedRuntimeName (rs_Name spec)) (OutsideNamespace ''container name'' (rs_Name spec)),
     fail_if (\<not> imageReference (trim_space (rs_Image spec))) BadImageReference,
     validateNetwork spec,
     first_error (\<lambda>(a, b). fail_if (bad_port a \<or> bad_port b) BadPort) (rs_Ports spec),
     first_error (\<lambda>(a, b). validateVolume h a b) (rs_Volumes spec),
     first_error (\<lambda>(a, b). validateSecretFile h a b) (rs_SecretFiles spec),
     first_error (\<lambda>(n, v). fail_if (\<not> environmentName n) (BadEnvironmentName n)) (rs_Env spec),
     first_error (\<lambda>o'. fail_if (trim_space o' \<noteq> ''no-new-privileges:true'') (BadSecurityOption o')) (rs_SecurityOpts spec),
     first_error (\<lambda>c. fail_if (\<not> capabilityName (trim_space c)) (BadCapability c)) (rs_CapAdd spec @ rs_CapDrop spec),
     first_error (\<lambda>l. fail_if (\<not> ulimitValue (trim_space l)) (BadUlimit l)) (rs_Ulimits spec),
     fail_if (rs_IPC spec \<notin> {'''', ''host'', ''private'', ''shareable''}) (BadIPC (rs_IPC spec)),
     fail_if (rs_PidsLimit spec < 0 \<or> rs_PidsLimit spec > 262144) BadPids,
     fail_if (rs_ShmSize spec \<noteq> '''' \<and> \<not> sizeValue (trim_space (rs_ShmSize spec))) BadShm,
     first_error (\<lambda>t. let target = before CHR '':'' (trim_space t)
       in fail_if (target \<noteq> ''/tmp'' \<and> target \<noteq> ''/run'') (BadTmpfs target)) (rs_Tmpfs spec),
     first_error (\<lambda>d. fail_if (trim_space d \<noteq> ''/dev/infiniband:/dev/infiniband'') (BadDevice d)) (rs_Devices spec),
     first_error (\<lambda>x. fail_if (trim_space x \<noteq> ''host.docker.internal:host-gateway'') (BadExtraHost x)) (rs_ExtraHosts spec),
     fail_if (CHR 0x00 \<in> set (rs_EntryPoint spec)) BadEntrypoint,
     fail_if (bad_user (rs_User spec)) BadUser,
     first_error (\<lambda>a. fail_if (CHR 0x00 \<in> set a) BadArgument) (rs_Args spec)]"

definition validateGPURequest :: "string \<Rightarrow> engine_error option" where
  "validateGPURequest value0 =
     (let value' = trim_space value0
      in if value' = '''' \<or> value' = ''all'' then None
         else first_error (\<lambda>item. let (index, ok) = atoi (trim_space item)
                in fail_if (\<not> ok \<or> index < 0 \<or> index > 255) BadGPU) (split_on CHR '','' value'))"

end
