(* ===== verification/DockerArgs.thy ===== *)
theory DockerArgs
  imports EnginePolicy
begin

text \<open>
  \<open>internal/engine/docker.go\<close>: the argument vectors of \<open>docker run\<close> and the command line of the preview.
\<close>

subsection \<open>Arguments of docker run\<close>

definition restart_policy :: "string \<Rightarrow> string" where
  "restart_policy policy =
     (let p = trim_space policy in if p \<in> {''no'', ''on-failure'', ''unless-stopped''} then p else ''unless-stopped'')"

definition sortedKeys :: "(string, 'v) gomap \<Rightarrow> string list" where
  "sortedKeys m = sort (keys m)"

definition sortedNonEmpty :: "string list \<Rightarrow> string list" where
  "sortedNonEmpty values = sort (filter (\<lambda>v. v \<noteq> '''') (map trim_space values))"

definition get_or :: "'v \<Rightarrow> ('k, 'v) gomap \<Rightarrow> 'k \<Rightarrow> 'v" where
  "get_or d m k = (case lookup m k of None \<Rightarrow> d | Some v \<Rightarrow> v)"

definition flag_each :: "string \<Rightarrow> string list \<Rightarrow> string list" where
  "flag_each name values = concat (map (\<lambda>v. [name, v]) values)"

definition gpu_args :: "bool \<Rightarrow> string \<Rightarrow> string list" where
  "gpu_args cdi gpus =
     (if gpus = '''' then []
      else if cdi then flag_each ''--device''
             (map (\<lambda>g. ''nvidia.com/gpu='' @ g) (filter (\<lambda>g. g \<noteq> '''') (map trim_space (split_on CHR '','' gpus))))
      else [''--gpus'', gpus])"

definition network_args :: "RunSpec \<Rightarrow> string list" where
  "network_args spec =
     (if rs_Network spec = '''' then []
      else [''--network'', rs_Network spec] @
        (if rs_Network spec \<noteq> ''host'' \<and> rs_NetworkAlias spec \<noteq> '''' then [''--network-alias'', rs_NetworkAlias spec] else []))"

definition port_args :: "RunSpec \<Rightarrow> string list" where
  "port_args spec =
     (if rs_Network spec = ''host'' then []
      else flag_each ''-p'' (map (\<lambda>p. ''127.0.0.1:'' @ itoa p @ '':'' @ itoa (get_or 0 (rs_Ports spec) p)) (sort (keys (rs_Ports spec)))))"

definition pairs :: "string \<Rightarrow> (string, string) gomap \<Rightarrow> string list" where
  "pairs sep m = map (\<lambda>k. k @ sep @ get_or '''' m k) (sortedKeys m)"

text \<open>The options between the restart policy and the image.\<close>

definition run_settings :: "bool \<Rightarrow> RunSpec \<Rightarrow> string list" where
  "run_settings cdi spec =
     (if rs_User spec \<noteq> '''' then [''--user'', rs_User spec] else []) @
     (if rs_ReadOnly spec then [''--read-only''] else []) @
     (if rs_PidsLimit spec > 0 then [''--pids-limit'', itoa (rs_PidsLimit spec)] else []) @
     (if trim_space (rs_ShmSize spec) \<noteq> '''' then [''--shm-size'', trim_space (rs_ShmSize spec)] else []) @
     flag_each ''--cap-drop'' (sortedNonEmpty (rs_CapDrop spec)) @
     flag_each ''--cap-add'' (sortedNonEmpty (rs_CapAdd spec)) @
     flag_each ''--security-opt'' (sortedNonEmpty (rs_SecurityOpts spec)) @
     flag_each ''--tmpfs'' (sortedNonEmpty (rs_Tmpfs spec)) @
     gpu_args cdi (rs_GPUs spec) @
     flag_each ''--device'' (sortedNonEmpty (rs_Devices spec)) @
     network_args spec @
     (if rs_IPC spec \<noteq> '''' then [''--ipc'', rs_IPC spec] else []) @
     flag_each ''--ulimit'' (filter (\<lambda>l. trim_space l \<noteq> '''') (rs_Ulimits spec)) @
     flag_each ''--add-host'' (filter (\<lambda>x. trim_space x \<noteq> '''') (rs_ExtraHosts spec)) @
     port_args spec @
     flag_each ''-e'' (pairs ''='' (rs_Env spec)) @
     flag_each ''--label'' (map (\<lambda>k. k @ ''='' @ get_or '''' (rs_Labels spec) k) (filter (\<lambda>k. trim_space k \<noteq> '''') (sortedKeys (rs_Labels spec)))) @
     flag_each ''-v'' (pairs '':'' (rs_Volumes spec)) @
     flag_each ''--mount'' (map (\<lambda>k. ''type=bind,src='' @ k @ '',dst='' @ get_or '''' (rs_SecretFiles spec) k @ '',readonly'')
       (sortedKeys (rs_SecretFiles spec))) @
     (if trim_space (rs_EntryPoint spec) \<noteq> '''' then [''--entrypoint'', rs_EntryPoint spec] else [])"

definition runArgs :: "bool \<Rightarrow> RunSpec \<Rightarrow> string list" where
  "runArgs cdi spec =
     [''run'', ''-d'', ''--name'', rs_Name spec, ''--restart'', restart_policy (rs_RestartPolicy spec)] @
     run_settings cdi spec @ rs_Image spec # rs_Args spec"

definition RunArguments :: "host \<Rightarrow> RunSpec \<Rightarrow> engine_error + string list" where
  "RunArguments h spec =
     (case checks [ValidateRunSpec h spec, validateGPURequest (rs_GPUs spec)] of
        Some e \<Rightarrow> Inl e | None \<Rightarrow> Inr (runArgs (GPUContainerMode h = GPUCDI) spec))"

definition transientArgs :: "bool \<Rightarrow> RunSpec \<Rightarrow> string list" where
  "transientArgs cdi spec = [''run'', ''--rm'', ''--name'', rs_Name spec] @ drop 6 (runArgs cdi spec)"

subsection \<open>The command line of the preview\<close>

definition shell_quoted :: "string \<Rightarrow> bool" where
  "shell_quoted a \<longleftrightarrow> a = '''' \<or> contains_any a [CHR '' '', CHR 0x09, CHR 0x0A, CHR 0x22, CHR 0x27]"

definition escape_quotes :: "string \<Rightarrow> string" where
  "escape_quotes a = concat (map (\<lambda>c. if c = CHR 0x22 then [CHR 0x5C, CHR 0x22] else [c]) a)"

definition shell_token :: "string \<Rightarrow> string" where
  "shell_token a = (if shell_quoted a then CHR 0x22 # escape_quotes a @ [CHR 0x22] else a)"

fun join_space :: "string list \<Rightarrow> string" where
  "join_space [] = ''''"
| "join_space [a] = a"
| "join_space (a # as) = a @ CHR '' '' # join_space as"

definition ShellJoin :: "string list \<Rightarrow> string" where
  "ShellJoin argv = join_space (map shell_token argv)"

text \<open>The state of the tokenizer: tokens so far, current token (None outside one), open quote, escape.\<close>

record shell =
  sh_out :: "string list"
  sh_cur :: string
  sh_inTok :: bool
  sh_quote :: "char option"
  sh_esc :: bool

definition shell_start :: shell where
  "shell_start = \<lparr>sh_out = [], sh_cur = '''', sh_inTok = False, sh_quote = None, sh_esc = False\<rparr>"

definition shell_flush :: "shell \<Rightarrow> shell" where
  "shell_flush s = (if sh_inTok s then s\<lparr>sh_out := sh_out s @ [sh_cur s], sh_cur := '''', sh_inTok := False\<rparr> else s)"

definition shell_push :: "char \<Rightarrow> shell \<Rightarrow> shell" where
  "shell_push c s = s\<lparr>sh_cur := sh_cur s @ [c], sh_inTok := True\<rparr>"

definition shell_step :: "char \<Rightarrow> shell \<Rightarrow> shell" where
  "shell_step c s =
     (if sh_esc s then (shell_push c s)\<lparr>sh_esc := False\<rparr>
      else case sh_quote s of
        Some q \<Rightarrow>
          (if c = CHR 0x5C \<and> q = CHR 0x22 then s\<lparr>sh_esc := True, sh_inTok := True\<rparr>
           else if c = q then s\<lparr>sh_quote := None, sh_inTok := True\<rparr>
           else shell_push c s)
      | None \<Rightarrow>
          (if c = CHR 0x27 \<or> c = CHR 0x22 then s\<lparr>sh_quote := Some c, sh_inTok := True\<rparr>
           else if c = CHR '' '' \<or> c = CHR 0x09 \<or> c = CHR 0x0A \<or> c = CHR 0x0D then shell_flush s
           else shell_push c s))"

definition ShellSplit :: "string \<Rightarrow> string list" where
  "ShellSplit s = sh_out (shell_flush (fold shell_step s shell_start))"

definition PreviewParts :: "bool \<Rightarrow> RunSpec \<Rightarrow> string \<times> string" where
  "PreviewParts cdi spec =
     (let full = runArgs cdi spec; pre = take (length full - length (rs_Args spec)) full
      in (''docker '' @ ShellJoin pre, ShellJoin (rs_Args spec)))"

end
