(* ===== verification/EngineProps.thy ===== *)
theory EngineProps
  imports DockerArgs
begin

text \<open>What the container policy guarantees, and the shape of the commands that reach Docker.\<close>

subsection \<open>The preview command line\<close>










subsection \<open>Volumes\<close>

text \<open>The paths \<open>Lstat\<close> is called on: the root and each path between it and the volume.\<close>

definition components :: "string \<Rightarrow> string \<Rightarrow> string list" where
  "components root path =
     map (\<lambda>n. CHR ''/'' # join_path (take n (clean_elements path)))
       [length (clean_elements root)..<Suc (length (clean_elements path))]"

definition no_symlink :: "host \<Rightarrow> string list \<Rightarrow> bool" where
  "no_symlink h ps \<longleftrightarrow>
     (\<forall>p \<in> set (takeWhile (\<lambda>p. h_lstat h p \<noteq> Missing) ps). \<exists>kind perm. h_lstat h p = File kind perm \<and> kind \<noteq> Symlink)"

lemma Join_element:
  assumes "IsAbs c" "c = Clean c" "e \<noteq> ''''" "e \<noteq> ''.''" "e \<noteq> ''..''" "CHR ''/'' \<notin> set e"
  shows "Join c e = CHR ''/'' # join_path (clean_elements c @ [e])"
proof -
  have "clean_elements (c @ CHR ''/'' # e) = clean_elements c @ [e]"
  proof -
    have "elements (c @ CHR ''/'' # e) = elements c @ [e]"
    proof -
      have "split_on CHR ''/'' (c @ CHR ''/'' # e) = split_on CHR ''/'' c @ split_on CHR ''/'' e"
        by (induction c) (auto split: list.splits)
      then show ?thesis using assms(3-6) by (simp add: elements_def split_on_none)
    qed
    moreover have "IsAbs (c @ CHR ''/'' # e)" using assms(1) by (auto simp: IsAbs_def has_prefix_iff)
    ultimately show ?thesis using assms(1,5) by (simp add: clean_elements_def clean_step_def)
  qed
  moreover have "IsAbs (c @ ''/'' @ e)" using assms(1) by (auto simp: IsAbs_def has_prefix_iff)
  ultimately show ?thesis using assms(1,3) by (auto simp: Join_def Clean_def IsAbs_def)
qed

lemma abs_of: "Clean (CHR ''/'' # join_path es) = CHR ''/'' # join_path es \<and> clean_elements (CHR ''/'' # join_path es) = es"
  if "\<forall>e \<in> set es. e \<noteq> '''' \<and> e \<noteq> ''.'' \<and> e \<noteq> ''..'' \<and> CHR ''/'' \<notin> set e"
proof -
  have "elements (CHR ''/'' # join_path es) = es" unfolding elements_slash by (rule elements_join) (use that in auto)
  moreover have "''..'' \<notin> set es" using that by auto
  ultimately have "clean_elements (CHR ''/'' # join_path es) = es"
    by (simp add: clean_elements_def foldl_clean_plain)
  then show ?thesis by (simp add: Clean_def IsAbs_def)
qed

lemma walk_components:
  assumes "\<forall>e \<in> set (es @ fs). e \<noteq> '''' \<and> e \<noteq> ''.'' \<and> e \<noteq> ''..'' \<and> CHR ''/'' \<notin> set e"
  shows "walk (h_lstat h) (CHR ''/'' # join_path es) fs = None \<longleftrightarrow>
    no_symlink h (map (\<lambda>n. CHR ''/'' # join_path (take n (es @ fs))) [Suc (length es)..<Suc (length (es @ fs))])"
  using assms
proof (induction fs arbitrary: es)
  case Nil
  then show ?case by (simp add: no_symlink_def)
next
  case (Cons f fs)
  let ?g = "\<lambda>n. CHR ''/'' # join_path (take n (es @ f # fs))"
  have j: "Join (CHR ''/'' # join_path es) f = CHR ''/'' # join_path (es @ [f])"
    using Join_element [of "CHR ''/'' # join_path es" f] abs_of [of es] Cons.prems by (auto simp: IsAbs_def)
  have IH: "walk (h_lstat h) (CHR ''/'' # join_path (es @ [f])) fs = None \<longleftrightarrow>
      no_symlink h (map ?g [Suc (Suc (length es))..<Suc (length (es @ f # fs))])"
    using Cons.IH [of "es @ [f]"] Cons.prems by simp
  have up: "[Suc (length es)..<Suc (length (es @ f # fs))] = Suc (length es) # [Suc (Suc (length es))..<Suc (length (es @ f # fs))]"
    by (simp add: upt_rec)
  have "?g (Suc (length es)) = CHR ''/'' # join_path (es @ [f])" by simp
  then show ?case using IH Cons.prems j
    by (simp only: up list.map walk.simps Let_def) (auto simp: no_symlink_def split: file_stat.splits)
qed

lemma split_join: "es \<noteq> [] \<Longrightarrow> \<forall>e \<in> set es. CHR ''/'' \<notin> set e \<Longrightarrow> split_on CHR ''/'' (join_path es) = es"
  by (induction es rule: join_path.induct) (auto simp: split_on_prefix split_on_none)

lemma strip_common_prefix: "strip_common xs (xs @ zs) = ([], zs)"
  by (induction xs) auto

lemma plain_elements:
  "IsAbs p \<Longrightarrow> \<forall>e \<in> set (clean_elements p). e \<noteq> '''' \<and> e \<noteq> ''.'' \<and> e \<noteq> ''..'' \<and> CHR ''/'' \<notin> set e"
  using clean_elements_ok [of _ p] clean_rooted_no_dotdot [of p] by blast

lemma rejectSymlinkComponents_iff:
  assumes "IsAbs root" "Clean root = root" "IsAbs path" "Clean path = path" "pathWithin path root"
  shows "rejectSymlinkComponents h root path = None \<longleftrightarrow> no_symlink h (components root path)"
proof -
  from assms(1,3,5) obtain zs where zs: "clean_elements path = clean_elements root @ zs"
    by (auto simp: pathWithin_iff prefix_def)
  have nr: "path \<noteq> ''.''" using assms(3) by (auto simp: IsAbs_def)
  have r: "root = CHR ''/'' # join_path (clean_elements root)" using assms(1,2) by (metis Clean_def)
  have rest: "(if Rel root path = Some ''.'' then [] else split_on CHR ''/'' (the (Rel root path))) = zs \<and> Rel root path \<noteq> None"
  proof (cases "zs = []")
    case True
    then have "path = root" using zs assms by (metis Clean_eq_iff append_Nil2)
    with True show ?thesis by (simp add: Rel_def Let_def)
  next
    case False
    then have "path \<noteq> root" using zs by auto
    then have rel: "Rel root path = Some (join_path zs)"
      using assms nr zs by (simp add: Rel_def Let_def strip_common_prefix)
    have z: "\<forall>e \<in> set zs. e \<noteq> ''.'' \<and> CHR ''/'' \<notin> set e"
      using plain_elements [OF assms(3)] zs by auto
    have "join_path zs \<noteq> ''.''"
    proof
      assume "join_path zs = ''.''"
      with split_join [OF False] z have "zs = split_on CHR ''/'' ''.''" by metis
      with z show False by simp
    qed
    then show ?thesis using rel split_join [OF False] z by simp
  qed
  have "rejectSymlinkComponents h root path = walk (h_lstat h) root (''.'' # zs)"
  proof -
    from rest obtain y where "Rel root path = Some y" by auto
    moreover from this rest have "(if y = ''.'' then [] else split_on CHR ''/'' y) = zs" by (simp cong: if_cong)
    ultimately show ?thesis by (simp only: rejectSymlinkComponents_def option.case)
  qed
  moreover have "walk (h_lstat h) root zs = None \<longleftrightarrow>
      no_symlink h (map (\<lambda>n. CHR ''/'' # join_path (take n (clean_elements path))) [Suc (length (clean_elements root))..<Suc (length (clean_elements path))])"
    using walk_components [of "clean_elements root" zs h] plain_elements [OF assms(3)] zs r by simp
  moreover have "components root path = root # map (\<lambda>n. CHR ''/'' # join_path (take n (clean_elements path)))
      [Suc (length (clean_elements root))..<Suc (length (clean_elements path))]"
    using r zs by (simp add: components_def upt_rec [of "length (clean_elements root)"] Suc_le_eq)
  ultimately show ?thesis
    by (auto simp: no_symlink_def split: file_stat.splits)
qed

lemma map_filter_mem: "y \<in> set (List.map_filter f xs) \<longleftrightarrow> (\<exists>x \<in> set xs. f x = Some y)"
  by (induction xs) (auto simp: List.map_filter_def split: option.splits)

lemma allowedHostRoots_clean: "root \<in> set (allowedHostRoots h) \<Longrightarrow> IsAbs root \<and> Clean root = root"
  if "\<forall>d. h_cwd h = Some d \<longrightarrow> IsAbs d"
proof -
  have ab: "IsAbs r" if "Abs (h_cwd h) p = Some r" for p r
    using that \<open>\<forall>d. h_cwd h = Some d \<longrightarrow> IsAbs d\<close>
    by (auto simp: Abs_def Join_def IsAbs_def Clean_def has_prefix_iff split: if_splits)
  assume "root \<in> set (allowedHostRoots h)"
  then obtain p r where "Abs (h_cwd h) p = Some r" "root = Clean r"
    unfolding allowedHostRoots_def set_map image_iff Bex_def map_filter_mem by blast
  with ab [of p r] show ?thesis by (simp add: Clean_idem)
qed

definition volume_contained :: "host \<Rightarrow> string \<Rightarrow> bool" where
  "volume_contained h source \<longleftrightarrow> managedVolumeName source \<or>
     (\<exists>root \<in> set (allowedHostRoots h). prefix (clean_elements root) (clean_elements source) \<and>
        Clean source = source \<and> IsAbs source \<and> no_symlink h (components root source))"

lemma validateVolume_contained:
  assumes "validateVolume h source target = None" "\<forall>d. h_cwd h = Some d \<longrightarrow> IsAbs d"
  shows "volume_contained h (trim_space source)"
proof (cases "managedVolumeName (trim_space source)")
  case False
  let ?s = "trim_space source"
  from assms(1) False have s: "IsAbs ?s" "Clean ?s = ?s"
    by (auto simp: validateVolume_def Let_def split: if_splits)
  from assms(1) False s obtain root where root: "find (\<lambda>root. pathWithin ?s root) (allowedHostRoots h) = Some root"
    "rejectSymlinkComponents h root ?s = None"
    by (auto simp: validateVolume_def Let_def split: if_splits option.splits)
  from find_SomeD [OF root(1)] have r: "root \<in> set (allowedHostRoots h)" "pathWithin ?s root" by auto
  from allowedHostRoots_clean [OF assms(2) r(1)] have c: "IsAbs root" "Clean root = root" by auto
  have "no_symlink h (components root ?s)"
    using rejectSymlinkComponents_iff [OF c s r(2)] root(2) by simp
  moreover have "prefix (clean_elements root) (clean_elements ?s)" using r(2) c s by (simp add: pathWithin_iff)
  ultimately show ?thesis using r(1) s by (auto simp: volume_contained_def)
qed (simp add: volume_contained_def)

lemma validateVolume_target:
  assumes "validateVolume h source target = None"
  shows "IsAbs (before CHR '':'' (trim_space target)) \<and> before CHR '':'' (trim_space target) \<noteq> ''/run/docker.sock'' \<and>
    before CHR '':'' (trim_space target) \<noteq> ''/var/run/docker.sock''"
  using assms by (auto simp: validateVolume_def Let_def split: if_splits)

subsection \<open>What docker run is told\<close>

text \<open>
  How the Docker client reads the arguments after \<open>run\<close>: options with and without a value, then the
  image, then the command. An unknown option is an error.
\<close>

definition run_switches :: "string list" where
  "run_switches = [''-d'', ''--rm'', ''--read-only'']"

definition run_options :: "string list" where
  "run_options = [''--name'', ''--restart'', ''--user'', ''--pids-limit'', ''--shm-size'', ''--cap-drop'', ''--cap-add'',
     ''--security-opt'', ''--tmpfs'', ''--device'', ''--gpus'', ''--network'', ''--network-alias'', ''--ipc'', ''--ulimit'',
     ''--add-host'', ''-p'', ''-e'', ''--label'', ''-v'', ''--mount'', ''--entrypoint'']"

fun parse_run :: "string list \<Rightarrow> ((string \<times> string) list \<times> string \<times> string list) option" where
  "parse_run [] = None"
| "parse_run (a # rest) =
     (if a \<in> set run_switches then map_option (\<lambda>(fs, r). ((a, '''') # fs, r)) (parse_run rest)
      else if a \<in> set run_options
      then (case rest of [] \<Rightarrow> None | v # rest' \<Rightarrow> map_option (\<lambda>(fs, r). ((a, v) # fs, r)) (parse_run rest'))
      else if has_prefix a ''-'' then None
      else Some ([], a, rest))"

definition told :: "string list \<Rightarrow> (string \<times> string) list \<Rightarrow> bool" where
  "told args flags \<longleftrightarrow> (\<forall>rest. parse_run (args @ rest) = map_option (\<lambda>(fs, r). (flags @ fs, r)) (parse_run rest))"

lemma told_Nil [intro!]: "told [] []"
  by (simp add: told_def id_def [symmetric] option.map_id)

lemma told_append [intro!]: "told a fs \<Longrightarrow> told b gs \<Longrightarrow> told (a @ b) (fs @ gs)"
  by (simp add: told_def option.map_comp comp_def case_prod_unfold)

lemma told_option [intro!]: "k \<in> set run_options \<Longrightarrow> told [k, v] [(k, v)]"
  by (auto simp: told_def run_switches_def run_options_def)

lemma told_switch [intro!]: "k \<in> set run_switches \<Longrightarrow> told [k] [(k, '''')]"
  by (auto simp: told_def run_switches_def)

lemma told_each: "k \<in> set run_options \<Longrightarrow> told (flag_each k vs) (map (Pair k) vs)"
proof (induction vs)
  case (Cons v vs)
  with told_append [OF told_option [of k v] Cons.IH] show ?case by (simp add: flag_each_def)
qed (simp add: flag_each_def told_Nil)

lemma told_if [intro!]: "(c \<Longrightarrow> told a fs) \<Longrightarrow> (\<not> c \<Longrightarrow> told b gs) \<Longrightarrow> told (if c then a else b) (if c then fs else gs)"
  by simp

definition run_flags :: "bool \<Rightarrow> RunSpec \<Rightarrow> (string \<times> string) list" where
  "run_flags cdi spec =
     (if rs_User spec \<noteq> '''' then [(''--user'', rs_User spec)] else []) @
     (if rs_ReadOnly spec then [(''--read-only'', '''')] else []) @
     (if rs_PidsLimit spec > 0 then [(''--pids-limit'', itoa (rs_PidsLimit spec))] else []) @
     (if trim_space (rs_ShmSize spec) \<noteq> '''' then [(''--shm-size'', trim_space (rs_ShmSize spec))] else []) @
     map (Pair ''--cap-drop'') (sortedNonEmpty (rs_CapDrop spec)) @
     map (Pair ''--cap-add'') (sortedNonEmpty (rs_CapAdd spec)) @
     map (Pair ''--security-opt'') (sortedNonEmpty (rs_SecurityOpts spec)) @
     map (Pair ''--tmpfs'') (sortedNonEmpty (rs_Tmpfs spec)) @
     (if rs_GPUs spec = '''' then []
      else if cdi then map (\<lambda>g. (''--device'', ''nvidia.com/gpu='' @ g))
             (filter (\<lambda>g. g \<noteq> '''') (map trim_space (split_on CHR '','' (rs_GPUs spec))))
      else [(''--gpus'', rs_GPUs spec)]) @
     map (Pair ''--device'') (sortedNonEmpty (rs_Devices spec)) @
     (if rs_Network spec = '''' then []
      else [(''--network'', rs_Network spec)] @
        (if rs_Network spec \<noteq> ''host'' \<and> rs_NetworkAlias spec \<noteq> '''' then [(''--network-alias'', rs_NetworkAlias spec)] else [])) @
     (if rs_IPC spec \<noteq> '''' then [(''--ipc'', rs_IPC spec)] else []) @
     map (Pair ''--ulimit'') (filter (\<lambda>l. trim_space l \<noteq> '''') (rs_Ulimits spec)) @
     map (Pair ''--add-host'') (filter (\<lambda>x. trim_space x \<noteq> '''') (rs_ExtraHosts spec)) @
     (if rs_Network spec = ''host'' then []
      else map (\<lambda>p. (''-p'', ''127.0.0.1:'' @ itoa p @ '':'' @ itoa (get_or 0 (rs_Ports spec) p))) (sort (keys (rs_Ports spec)))) @
     map (Pair ''-e'') (pairs ''='' (rs_Env spec)) @
     map (\<lambda>k. (''--label'', k @ ''='' @ get_or '''' (rs_Labels spec) k))
       (filter (\<lambda>k. trim_space k \<noteq> '''') (sortedKeys (rs_Labels spec))) @
     map (Pair ''-v'') (pairs '':'' (rs_Volumes spec)) @
     map (\<lambda>k. (''--mount'', ''type=bind,src='' @ k @ '',dst='' @ get_or '''' (rs_SecretFiles spec) k @ '',readonly''))
       (sortedKeys (rs_SecretFiles spec)) @
     (if trim_space (rs_EntryPoint spec) \<noteq> '''' then [(''--entrypoint'', rs_EntryPoint spec)] else [])"

lemma told_map: "k \<in> set run_options \<Longrightarrow> told (flag_each k (map f xs)) (map (\<lambda>x. (k, f x)) xs)"
  using told_each [of k "map f xs"] by (simp add: comp_def)

lemma run_option_names:
  "''--name'' \<in> set run_options" "''--restart'' \<in> set run_options" "''--user'' \<in> set run_options"
  "''--pids-limit'' \<in> set run_options" "''--shm-size'' \<in> set run_options" "''--cap-drop'' \<in> set run_options"
  "''--cap-add'' \<in> set run_options" "''--security-opt'' \<in> set run_options" "''--tmpfs'' \<in> set run_options"
  "''--device'' \<in> set run_options" "''--gpus'' \<in> set run_options" "''--network'' \<in> set run_options"
  "''--network-alias'' \<in> set run_options" "''--ipc'' \<in> set run_options" "''--ulimit'' \<in> set run_options"
  "''--add-host'' \<in> set run_options" "''-p'' \<in> set run_options" "''-e'' \<in> set run_options"
  "''--label'' \<in> set run_options" "''-v'' \<in> set run_options" "''--mount'' \<in> set run_options"
  "''--entrypoint'' \<in> set run_options"
  by (simp_all add: run_options_def)


lemma read_only_switch: "''--read-only'' \<in> set run_switches"
  by (simp add: run_switches_def)

lemma told_settings: "told (run_settings cdi spec) (run_flags cdi spec)"
  unfolding run_settings_def run_flags_def gpu_args_def network_args_def port_args_def
  by (intro told_append told_if told_Nil told_each told_map told_option told_switch run_option_names read_only_switch)

lemma trim_space_prefix: "\<exists>u. trim_left_space s = trim_space s @ u"
proof -
  obtain u where "rev (trim_left_space s) = u @ trim_lead (map rev spaces) (rev (trim_left_space s))"
    using trim_lead_suffix by blast
  then show ?thesis by (metis rev_append rev_rev_ident trim_right_space_def trim_space_def)
qed

lemma no_dash: "imageReference (trim_space s) \<Longrightarrow> \<not> has_prefix s ''-''"
proof
  assume i: "imageReference (trim_space s)" and "has_prefix s ''-''"
  then obtain t where s: "s = CHR ''-'' # t" by (auto simp: has_prefix_iff)
  then have "trim_left_space s = s" by (simp add: trim_left_space_def trim_lead_done spaces_defs)
  with trim_space_prefix [of s] s i obtain w where "trim_space s = CHR ''-'' # w"
    by (cases "trim_space s") (auto simp: imageReference_def)
  with i show False by (simp add: imageReference_def is_alnum_def in_range_def code_def)
qed

text \<open>What an admitted option may say.\<close>

definition admitted_mount :: "host \<Rightarrow> string \<Rightarrow> bool" where
  "admitted_mount h v \<longleftrightarrow> (\<exists>s t perm. v = ''type=bind,src='' @ s @ '',dst='' @ t @ '',readonly'' \<and>
     trim_space s = Join (state_dir h) ''huggingface-token'' \<and> trim_space t = HuggingFaceTokenContainerPath \<and>
     h_lstat h (trim_space s) = File Regular perm \<and> owner_only perm)"

definition admitted_bind :: "host \<Rightarrow> string \<Rightarrow> bool" where
  "admitted_bind h v \<longleftrightarrow> (\<exists>s t. v = s @ '':'' @ t \<and> volume_contained h (trim_space s) \<and>
     IsAbs (before CHR '':'' (trim_space t)) \<and>
     before CHR '':'' (trim_space t) \<notin> {''/run/docker.sock'', ''/var/run/docker.sock''})"

definition admitted_value :: "host \<Rightarrow> (string \<times> (string \<Rightarrow> bool)) list" where
  "admitted_value h = [
     (''-d'', \<lambda>v. v = ''''),
     (''--rm'', \<lambda>v. v = ''''),
     (''--read-only'', \<lambda>v. v = ''''),
     (''--name'', managedRuntimeName),
     (''--restart'', \<lambda>v. v \<in> {''no'', ''on-failure'', ''unless-stopped''}),
     (''--user'', \<lambda>v. v = ''0'' \<or> unprivilegedUser v),
     (''--pids-limit'', \<lambda>v. \<exists>n. v = itoa n \<and> 0 < n \<and> n \<le> 262144),
     (''--shm-size'', sizeValue),
     (''--cap-drop'', capabilityName),
     (''--cap-add'', capabilityName),
     (''--security-opt'', \<lambda>v. v = ''no-new-privileges:true''),
     (''--tmpfs'', \<lambda>v. before CHR '':'' v \<in> {''/tmp'', ''/run''}),
     (''--device'', \<lambda>v. v = ''/dev/infiniband:/dev/infiniband'' \<or> has_prefix v ''nvidia.com/gpu=''),
     (''--gpus'', \<lambda>v. validateGPURequest v = None),
     (''--network'', \<lambda>v. v \<in> {''host'', ''none'', ''bridge''} \<or> managedRuntimeName v),
     (''--network-alias'', managedRuntimeName),
     (''--ipc'', \<lambda>v. v \<in> {''host'', ''private'', ''shareable''}),
     (''--ulimit'', \<lambda>v. ulimitValue (trim_space v)),
     (''--add-host'', \<lambda>v. trim_space v = ''host.docker.internal:host-gateway''),
     (''-p'', \<lambda>v. has_prefix v ''127.0.0.1:''),
     (''-e'', \<lambda>v. \<exists>n w. v = n @ ''='' @ w \<and> environmentName n),
     (''--label'', \<lambda>v. \<exists>n w. v = n @ ''='' @ w),
     (''-v'', admitted_bind h),
     (''--mount'', admitted_mount h),
     (''--entrypoint'', \<lambda>v. CHR 0x00 \<notin> set v)]"

definition admitted_flag :: "host \<Rightarrow> string \<times> string \<Rightarrow> bool" where
  "admitted_flag h f \<longleftrightarrow> (case lookup (admitted_value h) (fst f) of None \<Rightarrow> False | Some ok \<Rightarrow> ok (snd f))"



lemma ValidateRunSpec_iff:
  "ValidateRunSpec h spec = None \<longleftrightarrow>
    managedRuntimeName (rs_Name spec) \<and> imageReference (trim_space (rs_Image spec)) \<and>
    (rs_Network spec \<in> {'''', ''host'', ''none'', ''bridge''} \<or> managedRuntimeName (rs_Network spec)) \<and>
    (rs_NetworkAlias spec = '''' \<or> managedRuntimeName (rs_NetworkAlias spec)) \<and>
    (\<forall>p \<in> set (rs_Ports spec). \<not> bad_port (fst p) \<and> \<not> bad_port (snd p)) \<and>
    (\<forall>p \<in> set (rs_Volumes spec). validateVolume h (fst p) (snd p) = None) \<and>
    (\<forall>p \<in> set (rs_SecretFiles spec). validateSecretFile h (fst p) (snd p) = None) \<and>
    (\<forall>p \<in> set (rs_Env spec). environmentName (fst p)) \<and>
    (\<forall>x \<in> set (rs_SecurityOpts spec). trim_space x = ''no-new-privileges:true'') \<and>
    (\<forall>x \<in> set (rs_CapAdd spec) \<union> set (rs_CapDrop spec). capabilityName (trim_space x)) \<and>
    (\<forall>x \<in> set (rs_Ulimits spec). ulimitValue (trim_space x)) \<and>
    rs_IPC spec \<in> {'''', ''host'', ''private'', ''shareable''} \<and>
    0 \<le> rs_PidsLimit spec \<and> rs_PidsLimit spec \<le> 262144 \<and>
    (rs_ShmSize spec = '''' \<or> sizeValue (trim_space (rs_ShmSize spec))) \<and>
    (\<forall>x \<in> set (rs_Tmpfs spec). before CHR '':'' (trim_space x) \<in> {''/tmp'', ''/run''}) \<and>
    (\<forall>x \<in> set (rs_Devices spec). trim_space x = ''/dev/infiniband:/dev/infiniband'') \<and>
    (\<forall>x \<in> set (rs_ExtraHosts spec). trim_space x = ''host.docker.internal:host-gateway'') \<and>
    CHR 0x00 \<notin> set (rs_EntryPoint spec) \<and> \<not> bad_user (rs_User spec) \<and>
    (\<forall>a \<in> set (rs_Args spec). CHR 0x00 \<notin> set a)"
  by (simp add: ValidateRunSpec_def validateNetwork_def case_prod_unfold Let_def not_less conj_assoc disj_assoc imp_conv_disj)

lemma ValidateRunSpec_okD:
  assumes "ValidateRunSpec h spec = None"
  shows "managedRuntimeName (rs_Name spec)" "imageReference (trim_space (rs_Image spec))"
    "rs_Network spec \<in> {'''', ''host'', ''none'', ''bridge''} \<or> managedRuntimeName (rs_Network spec)"
    "rs_NetworkAlias spec = '''' \<or> managedRuntimeName (rs_NetworkAlias spec)"
    "p \<in> set (rs_Volumes spec) \<Longrightarrow> validateVolume h (fst p) (snd p) = None"
    "p \<in> set (rs_SecretFiles spec) \<Longrightarrow> validateSecretFile h (fst p) (snd p) = None"
    "p \<in> set (rs_Env spec) \<Longrightarrow> environmentName (fst p)"
    "x \<in> set (rs_SecurityOpts spec) \<Longrightarrow> trim_space x = ''no-new-privileges:true''"
    "x \<in> set (rs_CapAdd spec) \<union> set (rs_CapDrop spec) \<Longrightarrow> capabilityName (trim_space x)"
    "x \<in> set (rs_Ulimits spec) \<Longrightarrow> ulimitValue (trim_space x)"
    "rs_IPC spec \<in> {'''', ''host'', ''private'', ''shareable''}"
    "rs_PidsLimit spec \<le> 262144"
    "rs_ShmSize spec = '''' \<or> sizeValue (trim_space (rs_ShmSize spec))"
    "x \<in> set (rs_Tmpfs spec) \<Longrightarrow> before CHR '':'' (trim_space x) \<in> {''/tmp'', ''/run''}"
    "x \<in> set (rs_Devices spec) \<Longrightarrow> trim_space x = ''/dev/infiniband:/dev/infiniband''"
    "x \<in> set (rs_ExtraHosts spec) \<Longrightarrow> trim_space x = ''host.docker.internal:host-gateway''"
    "CHR 0x00 \<notin> set (rs_EntryPoint spec)" "\<not> bad_user (rs_User spec)"
  using assms unfolding ValidateRunSpec_iff by (elim conjE; simp)+

lemma flags_ok:
  "lookup (admitted_value h) k = Some ok \<Longrightarrow> (\<And>x. x \<in> set xs \<Longrightarrow> ok (g x)) \<Longrightarrow>
    \<forall>f \<in> set (map (\<lambda>x. (k, g x)) xs). admitted_flag h f"
  by (auto simp: admitted_flag_def)

lemma flag_ok: "lookup (admitted_value h) k = Some ok \<Longrightarrow> ok v \<Longrightarrow> admitted_flag h (k, v)"
  by (simp add: admitted_flag_def)

lemma flags_if: "(c \<Longrightarrow> \<forall>f \<in> set a. P f) \<Longrightarrow> (\<not> c \<Longrightarrow> \<forall>f \<in> set b. P f) \<Longrightarrow> \<forall>f \<in> set (if c then a else b). P f"
  by simp

lemma clean_mem: "x \<in> set (sortedNonEmpty xs) \<Longrightarrow> \<exists>y \<in> set xs. x = trim_space y"
  by (auto simp: sortedNonEmpty_def)

lemma get_or_mem: "k \<in> set (sortedKeys m) \<Longrightarrow> (k, get_or d m k) \<in> set m"
  by (auto simp: sortedKeys_def get_or_def split: option.splits dest: map_of_SomeD simp: map_of_eq_None_iff image_iff)

lemma bind_flag:
  assumes ok: "ValidateRunSpec h spec = None" and cwd: "\<forall>d. h_cwd h = Some d \<longrightarrow> IsAbs d"
    and k: "k \<in> set (sortedKeys (rs_Volumes spec))"
  shows "admitted_bind h (k @ '':'' @ get_or '''' (rs_Volumes spec) k)"
proof -
  have "validateVolume h k (get_or '''' (rs_Volumes spec) k) = None"
    using ValidateRunSpec_okD(5) [OF ok get_or_mem [OF k, of "''''"]] by simp
  from validateVolume_contained [OF this cwd] validateVolume_target [OF this] show ?thesis
    by (auto simp: admitted_bind_def)
qed

lemma mount_flag:
  assumes ok: "ValidateRunSpec h spec = None" and k: "k \<in> set (sortedKeys (rs_SecretFiles spec))"
  shows "admitted_mount h (''type=bind,src='' @ k @ '',dst='' @ get_or '''' (rs_SecretFiles spec) k @ '',readonly'')"
proof -
  let ?w = "get_or '''' (rs_SecretFiles spec) k"
  have "validateSecretFile h k ?w = None"
    using ValidateRunSpec_okD(6) [OF ok get_or_mem [OF k, of "''''"]] by simp
  then have "trim_space k = Join (state_dir h) ''huggingface-token'' \<and> trim_space ?w = HuggingFaceTokenContainerPath \<and>
      (\<exists>perm. h_lstat h (trim_space k) = File Regular perm \<and> owner_only perm)"
    by (auto simp: validateSecretFile_def Let_def split: if_splits file_stat.splits)
  then show ?thesis unfolding admitted_mount_def by blast
qed

lemma admitted_keys:
  "lookup (admitted_value h) ''-d'' = Some (\<lambda>v. v = '''')"
  "lookup (admitted_value h) ''--read-only'' = Some (\<lambda>v. v = '''')"
  "lookup (admitted_value h) ''--name'' = Some managedRuntimeName"
  "lookup (admitted_value h) ''--restart'' = Some (\<lambda>v. v \<in> {''no'', ''on-failure'', ''unless-stopped''})"
  "lookup (admitted_value h) ''--user'' = Some (\<lambda>v. v = ''0'' \<or> unprivilegedUser v)"
  "lookup (admitted_value h) ''--pids-limit'' = Some (\<lambda>v. \<exists>n. v = itoa n \<and> 0 < n \<and> n \<le> 262144)"
  "lookup (admitted_value h) ''--shm-size'' = Some sizeValue"
  "lookup (admitted_value h) ''--cap-drop'' = Some capabilityName"
  "lookup (admitted_value h) ''--cap-add'' = Some capabilityName"
  "lookup (admitted_value h) ''--security-opt'' = Some (\<lambda>v. v = ''no-new-privileges:true'')"
  "lookup (admitted_value h) ''--tmpfs'' = Some (\<lambda>v. before CHR '':'' v \<in> {''/tmp'', ''/run''})"
  "lookup (admitted_value h) ''--device'' = Some (\<lambda>v. v = ''/dev/infiniband:/dev/infiniband'' \<or> has_prefix v ''nvidia.com/gpu='')"
  "lookup (admitted_value h) ''--gpus'' = Some (\<lambda>v. validateGPURequest v = None)"
  "lookup (admitted_value h) ''--network'' = Some (\<lambda>v. v \<in> {''host'', ''none'', ''bridge''} \<or> managedRuntimeName v)"
  "lookup (admitted_value h) ''--network-alias'' = Some managedRuntimeName"
  "lookup (admitted_value h) ''--ipc'' = Some (\<lambda>v. v \<in> {''host'', ''private'', ''shareable''})"
  "lookup (admitted_value h) ''--ulimit'' = Some (\<lambda>v. ulimitValue (trim_space v))"
  "lookup (admitted_value h) ''--add-host'' = Some (\<lambda>v. trim_space v = ''host.docker.internal:host-gateway'')"
  "lookup (admitted_value h) ''-p'' = Some (\<lambda>v. has_prefix v ''127.0.0.1:'')"
  "lookup (admitted_value h) ''-e'' = Some (\<lambda>v. \<exists>n w. v = n @ ''='' @ w \<and> environmentName n)"
  "lookup (admitted_value h) ''--label'' = Some (\<lambda>v. \<exists>n w. v = n @ ''='' @ w)"
  "lookup (admitted_value h) ''-v'' = Some (admitted_bind h)"
  "lookup (admitted_value h) ''--mount'' = Some (admitted_mount h)"
  "lookup (admitted_value h) ''--entrypoint'' = Some (\<lambda>v. CHR 0x00 \<notin> set v)"
  by (simp_all add: admitted_value_def)

lemma pair_flags_ok:
  "lookup (admitted_value h) k = Some ok \<Longrightarrow> (\<And>x. x \<in> set xs \<Longrightarrow> ok x) \<Longrightarrow> \<forall>f \<in> set (map (Pair k) xs). admitted_flag h f"
  by (auto simp: admitted_flag_def)

lemma one_flag_ok: "lookup (admitted_value h) k = Some ok \<Longrightarrow> ok v \<Longrightarrow> \<forall>f \<in> set [(k, v)]. admitted_flag h f"
  by (simp add: admitted_flag_def)

lemma flags_append: "\<forall>f \<in> set a. P f \<Longrightarrow> \<forall>f \<in> set b. P f \<Longrightarrow> \<forall>f \<in> set (a @ b). P f"
  by auto

lemma no_flags: "\<forall>f \<in> set []. P f"
  by simp

lemma restart_policy_ok: "restart_policy p \<in> {''no'', ''on-failure'', ''unless-stopped''}"
  by (simp add: restart_policy_def Let_def)

lemma pair_mem: "x \<in> set (pairs sep m) \<Longrightarrow> \<exists>k w. x = k @ sep @ w \<and> (k, w) \<in> set m"
  using get_or_mem [of _ m "''''"] by (auto simp: pairs_def)

lemma pair_mem_get: "x \<in> set (pairs sep m) \<Longrightarrow> \<exists>k \<in> set (sortedKeys m). x = k @ sep @ get_or '''' m k"
  by (auto simp: pairs_def)

lemma admitted_flags:
  assumes ok: "ValidateRunSpec h spec = None" "validateGPURequest (rs_GPUs spec) = None"
    and cwd: "\<forall>d. h_cwd h = Some d \<longrightarrow> IsAbs d"
  shows "\<forall>f \<in> set (run_flags cdi spec). admitted_flag h f"
proof -
  note v = ValidateRunSpec_okD [OF ok(1)]

  show ?thesis
    unfolding run_flags_def
    apply (intro flags_append)
    apply (intro flags_if no_flags one_flag_ok [OF admitted_keys(5)], use v(18) in \<open>simp add: bad_user_def\<close>)
    apply (intro flags_if no_flags one_flag_ok [OF admitted_keys(2)], simp)
    apply (intro flags_if no_flags one_flag_ok [OF admitted_keys(6)], use v(12) in blast)
    apply (intro flags_if no_flags one_flag_ok [OF admitted_keys(7)], use v(13) in auto)[1]
    apply (rule pair_flags_ok [OF admitted_keys(8)], use v(9) in \<open>auto dest!: clean_mem\<close>)[1]
    apply (rule pair_flags_ok [OF admitted_keys(9)], use v(9) in \<open>auto dest!: clean_mem\<close>)[1]
    apply (rule pair_flags_ok [OF admitted_keys(10)], use v(8) in \<open>auto dest!: clean_mem\<close>)[1]
    apply (rule pair_flags_ok [OF admitted_keys(11)], use v(14) in \<open>auto dest!: clean_mem\<close>)[1]
    apply (intro flags_if no_flags flags_ok [OF admitted_keys(12)] one_flag_ok [OF admitted_keys(13)], simp, rule ok(2))
    apply (rule pair_flags_ok [OF admitted_keys(12)], use v(15) in \<open>auto dest!: clean_mem\<close>)[1]
    apply (intro flags_if no_flags flags_append one_flag_ok [OF admitted_keys(14)] one_flag_ok [OF admitted_keys(15)], use v(3,4) in auto)[1]
    apply (intro flags_if no_flags one_flag_ok [OF admitted_keys(16)], use v(11) in auto)[1]
    apply (rule pair_flags_ok [OF admitted_keys(17)], use v(10) in auto)[1]
    apply (rule pair_flags_ok [OF admitted_keys(18)], use v(16) in auto)[1]
    apply (intro flags_if no_flags flags_ok [OF admitted_keys(19)], simp)
    apply (rule pair_flags_ok [OF admitted_keys(20)], use v(7) in \<open>force dest!: pair_mem\<close>)[1]
    apply (rule flags_ok [OF admitted_keys(21)], blast)
    apply (rule pair_flags_ok [OF admitted_keys(22)], use bind_flag [OF ok(1) cwd] in \<open>auto dest!: pair_mem_get\<close>)[1]
    apply (rule flags_ok [OF admitted_keys(23)], rule mount_flag [OF ok(1)], assumption)
    apply (intro flags_if no_flags one_flag_ok [OF admitted_keys(24)], rule v(17))
    done
qed

lemma parse_told:
  assumes "told args fs" and "imageReference (trim_space img)"
  shows "parse_run (args @ img # rest) = Some (fs, img, rest)"
proof -
  from no_dash [OF assms(2)] have "img \<notin> set run_switches \<union> set run_options"
    by (auto simp: run_switches_def run_options_def)
  with no_dash [OF assms(2)] have "parse_run (img # rest) = Some ([], img, rest)" by simp
  with assms(1) show ?thesis by (simp add: told_def)
qed

text \<open>C10: the argument vector of an admitted container, as the Docker client reads it, runs the image of the specification
  with its command, and every option is one of a fixed list with an admitted value: no privileges, no host path outside the
  storage of the product or through a symbolic link, no Docker socket, no device but InfiniBand and GPUs, ports on the
  loopback interface only, no secret but the protected token; the transient form differs in \<open>--rm\<close> for \<open>-d\<close> and the restart
  policy.\<close>

theorem run_argv_admitted:
  assumes "RunArguments h spec = Inr argv" and "\<forall>d. h_cwd h = Some d \<longrightarrow> IsAbs d"
  shows "\<exists>flags. argv = runArgs (GPUContainerMode h = GPUCDI) spec \<and> hd argv = ''run'' \<and>
    parse_run (tl argv) = Some ((''-d'', '''') # (''--name'', rs_Name spec) #
      (''--restart'', restart_policy (rs_RestartPolicy spec)) # flags, rs_Image spec, rs_Args spec) \<and>
    parse_run (tl (transientArgs (GPUContainerMode h = GPUCDI) spec)) =
      Some ((''--rm'', '''') # (''--name'', rs_Name spec) # flags, rs_Image spec, rs_Args spec) \<and>
    (\<forall>f \<in> set flags. admitted_flag h f) \<and> managedRuntimeName (rs_Name spec) \<and>
    imageReference (trim_space (rs_Image spec))"
proof -
  from assms(1) have ok: "ValidateRunSpec h spec = None" "validateGPURequest (rs_GPUs spec) = None"
    and argv: "argv = runArgs (GPUContainerMode h = GPUCDI) spec"
    by (auto simp: RunArguments_def split: option.splits)
  note v = ValidateRunSpec_okD [OF ok(1)]
  let ?cdi = "GPUContainerMode h = GPUCDI"
  let ?flags = "run_flags ?cdi spec"
  have p: "parse_run (run_settings ?cdi spec @ rs_Image spec # rs_Args spec) = Some (?flags, rs_Image spec, rs_Args spec)"
    by (rule parse_told [OF told_settings v(2)])
  have "parse_run (tl argv) = Some ((''-d'', '''') # (''--name'', rs_Name spec) #
      (''--restart'', restart_policy (rs_RestartPolicy spec)) # ?flags, rs_Image spec, rs_Args spec)"
    using p by (simp add: argv runArgs_def run_switches_def run_options_def)
  moreover have "parse_run (tl (transientArgs ?cdi spec)) = Some ((''--rm'', '''') # (''--name'', rs_Name spec) # ?flags, rs_Image spec, rs_Args spec)"
    using p by (simp add: transientArgs_def runArgs_def run_switches_def run_options_def)
  moreover have "hd argv = ''run''" by (simp add: argv runArgs_def)
  ultimately show ?thesis using argv v(1,2) admitted_flags [OF ok assms(2)] by blast
qed

subsection \<open>What the policy lets through\<close>

definition plain_host :: host where
  "plain_host = \<lparr>h_env = \<lambda>n. '''', h_cwd = Some ''/'', h_tmp = ''/tmp'',
     h_lstat = \<lambda>p. if p = ''/var/lib/cloudless/huggingface-token'' then File Regular 384 else File Directory 493,
     h_read = \<lambda>p. None\<rparr>"

definition plain_spec :: RunSpec where
  "plain_spec = \<lparr>rs_Name = ''cloudless-x'', rs_Image = ''alpine'', rs_RestartPolicy = '''', rs_Ports = [], rs_Env = [],
     rs_Labels = [], rs_Volumes = [], rs_SecretFiles = [], rs_GPUs = '''', rs_Network = '''', rs_NetworkAlias = '''',
     rs_IPC = '''', rs_Ulimits = [], rs_ExtraHosts = [], rs_EntryPoint = '''', rs_User = '''', rs_Args = [],
     rs_ReadOnly = False, rs_CapAdd = [], rs_CapDrop = [], rs_SecurityOpts = [], rs_Tmpfs = [], rs_PidsLimit = 0,
     rs_ShmSize = '''', rs_Devices = []\<rparr>"

lemma plain_spec_ok: "ValidateRunSpec plain_host plain_spec = None"
  by code_simp

text \<open>The admission policy leaves host authority to the caller: an admitted container may be given every Linux
  capability, run as root with the host's network and IPC, and mount the directory of the product's state, or the protected
  token itself, at any path and for writing, although the token has a rule of its own.\<close>

theorem policy_admits_host_authority:
  assumes "ValidateRunSpec h spec = None" and "validateVolume h source target = None"
  shows "ValidateRunSpec h (spec\<lparr>rs_CapAdd := [''ALL''], rs_User := ''0'', rs_Network := ''host'', rs_IPC := ''host'',
      rs_Volumes := [(source, target)]\<rparr>) = None \<and>
    validateVolume plain_host ''/var/lib/cloudless'' ''/mnt'' = None \<and>
    validateVolume plain_host ''/var/lib/cloudless/huggingface-token'' ''/mnt'' = None"
proof -
  have "capabilityName (trim_space ''ALL'')" by code_simp
  then have "ValidateRunSpec h (spec\<lparr>rs_CapAdd := [''ALL''], rs_User := ''0'', rs_Network := ''host'', rs_IPC := ''host'',
      rs_Volumes := [(source, target)]\<rparr>) = None"
    using assms by (simp add: ValidateRunSpec_iff bad_user_def)
  moreover have "validateVolume plain_host ''/var/lib/cloudless'' ''/mnt'' = None \<and>
    validateVolume plain_host ''/var/lib/cloudless/huggingface-token'' ''/mnt'' = None" by code_simp
  ultimately show ?thesis by blast
qed

theorem run_argv_admitted_witness:
  "\<exists>flags. parse_run (tl (runArgs False (plain_spec\<lparr>rs_Volumes := [(''/var/lib/cloudless/models'', ''/models:ro'')]\<rparr>))) =
      Some ((''-d'', '''') # (''--name'', ''cloudless-x'') # (''--restart'', ''unless-stopped'') # flags, ''alpine'', []) \<and>
    (\<forall>f \<in> set flags. admitted_flag plain_host f)"
proof -
  let ?spec = "plain_spec\<lparr>rs_Volumes := [(''/var/lib/cloudless/models'', ''/models:ro'')]\<rparr>"
  have p: "checks [ValidateRunSpec plain_host ?spec, validateGPURequest (rs_GPUs ?spec)] = None" by code_simp
  have g: "GPUContainerMode plain_host = GPUDocker" by code_simp
  have r: "RunArguments plain_host ?spec = Inr (runArgs False ?spec)"
    by (simp only: RunArguments_def p option.case g) (simp add: GPUDocker_def GPUCDI_def)
  have c: "\<forall>d. h_cwd plain_host = Some d \<longrightarrow> IsAbs d" by (simp add: plain_host_def IsAbs_def)
  have s: "rs_Name ?spec = ''cloudless-x''" "restart_policy (rs_RestartPolicy ?spec) = ''unless-stopped''"
    "rs_Image ?spec = ''alpine''" "rs_Args ?spec = []"
    by (simp_all add: plain_spec_def restart_policy_def)
  from run_argv_admitted [OF r c] show ?thesis unfolding s by blast
qed

theorem policy_admits_host_authority_witness:
  "ValidateRunSpec plain_host (plain_spec\<lparr>rs_CapAdd := [''ALL''], rs_User := ''0'', rs_Network := ''host'', rs_IPC := ''host'',
     rs_Volumes := [(''/var/lib/cloudless'', ''/mnt'')]\<rparr>) = None"
proof -
  have "validateVolume plain_host ''/var/lib/cloudless'' ''/mnt'' = None" by code_simp
  from policy_admits_host_authority [OF plain_spec_ok this] show ?thesis by simp
qed

end
