(* ===== verification/DockerBroker.thy ===== *)
theory DockerBroker
  imports DockerArgs
begin

text \<open>
  \<open>internal/engine/docker.go\<close> and \<open>internal/engine/broker.go\<close>: the engine that drives the Docker command
  line, and the broker that runs it for a less privileged caller. The daemon is an argument: \<open>ex argv d\<close>
  is what \<open>docker argv\<close> answers in the daemon's state \<open>d\<close>, and the state it leaves. Contexts and their
  cancellation are not modelled.
\<close>

subsection \<open>Commands\<close>

record reply =
  rp_out :: string
  rp_err :: string
  rp_fail :: "string option"

type_synonym 'd daemon = "string list \<Rightarrow> 'd \<Rightarrow> reply \<times> 'd"

datatype docker_error =
    Refused engine_error
  | CommandFailed string string string string
  | BadVolumeName string
  | NoMountpoint string
  | BadHermesKey
  | BadLabelKey
  | BadLabelValue
  | BadImage
  | UnmanagedContainer string
  | BadTail
  | BadMetadata string
  | ExportOutside
  | ExportFailed string
  | BadNetIO string
  | EntropyFailed string
  | SpecRequired
  | NoRecipeAdapter
  | RecipeFailed string
  | UnsupportedAction

type_synonym ('d, 'a) act = "'d \<Rightarrow> (docker_error + 'a) \<times> 'd"

definition ret :: "'a \<Rightarrow> ('d, 'a) act" where
  "ret v d = (Inr v, d)"

definition refuse :: "docker_error \<Rightarrow> ('d, 'a) act" where
  "refuse e d = (Inl e, d)"

definition andThen :: "('d, 'a) act \<Rightarrow> ('a \<Rightarrow> ('d, 'b) act) \<Rightarrow> ('d, 'b) act" where
  "andThen a f d = (case a d of (Inl e, d1) \<Rightarrow> (Inl e, d1) | (Inr v, d1) \<Rightarrow> f v d1)"

definition admit :: "docker_error option \<Rightarrow> ('d, 'a) act \<Rightarrow> ('d, 'a) act" where
  "admit e a d = (case e of Some x \<Rightarrow> (Inl x, d) | None \<Rightarrow> a d)"

text \<open>Run a command and keep its reply, failed or not.\<close>

definition ask :: "'d daemon \<Rightarrow> string list \<Rightarrow> ('d, reply) act" where
  "ask ex argv d = (let (r, d1) = ex argv d in (Inr r, d1))"

text \<open>Run a command; its failure is an error about \<open>what\<close> and \<open>name\<close> with the trimmed error output.\<close>

definition must :: "'d daemon \<Rightarrow> string list \<Rightarrow> string \<Rightarrow> string \<Rightarrow> ('d, reply) act" where
  "must ex argv what name = andThen (ask ex argv) (\<lambda>r.
     case rp_fail r of Some e \<Rightarrow> refuse (CommandFailed what name e (trim_space (rp_err r))) | None \<Rightarrow> ret r)"

definition managed :: "string \<Rightarrow> string \<Rightarrow> docker_error option" where
  "managed kind name = map_option Refused (validateManagedName kind name)"

definition managed_volume :: "string \<Rightarrow> docker_error option" where
  "managed_volume name = fail_if (\<not> managedVolumeName (trim_space name)) (BadVolumeName name)"

definition image_ref :: "string \<Rightarrow> docker_error option" where
  "image_ref img = fail_if (\<not> imageReference (trim_space img)) BadImage"

definition shown_lines :: "reply \<Rightarrow> string list" where
  "shown_lines r = filter (\<lambda>l. l \<noteq> '''') (map trim_space (scan_lines 1048576 (rp_out r)))"

subsection \<open>Networks and volumes\<close>

definition Available :: "'d daemon \<Rightarrow> ('d, unit) act" where
  "Available ex = andThen (must ex [''version'', ''--format'', ''{{.Server.Version}}''] ''docker not available'' '''') (\<lambda>_. ret ())"

definition EnsureNetwork :: "'d daemon \<Rightarrow> string \<Rightarrow> ('d, unit) act" where
  "EnsureNetwork ex name = admit (managed ''network'' name) (andThen (ask ex [''network'', ''inspect'', name]) (\<lambda>r.
     if rp_fail r = None then ret ()
     else andThen (must ex [''network'', ''create'', name] ''create network'' name) (\<lambda>_. ret ())))"

definition EnsureVolume :: "'d daemon \<Rightarrow> string \<Rightarrow> ('d, unit) act" where
  "EnsureVolume ex name = admit (managed_volume name) (andThen (ask ex [''volume'', ''inspect'', name]) (\<lambda>r.
     if rp_fail r = None then ret ()
     else andThen (must ex [''volume'', ''create'', name] ''create volume'' name) (\<lambda>_. ret ())))"

definition VolumeMountpoint :: "'d daemon \<Rightarrow> string \<Rightarrow> ('d, string) act" where
  "VolumeMountpoint ex name = admit (managed_volume name)
     (andThen (must ex [''volume'', ''inspect'', name, ''--format'', ''{{.Mountpoint}}''] ''inspect volume'' name) (\<lambda>r.
        if trim_space (rp_out r) = '''' then refuse (NoMountpoint name) else ret (trim_space (rp_out r))))"

definition ListVolumes :: "'d daemon \<Rightarrow> ('d, string list) act" where
  "ListVolumes ex = andThen (must ex [''volume'', ''ls'', ''--filter'', ''name=^cloudless-'', ''--format'', ''{{.Name}}''] ''list volumes'' '''')
     (\<lambda>r. ret (filter managedVolumeName (go_fields (rp_out r))))"

definition RemoveVolume :: "'d daemon \<Rightarrow> string \<Rightarrow> ('d, unit) act" where
  "RemoveVolume ex name = admit (managed_volume name)
     (andThen (must ex [''volume'', ''rm'', name] ''remove volume'' name) (\<lambda>_. ret ()))"

definition ConnectNetwork :: "'d daemon \<Rightarrow> string \<Rightarrow> string \<Rightarrow> ('d, unit) act" where
  "ConnectNetwork ex network container =
     admit (managed ''network'' network) (admit (managed ''container'' container)
       (andThen (ask ex [''network'', ''connect'', network, container]) (\<lambda>r.
          case rp_fail r of None \<Rightarrow> ret ()
          | Some e \<Rightarrow> if contains (rp_err r) ''already exists'' \<or> contains (rp_err r) ''already connected'' then ret ()
                     else refuse (CommandFailed ''connect'' container e (trim_space (rp_err r))))))"

subsection \<open>Queries about containers\<close>

text \<open>\<open>strings.Cut(line, sep)\<close>.\<close>

definition cut :: "char \<Rightarrow> string \<Rightarrow> (string \<times> string) option" where
  "cut c s = (if c \<in> set s then Some (before c s, drop (Suc (length (before c s))) s) else None)"

definition environment_of :: "string \<Rightarrow> (string, string) gomap" where
  "environment_of out = foldl (\<lambda>m line. case cut CHR ''='' (trim_space line) of
       None \<Rightarrow> m | Some (k, v) \<Rightarrow> if environmentName k then put k v m else m) [] (split_on CHR 0x0A out)"

definition ContainerEnvironment :: "'d daemon \<Rightarrow> string \<Rightarrow> ('d, (string, string) gomap) act" where
  "ContainerEnvironment ex container = admit (managed ''container'' container)
     (andThen (must ex [''inspect'', ''--format'', ''{{range .Config.Env}}{{println .}}{{end}}'', container] ''inspect environment'' container)
        (\<lambda>r. ret (environment_of (rp_out r))))"

definition HermesConfigValue :: "'d daemon \<Rightarrow> string \<Rightarrow> string \<Rightarrow> ('d, string) act" where
  "HermesConfigValue ex container key = admit (managed ''container'' container)
     (admit (fail_if (key \<noteq> ''model.context_length'' \<and> key \<noteq> ''model.max_tokens'') BadHermesKey)
       (andThen (must ex [''exec'', container, ''hermes'', ''config'', ''get'', key] ''read Hermes configuration'' key)
          (\<lambda>r. ret (trim_space (rp_out r)))))"

definition HasNVIDIARuntime :: "'d daemon \<Rightarrow> ('d, bool) act" where
  "HasNVIDIARuntime ex = andThen (must ex [''info'', ''--format'', ''{{json .Runtimes}}''] ''inspect Docker runtimes'' '''')
     (\<lambda>r. ret (contains (to_lower_text (rp_out r)) (CHR 0x22 # ''nvidia'' @ [CHR 0x22])))"

definition containerNames :: "'d daemon \<Rightarrow> string \<Rightarrow> ('d, string list) act" where
  "containerNames ex flt =
     andThen (must ex [''ps'', ''-a'', ''--filter'', flt, ''--format'', ''{{.Names}}''] ''discover managed containers'' '''') (\<lambda>r.
       let names = go_fields (rp_out r)
       in if list_all (\<lambda>n. managed ''container'' n = None) names then ret names else refuse (UnmanagedContainer flt))"

definition ContainerNamesByLabel :: "'d daemon \<Rightarrow> string \<Rightarrow> string \<Rightarrow> ('d, string list) act" where
  "ContainerNamesByLabel ex key val =
     admit (fail_if (key \<noteq> ''cloudless.recipe.operation'' \<and> key \<noteq> ''com.docker.compose.project'') BadLabelKey)
       (admit (fail_if (\<not> labelValue val) BadLabelValue) (containerNames ex (''label='' @ key @ ''='' @ val)))"

definition ContainerNamesByAncestor :: "'d daemon \<Rightarrow> string \<Rightarrow> ('d, string list) act" where
  "ContainerNamesByAncestor ex img = admit (image_ref img) (containerNames ex (''ancestor='' @ img))"

definition LogsTail :: "'d daemon \<Rightarrow> string \<Rightarrow> int \<Rightarrow> ('d, string) act" where
  "LogsTail ex container n = admit (managed ''container'' container) (admit (fail_if (n < 1 \<or> n > 1000) BadTail)
     (andThen (must ex [''logs'', ''--tail'', itoa n, container] ''logs'' container) (\<lambda>r. ret (rp_out r @ rp_err r))))"

definition HasAlias :: "'d daemon \<Rightarrow> string \<Rightarrow> string \<Rightarrow> ('d, bool) act" where
  "HasAlias ex container alias = admit (managed ''container'' container) (admit (managed ''network alias'' alias)
     (andThen (must ex [''inspect'', ''--format'',
         ''{{range .NetworkSettings.Networks}}{{range .Aliases}}{{.}} {{end}}{{end}}'', container] ''inspect'' container)
        (\<lambda>r. ret (alias \<in> set (go_fields (rp_out r))))))"

definition Exec :: "'d daemon \<Rightarrow> string \<Rightarrow> string list \<Rightarrow> ('d, unit) act" where
  "Exec ex container args = admit (managed ''container'' container)
     (andThen (must ex (''exec'' # container # args) ''exec'' container) (\<lambda>_. ret ()))"

subsection \<open>Images\<close>

definition Pull :: "'d daemon \<Rightarrow> string \<Rightarrow> ('d, unit) act" where
  "Pull ex img = admit (image_ref img) (andThen (must ex [''pull'', img] ''pull'' img) (\<lambda>_. ret ()))"

text \<open>A streamed command: the lines shown on the way, and the error at the end.\<close>

definition stream :: "'d daemon \<Rightarrow> string list \<Rightarrow> string \<Rightarrow> string \<Rightarrow> ('d, string list \<times> docker_error option) act" where
  "stream ex argv what img = andThen (ask ex argv) (\<lambda>r.
     ret (shown_lines r, map_option (\<lambda>e. CommandFailed what img e '''') (rp_fail r)))"

definition PullStream :: "'d daemon \<Rightarrow> string \<Rightarrow> ('d, string list \<times> docker_error option) act" where
  "PullStream ex img = admit (image_ref img) (stream ex [''pull'', img] ''pull'' img)"

definition Build :: "host \<Rightarrow> 'd daemon \<Rightarrow> string \<Rightarrow> string \<Rightarrow> ('d, string list \<times> docker_error option) act" where
  "Build h ex img contextDir = admit (map_option Refused (validateBuild h img contextDir))
     (stream ex [''build'', ''-t'', img, contextDir] ''build'' img)"

definition RemoveImage :: "'d daemon \<Rightarrow> string \<Rightarrow> ('d, unit) act" where
  "RemoveImage ex img = admit (image_ref img) (andThen (must ex [''rmi'', ''-f'', img] ''rmi'' img) (\<lambda>_. ret ()))"

record ImageInfo =
  ii_ID :: string
  ii_OS :: string
  ii_Architecture :: string
  ii_Size :: int
  ii_EntryPoint :: "string list"
  ii_Command :: "string list"
  ii_RepoDigests :: "string list"

record ImageDigestRef =
  id_Repository :: string
  id_Tag :: string
  id_Digest :: string

record Container =
  co_ID :: string
  co_Name :: string
  co_Image :: string
  co_State :: string
  co_Status :: string
  co_Ports :: string

text \<open>What \<open>json.Unmarshal\<close> makes of an answer of Docker.\<close>

record decoder =
  de_images :: "string \<Rightarrow> ImageInfo list option"
  de_ps :: "string \<Rightarrow> Container option"
  de_scaled :: "string \<Rightarrow> nat \<Rightarrow> int option"

definition InspectImage :: "decoder \<Rightarrow> 'd daemon \<Rightarrow> string \<Rightarrow> ('d, ImageInfo) act" where
  "InspectImage de ex img = admit (image_ref img) (andThen (must ex [''image'', ''inspect'', img] ''inspect image'' img) (\<lambda>r.
     case de_images de (rp_out r) of Some [i] \<Rightarrow> ret i | _ \<Rightarrow> refuse (BadMetadata img)))"

definition TagImage :: "'d daemon \<Rightarrow> string \<Rightarrow> string \<Rightarrow> ('d, unit) act" where
  "TagImage ex source target = admit (image_ref source) (admit (image_ref target)
     (andThen (must ex [''tag'', source, target] ''tag image'' source) (\<lambda>_. ret ())))"

definition remoteImageMetadata :: "'d daemon \<Rightarrow> string \<Rightarrow> string \<Rightarrow> ('d, string) act" where
  "remoteImageMetadata ex img fmt = admit (image_ref img)
     (andThen (must ex [''buildx'', ''imagetools'', ''inspect'', img, ''--format'', fmt] ''inspect remote image'' img)
        (\<lambda>r. ret (trim_space (rp_out r))))"

definition RemoteImageManifest :: "'d daemon \<Rightarrow> string \<Rightarrow> ('d, string) act" where
  "RemoteImageManifest ex img = remoteImageMetadata ex img ''{{json .Manifest}}''"

definition RemoteImageConfig :: "'d daemon \<Rightarrow> string \<Rightarrow> ('d, string) act" where
  "RemoteImageConfig ex img = remoteImageMetadata ex img ''{{json .Image}}''"

definition admittedImageExportPath :: "string \<Rightarrow> bool" where
  "admittedImageExportPath path \<longleftrightarrow> IsAbs path \<and> Base path \<noteq> ''.'' \<and>
     (case Rel (Clean ''/var/lib/cloudless/image-transfers'') path of None \<Rightarrow> False
      | Some r \<Rightarrow> r \<noteq> ''.'' \<and> r \<noteq> ''..'' \<and> \<not> has_prefix r ''../'' \<and> has_prefix (Base path) ''cloudless-image-'')"

text \<open>
  \<open>files\<close>: the first file operation that fails before the command (creating the directory and the
  temporary file) and after it (sync, owner, mode, close, rename). The archive is published only when all succeed.
\<close>

definition ExportImage :: "string option \<times> string option \<Rightarrow> 'd daemon \<Rightarrow> string \<Rightarrow> string \<Rightarrow> ('d, unit) act" where
  "ExportImage files ex img destination0 = admit (image_ref img)
     (let destination = Clean (trim_space destination0)
      in admit (fail_if (\<not> admittedImageExportPath destination) ExportOutside)
           (admit (map_option ExportFailed (fst files))
             (andThen (must ex [''image'', ''save'', img] ''export image'' img) (\<lambda>_.
                admit (map_option ExportFailed (snd files)) (ret ())))))"

definition digest_ref :: "string \<Rightarrow> ImageDigestRef option" where
  "digest_ref line = (case split_on CHR ''|'' (trim_space line) of
       [a, b, c] \<Rightarrow> if imageReference a then Some \<lparr>id_Repository = a, id_Tag = b, id_Digest = c\<rparr> else None
     | _ \<Rightarrow> None)"

definition ListImageDigests :: "'d daemon \<Rightarrow> ('d, ImageDigestRef list) act" where
  "ListImageDigests ex =
     andThen (must ex [''image'', ''ls'', ''--digests'', ''--format'', ''{{.Repository}}|{{.Tag}}|{{.Digest}}''] ''list image digests'' '''')
       (\<lambda>r. ret (List.map_filter digest_ref (split_on CHR 0x0A (rp_out r))))"

subsection \<open>Containers\<close>

definition policy :: "host \<Rightarrow> RunSpec \<Rightarrow> docker_error option" where
  "policy h spec = map_option Refused (checks [ValidateRunSpec h spec, validateGPURequest (rs_GPUs spec)])"

definition Run :: "host \<Rightarrow> 'd daemon \<Rightarrow> RunSpec \<Rightarrow> ('d, string) act" where
  "Run h ex spec = admit (policy h spec)
     (andThen (must ex (runArgs (GPUContainerMode h = GPUCDI) spec) ''run'' (rs_Image spec)) (\<lambda>r. ret (trim_space (rp_out r))))"

text \<open>\<open>rand\<close>: the 12 random bytes of a generated name, or the error of reading them.\<close>

definition transientName :: "string + nat list \<Rightarrow> docker_error + string" where
  "transientName rand = (case rand of Inl e \<Rightarrow> Inl (EntropyFailed e)
     | Inr bytes \<Rightarrow> Inr (''cloudless-transient-'' @ hex_encode bytes))"

definition named_spec :: "string + nat list \<Rightarrow> RunSpec \<Rightarrow> docker_error + RunSpec" where
  "named_spec rand spec = (if rs_Name spec \<noteq> '''' then Inr spec
     else bind_res (transientName rand) (\<lambda>n. Inr (spec\<lparr>rs_Name := n\<rparr>)))"

definition RunTransient :: "host \<Rightarrow> string + nat list \<Rightarrow> 'd daemon \<Rightarrow> RunSpec \<Rightarrow> ('d, string) act" where
  "RunTransient h rand ex spec0 = (case named_spec rand spec0 of Inl e \<Rightarrow> refuse e
     | Inr spec \<Rightarrow> admit (policy h spec)
         (andThen (must ex (transientArgs (GPUContainerMode h = GPUCDI) spec) ''run transient'' (rs_Image spec))
            (\<lambda>r. ret (trim_space (rp_out r)))))"

definition Stop :: "'d daemon \<Rightarrow> string \<Rightarrow> ('d, unit) act" where
  "Stop ex name = admit (managed ''container'' name) (andThen (must ex [''stop'', name] ''stop'' name) (\<lambda>_. ret ()))"

definition Remove :: "'d daemon \<Rightarrow> string \<Rightarrow> ('d, unit) act" where
  "Remove ex name = admit (managed ''container'' name) (andThen (must ex [''rm'', ''-f'', name] ''remove'' name) (\<lambda>_. ret ()))"

definition ListContainers :: "decoder \<Rightarrow> 'd daemon \<Rightarrow> ('d, Container list) act" where
  "ListContainers de ex = andThen (must ex [''ps'', ''-a'', ''--format'', ''{{json .}}''] ''ps'' '''') (\<lambda>r.
     ret (List.map_filter (\<lambda>l. if l = '''' then None else de_ps de l) (map trim_space (scan_lines 65536 (rp_out r)))))"

definition FindContainer :: "decoder \<Rightarrow> 'd daemon \<Rightarrow> string \<Rightarrow> ('d, Container option) act" where
  "FindContainer de ex name = admit (managed ''container'' name)
     (andThen (ListContainers de ex) (\<lambda>cs. ret (find (\<lambda>c. co_Name c = name) cs)))"

definition Logs :: "'d daemon \<Rightarrow> string \<Rightarrow> ('d, string) act" where
  "Logs ex name = admit (managed ''container'' name)
     (andThen (must ex [''logs'', name] ''logs'' name) (\<lambda>r. ret (rp_out r @ rp_err r)))"

subsection \<open>Digests and traffic\<close>

text \<open>The suffix from the last occurrence of \<open>p\<close> (\<open>strings.LastIndex\<close>).\<close>

fun from_last :: "string \<Rightarrow> string \<Rightarrow> string option" where
  "from_last p [] = (if p = [] then Some [] else None)"
| "from_last p (c # s) = (case from_last p s of Some t \<Rightarrow> Some t
     | None \<Rightarrow> if has_prefix (c # s) p then Some (c # s) else None)"

definition explicitImageDigest :: "string \<Rightarrow> string" where
  "explicitImageDigest img = (case from_last ''@sha256:'' img of None \<Rightarrow> '''' | Some t \<Rightarrow> drop 1 t)"

definition ImageDigest :: "'d daemon \<Rightarrow> string \<Rightarrow> ('d, string) act" where
  "ImageDigest ex img =
     andThen (ask ex [''image'', ''inspect'', img, ''-f'', ''{{if .RepoDigests}}{{index .RepoDigests 0}}{{end}}'']) (\<lambda>r.
       if rp_fail r \<noteq> None then ret ''''
       else if explicitImageDigest img \<noteq> '''' then ret (explicitImageDigest img)
       else ret (case from_last ''@'' (trim_space (rp_out r)) of None \<Rightarrow> '''' | Some t \<Rightarrow> drop 1 t))"

definition digest_line :: "string \<Rightarrow> string option" where
  "digest_line line = (let l = trim_space line
     in if has_prefix l ''Digest:'' then Some (trim_space (trim_prefix l ''Digest:'')) else None)"

definition RemoteDigest :: "'d daemon \<Rightarrow> string \<Rightarrow> ('d, string) act" where
  "RemoteDigest ex img = andThen (must ex [''buildx'', ''imagetools'', ''inspect'', img] ''remote inspect'' img) (\<lambda>r.
     ret (case List.map_filter digest_line (split_on CHR 0x0A (rp_out r)) of [] \<Rightarrow> '''' | d # ds \<Rightarrow> d))"

definition ContainerImageDigest :: "'d daemon \<Rightarrow> string \<Rightarrow> ('d, string) act" where
  "ContainerImageDigest ex name = admit (managed ''container'' name)
     (andThen (ask ex [''inspect'', name, ''-f'', ''{{.Image}}'']) (\<lambda>r.
        if rp_fail r \<noteq> None then ret '''' else ImageDigest ex (trim_space (rp_out r))))"

text \<open>\<open>strings.ToUpper\<close> as far as its result is compared with ASCII text: U+0131 and U+017F become \<open>I\<close> and \<open>S\<close>.\<close>

fun to_upper_text :: "string \<Rightarrow> string" where
  "to_upper_text [] = []"
| "to_upper_text (c # s) =
     (if has_prefix (c # s) [CHR 0xC4, CHR 0xB1] then CHR ''I'' # to_upper_text (drop 1 s)
      else if has_prefix (c # s) [CHR 0xC5, CHR 0xBF] then CHR ''S'' # to_upper_text (drop 1 s)
      else (case lookup (map (\<lambda>(u, l). (l, u)) lower_of) c of None \<Rightarrow> c | Some u \<Rightarrow> u) # to_upper_text s)"

definition byte_units :: "(string \<times> nat) list" where
  "byte_units = [(''B'', 1), (''KB'', 10 ^ 3), (''MB'', 10 ^ 6), (''GB'', 10 ^ 9), (''TB'', 10 ^ 12),
     (''KIB'', 2 ^ 10), (''MIB'', 2 ^ 20), (''GIB'', 2 ^ 30), (''TIB'', 2 ^ 40)]"

text \<open>The floating point product (\<open>ParseFloat\<close>, times the multiplier, to \<open>int64\<close>) is an argument.\<close>

definition parseDockerByteValue :: "(string \<Rightarrow> nat \<Rightarrow> int option) \<Rightarrow> string \<Rightarrow> int option" where
  "parseDockerByteValue scaled value0 =
     (let v = trim_space value0; digits = takeWhile (\<lambda>c. c = CHR ''.'' \<or> is_digit c) v
      in if v = '''' \<or> v = ''0B'' then Some 0
         else if digits = '''' then None
         else case lookup byte_units (to_upper_text (trim_space (drop (length digits) v))) of
                None \<Rightarrow> None | Some m \<Rightarrow> scaled digits m)"

definition ContainerIO :: "(string \<Rightarrow> nat \<Rightarrow> int option) \<Rightarrow> 'd daemon \<Rightarrow> string \<Rightarrow> ('d, int \<times> int) act" where
  "ContainerIO scaled ex name = admit (managed ''container'' name)
     (andThen (must ex [''stats'', ''--no-stream'', ''--format'', ''{{.NetIO}}'', name] ''inspect network IO'' name) (\<lambda>r.
        case map (parseDockerByteValue scaled) (split_on CHR ''/'' (trim_space (rp_out r))) of
          [Some received, Some sent] \<Rightarrow> ret (received, sent)
        | _ \<Rightarrow> refuse (BadNetIO name)))"

subsection \<open>The broker\<close>

record 'r brokerRequest =
  br_Action :: string
  br_Name :: string
  br_Other :: string
  br_Key :: string
  br_Value :: string
  br_Image :: string
  br_ContextDir :: string
  br_Destination :: string
  br_Args :: "string list"
  br_Lines :: int
  br_Spec :: "RunSpec option"
  br_Recipe :: 'r

datatype brokerResponse =
    Ok
  | Output string
  | Bool bool
  | Strings "string list"
  | Env "(string, string) gomap"
  | OneContainer "Container option"
  | Containers "Container list"
  | Image ImageInfo
  | Images "ImageDigestRef list"
  | IO int int

record 'd runtime =
  rt_host :: host
  rt_exec :: "'d daemon"
  rt_decoder :: decoder
  rt_rand :: "string + nat list"
  rt_files :: "string option \<times> string option"

text \<open>The lines sent on the way, and the final response or error.\<close>

type_synonym 'd broker_act = "'d \<Rightarrow> (string list \<times> (docker_error + brokerResponse)) \<times> 'd"

definition respond :: "('a \<Rightarrow> brokerResponse) \<Rightarrow> ('d, 'a) act \<Rightarrow> 'd broker_act" where
  "respond f a d = (case a d of (Inl e, d1) \<Rightarrow> (([], Inl e), d1) | (Inr v, d1) \<Rightarrow> (([], Inr (f v)), d1))"

definition respond_lines :: "('d, string list \<times> docker_error option) act \<Rightarrow> 'd broker_act" where
  "respond_lines a d = (case a d of
       (Inl e, d1) \<Rightarrow> (([], Inl e), d1)
     | (Inr (ls, None), d1) \<Rightarrow> ((ls, Inr Ok), d1)
     | (Inr (ls, Some e), d1) \<Rightarrow> ((ls, Inl e), d1))"

definition spec_of :: "'r brokerRequest \<Rightarrow> (RunSpec \<Rightarrow> ('d, 'a) act) \<Rightarrow> ('d, 'a) act" where
  "spec_of q f = (case br_Spec q of None \<Rightarrow> refuse SpecRequired | Some spec \<Rightarrow> f spec)"

text \<open>\<open>rx\<close>: the executor of reviewed recipe commands, if the broker has one.\<close>

definition broker_actions ::
    "'d runtime \<Rightarrow> ('r \<Rightarrow> ('d, string) act) option \<Rightarrow> 'r brokerRequest \<Rightarrow> (string \<times> 'd broker_act) list" where
  "broker_actions rt rx q =
     (let ex = rt_exec rt; h = rt_host rt; de = rt_decoder rt; name = br_Name q; img = br_Image q; unit' = (\<lambda>_. Ok) in [
     (''available'', respond unit' (Available ex)),
     (''network.ensure'', respond unit' (EnsureNetwork ex name)),
     (''volume.ensure'', respond unit' (EnsureVolume ex name)),
     (''volume.mountpoint'', respond Output (VolumeMountpoint ex name)),
     (''volume.list'', respond Strings (ListVolumes ex)),
     (''volume.remove'', respond unit' (RemoveVolume ex name)),
     (''network.connect'', respond unit' (ConnectNetwork ex name (br_Other q))),
     (''network.has-alias'', respond Bool (HasAlias ex name (br_Other q))),
     (''container.environment'', respond Env (ContainerEnvironment ex name)),
     (''container.hermes-config'', respond Output (HermesConfigValue ex name (br_Key q))),
     (''runtime.has-nvidia'', respond Bool (HasNVIDIARuntime ex)),
     (''container.by-label'', respond Strings (ContainerNamesByLabel ex (br_Key q) (br_Value q))),
     (''container.by-ancestor'', respond Strings (ContainerNamesByAncestor ex img)),
     (''container.logs-tail'', respond Output (LogsTail ex name (br_Lines q))),
     (''container.exec'', respond unit' (Exec ex name (br_Args q))),
     (''image.pull'', respond unit' (Pull ex img)),
     (''image.pull-stream'', respond_lines (PullStream ex img)),
     (''image.build'', respond_lines (Build h ex img (br_ContextDir q))),
     (''image.remove'', respond unit' (RemoveImage ex img)),
     (''image.inspect'', respond Image (InspectImage de ex img)),
     (''image.tag'', respond unit' (TagImage ex img (br_Other q))),
     (''image.remote-manifest'', respond Output (RemoteImageManifest ex img)),
     (''image.remote-config'', respond Output (RemoteImageConfig ex img)),
     (''image.export'', respond unit' (ExportImage (rt_files rt) ex img (br_Destination q))),
     (''image.list-digests'', respond Images (ListImageDigests ex)),
     (''container.run'', respond Output (spec_of q (Run h ex))),
     (''container.run-transient'', respond Output (spec_of q (RunTransient h (rt_rand rt) ex))),
     (''container.stop'', respond unit' (Stop ex name)),
     (''container.remove'', respond unit' (Remove ex name)),
     (''container.list'', respond Containers (ListContainers de ex)),
     (''container.find'', respond OneContainer (FindContainer de ex name)),
     (''container.logs'', respond Output (Logs ex name)),
     (''container.io'', respond (\<lambda>(r, s). IO r s) (ContainerIO (de_scaled de) ex name)),
     (''image.digest'', respond Output (ImageDigest ex img)),
     (''image.remote-digest'', respond Output (RemoteDigest ex img)),
     (''container.image-digest'', respond Output (ContainerImageDigest ex name)),
     (''recipe.docker'', respond Output (case rx of None \<Rightarrow> refuse NoRecipeAdapter | Some f \<Rightarrow> f (br_Recipe q)))])"

definition executeBrokerAction :: "'d runtime \<Rightarrow> ('r \<Rightarrow> ('d, string) act) option \<Rightarrow> 'r brokerRequest \<Rightarrow> 'd broker_act" where
  "executeBrokerAction rt rx q = (case lookup (broker_actions rt rx q) (br_Action q) of
       None \<Rightarrow> (\<lambda>d. (([], Inl UnsupportedAction), d)) | Some a \<Rightarrow> a)"

definition maxBrokerRequest :: nat where "maxBrokerRequest = 2 * 2 ^ 20"

datatype broker_event = Line string | Answer brokerResponse | Failure string | ActionFailure docker_error

definition serve :: "'d runtime \<Rightarrow> ('r \<Rightarrow> ('d, string) act) option \<Rightarrow> 'r brokerRequest \<Rightarrow> 'd \<Rightarrow> broker_event list \<times> 'd" where
  "serve rt rx q d = (case executeBrokerAction rt rx q d of
       ((ls, Inl e), d1) \<Rightarrow> (map Line ls @ [ActionFailure e], d1)
     | ((ls, Inr r), d1) \<Rightarrow> (map Line ls @ [Answer r], d1))"

text \<open>
  One connection. \<open>input\<close> is what the caller sends; \<open>broken\<close> tells that reading fails before a line end or the
  end of the stream. \<open>decode\<close> is the strict decoding of the line: a known shape, no unknown member, nothing after it.
\<close>

definition handleBrokerConnection ::
    "bool \<Rightarrow> string \<Rightarrow> bool \<Rightarrow> (string \<Rightarrow> 'r brokerRequest option) \<Rightarrow> 'd runtime \<Rightarrow> ('r \<Rightarrow> ('d, string) act) option \<Rightarrow> 'd \<Rightarrow>
     broker_event list \<times> 'd" where
  "handleBrokerConnection authorized input broken decode rt rx d =
     (if \<not> authorized then ([Failure ''caller is not authorized''], d)
      else let received = take (maxBrokerRequest + 1) input;
               line = (if CHR 0x0A \<in> set received then before CHR 0x0A received @ [CHR 0x0A] else received)
           in if broken \<and> CHR 0x0A \<notin> set received \<or> maxBrokerRequest < length line
              then ([Failure ''invalid container request''], d)
              else case decode line of
                     None \<Rightarrow> ([Failure ''invalid container request''], d)
                   | Some q \<Rightarrow> serve rt rx q d)"

end
