(* ===== verification/BrokerProps.thy ===== *)
theory BrokerProps
  imports EngineProps DockerBroker
begin

text \<open>Which commands can reach Docker through the broker, and which requests never do.\<close>

subsection \<open>Admitted commands\<close>


















end
