(* ===== verification/ReviewedPolicy.thy ===== *)
theory ReviewedPolicy
  imports RecipeOpsStore DockerBroker
begin

text \<open>
  \<open>internal/engine/reviewed_recipe_policy.go\<close>: the adapter through which the lifecycle scripts of the
  reviewed recipes reach Docker. The journal file of a state directory, the output of git in a checkout
  and the resolution of symbolic links are arguments, next to the host.
\<close>

record ReviewedRecipeDockerSpec =
  ds_OperationID :: string
  ds_RecipeRevision :: string
  ds_WorkingDir :: string
  ds_Args :: "string list"
  ds_Environment :: "(string, string) gomap"

record ReviewedRecipePolicy =
  rp_StateDir :: string
  rp_RuntimeRoot :: string

text \<open>A prepared process, and what the process does: the chunks it writes (those on the error stream are
  marked) and whether it exits without an error.\<close>

record command_line =
  cl_Path :: string
  cl_Args :: "string list"
  cl_Dir :: string
  cl_Env :: "string list"

type_synonym process = "(bool \<times> string) list \<times> bool"

record reviewer =
  rv_host :: host
  rv_journal :: "string \<Rightarrow> read_result"
  rv_exec :: "command_line \<Rightarrow> process"
  rv_eval :: "string \<Rightarrow> string option"
  rv_now :: "string \<times> string"

datatype review_error =
    RootsNotAbsolute
  | JournalUnreadable ops_error
  | NotRegistered
  | RevisionMismatch
  | SnapshotInvalid
  | NotReviewed
  | NoLongerExecutable
  | PathNotAbsolute
  | PathOutside
  | ResolveFailed
  | NoInventory
  | GitFailed string
  | WrongRevision
  | InventoryInvalid
  | FileChanged string
  | NoRuntimeName
  | BadEnvironment string
  | CommandSize
  | ArgumentInvalid
  | ArgumentForbidden string
  | CommandNotAdmitted string
  | ComposeRefused string
  | VolumeRefused
  | RemovalRefused
  | QueryRefused
  | ImageQueryRefused
  | BuildRefused string
  | RunRefused string
  | BinaryNotAbsolute
  | PlanInvalid
  | PlanRefused string
  | CommandFailure string

subsection \<open>Paths\<close>

definition requireContainedPath :: "string \<Rightarrow> string \<Rightarrow> review_error option" where
  "requireContainedPath path0 root0 =
     (let path = Clean (trim_space path0); root = Clean (trim_space root0)
      in if \<not> IsAbs path \<or> \<not> IsAbs root then Some PathNotAbsolute
         else if pathWithin path root then None else Some PathOutside)"

definition requireResolvedContainedPath :: "reviewer \<Rightarrow> string \<Rightarrow> string \<Rightarrow> review_error option" where
  "requireResolvedContainedPath rv path root =
     (case requireContainedPath path root of
        Some e \<Rightarrow> Some e
      | None \<Rightarrow> (case (rv_eval rv (Clean root), rv_eval rv (Clean path)) of
                  (Some r, Some p) \<Rightarrow> requireContainedPath p r
                | _ \<Rightarrow> Some ResolveFailed))"

definition model_cache_root :: "host \<Rightarrow> string" where
  "model_cache_root h = (let v = trim_space (h_env h ''CLOUDLESS_MODEL_CACHE'')
     in if v \<noteq> '''' then Clean v else ''/var/lib/cloudless/models-cache'')"

definition admittedReviewedModelCache :: "reviewer \<Rightarrow> string \<Rightarrow> bool" where
  "admittedReviewedModelCache rv source0 =
     (let source = Clean (trim_space source0); root = Clean (model_cache_root (rv_host rv))
      in IsAbs source \<and> pathWithin source root \<and> requireResolvedContainedPath rv source root = None)"

definition admittedReviewedSecretMount :: "host \<Rightarrow> string \<Rightarrow> string \<Rightarrow> bool" where
  "admittedReviewedSecretMount h mount stateDir =
     (case split_on CHR '':'' mount of
        [source, target, mode] \<Rightarrow>
          source = Join (Clean stateDir) ''huggingface-token'' \<and> target = HuggingFaceTokenContainerPath \<and> mode = ''ro'' \<and>
          (case h_lstat h source of File kind perm \<Rightarrow> kind = Regular \<and> owner_only perm | _ \<Rightarrow> False)
      | _ \<Rightarrow> False)"

subsection \<open>Environment and checkout\<close>

definition environment_entry :: "string \<Rightarrow> string \<times> string \<Rightarrow> review_error option" where
  "environment_entry runtimeName e =
     (case e of (key, v) \<Rightarrow>
        if key = ''COMPOSE_PROJECT_NAME'' then fail_if (v \<noteq> runtimeName) (BadEnvironment key)
        else if key = ''COMPOSE_DISABLE_ENV_FILE'' then fail_if (v \<notin> {'''', ''0'', ''1''}) (BadEnvironment key)
        else if key = ''NODE_RANK'' then fail_if (v \<notin> {''0'', ''1''}) (BadEnvironment key)
        else if key = ''HEADLESS'' then fail_if (v \<notin> {'''', ''1''}) (BadEnvironment key)
        else Some (BadEnvironment key))"

definition authorizeReviewedEnvironment :: "Operation \<Rightarrow> (string, string) gomap \<Rightarrow> review_error option" where
  "authorizeReviewedEnvironment op env =
     (case RuntimeName op of None \<Rightarrow> Some NoRuntimeName | Some n \<Rightarrow> first_error (environment_entry n) env)"

definition output_limit :: nat where
  "output_limit = 16 * 2 ^ 20"

fun boundedRecipeOutput :: "string \<Rightarrow> string list \<Rightarrow> bool \<times> string" where
  "boundedRecipeOutput buffer [] = (True, buffer)"
| "boundedRecipeOutput buffer (payload # rest) =
     (if output_limit < length buffer + length payload
      then (False, buffer @ take (output_limit - length buffer) payload)
      else boundedRecipeOutput (buffer @ payload) rest)"

text \<open>\<open>Run\<close> fails when the process does or when a writer refuses more; \<open>command_output\<close> keeps the
  standard output and the error stream apart, \<open>combined_output\<close> gives both to one writer.\<close>

definition command_output :: "process \<Rightarrow> string option" where
  "command_output proc =
     (let out = boundedRecipeOutput '''' (map snd (filter (\<lambda>c. \<not> fst c) (fst proc)));
          err = boundedRecipeOutput '''' (map snd (filter fst (fst proc)))
      in if snd proc \<and> fst out \<and> fst err then Some (snd out) else None)"

definition combined_output :: "process \<Rightarrow> bool \<times> string" where
  "combined_output proc =
     (let out = boundedRecipeOutput '''' (map snd (fst proc)) in (snd proc \<and> fst out, trim_space (snd out)))"

definition reviewedGitOutput :: "reviewer \<Rightarrow> string \<Rightarrow> string list \<Rightarrow> string option" where
  "reviewedGitOutput rv checkout args = command_output (rv_exec rv
     \<lparr>cl_Path = ''/usr/bin/git'',
      cl_Args = [''-c'', ''core.pager=cat'', ''-c'', ''safe.directory='' @ checkout, ''-C'', checkout] @ args,
      cl_Dir = '''',
      cl_Env = [''PATH=/usr/sbin:/usr/bin:/sbin:/bin'', ''HOME=/nonexistent'', ''GIT_CONFIG_NOSYSTEM=1'',
        ''GIT_TERMINAL_PROMPT=0'']\<rparr>)"

definition signed_file :: "reviewer \<Rightarrow> string \<Rightarrow> string \<Rightarrow> string \<times> string \<Rightarrow> review_error option" where
  "signed_file rv checkout revision e =
     (case e of (name, expected) \<Rightarrow>
        let clean = Clean name
        in if clean = ''.'' \<or> IsAbs clean \<or> clean = ''..'' \<or> has_prefix clean ''../'' then Some InventoryInvalid
           else case reviewedGitOutput rv checkout [''show'', revision @ '':'' @ clean] of
                  None \<Rightarrow> Some (GitFailed name)
                | Some payload \<Rightarrow>
                    fail_if (\<not> equal_fold (sha256_hex payload) (trim_space expected)) (FileChanged name))"

definition verifyReviewedCheckout :: "reviewer \<Rightarrow> Recipe \<Rightarrow> string \<Rightarrow> review_error option" where
  "verifyReviewedCheckout rv recipe checkout =
     (let src = r_Source recipe
      in if src_Files src = [] then Some NoInventory
         else case reviewedGitOutput rv checkout [''rev-parse'', ''HEAD''] of
                None \<Rightarrow> Some (GitFailed ''HEAD'')
              | Some head \<Rightarrow>
                  if trim_space head \<noteq> src_Revision src then Some WrongRevision
                  else first_error (signed_file rv checkout (src_Revision src)) (src_Files src))"

subsection \<open>Docker arguments\<close>

definition forbidden_exact :: "string list" where
  "forbidden_exact = [''--privileged'', ''--pid=host'', ''--userns=host'', ''--uts=host'', ''--cgroupns=host'', ''--cap-add'',
     ''--security-opt'', ''--mount'']"

definition forbidden_prefix :: "string list" where
  "forbidden_prefix = [''--privileged='', ''--cap-add='', ''--security-opt='', ''--mount='']"

definition forbidden_argument :: "string \<Rightarrow> bool" where
  "forbidden_argument arg =
     (let lower = to_lower_text (trim_space arg)
      in lower \<in> set forbidden_exact \<or> list_ex (has_prefix lower) forbidden_prefix \<or>
         contains lower ''/var/run/docker.sock'' \<or> contains lower ''/run/docker.sock'')"

definition argument_error :: "string \<Rightarrow> review_error option" where
  "argument_error arg =
     (if CHR 0x00 \<in> set arg \<or> 8192 < length arg then Some ArgumentInvalid
      else if forbidden_argument arg then Some (ArgumentForbidden arg) else None)"

definition in_checkout :: "string \<Rightarrow> string \<Rightarrow> string" where
  "in_checkout checkout path = (if IsAbs path then path else Join checkout path)"

definition signed_path :: "Operation \<Rightarrow> string \<Rightarrow> string \<Rightarrow> bool" where
  "signed_path op checkout path =
     (lookup (src_Files (r_Source (o_RecipeSnapshot op)))
        (case Rel checkout (Clean path) of None \<Rightarrow> '''' | Some r \<Rightarrow> r) \<noteq> None)"

fun compose_args :: "Operation \<Rightarrow> string \<Rightarrow> bool \<Rightarrow> string list \<Rightarrow> review_error option" where
  "compose_args op checkout seen [] = (if seen then None else Some (ComposeRefused ''no action''))"
| "compose_args op checkout seen (a # rest) =
     (if a \<in> {''-f'', ''--file'', ''--env-file''}
      then (if seen then Some (ComposeRefused ''option after the action'')
            else case rest of
                   [] \<Rightarrow> Some (ComposeRefused ''missing path'')
                 | p # rest' \<Rightarrow>
                     (let path = in_checkout checkout p
                      in if requireContainedPath path checkout \<noteq> None then Some (ComposeRefused ''path escapes'')
                         else if a \<noteq> ''--env-file'' \<and> \<not> signed_path op checkout path
                         then Some (ComposeRefused ''file not signed'')
                         else compose_args op checkout seen rest'))
      else if a \<in> {''config'', ''up'', ''down'', ''ps'', ''logs''}
      then (if seen then Some (ComposeRefused ''multiple actions'') else compose_args op checkout True rest)
      else if a \<in> {''-d'', ''--detach'', ''--quiet''}
      then (if \<not> seen then Some (ComposeRefused ''flag before the action'') else compose_args op checkout seen rest)
      else if has_prefix a ''--tail='' \<and> seen then compose_args op checkout seen rest
      else if has_prefix a ''-'' then Some (ComposeRefused a)
      else if \<not> seen then Some (ComposeRefused a)
      else compose_args op checkout seen rest)"

definition authorizeReviewedCompose :: "Operation \<Rightarrow> string \<Rightarrow> string list \<Rightarrow> review_error option" where
  "authorizeReviewedCompose op checkout args = compose_args op checkout False args"

definition cloudless_pair :: "string \<Rightarrow> string list \<Rightarrow> bool" where
  "cloudless_pair verb args = (case args of [v, n] \<Rightarrow> v = verb \<and> has_prefix n ''cloudless-'' | _ \<Rightarrow> False)"

definition authorizeReviewedVolume :: "string list \<Rightarrow> review_error option" where
  "authorizeReviewedVolume args = fail_if (\<not> cloudless_pair ''create'' args) VolumeRefused"

definition authorizeReviewedContainerRemoval :: "string list \<Rightarrow> review_error option" where
  "authorizeReviewedContainerRemoval args = fail_if (\<not> cloudless_pair ''-f'' args) RemovalRefused"

definition authorizeReviewedContainerQuery :: "string list \<Rightarrow> review_error option" where
  "authorizeReviewedContainerQuery args = fail_if (\<not> cloudless_pair ''inspect'' args) QueryRefused"

definition tagged_images :: "Operation \<Rightarrow> string list" where
  "tagged_images op = eng_Image (r_Engine (o_RecipeSnapshot op)) #
     (if o_PreparedImageReference op \<noteq> '''' then [o_PreparedImageReference op] else [])"

definition operation_images :: "Operation \<Rightarrow> string list" where
  "operation_images op = tagged_images op @ (if o_PreparedImageDigest op \<noteq> '''' then [o_PreparedImageDigest op] else [])"

definition authorizeReviewedImageQuery :: "Operation \<Rightarrow> string list \<Rightarrow> review_error option" where
  "authorizeReviewedImageQuery op args =
     (case args of
        [a, i, b, c] \<Rightarrow> fail_if (a \<noteq> ''inspect'' \<or> b \<noteq> ''--format'' \<or> c \<noteq> ''{{.Id}} {{.Size}}'' \<or> i \<notin> set (tagged_images op))
                          ImageQueryRefused
      | _ \<Rightarrow> Some ImageQueryRefused)"

fun build_args :: "Operation \<Rightarrow> string \<Rightarrow> string \<Rightarrow> string list \<Rightarrow> review_error + (string \<times> string)" where
  "build_args op dockerfile contextDir [] = Inr (dockerfile, contextDir)"
| "build_args op dockerfile contextDir (a # rest) =
     (if a \<in> {''-f'', ''--file''}
      then (case rest of [] \<Rightarrow> Inl (BuildRefused ''missing Dockerfile'') | f # rest' \<Rightarrow> build_args op f contextDir rest')
      else if a \<in> {''-t'', ''--tag''}
      then (case rest of [] \<Rightarrow> Inl (BuildRefused ''missing tag'')
            | t # rest' \<Rightarrow> if t \<noteq> eng_Image (r_Engine (o_RecipeSnapshot op)) then Inl (BuildRefused ''tag'')
                          else build_args op dockerfile contextDir rest')
      else if has_prefix a ''-'' then Inl (BuildRefused a)
      else if contextDir \<noteq> '''' then Inl (BuildRefused ''multiple contexts'')
      else build_args op dockerfile a rest)"

definition authorizeReviewedBuild :: "Operation \<Rightarrow> string \<Rightarrow> string list \<Rightarrow> review_error option" where
  "authorizeReviewedBuild op checkout args =
     (case build_args op '''' '''' args of
        Inl e \<Rightarrow> Some e
      | Inr (dockerfile0, context0) \<Rightarrow>
          if dockerfile0 = '''' \<or> context0 = '''' then Some (BuildRefused ''incomplete'')
          else (let dockerfile = in_checkout checkout dockerfile0; contextDir = in_checkout checkout context0
                in if requireContainedPath dockerfile checkout \<noteq> None then Some (BuildRefused ''Dockerfile escapes'')
                   else if requireContainedPath contextDir checkout \<noteq> None then Some (BuildRefused ''context escapes'')
                   else fail_if (\<not> signed_path op checkout dockerfile) (BuildRefused ''Dockerfile not signed'')))"

text \<open>What the scan of a run command has seen before the image.\<close>

record run_scan =
  sc_name :: string
  sc_network :: string
  sc_contract :: bool
  sc_infiniband :: bool

definition admitted_run_mount :: "reviewer \<Rightarrow> string \<Rightarrow> string \<Rightarrow> bool" where
  "admitted_run_mount rv stateDir mount \<longleftrightarrow>
     (let source = before CHR '':'' mount
      in has_prefix source ''cloudless-'' \<or> admittedReviewedModelCache rv source \<or>
         admittedReviewedSecretMount (rv_host rv) mount stateDir)"

text \<open>One option with its value: the next scan, or the refusal.\<close>

definition run_option :: "reviewer \<Rightarrow> string \<Rightarrow> string \<Rightarrow> string \<Rightarrow> run_scan \<Rightarrow> review_error + run_scan" where
  "run_option rv stateDir a v s =
     (if a \<in> {''-v'', ''--volume''} then (if admitted_run_mount rv stateDir v then Inr s else Inl (RunRefused ''mount''))
      else if a \<in> {''-e'', ''--env'', ''--entrypoint'', ''--label''} then Inr s
      else if a = ''--name'' then (if has_prefix v ''cloudless-'' then Inr (s\<lparr>sc_name := v\<rparr>) else Inl (RunRefused ''name''))
      else if a = ''--network'' then (if v = ''host'' then Inr (s\<lparr>sc_network := v\<rparr>) else Inl (RunRefused ''network''))
      else if a \<in> {''--ipc'', ''--gpus'', ''--ulimit''}
      then (if a = ''--ipc'' \<and> v \<noteq> ''host'' \<or> a = ''--gpus'' \<and> v \<noteq> ''all'' \<or> a = ''--ulimit'' \<and> v \<noteq> ''memlock=-1''
            then Inl (RunRefused a) else Inr (s\<lparr>sc_contract := True\<rparr>))
      else if v = ''/dev/infiniband:/dev/infiniband'' then Inr (s\<lparr>sc_infiniband := True, sc_contract := True\<rparr>)
      else Inl (RunRefused ''device''))"

definition run_valued :: "string list" where
  "run_valued = [''-v'', ''--volume'', ''-e'', ''--env'', ''--entrypoint'', ''--label'', ''--name'', ''--network'', ''--ipc'',
     ''--gpus'', ''--ulimit'', ''--device'']"

definition run_flag :: "string \<Rightarrow> bool" where
  "run_flag a \<longleftrightarrow> a \<in> {''--rm'', ''-i'', ''--interactive'', ''-d'', ''--detach''} \<or>
     has_prefix a ''--entrypoint='' \<or> has_prefix a ''--label='' \<or> has_prefix a ''--env=''"

fun run_args :: "reviewer \<Rightarrow> string \<Rightarrow> run_scan \<Rightarrow> string list \<Rightarrow> review_error + (string \<times> run_scan)" where
  "run_args rv stateDir s [] = Inr ('''', s)"
| "run_args rv stateDir s (a # rest) =
     (if a \<in> set run_valued
      then (case rest of [] \<Rightarrow> Inl (RunRefused a)
            | v # rest' \<Rightarrow> (case run_option rv stateDir a v s of Inl e \<Rightarrow> Inl e | Inr s' \<Rightarrow> run_args rv stateDir s' rest'))
      else if has_prefix a ''-'' then (if run_flag a then run_args rv stateDir s rest else Inl (RunRefused a))
      else Inr (a, s))"

definition start_scan :: run_scan where
  "start_scan = \<lparr>sc_name = '''', sc_network = '''', sc_contract = False, sc_infiniband = False\<rparr>"

definition nccl_probe :: "string \<Rightarrow> bool" where
  "nccl_probe name \<longleftrightarrow> has_prefix name ''cloudless-nccl-probe-''"

definition bounded_probe :: "string \<Rightarrow> bool" where
  "bounded_probe name \<longleftrightarrow> has_prefix name ''cloudless-contract-probe-'' \<or> nccl_probe name"

definition authorizeReviewedRun :: "reviewer \<Rightarrow> Operation \<Rightarrow> string \<Rightarrow> string list \<Rightarrow> review_error option" where
  "authorizeReviewedRun rv op stateDir args =
     (case run_args rv stateDir start_scan (tl args) of
        Inl e \<Rightarrow> Some e
      | Inr (img, s) \<Rightarrow>
          if img = '''' then Some (RunRefused ''no image'')
          else if img \<notin> set (operation_images op) then Some (RunRefused ''image'')
          else if (sc_network s = ''host'' \<or> sc_contract s) \<and> \<not> bounded_probe (sc_name s) then Some (RunRefused ''host network'')
          else fail_if (sc_infiniband s \<and> \<not> nccl_probe (sc_name s)) (RunRefused ''InfiniBand''))"

definition authorizeReviewedDockerArgs :: "reviewer \<Rightarrow> Operation \<Rightarrow> string \<Rightarrow> string \<Rightarrow> string list \<Rightarrow> review_error option" where
  "authorizeReviewedDockerArgs rv op checkout stateDir args =
     (if args = [] \<or> 256 < length args then Some CommandSize
      else case first_error argument_error args of
        Some e \<Rightarrow> Some e
      | None \<Rightarrow>
          if hd args = ''compose'' then authorizeReviewedCompose op checkout (tl args)
          else if hd args = ''build'' then authorizeReviewedBuild op checkout (tl args)
          else if hd args \<in> {''run'', ''create''} then authorizeReviewedRun rv op stateDir args
          else if hd args = ''volume'' then authorizeReviewedVolume (tl args)
          else if hd args = ''rm'' then authorizeReviewedContainerRemoval (tl args)
          else if hd args = ''container'' then authorizeReviewedContainerQuery (tl args)
          else if hd args = ''image'' then authorizeReviewedImageQuery op (tl args)
          else Some (CommandNotAdmitted (hd args)))"

subsection \<open>Authentication\<close>

definition checkout_of :: "string \<Rightarrow> string \<Rightarrow> Operation \<Rightarrow> string" where
  "checkout_of stateDir runtimeRoot op =
     (if o_Kind op = KindCheck then Join (Join stateDir ''recipe-checks'') (o_ID op) else Join runtimeRoot (o_RecipeID op))"

definition executable_phase :: "Operation \<Rightarrow> bool" where
  "executable_phase op \<longleftrightarrow> \<not> (Terminal op \<and> o_Phase op \<noteq> PhaseActive)"

definition authenticate :: "reviewer \<Rightarrow> ReviewedRecipePolicy \<Rightarrow> ReviewedRecipeDockerSpec \<Rightarrow> review_error + Operation" where
  "authenticate rv p spec =
     (let stateDir = Clean (trim_space (rp_StateDir p)); runtimeRoot = Clean (trim_space (rp_RuntimeRoot p))
      in if \<not> IsAbs stateDir \<or> \<not> IsAbs runtimeRoot then Inl RootsNotAbsolute
         else case OpenStore (rv_journal rv stateDir) of
           Inl e \<Rightarrow> Inl (JournalUnreadable e)
         | Inr store \<Rightarrow>
             (case RecipeOpsStore.Get (trim_space (ds_OperationID spec)) store of
                None \<Rightarrow> Inl NotRegistered
              | Some op \<Rightarrow>
                  let checkout = checkout_of stateDir runtimeRoot op
                  in case checks [
                       fail_if (o_RecipeRevision op = '''' \<or> o_RecipeRevision op \<noteq> trim_space (ds_RecipeRevision spec)) RevisionMismatch,
                       fail_if (RecipeRevision (o_RecipeSnapshot op) \<noteq> Some (o_RecipeRevision op)) SnapshotInvalid,
                       fail_if (ReviewedProfile (fst (rv_now rv)) (snd (rv_now rv)) (o_RecipeSnapshot op) = None) NotReviewed,
                       fail_if (\<not> executable_phase op) NoLongerExecutable,
                       requireResolvedContainedPath rv (ds_WorkingDir spec) checkout,
                       verifyReviewedCheckout rv (o_RecipeSnapshot op) checkout,
                       authorizeReviewedEnvironment op (ds_Environment spec),
                       authorizeReviewedDockerArgs rv op checkout stateDir (ds_Args spec)] of
                     Some e \<Rightarrow> Inl e | None \<Rightarrow> Inr op))"

definition Authorize :: "reviewer \<Rightarrow> ReviewedRecipePolicy \<Rightarrow> ReviewedRecipeDockerSpec \<Rightarrow> review_error option" where
  "Authorize rv p spec = (case authenticate rv p spec of Inl e \<Rightarrow> Some e | Inr op \<Rightarrow> None)"

subsection \<open>The rendered compose plan\<close>

datatype jval = JNull | JBool bool | JNumber string | JString string | JArray "jval list" | JObject "(string \<times> jval) list"

definition member_string :: "(string, jval) gomap \<Rightarrow> string \<Rightarrow> string" where
  "member_string m k = (case lookup m k of Some (JString s) \<Rightarrow> s | _ \<Rightarrow> '''')"

definition forbidden_access :: "(string, jval) gomap \<Rightarrow> string \<Rightarrow> bool" where
  "forbidden_access m k = (case lookup m k of None \<Rightarrow> False | Some JNull \<Rightarrow> False | Some v \<Rightarrow> v \<noteq> JBool False)"

definition plan_volume_ok :: "reviewer \<Rightarrow> jval \<Rightarrow> bool" where
  "plan_volume_ok rv v = (case v of
       JObject m \<Rightarrow> (member_string m ''type'' = ''volume'' \<and> has_prefix (member_string m ''source'') ''cloudless-'') \<or>
         (member_string m ''type'' = ''bind'' \<and> admittedReviewedModelCache rv (member_string m ''source''))
     | _ \<Rightarrow> False)"

definition plan_device_ok :: "jval \<Rightarrow> bool" where
  "plan_device_ok v = (case v of
       JObject m \<Rightarrow> member_string m ''source'' = ''/dev/infiniband'' \<and> member_string m ''target'' = ''/dev/infiniband''
     | _ \<Rightarrow> False)"

definition plan_list :: "(jval \<Rightarrow> bool) \<Rightarrow> jval option \<Rightarrow> bool" where
  "plan_list ok raw = (case raw of None \<Rightarrow> True | Some JNull \<Rightarrow> True | Some (JArray vs) \<Rightarrow> list_all ok vs | _ \<Rightarrow> False)"

definition validateReviewedComposeVolumes :: "reviewer \<Rightarrow> string \<Rightarrow> jval option \<Rightarrow> review_error option" where
  "validateReviewedComposeVolumes rv name raw = fail_if (\<not> plan_list (plan_volume_ok rv) raw) (PlanRefused name)"

definition validateReviewedComposeDevices :: "string \<Rightarrow> jval option \<Rightarrow> review_error option" where
  "validateReviewedComposeDevices name raw = fail_if (\<not> plan_list plan_device_ok raw) (PlanRefused name)"

definition adds_capabilities :: "(string, jval) gomap \<Rightarrow> bool" where
  "adds_capabilities m = (case lookup m ''cap_add'' of Some (JArray vs) \<Rightarrow> vs \<noteq> [] | _ \<Rightarrow> False)"

definition plan_service :: "reviewer \<Rightarrow> Operation \<Rightarrow> string \<times> (string, jval) gomap \<Rightarrow> review_error option" where
  "plan_service rv op e =
     (case e of (name, m) \<Rightarrow> checks [
        fail_if (member_string m ''image'' \<notin> set (operation_images op)) (PlanRefused name),
        fail_if (list_ex (forbidden_access m) [''privileged'', ''build'', ''secrets'', ''configs'']) (PlanRefused name),
        fail_if (list_ex (\<lambda>k. equal_fold (member_string m k) ''host'') [''pid'', ''userns_mode'', ''uts'']) (PlanRefused name),
        fail_if (adds_capabilities m) (PlanRefused name),
        validateReviewedComposeVolumes rv name (lookup m ''volumes''),
        validateReviewedComposeDevices name (lookup m ''devices'')])"

text \<open>\<open>decode\<close>: the services of the rendered document, if it is valid JSON of that shape.\<close>

definition validateReviewedComposePlan ::
    "reviewer \<Rightarrow> (string \<Rightarrow> (string, (string, jval) gomap) gomap option) \<Rightarrow> string \<Rightarrow> Operation \<Rightarrow> review_error option" where
  "validateReviewedComposePlan rv decode payload op =
     (case decode payload of None \<Rightarrow> Some PlanInvalid
      | Some services \<Rightarrow> if services = [] then Some PlanInvalid else first_error (plan_service rv op) services)"

subsection \<open>Execution\<close>

definition reviewed_keys :: "string list" where
  "reviewed_keys = [''COMPOSE_PROJECT_NAME'', ''COMPOSE_DISABLE_ENV_FILE'', ''NODE_RANK'', ''HEADLESS'']"

definition reviewedDockerCommand :: "string \<Rightarrow> ReviewedRecipeDockerSpec \<Rightarrow> string list \<Rightarrow> command_line" where
  "reviewedDockerCommand binary spec args =
     \<lparr>cl_Path = binary, cl_Args = args, cl_Dir = Clean (ds_WorkingDir spec),
      cl_Env = [''PATH=/usr/sbin:/usr/bin:/sbin:/bin'', ''HOME=/var/lib/cloudless''] @
        concat (map (\<lambda>k. case lookup (ds_Environment spec) k of None \<Rightarrow> [] | Some v \<Rightarrow> [k @ ''='' @ v]) reviewed_keys)\<rparr>"

text \<open>The global options of a compose command, which its rendering repeats.\<close>

fun config_options :: "string list \<Rightarrow> review_error + string list" where
  "config_options [] = Inr []"
| "config_options (a # rest) =
     (if a \<in> {''-f'', ''--file'', ''--env-file''}
      then (case rest of [] \<Rightarrow> Inl (ComposeRefused ''missing path'')
            | p # rest' \<Rightarrow> (case config_options rest' of Inl e \<Rightarrow> Inl e | Inr opts \<Rightarrow> Inr (a # p # opts)))
      else if a \<in> {''config'', ''up'', ''down'', ''ps'', ''logs''} then Inr []
      else if has_prefix a ''-'' then config_options rest
      else Inl (ComposeRefused a))"

type_synonym plan_decoder = "string \<Rightarrow> (string, (string, jval) gomap) gomap option"

text \<open>Both functions return the Docker commands they have run, in order, with their result.\<close>

definition validateReviewedCompose ::
    "reviewer \<Rightarrow> plan_decoder \<Rightarrow> string \<Rightarrow> ReviewedRecipeDockerSpec \<Rightarrow> Operation \<Rightarrow> command_line list \<times> review_error option" where
  "validateReviewedCompose rv decode binary spec op =
     (case config_options (tl (ds_Args spec)) of
        Inl e \<Rightarrow> ([], Some e)
      | Inr opts \<Rightarrow>
          let c = reviewedDockerCommand binary spec (''compose'' # opts @ [''config'', ''--format'', ''json''])
          in ([c], case command_output (rv_exec rv c) of
                None \<Rightarrow> Some (CommandFailure ''render'')
              | Some payload \<Rightarrow> validateReviewedComposePlan rv decode payload op))"

definition docker_binary :: "string \<Rightarrow> string" where
  "docker_binary configured = (let b = trim_space configured in if b = '''' then ''/usr/bin/docker'' else b)"

definition run_reviewed :: "reviewer \<Rightarrow> command_line \<Rightarrow> review_error + string" where
  "run_reviewed rv c = (case combined_output (rv_exec rv c) of (ok, out) \<Rightarrow> if ok then Inr out else Inl (CommandFailure out))"

definition Execute ::
    "reviewer \<Rightarrow> plan_decoder \<Rightarrow> ReviewedRecipePolicy \<Rightarrow> string \<Rightarrow> ReviewedRecipeDockerSpec \<Rightarrow>
     command_line list \<times> (review_error + string)" where
  "Execute rv decode p configured spec =
     (case authenticate rv p spec of
        Inl e \<Rightarrow> ([], Inl e)
      | Inr op \<Rightarrow>
          let binary = docker_binary configured;
              final = reviewedDockerCommand binary spec (ds_Args spec)
          in if \<not> IsAbs binary then ([], Inl BinaryNotAbsolute)
             else if ds_Args spec \<noteq> [] \<and> hd (ds_Args spec) = ''compose''
             then (case validateReviewedCompose rv decode binary spec op of
                     (issued, Some e) \<Rightarrow> (issued, Inl e)
                   | (issued, None) \<Rightarrow> (issued @ [final], run_reviewed rv final))
             else ([final], run_reviewed rv final))"

end
