(* ===== verification/ReviewedProps.thy ===== *)
theory ReviewedProps
  imports ReviewedPolicy EngineProps
begin

text \<open>What the adapter of the reviewed recipes lets through.\<close>

subsection \<open>Containment\<close>

definition inside_root :: "string \<Rightarrow> string \<Rightarrow> bool" where
  "inside_root root path \<longleftrightarrow> IsAbs root \<and> IsAbs path \<and> prefix (clean_elements root) (clean_elements path)"

lemma IsAbs_Clean_iff [simp]: "IsAbs (Clean p) = IsAbs p"
proof (cases "IsAbs p")
  case False
  have "\<forall>e \<in> set (clean_elements p). CHR ''/'' \<notin> set e \<and> e \<noteq> ''''" using clean_elements_ok by blast
  then have "\<not> has_prefix (join_path (clean_elements p)) ''/''"
    by (cases "clean_elements p" rule: join_path.cases) (auto simp: has_prefix_iff append_eq_Cons_conv)
  with False show ?thesis by (auto simp: Clean_def IsAbs_def)
qed simp

lemma requireContainedPath_None [simp]:
  "requireContainedPath path root = None \<longleftrightarrow> inside_root (trim_space root) (trim_space path)"
  by (auto simp: requireContainedPath_def inside_root_def Let_def pathWithin_iff)

lemma requireResolvedContainedPath_None:
  "requireResolvedContainedPath rv path root = None \<longleftrightarrow>
    inside_root (trim_space root) (trim_space path) \<and>
    (\<exists>r p. rv_eval rv (Clean root) = Some r \<and> rv_eval rv (Clean path) = Some p \<and> inside_root (trim_space r) (trim_space p))"
proof (cases "requireContainedPath path root")
  case None
  with requireContainedPath_None [of path root] show ?thesis
    by (cases "rv_eval rv (Clean root)"; cases "rv_eval rv (Clean path)")
      (simp_all add: requireResolvedContainedPath_def del: requireContainedPath_None, simp)
next
  case (Some e)
  with requireContainedPath_None [of path root] show ?thesis by (simp add: requireResolvedContainedPath_def)
qed

subsection \<open>Run commands\<close>

text \<open>The options of a run command as a grammar: each is a flag or an option with its value.\<close>

datatype run_opt = Valued string string | Switch string

fun run_tokens :: "run_opt \<Rightarrow> string list" where
  "run_tokens (Valued a v) = [a, v]"
| "run_tokens (Switch a) = [a]"

definition fixed_values :: "(string \<times> string) list" where
  "fixed_values = [(''--network'', ''host''), (''--ipc'', ''host''), (''--gpus'', ''all''), (''--ulimit'', ''memlock=-1''),
     (''--device'', ''/dev/infiniband:/dev/infiniband'')]"

fun admitted_opt :: "reviewer \<Rightarrow> string \<Rightarrow> run_opt \<Rightarrow> bool" where
  "admitted_opt rv stateDir (Valued a v) \<longleftrightarrow>
     a \<in> {''-v'', ''--volume''} \<and> admitted_run_mount rv stateDir v \<or> a \<in> {''-e'', ''--env'', ''--entrypoint'', ''--label''} \<or>
     a = ''--name'' \<and> has_prefix v ''cloudless-'' \<or> (a, v) \<in> set fixed_values"
| "admitted_opt rv stateDir (Switch a) \<longleftrightarrow> has_prefix a ''-'' \<and> run_flag a"

fun name_of :: "run_opt list \<Rightarrow> string" where
  "name_of [] = ''''"
| "name_of (Valued a v # opts) = (if a = ''--name'' \<and> (\<forall>w. Valued ''--name'' w \<notin> set opts) then v else name_of opts)"
| "name_of (Switch a # opts) = name_of opts"

definition host_options :: "run_opt list \<Rightarrow> bool" where
  "host_options opts \<longleftrightarrow> list_ex (\<lambda>o'. case o' of Valued a v \<Rightarrow> (a, v) \<in> set fixed_values | Switch a \<Rightarrow> False) opts"

definition device_option :: "run_opt list \<Rightarrow> bool" where
  "device_option opts \<longleftrightarrow> list_ex (\<lambda>o'. case o' of Valued a v \<Rightarrow> a = ''--device'' | Switch a \<Rightarrow> False) opts"

definition scan_opt :: "run_opt \<Rightarrow> run_scan \<Rightarrow> run_scan" where
  "scan_opt x s = (case x of Switch a \<Rightarrow> s
     | Valued a v \<Rightarrow>
         if a = ''--name'' then s\<lparr>sc_name := v\<rparr> else if a = ''--network'' then s\<lparr>sc_network := v\<rparr>
         else if a \<in> {''--ipc'', ''--gpus'', ''--ulimit''} then s\<lparr>sc_contract := True\<rparr>
         else if a = ''--device'' then s\<lparr>sc_infiniband := True, sc_contract := True\<rparr> else s)"

lemma run_option_Inr:
  "a \<in> set run_valued \<Longrightarrow>
    run_option rv sd a v s = Inr s' \<longleftrightarrow> admitted_opt rv sd (Valued a v) \<and> s' = scan_opt (Valued a v) s"
proof -
  assume "a \<in> set run_valued"
  then consider "a = ''-v''" | "a = ''--volume''" | "a = ''-e''" | "a = ''--env''" | "a = ''--entrypoint''" | "a = ''--label''"
    | "a = ''--name''" | "a = ''--network''" | "a = ''--ipc''" | "a = ''--gpus''" | "a = ''--ulimit''" | "a = ''--device''"
    unfolding run_valued_def by (simp only: list.set insert_iff empty_iff) argo
  then show ?thesis
    by cases (simp_all add: run_option_def scan_opt_def fixed_values_def, auto)
qed

lemma scan_Switch [simp]: "scan_opt (Switch a) s = s"
  by (simp add: scan_opt_def)

lemma scan_Valued:
  "sc_name (scan_opt (Valued a v) s) = (if a = ''--name'' then v else sc_name s)"
  "sc_network (scan_opt (Valued a v) s) = (if a = ''--network'' then v else sc_network s)"
  "sc_contract (scan_opt (Valued a v) s) \<longleftrightarrow> sc_contract s \<or> a \<in> {''--ipc'', ''--gpus'', ''--ulimit'', ''--device''}"
  "sc_infiniband (scan_opt (Valued a v) s) \<longleftrightarrow> sc_infiniband s \<or> a = ''--device''"
  by (simp_all add: scan_opt_def)

lemma valued_dash: "a \<in> set run_valued \<Longrightarrow> has_prefix a ''-''"
  by (auto simp: run_valued_def)

lemma flag_not_valued: "run_flag a \<Longrightarrow> a \<notin> set run_valued"
  by (auto simp: run_valued_def run_flag_def)

lemma admitted_valued: "admitted_opt rv sd (Valued a v) \<Longrightarrow> a \<in> set run_valued"
  by (auto simp: run_valued_def fixed_values_def)

lemma run_args_tokens:
  assumes "\<forall>x \<in> set opts. admitted_opt rv sd x" "\<not> has_prefix img ''-''"
  shows "run_args rv sd s (concat (map run_tokens opts) @ img # cmd) = Inr (img, fold scan_opt opts s)"
  using assms(1)
proof (induction opts arbitrary: s)
  case Nil
  then show ?case using assms(2) valued_dash by auto
next
  case (Cons x opts)
  then show ?case
  proof (cases x)
    case (Valued a v)
    with Cons.prems have "run_option rv sd a v s = Inr (scan_opt x s)" "a \<in> set run_valued"
      using run_option_Inr [of a rv sd v s "scan_opt x s"] admitted_valued [of rv sd a v] by auto
    with Cons Valued show ?thesis by simp
  next
    case (Switch a)
    with Cons flag_not_valued show ?thesis by (simp add: scan_opt_def)
  qed
qed

lemma run_args_Inr:
  "run_args rv sd s args = Inr (img, s') \<Longrightarrow> img \<noteq> '''' \<Longrightarrow>
    \<exists>opts cmd. args = concat (map run_tokens opts) @ img # cmd \<and> (\<forall>x \<in> set opts. admitted_opt rv sd x) \<and>
      \<not> has_prefix img ''-'' \<and> s' = fold scan_opt opts s"
proof (induction rv sd s args rule: run_args.induct)
  case (2 rv sd s a rest)
  consider (valued) "a \<in> set run_valued" | (flag) "a \<notin> set run_valued" "has_prefix a ''-''" | (image) "\<not> has_prefix a ''-''"
    using valued_dash by blast
  then show ?case
  proof cases
    case valued
    with 2(3) obtain v rest' s1 where r: "rest = v # rest'" "run_option rv sd a v s = Inr s1" "run_args rv sd s1 rest' = Inr (img, s')"
      by (auto split: list.splits sum.splits)
    from 2(1) [OF valued r(1,2,3) 2(4)] obtain opts cmd where
      "rest' = concat (map run_tokens opts) @ img # cmd" "\<forall>x \<in> set opts. admitted_opt rv sd x" "\<not> has_prefix img ''-''"
      "s' = fold scan_opt opts s1" by blast
    with r run_option_Inr [OF valued] show ?thesis by (intro exI [of _ "Valued a v # opts"] exI [of _ cmd]) auto
  next
    case flag
    with 2(3) have f: "run_flag a" "run_args rv sd s rest = Inr (img, s')" by (auto split: if_splits)
    from 2(2) [OF flag f(1) f(2) 2(4)] obtain opts cmd where
      "rest = concat (map run_tokens opts) @ img # cmd" "\<forall>x \<in> set opts. admitted_opt rv sd x" "\<not> has_prefix img ''-''"
      "s' = fold scan_opt opts s" by blast
    with f flag show ?thesis by (intro exI [of _ "Switch a # opts"] exI [of _ cmd]) auto
  next
    case image
    moreover from this have "a \<notin> set run_valued" using valued_dash by blast
    ultimately have "a = img" "s' = s" using 2(3) by auto
    with image show ?thesis by (intro exI [of _ "[]"] exI [of _ rest]) simp
  qed
qed simp

lemma scan_name: "sc_name (fold scan_opt opts s) = (if \<exists>v. Valued ''--name'' v \<in> set opts then name_of opts else sc_name s)"
proof (induction opts arbitrary: s)
  case (Cons x opts)
  show ?case using Cons.IH [of "scan_opt x s"] by (cases x) (auto simp: scan_Valued)
qed simp

lemma host_value:
  "admitted_opt rv sd (Valued a v) \<Longrightarrow>
    (a = ''--network'' \<and> v = ''host'' \<or> a \<in> {''--ipc'', ''--gpus'', ''--ulimit'', ''--device''}) \<longleftrightarrow> (a, v) \<in> set fixed_values"
  "admitted_opt rv sd (Valued ''--network'' v) \<Longrightarrow> v = ''host''"
  by (auto simp: fixed_values_def)

lemma scan_host:
  "\<forall>x \<in> set opts. admitted_opt rv sd x \<Longrightarrow>
    (sc_network (fold scan_opt opts s) = ''host'' \<or> sc_contract (fold scan_opt opts s)) \<longleftrightarrow>
      sc_network s = ''host'' \<or> sc_contract s \<or> host_options opts"
proof (induction opts arbitrary: s)
  case (Cons x opts)
  show ?case
  proof (cases x)
    case (Valued a v)
    with Cons.prems have ok: "admitted_opt rv sd (Valued a v)" by simp
    have "(sc_network (scan_opt (Valued a v) s) = ''host'' \<or> sc_contract (scan_opt (Valued a v) s)) \<longleftrightarrow>
        sc_network s = ''host'' \<or> sc_contract s \<or> (a, v) \<in> set fixed_values"
      using host_value(1) [OF ok] host_value(2) [of rv sd v] ok unfolding scan_Valued by (cases "a = ''--network''") auto
    moreover have "fold scan_opt (x # opts) s = fold scan_opt opts (scan_opt x s)" by simp
    moreover have "host_options (x # opts) \<longleftrightarrow> (a, v) \<in> set fixed_values \<or> host_options opts"
      by (simp add: host_options_def Valued)
    moreover have "\<forall>x \<in> set opts. admitted_opt rv sd x" using Cons.prems by simp
    ultimately show ?thesis using Cons.IH [of "scan_opt x s"] Valued by metis
  qed (use Cons in \<open>simp add: host_options_def\<close>)
qed (simp add: host_options_def)

lemma scan_device: "sc_infiniband (fold scan_opt opts s) \<longleftrightarrow> sc_infiniband s \<or> device_option opts"
proof (induction opts arbitrary: s)
  case (Cons x opts)
  then show ?case by (cases x) (auto simp: device_option_def scan_Valued)
qed (simp add: device_option_def)

lemma no_name: "\<nexists>v. Valued ''--name'' v \<in> set opts \<Longrightarrow> name_of opts = ''''"
  by (induction opts rule: name_of.induct) auto

text \<open>C16: a run (or create) command of a reviewed recipe is accepted exactly when it is a sequence of admitted flags and options
  followed by an image of the authenticated operation; host networking, shared IPC, GPUs, locked memory and the
  InfiniBand device only under the name of a bounded probe, the device only under that of an NCCL probe.\<close>

theorem reviewed_run_grammar:
  "authorizeReviewedRun rv op stateDir (verb # args) = None \<longleftrightarrow>
    (\<exists>opts img cmd. args = concat (map run_tokens opts) @ img # cmd \<and>
      (\<forall>x \<in> set opts. admitted_opt rv stateDir x) \<and>
      img \<in> set (operation_images op) \<and> img \<noteq> '''' \<and> \<not> has_prefix img ''-'' \<and>
      (host_options opts \<longrightarrow> bounded_probe (name_of opts)) \<and> (device_option opts \<longrightarrow> nccl_probe (name_of opts)))"
  (is "?L \<longleftrightarrow> (\<exists>opts img cmd. ?P opts img cmd)")
proof -
  have scan: "sc_name (fold scan_opt opts start_scan) = name_of opts"
    "sc_infiniband (fold scan_opt opts start_scan) \<longleftrightarrow> device_option opts" for opts
    using scan_name [of opts start_scan] no_name [of opts] scan_device [of opts start_scan] by (auto simp: start_scan_def)
  have host: "(sc_network (fold scan_opt opts start_scan) = ''host'' \<or> sc_contract (fold scan_opt opts start_scan)) \<longleftrightarrow> host_options opts"
    if "\<forall>x \<in> set opts. admitted_opt rv stateDir x" for opts
    using scan_host [OF that, of start_scan] by (simp add: start_scan_def)
  have "?L \<longleftrightarrow> (\<exists>img s. run_args rv stateDir start_scan args = Inr (img, s) \<and> img \<noteq> '''' \<and> img \<in> set (operation_images op) \<and>
      (sc_network s = ''host'' \<or> sc_contract s \<longrightarrow> bounded_probe (sc_name s)) \<and> (sc_infiniband s \<longrightarrow> nccl_probe (sc_name s)))"
    by (auto simp: authorizeReviewedRun_def split: sum.splits)
  also have "\<dots> \<longleftrightarrow> (\<exists>opts img cmd. ?P opts img cmd)"
  proof
    assume "\<exists>img s. run_args rv stateDir start_scan args = Inr (img, s) \<and> img \<noteq> '''' \<and> img \<in> set (operation_images op) \<and>
      (sc_network s = ''host'' \<or> sc_contract s \<longrightarrow> bounded_probe (sc_name s)) \<and> (sc_infiniband s \<longrightarrow> nccl_probe (sc_name s))"
    then obtain img s where 1: "run_args rv stateDir start_scan args = Inr (img, s)" "img \<noteq> ''''" "img \<in> set (operation_images op)"
      "sc_network s = ''host'' \<or> sc_contract s \<longrightarrow> bounded_probe (sc_name s)" "sc_infiniband s \<longrightarrow> nccl_probe (sc_name s)" by blast
    from run_args_Inr [OF 1(1,2)] obtain opts cmd where "args = concat (map run_tokens opts) @ img # cmd"
      "\<forall>x \<in> set opts. admitted_opt rv stateDir x" "\<not> has_prefix img ''-''" "s = fold scan_opt opts start_scan" by blast
    with 1 scan host have "?P opts img cmd" by metis
    then show "\<exists>opts img cmd. ?P opts img cmd" by blast
  next
    assume "\<exists>opts img cmd. ?P opts img cmd"
    then obtain opts img cmd where P: "?P opts img cmd" by blast
    then have "run_args rv stateDir start_scan args = Inr (img, fold scan_opt opts start_scan)"
      using run_args_tokens by blast
    with P scan host show "\<exists>img s. run_args rv stateDir start_scan args = Inr (img, s) \<and> img \<noteq> '''' \<and> img \<in> set (operation_images op) \<and>
      (sc_network s = ''host'' \<or> sc_contract s \<longrightarrow> bounded_probe (sc_name s)) \<and> (sc_infiniband s \<longrightarrow> nccl_probe (sc_name s))" by metis
  qed
  finally show ?thesis .
qed

subsection \<open>Compose commands\<close>

definition compose_actions :: "string list" where
  "compose_actions = [''config'', ''up'', ''down'', ''ps'', ''logs'']"

text \<open>The global options of an accepted compose command: pairs of a file option and a path inside the checkout, which
  for a compose file is in the signed inventory.\<close>

fun compose_globals :: "Operation \<Rightarrow> string \<Rightarrow> string list \<Rightarrow> bool" where
  "compose_globals op checkout [] \<longleftrightarrow> True"
| "compose_globals op checkout [a] \<longleftrightarrow> False"
| "compose_globals op checkout (a # p # rest) \<longleftrightarrow>
     a \<in> {''-f'', ''--file'', ''--env-file''} \<and>
     inside_root (trim_space checkout) (trim_space (in_checkout checkout p)) \<and>
     (a = ''--env-file'' \<or> signed_path op checkout (in_checkout checkout p)) \<and>
     compose_globals op checkout rest"

lemma compose_split:
  "compose_args op co False args = None \<Longrightarrow>
    \<exists>opts act rest. args = opts @ act # rest \<and> act \<in> set compose_actions \<and> compose_globals op co opts \<and>
      config_options args = Inr opts \<and> compose_args op co True rest = None"
proof (induction args rule: config_options.induct)
  case (2 a rest)
  consider (path) "a \<in> {''-f'', ''--file'', ''--env-file''}" | (action) "a \<in> set compose_actions"
    | (rest) "a \<notin> {''-f'', ''--file'', ''--env-file''}" "a \<notin> set compose_actions" by blast
  then show ?case
  proof cases
    case path
    with 2(3) obtain p rest' where r: "rest = p # rest'" "requireContainedPath (in_checkout co p) co = None"
      "a = ''--env-file'' \<or> signed_path op co (in_checkout co p)" "compose_args op co False rest' = None"
      by (auto simp: Let_def split: list.splits if_splits)
    from 2(1) [OF path r(1,4)] obtain opts act tail where "rest' = opts @ act # tail" "act \<in> set compose_actions"
      "compose_globals op co opts" "config_options rest' = Inr opts" "compose_args op co True tail = None" by blast
    with r path show ?thesis by (intro exI [of _ "a # p # opts"] exI [of _ act] exI [of _ tail]) simp
  next
    case action
    then have a: "a \<in> {''config'', ''up'', ''down'', ''ps'', ''logs''}" "a \<notin> {''-f'', ''--file'', ''--env-file''}"
      by (auto simp: compose_actions_def)
    with 2(3) have "compose_args op co True rest = None" by simp
    with action a show ?thesis by (intro exI [of _ "[]"] exI [of _ a] exI [of _ rest]) simp
  next
    case rest
    with 2(3) show ?thesis by (auto simp: compose_actions_def split: if_splits)
  qed
qed simp

text \<open>What a service of the rendered plan may ask for.\<close>

definition confined_service :: "reviewer \<Rightarrow> Operation \<Rightarrow> (string, jval) gomap \<Rightarrow> bool" where
  "confined_service rv op m \<longleftrightarrow>
     member_string m ''image'' \<in> set (operation_images op) \<and>
     (\<forall>k \<in> {''privileged'', ''build'', ''secrets'', ''configs''}. lookup m k \<in> {None, Some JNull, Some (JBool False)}) \<and>
     (\<forall>k \<in> {''pid'', ''userns_mode'', ''uts''}. \<not> equal_fold (member_string m k) ''host'') \<and>
     \<not> adds_capabilities m \<and>
     plan_list (plan_volume_ok rv) (lookup m ''volumes'') \<and> plan_list plan_device_ok (lookup m ''devices'')"

lemma forbidden_access_iff: "\<not> forbidden_access m k \<longleftrightarrow> lookup m k \<in> {None, Some JNull, Some (JBool False)}"
  by (cases "lookup m k") (auto simp: forbidden_access_def split: jval.splits)

lemma plan_service_None: "plan_service rv op (n, m) = None \<longleftrightarrow> confined_service rv op m"
  by (auto simp: plan_service_def confined_service_def validateReviewedComposeVolumes_def
      validateReviewedComposeDevices_def forbidden_access_iff)

lemma validated_plan:
  "validateReviewedComposePlan rv decode payload op = None \<longleftrightarrow>
    (\<exists>services. decode payload = Some services \<and> services \<noteq> [] \<and> (list_all (\<lambda>s. confined_service rv op (snd s)) services))"
  by (auto simp: validateReviewedComposePlan_def plan_service_None list_all_iff split: option.splits prod.splits)

subsection \<open>Authentication\<close>

definition authenticated :: "reviewer \<Rightarrow> ReviewedRecipePolicy \<Rightarrow> ReviewedRecipeDockerSpec \<Rightarrow> Operation \<Rightarrow> bool" where
  "authenticated rv p spec op \<longleftrightarrow>
     (\<exists>store. OpenStore (rv_journal rv (Clean (trim_space (rp_StateDir p)))) = Inr store \<and>
       RecipeOpsStore.Get (trim_space (ds_OperationID spec)) store = Some op) \<and>
     o_RecipeRevision op = trim_space (ds_RecipeRevision spec) \<and>
     RecipeRevision (o_RecipeSnapshot op) = Some (o_RecipeRevision op) \<and>
     ReviewedProfile (fst (rv_now rv)) (snd (rv_now rv)) (o_RecipeSnapshot op) \<noteq> None \<and>
     executable_phase op"

definition reviewed_checkout :: "ReviewedRecipePolicy \<Rightarrow> Operation \<Rightarrow> string" where
  "reviewed_checkout p op = checkout_of (Clean (trim_space (rp_StateDir p))) (Clean (trim_space (rp_RuntimeRoot p))) op"

definition verified_objects :: "reviewer \<Rightarrow> Operation \<Rightarrow> string \<Rightarrow> bool" where
  "verified_objects rv op checkout \<longleftrightarrow>
     (\<forall>(name, expected) \<in> set (src_Files (r_Source (o_RecipeSnapshot op))). \<exists>payload.
        reviewedGitOutput rv checkout [''show'', src_Revision (r_Source (o_RecipeSnapshot op)) @ '':'' @ Clean name] = Some payload \<and>
        equal_fold (sha256_hex payload) (trim_space expected))"

definition reviewed_values :: "string \<Rightarrow> (string \<times> string) list" where
  "reviewed_values runtimeName = [(''COMPOSE_PROJECT_NAME'', runtimeName), (''COMPOSE_DISABLE_ENV_FILE'', ''''),
     (''COMPOSE_DISABLE_ENV_FILE'', ''0''), (''COMPOSE_DISABLE_ENV_FILE'', ''1''), (''NODE_RANK'', ''0''), (''NODE_RANK'', ''1''),
     (''HEADLESS'', ''''), (''HEADLESS'', ''1'')]"

lemma environment_entry_None: "environment_entry n e = None \<longleftrightarrow> e \<in> set (reviewed_values n)"
proof -
  obtain k v where e: "e = (k, v)" by (cases e)
  consider "k = ''COMPOSE_PROJECT_NAME''" | "k = ''COMPOSE_DISABLE_ENV_FILE''" | "k = ''NODE_RANK''" | "k = ''HEADLESS''"
    | "k \<notin> {''COMPOSE_PROJECT_NAME'', ''COMPOSE_DISABLE_ENV_FILE'', ''NODE_RANK'', ''HEADLESS''}" by blast
  then show ?thesis
    by cases (simp_all add: e environment_entry_def reviewed_values_def)
qed

lemma verified_objectsD: "verifyReviewedCheckout rv (o_RecipeSnapshot op) co = None \<Longrightarrow> verified_objects rv op co"
  by (auto simp: verifyReviewedCheckout_def verified_objects_def signed_file_def Let_def split: if_splits option.splits)

lemma authenticate_Inr:
  assumes "authenticate rv p spec = Inr op"
  shows "authenticated rv p spec op"
    and "requireResolvedContainedPath rv (ds_WorkingDir spec) (reviewed_checkout p op) = None"
    and "verified_objects rv op (reviewed_checkout p op)"
    and "\<exists>n. RuntimeName op = Some n \<and> set (ds_Environment spec) \<subseteq> set (reviewed_values n)"
    and "authorizeReviewedDockerArgs rv op (reviewed_checkout p op) (Clean (trim_space (rp_StateDir p))) (ds_Args spec) = None"
proof -
  from assms obtain store where s: "OpenStore (rv_journal rv (Clean (trim_space (rp_StateDir p)))) = Inr store"
    "RecipeOpsStore.Get (trim_space (ds_OperationID spec)) store = Some op"
    by (auto simp: authenticate_def Let_def split: if_splits sum.splits option.splits)
  from assms s have c: "\<not> (o_RecipeRevision op = '''' \<or> o_RecipeRevision op \<noteq> trim_space (ds_RecipeRevision spec))"
    "RecipeRevision (o_RecipeSnapshot op) = Some (o_RecipeRevision op)"
    "ReviewedProfile (fst (rv_now rv)) (snd (rv_now rv)) (o_RecipeSnapshot op) \<noteq> None" "executable_phase op"
    "requireResolvedContainedPath rv (ds_WorkingDir spec) (reviewed_checkout p op) = None"
    "verifyReviewedCheckout rv (o_RecipeSnapshot op) (reviewed_checkout p op) = None"
    "authorizeReviewedEnvironment op (ds_Environment spec) = None"
    "authorizeReviewedDockerArgs rv op (reviewed_checkout p op) (Clean (trim_space (rp_StateDir p))) (ds_Args spec) = None"
    by (auto simp: authenticate_def reviewed_checkout_def Let_def split: if_splits option.splits)
  from s c(1-4) show "authenticated rv p spec op" by (auto simp: authenticated_def)
  show "requireResolvedContainedPath rv (ds_WorkingDir spec) (reviewed_checkout p op) = None" by (rule c(5))
  show "verified_objects rv op (reviewed_checkout p op)" by (rule verified_objectsD [OF c(6)])
  show "\<exists>n. RuntimeName op = Some n \<and> set (ds_Environment spec) \<subseteq> set (reviewed_values n)"
    using c(7) by (auto simp: authorizeReviewedEnvironment_def environment_entry_None split: option.splits)
  show "authorizeReviewedDockerArgs rv op (reviewed_checkout p op) (Clean (trim_space (rp_StateDir p))) (ds_Args spec) = None"
    by (rule c(8))
qed

subsection \<open>Execution\<close>

definition plan_command :: "string \<Rightarrow> ReviewedRecipeDockerSpec \<Rightarrow> string list \<Rightarrow> command_line" where
  "plan_command binary spec opts = reviewedDockerCommand binary spec (''compose'' # opts @ [''config'', ''--format'', ''json''])"

lemma admitted_args:
  assumes "authorizeReviewedDockerArgs rv op co sd args = None"
  shows "\<forall>a \<in> set args. \<not> forbidden_argument a" "args = ''compose'' # rest \<Longrightarrow> compose_args op co False rest = None"
  using assms
  by (auto simp: authorizeReviewedDockerArgs_def authorizeReviewedCompose_def argument_error_def split: if_splits option.splits)

lemma Execute_cases:
  assumes "authenticate rv p spec = Inr op" "IsAbs (docker_binary b)"
  shows "\<lbrakk>ds_Args spec = ''compose'' # args; config_options args = Inr opts\<rbrakk> \<Longrightarrow>
      fst (Execute rv decode p b spec) = plan_command (docker_binary b) spec opts #
        (if \<exists>payload. command_output (rv_exec rv (plan_command (docker_binary b) spec opts)) = Some payload \<and>
             validateReviewedComposePlan rv decode payload op = None
         then [reviewedDockerCommand (docker_binary b) spec (ds_Args spec)] else [])"
    and "(\<And>args. ds_Args spec \<noteq> ''compose'' # args) \<Longrightarrow>
      fst (Execute rv decode p b spec) = [reviewedDockerCommand (docker_binary b) spec (ds_Args spec)]"
proof -
  show "fst (Execute rv decode p b spec) = plan_command (docker_binary b) spec opts #
        (if \<exists>payload. command_output (rv_exec rv (plan_command (docker_binary b) spec opts)) = Some payload \<and>
             validateReviewedComposePlan rv decode payload op = None
         then [reviewedDockerCommand (docker_binary b) spec (ds_Args spec)] else [])"
    if "ds_Args spec = ''compose'' # args" "config_options args = Inr opts"
    using assms that
    by (simp add: Execute_def validateReviewedCompose_def plan_command_def Let_def split: option.splits prod.splits)
  show "fst (Execute rv decode p b spec) = [reviewedDockerCommand (docker_binary b) spec (ds_Args spec)]"
    if "\<And>args. ds_Args spec \<noteq> ''compose'' # args"
    using assms that by (cases "ds_Args spec") (auto simp: Execute_def Let_def)
qed

lemma Execute_refused:
  "authenticate rv p spec = Inl e \<Longrightarrow> fst (Execute rv decode p b spec) = []"
  "\<not> IsAbs (docker_binary b) \<Longrightarrow> fst (Execute rv decode p b spec) = []"
  by (auto simp: Execute_def Let_def split: sum.splits)







text \<open>C11: a compose command runs at most after the plan of exactly its own files was rendered, and then only if the rendering succeeded
  and every service in it uses an image of the operation, no privileged, build, secret or host-namespace access, no added
  capability, only Cloudless volumes or the model cache, and no device but InfiniBand.\<close>

theorem compose_runs_validated_plan:
  "fst (Execute rv decode p binary (spec\<lparr>ds_Args := ''compose'' # args\<rparr>)) \<in>
    {[]} \<union>
    {[plan_command (docker_binary binary) (spec\<lparr>ds_Args := ''compose'' # args\<rparr>) opts] | opts. config_options args = Inr opts} \<union>
    {[plan_command (docker_binary binary) (spec\<lparr>ds_Args := ''compose'' # args\<rparr>) opts,
      reviewedDockerCommand (docker_binary binary) (spec\<lparr>ds_Args := ''compose'' # args\<rparr>) (''compose'' # opts @ act # rest)]
      | opts act rest op payload services.
        args = opts @ act # rest \<and> act \<in> set compose_actions \<and>
        authenticate rv p (spec\<lparr>ds_Args := ''compose'' # args\<rparr>) = Inr op \<and> compose_globals op (reviewed_checkout p op) opts \<and>
        command_output (rv_exec rv (plan_command (docker_binary binary) (spec\<lparr>ds_Args := ''compose'' # args\<rparr>) opts)) = Some payload \<and>
        decode payload = Some services \<and> services \<noteq> [] \<and> (list_all (\<lambda>s. confined_service rv op (snd s)) services)}"
  (is "fst (Execute rv decode p binary ?spec) \<in> _")
proof (cases "authenticate rv p ?spec")
  case (Inr op)
  show ?thesis
  proof (cases "IsAbs (docker_binary binary)")
    case True
    have rest: "ds_Args ?spec = ''compose'' # args" by simp
    from compose_split [OF admitted_args(2) [OF authenticate_Inr(5) [OF Inr] rest]]
    obtain opts act tail where o: "args = opts @ act # tail" "act \<in> set compose_actions"
      "compose_globals op (reviewed_checkout p op) opts" "config_options args = Inr opts" by blast
    note E = Execute_cases(1) [OF Inr True rest o(4), of decode]
    show ?thesis
    proof (cases "\<exists>payload. command_output (rv_exec rv (plan_command (docker_binary binary) ?spec opts)) = Some payload \<and>
             validateReviewedComposePlan rv decode payload op = None")
      case True
      then obtain payload services where "command_output (rv_exec rv (plan_command (docker_binary binary) ?spec opts)) = Some payload"
        "decode payload = Some services" "services \<noteq> []" "list_all (\<lambda>s. confined_service rv op (snd s)) services"
        unfolding validated_plan by blast
      moreover have "fst (Execute rv decode p binary ?spec) = [plan_command (docker_binary binary) ?spec opts,
          reviewedDockerCommand (docker_binary binary) ?spec (''compose'' # opts @ act # tail)]"
        using E True o(1) by simp
      ultimately show ?thesis using Inr o by blast
    next
      case False
      then have "fst (Execute rv decode p binary ?spec) = [plan_command (docker_binary binary) ?spec opts]" using E by simp
      with o(4) show ?thesis by blast
    qed
  qed (simp add: Execute_refused)
qed (simp add: Execute_refused)

subsection \<open>Build commands\<close>

text \<open>The context of a build is only compared as a path below the checkout, and a URL is one after \<open>Join\<close>: the adapter
  admits a build whose context, and with it the Dockerfile Docker reads, come from the network.\<close>

theorem reviewed_build_admits_remote_context:
  assumes "src_Files (r_Source (o_RecipeSnapshot op)) = deepSeekCanonicalFiles"
  shows "authorizeReviewedDockerArgs rv op ''/run/recipes/dspark'' stateDir
    [''build'', ''-f'', ''docker-compose.dspark.yml'', ''https://example.com/other.git''] = None"
proof -
  have "first_error argument_error [''build'', ''-f'', ''docker-compose.dspark.yml'', ''https://example.com/other.git''] = None"
    by code_simp
  moreover have "requireContainedPath (in_checkout ''/run/recipes/dspark'' ''docker-compose.dspark.yml'') ''/run/recipes/dspark'' = None"
    "requireContainedPath (in_checkout ''/run/recipes/dspark'' ''https://example.com/other.git'') ''/run/recipes/dspark'' = None"
    "Rel ''/run/recipes/dspark'' (Clean (in_checkout ''/run/recipes/dspark'' ''docker-compose.dspark.yml'')) = Some ''docker-compose.dspark.yml''"
    "lookup deepSeekCanonicalFiles ''docker-compose.dspark.yml'' \<noteq> None"
    unfolding requireContainedPath_def by code_simp+
  ultimately show ?thesis
    using assms by (simp add: authorizeReviewedDockerArgs_def authorizeReviewedBuild_def signed_path_def del: requireContainedPath_None)
qed

definition dspark_run :: Operation where
  "dspark_run = (let r = recipeFromDraft DeepSeekDSparkID ''github'' ''reviewed-import'' '''' deepSeekDraft
     in new_operation ''2025-01-02T03:04:05Z'' ''op1'' KindRun r ''v1'' r PhasePreparing None)"

lemma dspark_run_facts:
  "src_Files (r_Source (o_RecipeSnapshot dspark_run)) = deepSeekCanonicalFiles"
  "eng_Image (r_Engine (o_RecipeSnapshot dspark_run)) = ''cloudless/dspark-vllm:'' @ take 12 DeepSeekDSparkRevision"
  by (simp_all add: dspark_run_def new_operation_def recipeFromDraft_def syncCompatibility_def deepSeekDraft_def Let_def)

theorem reviewed_build_admits_remote_context_witness:
  "\<forall>rv. authorizeReviewedDockerArgs rv dspark_run ''/run/recipes/dspark'' ''/var/lib/cloudless''
    [''build'', ''-f'', ''docker-compose.dspark.yml'', ''https://example.com/other.git''] = None"
  using reviewed_build_admits_remote_context [OF dspark_run_facts(1)] by simp

theorem reviewed_run_grammar_witness:
  "\<forall>rv. authorizeReviewedRun rv dspark_run ''/var/lib/cloudless''
    [''run'', ''--rm'', ''--name'', ''cloudless-nccl-probe-1'', ''--network'', ''host'', ''cloudless/dspark-vllm:'' @ take 12 DeepSeekDSparkRevision, ''true''] = None"
proof
  fix rv
  let ?opts = "[Switch ''--rm'', Valued ''--name'' ''cloudless-nccl-probe-1'', Valued ''--network'' ''host'']"
  let ?img = "''cloudless/dspark-vllm:'' @ take 12 DeepSeekDSparkRevision"
  have "[''--rm'', ''--name'', ''cloudless-nccl-probe-1'', ''--network'', ''host'', ?img, ''true''] =
      concat (map run_tokens ?opts) @ ?img # [''true'']" by simp
  moreover have "\<forall>x \<in> set ?opts. admitted_opt rv ''/var/lib/cloudless'' x"
    by (simp add: run_flag_def fixed_values_def)
  moreover have "?img \<in> set (operation_images dspark_run)"
    by (simp add: operation_images_def tagged_images_def dspark_run_facts)
  moreover have "?img \<noteq> ''''" "\<not> has_prefix ?img ''-''" by simp_all
  moreover have "bounded_probe (name_of ?opts)" "\<not> device_option ?opts"
    by (simp_all add: bounded_probe_def nccl_probe_def device_option_def)
  ultimately show "authorizeReviewedRun rv dspark_run ''/var/lib/cloudless''
    [''run'', ''--rm'', ''--name'', ''cloudless-nccl-probe-1'', ''--network'', ''host'', ?img, ''true''] = None"
    unfolding reviewed_run_grammar by blast
qed

end
