(* ===== verification/SecurityAudit.thy ===== *)
theory SecurityAudit
  imports GoJson
begin

text \<open>
  \<open>internal/securityaudit/log.go\<close>: the redacted, size-bounded audit trail. The five secret patterns are
  matchers over bytes; the file and its predecessor are their contents, and what fails of a write is an
  argument.
\<close>

subsection \<open>Secret patterns\<close>

text \<open>A matcher gets the byte before a position and the text from there on, and gives the length of its match.\<close>

type_synonym matcher = "char option \<Rightarrow> string \<Rightarrow> nat option"

definition is_word :: "char \<Rightarrow> bool" where
  "is_word c \<longleftrightarrow> is_alnum c \<or> c = CHR ''_''"

definition regex_space :: "char \<Rightarrow> bool" where
  "regex_space c \<longleftrightarrow> c \<in> {CHR 0x09, CHR 0x0A, CHR 0x0C, CHR 0x0D, CHR 0x20}"

definition word_before :: "char option \<Rightarrow> bool" where
  "word_before prev = (case prev of None \<Rightarrow> False | Some c \<Rightarrow> is_word c)"

definition boundary :: "char option \<Rightarrow> string \<Rightarrow> bool" where
  "boundary prev s \<longleftrightarrow> word_before prev \<noteq> (case s of [] \<Rightarrow> False | c # _ \<Rightarrow> is_word c)"

definition span :: "(char \<Rightarrow> bool) \<Rightarrow> string \<Rightarrow> nat" where
  "span p s = length (takeWhile p s)"

text \<open>A lower-case letter under \<open>(?i)\<close>: also its upper case, the Kelvin sign for k and the long s for s.\<close>

definition fold_letter :: "char \<Rightarrow> string \<Rightarrow> nat" where
  "fold_letter l s =
     (if s \<noteq> [] \<and> to_lower_char (hd s) = l then 1
      else if l = CHR ''k'' \<and> has_prefix s [CHR 0xE2, CHR 0x84, CHR 0xAA] then 3
      else if l = CHR ''s'' \<and> has_prefix s [CHR 0xC5, CHR 0xBF] then 2 else 0)"

fun fold_word :: "string \<Rightarrow> string \<Rightarrow> nat option" where
  "fold_word [] s = Some 0"
| "fold_word (l # ls) s =
     (let k = fold_letter l s in
      if k = 0 then None else map_option (\<lambda>n. k + n) (fold_word ls (drop k s)))"

text \<open>\<open>(?i)\bBearer\s+\S+\<close>\<close>

definition bearer_secret :: matcher where
  "bearer_secret prev s =
     (if \<not> boundary prev s then None
      else case fold_word ''bearer'' s of
        None \<Rightarrow> None
      | Some n \<Rightarrow>
          (let k = span regex_space (drop n s); j = span (\<lambda>c. \<not> regex_space c) (drop (n + k) s)
           in if k = 0 \<or> j = 0 then None else Some (n + k + j)))"

text \<open>A word prefix after a boundary, followed by one or more characters of a class.\<close>

definition prefixed_secret :: "string \<Rightarrow> (char \<Rightarrow> bool) \<Rightarrow> matcher" where
  "prefixed_secret p cls prev s =
     (let j = span cls (drop (length p) s)
      in if \<not> boundary prev s \<or> \<not> has_prefix s p \<or> j = 0 then None else Some (length p + j))"

definition key_char :: "char \<Rightarrow> bool" where
  "key_char c \<longleftrightarrow> is_alnum c \<or> c \<in> {CHR ''.'', CHR ''_'', CHR ''-''}"

definition key_prefix :: string where
  "key_prefix = ''sk-cloudless-''"

text \<open>\<open>\bsk-cloudless-[A-Za-z0-9._-]+\<close>, \<open>\bgithub_pat_[A-Za-z0-9_]+\<close> and \<open>\bgh[pousr]_[A-Za-z0-9]+\<close>\<close>

definition key_secret_match :: matcher where
  "key_secret_match = prefixed_secret key_prefix key_char"

definition github_pat_secret :: matcher where
  "github_pat_secret = prefixed_secret ''github_pat_'' is_word"

fun first_match :: "matcher list \<Rightarrow> matcher" where
  "first_match [] prev s = None"
| "first_match (m # ms) prev s = (case m prev s of None \<Rightarrow> first_match ms prev s | Some n \<Rightarrow> Some n)"

definition github_secret :: matcher where
  "github_secret = first_match (map (\<lambda>x. prefixed_secret (''gh'' @ [x] @ ''_'') is_alnum) ''pousr'')"

text \<open>\<open>(?i)\b(token|secret|password|authorization)\s*[:=]\s*\S+\<close>\<close>

definition assigned :: "string \<Rightarrow> matcher" where
  "assigned w prev s =
     (if \<not> boundary prev s then None
      else case fold_word w s of
        None \<Rightarrow> None
      | Some n \<Rightarrow>
          (let k = n + span regex_space (drop n s);
               i = k + 1 + span regex_space (drop (k + 1) s);
               j = span (\<lambda>c. \<not> regex_space c) (drop i s)
           in if k < length s \<and> s ! k \<in> {CHR '':'', CHR ''=''} \<and> j \<noteq> 0 then Some (i + j) else None))"

definition assigned_secret :: matcher where
  "assigned_secret = first_match (map assigned [''token'', ''secret'', ''password'', ''authorization''])"

definition secretPatterns :: "matcher list" where
  "secretPatterns = [bearer_secret, key_secret_match, github_pat_secret, github_secret, assigned_secret]"

text \<open>\<open>ReplaceAllString\<close>: from the left, without overlap. No pattern matches the empty string.\<close>

definition redacted :: string where
  "redacted = ''<redacted>''"

function replace_all :: "matcher \<Rightarrow> char option \<Rightarrow> string \<Rightarrow> string" where
  "replace_all m prev [] = []"
| "replace_all m prev (c # s) =
     (case m prev (c # s) of
        Some (Suc n) \<Rightarrow> redacted @ replace_all m (Some (last (take (Suc n) (c # s)))) (drop n s)
      | _ \<Rightarrow> c # replace_all m (Some c) s)"
  by pat_completeness auto
termination
  by (relation "measure (\<lambda>(m, prev, s). length s)") (auto simp: less_Suc_eq_le)

definition redact :: "string \<Rightarrow> string" where
  "redact v = take 2048 (fold (\<lambda>m s. replace_all m None s) secretPatterns (trim_space v))"

subsection \<open>Events\<close>

record Event =
  ev_Time :: string
  ev_Category :: string
  ev_Event :: string
  ev_Outcome :: string
  ev_Actor :: string
  ev_Target :: string
  ev_OperationID :: string
  ev_KeyID :: string
  ev_Scope :: string
  ev_Method :: string
  ev_Path :: string
  ev_Source :: string
  ev_Status :: int
  ev_DurationMS :: int
  ev_Detail :: string

definition zero_Event :: Event where
  "zero_Event = \<lparr>ev_Time = '''', ev_Category = '''', ev_Event = '''', ev_Outcome = '''', ev_Actor = '''', ev_Target = '''',
     ev_OperationID = '''', ev_KeyID = '''', ev_Scope = '''', ev_Method = '''', ev_Path = '''', ev_Source = '''', ev_Status = 0,
     ev_DurationMS = 0, ev_Detail = ''''\<rparr>"

definition clean_event :: "Event \<Rightarrow> Event" where
  "clean_event e = e\<lparr>ev_Category := redact (ev_Category e), ev_Event := redact (ev_Event e), ev_Outcome := redact (ev_Outcome e),
     ev_Actor := redact (ev_Actor e), ev_Target := redact (ev_Target e), ev_OperationID := redact (ev_OperationID e),
     ev_KeyID := redact (ev_KeyID e), ev_Scope := redact (ev_Scope e), ev_Method := redact (ev_Method e),
     ev_Path := redact (ev_Path e), ev_Source := redact (ev_Source e), ev_Detail := redact (ev_Detail e)\<rparr>"

text \<open>
  \<open>json.Marshal\<close> of a string that need not be valid UTF-8 (a value may be cut inside a character): each invalid byte
  is written as \<open>\ufffd\<close>.
\<close>

definition byte_in :: "nat \<Rightarrow> nat \<Rightarrow> string \<Rightarrow> nat \<Rightarrow> bool" where
  "byte_in lo hi s i \<longleftrightarrow> i < length s \<and> lo \<le> code (s ! i) \<and> code (s ! i) \<le> hi"

definition rune_len :: "string \<Rightarrow> nat" where
  "rune_len s =
     (let cont = byte_in 128 191 s in
      if byte_in 0 127 s 0 then 1
      else if byte_in 194 223 s 0 \<and> cont 1 then 2
      else if (byte_in 224 224 s 0 \<and> byte_in 160 191 s 1 \<or> byte_in 225 236 s 0 \<and> cont 1 \<or>
               byte_in 237 237 s 0 \<and> byte_in 128 159 s 1 \<or> byte_in 238 239 s 0 \<and> cont 1) \<and> cont 2 then 3
      else if (byte_in 240 240 s 0 \<and> byte_in 144 191 s 1 \<or> byte_in 241 243 s 0 \<and> cont 1 \<or>
               byte_in 244 244 s 0 \<and> byte_in 128 143 s 1) \<and> cont 2 \<and> cont 3 then 4
      else 0)"

function escape_bytes :: "string \<Rightarrow> string" where
  "escape_bytes [] = []"
| "escape_bytes (c # s) =
     (case rune_len (c # s) of
        0 \<Rightarrow> CHR 0x5C # ''ufffd'' @ escape_bytes s
      | Suc n \<Rightarrow> escape (take (Suc n) (c # s)) @ escape_bytes (drop n s))"
  by pat_completeness auto
termination
  by (relation "measure length") (auto simp: less_Suc_eq_le)

definition quote_bytes :: "string \<Rightarrow> string" where
  "quote_bytes s = CHR 0x22 # escape_bytes s @ [CHR 0x22]"

definition text_member :: "string \<Rightarrow> string \<Rightarrow> string list" where
  "text_member k v = (if v = '''' then [] else [quote k @ '':'' @ quote_bytes v])"

definition int_member :: "string \<Rightarrow> int \<Rightarrow> string list" where
  "int_member k v = (if v = 0 then [] else [quote k @ '':'' @ itoa v])"

definition event_members :: "Event \<Rightarrow> string list" where
  "event_members e =
     [quote ''time'' @ '':'' @ quote_bytes (ev_Time e)] @ text_member ''category'' (ev_Category e) @
     [quote ''event'' @ '':'' @ quote_bytes (ev_Event e), quote ''outcome'' @ '':'' @ quote_bytes (ev_Outcome e)] @
     text_member ''actor'' (ev_Actor e) @ text_member ''target'' (ev_Target e) @ text_member ''operationId'' (ev_OperationID e) @
     text_member ''keyId'' (ev_KeyID e) @ text_member ''scope'' (ev_Scope e) @ text_member ''method'' (ev_Method e) @
     text_member ''path'' (ev_Path e) @ text_member ''source'' (ev_Source e) @ int_member ''status'' (ev_Status e) @
     int_member ''durationMs'' (ev_DurationMS e) @ text_member ''detail'' (ev_Detail e)"

definition event_json :: "Event \<Rightarrow> string" where
  "event_json e = ''{'' @ join '','' (event_members e) @ ''}''"

subsection \<open>The log\<close>

definition MaxBytes :: nat where "MaxBytes = 2 * 2 ^ 20"
definition MaxEvents :: int where "MaxEvents = 200"

record audit_log =
  al_main :: "string option"
  al_old :: "string option"

text \<open>What may fail while an event is appended: reading the size, moving the full file away, opening the file, and the
  write after some bytes.\<close>

record append_fault =
  af_stat :: bool
  af_rename :: bool
  af_open :: bool
  af_write :: "nat option"

definition no_fault :: append_fault where
  "no_fault = \<lparr>af_stat = False, af_rename = False, af_open = False, af_write = None\<rparr>"

definition rotated :: "append_fault \<Rightarrow> nat \<Rightarrow> audit_log \<Rightarrow> audit_log" where
  "rotated fault len log =
     (case al_main log of
        Some f \<Rightarrow>
          if \<not> af_stat fault \<and> MaxBytes < length f + len
          then (if af_rename fault then log\<lparr>al_old := None\<rparr> else \<lparr>al_main = None, al_old = Some f\<rparr>)
          else log
      | None \<Rightarrow> log)"

definition stamped :: "string \<Rightarrow> Event \<Rightarrow> Event" where
  "stamped now e = (clean_event e)\<lparr>ev_Time := now\<rparr>"

definition event_line :: "string \<Rightarrow> Event \<Rightarrow> string" where
  "event_line now e = event_json (stamped now e) @ [CHR 0x0A]"

definition blank_event :: "Event \<Rightarrow> bool" where
  "blank_event e \<longleftrightarrow> trim_space (ev_Event e) = '''' \<or> trim_space (ev_Outcome e) = ''''"

definition Append :: "append_fault \<Rightarrow> string \<Rightarrow> Event \<Rightarrow> audit_log \<Rightarrow> audit_log" where
  "Append fault now e log =
     (if blank_event e then log
      else let line = event_line now e; log1 = rotated fault (length line) log
           in if af_open fault then log1
              else log1\<lparr>al_main := Some ((case al_main log1 of None \<Rightarrow> '''' | Some f \<Rightarrow> f) @
                     (case af_write fault of None \<Rightarrow> line | Some n \<Rightarrow> take n line))\<rparr>)"

text \<open>\<open>decode\<close> is \<open>json.Unmarshal\<close> of a line into an event; lines it refuses are skipped. A line that does not fit the
  buffer of the scanner is an error.\<close>

definition line_limit :: nat where "line_limit = 256 * 2 ^ 10"

definition keep_event :: "nat \<Rightarrow> Event \<Rightarrow> Event list \<Rightarrow> Event list" where
  "keep_event limit e events = (if length events = limit then tl events else events) @ [e]"

definition latest_limit :: "int \<Rightarrow> nat" where
  "latest_limit limit = (if limit \<le> 0 \<or> MaxEvents < limit then 100 else nat limit)"

definition raw_lines :: "string \<Rightarrow> string list" where
  "raw_lines s = (let ls = split_on CHR 0x0A s in if last ls = '''' then butlast ls else ls)"

definition Latest :: "(string \<Rightarrow> Event option) \<Rightarrow> int \<Rightarrow> audit_log \<Rightarrow> Event list option" where
  "Latest decode limit log =
     (case al_main log of
        None \<Rightarrow> Some []
      | Some f \<Rightarrow>
          if list_ex (\<lambda>l. line_limit \<le> length l) (raw_lines f) then None
          else Some (rev (fold (keep_event (latest_limit limit)) (List.map_filter decode (scan_lines line_limit f)) [])))"

end
