(* ===== verification/SecurityAuditProps.thy ===== *)
theory SecurityAuditProps
  imports SecurityAudit GoPath
begin

text \<open>What the audit trail keeps: no API key, a bounded size, and the newest events first.\<close>

subsection \<open>Redaction\<close>












subsection \<open>The patterns\<close>















subsection \<open>The size of the log\<close>

lemma length_escape_char: "length (escape_char c) \<le> 6"
  by (simp add: escape_char_def quoted_hex_def)

lemma length_escape: "length (escape s) \<le> 6 * length s"
proof (induction s rule: length_induct)
  case (1 s)
  then have IH: "length t < length s \<Longrightarrow> length (escape t) \<le> 6 * length t" for t by blast
  show ?case
  proof (cases s)
    case (Cons a t)
    have c: "length (escape_char a) \<le> 6" by (rule length_escape_char)
    have t: "length (escape t) \<le> 6 * length t" by (rule IH) (simp add: Cons)
    show ?thesis
    proof (cases "\<exists>b d r. t = b # d # r")
      case True
      then obtain b d r where r: "t = b # d # r" by blast
      have "length (escape r) \<le> 6 * length r" by (rule IH) (simp add: Cons r)
      with c t show ?thesis by (simp add: Cons r)
    next
      case False
      then have "escape s = escape_char a @ escape t" by (cases t rule: remdups_adj.cases) (auto simp: Cons)
      with c t show ?thesis by (simp add: Cons)
    qed
  qed simp
qed

lemma length_escape_bytes: "length (escape_bytes s) \<le> 6 * length s"
proof (induction s rule: escape_bytes.induct)
  case (2 c s)
  show ?case
  proof (cases "rune_len (c # s)")
    case (Suc n)
    have "length (escape (take (Suc n) (c # s))) \<le> 6 * min (Suc n) (Suc (length s))"
      using length_escape [of "take (Suc n) (c # s)"] by simp
    moreover have "length (escape_bytes (drop n s)) \<le> 6 * (length s - n)" using 2(2) [OF Suc] by simp
    ultimately show ?thesis using Suc by simp
  qed (use 2 in simp)
qed simp

lemma length_redact: "length (redact v) \<le> 2048"
  by (simp add: redact_def)

lemma length_itoa_nat: "n < 10 ^ d \<Longrightarrow> 0 < d \<Longrightarrow> length (itoa_nat n) \<le> d"
proof (induction d arbitrary: n)
  case (Suc d)
  show ?case
  proof (cases "n < 10")
    case True
    then show ?thesis by (subst itoa_nat.simps) simp
  next
    case False
    with Suc.prems have "n div 10 < 10 ^ d" by (simp add: less_mult_imp_div_less mult.commute)
    moreover from False this have "0 < d" by (cases d) auto
    ultimately have "length (itoa_nat (n div 10)) \<le> d" by (rule Suc.IH)
    with False show ?thesis by (subst itoa_nat.simps) simp
  qed
qed simp

lemma length_itoa: "\<bar>z\<bar> < 10 ^ 20 \<Longrightarrow> length (itoa z) \<le> 21"
proof -
  assume "\<bar>z\<bar> < 10 ^ 20"
  then have "nat z < 10 ^ 20" "nat (- z) < 10 ^ 20" by simp_all
  then show ?thesis using length_itoa_nat [of "nat z" 20] length_itoa_nat [of "nat (- z)" 20] by (simp add: itoa_def)
qed

text \<open>What the size of a line depends on: the time stamp and the two numbers.\<close>

definition printable :: "string \<Rightarrow> Event \<Rightarrow> bool" where
  "printable now e \<longleftrightarrow> length now \<le> 64 \<and> \<bar>ev_Status e\<bar> < 10 ^ 20 \<and> \<bar>ev_DurationMS e\<bar> < 10 ^ 20"

lemma length_join: "length (join [c] xs) \<le> sum_list (map length xs) + length xs"
  by (induction "[c]" xs rule: join.induct) auto

lemma length_quote_bytes: "length (quote_bytes v) \<le> 6 * length v + 2"
  using length_escape_bytes [of v] by (simp add: quote_bytes_def)

lemma text_member_bound: "length k \<le> 20 \<Longrightarrow> x \<in> set (text_member k (redact v)) \<Longrightarrow> length x \<le> 12500"
  using length_quote_bytes [of "redact v"] length_redact [of v] length_escape [of k]
  by (auto simp: text_member_def quote_def split: if_splits)

lemma int_member_bound: "length k \<le> 20 \<Longrightarrow> \<bar>z\<bar> < 10 ^ 20 \<Longrightarrow> x \<in> set (int_member k z) \<Longrightarrow> length x \<le> 12500"
  using length_itoa [of z] length_escape [of k] by (auto simp: int_member_def quote_def split: if_splits)

lemma required_member_bound: "length k \<le> 20 \<Longrightarrow> length v \<le> 2048 \<Longrightarrow> length (quote k @ '':'' @ quote_bytes v) \<le> 12500"
  using length_quote_bytes [of v] length_escape [of k] by (simp add: quote_def)

lemma members_bound:
  assumes "printable now e" shows "\<forall>x \<in> set (event_members (stamped now e)). length x \<le> 12500"
proof -
  have r: "length (quote k @ '':'' @ quote_bytes now) \<le> 12500" if "length k \<le> 20" for k
    by (rule required_member_bound) (use that assms in \<open>auto simp: printable_def\<close>)
  have q: "length (quote k @ '':'' @ quote_bytes (redact v)) \<le> 12500" if "length k \<le> 20" for k v
    by (rule required_member_bound [OF that]) (use length_redact [of v] in simp)
  show ?thesis
    using r [of "''time''"] q [of "''event''" "ev_Event e"] q [of "''outcome''" "ev_Outcome e"] assms
    unfolding event_members_def stamped_def clean_event_def printable_def
    by (auto dest!: text_member_bound [rotated] int_member_bound [rotated 2])
qed

lemma members_count: "length (event_members e) \<le> 15"
  by (simp add: event_members_def text_member_def int_member_def)

lemma length_event_line:
  assumes "printable now e" shows "length (event_line now e) < line_limit"
proof -
  let ?ms = "event_members (stamped now e)"
  have "sum_list (map length ?ms) \<le> sum_list (map (\<lambda>_. 12500) ?ms)"
    by (rule sum_list_mono) (use members_bound [OF assms] in auto)
  then have "sum_list (map length ?ms) \<le> 12500 * 15" using members_count [of "stamped now e"] by (simp add: sum_list_triv)
  with length_join [of "CHR '',''" ?ms] members_count [of "stamped now e"] show ?thesis
    by (simp add: event_line_def event_json_def line_limit_def)
qed

definition file_bounded :: "string option \<Rightarrow> bool" where
  "file_bounded f \<longleftrightarrow> (case f of None \<Rightarrow> True | Some s \<Rightarrow> length s \<le> MaxBytes)"

definition log_bounded :: "audit_log \<Rightarrow> bool" where
  "log_bounded log \<longleftrightarrow> file_bounded (al_main log) \<and> file_bounded (al_old log)"

text \<open>A history: each event with its time and what fails.\<close>

definition record_events :: "(append_fault \<times> string \<times> Event) list \<Rightarrow> audit_log \<Rightarrow> audit_log" where
  "record_events h log = fold (\<lambda>(fault, now, e). Append fault now e) h log"

lemma Append_bounded:
  assumes "log_bounded log" "printable now e" "\<not> af_stat fault" "\<not> af_rename fault"
  shows "log_bounded (Append fault now e log)"
proof -
  let ?line = "event_line now e"
  have l: "length ?line \<le> MaxBytes"
    using length_event_line [OF assms(2)] by (simp add: line_limit_def MaxBytes_def)
  let ?log = "rotated fault (length ?line) log"
  have rot: "log_bounded ?log \<and> (case al_main ?log of None \<Rightarrow> True | Some f \<Rightarrow> length f + length ?line \<le> MaxBytes)"
    using assms by (auto simp: rotated_def log_bounded_def file_bounded_def split: option.splits)
  moreover have "length (case af_write fault of None \<Rightarrow> ?line | Some n \<Rightarrow> take n ?line) \<le> length ?line"
    by (simp split: option.splits)
  ultimately have "\<not> blank_event e \<Longrightarrow> ?thesis"
    using l by (auto simp: Append_def Let_def log_bounded_def file_bounded_def split: option.splits)
  then show ?thesis using assms(1) by (cases "blank_event e") (simp_all add: Append_def)
qed

text \<open>With any events and write failures, the log and its predecessor stay within 2 MiB each, as long as the size can be
  read and the full file can be moved away. (When it cannot, the file only grows.)\<close>

theorem audit_log_bounded:
  assumes "log_bounded log"
    "\<forall>(fault, now, e) \<in> set h. printable now e \<and> \<not> af_stat fault \<and> \<not> af_rename fault"
  shows "log_bounded (record_events h log)"
  using assms
  by (induction h arbitrary: log) (auto simp: record_events_def Append_bounded)

theorem audit_log_bounded_witness:
  "log_bounded (record_events [(no_fault, ''2025-01-02T03:04:05Z'', zero_Event\<lparr>ev_Event := ''x'', ev_Outcome := ''y''\<rparr>)]
     \<lparr>al_main = None, al_old = None\<rparr>)"
  by (rule audit_log_bounded)
     (simp_all add: log_bounded_def file_bounded_def printable_def no_fault_def zero_Event_def)

subsection \<open>Reading it back\<close>

abbreviation newline :: char where "newline \<equiv> CHR 0x0A"

lemma hex_digit_plain: "n < 16 \<Longrightarrow> hex_digit n \<noteq> newline"
proof -
  assume "n < 16"
  moreover have "\<forall>n \<in> set [0..<16]. hex_digit n \<noteq> newline" by code_simp
  ultimately show ?thesis by simp
qed

lemma code_less: "code c < 256"
  by (simp add: code_def)

lemma escape_char_plain: "newline \<notin> set (escape_char c)"
proof -
  have "code c div 16 < 16" using code_less [of c] by linarith
  then show ?thesis
    using hex_digit_plain [of "code c div 16"] hex_digit_plain [of "code c mod 16"] by (auto simp: escape_char_def quoted_hex_def)
qed

lemma escape_plain: "newline \<notin> set (escape s)"
proof (induction s rule: length_induct)
  case (1 s)
  then have IH: "length t < length s \<Longrightarrow> newline \<notin> set (escape t)" for t by blast
  show ?case
  proof (cases s)
    case (Cons a t)
    have t: "newline \<notin> set (escape t)" by (rule IH) (simp add: Cons)
    show ?thesis
    proof (cases "\<exists>b d r. t = b # d # r")
      case True
      then obtain b d r where r: "t = b # d # r" by blast
      have "newline \<notin> set (escape r)" by (rule IH) (simp add: Cons r)
      with escape_char_plain [of a] t show ?thesis by (simp add: Cons r)
    next
      case False
      then have "escape s = escape_char a @ escape t" by (cases t rule: remdups_adj.cases) (auto simp: Cons)
      with escape_char_plain [of a] t show ?thesis by simp
    qed
  qed simp
qed

lemma escape_bytes_plain: "newline \<notin> set (escape_bytes s)"
proof (induction s rule: escape_bytes.induct)
  case (2 c s)
  show ?case
  proof (cases "rune_len (c # s)")
    case (Suc n)
    with 2(2) [OF Suc] escape_plain [of "take (Suc n) (c # s)"] show ?thesis by simp
  qed (use 2 in simp)
qed simp

lemma itoa_plain: "newline \<notin> set (itoa z)"
proof -
  have "newline \<notin> set (itoa_nat n)" for n
    using itoa_nat_digits [of n] by (auto simp: list_all_iff in_range_def code_def)
  then show ?thesis by (simp add: itoa_def)
qed

lemma join_plain: "newline \<notin> set sep \<Longrightarrow> \<forall>x \<in> set xs. newline \<notin> set x \<Longrightarrow> newline \<notin> set (join sep xs)"
  by (induction sep xs rule: join.induct) auto

lemma event_json_plain: "newline \<notin> set (event_json e)"
proof -
  have "newline \<notin> set (quote_bytes v)" for v by (simp add: quote_bytes_def escape_bytes_plain)
  moreover have "newline \<notin> set (quote k)" for k by (simp add: quote_def escape_plain)
  ultimately have "\<forall>x \<in> set (event_members e). newline \<notin> set x"
    by (auto simp: event_members_def text_member_def int_member_def itoa_plain)
  then show ?thesis by (simp add: event_json_def join_plain)
qed

text \<open>The file as its lines.\<close>

definition written :: "string list \<Rightarrow> string" where
  "written ls = concat (map (\<lambda>l. l @ [newline]) ls)"

lemma split_written: "\<forall>l \<in> set ls. newline \<notin> set l \<Longrightarrow> split_on newline (written ls) = ls @ ['''']"
  by (induction ls) (simp_all add: written_def split_on_prefix)

lemma raw_written: "\<forall>l \<in> set ls. newline \<notin> set l \<Longrightarrow> raw_lines (written ls) = ls"
  by (simp add: raw_lines_def split_written)

lemma scan_written:
  "\<forall>l \<in> set ls. newline \<notin> set l \<and> length l < limit \<and> (l \<noteq> '''' \<longrightarrow> last l \<noteq> CHR 0x0D) \<Longrightarrow>
   scan_lines limit (written ls) = ls"
  by (simp add: scan_lines_def split_written takeWhile_eq_all_conv[THEN iffD2]) (rule map_idI, auto)

lemma fold_keep:
  "0 < n \<Longrightarrow> length acc \<le> n \<Longrightarrow> fold (keep_event n) es acc = drop (length acc + length es - n) (acc @ es)"
proof (induction es arbitrary: acc)
  case (Cons e es)
  show ?case
  proof (cases "length acc = n")
    case True
    then obtain a as where a: "acc = a # as" using Cons.prems by (cases acc) auto
    then have "keep_event n e acc = as @ [e]" using True by (simp add: keep_event_def)
    moreover have "fold (keep_event n) es (as @ [e]) = drop (length (as @ [e]) + length es - n) ((as @ [e]) @ es)"
      by (rule Cons.IH) (use a True Cons.prems in simp_all)
    moreover have "n = Suc (length as)" using a True by simp
    ultimately have "fold (keep_event n) (e # es) acc = drop (length es) ((as @ [e]) @ es)" using a by (simp del: append_assoc drop_append)
    also have "\<dots> = drop (length acc + length (e # es) - n) (acc @ e # es)" using True a by simp
    finally show ?thesis .
  next
    case False
    then have "keep_event n e acc = acc @ [e]" by (simp add: keep_event_def)
    moreover have "fold (keep_event n) es (acc @ [e]) = drop (length (acc @ [e]) + length es - n) ((acc @ [e]) @ es)"
      by (rule Cons.IH) (use False Cons.prems in \<open>auto simp: le_less\<close>)
    ultimately show ?thesis by (simp del: drop_append)
  qed
qed simp

lemma newest_kept: "0 < n \<Longrightarrow> rev (fold (keep_event n) es []) = take n (rev es)"
  by (simp add: fold_keep take_rev)

text \<open>The events that were recorded, as they are written.\<close>

definition recorded :: "(string \<times> Event) list \<Rightarrow> Event list" where
  "recorded h = map (\<lambda>(now, e). stamped now e) (filter (\<lambda>(now, e). \<not> blank_event e) h)"

definition record_all :: "(string \<times> Event) list \<Rightarrow> audit_log" where
  "record_all h = record_events (map (Pair no_fault) h) \<lparr>al_main = None, al_old = None\<rparr>"

definition file_of :: "Event list \<Rightarrow> string option" where
  "file_of es = (if es = [] then None else Some (written (map event_json es)))"

lemma written_snoc: "written (ls @ [l]) = written ls @ l @ [newline]"
  by (simp add: written_def)

lemma recorded_snoc: "recorded (h @ [(now, e)]) = recorded h @ (if blank_event e then [] else [stamped now e])"
  by (simp add: recorded_def)

lemma record_all_snoc: "record_all (h @ [(now, e)]) = Append no_fault now e (record_all h)"
  by (simp add: record_all_def record_events_def)

lemma record_all_file:
  "\<exists>k. al_main (record_all h) = file_of (drop k (recorded h)) \<and> (recorded h \<noteq> [] \<longrightarrow> k < length (recorded h)) \<and>
       (length (written (map event_json (recorded h))) \<le> MaxBytes \<longrightarrow> k = 0)"
proof (induction h rule: rev_induct)
  case Nil
  show ?case by (simp add: record_all_def record_events_def recorded_def file_of_def)
next
  case (snoc x h)
  obtain now e where x: "x = (now, e)" by (cases x)
  from snoc obtain k where k: "al_main (record_all h) = file_of (drop k (recorded h))" "recorded h \<noteq> [] \<Longrightarrow> k < length (recorded h)"
    "length (written (map event_json (recorded h))) \<le> MaxBytes \<Longrightarrow> k = 0" by blast
  show ?case
  proof (cases "blank_event e")
    case True
    with k show ?thesis unfolding x record_all_snoc recorded_snoc by (auto simp: Append_def intro!: exI [of _ k])
  next
    case new: False
    let ?es = "drop k (recorded h)" and ?line = "event_line now e"
    have all: "drop k' (recorded h @ [stamped now e]) = drop k' (recorded h) @ [stamped now e]" if "k' \<le> length (recorded h)" for k'
      using that by simp
    show ?thesis
    proof (cases "?es = []")
      case True
      with k have e: "recorded h = []" by (cases "recorded h = []") auto
      with k True new show ?thesis unfolding x record_all_snoc recorded_snoc
        by (intro exI [of _ 0])
           (simp add: Append_def rotated_def file_of_def no_fault_def Let_def event_line_def written_def)
    next
      case False
      show ?thesis
      proof (cases "MaxBytes < length (written (map event_json ?es)) + length ?line")
        case True
        have le: "length (written (map event_json ?es)) \<le> length (written (map event_json (recorded h)))"
          by (subst append_take_drop_id [of k "recorded h", symmetric], unfold map_append)
             (simp add: written_def)
        show ?thesis unfolding x record_all_snoc recorded_snoc
          using True False new k le
          by (intro exI [of _ "length (recorded h)"])
             (simp add: Append_def rotated_def file_of_def no_fault_def Let_def event_line_def written_snoc, simp add: written_def)
      next
        case fits: False
        have kl: "k < length (recorded h)" using False by simp
        show ?thesis unfolding x record_all_snoc recorded_snoc
          using fits False new k kl
          by (intro exI [of _ k])
             (simp add: Append_def rotated_def file_of_def no_fault_def Let_def event_line_def written_snoc)
      qed
    qed
  qed
qed


definition decodes :: "(string \<Rightarrow> Event option) \<Rightarrow> Event list \<Rightarrow> bool" where
  "decodes decode es \<longleftrightarrow> (\<forall>e \<in> set es. decode (event_json e) = Some e)"

lemma map_filter_decodes: "decodes decode es \<Longrightarrow> List.map_filter decode (map event_json es) = es"
  by (induction es) (simp_all add: decodes_def List.map_filter_simps)

lemma recorded_lines:
  assumes "\<forall>(now, e) \<in> set h. printable now e" "e' \<in> set (recorded h)"
  shows "newline \<notin> set (event_json e')" "length (event_json e') < line_limit" "last (event_json e') \<noteq> CHR 0x0D" "event_json e' \<noteq> ''''"
proof -
  from assms obtain now e where e: "printable now e" "e' = stamped now e" by (auto simp: recorded_def)
  show "newline \<notin> set (event_json e')" by (rule event_json_plain)
  show "length (event_json e') < line_limit" using length_event_line [OF e(1)] e(2) by (simp add: event_line_def)
  show "last (event_json e') \<noteq> CHR 0x0D" "event_json e' \<noteq> ''''" by (simp_all add: event_json_def)
qed

text \<open>C25: after any history of events that are written without fault, \<open>Latest\<close> delivers the newest first, at most the limit,
  from the events since the log was last moved away; none is missing while everything fits into one file.\<close>

theorem audit_log_readable:
  assumes "\<forall>(now, e) \<in> set h. printable now e" "decodes decode (recorded h)"
  shows "\<exists>k. Latest decode limit (record_all h) = Some (take (latest_limit limit) (rev (drop k (recorded h)))) \<and>
    (recorded h \<noteq> [] \<longrightarrow> k < length (recorded h)) \<and>
    (length (written (map event_json (recorded h))) \<le> MaxBytes \<longrightarrow> k = 0)"
proof -
  obtain k where k: "al_main (record_all h) = file_of (drop k (recorded h))"
    "recorded h \<noteq> [] \<longrightarrow> k < length (recorded h)" "length (written (map event_json (recorded h))) \<le> MaxBytes \<longrightarrow> k = 0"
    using record_all_file by blast
  let ?es = "drop k (recorded h)"
  have es: "\<forall>l \<in> set (map event_json ?es). newline \<notin> set l \<and> length l < line_limit \<and> (l \<noteq> '''' \<longrightarrow> last l \<noteq> CHR 0x0D)"
    using recorded_lines [OF assms(1)] in_set_dropD by fastforce
  have "decodes decode ?es" using assms(2) in_set_dropD by (fastforce simp: decodes_def)
  moreover have "0 < latest_limit limit" by (simp add: latest_limit_def)
  moreover from es have "raw_lines (written (map event_json ?es)) = map event_json ?es" by (intro raw_written) blast
  moreover from es have "scan_lines line_limit (written (map event_json ?es)) = map event_json ?es" by (intro scan_written)
  moreover from es have "\<not> list_ex (\<lambda>l. line_limit \<le> length l) (map event_json ?es)" by (force simp: list_ex_iff)
  ultimately have "Latest decode limit (record_all h) = Some (take (latest_limit limit) (rev ?es))"
    using k(1) by (auto simp: Latest_def file_of_def map_filter_decodes newest_kept)
  with k(2,3) show ?thesis by blast
qed

theorem audit_log_readable_witness:
  "\<exists>k. Latest (\<lambda>l. Some (stamped ''2025'' (zero_Event\<lparr>ev_Event := ''x'', ev_Outcome := ''y''\<rparr>))) 5
     (record_all [(''2025'', zero_Event\<lparr>ev_Event := ''x'', ev_Outcome := ''y''\<rparr>)]) =
   Some (take (latest_limit 5) (rev (drop k (recorded [(''2025'', zero_Event\<lparr>ev_Event := ''x'', ev_Outcome := ''y''\<rparr>)]))))"
proof -
  let ?h = "[(''2025'', zero_Event\<lparr>ev_Event := ''x'', ev_Outcome := ''y''\<rparr>)]"
  let ?d = "\<lambda>l. Some (stamped ''2025'' (zero_Event\<lparr>ev_Event := ''x'', ev_Outcome := ''y''\<rparr>))"
  have "\<forall>(now, e) \<in> set ?h. printable now e" by (simp add: printable_def zero_Event_def)
  moreover have "decodes ?d (recorded ?h)" by (simp add: decodes_def recorded_def)
  ultimately show ?thesis using audit_log_readable [of ?h ?d 5] by blast
qed

end
