(* ===== verification/GoFloat.thy ===== *)
theory GoFloat
  imports Complex_Main GoTime
begin

text \<open>
  \<open>float64\<close> arithmetic as exact rational arithmetic followed by rounding: 53 significant bits, to nearest,
  half to even. Overflow and the subnormal range are left out: the programs that use it stay within
  \<open>10 ^ 20\<close> and above \<open>2 ^ -100\<close>.
\<close>

definition near_even :: "rat \<Rightarrow> int" where
  "near_even y =
     (let f = \<lfloor>y\<rfloor>; d = y - of_int f
      in if d < 1 / 2 \<or> (d = 1 / 2 \<and> even f) then f else f + 1)"

text \<open>The exponent of the last place: \<open>2 ^ 52 \<le> x / 2 powi ulp_of x < 2 ^ 53\<close> for positive \<open>x\<close>.\<close>

definition ulp_of :: "rat \<Rightarrow> int" where
  "ulp_of x =
     (let (p, q) = quotient_of x; e = int (bit_len (nat p)) - int (bit_len (nat q)) - 53
      in if 2 powi (e + 53) \<le> x then e + 1 else e)"

definition round_pos :: "rat \<Rightarrow> rat" where
  "round_pos x = of_int (near_even (x / 2 powi ulp_of x)) * 2 powi ulp_of x"

definition f64 :: "rat \<Rightarrow> rat" where
  "f64 x = (if x = 0 then 0 else if x < 0 then - round_pos (- x) else round_pos x)"

lemma near_even_close: "\<bar>of_int (near_even y) - y\<bar> \<le> 1 / 2"
proof -
  have f: "of_int \<lfloor>y\<rfloor> \<le> y" "y < of_int \<lfloor>y\<rfloor> + 1" using floor_correct [of y] by simp_all
  consider (down) "near_even y = \<lfloor>y\<rfloor>" "y - of_int \<lfloor>y\<rfloor> \<le> 1 / 2" | (up) "near_even y = \<lfloor>y\<rfloor> + 1" "1 / 2 \<le> y - of_int \<lfloor>y\<rfloor>"
    unfolding near_even_def Let_def by (cases "y - of_int \<lfloor>y\<rfloor> < 1 / 2 \<or> y - of_int \<lfloor>y\<rfloor> = 1 / 2 \<and> even \<lfloor>y\<rfloor>") auto
  then show ?thesis
  proof cases
    case down
    with f show ?thesis by simp
  next
    case up
    with f have "of_int (near_even y) - y \<le> 1 / 2" "0 < of_int (near_even y) - y" by simp_all
    then show ?thesis by simp
  qed
qed

lemma near_even_above: "of_int k \<le> y \<Longrightarrow> k \<le> near_even y"
proof -
  assume "of_int k \<le> y"
  then have "k \<le> \<lfloor>y\<rfloor>" by (simp add: le_floor_iff)
  then show ?thesis by (simp add: near_even_def Let_def)
qed

lemma bit_len_bounds: "0 < n \<Longrightarrow> 2 ^ bit_len n \<le> 2 * n \<and> n < 2 ^ bit_len n"
proof (induction n rule: bit_len.induct)
  case (1 n)
  have b: "bit_len n = Suc (bit_len (n div 2))" using 1 by (subst bit_len.simps) simp
  show ?case
  proof (cases "n div 2 = 0")
    case True
    with 1 have "n = 1" by simp
    with b show ?thesis by (simp add: bit_len.simps)
  next
    case False
    with 1 have IH: "2 ^ bit_len (n div 2) \<le> 2 * (n div 2)" "n div 2 < 2 ^ bit_len (n div 2)" by simp_all
    from IH(1) have "2 ^ bit_len n \<le> 2 * n" unfolding b by simp
    moreover from IH(2) have "n < 2 ^ bit_len n" unfolding b by simp
    ultimately show ?thesis by simp
  qed
qed

lemma ulp_of_scale:
  assumes "0 < x" shows "2 ^ 52 \<le> x / 2 powi ulp_of x"
proof -
  obtain p q where pq: "quotient_of x = (p, q)" by (cases "quotient_of x")
  have q: "0 < q" by (rule quotient_of_denom_pos [OF pq])
  have x: "x = of_int p / of_int q" by (rule quotient_of_div [OF pq])
  with assms q have p: "0 < p" by (simp add: zero_less_divide_iff)
  let ?a = "bit_len (nat p)" and ?b = "bit_len (nat q)"
  have "2 ^ ?a \<le> 2 * nat p" using bit_len_bounds [of "nat p"] p by simp
  then have "of_nat (2 ^ ?a) \<le> (of_nat (2 * nat p) :: rat)" by (simp only: of_nat_le_iff)
  then have a: "(2 :: rat) ^ ?a \<le> 2 * of_int p" using p by simp
  have "nat q < 2 ^ ?b" using bit_len_bounds [of "nat q"] q by simp
  then have "of_nat (nat q) < (of_nat (2 ^ ?b) :: rat)" by (simp only: of_nat_less_iff)
  then have b: "of_int q < (2 :: rat) ^ ?b" using q by simp
  define e where "e = int ?a - int ?b - 53"
  have "(2 :: rat) powi (e + 52) = 2 powi (int ?a) / 2 powi (int ?b) / 2"
    unfolding e_def by (simp add: power_int_diff power_int_add flip: power_int_of_nat)
  also have "\<dots> = 2 ^ ?a / 2 ^ ?b / 2" by simp
  also have "\<dots> \<le> of_int p / 2 ^ ?b" using a by (simp add: field_simps)
  also have "\<dots> \<le> x" unfolding x using b q p by (intro divide_left_mono) (simp_all add: mult_pos_pos)
  finally have lo: "(2 :: rat) powi (e + 52) \<le> x" .
  have u: "ulp_of x = (if 2 powi (e + 53) \<le> x then e + 1 else e)" by (simp add: ulp_of_def pq e_def)
  have "2 powi (ulp_of x + 52) \<le> x" using lo by (simp add: u add.commute)
  then show ?thesis by (simp add: power_int_add field_simps)
qed

lemma round_pos_close: "0 < x \<Longrightarrow> \<bar>round_pos x - x\<bar> \<le> x / 2 ^ 53"
proof -
  assume x: "0 < x"
  let ?s = "(2 :: rat) powi ulp_of x"
  have s: "0 < ?s" by simp
  have "round_pos x - x = (of_int (near_even (x / ?s)) - x / ?s) * ?s" using s by (simp add: round_pos_def algebra_simps)
  then have "\<bar>round_pos x - x\<bar> \<le> 1 / 2 * ?s"
    using near_even_close [of "x / ?s"] s by (simp add: abs_mult mult_right_mono del: divide_le_eq)
  also have "\<dots> \<le> x / 2 ^ 53" using ulp_of_scale [OF x] s by (simp add: field_simps)
  finally show ?thesis .
qed

lemma f64_close: "\<bar>f64 x - x\<bar> \<le> \<bar>x\<bar> / 2 ^ 53"
  using round_pos_close [of x] round_pos_close [of "- x"] by (auto simp: f64_def abs_if split: if_splits)

lemma f64_0 [simp]: "f64 0 = 0"
  by (simp add: f64_def)

lemma f64_nonneg: "0 \<le> x \<Longrightarrow> 0 \<le> f64 x"
  using near_even_above [of 0] by (auto simp: f64_def round_pos_def)

lemma f64_upper: "0 \<le> x \<Longrightarrow> f64 x \<le> x + x / 2 ^ 53"
  using f64_close [of x] abs_of_nonneg [of x] by linarith

lemma f64_lower: "0 \<le> x \<Longrightarrow> x - x / 2 ^ 53 \<le> f64 x"
  using f64_close [of x] abs_of_nonneg [of x] by linarith

lemma near_even_below: "y \<le> of_int k \<Longrightarrow> near_even y \<le> k"
proof -
  assume y: "y \<le> of_int k"
  show ?thesis
  proof (cases "y = of_int k")
    case False
    with y have "\<lfloor>y\<rfloor> < k" by (simp add: floor_less_iff)
    then show ?thesis by (simp add: near_even_def Let_def)
  qed (simp add: near_even_def)
qed

lemma f64_le_1:
  assumes "0 \<le> x" "x \<le> 1" shows "f64 x \<le> 1"
proof (cases "x = 0")
  case False
  let ?e = "ulp_of x" let ?s = "(2 :: rat) powi ?e"
  have s: "0 < ?s" by simp
  have x: "0 < x" using False assms by simp
  have e: "?e \<le> 0"
  proof (rule ccontr)
    assume "\<not> ?e \<le> 0"
    then have "1 \<le> ?s" by (simp add: power_int_def)
    then have "x / ?s \<le> x / 1" using x by (intro divide_left_mono) simp_all
    with ulp_of_scale [OF x] assms(2) show False by simp
  qed
  define k :: int where "k = 2 ^ nat (- ?e)"
  have "(2 :: rat) powi (- ?e) = of_int k" using e by (simp add: k_def power_int_def)
  then have k: "1 / ?s = of_int k" by (simp add: power_int_minus_divide)
  have "x / ?s \<le> 1 / ?s" using assms s by (intro divide_right_mono) simp_all
  then have "near_even (x / ?s) \<le> k" unfolding k by (rule near_even_below)
  then have "of_int (near_even (x / ?s)) * ?s \<le> of_int k * ?s" using s by (intro mult_right_mono) simp_all
  also have "\<dots> = 1" using s by (simp flip: k)
  finally show ?thesis using x by (simp add: f64_def round_pos_def)
qed simp

text \<open>Rounding does not fall below a whole number.\<close>

lemma f64_ge_int:
  assumes "of_int m \<le> x" "0 < m" "m \<le> 2 ^ 52" shows "of_int m \<le> f64 x"
proof -
  let ?e = "ulp_of x" let ?s = "(2 :: rat) powi ?e"
  have s: "0 < ?s" by simp
  have x: "0 < x" using assms of_int_0_less_iff [of m, where 'a = rat] by linarith
  have "of_int m \<le> of_int (near_even (x / ?s)) * ?s"
  proof (cases "?e \<le> 0")
    case True
    define k :: int where "k = 2 ^ nat (- ?e)"
    have "(2 :: rat) powi (- ?e) = of_int k" using True by (simp add: k_def power_int_def)
    then have k: "1 / ?s = of_int k" by (simp add: power_int_minus_divide)
    have "of_int m * (1 / ?s) \<le> x / ?s" using assms s by (simp add: divide_right_mono)
    then have "of_int (m * k) \<le> x / ?s" unfolding k by simp
    then have "m * k \<le> near_even (x / ?s)" by (rule near_even_above)
    then have "of_int (m * k) * ?s \<le> of_int (near_even (x / ?s)) * ?s" using s by (simp only: of_int_le_iff mult_right_mono less_imp_le)
    then show ?thesis using s by (simp flip: k)
  next
    case False
    have "of_int (2 ^ 52) \<le> x / ?s" using ulp_of_scale [OF x] by simp
    then have "2 ^ 52 \<le> near_even (x / ?s)" by (rule near_even_above)
    with assms(3) have "m \<le> near_even (x / ?s)" by linarith
    then have n: "of_int m \<le> (of_int (near_even (x / ?s)) :: rat)" by simp
    have "(1 :: rat) \<le> ?s" using False by (simp add: power_int_def)
    with n show ?thesis using mult_mono [of "of_int m" "of_int (near_even (x / ?s))" 1 ?s] assms(2) by simp
  qed
  then show ?thesis using x by (simp add: f64_def round_pos_def)
qed

lemma f64_ge_1: "1 \<le> x \<Longrightarrow> 1 \<le> f64 x"
  using f64_ge_int [of 1 x] by simp


lemma near_even_int: "near_even (of_int z) = z"
  by (simp add: near_even_def)

text \<open>Small whole numbers are exact.\<close>

lemma f64_int:
  assumes "0 < m" "m \<le> 2 ^ 52" shows "f64 (of_int m) = of_int m"
proof -
  let ?x = "of_int m :: rat" let ?e = "ulp_of ?x" let ?s = "(2 :: rat) powi ?e"
  have s: "0 < ?s" by simp
  have e: "?e \<le> 0"
  proof (rule ccontr)
    assume "\<not> ?e \<le> 0"
    then have "2 \<le> ?s" using power_increasing [of 1 "nat ?e" "2 :: rat"] by (simp add: power_int_def)
    moreover have "2 ^ 52 * ?s \<le> ?x" using ulp_of_scale [of ?x] assms s by (simp add: field_simps)
    moreover have "?x \<le> of_int (2 ^ 52)" using assms(2) by (simp only: of_int_le_iff)
    ultimately show False by simp
  qed
  define k :: int where "k = 2 ^ nat (- ?e)"
  have "(2 :: rat) powi (- ?e) = of_int k" using e by (simp add: k_def power_int_def)
  then have k: "1 / ?s = of_int k" by (simp add: power_int_minus_divide)
  then have "?x / ?s = of_int (m * k)" by (metis mult.right_neutral of_int_mult times_divide_eq_right)
  then have "round_pos ?x = of_int (m * k) * ?s" by (simp only: round_pos_def near_even_int)
  also have "\<dots> = ?x" using s by (simp flip: k)
  finally show ?thesis using assms by (simp add: f64_def)
qed

end
