(* ===== verification/GoNet.thy ===== *)
theory GoNet
  imports GoUrl
begin

text \<open>
  What the sources use of package \<open>net\<close>: splitting of \<open>host:port\<close> and textual IP addresses. An address is the
  list of its eight 16-bit groups, an IPv4 address in the form mapped to IPv6, as in \<open>net.IP\<close>.
\<close>

definition SplitHostPort :: "string \<Rightarrow> (string \<times> string) option" where
  "SplitHostPort s =
     (case GoUrl.cut_last CHR '':'' s of
        None \<Rightarrow> None
      | Some (host, port) \<Rightarrow>
          if has_prefix s ''[''
          then (case GoUrl.cut CHR '']'' s of (inner, rest) \<Rightarrow>
                  if CHR '']'' \<in> set s \<and> rest = CHR '':'' # port \<and> CHR ''['' \<notin> set (tl s) \<and> CHR '']'' \<notin> set port
                  then Some (tl inner, port) else None)
          else if CHR '':'' \<in> set host \<or> CHR ''['' \<in> set s \<or> CHR '']'' \<in> set s then None
          else Some (host, port))"

subsection \<open>Addresses\<close>

fun hex_number :: "nat \<Rightarrow> string \<Rightarrow> nat" where
  "hex_number n [] = n"
| "hex_number n (c # s) = hex_number (16 * n + hex_value c) s"

definition ipv4_bytes :: "string \<Rightarrow> nat list" where
  "ipv4_bytes s = map nat_of_digits (split_on CHR ''.'' s)"

definition ipv4_groups :: "nat list \<Rightarrow> nat list" where
  "ipv4_groups b = [b ! 0 * 256 + b ! 1, b ! 2 * 256 + b ! 3]"

definition group_value :: "string \<Rightarrow> nat list" where
  "group_value g = (if group_ok g then [hex_number 0 g] else ipv4_groups (ipv4_bytes g))"

definition ipv6_groups :: "string \<Rightarrow> nat list" where
  "ipv6_groups s =
     (case split_ellipsis s of
        None \<Rightarrow> concat (map group_value (parts s))
      | Some (l, r) \<Rightarrow>
          (let a = concat (map group_value (parts l)); b = concat (map group_value (parts r))
           in a @ replicate (8 - length a - length b) 0 @ b))"

text \<open>\<open>net.ParseIP\<close>: an address with a zone is refused.\<close>

definition ParseIP :: "string \<Rightarrow> nat list option" where
  "ParseIP s =
     (if CHR ''%'' \<in> set s then None
      else if ipv4_ok s then Some ([0, 0, 0, 0, 0, 65535] @ ipv4_groups (ipv4_bytes s))
      else if ipv6_ok s then Some (ipv6_groups s)
      else None)"

definition is_IPv4 :: "nat list \<Rightarrow> bool" where
  "is_IPv4 ip \<longleftrightarrow> take 6 ip = [0, 0, 0, 0, 0, 65535]"

definition IsLoopback :: "nat list \<Rightarrow> bool" where
  "IsLoopback ip = (if is_IPv4 ip then ip ! 6 div 256 = 127 else ip = [0, 0, 0, 0, 0, 0, 0, 1])"

end
