(* ===== verification/Gateway.thy ===== *)
theory Gateway
  imports StateOps DockerBroker SecurityAudit GoFloat GoNet
begin

text \<open>
  \<open>internal/api/gateway_security.go\<close> and the request path of \<open>internal/api/gateway.go\<close>: rate limits, the source of
  a request, authorization by scoped API key, the routes, what is forwarded to the backends and how their
  answers are accounted and rewritten. Clocks are arguments in nanoseconds.
\<close>

subsection \<open>Rate limits\<close>

record gatewayRateBucket =
  rb_tokens :: rat
  rb_at :: int

record gatewayRateLimiter =
  rl_buckets :: "(string, gatewayRateBucket) gomap"
  rl_rate :: rat
  rl_burst :: rat

definition gatewayRequestsPerMinute :: int where "gatewayRequestsPerMinute = 60"
definition gatewayBurst :: int where "gatewayBurst = 15"

definition newGatewayRateLimiterWith :: "int \<Rightarrow> int \<Rightarrow> gatewayRateLimiter" where
  "newGatewayRateLimiterWith requestsPerMinute burst =
     \<lparr>rl_buckets = [], rl_rate = f64 (of_int requestsPerMinute), rl_burst = f64 (of_int burst)\<rparr>"

definition newGatewayRateLimiter :: gatewayRateLimiter where
  "newGatewayRateLimiter = newGatewayRateLimiterWith gatewayRequestsPerMinute gatewayBurst"

text \<open>\<open>d.Seconds()\<close>; both quotients are cut towards zero.\<close>

definition seconds_f64 :: "int \<Rightarrow> rat" where
  "seconds_f64 d =
     (let n = \<bar>d\<bar>; s = f64 (f64 (of_int (n div 1000000000)) + f64 (of_int (n mod 1000000000) / 1000000000))
      in if d < 0 then - s else s)"

definition refilled :: "gatewayRateLimiter \<Rightarrow> gatewayRateBucket \<Rightarrow> int \<Rightarrow> rat" where
  "refilled l b now =
     min (rl_burst l) (f64 (rb_tokens b + f64 (f64 (seconds_f64 (time_sub now (rb_at b)) * rl_rate l) / 60)))"

definition retry_after :: "gatewayRateLimiter \<Rightarrow> rat \<Rightarrow> int" where
  "retry_after l tokens = max 1 \<lceil>f64 (f64 (1 - tokens) / f64 (rl_rate l / 60))\<rceil>"

definition bucket_of :: "gatewayRateLimiter \<Rightarrow> string \<Rightarrow> int \<Rightarrow> gatewayRateBucket" where
  "bucket_of l key now = (case lookup (rl_buckets l) key of Some b \<Rightarrow> b | None \<Rightarrow> \<lparr>rb_tokens = rl_burst l, rb_at = now\<rparr>)"

definition allow :: "int \<Rightarrow> string \<Rightarrow> gatewayRateLimiter \<Rightarrow> (bool \<times> int) \<times> gatewayRateLimiter" where
  "allow now key l =
     (let tokens = refilled l (bucket_of l key now) now;
          keep = (\<lambda>t. l\<lparr>rl_buckets := put key \<lparr>rb_tokens = t, rb_at = now\<rparr> (rl_buckets l)\<rparr>)
      in if tokens < 1 then ((False, retry_after l tokens), keep tokens)
         else ((True, 0), keep (f64 (tokens - 1))))"

subsection \<open>Requests\<close>

text \<open>\<open>rq_Header\<close> gives the first value under a canonical name, and the empty string for an absent one.\<close>

record gateway_request =
  rq_Method :: string
  rq_Path :: string
  rq_Escaped :: string
  rq_RemoteAddr :: string
  rq_Header :: "string \<Rightarrow> string"
  rq_Body :: string

definition gatewaySource :: "string \<Rightarrow> string" where
  "gatewaySource remoteAddr = (case SplitHostPort (trim_space remoteAddr) of Some (host, _) \<Rightarrow> host | None \<Rightarrow> trim_space remoteAddr)"

definition gatewayRequestSource :: "gateway_request \<Rightarrow> string" where
  "gatewayRequestSource q =
     (let source = gatewaySource (rq_RemoteAddr q);
          connecting = trim_space (rq_Header q ''CF-Connecting-IP'');
          forwarded = trim_space (before CHR '','' (rq_Header q ''X-Forwarded-For''))
      in if (case ParseIP source of None \<Rightarrow> False | Some ip \<Rightarrow> IsLoopback ip)
         then (if connecting \<noteq> '''' then connecting else if forwarded \<noteq> '''' then forwarded else source)
         else source)"

definition bearerToken :: "gateway_request \<Rightarrow> string" where
  "bearerToken q =
     (let h = rq_Header q ''Authorization''
      in if 7 < length h \<and> equal_fold (take 7 h) ''Bearer '' then trim_space (drop 7 h) else '''')"

definition gatewayRouteAllowed :: "string \<Rightarrow> string \<Rightarrow> bool \<Rightarrow> bool" where
  "gatewayRouteAllowed meth path agent \<longleftrightarrow>
     meth = ''GET'' \<and> path = ''/v1/models'' \<or>
     meth = ''POST'' \<and> (path = ''/v1/chat/completions'' \<or> (path = ''/v1/completions'' \<or> path = ''/v1/embeddings'') \<and> \<not> agent)"

subsection \<open>Authorization\<close>

text \<open>What the gateway keeps: the settings with the keys, the two limiters and the audit trail.\<close>

record gateway =
  gw_state :: StateStore
  gw_limiter :: gatewayRateLimiter
  gw_sources :: gatewayRateLimiter
  gw_audit :: audit_log

text \<open>\<open>gatewaySecurity\<close>: the limiters are made on first use.\<close>

definition new_gateway :: "StateStore \<Rightarrow> audit_log \<Rightarrow> gateway" where
  "new_gateway s a = \<lparr>gw_state = s, gw_limiter = newGatewayRateLimiter, gw_sources = newGatewayRateLimiterWith 120 30, gw_audit = a\<rparr>"

text \<open>The clocks and faults of one request: the two limiters, the audit event, the usage counters and the duration.\<close>

record gateway_env =
  ge_source :: int
  ge_key :: int
  ge_stamp :: string
  ge_fault :: append_fault
  ge_used :: string
  ge_duration :: int

definition auditGateway :: "gateway_env \<Rightarrow> Event \<Rightarrow> gateway \<Rightarrow> gateway" where
  "auditGateway env e g = g\<lparr>gw_audit := Append (ge_fault env) (ge_stamp env) (e\<lparr>ev_Category := ''gateway''\<rparr>) (gw_audit g)\<rparr>"

definition request_event :: "gateway_request \<Rightarrow> string \<Rightarrow> string \<Rightarrow> string \<Rightarrow> string \<Rightarrow> int \<Rightarrow> string \<Rightarrow> Event" where
  "request_event q name outcome kid scope status detail =
     zero_Event\<lparr>ev_Event := name, ev_Outcome := outcome, ev_KeyID := kid, ev_Scope := scope, ev_Method := rq_Method q,
       ev_Path := rq_Path q, ev_Source := gatewayRequestSource q, ev_Status := status, ev_Detail := detail\<rparr>"

definition invalid_key_message :: string where
  "invalid_key_message = ''Invalid API key. Pass a Cloudless key as '' @ [CHR 0x27] @ ''Authorization: Bearer sk-cloudless-'' @
     [CHR 0xE2, CHR 0x80, CHR 0xA6, CHR 0x27, CHR ''.'']"

datatype gateway_reply =
    OpenAIError int string
  | RateLimited int string
  | Redirected
  | Health
  | Welcome
  | Proxied

definition authorizeGateway :: "gateway_env \<Rightarrow> gateway_request \<Rightarrow> string \<Rightarrow> gateway \<Rightarrow> (gateway_reply + string) \<times> gateway" where
  "authorizeGateway env q scope g =
     (let source = gatewayRequestSource q; token = bearerToken q
      in case allow (ge_source env) source (gw_sources g) of
        ((False, wait), sources) \<Rightarrow>
          (Inl (RateLimited wait ''This client is sending requests too quickly. Retry after the indicated delay.''),
           auditGateway env (request_event q ''gateway-rate-limit'' ''denied'' '''' scope 429 ''source request limit exceeded'')
             (g\<lparr>gw_sources := sources\<rparr>))
      | ((True, _), sources) \<Rightarrow>
          (let g1 = g\<lparr>gw_sources := sources\<rparr>
           in case ValidateAPIKey token (gw_state g1) of
             None \<Rightarrow>
               (Inl (OpenAIError 401 invalid_key_message),
                auditGateway env (request_event q ''gateway-auth'' ''denied'' '''' scope 401 ''invalid credential'') g1)
           | Some _ \<Rightarrow>
               (case ValidateAPIKeyFor token scope (gw_state g1) of
                  (kid, False) \<Rightarrow>
                    (Inl (OpenAIError 403 ''This API key does not have permission to use the requested Cloudless service.''),
                     auditGateway env (request_event q ''gateway-auth'' ''denied'' kid scope 403 ''scope denied'') g1)
                | (kid, True) \<Rightarrow>
                    (case allow (ge_key env) kid (gw_limiter g1) of
                       ((False, wait), limiter) \<Rightarrow>
                         (Inl (RateLimited wait ''This API key is sending requests too quickly. Retry after the indicated delay.''),
                          auditGateway env (request_event q ''gateway-rate-limit'' ''denied'' kid scope 429 ''per-key request limit exceeded'')
                            (g1\<lparr>gw_limiter := limiter\<rparr>))
                     | ((True, _), limiter) \<Rightarrow> (Inr kid, g1\<lparr>gw_limiter := limiter\<rparr>)))))"

end
