(* ===== verification/GatewayProxy.thy ===== *)
theory GatewayProxy
  imports Gateway
begin

text \<open>
  The request handler of \<open>internal/api/gateway.go\<close> behind the rate limits: routing, the requests that go out to the
  inference engine and to the agent, the rewriting of streamed answers and the accounting of their usage.
  The backends are an argument: what they write through the recorder.
\<close>

subsection \<open>Bodies\<close>

text \<open>\<open>bytes.ReplaceAll\<close> for a pattern that is not empty.\<close>

function replace_bytes :: "string \<Rightarrow> string \<Rightarrow> string \<Rightarrow> string" where
  "replace_bytes old new [] = []"
| "replace_bytes old new (c # s) =
     (if old \<noteq> '''' \<and> has_prefix (c # s) old then new @ replace_bytes old new (drop (length old - 1) s)
      else c # replace_bytes old new s)"
  by pat_completeness auto
termination
  by (relation "measure (\<lambda>(old, new, s). length s)") (auto simp: less_Suc_eq_le)

definition json_member :: "string \<Rightarrow> string \<Rightarrow> string" where
  "json_member k v = quote k @ '':'' @ quote v"

definition servedModelName :: string where "servedModelName = ''cloudless''"

definition alias_line :: "string \<Rightarrow> string \<Rightarrow> string" where
  "alias_line alias line =
     replace_bytes (json_member ''id'' servedModelName) (json_member ''id'' alias)
       (replace_bytes (json_member ''model'' servedModelName) (json_member ''model'' alias) line)"

text \<open>What is buffered, and what the source still delivers before it ends.\<close>

record gatewayAliasBody =
  ab_pending :: string
  ab_source :: string
  ab_alias :: string

definition first_line :: "string \<Rightarrow> string" where
  "first_line s = (if CHR 0x0A \<in> set s then before CHR 0x0A s @ [CHR 0x0A] else s)"

text \<open>\<open>Read\<close> into a buffer of \<open>n\<close> bytes: \<open>None\<close> at the end of the stream.\<close>

definition alias_read :: "nat \<Rightarrow> gatewayAliasBody \<Rightarrow> string option \<times> gatewayAliasBody" where
  "alias_read n b =
     (let fill = (if ab_pending b = '''' \<and> ab_source b \<noteq> ''''
                  then b\<lparr>ab_pending := alias_line (ab_alias b) (first_line (ab_source b)),
                         ab_source := drop (length (first_line (ab_source b))) (ab_source b)\<rparr> else b)
      in if ab_pending fill = '''' then (None, fill)
         else (Some (take n (ab_pending fill)), fill\<lparr>ab_pending := drop n (ab_pending fill)\<rparr>))"

definition rewrites_response :: "string \<Rightarrow> string \<Rightarrow> bool" where
  "rewrites_response alias contentType \<longleftrightarrow>
     alias \<noteq> servedModelName \<and> (contains (to_lower_text contentType) ''json'' \<or> contains (to_lower_text contentType) ''event-stream'')"

text \<open>
  \<open>rewriteModel\<close>. \<open>remodel\<close> is the JSON object with its \<open>model\<close> member set to the given name, if the body is an object
  that has one. Reading the body may fail after some bytes.
\<close>

definition model_route :: "gateway_request \<Rightarrow> bool" where
  "model_route q \<longleftrightarrow> rq_Method q = ''POST'' \<and>
     (has_suffix (rq_Path q) ''/chat/completions'' \<or> has_suffix (rq_Path q) ''/completions'' \<or> has_suffix (rq_Path q) ''/embeddings'')"

definition body_limit :: nat where "body_limit = 8 * 2 ^ 20"

definition rewriteModel :: "(string \<Rightarrow> string \<Rightarrow> string option) \<Rightarrow> nat option \<Rightarrow> string \<Rightarrow> gateway_request \<Rightarrow> gateway_request" where
  "rewriteModel remodel broken activeModel q =
     (if \<not> model_route q then q
      else let limited = take body_limit (rq_Body q)
        in case broken of
             Some n \<Rightarrow> if n < length limited then q\<lparr>rq_Body := take n limited\<rparr>
                       else q\<lparr>rq_Body := (case remodel activeModel limited of None \<Rightarrow> limited | Some b \<Rightarrow> b)\<rparr>
           | None \<Rightarrow> q\<lparr>rq_Body := (case remodel activeModel limited of None \<Rightarrow> limited | Some b \<Rightarrow> b)\<rparr>)"

subsection \<open>Usage\<close>

datatype rec_op = RecHeader int | RecWrite string | RecFlush

record statusRec =
  sr_status :: int
  sr_wrote :: bool
  sr_capture :: string

definition usageCaptureLimit :: nat where "usageCaptureLimit = 256 * 2 ^ 10"

definition rec_step :: "nat \<Rightarrow> rec_op \<Rightarrow> statusRec \<Rightarrow> statusRec" where
  "rec_step limit rop r = (case rop of
       RecHeader st \<Rightarrow> if sr_wrote r then r else r\<lparr>sr_status := st, sr_wrote := True\<rparr>
     | RecWrite b \<Rightarrow>
         (let over = length (sr_capture r) + length b - limit
          in r\<lparr>sr_wrote := True,
               sr_capture := if limit \<le> length b then drop (length b - limit) b else drop over (sr_capture r) @ b\<rparr>)
     | RecFlush \<Rightarrow> r)"

definition recorded_by :: "rec_op list \<Rightarrow> statusRec" where
  "recorded_by ops = fold (rec_step usageCaptureLimit) ops \<lparr>sr_status = 200, sr_wrote = False, sr_capture = ''''\<rparr>"

record usageFields =
  us_PromptTokens :: int
  us_CompletionTokens :: int
  us_InputTokens :: int
  us_OutputTokens :: int

definition token_counts :: "usageFields \<Rightarrow> int \<times> int" where
  "token_counts u = (if us_PromptTokens u = 0 then us_InputTokens u else us_PromptTokens u,
     if us_CompletionTokens u = 0 then us_OutputTokens u else us_CompletionTokens u)"

text \<open>JSON decoding of a whole text with a \<open>usage\<close> member, and of one value at the start of a text.\<close>

record usage_decoder =
  ud_envelope :: "string \<Rightarrow> usageFields option"
  ud_prefix :: "string \<Rightarrow> usageFields option"

definition trailing_usage :: "usage_decoder \<Rightarrow> string \<Rightarrow> usageFields option" where
  "trailing_usage ud body = (case from_last (quote ''usage'') body of
       None \<Rightarrow> None
     | Some t \<Rightarrow> if CHR '':'' \<in> set t then ud_prefix ud (drop (Suc (length (before CHR '':'' t))) t) else None)"

definition data_usage :: "usage_decoder \<Rightarrow> string \<Rightarrow> usageFields option" where
  "data_usage ud line0 = (let line = trim_space line0
     in if has_prefix line ''data:'' then ud_envelope ud (trim_space (trim_prefix line ''data:'')) else None)"

definition responseUsage :: "usage_decoder \<Rightarrow> string \<Rightarrow> int \<times> int" where
  "responseUsage ud body = (case ud_envelope ud (trim_space body) of
       Some u \<Rightarrow> token_counts u
     | None \<Rightarrow> (case trailing_usage ud body of
         Some u \<Rightarrow> token_counts u
       | None \<Rightarrow> (case rev (List.map_filter (data_usage ud) (split_on CHR 0x0A body)) of
           [] \<Rightarrow> (0, 0) | u # us \<Rightarrow> token_counts u)))"

subsection \<open>Requests to the backends\<close>

record outbound =
  ob_Host :: string
  ob_Method :: string
  ob_Path :: string
  ob_Authorization :: "string option"
  ob_Body :: string

definition EnginePort :: int where "EnginePort = 8000"
definition HermesAPIPort :: int where "HermesAPIPort = 8642"

definition activeRecipeGatewaySettings :: "string \<times> string" where
  "activeRecipeGatewaySettings = (''/v1'', servedModelName)"

definition engine_director :: "gateway_request \<Rightarrow> outbound" where
  "engine_director q =
     (let apiPath = fst activeRecipeGatewaySettings; p = rq_Path q
      in \<lparr>ob_Host = ''127.0.0.1:'' @ itoa EnginePort, ob_Method = rq_Method q,
          ob_Path = (if apiPath \<noteq> '''' \<and> apiPath \<noteq> ''/v1'' \<and> has_prefix p ''/v1''
                     then trim_right ''/'' apiPath @ trim_prefix p ''/v1'' else p),
          ob_Authorization = None, ob_Body = rq_Body q\<rparr>)"

text \<open>\<open>key\<close>: the key of the agent, if its file can be read.\<close>

definition hermes_director :: "string option \<Rightarrow> gateway_request \<Rightarrow> outbound" where
  "hermes_director key q =
     \<lparr>ob_Host = ''127.0.0.1:'' @ itoa HermesAPIPort, ob_Method = rq_Method q, ob_Path = trim_prefix (rq_Path q) ''/agent'',
      ob_Authorization = map_option ((@) ''Bearer '') key, ob_Body = rq_Body q\<rparr>"

text \<open>\<open>wire\<close>: what a backend writes through the recorder for a request.\<close>

definition serveGatewayProxy ::
    "gateway_env \<Rightarrow> usage_decoder \<Rightarrow> (outbound \<Rightarrow> rec_op list) \<Rightarrow> gateway_request \<Rightarrow> string \<Rightarrow> string \<Rightarrow> outbound \<Rightarrow> gateway \<Rightarrow> gateway" where
  "serveGatewayProxy env ud wire q kid kind out g =
     (let rec = recorded_by (wire out); success = sr_status rec < 400
      in case responseUsage ud (sr_capture rec) of (prompt, completion) \<Rightarrow>
           auditGateway env ((request_event q ''gateway-request'' (if success then ''success'' else ''error'') kid kind (sr_status rec) '''')
               \<lparr>ev_DurationMS := ge_duration env\<rparr>)
             (g\<lparr>gw_state := RecordAPIUsageKind (ge_used env) kid kind success prompt completion (gw_state g)\<rparr>))"

subsection \<open>Routing\<close>

text \<open>The request path of \<open>http.ServeMux\<close>: cleaned, with its final slash.\<close>

definition clean_path :: "string \<Rightarrow> string" where
  "clean_path p0 =
     (let p = (if has_prefix p0 ''/'' then p0 else CHR ''/'' # p0); np = Clean p
      in if p0 = '''' then ''/'' else if last p = CHR ''/'' \<and> np \<noteq> ''/'' then np @ ''/'' else np)"

definition segments :: "string \<Rightarrow> string list" where
  "segments p = map (\<lambda>s. case unescape PathMode s of None \<Rightarrow> s | Some t \<Rightarrow> t) (split_on CHR ''/'' (drop 1 p))"

datatype gateway_route = ModelRoute | AgentRoute | HealthRoute | RootRoute | RedirectRoute

definition gateway_mux :: "gateway_request \<Rightarrow> gateway_route" where
  "gateway_mux q =
     (let p = (if rq_Method q = ''CONNECT'' then rq_Escaped q else clean_path (rq_Escaped q))
      in case segments p of
           [a] \<Rightarrow> if a = ''v1'' \<or> p \<noteq> rq_Escaped q then RedirectRoute else if a = ''health'' then HealthRoute else RootRoute
         | a # b # rest \<Rightarrow>
             if a = ''agent'' \<and> b = ''v1'' \<and> rest = [] \<or> p \<noteq> rq_Escaped q then RedirectRoute
             else if a = ''v1'' then ModelRoute
             else if a = ''agent'' \<and> b = ''v1'' then AgentRoute else RootRoute
         | [] \<Rightarrow> RootRoute)"

text \<open>What stands around one request: the agent's key, the JSON functions, the failure while reading the body, the backends.\<close>

record gateway_world =
  gx_hermes :: "string option"
  gx_remodel :: "string \<Rightarrow> string \<Rightarrow> string option"
  gx_broken :: "nat option"
  gx_usage :: usage_decoder
  gx_wire :: "outbound \<Rightarrow> rec_op list"

definition model_handler ::
    "gateway_env \<Rightarrow> gateway_world \<Rightarrow> gateway_request \<Rightarrow> gateway \<Rightarrow> (gateway_reply \<times> outbound option) \<times> gateway" where
  "model_handler env x q g =
     (if \<not> gatewayRouteAllowed (rq_Method q) (rq_Path q) False
      then ((OpenAIError 404 ''This route is not exposed by the Cloudless model gateway.'', None), g)
      else case authorizeGateway env q APIKeyScopeModel g of
             (Inl r, g1) \<Rightarrow> ((r, None), g1)
           | (Inr kid, g1) \<Rightarrow>
               (let q1 = rewriteModel (gx_remodel x) (gx_broken x) (snd activeRecipeGatewaySettings) q; out = engine_director q1
                in ((Proxied, Some out), serveGatewayProxy env (gx_usage x) (gx_wire x) q1 kid APIKeyScopeModel out g1)))"

definition agent_handler ::
    "gateway_env \<Rightarrow> gateway_world \<Rightarrow> gateway_request \<Rightarrow> gateway \<Rightarrow> (gateway_reply \<times> outbound option) \<times> gateway" where
  "agent_handler env x q g =
     (if \<not> gatewayRouteAllowed (rq_Method q) (trim_prefix (rq_Path q) ''/agent'') True
      then ((OpenAIError 404 ''This route is not exposed by the Cloudless agent gateway.'', None), g)
      else case authorizeGateway env q APIKeyScopeAgent g of
             (Inl r, g1) \<Rightarrow> ((r, None), g1)
           | (Inr kid, g1) \<Rightarrow>
               (let out = hermes_director (gx_hermes x) q
                in ((Proxied, Some out), serveGatewayProxy env (gx_usage x) (gx_wire x) q kid APIKeyScopeAgent out g1)))"

definition GatewayHandler ::
    "gateway_env \<Rightarrow> gateway_world \<Rightarrow> gateway_request \<Rightarrow> gateway \<Rightarrow> (gateway_reply \<times> outbound option) \<times> gateway" where
  "GatewayHandler env x q g = (case gateway_mux q of
       ModelRoute \<Rightarrow> model_handler env x q g
     | AgentRoute \<Rightarrow> agent_handler env x q g
     | HealthRoute \<Rightarrow> ((Health, None), g)
     | RootRoute \<Rightarrow> (if rq_Path q \<noteq> ''/'' then ((OpenAIError 404 ''This route is not exposed by the Cloudless gateway.'', None), g)
                     else ((Welcome, None), g))
     | RedirectRoute \<Rightarrow> ((Redirected, None), g))"

end
