(* ===== verification/Tailscale.thy ===== *)
theory Tailscale
  imports GoUrl
begin

text \<open>
  \<open>internal/remoteaccess/tailscale.go\<close>: the Tailscale client of the host. The command line tool is an argument:
  \<open>ts argv d\<close> is the combined output of \<open>tailscale argv\<close> in the world \<open>d\<close>, the text of its error, if any, and the
  world it leaves. Deadlines are not modelled.
\<close>

subsection \<open>Searching\<close>

text \<open>\<open>FindString\<close>: the leftmost match of a pattern, given as the length it matches at a position.\<close>

fun find_string :: "(string \<Rightarrow> nat option) \<Rightarrow> string \<Rightarrow> string" where
  "find_string m [] = (case m [] of Some n \<Rightarrow> [] | None \<Rightarrow> [])"
| "find_string m (c # s) = (case m (c # s) of Some n \<Rightarrow> take n (c # s) | None \<Rightarrow> find_string m s)"

text \<open>A prefix, one or more characters of a class that does not meet the first one of the suffix, and the suffix.\<close>

definition framed :: "string \<Rightarrow> (char \<Rightarrow> bool) \<Rightarrow> string \<Rightarrow> string \<Rightarrow> nat option" where
  "framed p cls suffix s =
     (let n = length (takeWhile cls (drop (length p) s))
      in if has_prefix s p \<and> 0 < n \<and> has_prefix (drop (length p + n) s) suffix then Some (length p + n + length suffix) else None)"

definition login_char :: "char \<Rightarrow> bool" where
  "login_char c \<longleftrightarrow> is_alnum c \<or> c \<in> set ''/_?=&.%-''"

definition loginURLPattern :: "string \<Rightarrow> nat option" where
  "loginURLPattern = framed ''https://login.tailscale.com/'' login_char ''''"

subsection \<open>Status\<close>

record TailStatus =
  ts_Installed :: bool
  ts_Connected :: bool
  ts_BackendState :: string
  ts_Version :: string
  ts_DeviceName :: string
  ts_DNSName :: string
  ts_Tailnet :: string
  ts_IPs :: "string list"
  ts_ServeEnabled :: bool
  ts_SSHEnabled :: bool
  ts_WebURL :: string
  ts_Error :: string
  ts_TCPForwards :: "(int, string) gomap"

definition zero_TailStatus :: TailStatus where
  "zero_TailStatus = \<lparr>ts_Installed = False, ts_Connected = False, ts_BackendState = '''', ts_Version = '''', ts_DeviceName = '''',
     ts_DNSName = '''', ts_Tailnet = '''', ts_IPs = [], ts_ServeEnabled = False, ts_SSHEnabled = False, ts_WebURL = '''',
     ts_Error = '''', ts_TCPForwards = []\<rparr>"

definition loopback_target :: "string \<Rightarrow> int \<Rightarrow> string" where
  "loopback_target host port = host @ '':'' @ itoa port"

definition ServesTCP :: "TailStatus \<Rightarrow> int \<Rightarrow> bool" where
  "ServesTCP st port =
     (let target = trim_prefix (case lookup (ts_TCPForwards st) port of None \<Rightarrow> '''' | Some t \<Rightarrow> t) ''tcp://''
      in target = loopback_target ''127.0.0.1'' port \<or> target = loopback_target ''localhost'' port)"

record cliStatus =
  cs_Version :: string
  cs_BackendState :: string
  cs_TailscaleIPs :: "string list"
  cs_HostName :: string
  cs_DNSName :: string
  cs_Online :: bool
  cs_TailnetName :: string

text \<open>What \<open>json.Unmarshal\<close> makes of the output of the tool; the two maps of the serve configuration in the order in which
  they are traversed: raw port and TCP target, and the proxy targets of the web handlers.\<close>

record serveConfig =
  sc_TCP :: "(string \<times> string) list"
  sc_Proxies :: "string list"

record ts_decoder =
  td_status :: "string \<Rightarrow> cliStatus option"
  td_serve :: "string \<Rightarrow> serveConfig option"
  td_prefs :: "string \<Rightarrow> bool option"

type_synonym 'd tool = "string list \<Rightarrow> 'd \<Rightarrow> (string \<times> string option) \<times> 'd"

text \<open>\<open>execCommands.Run\<close>: the error carries the trimmed output.\<close>

definition ts_run :: "'d tool \<Rightarrow> 'd tool" where
  "ts_run ts argv d = (case ts argv d of
       ((out, None), d1) \<Rightarrow> ((out, None), d1)
     | ((out, Some e), d1) \<Rightarrow> ((out, Some (trim_space out @ '': '' @ e)), d1))"

definition cleanError :: "string \<Rightarrow> string" where
  "cleanError e = (let m = trim_prefix (trim_space e) '': '' in if m = '''' then ''Tailscale command failed'' else m)"

definition parseServeStatus :: "ts_decoder \<Rightarrow> string \<Rightarrow> bool \<times> (int, string) gomap" where
  "parseServeStatus td data = (case td_serve td data of
       None \<Rightarrow> (False, [])
     | Some c \<Rightarrow>
         (list_ex (\<lambda>p. trim_suffix p ''/'' = ''http://127.0.0.1:8765'') (sc_Proxies c),
          foldl (\<lambda>m (raw, target). case atoi raw of (port, ok) \<Rightarrow> if ok \<and> target \<noteq> '''' then put port target m else m) [] (sc_TCP c)))"

definition status_of :: "cliStatus \<Rightarrow> TailStatus \<Rightarrow> TailStatus" where
  "status_of raw st = st\<lparr>ts_BackendState := cs_BackendState raw, ts_Version := cs_Version raw, ts_DeviceName := cs_HostName raw,
     ts_DNSName := trim_suffix (cs_DNSName raw) ''.'', ts_Tailnet := cs_TailnetName raw, ts_IPs := cs_TailscaleIPs raw,
     ts_Connected := (cs_BackendState raw = ''Running'' \<and> cs_Online raw)\<rparr>"

definition with_serve :: "ts_decoder \<Rightarrow> string \<times> string option \<Rightarrow> TailStatus \<Rightarrow> TailStatus" where
  "with_serve td r st = (case r of
       (out, None) \<Rightarrow> (case parseServeStatus td out of (dashboard, forwards) \<Rightarrow>
          st\<lparr>ts_ServeEnabled := dashboard, ts_TCPForwards := forwards\<rparr>)
     | (_, Some _) \<Rightarrow> st)"

definition with_prefs :: "ts_decoder \<Rightarrow> string \<times> string option \<Rightarrow> TailStatus \<Rightarrow> TailStatus" where
  "with_prefs td r st = (case r of
       (out, None) \<Rightarrow> (case td_prefs td out of None \<Rightarrow> st | Some ssh \<Rightarrow> st\<lparr>ts_SSHEnabled := ssh\<rparr>)
     | (_, Some _) \<Rightarrow> st)"

definition TailscaleStatus :: "bool \<Rightarrow> ts_decoder \<Rightarrow> 'd tool \<Rightarrow> 'd \<Rightarrow> TailStatus \<times> 'd" where
  "TailscaleStatus installed td ts d0 =
     (if \<not> installed then (zero_TailStatus, d0)
      else let st = zero_TailStatus\<lparr>ts_Installed := True, ts_WebURL := ''http://100.100.100.100''\<rparr>
        in case ts_run ts [''status'', ''--json''] d0 of
             ((_, Some e), d1) \<Rightarrow> (st\<lparr>ts_Error := cleanError e\<rparr>, d1)
           | ((out, None), d1) \<Rightarrow>
               (case td_status td out of
                  None \<Rightarrow> (st\<lparr>ts_Error := ''Tailscale returned an unreadable status''\<rparr>, d1)
                | Some raw \<Rightarrow>
                    (case ts_run ts [''serve'', ''status'', ''--json''] d1 of (serve, d2) \<Rightarrow>
                     case ts_run ts [''debug'', ''prefs''] d2 of (prefs, d3) \<Rightarrow>
                       (with_prefs td prefs (with_serve td serve (status_of raw st)), d3))))"

subsection \<open>Commands\<close>

datatype ts_error = NotInstalled | ToolFailed string | ServeApproval string | InvalidAPIPort

definition ServeApprovalURL :: "ts_error option \<Rightarrow> string" where
  "ServeApprovalURL e = (case e of Some (ServeApproval url) \<Rightarrow> url | _ \<Rightarrow> '''')"

definition Connect :: "bool \<Rightarrow> ts_decoder \<Rightarrow> 'd tool \<Rightarrow> 'd \<Rightarrow> (ts_error + string) \<times> 'd" where
  "Connect installed td ts d =
     (if \<not> installed then (Inl NotInstalled, d)
      else case ts_run ts [''up'', ''--timeout=10s''] d of
        ((out, err), d1) \<Rightarrow>
          (let url = find_string loginURLPattern out
           in if url \<noteq> '''' then (Inr url, d1)
              else case err of
                     None \<Rightarrow> (Inr '''', d1)
                   | Some e \<Rightarrow> (case TailscaleStatus installed td ts d1 of (st, d2) \<Rightarrow>
                       (if ts_Connected st then Inr '''' else Inl (ToolFailed (cleanError e)), d2))))"

definition ts_do :: "'d tool \<Rightarrow> string list \<Rightarrow> 'd \<Rightarrow> ts_error option \<times> 'd" where
  "ts_do ts argv d = (case ts_run ts argv d of ((_, err), d1) \<Rightarrow> (map_option ToolFailed err, d1))"

definition Logout :: "'d tool \<Rightarrow> 'd \<Rightarrow> ts_error option \<times> 'd" where
  "Logout ts = ts_do ts [''logout'']"

definition SetSSH :: "'d tool \<Rightarrow> bool \<Rightarrow> 'd \<Rightarrow> ts_error option \<times> 'd" where
  "SetSSH ts enabled = ts_do ts [''set'', ''--ssh='' @ (if enabled then ''true'' else ''false'')]"

definition SetServe :: "'d tool \<Rightarrow> bool \<Rightarrow> 'd \<Rightarrow> ts_error option \<times> 'd" where
  "SetServe ts enabled d =
     (case ts_run ts (if enabled then [''serve'', ''--bg'', ''--yes'', ''--https=443'', ''http://127.0.0.1:8765'']
                      else [''serve'', ''--yes'', ''--https=443'', ''off'']) d of
        ((out, err), d1) \<Rightarrow>
          (let url = find_string loginURLPattern out
           in (if url \<noteq> '''' then Some (ServeApproval url) else map_option ToolFailed err, d1)))"

definition SetAPIServe :: "'d tool \<Rightarrow> bool \<Rightarrow> int \<Rightarrow> 'd \<Rightarrow> ts_error option \<times> 'd" where
  "SetAPIServe ts enabled port d =
     (if port < 1024 \<or> port > 65535 then (Some InvalidAPIPort, d)
      else if enabled
      then ts_do ts [''serve'', ''--bg'', ''--yes'', ''--tcp='' @ itoa port, ''tcp://'' @ loopback_target ''127.0.0.1'' port] d
      else ts_do ts [''serve'', ''--yes'', ''--tcp='' @ itoa port, ''off''] d)"

text \<open>\<open>do\<close>: an action of the privileged helper.\<close>

definition TailscaleInstall :: "(string \<Rightarrow> 'd \<Rightarrow> string option \<times> 'd) \<Rightarrow> 'd \<Rightarrow> string option \<times> 'd" where
  "TailscaleInstall do' = do' ''tailscale.install''"

end
