(* ===== verification/GatewayAPI.thy ===== *)
theory GatewayAPI
  imports GatewayProxy Tailscale
begin

text \<open>
  The management side of \<open>internal/api/gateway.go\<close>: the identity of the API, its keys, and its exposure to the local
  network, the tailnet and the internet. Docker, the Tailscale tool, the manifest of images, the network address and the
  listener are arguments.
\<close>

subsection \<open>Addresses\<close>

definition http_url :: "string \<Rightarrow> int \<Rightarrow> string \<Rightarrow> string" where
  "http_url host port path = ''http://'' @ host @ '':'' @ itoa port @ path"

definition tailnetURL :: "bool \<Rightarrow> string \<Rightarrow> int \<Rightarrow> string \<Rightarrow> string" where
  "tailnetURL on ip port path = (if \<not> on \<or> ip = '''' then '''' else http_url ip port path)"

definition lanURL :: "bool \<Rightarrow> string \<Rightarrow> int \<Rightarrow> string" where
  "lanURL on ip port = (if on \<and> ip \<noteq> '''' then http_url ip port ''/v1'' else '''')"

definition agentLanURL :: "bool \<Rightarrow> string \<Rightarrow> int \<Rightarrow> string" where
  "agentLanURL on ip port = (if on \<and> ip \<noteq> '''' then http_url ip port ''/agent/v1'' else '''')"

definition gatewayClientURLs :: "bool \<Rightarrow> string \<Rightarrow> int \<Rightarrow> string \<times> string" where
  "gatewayClientURLs lanEnabled ip port =
     (let m = lanURL lanEnabled ip port; a = agentLanURL lanEnabled ip port
      in if m \<noteq> '''' \<and> a \<noteq> '''' then (m, a)
         else (http_url ''localhost'' port ''/v1'', http_url ''localhost'' port ''/agent/v1''))"

definition appendURLPath :: "string \<Rightarrow> string \<Rightarrow> string" where
  "appendURLPath base path = (if base = '''' then '''' else trim_right ''/'' base @ path)"

definition tailscaleIPv4 :: "string list \<Rightarrow> string" where
  "tailscaleIPv4 ips = (case find (\<lambda>v. case ParseIP v of None \<Rightarrow> False | Some ip \<Rightarrow> is_IPv4 ip) ips of None \<Rightarrow> '''' | Some v \<Rightarrow> v)"

subsection \<open>The API identity\<close>

definition alias_char :: "char \<Rightarrow> bool" where
  "alias_char c \<longleftrightarrow> is_alnum c \<or> c \<in> set ''._:/-''"

definition inferenceAliasPattern :: "string \<Rightarrow> bool" where
  "inferenceAliasPattern s \<longleftrightarrow> s \<noteq> '''' \<and> length s \<le> 64 \<and> is_alnum (hd s) \<and> list_all alias_char s"

definition reservedPorts :: "int list" where "reservedPorts = [8000, 8642, 8765, 9119]"

datatype contract_error = PortRange | PortReserved int | AliasShape

definition validateInferenceContract :: "InferenceContract \<Rightarrow> contract_error option" where
  "validateInferenceContract contract =
     (let c = Normalized contract
      in if ic_Port c < 1024 \<or> ic_Port c > 65535 then Some PortRange
         else if ic_Port c \<in> set reservedPorts then Some (PortReserved (ic_Port c))
         else if \<not> inferenceAliasPattern (ic_ModelAlias c) then Some AliasShape
         else None)"

subsection \<open>Containers that expose the gateway\<close>

definition gatewayLanName :: string where "gatewayLanName = ''cloudless-lan-gateway''"
definition gatewayTunnelName :: string where "gatewayTunnelName = ''cloudless-tunnel-gateway''"
definition SocatImage :: string where "SocatImage = ''alpine/socat:latest''"
definition CloudflaredImage :: string where "CloudflaredImage = ''cloudflare/cloudflared:latest''"

definition zero_RunSpec :: RunSpec where
  "zero_RunSpec = \<lparr>rs_Name = '''', rs_Image = '''', rs_RestartPolicy = '''', rs_Ports = [], rs_Env = [], rs_Labels = [],
     rs_Volumes = [], rs_SecretFiles = [], rs_GPUs = '''', rs_Network = '''', rs_NetworkAlias = '''', rs_IPC = '''',
     rs_Ulimits = [], rs_ExtraHosts = [], rs_EntryPoint = '''', rs_User = '''', rs_Args = [], rs_ReadOnly = False,
     rs_CapAdd = [], rs_CapDrop = [], rs_SecurityOpts = [], rs_Tmpfs = [], rs_PidsLimit = 0, rs_ShmSize = '''', rs_Devices = []\<rparr>"

definition gatewayLANSpec :: "string \<Rightarrow> string \<Rightarrow> int \<Rightarrow> RunSpec" where
  "gatewayLANSpec img ip port = zero_RunSpec\<lparr>rs_Name := gatewayLanName, rs_Image := img, rs_Network := ''host'',
     rs_Args := [''TCP-LISTEN:'' @ itoa port @ '',bind='' @ ip @ '',fork,reuseaddr'', ''TCP:'' @ loopback_target ''127.0.0.1'' port]\<rparr>"

definition gatewayTunnelSpec :: "string \<Rightarrow> int \<Rightarrow> RunSpec" where
  "gatewayTunnelSpec img port = zero_RunSpec\<lparr>rs_Name := gatewayTunnelName, rs_Image := img, rs_Network := ''host'',
     rs_Args := [''tunnel'', ''--no-autoupdate'', ''--url'', http_url ''localhost'' port '''']\<rparr>"

definition tunnel_host_char :: "char \<Rightarrow> bool" where
  "tunnel_host_char c \<longleftrightarrow> in_range CHR ''a'' CHR ''z'' c \<or> is_digit c \<or> c = CHR ''-''"

definition trycloudflareRe :: "string \<Rightarrow> nat option" where
  "trycloudflareRe = framed ''https://'' tunnel_host_char ''.trycloudflare.com''"

definition tunnelURL :: "'d daemon \<Rightarrow> string \<Rightarrow> 'd \<Rightarrow> string \<times> 'd" where
  "tunnelURL ex name d = (case Logs ex name d of (Inl _, d1) \<Rightarrow> ('''', d1) | (Inr out, d1) \<Rightarrow> (find_string trycloudflareRe out, d1))"


subsection \<open>The handlers\<close>

text \<open>The gateway, the port its listener is bound to, and the world of Docker and the tools.\<close>

record 'd api_state =
  ax_gateway :: gateway
  ax_listener :: "int option"
  ax_world :: 'd

text \<open>
  \<open>ae_pins\<close>: the image the manifest pins under a key. \<open>ae_rebind\<close>: whether the listener can be moved at all, and the
  error of listening on a port. \<open>ae_polls\<close>: how often the logs of the tunnel are read before the deadline.
\<close>

record 'd api_env =
  ae_host :: host
  ae_docker :: "'d daemon"
  ae_decoder :: decoder
  ae_tailscale :: bool
  ae_installed :: bool
  ae_tool :: "'d tool"
  ae_ts_decoder :: ts_decoder
  ae_pins :: "string \<Rightarrow> string option"
  ae_ip :: string
  ae_rebind :: "(int \<Rightarrow> string option) option"
  ae_polls :: nat
  ae_save :: "string option"
  ae_now :: string
  ae_rand :: "string + (nat list \<times> nat list)"
  ae_audit :: gateway_env
  ae_default_model :: string

definition infraImage :: "'d api_env \<Rightarrow> string \<Rightarrow> string \<Rightarrow> string" where
  "infraImage env key fallback = (case ae_pins env key of Some r \<Rightarrow> r | None \<Rightarrow> fallback)"

definition api_world :: "('d \<Rightarrow> 'a \<times> 'd) \<Rightarrow> 'd api_state \<Rightarrow> 'a \<times> 'd api_state" where
  "api_world f s = (case f (ax_world s) of (v, d) \<Rightarrow> (v, s\<lparr>ax_world := d\<rparr>))"

definition api_audit :: "'d api_env \<Rightarrow> Event \<Rightarrow> 'd api_state \<Rightarrow> 'd api_state" where
  "api_audit env e s = s\<lparr>ax_gateway := auditGateway (ae_audit env) e (ax_gateway s)\<rparr>"

definition contract_of :: "'d api_state \<Rightarrow> InferenceContract" where
  "contract_of s = Contract_Get (gw_state (ax_gateway s))"

definition keys_of :: "'d api_state \<Rightarrow> APIKey list" where
  "keys_of s = APIKeys (gw_state (ax_gateway s))"

datatype api_reply =
    ApiError int string
  | BadContract contract_error
  | StateFailed state_error
  | DockerFailed docker_error
  | TailscaleFailed ts_error
  | ContractSet int string string
  | KeyCreated string string string string string string
  | KeyRevoked
  | Exposed bool string string string
  | TunnelPending

text \<open>The listener of the daemon (\<open>cmd/cloudlessd/main.go\<close>): the old one is shut down once the new one listens.\<close>

definition rebindGateway :: "(int \<Rightarrow> string option) \<Rightarrow> int \<Rightarrow> 'd api_state \<Rightarrow> string option \<times> 'd api_state" where
  "rebindGateway listen port s = (case listen port of Some e \<Rightarrow> (Some e, s) | None \<Rightarrow> (None, s\<lparr>ax_listener := Some port\<rparr>))"

definition set_store :: "StateStore \<Rightarrow> 'd api_state \<Rightarrow> 'd api_state" where
  "set_store st s = s\<lparr>ax_gateway := (ax_gateway s)\<lparr>gw_state := st\<rparr>\<rparr>"

definition is_running :: "docker_error + Container option \<Rightarrow> bool" where
  "is_running r = (case r of Inr (Some c) \<Rightarrow> co_State c = ''running'' | _ \<Rightarrow> False)"

definition skip_unless :: "bool \<Rightarrow> ('d \<Rightarrow> 'd) \<Rightarrow> 'd \<Rightarrow> 'd" where
  "skip_unless b f d = (if b then f d else d)"

definition restartGatewayExposure :: "'d api_env \<Rightarrow> int \<Rightarrow> int \<Rightarrow> 'd \<Rightarrow> 'd" where
  "restartGatewayExposure env previousPort port d0 =
     (let ex = ae_docker env; h = ae_host env; ts = ae_tool env in
      case FindContainer (ae_decoder env) ex gatewayLanName d0 of (lan, d1) \<Rightarrow>
      case FindContainer (ae_decoder env) ex gatewayTunnelName d1 of (tunnel, d2) \<Rightarrow>
      case (if ae_tailscale env then (case TailscaleStatus (ae_installed env) (ae_ts_decoder env) ts d2 of
              (st, d3) \<Rightarrow> (ServesTCP st previousPort, d3)) else (False, d2)) of (tailnet, d3) \<Rightarrow>
      let d4 = snd (DockerBroker.Remove ex gatewayLanName d3);
          d5 = snd (DockerBroker.Remove ex gatewayTunnelName d4);
          d6 = skip_unless (is_running lan \<and> ae_ip env \<noteq> '''')
                 (\<lambda>d. snd (DockerBroker.Run h ex (gatewayLANSpec (infraImage env ''socat'' SocatImage) (ae_ip env) port) d)) d5;
          d7 = skip_unless (is_running tunnel)
                 (\<lambda>d. snd (DockerBroker.Run h ex (gatewayTunnelSpec (infraImage env ''cloudflared'' CloudflaredImage) port) d)) d6
      in skip_unless tailnet (\<lambda>d. snd (SetAPIServe ts True port (snd (SetAPIServe ts False previousPort d)))) d7)"

text \<open>\<open>requested\<close>: the decoded body.\<close>

definition inferenceContractSet :: "'d api_env \<Rightarrow> string \<Rightarrow> InferenceContract option \<Rightarrow> 'd api_state \<Rightarrow> api_reply \<times> 'd api_state" where
  "inferenceContractSet env action requested0 s =
     (if action \<noteq> ''gateway-contract'' then (ApiError 403 ''explicit API identity confirmation required'', s)
      else case requested0 of
        None \<Rightarrow> (ApiError 400 ''bad request'', s)
      | Some r0 \<Rightarrow>
          (let requested = Normalized r0; previous = contract_of s; moves = ic_Port requested \<noteq> ic_Port previous
           in case validateInferenceContract requested of
                Some e \<Rightarrow> (BadContract e, s)
              | None \<Rightarrow>
                  (case (if \<not> moves then Inr s
                         else case ae_rebind env of
                           None \<Rightarrow> Inl (ApiError 503 ''the API listener cannot be reconfigured in this environment'')
                         | Some listen \<Rightarrow> (case rebindGateway listen (ic_Port requested) s of
                               (Some e, _) \<Rightarrow> Inl (ApiError 409 (''that port is unavailable: '' @ e))
                             | (None, s1) \<Rightarrow> Inr s1)) of
                     Inl r \<Rightarrow> (r, s)
                   | Inr s1 \<Rightarrow>
                       (case SetInferenceContract (ae_save env) requested (gw_state (ax_gateway s1)) of
                          (Some e, st) \<Rightarrow>
                            (StateFailed e,
                             case ae_rebind env of
                               Some listen \<Rightarrow> if moves then snd (rebindGateway listen (ic_Port previous) (set_store st s1)) else set_store st s1
                             | None \<Rightarrow> set_store st s1)
                        | (None, st) \<Rightarrow>
                            (ContractSet (ic_Port requested) (ic_ModelAlias requested) (http_url ''localhost'' (ic_Port requested) ''/v1''),
                             (let s2 = set_store st s1
                              in if moves then s2\<lparr>ax_world := restartGatewayExposure env (ic_Port previous) (ic_Port requested) (ax_world s2)\<rparr>
                                 else s2))))))"

definition key_event :: "string \<Rightarrow> string \<Rightarrow> string \<Rightarrow> Event" where
  "key_event outcome kid scope = zero_Event\<lparr>ev_Event := ''gateway-key'', ev_Outcome := outcome, ev_KeyID := kid, ev_Scope := scope\<rparr>"

text \<open>\<open>name0\<close> and \<open>scope0\<close>: the members of the body, empty when it cannot be decoded.\<close>

definition keyCreate :: "'d api_env \<Rightarrow> string \<Rightarrow> string \<Rightarrow> string \<Rightarrow> 'd api_state \<Rightarrow> api_reply \<times> 'd api_state" where
  "keyCreate env action name0 scope0 s =
     (if action \<noteq> ''gateway-key-create'' then (ApiError 403 ''explicit API key creation confirmation required'', s)
      else let name = (if trim_space name0 = '''' then ''API key'' else trim_space name0); scope = NormalizeAPIKeyScope scope0
        in case AddAPIKey (ae_now env) (ae_rand env) (ae_save env) name (Some scope) (gw_state (ax_gateway s)) of
             (_, Some e, st) \<Rightarrow> (StateFailed e, set_store st s)
           | ((secret, k), None, st) \<Rightarrow>
               (KeyCreated (ak_ID k) (ak_Name k) (ak_Prefix k) (ak_Created k) (ak_Scope k) secret,
                api_audit env (key_event ''created'' (ak_ID k) (ak_Scope k)) (set_store st s)))"

definition keyDelete :: "'d api_env \<Rightarrow> string \<Rightarrow> string \<Rightarrow> 'd api_state \<Rightarrow> api_reply \<times> 'd api_state" where
  "keyDelete env action kid s =
     (if action \<noteq> ''gateway-key-revoke'' then (ApiError 403 ''explicit API key revocation confirmation required'', s)
      else case DeleteAPIKey (ae_save env) kid (gw_state (ax_gateway s)) of
             (Some e, st) \<Rightarrow> (StateFailed e, set_store st s)
           | (None, st) \<Rightarrow> (KeyRevoked, api_audit env (key_event ''revoked'' kid '''') (set_store st s)))"

definition exposure_event :: "string \<Rightarrow> string \<Rightarrow> string \<Rightarrow> Event" where
  "exposure_event outcome scope source =
     zero_Event\<lparr>ev_Event := ''gateway-exposure'', ev_Outcome := outcome, ev_Scope := scope, ev_Source := source\<rparr>"

text \<open>Start a forwarder: clear the old one, fetch the image, run.\<close>

definition start_forwarder :: "'d api_env \<Rightarrow> string \<Rightarrow> string \<Rightarrow> RunSpec \<Rightarrow> 'd api_state \<Rightarrow> docker_error option \<times> 'd api_state" where
  "start_forwarder env name img spec s =
     (let d1 = snd (DockerBroker.Remove (ae_docker env) name (ax_world s))
      in case Pull (ae_docker env) img d1 of
           (Inl e, d2) \<Rightarrow> (Some e, s\<lparr>ax_world := d2\<rparr>)
         | (Inr _, d2) \<Rightarrow> (case DockerBroker.Run (ae_host env) (ae_docker env) spec d2 of
               (Inl e, d3) \<Rightarrow> (Some e, s\<lparr>ax_world := d3\<rparr>)
             | (Inr _, d3) \<Rightarrow> (None, s\<lparr>ax_world := d3\<rparr>)))"

definition stop_forwarder :: "'d api_env \<Rightarrow> string \<Rightarrow> string \<Rightarrow> 'd api_state \<Rightarrow> api_reply \<times> 'd api_state" where
  "stop_forwarder env name scope s =
     (Exposed False '''' '''' '''', api_audit env (exposure_event ''disabled'' scope '''')
        (s\<lparr>ax_world := snd (DockerBroker.Remove (ae_docker env) name (ax_world s))\<rparr>))"

definition gatewayLanSet :: "'d api_env \<Rightarrow> string \<Rightarrow> bool option \<Rightarrow> 'd api_state \<Rightarrow> api_reply \<times> 'd api_state" where
  "gatewayLanSet env action enable s =
     (if action \<noteq> ''gateway-lan'' then (ApiError 403 ''explicit local-network access confirmation required'', s)
      else case enable of
        None \<Rightarrow> (ApiError 400 ''bad request'', s)
      | Some False \<Rightarrow> stop_forwarder env gatewayLanName ''lan'' s
      | Some True \<Rightarrow>
          if keys_of s = [] then (ApiError 409 ''create a scoped API key before enabling network access'', s)
          else if ae_ip env = '''' then (ApiError 500 ''could not detect this machine's network address'', s)
          else (let img = infraImage env ''socat'' SocatImage; ip = ae_ip env; port = ic_Port (contract_of s)
            in case start_forwarder env gatewayLanName img (gatewayLANSpec img ip port) s of
                 (Some e, s1) \<Rightarrow> (DockerFailed e, s1)
               | (None, s1) \<Rightarrow> (Exposed True ip (lanURL True ip port) (agentLanURL True ip port),
                    api_audit env (exposure_event ''enabled'' ''lan'' ip) s1)))"

definition gatewayTailnetSet :: "'d api_env \<Rightarrow> string \<Rightarrow> bool option \<Rightarrow> 'd api_state \<Rightarrow> api_reply \<times> 'd api_state" where
  "gatewayTailnetSet env action enable0 s =
     (if action \<noteq> ''gateway-tailnet'' then (ApiError 403 ''explicit Tailnet API access confirmation required'', s)
      else case enable0 of
        None \<Rightarrow> (ApiError 400 ''bad request'', s)
      | Some enable \<Rightarrow>
          if \<not> ae_tailscale env then (ApiError 503 ''Tailscale is unavailable'', s)
          else if enable \<and> keys_of s = [] then (ApiError 409 ''create a scoped API key before enabling Tailnet access'', s)
          else (case api_world (TailscaleStatus (ae_installed env) (ae_ts_decoder env) (ae_tool env)) s of
            (st, s1) \<Rightarrow>
              if enable \<and> (\<not> ts_Installed st \<or> \<not> ts_Connected st)
              then (ApiError 409 ''connect Tailscale before enabling Tailnet API access'', s1)
              else (let port = ic_Port (contract_of s1); ip = tailscaleIPv4 (ts_IPs st)
                in case api_world (SetAPIServe (ae_tool env) enable port) s1 of
                     (Some e, s2) \<Rightarrow> (TailscaleFailed e, s2)
                   | (None, s2) \<Rightarrow> (Exposed enable ip (tailnetURL enable ip port ''/v1'') (tailnetURL enable ip port ''/agent/v1''),
                        api_audit env (exposure_event (if enable then ''enabled'' else ''disabled'') ''tailnet'' ip) s2))))"

text \<open>The wait for the public address: \<open>n\<close> polls are left after this one.\<close>

fun poll_tunnel :: "'d daemon \<Rightarrow> nat \<Rightarrow> 'd \<Rightarrow> string \<times> 'd" where
  "poll_tunnel ex n d = (case tunnelURL ex gatewayTunnelName d of
       (url, d1) \<Rightarrow> if url \<noteq> '''' then (url, d1) else (case n of 0 \<Rightarrow> ('''', d1) | Suc m \<Rightarrow> poll_tunnel ex m d1))"

declare poll_tunnel.simps [simp del]

definition gatewayTunnelSet :: "'d api_env \<Rightarrow> string \<Rightarrow> bool option \<Rightarrow> 'd api_state \<Rightarrow> api_reply \<times> 'd api_state" where
  "gatewayTunnelSet env action enable s =
     (if action \<noteq> ''gateway-public'' then (ApiError 403 ''explicit public-access confirmation required'', s)
      else case enable of
        None \<Rightarrow> (ApiError 400 ''bad request'', s)
      | Some False \<Rightarrow> stop_forwarder env gatewayTunnelName ''public'' s
      | Some True \<Rightarrow>
          if keys_of s = [] then (ApiError 409 ''create a scoped API key before enabling public access'', s)
          else (let img = infraImage env ''cloudflared'' CloudflaredImage
            in case start_forwarder env gatewayTunnelName img (gatewayTunnelSpec img (ic_Port (contract_of s))) s of
                 (Some e, s1) \<Rightarrow> (DockerFailed e, s1)
               | (None, s1) \<Rightarrow>
                   (let s2 = api_audit env (exposure_event ''enabled'' ''public'' '''') s1
                    in case api_world (poll_tunnel (ae_docker env) (ae_polls env)) s2 of
                         (url, s3) \<Rightarrow> (if url = '''' then TunnelPending
                                     else Exposed True url (appendURLPath url ''/v1'') (appendURLPath url ''/agent/v1''), s3))))"


subsection \<open>The view\<close>

record keyView =
  kv_ID :: string
  kv_Name :: string
  kv_Prefix :: string
  kv_Created :: string
  kv_LastUsed :: string
  kv_Requests :: int
  kv_Successes :: int
  kv_Failures :: int
  kv_PromptTokens :: int
  kv_CompletionTokens :: int
  kv_TotalTokens :: int
  kv_Scope :: string
  kv_ModelRequests :: int
  kv_AgentRequests :: int

definition key_view :: "APIKey \<Rightarrow> keyView" where
  "key_view k = \<lparr>kv_ID = ak_ID k, kv_Name = ak_Name k, kv_Prefix = ak_Prefix k, kv_Created = ak_Created k,
     kv_LastUsed = ak_LastUsed k, kv_Requests = ak_Requests k, kv_Successes = ak_Successes k, kv_Failures = ak_Failures k,
     kv_PromptTokens = ak_PromptTokens k, kv_CompletionTokens = ak_CompletionTokens k,
     kv_TotalTokens = wrap64 (ak_PromptTokens k + ak_CompletionTokens k), kv_Scope = NormalizeAPIKeyScope (ak_Scope k),
     kv_ModelRequests = ak_ModelRequests k, kv_AgentRequests = ak_AgentRequests k\<rparr>"

record gateway_view =
  gv_port :: int
  gv_servedName :: string
  gv_model :: string
  gv_localURL :: string
  gv_agentURL :: string
  gv_keys :: "keyView list"
  gv_lan :: "bool \<times> string \<times> string \<times> string"
  gv_tailnet :: "(bool \<times> bool \<times> string \<times> string) \<times> string \<times> string"
  gv_tunnel :: "bool \<times> string \<times> string \<times> string"

definition gatewayGet :: "'d api_env \<Rightarrow> 'd api_state \<Rightarrow> gateway_view \<times> 'd api_state" where
  "gatewayGet env s =
     (let ex = ae_docker env; ip = ae_ip env; contract = contract_of s; port = ic_Port contract in
      case FindContainer (ae_decoder env) ex gatewayLanName (ax_world s) of (lan, d1) \<Rightarrow>
      case FindContainer (ae_decoder env) ex gatewayTunnelName d1 of (tunnel, d2) \<Rightarrow>
      let lanOn = is_running lan; tunOn = is_running tunnel in
      case (if tunOn then tunnelURL ex gatewayTunnelName d2 else ('''', d2)) of (tunURL, d3) \<Rightarrow>
      case (if ae_tailscale env then TailscaleStatus (ae_installed env) (ae_ts_decoder env) (ae_tool env) d3
            else (zero_TailStatus, d3)) of (st, d4) \<Rightarrow>
      let tailOn = ts_Connected st \<and> ServesTCP st port; tailIP = tailscaleIPv4 (ts_IPs st);
          urls = gatewayClientURLs lanOn ip port; model = s_Model (State_Get (gw_state (ax_gateway s)))
      in (\<lparr>gv_port = port, gv_servedName = ic_ModelAlias contract, gv_model = (if model = '''' then ae_default_model env else model),
            gv_localURL = fst urls, gv_agentURL = snd urls, gv_keys = map key_view (keys_of s),
            gv_lan = (lanOn, ip, lanURL lanOn ip port, agentLanURL lanOn ip port),
            gv_tailnet = ((ts_Connected st, tailOn, tailIP, ts_DNSName st), tailnetURL tailOn tailIP port ''/v1'', tailnetURL tailOn tailIP port ''/agent/v1''),
            gv_tunnel = (tunOn, tunURL, appendURLPath tunURL ''/v1'', appendURLPath tunURL ''/agent/v1'')\<rparr>, s\<lparr>ax_world := d4\<rparr>))"

text \<open>The events shown, or the error of reading them.\<close>

definition securityAuditGet :: "(string \<Rightarrow> Event option) \<Rightarrow> 'd api_state \<Rightarrow> Event list option" where
  "securityAuditGet decode s = Latest decode 100 (gw_audit (ax_gateway s))"

end
