(* ===== verification/GatewayRate.thy ===== *)
theory GatewayRate
  imports Gateway
begin

text \<open>What the token buckets of the gateway promise, with the rounding of \<open>float64\<close> accounted for.\<close>

subsection \<open>One bucket\<close>

definition ulp :: rat where "ulp = 1 / 2 ^ 53"

lemma ulp_pos [simp]: "0 < ulp" "0 \<le> ulp"
  by (simp_all add: ulp_def)

lemma f64_upper_ulp: "0 \<le> x \<Longrightarrow> f64 x \<le> (1 + ulp) * x"
  using f64_upper [of x] by (simp add: ulp_def algebra_simps)

lemma f64_upper_scaled: "0 \<le> x \<Longrightarrow> x \<le> c * y \<Longrightarrow> f64 x \<le> (1 + ulp) * c * y"
proof -
  assume x: "0 \<le> x" "x \<le> c * y"
  have "f64 x \<le> (1 + ulp) * x" by (rule f64_upper_ulp [OF x(1)])
  also have "\<dots> \<le> (1 + ulp) * (c * y)" using x(2) by (intro mult_left_mono) simp_all
  finally show ?thesis by (simp add: mult.assoc)
qed

lemma seconds_f64_nonneg: "0 \<le> d \<Longrightarrow> 0 \<le> seconds_f64 d"
  by (simp add: seconds_f64_def Let_def f64_nonneg)

lemma seconds_f64_upper:
  assumes "0 \<le> d" shows "seconds_f64 d \<le> (1 + ulp) ^ 2 * (of_int d / 10 ^ 9)"
proof -
  let ?s = "of_int (d div 1000000000) :: rat" and ?n = "of_int (d mod 1000000000) / 1000000000 :: rat"
  have sn: "0 \<le> ?s" "0 \<le> ?n" using assms by (simp_all add: pos_imp_zdiv_nonneg_iff)
  have "of_int (1000000000 * (d div 1000000000) + d mod 1000000000) = (of_int d :: rat)" by (simp only: mult_div_mod_eq)
  then have "1000000000 * ?s + of_int (d mod 1000000000) = (of_int d :: rat)" by (simp only: of_int_add of_int_mult of_int_numeral)
  then have sum: "?s + ?n = of_int d / 10 ^ 9" by simp
  have "f64 ?s + f64 ?n \<le> (1 + ulp) * ?s + (1 + ulp) * ?n" by (intro add_mono f64_upper_ulp sn)
  also have "\<dots> = (1 + ulp) * (of_int d / 10 ^ 9)" by (simp only: sum flip: distrib_left)
  finally have "f64 (f64 ?s + f64 ?n) \<le> (1 + ulp) * (1 + ulp) * (of_int d / 10 ^ 9)"
    using sn by (intro f64_upper_scaled) (simp_all add: f64_nonneg)
  then show ?thesis using assms by (simp add: seconds_f64_def Let_def power2_eq_square)
qed

lemma time_sub_bounds: "u \<le> t \<Longrightarrow> 0 \<le> time_sub t u \<and> time_sub t u \<le> t - u"
  by (simp add: time_sub_def min_int64_def max_int64_def)

definition refill :: "gatewayRateLimiter \<Rightarrow> int \<Rightarrow> rat" where
  "refill l d = f64 (f64 (seconds_f64 d * rl_rate l) / 60)"

lemma refill_bounds:
  assumes "0 \<le> d" "0 \<le> rl_rate l"
  shows "0 \<le> refill l d" "refill l d \<le> (1 + ulp) ^ 4 * (rl_rate l / 60 * (of_int d / 10 ^ 9))"
proof -
  have s: "0 \<le> seconds_f64 d" by (rule seconds_f64_nonneg [OF assms(1)])
  then show "0 \<le> refill l d" using assms(2) by (simp add: refill_def f64_nonneg)
  have "seconds_f64 d * rl_rate l \<le> (1 + ulp) ^ 2 * (of_int d / 10 ^ 9 * rl_rate l)"
    using mult_right_mono [OF seconds_f64_upper [OF assms(1)] assms(2)] by (simp add: mult.assoc)
  then have "f64 (seconds_f64 d * rl_rate l) \<le> (1 + ulp) * (1 + ulp) ^ 2 * (of_int d / 10 ^ 9 * rl_rate l)"
    using s assms(2) by (intro f64_upper_scaled) simp_all
  then have "f64 (seconds_f64 d * rl_rate l) / 60 \<le> (1 + ulp) ^ 3 * (of_int d / 10 ^ 9 * rl_rate l) / 60"
    by (simp add: power3_eq_cube power2_eq_square divide_right_mono)
  then have "f64 (seconds_f64 d * rl_rate l) / 60 \<le> (1 + ulp) ^ 3 * (rl_rate l / 60 * (of_int d / 10 ^ 9))"
    by (simp add: ac_simps)
  then have "refill l d \<le> (1 + ulp) * (1 + ulp) ^ 3 * (rl_rate l / 60 * (of_int d / 10 ^ 9))"
    unfolding refill_def using s assms(2) by (intro f64_upper_scaled) (simp_all add: f64_nonneg)
  then show "refill l d \<le> (1 + ulp) ^ 4 * (rl_rate l / 60 * (of_int d / 10 ^ 9))" by (simp add: numeral_eq_Suc mult.assoc)
qed

lemma capped_upper:
  assumes "0 \<le> y" "0 \<le> (b :: rat)" shows "min b (f64 y) \<le> y + 2 * ulp * b"
proof (cases "y \<le> 2 * b")
  case True
  have "f64 y \<le> y + ulp * y" using f64_upper_ulp [OF assms(1)] by (simp add: algebra_simps)
  also have "\<dots> \<le> y + ulp * (2 * b)" using True by (intro add_left_mono mult_left_mono) simp_all
  finally show ?thesis by simp
next
  case False
  moreover have "min b (f64 y) \<le> b" by simp
  moreover have "0 \<le> 2 * ulp * b" using assms(2) by simp
  ultimately show ?thesis using assms(2) False by linarith
qed


subsection \<open>The limiter\<close>

definition bucket_ok :: "gatewayRateLimiter \<Rightarrow> int \<Rightarrow> gatewayRateBucket \<Rightarrow> bool" where
  "bucket_ok l now b \<longleftrightarrow> 0 \<le> rb_tokens b \<and> rb_tokens b \<le> rl_burst l \<and> rb_at b \<le> now"

definition limiter_ok :: "int \<Rightarrow> gatewayRateLimiter \<Rightarrow> bool" where
  "limiter_ok now l \<longleftrightarrow> 0 \<le> rl_rate l \<and> 1 \<le> rl_burst l \<and> rl_burst l \<le> 2 ^ 53 \<and>
     (\<forall>k b. lookup (rl_buckets l) k = Some b \<longrightarrow> bucket_ok l now b)"

text \<open>What is refilled in some time, with the rounding of four operations.\<close>

definition gain :: "gatewayRateLimiter \<Rightarrow> int \<Rightarrow> rat" where
  "gain l d = (1 + ulp) ^ 4 * (rl_rate l / 60 * (of_int d / 10 ^ 9))"

lemma gain_mono: "0 \<le> rl_rate l \<Longrightarrow> d \<le> d' \<Longrightarrow> gain l d \<le> gain l d'"
  unfolding gain_def by (intro mult_left_mono divide_right_mono) simp_all

lemma gain_add: "gain l (d + d') = gain l d + gain l d'"
  by (simp add: gain_def algebra_simps add_divide_distrib)

lemma gain_nonneg: "0 \<le> rl_rate l \<Longrightarrow> 0 \<le> d \<Longrightarrow> 0 \<le> gain l d"
  using gain_mono [of l 0 d] by (simp add: gain_def)

lemma limiter_ok_later: "limiter_ok t l \<Longrightarrow> t \<le> now \<Longrightarrow> limiter_ok now l"
  by (fastforce simp: limiter_ok_def bucket_ok_def)

lemma bucket_of_ok: "limiter_ok now l \<Longrightarrow> bucket_ok l now (bucket_of l key now)"
  by (auto simp: limiter_ok_def bucket_ok_def bucket_of_def split: option.splits)

lemma refilled_bounds:
  assumes "limiter_ok now l" "bucket_ok l now b"
  shows "0 \<le> refilled l b now" "refilled l b now \<le> rl_burst l"
    "refilled l b now \<le> rb_tokens b + gain l (now - rb_at b) + 2 * ulp * rl_burst l"
proof -
  let ?d = "time_sub now (rb_at b)"
  have d: "0 \<le> ?d" "?d \<le> now - rb_at b" using assms(2) time_sub_bounds by (auto simp: bucket_ok_def)
  have r: "0 \<le> rl_rate l" "0 \<le> rl_burst l" using assms(1) by (auto simp: limiter_ok_def)
  have f: "0 \<le> refill l ?d" "refill l ?d \<le> gain l ?d" using refill_bounds [OF d(1) r(1)] by (simp_all add: gain_def)
  have t: "0 \<le> rb_tokens b" using assms(2) by (simp add: bucket_ok_def)
  have e: "refilled l b now = min (rl_burst l) (f64 (rb_tokens b + refill l ?d))" by (simp add: refilled_def refill_def)
  show "0 \<le> refilled l b now" using r f t by (simp add: e f64_nonneg)
  show "refilled l b now \<le> rl_burst l" by (simp add: e)
  have "refilled l b now \<le> rb_tokens b + refill l ?d + 2 * ulp * rl_burst l"
    unfolding e by (rule capped_upper) (use t f r in simp_all)
  with f(2) gain_mono [OF r(1) d(2)] show "refilled l b now \<le> rb_tokens b + gain l (now - rb_at b) + 2 * ulp * rl_burst l" by linarith
qed

text \<open>One call: what is left, and what the call and the rest cost.\<close>

lemma allow_cases:
  assumes "limiter_ok now l"
  obtains (admitted) t where "allow now key l = ((True, 0), l\<lparr>rl_buckets := put key \<lparr>rb_tokens = t, rb_at = now\<rparr> (rl_buckets l)\<rparr>)"
      "1 + t \<le> refilled l (bucket_of l key now) now + ulp * rl_burst l" "0 \<le> t" "t \<le> rl_burst l"
    | (denied) t where "allow now key l = ((False, retry_after l t), l\<lparr>rl_buckets := put key \<lparr>rb_tokens = t, rb_at = now\<rparr> (rl_buckets l)\<rparr>)"
      "t = refilled l (bucket_of l key now) now" "t < 1"
proof (cases "refilled l (bucket_of l key now) now < 1")
  case True
  then show ?thesis by (intro denied [of "refilled l (bucket_of l key now) now"]) (simp_all add: allow_def Let_def)
next
  case False
  let ?r = "refilled l (bucket_of l key now) now"
  have b: "?r \<le> rl_burst l" by (rule refilled_bounds(2) [OF assms bucket_of_ok [OF assms]])
  have "ulp * (?r - 1) \<le> ulp * rl_burst l" using b by (intro mult_left_mono) simp_all
  then have u: "f64 (?r - 1) \<le> ?r - 1 + ulp * rl_burst l"
    using f64_upper_ulp [of "?r - 1"] False by (simp add: algebra_simps)
  have "ulp * rl_burst l \<le> ulp * 2 ^ 53" using assms by (intro mult_left_mono) (simp_all add: limiter_ok_def)
  then have "ulp * rl_burst l \<le> 1" by (simp add: ulp_def)
  then show ?thesis using False b u
    by (intro admitted [of "f64 (?r - 1)"]) (simp_all add: allow_def Let_def f64_nonneg)
qed

lemma allow_ok:
  assumes "limiter_ok t l" "t \<le> now"
  shows "limiter_ok now (snd (allow now key l))" "rl_rate (snd (allow now key l)) = rl_rate l" "rl_burst (snd (allow now key l)) = rl_burst l"
proof -
  have ok: "limiter_ok now l" by (rule limiter_ok_later [OF assms])
  have b: "bucket_ok l now \<lparr>rb_tokens = v, rb_at = now\<rparr> \<longleftrightarrow> 0 \<le> v \<and> v \<le> rl_burst l" for v by (simp add: bucket_ok_def)
  have put: "limiter_ok now (l\<lparr>rl_buckets := put key \<lparr>rb_tokens = v, rb_at = now\<rparr> (rl_buckets l)\<rparr>)" if "0 \<le> v" "v \<le> rl_burst l" for v
    using ok that by (auto simp: limiter_ok_def bucket_ok_def)
  have "limiter_ok now (snd (allow now key l)) \<and> rl_rate (snd (allow now key l)) = rl_rate l \<and> rl_burst (snd (allow now key l)) = rl_burst l"
    by (rule allow_cases [OF ok, of key]) (use put refilled_bounds [OF ok bucket_of_ok [OF ok]] in auto)
  then show "limiter_ok now (snd (allow now key l))" "rl_rate (snd (allow now key l)) = rl_rate l" "rl_burst (snd (allow now key l)) = rl_burst l"
    by blast+
qed


subsection \<open>Histories\<close>

text \<open>Calls with their time and key; how many of one key are admitted.\<close>

fun after :: "(int \<times> string) list \<Rightarrow> gatewayRateLimiter \<Rightarrow> gatewayRateLimiter" where
  "after [] l = l"
| "after ((now, key) # cs) l = after cs (snd (allow now key l))"

fun admissions :: "string \<Rightarrow> (int \<times> string) list \<Rightarrow> gatewayRateLimiter \<Rightarrow> nat" where
  "admissions k [] l = 0"
| "admissions k ((now, key) # cs) l =
     (if key = k \<and> fst (fst (allow now key l)) then 1 else 0) + admissions k cs (snd (allow now key l))"

lemma after_ok:
  "limiter_ok t l \<Longrightarrow> sorted (t # map fst cs) \<Longrightarrow> t' = last (t # map fst cs) \<Longrightarrow>
   limiter_ok t' (after cs l) \<and> rl_rate (after cs l) = rl_rate l \<and> rl_burst (after cs l) = rl_burst l"
proof (induction cs arbitrary: t l)
  case (Cons c cs)
  obtain now key where c: "c = (now, key)" by (cases c)
  from Cons.prems c have "t \<le> now" by simp
  note ok = allow_ok [OF Cons.prems(1) this, of key]
  have "limiter_ok t' (after cs (snd (allow now key l))) \<and> rl_rate (after cs (snd (allow now key l))) = rl_rate (snd (allow now key l)) \<and>
    rl_burst (after cs (snd (allow now key l))) = rl_burst (snd (allow now key l))"
    by (rule Cons.IH [OF ok(1)]) (use Cons.prems c in auto)
  with ok c show ?case by simp
qed simp

definition cost :: "gatewayRateLimiter \<Rightarrow> rat" where
  "cost l = 3 * ulp * rl_burst l"

text \<open>From a bucket that is there.\<close>

lemma admissions_from:
  assumes "limiter_ok t l" "sorted (t # map fst cs)" "\<forall>c \<in> set cs. fst c \<le> stop" "t \<le> stop"
    "lookup (rl_buckets l) k = Some b"
  shows "of_nat (admissions k cs l) \<le> rb_tokens b + gain l (stop - rb_at b) + of_nat (length cs) * cost l"
  using assms
proof (induction cs arbitrary: t l b)
  case Nil
  then have "bucket_ok l t b" "0 \<le> rl_rate l" by (auto simp: limiter_ok_def)
  with Nil.prems(4) gain_nonneg [of l "stop - rb_at b"] show ?case by (simp add: bucket_ok_def)
next
  case (Cons c cs)
  obtain now key where c: "c = (now, key)" by (cases c)
  from Cons.prems c have now: "t \<le> now" "now \<le> stop" "sorted (now # map fst cs)" by auto
  have ok: "limiter_ok now l" by (rule limiter_ok_later [OF Cons.prems(1) now(1)])
  let ?l = "snd (allow now key l)"
  note l' = allow_ok [OF ok order_refl, of key]
  have same: "gain ?l d = gain l d" "cost ?l = cost l" for d using l' by (simp_all add: gain_def cost_def)
  have burst: "0 \<le> ulp * rl_burst l" using ok by (simp add: limiter_ok_def)
  have rest: "of_nat (admissions k cs ?l) \<le> rb_tokens b' + gain l (stop - rb_at b') + of_nat (length cs) * cost l"
    if "lookup (rl_buckets ?l) k = Some b'" for b'
    unfolding same [symmetric] by (rule Cons.IH [OF l'(1) now(3) _ now(2) that]) (use Cons.prems in simp)
  show ?case
  proof (cases "key = k")
    case False
    have "lookup (rl_buckets ?l) k = Some b" by (rule allow_cases [OF ok, of key]) (use Cons.prems False in auto)
    from rest [OF this] False c burst show ?thesis by (simp add: algebra_simps cost_def)
  next
    case True
    have b: "bucket_of l key now = b" "bucket_ok l now b" using Cons.prems True ok by (auto simp: bucket_of_def limiter_ok_def)
    have r: "refilled l b now \<le> rb_tokens b + gain l (now - rb_at b) + 2 * ulp * rl_burst l"
      by (rule refilled_bounds(3) [OF ok b(2)])
    have g: "gain l (stop - rb_at b) = gain l (stop - now) + gain l (now - rb_at b)" using gain_add [of l "stop - now" "now - rb_at b"] by simp
    show ?thesis
    proof (cases rule: allow_cases [OF ok, of key])
      case (1 v)
      have "lookup (rl_buckets ?l) k = Some \<lparr>rb_tokens = v, rb_at = now\<rparr>" using 1 True by simp
      from rest [OF this] r g 1 b True c show ?thesis by (simp add: cost_def algebra_simps)
    next
      case (2 v)
      have "lookup (rl_buckets ?l) k = Some \<lparr>rb_tokens = v, rb_at = now\<rparr>" using 2 True by simp
      from rest [OF this] r g 2 b True c burst show ?thesis by (simp add: cost_def algebra_simps)
    qed
  qed
qed

text \<open>In a window that starts anywhere: the burst, what is refilled, and the rounding.\<close>

lemma admissions_window:
  assumes "limiter_ok t l" "sorted (t # map fst cs)" "\<forall>c \<in> set cs. start \<le> fst c \<and> fst c \<le> stop" "start \<le> stop"
  shows "of_nat (admissions k cs l) \<le> rl_burst l + gain l (stop - start) + of_nat (length cs) * cost l"
  using assms
proof (induction cs arbitrary: t l)
  case Nil
  then show ?case using gain_nonneg [of l "stop - start"] by (simp add: limiter_ok_def)
next
  case (Cons c cs)
  obtain now key where c: "c = (now, key)" by (cases c)
  from Cons.prems c have now: "t \<le> now" "now \<le> stop" "start \<le> now" "sorted (now # map fst cs)" by auto
  have ok: "limiter_ok now l" by (rule limiter_ok_later [OF Cons.prems(1) now(1)])
  let ?l = "snd (allow now key l)"
  note l' = allow_ok [OF ok order_refl, of key]
  have same: "gain ?l d = gain l d" "cost ?l = cost l" for d using l' by (simp_all add: gain_def cost_def)
  have burst: "0 \<le> ulp * rl_burst l" using ok by (simp add: limiter_ok_def)
  show ?case
  proof (cases "key = k")
    case False
    have "of_nat (admissions k cs ?l) \<le> rl_burst ?l + gain ?l (stop - start) + of_nat (length cs) * cost ?l"
      by (rule Cons.IH [OF l'(1) now(4)]) (use Cons.prems in auto)
    with same l'(3) False c burst show ?thesis by (simp add: algebra_simps cost_def)
  next
    case True
    have r: "refilled l (bucket_of l key now) now \<le> rl_burst l" by (rule refilled_bounds(2) [OF ok bucket_of_ok [OF ok]])
    have g: "gain l (stop - now) \<le> gain l (stop - start)" using ok now(3) by (intro gain_mono) (simp_all add: limiter_ok_def)
    have rest: "of_nat (admissions k cs ?l) \<le> rb_tokens b' + gain l (stop - rb_at b') + of_nat (length cs) * cost l"
      if "lookup (rl_buckets ?l) k = Some b'" for b'
      unfolding same [symmetric] by (rule admissions_from [OF l'(1) now(4) _ now(2) that]) (use Cons.prems in simp)
    show ?thesis
    proof (cases rule: allow_cases [OF ok, of key])
      case (1 v)
      have "lookup (rl_buckets ?l) k = Some \<lparr>rb_tokens = v, rb_at = now\<rparr>" using 1 True by simp
      moreover have "ulp * rl_burst l \<le> cost l" using ok by (simp add: cost_def limiter_ok_def mult.assoc)
      ultimately show ?thesis using rest r g 1 True c by (fastforce simp: algebra_simps)
    next
      case (2 v)
      have "lookup (rl_buckets ?l) k = Some \<lparr>rb_tokens = v, rb_at = now\<rparr>" using 2 True by simp
      from rest [OF this] r g 2 True c burst show ?thesis by (simp add: cost_def algebra_simps)
    qed
  qed
qed


subsection \<open>The limiters of the gateway\<close>

definition admissible_limits :: "int \<Rightarrow> int \<Rightarrow> bool" where
  "admissible_limits rpm burst \<longleftrightarrow> 60 \<le> rpm \<and> rpm \<le> 120 \<and> 1 \<le> burst \<and> burst \<le> 30"

lemma new_limiter:
  assumes "admissible_limits rpm burst"
  shows "rl_rate (newGatewayRateLimiterWith rpm burst) = of_int rpm" "rl_burst (newGatewayRateLimiterWith rpm burst) = of_int burst"
    "limiter_ok t (newGatewayRateLimiterWith rpm burst)"
proof -
  have e: "f64 (of_int rpm) = of_int rpm" "f64 (of_int burst) = of_int burst"
    using assms by (auto intro!: f64_int simp: admissible_limits_def)
  then show "rl_rate (newGatewayRateLimiterWith rpm burst) = of_int rpm" "rl_burst (newGatewayRateLimiterWith rpm burst) = of_int burst"
    by (simp_all add: newGatewayRateLimiterWith_def)
  have "(1 :: rat) \<le> of_int burst" "(of_int burst :: rat) \<le> 30" "(0 :: rat) \<le> of_int rpm" using assms by (simp_all add: admissible_limits_def)
  with e show "limiter_ok t (newGatewayRateLimiterWith rpm burst)"
    by (simp add: newGatewayRateLimiterWith_def limiter_ok_def)
qed

lemma after_new:
  assumes "admissible_limits rpm burst" "sorted (map fst cs @ [t])"
  shows "limiter_ok t (after cs (newGatewayRateLimiterWith rpm burst))"
    "rl_rate (after cs (newGatewayRateLimiterWith rpm burst)) = of_int rpm"
    "rl_burst (after cs (newGatewayRateLimiterWith rpm burst)) = of_int burst"
proof -
  let ?l = "newGatewayRateLimiterWith rpm burst" and ?t = "hd (map fst cs @ [t])"
  have s: "sorted (?t # map fst cs) \<and> last (?t # map fst cs) \<le> t"
  proof (cases cs)
    case (Cons c cs')
    have "fst c \<le> t" "\<forall>x \<in> set cs'. fst x \<le> t" "sorted (fst c # map fst cs')" using assms(2) Cons by (auto simp: sorted_append)
    then show ?thesis using Cons last_in_set [of "map fst cs'"] by (cases "cs' = []") auto
  qed simp
  have "limiter_ok (last (?t # map fst cs)) (after cs ?l) \<and> rl_rate (after cs ?l) = rl_rate ?l \<and> rl_burst (after cs ?l) = rl_burst ?l"
    by (rule after_ok [OF new_limiter(3) [OF assms(1)] conjunct1 [OF s] refl])
  with conjunct2 [OF s] new_limiter(1,2) [OF assms(1)] show "limiter_ok t (after cs ?l)" "rl_rate (after cs ?l) = of_int rpm" "rl_burst (after cs ?l) = of_int burst"
    using limiter_ok_later by auto
qed

text \<open>C19: whatever was called before, in every window of time a key is admitted at most for its burst, what its rate refills in
  the window and a hundredth of a request of rounding, for windows up to \<open>10 ^ 9\<close> seconds with up to \<open>10 ^ 11\<close> calls.\<close>

theorem gateway_rate_bound:
  assumes "admissible_limits rpm burst" "sorted (map fst (past @ cs))"
    "\<forall>c \<in> set cs. start \<le> fst c \<and> fst c \<le> stop" "start \<le> stop" "stop - start \<le> 10 ^ 18" "length cs \<le> 10 ^ 11"
  shows "of_nat (admissions key cs (after past (newGatewayRateLimiterWith rpm burst))) \<le>
    of_int burst + of_int rpm / 60 * (of_int (stop - start) / 10 ^ 9) + (1 / 100 :: rat)"
proof (cases cs)
  case Nil
  have "0 \<le> (of_int burst :: rat)" "0 \<le> (of_int rpm :: rat)" using assms(1) by (simp_all add: admissible_limits_def)
  moreover have "0 \<le> (of_int (stop - start) :: rat)" using assms(4) by simp
  ultimately have "0 \<le> of_int burst + of_int rpm / 60 * (of_int (stop - start) / 10 ^ 9 :: rat)" by (intro add_nonneg_nonneg mult_nonneg_nonneg) simp_all
  then show ?thesis unfolding Nil by simp
next
  case (Cons c cs')
  let ?l = "after past (newGatewayRateLimiterWith rpm burst)"
  let ?x = "of_int rpm / 60 * (of_int (stop - start) / 10 ^ 9) :: rat"
  have t: "sorted (map fst past @ [fst c])" "sorted (fst c # map fst cs)" using assms(2) Cons by (auto simp: sorted_append)
  note l = after_new [OF assms(1) t(1)]
  have w: "of_nat (admissions key cs ?l) \<le> rl_burst ?l + gain ?l (stop - start) + of_nat (length cs) * cost ?l"
    by (rule admissions_window [OF l(1) t(2) assms(3,4)])
  have r: "(of_int rpm :: rat) \<le> 120" "0 \<le> (of_int rpm :: rat)" "(of_int burst :: rat) \<le> 30" "0 \<le> (of_int burst :: rat)"
    using assms(1) by (simp_all add: admissible_limits_def)
  have d: "(of_int (stop - start) :: rat) \<le> 10 ^ 18" "0 \<le> (of_int (stop - start) :: rat)"
    using assms(4,5) of_int_le_iff [of "stop - start" "10 ^ 18", where 'a = rat] by (simp_all del: of_int_diff)
  have "?x \<le> 120 / 60 * (10 ^ 18 / 10 ^ 9)" using r d by (intro mult_mono divide_right_mono) simp_all
  then have x: "?x \<le> 2 * 10 ^ 9" by simp
  have small: "(1 + ulp) ^ 4 * y \<le> y + 1 / 1000" if "y \<le> 2 * 10 ^ 9" for y
  proof -
    have "((1 + ulp) ^ 4 - 1) * y \<le> ((1 + ulp) ^ 4 - 1) * (2 * 10 ^ 9)" using that by (intro mult_left_mono) (simp_all add: ulp_def)
    moreover have "((1 + ulp) ^ 4 - 1) * (2 * 10 ^ 9) \<le> 1 / 1000" by (simp add: ulp_def power_numeral_reduce)
    moreover have "(1 + ulp) ^ 4 * y = y + ((1 + ulp) ^ 4 - 1) * y" by (simp add: algebra_simps)
    ultimately show ?thesis by linarith
  qed
  have g: "gain ?l (stop - start) \<le> ?x + 1 / 1000" unfolding gain_def l(2) by (rule small [OF x])
  have "(of_nat (length cs) :: rat) \<le> 10 ^ 11" using assms(6) of_nat_le_iff [of "length cs" "10 ^ 11", where 'a = rat] by simp
  moreover have "cost ?l \<le> 3 * ulp * 30" "0 \<le> cost ?l" unfolding cost_def l(3) using r by (simp_all add: ulp_def)
  ultimately have "of_nat (length cs) * cost ?l \<le> 10 ^ 11 * (3 * ulp * 30)" by (intro mult_mono) simp_all
  also have "\<dots> \<le> 9 / 1000" by (simp add: ulp_def)
  finally show ?thesis using w g l(3) by simp
qed

theorem gateway_rate_bound_witness:
  "of_nat (admissions ''k'' [(0, ''k''), (5, ''j''), (10 ^ 9, ''k'')] (after [] (newGatewayRateLimiterWith 60 15))) \<le>
    (of_int 15 :: rat) + of_int 60 / 60 * (of_int (10 ^ 9 - 0) / 10 ^ 9) + 1 / 100"
  by (rule gateway_rate_bound) (simp_all add: admissible_limits_def)

text \<open>C20: a denied caller of the gateway is told to wait one second, and is admitted when it comes back after that.\<close>

theorem gateway_retry_admitted:
  assumes "admissible_limits rpm burst" "sorted (map fst past @ [now])" "allow now key (after past (newGatewayRateLimiterWith rpm burst)) = ((False, wait), l)"
    "now + wait * 10 ^ 9 \<le> later" "later < 2 ^ 62" "0 \<le> now"
  shows "wait = 1 \<and> fst (allow later key l) = (True, 0)"
proof -
  let ?l = "after past (newGatewayRateLimiterWith rpm burst)"
  note ok = after_new [OF assms(1,2)]
  obtain v where v: "allow now key ?l = ((False, retry_after ?l v), ?l\<lparr>rl_buckets := put key \<lparr>rb_tokens = v, rb_at = now\<rparr> (rl_buckets ?l)\<rparr>)"
    "v = refilled ?l (bucket_of ?l key now) now" "v < 1"
    using assms(3) by (cases rule: allow_cases [OF ok(1), of key]) auto
  have v0: "0 \<le> v" using refilled_bounds(1) [OF ok(1) bucket_of_ok [OF ok(1)]] v(2) by simp
  have r: "(60 :: rat) \<le> of_int rpm" using assms(1) by (simp add: admissible_limits_def)
  have "1 \<le> f64 (rl_rate ?l / 60)" by (rule f64_ge_1) (use r ok(2) in simp)
  moreover have "0 \<le> f64 (1 - v)" "f64 (1 - v) \<le> 1" using v0 v(3) by (simp_all add: f64_nonneg f64_le_1)
  ultimately have q: "0 \<le> f64 (1 - v) / f64 (rl_rate ?l / 60)" "f64 (1 - v) / f64 (rl_rate ?l / 60) \<le> 1"
    by (simp_all add: divide_le_eq)
  then have "retry_after ?l v = 1" using f64_le_1 [OF q] by (simp add: retry_after_def ceiling_le_iff)
  with v(1) assms(3) have w: "wait = 1" and l: "l = ?l\<lparr>rl_buckets := put key \<lparr>rb_tokens = v, rb_at = now\<rparr> (rl_buckets ?l)\<rparr>" by auto
  let ?d = "time_sub later now"
  have d: "10 ^ 9 \<le> ?d" using assms(4-6) w by (simp add: time_sub_def max_int64_def min_int64_def)
  have "1 \<le> ?d div 1000000000" using d zdiv_mono1 [of "10 ^ 9" ?d 1000000000] by simp
  then have "(1 :: rat) \<le> of_int (?d div 1000000000)" by simp
  then have a: "1 \<le> f64 (of_int (?d div 1000000000))" by (rule f64_ge_1)
  have "0 \<le> f64 (of_int (?d mod 1000000000) / 1000000000)" by (rule f64_nonneg) simp
  with a have "1 \<le> f64 (of_int (?d div 1000000000)) + f64 (of_int (?d mod 1000000000) / 1000000000)" by linarith
  then have s: "1 \<le> seconds_f64 ?d" using d f64_ge_1 by (simp add: seconds_f64_def Let_def)
  have "1 * 60 \<le> seconds_f64 ?d * rl_rate ?l" using s r ok(2) by (intro mult_mono) simp_all
  then have "of_int 60 \<le> f64 (seconds_f64 ?d * rl_rate ?l)" by (intro f64_ge_int) simp_all
  then have "1 \<le> refill ?l ?d" unfolding refill_def by (intro f64_ge_1) simp
  then have "1 \<le> f64 (v + refill ?l ?d)" using v0 by (intro f64_ge_1) simp
  moreover have "1 \<le> rl_burst ?l" using ok(1) by (simp add: limiter_ok_def)
  ultimately have "\<not> refilled l \<lparr>rb_tokens = v, rb_at = now\<rparr> later < 1" by (simp add: refilled_def refill_def l)
  moreover have "bucket_of l key later = \<lparr>rb_tokens = v, rb_at = now\<rparr>" by (simp add: bucket_of_def l)
  ultimately show ?thesis using w by (simp add: allow_def Let_def)
qed


theorem gateway_retry_admitted_witness:
  "fst (allow (10 ^ 9) ''k'' (snd (allow 0 ''k'' (after [(0, ''k'')] (newGatewayRateLimiterWith 60 1))))) = (True, 0)"
proof -
  let ?l = "after [(0, ''k'')] (newGatewayRateLimiterWith 60 1)"
  have f: "f64 1 = 1" "f64 60 = 60" using f64_int [of 1] f64_int [of 60] by simp_all
  have z: "seconds_f64 0 = 0" by (simp add: seconds_f64_def)
  have new: "newGatewayRateLimiterWith 60 1 = \<lparr>rl_buckets = [], rl_rate = 60, rl_burst = 1\<rparr>"
    by (simp add: newGatewayRateLimiterWith_def f)
  have l: "?l = \<lparr>rl_buckets = put ''k'' \<lparr>rb_tokens = 0, rb_at = 0\<rparr> [], rl_rate = 60, rl_burst = 1\<rparr>"
    by (simp add: new allow_def bucket_of_def refilled_def time_sub_def max_int64_def min_int64_def z f Let_def)
  have "fst (allow 0 ''k'' ?l) = (False, 1)"
    unfolding l by (simp add: allow_def bucket_of_def refilled_def retry_after_def time_sub_def max_int64_def min_int64_def z f Let_def)
  then have "allow 0 ''k'' ?l = ((False, 1), snd (allow 0 ''k'' ?l))" by (metis prod.collapse)
  then show ?thesis using gateway_retry_admitted [of 60 1 "[(0, ''k'')]" 0 "''k''" 1 "snd (allow 0 ''k'' ?l)" "10 ^ 9"]
    by (simp add: admissible_limits_def)
qed

end
