(* ===== verification/GatewayStream.thy ===== *)
theory GatewayStream
  imports GatewayAPI
begin

text \<open>Answers and accounting: the streamed rewriting is the rewriting of the whole body, and the recorder keeps exactly the tail.\<close>

subsection \<open>Rewriting a stream\<close>

lemma replace_split:
  assumes "c \<notin> set old" "old \<noteq> ''''"
  shows "replace_bytes old new (a @ c # b) = replace_bytes old new a @ c # replace_bytes old new b"
proof (induction a rule: length_induct)
  case (1 a)
  show ?case
  proof (cases a)
    case Nil
    have "\<not> has_prefix (c # b) old" using assms by (cases old) auto
    then show ?thesis using Nil by simp
  next
    case (Cons x a')
    show ?thesis
    proof (cases "has_prefix a old")
      case True
      then obtain t where t: "a = old @ t" by (auto simp: has_prefix_iff)
      obtain o1 os where o: "old = o1 # os" using assms(2) by (cases old) auto
      have "replace_bytes old new (a @ c # b) = new @ replace_bytes old new (t @ c # b)"
        using t o by (simp add: has_prefix_iff)
      moreover have "replace_bytes old new a = new @ replace_bytes old new t" using t o by (simp add: has_prefix_iff)
      moreover have "replace_bytes old new (t @ c # b) = replace_bytes old new t @ c # replace_bytes old new b"
        using 1 t o by simp
      ultimately show ?thesis by simp
    next
      case False
      have "\<not> has_prefix (a @ c # b) old"
      proof
        assume "has_prefix (a @ c # b) old"
        then obtain t where t: "a @ c # b = old @ t" by (auto simp: has_prefix_iff)
        with False assms(1) show False by (auto simp: append_eq_append_conv2 has_prefix_iff Cons_eq_append_conv)
      qed
      moreover have "replace_bytes old new (a' @ c # b) = replace_bytes old new a' @ c # replace_bytes old new b"
        using 1 Cons by simp
      ultimately show ?thesis using False Cons by simp
    qed
  qed
qed


lemma alias_patterns:
  "CHR 0x0A \<notin> set (json_member ''model'' servedModelName)" "json_member ''model'' servedModelName \<noteq> ''''"
  "CHR 0x0A \<notin> set (json_member ''id'' servedModelName)" "json_member ''id'' servedModelName \<noteq> ''''"
  by code_simp+

lemma alias_split: "alias_line alias (a @ CHR 0x0A # b) = alias_line alias a @ CHR 0x0A # alias_line alias b"
  by (simp only: alias_line_def replace_split alias_patterns not_False_eq_True)

lemma alias_Nil [simp]: "alias_line alias '''' = ''''"
  by (simp add: alias_line_def)

lemma alias_first_line:
  "s \<noteq> '''' \<Longrightarrow> alias_line alias s = alias_line alias (first_line s) @ alias_line alias (drop (length (first_line s)) s)"
proof (cases "CHR 0x0A \<in> set s")
  case True
  then obtain a b where s: "s = a @ CHR 0x0A # b" "CHR 0x0A \<notin> set a" by (auto dest: split_list_first)
  from s(2) have "before CHR 0x0A (a @ CHR 0x0A # b) = a" by (induction a) (auto simp: before_def)
  then have "first_line s = a @ [CHR 0x0A]" by (simp add: first_line_def s(1))
  then show ?thesis using alias_split [of _ a b] alias_split [of _ a "[]"] s(1) by simp
qed (simp add: first_line_def)

lemma replace_bytes_Nil: "new \<noteq> '''' \<Longrightarrow> replace_bytes old new s = '''' \<longleftrightarrow> s = ''''"
  by (cases s) auto

lemma alias_line_Nil: "alias_line alias s = '''' \<longleftrightarrow> s = ''''"
  by (simp add: alias_line_def replace_bytes_Nil json_member_def quote_def)

lemma first_line_Nil: "s \<noteq> '''' \<Longrightarrow> first_line s \<noteq> ''''"
  by (simp add: first_line_def)

definition undelivered :: "gatewayAliasBody \<Rightarrow> string" where
  "undelivered b = ab_pending b @ alias_line (ab_alias b) (ab_source b)"

lemma alias_read_step:
  assumes "0 < n" "alias_read n b = (r, b')"
  shows "ab_alias b' = ab_alias b \<and> (case r of None \<Rightarrow> undelivered b = '''' | Some chunk \<Rightarrow> chunk \<noteq> '''' \<and> undelivered b = chunk @ undelivered b')"
proof (cases "ab_pending b = '''' \<and> ab_source b \<noteq> ''''")
  case True
  let ?line = "alias_line (ab_alias b) (first_line (ab_source b))"
  have "?line \<noteq> ''''" using True by (simp add: alias_line_Nil first_line_Nil)
  moreover have "undelivered b = ?line @ alias_line (ab_alias b) (drop (length (first_line (ab_source b))) (ab_source b))"
    using True alias_first_line by (simp add: undelivered_def)
  ultimately show ?thesis using True assms by (auto simp: alias_read_def Let_def undelivered_def split: if_splits)
next
  case False
  then show ?thesis using assms by (auto simp: alias_read_def Let_def undelivered_def split: if_splits)
qed

text \<open>Read with these buffer sizes until the end of the stream; \<open>fuel\<close> bounds the number of reads.\<close>

fun read_all :: "(nat \<Rightarrow> nat) \<Rightarrow> nat \<Rightarrow> gatewayAliasBody \<Rightarrow> string option" where
  "read_all sizes 0 b = None"
| "read_all sizes (Suc fuel) b =
     (case alias_read (Suc (sizes fuel)) b of
        (None, _) \<Rightarrow> Some ''''
      | (Some chunk, b') \<Rightarrow> map_option ((@) chunk) (read_all sizes fuel b'))"

lemma read_all_delivers: "length (undelivered b) < fuel \<Longrightarrow> read_all sizes fuel b = Some (undelivered b)"
proof (induction fuel arbitrary: b)
  case (Suc fuel)
  obtain r b' where r: "alias_read (Suc (sizes fuel)) b = (r, b')" by (cases "alias_read (Suc (sizes fuel)) b")
  from alias_read_step [OF _ r] have s: "case r of None \<Rightarrow> undelivered b = '''' | Some chunk \<Rightarrow> chunk \<noteq> '''' \<and> undelivered b = chunk @ undelivered b'"
    by simp
  show ?case
  proof (cases r)
    case (Some chunk)
    with s have u: "chunk \<noteq> ''''" "undelivered b = chunk @ undelivered b'" by simp_all
    then have "0 < length chunk" by simp
    with u Suc.prems have "length (undelivered b') < fuel" by (simp del: length_greater_0_conv)
    from Suc.IH [OF this] u Some show ?thesis by (simp add: r)
  qed (use s in \<open>simp add: r\<close>)
qed simp

text \<open>Whatever buffers a client reads a streamed answer with, it gets, within as many reads as bytes and one, the whole body
  with each mention of the private model replaced by the alias, and nothing else.\<close>

theorem alias_stream_complete:
  "read_all sizes (Suc (length (alias_line nm body))) \<lparr>ab_pending = '''', ab_source = body, ab_alias = nm\<rparr> =
   Some (alias_line nm body)"
  using read_all_delivers [of "\<lparr>ab_pending = '''', ab_source = body, ab_alias = nm\<rparr>" "Suc (length (alias_line nm body))" sizes]
  by (simp add: undelivered_def del: read_all.simps)

subsection \<open>Accounting\<close>

definition writes :: "rec_op list \<Rightarrow> string" where
  "writes ops = concat (List.map_filter (\<lambda>r. case r of RecWrite b \<Rightarrow> Some b | _ \<Rightarrow> None) ops)"

definition tail :: "nat \<Rightarrow> string \<Rightarrow> string" where
  "tail n s = drop (length s - n) s"

lemma tail_append:
  "tail n (s @ b) = (if n \<le> length b then drop (length b - n) b else drop (length (tail n s) + length b - n) (tail n s) @ b)"
proof (cases "n \<le> length b")
  case False
  show ?thesis
  proof (cases "n \<le> length s")
    case True
    with False show ?thesis by (simp add: tail_def) (simp add: add.commute)
  qed (use False in \<open>simp add: tail_def\<close>)
qed (simp add: tail_def)

lemma capture_fold:
  "sr_capture r = tail limit past \<Longrightarrow> sr_capture (fold (rec_step limit) ops r) = tail limit (past @ writes ops)"
proof (induction ops arbitrary: r past)
  case Nil
  then show ?case by (simp add: writes_def List.map_filter_simps)
next
  case (Cons p ops)
  have "sr_capture (rec_step limit p r) = tail limit (past @ writes [p])"
    using Cons.prems by (cases p) (simp_all add: rec_step_def writes_def List.map_filter_simps tail_append Let_def)
  from Cons.IH [OF this] show ?case by (simp add: writes_def List.map_filter_simps split: option.splits)
qed

text \<open>The status of the first thing that is written, 200 unless it is a header.\<close>

definition first_status :: "rec_op list \<Rightarrow> int" where
  "first_status ops = (case dropWhile ((=) RecFlush) ops of RecHeader st # _ \<Rightarrow> st | _ \<Rightarrow> 200)"

lemma status_wrote: "sr_wrote r \<Longrightarrow> sr_status (fold (rec_step limit) ops r) = sr_status r"
proof (induction ops arbitrary: r)
  case (Cons p ops)
  have "sr_wrote (rec_step limit p r) \<and> sr_status (rec_step limit p r) = sr_status r"
    using Cons.prems by (cases p) (simp_all add: rec_step_def Let_def)
  with Cons.IH show ?case by simp
qed simp

lemma status_first: "\<not> sr_wrote r \<Longrightarrow> sr_status r = 200 \<Longrightarrow> sr_status (fold (rec_step limit) ops r) = first_status ops"
proof (induction ops arbitrary: r)
  case Nil
  then show ?case by (simp add: first_status_def)
next
  case (Cons p ops)
  show ?case
  proof (cases p)
    case RecFlush
    then show ?thesis using Cons by (simp add: rec_step_def first_status_def)
  next
    case (RecHeader st)
    have "sr_wrote (rec_step limit p r)" "sr_status (rec_step limit p r) = st" using Cons.prems RecHeader by (simp_all add: rec_step_def)
    then show ?thesis using RecHeader by (simp add: status_wrote first_status_def)
  next
    case (RecWrite b)
    have "sr_wrote (rec_step limit p r)" "sr_status (rec_step limit p r) = 200" using Cons.prems RecWrite by (simp_all add: rec_step_def Let_def)
    then show ?thesis using RecWrite by (simp add: status_wrote first_status_def)
  qed
qed

text \<open>Whatever a backend writes, the recorder knows the status it started with, informational ones included, and the last
  256 KiB of the body, which the usage counters are read from.\<close>

theorem recorder_keeps_tail:
  "sr_status (recorded_by ops) = first_status ops \<and> sr_capture (recorded_by ops) = tail usageCaptureLimit (writes ops)"
  using status_first [of "\<lparr>sr_status = 200, sr_wrote = False, sr_capture = ''''\<rparr>" usageCaptureLimit ops]
    capture_fold [of "\<lparr>sr_status = 200, sr_wrote = False, sr_capture = ''''\<rparr>" usageCaptureLimit "''''" ops]
  by (simp add: recorded_by_def tail_def)

end
