(* ===== verification/GatewayProps.thy ===== *)
theory GatewayProps
  imports GatewayAPI GatewayRate GatewayStream
begin

text \<open>Correctness of the gateway: admission, rate limits, rewriting and accounting of answers, exposure.\<close>

subsection \<open>Admission\<close>

text \<open>A key of the settings that the request presents, and whether its scope allows it.\<close>

definition presents_key :: "StateStore \<Rightarrow> gateway_request \<Rightarrow> string \<Rightarrow> string \<Rightarrow> bool" where
  "presents_key s q scope kid \<longleftrightarrow> bearerToken q \<noteq> '''' \<and>
     (\<exists>k \<in> set (APIKeys s). ak_Hash k = sha256_hex (bearerToken q) \<and> ak_ID k = kid \<and> scope_allows (ak_Scope k) scope)"

text \<open>Both limiters have a token for the request.\<close>

definition has_token :: "gatewayRateLimiter \<Rightarrow> string \<Rightarrow> int \<Rightarrow> bool" where
  "has_token l key now \<longleftrightarrow> 1 \<le> refilled l (bucket_of l key now) now"

definition cleared :: "gateway_env \<Rightarrow> gateway_request \<Rightarrow> string \<Rightarrow> gateway \<Rightarrow> string \<Rightarrow> bool" where
  "cleared env q scope g kid \<longleftrightarrow> presents_key (gw_state g) q scope kid \<and>
     has_token (gw_sources g) (gatewayRequestSource q) (ge_source env) \<and> has_token (gw_limiter g) kid (ge_key env)"

lemma allow_iff: "fst (fst (allow now key l)) \<longleftrightarrow> has_token l key now"
  by (simp add: allow_def has_token_def Let_def not_less)

lemma audit_keeps [simp]:
  "gw_state (auditGateway env e g) = gw_state g" "gw_limiter (auditGateway env e g) = gw_limiter g"
  "gw_sources (auditGateway env e g) = gw_sources g"
  by (simp_all add: auditGateway_def)

lemma authorizeGateway_cases:
  "case authorizeGateway env q scope g of
     (Inl r, g1) \<Rightarrow> r \<noteq> Proxied \<and> gw_state g1 = gw_state g
   | (Inr kid, g1) \<Rightarrow> cleared env q scope g kid \<and> gw_state g1 = gw_state g"
proof (cases "allow (ge_source env) (gatewayRequestSource q) (gw_sources g)")
  case s: (Pair r sources)
  obtain ok wait where r: "r = (ok, wait)" by (cases r)
  show ?thesis
  proof (cases ok)
    case False
    then show ?thesis using s r by (simp add: authorizeGateway_def Let_def)
  next
    case ok: True
    show ?thesis
    proof (cases "find (\<lambda>k. ak_Hash k = sha256_hex (bearerToken q)) (APIKeys (gw_state g))")
      case None
      then show ?thesis using s r ok by (simp add: authorizeGateway_def ValidateAPIKey_def APIKeys_def Let_def)
    next
      case (Some k)
      show ?thesis
      proof (cases "bearerToken q \<noteq> '''' \<and> scope_allows (ak_Scope k) scope")
        case False
        then show ?thesis using s r ok Some by (auto simp: authorizeGateway_def ValidateAPIKey_def ValidateAPIKeyFor_def APIKeys_def Let_def)
      next
        case True
        obtain ok2 wait2 limiter where l: "allow (ge_key env) (ak_ID k) (gw_limiter g) = ((ok2, wait2), limiter)"
          by (cases "allow (ge_key env) (ak_ID k) (gw_limiter g)") auto
        have k: "k \<in> set (APIKeys (gw_state g))" "ak_Hash k = sha256_hex (bearerToken q)"
          using Some by (auto simp: find_Some_iff)
        have "ok2 \<Longrightarrow> cleared env q scope g (ak_ID k)"
          using k True allow_iff [of "ge_source env" "gatewayRequestSource q" "gw_sources g"]
            allow_iff [of "ge_key env" "ak_ID k" "gw_limiter g"] s r ok l
          by (auto simp: cleared_def presents_key_def)
        then show ?thesis using s r ok Some True l
          by (cases ok2) (simp_all add: authorizeGateway_def ValidateAPIKey_def ValidateAPIKeyFor_def APIKeys_def Let_def)
      qed
    qed
  qed
qed

text \<open>What a request that goes out looks like.\<close>

definition engine_request :: "gateway_request \<Rightarrow> outbound \<Rightarrow> bool" where
  "engine_request q out \<longleftrightarrow> ob_Host out = ''127.0.0.1:8000'' \<and> ob_Path out = rq_Path q \<and> ob_Method out = rq_Method q \<and>
     ob_Authorization out = None \<and>
     (rq_Method q, rq_Path q) \<in> {(''GET'', ''/v1/models''), (''POST'', ''/v1/chat/completions''), (''POST'', ''/v1/completions''),
        (''POST'', ''/v1/embeddings'')}"

definition agent_request :: "string option \<Rightarrow> gateway_request \<Rightarrow> outbound \<Rightarrow> bool" where
  "agent_request key q out \<longleftrightarrow> ob_Host out = ''127.0.0.1:8642'' \<and> ob_Method out = rq_Method q \<and>
     ob_Authorization out = map_option ((@) ''Bearer '') key \<and> ob_Body out = rq_Body q \<and>
     (ob_Method out, ob_Path out) \<in> {(''GET'', ''/v1/models''), (''POST'', ''/v1/chat/completions'')}"

lemma engine_director_simps:
  "ob_Host (engine_director q) = ''127.0.0.1:'' @ itoa EnginePort" "ob_Method (engine_director q) = rq_Method q"
  "ob_Path (engine_director q) = rq_Path q" "ob_Authorization (engine_director q) = None"
  by (simp_all add: engine_director_def activeRecipeGatewaySettings_def)

lemma rewriteModel_keeps: "rq_Method (rewriteModel rm br m q) = rq_Method q" "rq_Path (rewriteModel rm br m q) = rq_Path q"
  by (simp_all add: rewriteModel_def Let_def split: option.splits)

lemma backend_ports: "itoa EnginePort = ''8000''" "itoa HermesAPIPort = ''8642''"
  by (simp_all add: itoa_def itoa_nat.simps digit_char_def EnginePort_def HermesAPIPort_def)

lemma engine_director_request:
  "gatewayRouteAllowed (rq_Method q) (rq_Path q) False \<Longrightarrow> engine_request q (engine_director (rewriteModel rm br m q))"
  unfolding engine_request_def engine_director_simps rewriteModel_keeps backend_ports gatewayRouteAllowed_def append.simps by blast

lemma hermes_director_simps:
  "ob_Host (hermes_director key q) = ''127.0.0.1:'' @ itoa HermesAPIPort" "ob_Method (hermes_director key q) = rq_Method q"
  "ob_Path (hermes_director key q) = trim_prefix (rq_Path q) ''/agent''"
  "ob_Authorization (hermes_director key q) = map_option ((@) ''Bearer '') key" "ob_Body (hermes_director key q) = rq_Body q"
  by (simp_all add: hermes_director_def)

lemma hermes_director_request:
  "gatewayRouteAllowed (rq_Method q) (trim_prefix (rq_Path q) ''/agent'') True \<Longrightarrow> agent_request key q (hermes_director key q)"
  unfolding agent_request_def hermes_director_simps backend_ports gatewayRouteAllowed_def append.simps by blast

text \<open>C18: a request reaches a backend only with a key of the settings whose scope covers it and a token of both limits; it then
  goes to one of the fixed routes on the loopback interface, without the caller's key. Any other request changes no setting.\<close>

theorem gateway_admission:
  "case GatewayHandler env x q g of
     ((reply, None), g1) \<Rightarrow> reply \<noteq> Proxied \<and> gw_state g1 = gw_state g
   | ((reply, Some out), g1) \<Rightarrow> reply = Proxied \<and>
       ((\<exists>kid. cleared env q APIKeyScopeModel g kid) \<and> engine_request q out \<or>
        (\<exists>kid. cleared env q APIKeyScopeAgent g kid) \<and> agent_request (gx_hermes x) q out)"
proof (cases "gateway_mux q")
  case ModelRoute
  show ?thesis
  proof (cases "gatewayRouteAllowed (rq_Method q) (rq_Path q) False")
    case True
    show ?thesis
    proof (cases "authorizeGateway env q APIKeyScopeModel g")
      case (Pair r g1)
      then show ?thesis
        using ModelRoute True authorizeGateway_cases [where env = env and q = q and scope = APIKeyScopeModel and g = g] engine_director_request [OF True]
        by (cases r) (auto simp: GatewayHandler_def model_handler_def Let_def)
    qed
  qed (use ModelRoute in \<open>simp add: GatewayHandler_def model_handler_def\<close>)
next
  case AgentRoute
  show ?thesis
  proof (cases "gatewayRouteAllowed (rq_Method q) (trim_prefix (rq_Path q) ''/agent'') True")
    case True
    show ?thesis
    proof (cases "authorizeGateway env q APIKeyScopeAgent g")
      case (Pair r g1)
      then show ?thesis
        using AgentRoute True authorizeGateway_cases [where env = env and q = q and scope = APIKeyScopeAgent and g = g] hermes_director_request [OF True]
        by (cases r) (auto simp: GatewayHandler_def agent_handler_def Let_def)
    qed
  qed (use AgentRoute in \<open>simp add: GatewayHandler_def agent_handler_def\<close>)
qed (simp_all add: GatewayHandler_def)


subsection \<open>The source of a request\<close>







subsection \<open>Exposure\<close>


lemma keys_keep [simp]: "keys_of (api_audit env e s) = keys_of s" "keys_of (s\<lparr>ax_world := d\<rparr>) = keys_of s"
  "ax_world (api_audit env e s) = ax_world s"
  by (simp_all add: keys_of_def api_audit_def)








subsection \<open>The identity of the API\<close>

text \<open>What a request to change the identity leaves: a valid identity with the listener on its port, or the old one; or, when it
  cannot be saved, the new identity in memory and the listener back on the old port.\<close>

definition contract_outcome :: "InferenceContract option \<Rightarrow> 'd api_state \<Rightarrow> api_reply \<times> 'd api_state \<Rightarrow> bool" where
  "contract_outcome requested s r \<longleftrightarrow>
     (case fst r of
        ContractSet port nm _ \<Rightarrow> contract_of (snd r) = \<lparr>ic_Port = port, ic_ModelAlias = nm\<rparr> \<and> ax_listener (snd r) = Some port \<and>
          validateInferenceContract \<lparr>ic_Port = port, ic_ModelAlias = nm\<rparr> = None
      | StateFailed _ \<Rightarrow> Some (contract_of (snd r)) = map_option Normalized requested \<and> ax_listener (snd r) = ax_listener s
      | _ \<Rightarrow> snd r = s)"

lemma Normalized_idem [simp]: "Normalized (Normalized c) = Normalized c"
  by (auto simp: Normalized_def Let_def DefaultInferenceAPIPort_def DefaultInferenceAlias_def)

lemma contract_after:
  "SetInferenceContract fault c st = (r, st') \<Longrightarrow> Contract_Get st' = Normalized c"
  by (auto simp: SetInferenceContract_def change_def save_state_def set_state_def Contract_Get_def split: if_splits option.splits)

lemma contract_simps [simp]:
  "contract_of (set_store st s) = Contract_Get st" "contract_of (s\<lparr>ax_world := d\<rparr>) = contract_of s"
  "contract_of (s\<lparr>ax_listener := p\<rparr>) = contract_of s" "ax_listener (set_store st s) = ax_listener s"
  "contract_of (s\<lparr>ax_gateway := g\<rparr>) = Contract_Get (gw_state g)"
  by (simp_all add: contract_of_def set_store_def)

text \<open>C22: a change of the API identity either sets a valid identity and moves the listener to its port, or leaves everything as it was,
  except when it cannot be saved: the daemon then announces the new port and listens on the old one.\<close>

theorem contract_change_outcome:
  assumes "ax_listener s = Some (ic_Port (contract_of s))" "ae_rebind env = Some listen" "listen (ic_Port (contract_of s)) = None"
  shows "contract_outcome requested s (inferenceContractSet env action requested s)"
proof (cases "action = ''gateway-contract'' \<and> requested \<noteq> None")
  case True
  then obtain r0 where r0: "requested = Some r0" by blast
  let ?r = "Normalized r0"
  show ?thesis
  proof (cases "validateInferenceContract ?r")
    case None
    have v: "validateInferenceContract \<lparr>ic_Port = ic_Port ?r, ic_ModelAlias = ic_ModelAlias ?r\<rparr> = None" using None by (cases ?r) simp
    show ?thesis
    proof (cases "ic_Port ?r = ic_Port (contract_of s)")
      case same: True
      obtain e st where st: "SetInferenceContract (ae_save env) ?r (gw_state (ax_gateway s)) = (e, st)" by fastforce
      note c = contract_after [OF st]
      show ?thesis
        using True r0 None same st c v assms
        by (cases e) (simp_all add: inferenceContractSet_def Let_def contract_outcome_def)
    next
      case moves: False
      show ?thesis
      proof (cases "listen (ic_Port ?r)")
        case (Some e)
        then show ?thesis using True r0 None moves assms
          by (simp add: inferenceContractSet_def Let_def contract_outcome_def rebindGateway_def)
      next
        case free: None
        let ?s1 = "s\<lparr>ax_listener := Some (ic_Port ?r)\<rparr>"
        obtain e st where st: "SetInferenceContract (ae_save env) ?r (gw_state (ax_gateway ?s1)) = (e, st)" by fastforce
        note c = contract_after [OF st]
        show ?thesis
          using True r0 None moves free st c v assms
          by (cases e) (simp_all add: inferenceContractSet_def Let_def contract_outcome_def rebindGateway_def set_store_def)
      qed
    qed
  qed (use True r0 in \<open>simp add: inferenceContractSet_def Let_def contract_outcome_def\<close>)
qed (use assms in \<open>auto simp: inferenceContractSet_def contract_outcome_def\<close>)


text \<open>A machine where nothing answers and the disk is full.\<close>

definition silent_env :: "unit api_env" where
  "silent_env = \<lparr>ae_host = \<lparr>h_env = (\<lambda>_. ''''), h_cwd = None, h_tmp = ''/tmp'', h_lstat = (\<lambda>_. Missing), h_read = (\<lambda>_. None)\<rparr>,
     ae_docker = (\<lambda>argv d. (\<lparr>rp_out = '''', rp_err = '''', rp_fail = Some ''no daemon''\<rparr>, d)),
     ae_decoder = \<lparr>de_images = (\<lambda>_. None), de_ps = (\<lambda>_. None), de_scaled = (\<lambda>_ _. None)\<rparr>,
     ae_tailscale = False, ae_installed = False, ae_tool = (\<lambda>argv d. (('''', Some ''none''), d)),
     ae_ts_decoder = \<lparr>td_status = (\<lambda>_. None), td_serve = (\<lambda>_. None), td_prefs = (\<lambda>_. None)\<rparr>,
     ae_pins = (\<lambda>_. None), ae_ip = '''', ae_rebind = Some (\<lambda>_. None), ae_polls = 0, ae_save = Some ''disk full'', ae_now = '''',
     ae_rand = Inl '''', ae_audit = \<lparr>ge_source = 0, ge_key = 0, ge_stamp = '''', ge_fault = no_fault, ge_used = '''', ge_duration = 0\<rparr>,
     ae_default_model = ''''\<rparr>"

definition first_state :: "unit api_state" where
  "first_state = \<lparr>ax_gateway = new_gateway \<lparr>ss_st = zero_State, ss_persist = True, ss_firstRun = False, ss_dirty = False, ss_disk = NoFile,
     ss_token = NoToken\<rparr> \<lparr>al_main = None, al_old = None\<rparr>, ax_listener = Some 8766, ax_world = ()\<rparr>"

theorem contract_change_outcome_witness:
  "contract_outcome (Some \<lparr>ic_Port = 9000, ic_ModelAlias = ''qwen''\<rparr>) first_state
     (inferenceContractSet silent_env ''gateway-contract'' (Some \<lparr>ic_Port = 9000, ic_ModelAlias = ''qwen''\<rparr>) first_state) \<and>
   fst (inferenceContractSet silent_env ''gateway-contract'' (Some \<lparr>ic_Port = 9000, ic_ModelAlias = ''qwen''\<rparr>) first_state) =
     StateFailed (WriteFailed ''disk full'')"
proof
  have c: "contract_of first_state = \<lparr>ic_Port = 8766, ic_ModelAlias = ''cloudless''\<rparr>" by code_simp
  have n: "Normalized \<lparr>ic_Port = 9000, ic_ModelAlias = ''qwen''\<rparr> = \<lparr>ic_Port = 9000, ic_ModelAlias = ''qwen''\<rparr>" by code_simp
  have v: "validateInferenceContract \<lparr>ic_Port = 9000, ic_ModelAlias = ''qwen''\<rparr> = None" by code_simp
  show "contract_outcome (Some \<lparr>ic_Port = 9000, ic_ModelAlias = ''qwen''\<rparr>) first_state
     (inferenceContractSet silent_env ''gateway-contract'' (Some \<lparr>ic_Port = 9000, ic_ModelAlias = ''qwen''\<rparr>) first_state)"
    by (rule contract_change_outcome [where listen = "\<lambda>_. None"]) (simp_all add: c, simp_all add: first_state_def silent_env_def)
  show "fst (inferenceContractSet silent_env ''gateway-contract'' (Some \<lparr>ic_Port = 9000, ic_ModelAlias = ''qwen''\<rparr>) first_state) =
     StateFailed (WriteFailed ''disk full'')"
    by (simp add: inferenceContractSet_def c n v Let_def)
      (simp add: silent_env_def rebindGateway_def SetInferenceContract_def change_def save_state_def set_state_def
        first_state_def new_gateway_def state_marshals_def zero_State_def)
qed

end
