(* ===== verification/JobObservers.thy ===== *)
theory JobObservers
  imports Gateway Jobs RecipeOpsStore
begin

text \<open>
  The observers of install jobs in \<open>internal/api\<close>: the audit trail (\<open>gateway_security.go\<close>), the journal of the inference
  runtime (\<open>server.go\<close>), the durable model downloads (\<open>models.go\<close>) and the progress of recipe operations
  (\<open>recipe_progress.go\<close>). An observer gets the updates of its job one after another; each one is one step here.
\<close>

subsection \<open>Audit\<close>

text \<open>\<open>auditSecurity\<close>: an event with its time, and what fails while it is written. \<open>source\<close> is the request, if there is one.\<close>

definition mutation_event :: "gateway_request option \<Rightarrow> string \<Rightarrow> string \<Rightarrow> string \<Rightarrow> string \<Rightarrow> string \<Rightarrow> int \<Rightarrow> Event" where
  "mutation_event r category event target outcome detail status =
     (let e = zero_Event\<lparr>ev_Category := category, ev_Event := event, ev_Outcome := outcome, ev_Actor := ''local-ui'',
                ev_Target := target, ev_Status := status, ev_Detail := detail\<rparr>
      in case r of None \<Rightarrow> e
         | Some q \<Rightarrow> e\<lparr>ev_Method := rq_Method q, ev_Path := rq_Path q, ev_Source := gatewayRequestSource q\<rparr>)"

definition auditMutation ::
    "append_fault \<Rightarrow> string \<Rightarrow> gateway_request option \<Rightarrow> string \<Rightarrow> string \<Rightarrow> string \<Rightarrow> string \<Rightarrow> string \<Rightarrow> int \<Rightarrow> audit_log \<Rightarrow> audit_log" where
  "auditMutation fault now r category event target outcome detail status =
     Append fault now (mutation_event r category event target outcome detail status)"

definition job_started :: "string \<Rightarrow> string \<Rightarrow> string \<Rightarrow> string \<Rightarrow> Event" where
  "job_started jid category event target =
     zero_Event\<lparr>ev_Category := category, ev_Event := event, ev_Outcome := ''started'', ev_Actor := ''local-ui'',
       ev_Target := target, ev_OperationID := jid\<rparr>"

definition job_failed :: "Update \<Rightarrow> bool" where
  "job_failed u \<longleftrightarrow> up_Error u \<noteq> '''' \<or> up_Phase u = ''error''"

definition job_finished :: "string \<Rightarrow> string \<Rightarrow> string \<Rightarrow> string \<Rightarrow> Update \<Rightarrow> Event" where
  "job_finished jid category event target u =
     zero_Event\<lparr>ev_Category := category, ev_Event := event, ev_Outcome := (if job_failed u then ''failed'' else ''succeeded''),
       ev_Actor := ''cloudlessd'', ev_Target := target, ev_OperationID := jid, ev_Detail := up_Error u\<rparr>"

text \<open>The observer: whether it has written its event, and the events so far.\<close>

definition audit_step :: "string \<Rightarrow> string \<Rightarrow> string \<Rightarrow> string \<Rightarrow> Update \<Rightarrow> bool \<times> Event list \<Rightarrow> bool \<times> Event list" where
  "audit_step jid category event target u s =
     (if up_Done u \<and> \<not> fst s then (True, snd s @ [job_finished jid category event target u]) else s)"

definition auditJob :: "string \<Rightarrow> string \<Rightarrow> string \<Rightarrow> string \<Rightarrow> Update list \<Rightarrow> Event list" where
  "auditJob jid category event target us =
     snd (fold (audit_step jid category event target) us (False, [job_started jid category event target]))"

subsection \<open>The journal of the inference runtime\<close>

definition resolve_model :: "string \<Rightarrow> string \<Rightarrow> string" where
  "resolve_model fallback model = (if model = '''' then fallback else model)"

definition begun_operation :: "string \<Rightarrow> string \<Rightarrow> string \<Rightarrow> string \<Rightarrow> InferenceRuntime \<Rightarrow> State \<Rightarrow> InferenceOperation" where
  "begun_operation fallback jid action targetEngine previous current =
     zero_Operation\<lparr>io_ID := jid, io_Action := action, io_TargetEngine := targetEngine,
       io_TargetModel := resolve_model fallback (s_Model current), io_TargetMode := s_ExecutionMode current,
       io_Previous := previous, io_Phase := ''pending'', io_Message := ''Queued''\<rparr>"

definition node_progress :: "NodeProgress \<Rightarrow> InferenceNodeProgress" where
  "node_progress n = \<lparr>in_Node = np_Node n, in_Phase = np_Phase n, in_Message = np_Message n, in_BytesDone = np_BytesDone n,
     in_BytesTotal = np_BytesTotal n, in_Percent = np_Percent n, in_ETASecs = np_ETASecs n\<rparr>"

definition next_operation :: "string \<Rightarrow> Update \<Rightarrow> InferenceOperation" where
  "next_operation jid u =
     zero_Operation\<lparr>io_ID := jid, io_Phase := up_Phase u, io_Message := up_Message u, io_Percent := up_Percent u,
       io_ItemsDone := up_ItemsDone u, io_ItemsTotal := up_ItemsTotal u, io_BytesDone := up_BytesDone u,
       io_BytesTotal := up_BytesTotal u, io_Error := up_Error u, io_Nodes := map node_progress (up_Nodes u)\<rparr>"

text \<open>One update, with the time and the failure of its save.\<close>

definition inference_step :: "string \<Rightarrow> string \<times> string option \<times> Update \<Rightarrow> StateStore \<Rightarrow> StateStore" where
  "inference_step jid e s = (case e of (now, fault, u) \<Rightarrow>
     if up_Done u \<and> up_Phase u \<noteq> ''error'' then snd (snd (ClearInferenceOperation fault jid s))
     else snd (snd (UpdateInferenceOperation now fault (next_operation jid u) s)))"

definition observeInferenceJob ::
    "string \<Rightarrow> string \<Rightarrow> string option \<Rightarrow> string \<Rightarrow> string \<Rightarrow> string \<Rightarrow> InferenceRuntime \<Rightarrow> (string \<times> string option \<times> Update) list \<Rightarrow>
     StateStore \<Rightarrow> StateStore" where
  "observeInferenceJob fallback now fault jid action targetEngine previous us s =
     fold (inference_step jid) us
       (snd (BeginInferenceOperation now fault (begun_operation fallback jid action targetEngine previous (State_Get s)) s))"

subsection \<open>Model downloads\<close>

definition download_of :: "string \<Rightarrow> string \<Rightarrow> Update \<Rightarrow> ModelDownload" where
  "download_of repo revision u = \<lparr>md_ModelID = repo, md_Revision = revision, md_Phase = up_Phase u, md_Message = up_Message u,
     md_BytesDone = up_BytesDone u, md_BytesTotal = up_BytesTotal u, md_Started = up_StartedAt u, md_Updated = up_UpdatedAt u,
     md_Error = up_Error u\<rparr>"

definition observeModelDownload :: "string \<Rightarrow> string \<Rightarrow> string \<times> string option \<times> Update \<Rightarrow> StateStore \<Rightarrow> StateStore" where
  "observeModelDownload repo revision e s = (case e of (now, fault, u) \<Rightarrow>
     if up_Done u \<and> up_Phase u \<noteq> ''error'' then snd (RemoveModelDownload fault repo s)
     else snd (SetModelDownload now fault (download_of repo revision u) s))"

subsection \<open>The progress of a recipe operation\<close>

text \<open>Integer division that cuts towards zero.\<close>

definition go_div :: "int \<Rightarrow> int \<Rightarrow> int" where
  "go_div a b = sgn a * sgn b * (\<bar>a\<bar> div \<bar>b\<bar>)"

record recipe_sink =
  rk_stage :: string
  rk_overall :: int
  rk_phase :: int
  rk_write :: "Now option"

definition new_sink :: recipe_sink where
  "new_sink = \<lparr>rk_stage = '''', rk_overall = -1, rk_phase = -1, rk_write = None\<rparr>"

definition overall_percent :: "Update \<Rightarrow> int" where
  "overall_percent u =
     (if up_Done u \<and> up_Error u = '''' \<and> up_Phase u \<noteq> ''canceled'' then 100
      else if up_LayersTotal u > 0 \<and> up_LayersDone u \<ge> 0 then go_div (wrap64 (up_LayersDone u * 100)) (up_LayersTotal u)
      else up_Percent u)"

definition phase_percent :: "Update \<Rightarrow> int" where
  "phase_percent u = (if up_BytesTotal u > 0 then go_div (wrap64 (up_BytesDone u * 100)) (up_BytesTotal u) else up_Percent u)"

definition recipe_eta :: "Update \<Rightarrow> int" where
  "recipe_eta u =
     (let o' = overall_percent u
      in if 0 < o' \<and> o' < 100 \<and> up_ElapsedSecs u > 0 then go_div (wrap64 (up_ElapsedSecs u * (100 - o'))) o' else up_ETASecs u)"

definition progress_of :: "Update \<Rightarrow> RecipeOps.Progress" where
  "progress_of u = \<lparr>pg_Stage = up_Phase u, pg_Message = up_Message u, pg_OverallPercent = overall_percent u,
     pg_PhasePercent = phase_percent u, pg_Completed = up_LayersDone u, pg_Total = up_LayersTotal u, pg_BytesDone = up_BytesDone u,
     pg_BytesTotal = up_BytesTotal u, pg_ElapsedSeconds = up_ElapsedSecs u, pg_ETASeconds = recipe_eta u,
     pg_BytesPerSecond = up_BytesPerSec u, pg_StalledSeconds = up_StalledSecs u,
     pg_Components = map (\<lambda>c. \<lparr>pc_Name = cp_Name c, pc_Status = cp_Status c, pc_BytesDone = cp_BytesDone c,
        pc_BytesTotal = cp_BytesTotal c, pc_BytesPerSecond = cp_BytesPerSec c, pc_ETASeconds = cp_ETASeconds c\<rparr>) (up_Components u),
     pg_UpdatedAt = ''''\<rparr>"

text \<open>Nothing new within a second of the last record, or an update to record; the time of the journal entry is an argument.\<close>

definition throttled :: "Now \<Rightarrow> Update \<Rightarrow> recipe_sink \<Rightarrow> bool" where
  "throttled now u k \<longleftrightarrow> \<not> up_Done u \<and> up_Phase u = rk_stage k \<and> overall_percent u = rk_overall k \<and> phase_percent u = rk_phase k \<and>
     (case rk_write k of None \<Rightarrow> False | Some t \<Rightarrow> now_sub now t < 1000000000)"

definition observeRecipeJob ::
    "string \<Rightarrow> Now \<times> string \<times> string option \<times> Update \<Rightarrow> recipe_sink \<times> RecipeOpsStore.Store \<Rightarrow> recipe_sink \<times> RecipeOpsStore.Store" where
  "observeRecipeJob oid e x = (case e of (now, stamp, fault, u) \<Rightarrow>
     if throttled now u (fst x) then x
     else case RecordProgress stamp fault oid (progress_of u) (snd x) of
            (Inl err, s) \<Rightarrow> (fst x, s)
          | (Inr op, s) \<Rightarrow> (\<lparr>rk_stage = up_Phase u, rk_overall = overall_percent u, rk_phase = phase_percent u, rk_write = Some now\<rparr>, s))"

end
