(* ===== verification/ObserverProps.thy ===== *)
theory ObserverProps
  imports JobObservers
begin

text \<open>What the observers of a job leave behind: one audit record per job, a journal of the runtime that follows the job, and recipe
  progress that is never behind what the throttle has let through.\<close>

lemma audit_done: "snd (fold (audit_step jid category event target) us (True, es)) = es"
  by (induction us) (simp_all add: audit_step_def)

text \<open>Whatever updates a job sends, its audit trail is one event at the start and, once it is done, exactly one with its outcome.\<close>

theorem job_audited_once:
  "auditJob jid category event target us =
     job_started jid category event target # (case find up_Done us of None \<Rightarrow> [] | Some u \<Rightarrow> [job_finished jid category event target u])"
proof -
  have "snd (fold (audit_step jid category event target) us (False, es)) =
      es @ (case find up_Done us of None \<Rightarrow> [] | Some u \<Rightarrow> [job_finished jid category event target u])" for es
    by (induction us arbitrary: es) (simp_all add: audit_step_def audit_done)
  then show ?thesis by (simp add: auditJob_def)
qed

subsection \<open>The journal of the inference runtime\<close>

definition journal_op :: "StateStore \<Rightarrow> InferenceOperation" where
  "journal_op s = s_InferenceOperation (ss_st s)"

lemma change_state: "ss_st (snd (change fault f s)) = f (ss_st s)"
  by (auto simp: change_def save_state_def set_state_def split: option.splits)

text \<open>The identity a job's operation keeps.\<close>

definition belongs :: "string \<Rightarrow> InferenceOperation \<Rightarrow> InferenceOperation \<Rightarrow> bool" where
  "belongs jid first op \<longleftrightarrow> io_ID op = jid \<and> io_Previous op = io_Previous first \<and> io_Action op = io_Action first \<and>
     io_TargetEngine op = io_TargetEngine first \<and> io_TargetModel op = io_TargetModel first \<and> io_TargetMode op = io_TargetMode first"

definition succeeds :: "string \<times> string option \<times> Update \<Rightarrow> bool" where
  "succeeds e \<longleftrightarrow> up_Done (snd (snd e)) \<and> up_Phase (snd (snd e)) \<noteq> ''error''"

definition mirrors :: "Update \<Rightarrow> InferenceOperation \<Rightarrow> bool" where
  "mirrors u op \<longleftrightarrow> io_Phase op = up_Phase u \<and> io_Message op = up_Message u \<and> io_Percent op = up_Percent u \<and>
     io_Error op = up_Error u \<and> io_BytesDone op = up_BytesDone u \<and> io_BytesTotal op = up_BytesTotal u"

lemma step_gone: "jid \<noteq> '''' \<Longrightarrow> journal_op s = zero_Operation \<Longrightarrow> journal_op (inference_step jid e s) = zero_Operation"
  by (cases e) (auto simp: inference_step_def journal_op_def ClearInferenceOperation_def UpdateInferenceOperation_def zero_Operation_def
    next_operation_def)

lemma steps_gone: "jid \<noteq> '''' \<Longrightarrow> journal_op s = zero_Operation \<Longrightarrow> journal_op (fold (inference_step jid) es s) = zero_Operation"
  by (induction es arbitrary: s) (simp_all add: step_gone)

lemma step_belongs:
  assumes "jid \<noteq> ''''" "belongs jid first (journal_op s)"
  shows "if succeeds e then journal_op (inference_step jid e s) = zero_Operation
    else belongs jid first (journal_op (inference_step jid e s)) \<and> mirrors (snd (snd e)) (journal_op (inference_step jid e s))"
  using assms
  by (cases e) (auto simp: inference_step_def succeeds_def journal_op_def belongs_def mirrors_def ClearInferenceOperation_def
    UpdateInferenceOperation_def change_state continued_def next_operation_def)

lemma steps_belongs:
  assumes "jid \<noteq> ''''" "belongs jid first (journal_op s)"
  shows "if list_ex succeeds es then journal_op (fold (inference_step jid) es s) = zero_Operation
    else belongs jid first (journal_op (fold (inference_step jid) es s)) \<and>
      (case rev es of [] \<Rightarrow> True | e # _ \<Rightarrow> mirrors (snd (snd e)) (journal_op (fold (inference_step jid) es s)))"
  using assms(2)
proof (induction es rule: rev_induct)
  case (snoc e es)
  let ?s = "fold (inference_step jid) es s"
  show ?case
  proof (cases "list_ex succeeds es")
    case True
    with snoc have "journal_op ?s = zero_Operation" by simp
    with True assms(1) show ?thesis by (simp add: step_gone)
  next
    case False
    with snoc have "belongs jid first (journal_op ?s)" by simp
    from step_belongs [OF assms(1) this, of e] False show ?thesis by (simp split: if_splits)
  qed
qed simp

text \<open>C26: whatever updates a job of the inference runtime sends and whatever saves fail, the journal in memory names the job with the
  runtime it was started from and the last thing it said, until a success of the job clears it for good.\<close>

theorem inference_journal_follows_job:
  assumes "jid \<noteq> ''''"
  shows "let op = journal_op (observeInferenceJob fallback now fault jid action targetEngine previous es s) in
    if list_ex succeeds es then op = zero_Operation
    else io_ID op = jid \<and> io_Previous op = previous \<and> io_Action op = action \<and> io_TargetEngine op = targetEngine \<and>
      (case rev es of [] \<Rightarrow> io_Phase op = ''pending'' | e # _ \<Rightarrow> mirrors (snd (snd e)) op)"
proof -
  let ?first = "begun_operation fallback jid action targetEngine previous (State_Get s)"
  let ?s = "snd (BeginInferenceOperation now fault ?first s)"
  have op: "journal_op ?s = stamped_operation now ?first"
    by (simp add: journal_op_def BeginInferenceOperation_def change_state)
  have keep: "io_ID (stamped_operation now o') = io_ID o'" "io_Previous (stamped_operation now o') = io_Previous o'"
    "io_Action (stamped_operation now o') = io_Action o'" "io_TargetEngine (stamped_operation now o') = io_TargetEngine o'"
    "io_TargetModel (stamped_operation now o') = io_TargetModel o'" "io_TargetMode (stamped_operation now o') = io_TargetMode o'"
    "io_Phase (stamped_operation now o') = io_Phase o'" for o'
    by (simp_all add: stamped_operation_def Let_def)
  have b: "belongs jid ?first (journal_op ?s)" unfolding op by (simp add: belongs_def keep) (simp add: begun_operation_def)
  have first: "io_Previous ?first = previous" "io_Action ?first = action" "io_TargetEngine ?first = targetEngine" "io_Phase (journal_op ?s) = ''pending''"
    unfolding op keep by (simp_all add: begun_operation_def)
  show ?thesis
    using steps_belongs [OF assms b, of es] first
    by (cases es rule: rev_cases) (auto simp: observeInferenceJob_def Let_def belongs_def split: if_splits)
qed

theorem inference_journal_follows_job_witness:
  "let op = journal_op (observeInferenceJob ''m'' ''t'' None ''job-1'' ''apply'' ''vllm'' zero_Runtime
      [(''t'', Some ''disk full'', zero_Update\<lparr>up_Phase := ''pulling'', up_Percent := 7\<rparr>)] \<lparr>ss_st = zero_State, ss_persist = True,
        ss_firstRun = False, ss_dirty = False, ss_disk = NoFile, ss_token = NoToken\<rparr>)
   in io_ID op = ''job-1'' \<and> io_Percent op = 7"
proof -
  let ?s = "\<lparr>ss_st = zero_State, ss_persist = True, ss_firstRun = False, ss_dirty = False, ss_disk = NoFile, ss_token = NoToken\<rparr>"
  let ?u = "zero_Update\<lparr>up_Phase := ''pulling'', up_Percent := 7\<rparr>"
  have "\<not> list_ex succeeds [(''t'', Some ''disk full'', ?u)]" by (simp add: succeeds_def zero_Update_def)
  with inference_journal_follows_job [of "''job-1''" "''m''" "''t''" None "''apply''" "''vllm''" zero_Runtime
      "[(''t'', Some ''disk full'', ?u)]" ?s]
  show ?thesis by (simp add: Let_def mirrors_def zero_Update_def)
qed

subsection \<open>The progress of a recipe operation\<close>

definition journal_shows :: "string \<Rightarrow> recipe_sink \<Rightarrow> RecipeOpsStore.Store \<Rightarrow> bool" where
  "journal_shows oid k s \<longleftrightarrow> (\<exists>op p. lookup (st_Operations s) oid = Some op \<and> o_Progress op = Some p \<and>
     pg_Stage p = trim_space (rk_stage k) \<and> pg_PhasePercent p = rk_phase k \<and> rk_overall k \<le> pg_OverallPercent p)"

lemma detached_progress [simp]: "o_Progress (detachedOperation op) = o_Progress op"
  by (simp add: detachedOperation_def split: option.splits)

lemma commit_progress:
  assumes "lookup (st_Operations s) oid = Some previous" "commit fault oid previous op s = (r, s')"
  shows "\<exists>op'. lookup (st_Operations s') oid = Some op' \<and> o_Progress op' = (case r of Inl _ \<Rightarrow> o_Progress previous | Inr _ \<Rightarrow> o_Progress op)"
  using assms by (auto simp: commit_def Let_def saveLocked_def set_operation_def split: if_splits option.splits)

lemma RecordProgress_shows:
  assumes "RecordProgress stamp fault oid (progress_of u) s = (r, s')"
  shows "case r of Inl _ \<Rightarrow> journal_shows oid k s \<longrightarrow> journal_shows oid k s'
    | Inr _ \<Rightarrow> journal_shows oid \<lparr>rk_stage = up_Phase u, rk_overall = overall_percent u, rk_phase = phase_percent u, rk_write = t\<rparr> s'"
proof (cases r)
  case (Inl e)
  then show ?thesis using assms commit_progress
    by (fastforce simp: RecordProgress_def Let_def journal_shows_def split: if_splits option.splits)
next
  case (Inr op)
  then show ?thesis using assms commit_progress
    by (fastforce simp: RecordProgress_def Let_def journal_shows_def progress_of_def split: if_splits option.splits)
qed

text \<open>Whatever updates a recipe job sends and whatever saves fail, once an update has been recorded the journal holds the stage and
  the percentages the throttle compares with, so an update that is skipped is one the journal already shows.\<close>

theorem recipe_progress_current:
  "case fold (observeRecipeJob oid) es (new_sink, s) of (k, s') \<Rightarrow> rk_write k = None \<or> journal_shows oid k s'"
proof (induction es rule: rev_induct)
  case Nil
  show ?case by (simp add: new_sink_def)
next
  case (snoc e es)
  obtain now stamp fault u where e: "e = (now, stamp, fault, u)" by (cases e)
  obtain k s1 where k: "fold (observeRecipeJob oid) es (new_sink, s) = (k, s1)" by fastforce
  obtain r s2 where r: "RecordProgress stamp fault oid (progress_of u) s1 = (r, s2)" by fastforce
  have "fold (observeRecipeJob oid) (es @ [e]) (new_sink, s) =
      (if throttled now u k then (k, s1) else case r of Inl _ \<Rightarrow> (k, s2)
       | Inr _ \<Rightarrow> (\<lparr>rk_stage = up_Phase u, rk_overall = overall_percent u, rk_phase = phase_percent u, rk_write = Some now\<rparr>, s2))"
    by (simp only: fold_append comp_apply k fold.simps id_apply)
       (simp add: e observeRecipeJob_def r split: sum.split)
  with snoc k RecordProgress_shows [OF r, where k = k and t = "Some now"] show ?case by (cases r) auto
qed

end
