(* ===== verification/HostFs.thy ===== *)
theory HostFs
  imports GoPath
begin

text \<open>
  The file system the host helpers work on: a directory tree with regular files (an inode and its bytes,
  so that hard links share them), symbolic links and sockets, the system calls the helpers use, and the
  programs they run. What may fail is an argument: \<open>io_fault\<close> gives the error of a call on a path,
  \<open>io_kept\<close> what a failed recursive removal leaves, \<open>io_run\<close> what a program answers. Paths are
  absolute; modes and times are not part of the state, changes of owner are listed in order, and so are the
  programs that ran.
\<close>

datatype node = Dir | Reg nat | Link string | Sock | Special

record 'x world =
  w_nodes :: "(string list, node) gomap"
  w_data :: "(nat, string) gomap"
  w_chowned :: "(string list \<times> int \<times> int) list"
  w_ext :: 'x
  w_ran :: "string list list"

datatype errno = NotExist | CrossDevice | Errno string

datatype host_error = Sys errno | Refuse string | Command string string | Joined "host_error list"

datatype sysop = OpLstat | OpStat | OpRead | OpReadDir | OpMkdir | OpCreate | OpWrite | OpChmod | OpChown
  | OpRemove | OpRemoveAll | OpRename | OpLink | OpSymlink | OpResolve

record 'x io =
  io_fault :: "sysop \<Rightarrow> string \<Rightarrow> errno option"
  io_kept :: "string list \<Rightarrow> bool"
  io_suffix :: string
  io_run :: "string list \<Rightarrow> 'x \<Rightarrow> (bool \<times> string) \<times> 'x"

type_synonym ('x, 'a) host_act = "'x world \<Rightarrow> (host_error + 'a) \<times> 'x world"

subsection \<open>Actions\<close>

definition h_ret :: "'a \<Rightarrow> ('x, 'a) host_act" where
  "h_ret v w = (Inr v, w)"

definition h_fail :: "host_error \<Rightarrow> ('x, 'a) host_act" where
  "h_fail e w = (Inl e, w)"

text \<open>Go on with the outcome, whatever it is.\<close>

definition h_try :: "('x, 'a) host_act \<Rightarrow> (host_error + 'a \<Rightarrow> ('x, 'b) host_act) \<Rightarrow> ('x, 'b) host_act" where
  "h_try a f w = (case a w of (r, w1) \<Rightarrow> f r w1)"

definition h_bind :: "('x, 'a) host_act \<Rightarrow> ('a \<Rightarrow> ('x, 'b) host_act) \<Rightarrow> ('x, 'b) host_act" where
  "h_bind a f = h_try a (\<lambda>r. case r of Inl e \<Rightarrow> h_fail e | Inr v \<Rightarrow> f v)"

definition h_then :: "('x, 'a) host_act \<Rightarrow> ('x, 'b) host_act \<Rightarrow> ('x, 'b) host_act" where
  "h_then a b = h_bind a (\<lambda>_. b)"

text \<open>Go on with \<open>b\<close>, the outcome of \<open>a\<close> being ignored.\<close>

definition h_ignore :: "('x, 'a) host_act \<Rightarrow> ('x, 'b) host_act \<Rightarrow> ('x, 'b) host_act" where
  "h_ignore a b = h_try a (\<lambda>_. b)"

fun h_each :: "('a \<Rightarrow> ('x, unit) host_act) \<Rightarrow> 'a list \<Rightarrow> ('x, unit) host_act" where
  "h_each f [] = h_ret ()"
| "h_each f (x # xs) = h_then (f x) (h_each f xs)"

text \<open>Every element is tried, and the errors are collected.\<close>

fun h_collect :: "('a \<Rightarrow> ('x, unit) host_act) \<Rightarrow> 'a list \<Rightarrow> ('x, host_error list) host_act" where
  "h_collect f [] = h_ret []"
| "h_collect f (x # xs) = h_try (f x) (\<lambda>r. h_bind (h_collect f xs) (\<lambda>es.
     h_ret (case r of Inl e \<Rightarrow> e # es | Inr _ \<Rightarrow> es)))"

text \<open>\<open>errors.Join\<close>: nil when there is no error.\<close>

definition h_join :: "host_error list \<Rightarrow> ('x, unit) host_act" where
  "h_join es = (if es = [] then h_ret () else h_fail (Joined es))"

subsection \<open>Paths\<close>

text \<open>
  The walk of a path, with at most \<open>n\<close> symbolic links on the way. \<open>follow\<close> says whether a link at the end
  is followed, \<open>miss\<close> whether the last name may be missing.
\<close>

function walk_path :: "(string list, node) gomap \<Rightarrow> bool \<Rightarrow> bool \<Rightarrow> nat \<Rightarrow> string list \<Rightarrow> string list \<Rightarrow> errno + string list" where
  "walk_path ns follow miss n at [] = Inr at"
| "walk_path ns follow miss n at (e # es) =
     (if e = ''..'' then walk_path ns follow miss n (butlast at) es
      else case lookup ns (at @ [e]) of
        None \<Rightarrow> if es = [] \<and> miss then Inr (at @ [e]) else Inl NotExist
      | Some Dir \<Rightarrow> walk_path ns follow miss n (at @ [e]) es
      | Some (Link t) \<Rightarrow>
          if es = [] \<and> \<not> follow then Inr (at @ [e])
          else (case n of 0 \<Rightarrow> Inl (Errno ''too many levels of symbolic links'')
                | Suc m \<Rightarrow> walk_path ns follow miss m (if IsAbs t then [] else at) (elements t @ es))
      | _ \<Rightarrow> if es = [] then Inr (at @ [e]) else Inl (Errno ''not a directory''))"
  by pat_completeness auto
termination
  by (relation "inv_image (less_than <*lex*> less_than) (\<lambda>(ns, f, m, n, at, es). (n, length es))") auto

definition max_links :: nat where "max_links = 40"

definition find_path :: "(string list, node) gomap \<Rightarrow> bool \<Rightarrow> bool \<Rightarrow> string \<Rightarrow> errno + string list" where
  "find_path ns follow miss p = walk_path ns follow miss max_links [] (elements p)"

definition node_at :: "(string list, node) gomap \<Rightarrow> string list \<Rightarrow> node option" where
  "node_at ns q = (if q = [] then Some Dir else lookup ns q)"

definition with_fault :: "'x io \<Rightarrow> sysop \<Rightarrow> string \<Rightarrow> ('x, 'a) host_act \<Rightarrow> ('x, 'a) host_act" where
  "with_fault io op p a = (case io_fault io op p of Some e \<Rightarrow> h_fail (Sys e) | None \<Rightarrow> a)"

definition on_path :: "bool \<Rightarrow> bool \<Rightarrow> string \<Rightarrow> (string list \<Rightarrow> ('x, 'a) host_act) \<Rightarrow> ('x, 'a) host_act" where
  "on_path follow miss p f w = (case find_path (w_nodes w) follow miss p of Inl e \<Rightarrow> (Inl (Sys e), w) | Inr q \<Rightarrow> f q w)"

subsection \<open>Queries\<close>

definition kind_at :: "string list \<Rightarrow> ('x, node) host_act" where
  "kind_at q w = (case node_at (w_nodes w) q of Some k \<Rightarrow> (Inr k, w) | None \<Rightarrow> (Inl (Sys NotExist), w))"

definition Lstat :: "'x io \<Rightarrow> string \<Rightarrow> ('x, node) host_act" where
  "Lstat io p = with_fault io OpLstat p (on_path False False p kind_at)"

definition Stat :: "'x io \<Rightarrow> string \<Rightarrow> ('x, node) host_act" where
  "Stat io p = with_fault io OpStat p (on_path True False p kind_at)"

definition bytes_at :: "string list \<Rightarrow> ('x, string) host_act" where
  "bytes_at q w =
     (case node_at (w_nodes w) q of
        Some (Reg i) \<Rightarrow> (Inr (case lookup (w_data w) i of Some b \<Rightarrow> b | None \<Rightarrow> ''''), w)
      | Some Dir \<Rightarrow> (Inl (Sys (Errno ''is a directory'')), w)
      | Some _ \<Rightarrow> (Inl (Sys (Errno ''not a regular file'')), w)
      | None \<Rightarrow> (Inl (Sys NotExist), w))"

definition ReadFile :: "'x io \<Rightarrow> string \<Rightarrow> ('x, string) host_act" where
  "ReadFile io p = with_fault io OpRead p (on_path True False p bytes_at)"

text \<open>\<open>os.ReadDir\<close>: the names and whether each is a directory, sorted by name.\<close>

definition child_of :: "string list \<Rightarrow> string list \<Rightarrow> bool" where
  "child_of q k \<longleftrightarrow> k \<noteq> [] \<and> butlast k = q"

definition entries_at :: "string list \<Rightarrow> ('x, (string \<times> bool) list) host_act" where
  "entries_at q w =
     (if node_at (w_nodes w) q \<noteq> Some Dir then (Inl (Sys (Errno ''not a directory'')), w)
      else (Inr (map (\<lambda>k. (last k, lookup (w_nodes w) k = Some Dir))
                  (sort (filter (child_of q) (remdups (map fst (w_nodes w)))))), w))"

definition ReadDir :: "'x io \<Rightarrow> string \<Rightarrow> ('x, (string \<times> bool) list) host_act" where
  "ReadDir io p = with_fault io OpReadDir p (on_path True False p entries_at)"

text \<open>
  What \<open>filepath.WalkDir\<close> visits below a directory it does not reach through a final link: the names from
  there on, a directory before what it holds, names in order.
\<close>

definition tree_at :: "string list \<Rightarrow> ('x, (string list \<times> node) list) host_act" where
  "tree_at q w =
     (case node_at (w_nodes w) q of
        None \<Rightarrow> (Inl (Sys NotExist), w)
      | Some k \<Rightarrow> (Inr (([], k) # (if k \<noteq> Dir then []
            else map (\<lambda>p. (drop (length q) p, the (lookup (w_nodes w) p)))
                   (sort (filter (strict_prefix q) (remdups (map fst (w_nodes w))))))), w))"

definition WalkTree :: "'x io \<Rightarrow> string \<Rightarrow> ('x, (string list \<times> node) list) host_act" where
  "WalkTree io p = with_fault io OpLstat p (on_path False False p tree_at)"

text \<open>\<open>filepath.EvalSymlinks\<close>: the path without links.\<close>

definition slash_path :: "string list \<Rightarrow> string" where
  "slash_path q = CHR ''/'' # join_path q"

definition EvalSymlinks :: "'x io \<Rightarrow> string \<Rightarrow> ('x, string) host_act" where
  "EvalSymlinks io p = with_fault io OpResolve p (on_path True False p (\<lambda>q. h_ret (slash_path q)))"

subsection \<open>Changes\<close>

definition set_nodes :: "((string list, node) gomap \<Rightarrow> (string list, node) gomap) \<Rightarrow> ('x, unit) host_act" where
  "set_nodes f w = (Inr (), w\<lparr>w_nodes := f (w_nodes w)\<rparr>)"

definition below :: "string list \<Rightarrow> string list \<times> node \<Rightarrow> bool" where
  "below q kv = prefix q (fst kv)"

text \<open>\<open>os.RemoveAll\<close>: nothing to remove is no error; a failure removes some of the tree.\<close>

definition remove_tree :: "string list \<Rightarrow> (string list, node) gomap \<Rightarrow> (string list, node) gomap" where
  "remove_tree q ns = filter (\<lambda>kv. \<not> below q kv) ns"

definition RemoveAll :: "'x io \<Rightarrow> string \<Rightarrow> ('x, unit) host_act" where
  "RemoveAll io p w =
     (case find_path (w_nodes w) False True p of
        Inl NotExist \<Rightarrow> (Inr (), w)
      | Inl e \<Rightarrow> (Inl (Sys e), w)
      | Inr q \<Rightarrow>
          (case io_fault io OpRemoveAll p of
             Some e \<Rightarrow> (Inl (Sys e), w\<lparr>w_nodes := filter (\<lambda>kv. \<not> below q kv \<or> io_kept io (fst kv)) (w_nodes w)\<rparr>)
           | None \<Rightarrow> set_nodes (remove_tree q) w))"

text \<open>\<open>os.Remove\<close>: a file, a link, or an empty directory.\<close>

definition remove_at :: "string list \<Rightarrow> ('x, unit) host_act" where
  "remove_at q w =
     (if q = [] then (Inl (Sys (Errno ''device or resource busy'')), w)
      else if list_ex (\<lambda>k. strict_prefix q k) (map fst (w_nodes w)) then (Inl (Sys (Errno ''directory not empty'')), w)
      else set_nodes (remove q) w)"

definition Remove :: "'x io \<Rightarrow> string \<Rightarrow> ('x, unit) host_act" where
  "Remove io p = with_fault io OpRemove p (on_path False False p remove_at)"

text \<open>\<open>os.MkdirAll\<close>: one directory after the other.\<close>

fun mkdirs :: "string list \<Rightarrow> string list \<Rightarrow> ('x, unit) host_act" where
  "mkdirs done [] w = (Inr (), w)"
| "mkdirs done (e # es) w =
     (case walk_path (w_nodes w) True False max_links [] (done @ [e]) of
        Inr q \<Rightarrow> if node_at (w_nodes w) q = Some Dir then mkdirs (done @ [e]) es w
                 else (Inl (Sys (Errno ''not a directory'')), w)
      | Inl NotExist \<Rightarrow>
          (case walk_path (w_nodes w) False True max_links [] (done @ [e]) of
             Inl x \<Rightarrow> (Inl (Sys x), w)
           | Inr q \<Rightarrow> if node_at (w_nodes w) q \<noteq> None then (Inl (Sys (Errno ''file exists'')), w)
                      else mkdirs (done @ [e]) es (w\<lparr>w_nodes := put q Dir (w_nodes w)\<rparr>))
      | Inl x \<Rightarrow> (Inl (Sys x), w))"

definition MkdirAll :: "'x io \<Rightarrow> string \<Rightarrow> ('x, unit) host_act" where
  "MkdirAll io p = with_fault io OpMkdir p (mkdirs [] (elements p))"

text \<open>A file that was not there gets an inode of its own.\<close>

definition fresh_inode :: "'x world \<Rightarrow> nat" where
  "fresh_inode w = Suc (fold max (map fst (w_data w) @ concat (map (\<lambda>kv. case snd kv of Reg i \<Rightarrow> [i] | _ \<Rightarrow> []) (w_nodes w))) 0)"

definition put_bytes :: "string \<Rightarrow> string list \<Rightarrow> ('x, unit) host_act" where
  "put_bytes b q w =
     (case node_at (w_nodes w) q of
        None \<Rightarrow> (let i = fresh_inode w
                 in (Inr (), w\<lparr>w_nodes := put q (Reg i) (w_nodes w), w_data := put i b (w_data w)\<rparr>))
      | Some (Reg i) \<Rightarrow> (Inr (), w\<lparr>w_data := put i b (w_data w)\<rparr>)
      | Some _ \<Rightarrow> (Inl (Sys (Errno ''not a regular file'')), w))"

text \<open>\<open>os.WriteFile\<close>: a link at the end is followed, and an existing file keeps its inode.\<close>

definition WriteFile :: "'x io \<Rightarrow> string \<Rightarrow> string \<Rightarrow> ('x, unit) host_act" where
  "WriteFile io p b = with_fault io OpWrite p (on_path True True p (put_bytes b))"

definition Chmod :: "'x io \<Rightarrow> string \<Rightarrow> ('x, unit) host_act" where
  "Chmod io p = with_fault io OpChmod p (on_path True False p (\<lambda>q. h_ret ()))"

definition chown_at :: "int \<Rightarrow> int \<Rightarrow> string list \<Rightarrow> ('x, unit) host_act" where
  "chown_at uid gid q w = (Inr (), w\<lparr>w_chowned := w_chowned w @ [(q, uid, gid)]\<rparr>)"

definition Chown :: "'x io \<Rightarrow> bool \<Rightarrow> string \<Rightarrow> int \<Rightarrow> int \<Rightarrow> ('x, unit) host_act" where
  "Chown io follow p uid gid = with_fault io OpChown p (on_path follow False p (chown_at uid gid))"

definition place :: "node \<Rightarrow> string list \<Rightarrow> ('x, unit) host_act" where
  "place k q w = (if node_at (w_nodes w) q \<noteq> None then (Inl (Sys (Errno ''file exists'')), w)
     else set_nodes (put q k) w)"

text \<open>\<open>os.Link\<close>: another name of an inode; directories have one name.\<close>

definition link_to :: "string \<Rightarrow> string list \<Rightarrow> ('x, unit) host_act" where
  "link_to target q w =
     (case node_at (w_nodes w) q of
        None \<Rightarrow> (Inl (Sys NotExist), w)
      | Some Dir \<Rightarrow> (Inl (Sys (Errno ''operation not permitted'')), w)
      | Some k \<Rightarrow> on_path False True target (place k) w)"

definition Hardlink :: "'x io \<Rightarrow> string \<Rightarrow> string \<Rightarrow> ('x, unit) host_act" where
  "Hardlink io old new = with_fault io OpLink new (on_path False False old (link_to new))"

definition Symlink :: "'x io \<Rightarrow> string \<Rightarrow> string \<Rightarrow> ('x, unit) host_act" where
  "Symlink io old new = with_fault io OpSymlink new (on_path False True new (place (Link old)))"

text \<open>\<open>os.Rename\<close>: a file replaces a file, a directory an empty directory.\<close>

definition move_tree :: "string list \<Rightarrow> string list \<Rightarrow> (string list, node) gomap \<Rightarrow> (string list, node) gomap" where
  "move_tree q d ns =
     map (\<lambda>kv. if below q kv then (d @ drop (length q) (fst kv), snd kv) else kv) (filter (\<lambda>kv. \<not> below d kv) ns)"

definition rename_to :: "string list \<Rightarrow> string list \<Rightarrow> ('x, unit) host_act" where
  "rename_to q d w =
     (if q = d then (Inr (), w)
      else if prefix q d \<or> q = [] then (Inl (Sys (Errno ''invalid argument'')), w)
      else if list_ex (\<lambda>k. strict_prefix d k) (map fst (w_nodes w)) then (Inl (Sys (Errno ''directory not empty'')), w)
      else (case node_at (w_nodes w) d of
              None \<Rightarrow> set_nodes (move_tree q d) w
            | Some k \<Rightarrow> if (k = Dir) = (node_at (w_nodes w) q = Some Dir) then set_nodes (move_tree q d) w
                        else (Inl (Sys (Errno ''file exists'')), w)))"

definition Rename :: "'x io \<Rightarrow> string \<Rightarrow> string \<Rightarrow> ('x, unit) host_act" where
  "Rename io old new = with_fault io OpRename new
     (on_path False False old (\<lambda>q. on_path False True new (rename_to q)))"

text \<open>
  The idiom of the helpers for replacing a file: a temporary file beside it that is renamed over it, and
  removed when anything fails.
\<close>

definition Dirname :: "string \<Rightarrow> string" where
  "Dirname p = slash_path (butlast (clean_elements p))"

definition replace_file :: "'x io \<Rightarrow> string \<Rightarrow> string \<Rightarrow> string \<Rightarrow> ('x, unit) host_act" where
  "replace_file io stem path b =
     (let temp = Join (Dirname path) (stem @ io_suffix io)
      in h_then (MkdirAll io (Dirname path))
           (h_then (with_fault io OpCreate temp (on_path False True temp (\<lambda>q w.
               if node_at (w_nodes w) q \<noteq> None then (Inl (Sys (Errno ''file exists'')), w) else put_bytes [] q w)))
             (h_try (h_then (Chmod io temp) (h_then (WriteFile io temp b) (Rename io temp path)))
               (\<lambda>r. h_ignore (Remove io temp) (case r of Inl e \<Rightarrow> h_fail e | Inr _ \<Rightarrow> h_ret ())))))"

subsection \<open>Programs\<close>

text \<open>Run a program: whether it succeeded, and its output.\<close>

definition h_exec :: "'x io \<Rightarrow> string list \<Rightarrow> ('x, bool \<times> string) host_act" where
  "h_exec io argv w =
     (case io_run io argv (w_ext w) of (r, x) \<Rightarrow> (Inr r, w\<lparr>w_ext := x, w_ran := w_ran w @ [argv]\<rparr>))"

definition h_run :: "'x io \<Rightarrow> string list \<Rightarrow> ('x, string) host_act" where
  "h_run io argv = h_bind (h_exec io argv) (\<lambda>(ok, out).
     if ok then h_ret out else h_fail (Command (hd argv) (trim_space out)))"

end
