(* ===== verification/GoJsonDecode.thy ===== *)
theory GoJsonDecode
  imports GoJson
begin

text \<open>
  What the program uses of \<open>encoding/json\<close> for reading: the grammar of values, the unquoting of strings
  (escapes, surrogate pairs, U+FFFD for bytes that are not UTF-8), and the decoding of an object into a
  struct with string and integer fields. Numbers keep their text (\<open>JNum\<close>). The recursion takes fuel;
  twice the length of the input is enough, as of two calls in a row one follows a byte that was read. The
  limit of 10000 on the nesting is above what the bounded inputs of the callers can hold.
\<close>

subsection \<open>UTF-8\<close>

definition cont_byte :: "nat \<Rightarrow> nat \<Rightarrow> char \<Rightarrow> bool" where
  "cont_byte lo hi c \<longleftrightarrow> lo \<le> code c \<and> code c \<le> hi"

text \<open>The number of bytes of the rune at the head, 0 if the bytes there are not one.\<close>

definition rune_len :: "string \<Rightarrow> nat" where
  "rune_len s =
     (case s of [] \<Rightarrow> 0
      | a # t \<Rightarrow>
          if code a < 0x80 then 1
          else if 0xC2 \<le> code a \<and> code a \<le> 0xDF
          then (case t of b # _ \<Rightarrow> if cont_byte 0x80 0xBF b then 2 else 0 | _ \<Rightarrow> 0)
          else if 0xE0 \<le> code a \<and> code a \<le> 0xEF
          then (case t of b # c # _ \<Rightarrow>
                  if cont_byte (if code a = 0xE0 then 0xA0 else 0x80) (if code a = 0xED then 0x9F else 0xBF) b \<and>
                     cont_byte 0x80 0xBF c then 3 else 0 | _ \<Rightarrow> 0)
          else if 0xF0 \<le> code a \<and> code a \<le> 0xF4
          then (case t of b # c # d # _ \<Rightarrow>
                  if cont_byte (if code a = 0xF0 then 0x90 else 0x80) (if code a = 0xF4 then 0x8F else 0xBF) b \<and>
                     cont_byte 0x80 0xBF c \<and> cont_byte 0x80 0xBF d then 4 else 0 | _ \<Rightarrow> 0)
          else 0)"

lemma rune_len_le: "rune_len s \<le> length s"
  by (auto simp: rune_len_def split: list.splits)

lemma list_shape: "(s = [] \<Longrightarrow> P) \<Longrightarrow> (\<And>a. s = [a] \<Longrightarrow> P) \<Longrightarrow> (\<And>a b. s = [a, b] \<Longrightarrow> P) \<Longrightarrow>
    (\<And>a b c. s = [a, b, c] \<Longrightarrow> P) \<Longrightarrow> (\<And>a b c d r. s = a # b # c # d # r \<Longrightarrow> P) \<Longrightarrow> P"
  by (metis list.exhaust)

lemma rune_len_append: "0 < rune_len s \<Longrightarrow> rune_len (s @ t) = rune_len s"
  by (rule list_shape [of s]) (simp_all add: rune_len_def split: if_split_asm)

function valid_utf8 :: "string \<Rightarrow> bool" where
  "valid_utf8 s = (if s = [] then True else if rune_len s = 0 then False else valid_utf8 (drop (rune_len s) s))"
  by pat_completeness auto
termination
  by (relation "measure length") simp_all

declare valid_utf8.simps [simp del]

definition utf8_bytes :: "nat \<Rightarrow> nat list" where
  "utf8_bytes r =
     (if r < 0x80 then [r]
      else if r < 0x800 then [0xC0 + r div 64, 0x80 + r mod 64]
      else if r < 0x10000 then [0xE0 + r div 4096, 0x80 + r div 64 mod 64, 0x80 + r mod 64]
      else [0xF0 + r div 262144, 0x80 + r div 4096 mod 64, 0x80 + r div 64 mod 64, 0x80 + r mod 64])"

definition utf8_text :: "nat \<Rightarrow> string" where
  "utf8_text r = map char_of (utf8_bytes r)"

definition replacement :: string where
  "replacement = [CHR 0xEF, CHR 0xBF, CHR 0xBD]"

subsection \<open>Strings\<close>

definition hex_val :: "char \<Rightarrow> nat" where
  "hex_val c = (if is_digit c then code c - 48 else if is_lower c then code c - 87 else code c - 55)"

definition read_hex4 :: "string \<Rightarrow> (nat \<times> string) option" where
  "read_hex4 s =
     (if 4 \<le> length s \<and> list_all is_hex (take 4 s)
      then Some (foldl (\<lambda>n c. 16 * n + hex_val c) 0 (take 4 s), drop 4 s) else None)"

definition simple_escape :: "char \<Rightarrow> char option" where
  "simple_escape c = lookup [(CHR 0x22, CHR 0x22), (CHR 0x5C, CHR 0x5C), (CHR ''/'', CHR ''/''), (CHR ''b'', CHR 0x08),
     (CHR ''f'', CHR 0x0C), (CHR ''n'', CHR 0x0A), (CHR ''r'', CHR 0x0D), (CHR ''t'', CHR 0x09)] c"

text \<open>The low half of a surrogate pair, if the text goes on with one.\<close>

definition low_surrogate :: "string \<Rightarrow> (nat \<times> string) option" where
  "low_surrogate s =
     (case s of b # u # t \<Rightarrow>
        if b = CHR 0x5C \<and> u = CHR ''u''
        then (case read_hex4 t of Some (r, t2) \<Rightarrow> if 0xDC00 \<le> r \<and> r < 0xE000 then Some (r, t2) else None | None \<Rightarrow> None)
        else None
      | _ \<Rightarrow> None)"

text \<open>The text of the escape after a backslash, and what follows it.\<close>

definition unescape :: "string \<Rightarrow> (string \<times> string) option" where
  "unescape s =
     (case s of [] \<Rightarrow> None
      | e # t \<Rightarrow>
          (case simple_escape e of
             Some d \<Rightarrow> Some ([d], t)
           | None \<Rightarrow>
               if e \<noteq> CHR ''u'' then None
               else case read_hex4 t of
                 None \<Rightarrow> None
               | Some (r, t2) \<Rightarrow>
                   if r < 0xD800 \<or> 0xE000 \<le> r then Some (utf8_text r, t2)
                   else if r < 0xDC00
                   then (case low_surrogate t2 of
                           Some (q, t3) \<Rightarrow> Some (utf8_text (0x10000 + (r - 0xD800) * 1024 + (q - 0xDC00)), t3)
                         | None \<Rightarrow> Some (replacement, t2))
                   else Some (replacement, t2)))"

lemma read_hex4_length: "read_hex4 s = Some (r, t) \<Longrightarrow> length t < length s"
  by (auto simp: read_hex4_def split: if_splits)

lemma low_surrogate_length: "low_surrogate s = Some (r, t) \<Longrightarrow> length t < length s"
  by (auto simp: low_surrogate_def split: list.splits if_splits option.splits dest!: read_hex4_length)

lemma unescape_length: "unescape s = Some (w, t) \<Longrightarrow> length t < length s"
  by (auto simp: unescape_def split: list.splits if_splits option.splits
      dest!: read_hex4_length low_surrogate_length)

text \<open>A string literal after its opening quote.\<close>

function read_string :: "string \<Rightarrow> (string \<times> string) option" where
  "read_string [] = None"
| "read_string (c # s) =
     (if c = CHR 0x22 then Some ([], s)
      else if c = CHR 0x5C
      then (case unescape s of None \<Rightarrow> None
            | Some (w, t) \<Rightarrow> map_option (\<lambda>(v, r). (w @ v, r)) (read_string t))
      else if code c < 32 then None
      else if rune_len (c # s) = 0 then map_option (\<lambda>(v, r). (replacement @ v, r)) (read_string s)
      else map_option (\<lambda>(v, r). (take (rune_len (c # s)) (c # s) @ v, r)) (read_string (drop (rune_len (c # s)) (c # s))))"
  by pat_completeness auto
termination
proof (relation "measure length")
  fix c s x w t
  assume "unescape s = Some x" and "(w, t) = x"
  then show "(t, c # s) \<in> measure length" using unescape_length [of s w t] by simp
next
  fix c and s :: string
  assume "rune_len (c # s) \<noteq> 0"
  then have "length (drop (rune_len (c # s)) (c # s)) < length (c # s)"
    by (simp only: length_drop list.size)
  then show "(drop (rune_len (c # s)) (c # s), c # s) \<in> measure length" by (simp only: in_measure)
qed (simp_all only: wf_measure in_measure, simp)

declare read_string.simps [simp del]

subsection \<open>Values\<close>

definition json_space :: "char \<Rightarrow> bool" where
  "json_space c \<longleftrightarrow> c \<in> {CHR 0x20, CHR 0x09, CHR 0x0A, CHR 0x0D}"

definition skip_ws :: "string \<Rightarrow> string" where
  "skip_ws s = dropWhile json_space s"

definition digits_len :: "string \<Rightarrow> nat" where
  "digits_len s = length (takeWhile is_digit s)"

text \<open>The fraction and the exponent: \<open>None\<close> when they are cut off, their length otherwise.\<close>

definition frac_len :: "string \<Rightarrow> nat option" where
  "frac_len s =
     (case s of c # t \<Rightarrow> if c \<noteq> CHR ''.'' then Some 0 else if digits_len t = 0 then None else Some (Suc (digits_len t))
      | [] \<Rightarrow> Some 0)"

definition exp_len :: "string \<Rightarrow> nat option" where
  "exp_len s =
     (case s of c # t \<Rightarrow>
        if c \<notin> {CHR ''e'', CHR ''E''} then Some 0
        else (let sg = (case t of d # _ \<Rightarrow> if d \<in> {CHR ''+'', CHR ''-''} then 1 else 0 | [] \<Rightarrow> 0);
                  n = digits_len (drop sg t)
              in if n = 0 then None else Some (Suc (sg + n)))
      | [] \<Rightarrow> Some 0)"

definition int_len :: "string \<Rightarrow> nat option" where
  "int_len s =
     (case s of c # t \<Rightarrow> if c = CHR ''0'' then Some 1 else if is_digit c then Some (Suc (digits_len t)) else None
      | [] \<Rightarrow> None)"

definition number_len :: "string \<Rightarrow> nat option" where
  "number_len s =
     (let sg = (case s of c # _ \<Rightarrow> if c = CHR ''-'' then 1 else 0 | [] \<Rightarrow> 0)
      in case int_len (drop sg s) of None \<Rightarrow> None
         | Some i \<Rightarrow> (case frac_len (drop (sg + i) s) of None \<Rightarrow> None
             | Some f \<Rightarrow> (case exp_len (drop (sg + i + f) s) of None \<Rightarrow> None
                 | Some x \<Rightarrow> Some (sg + i + f + x))))"

definition read_word :: "string \<Rightarrow> json \<Rightarrow> string \<Rightarrow> (json \<times> string) option" where
  "read_word w v s = (if has_prefix s w then Some (v, drop (length w) s) else None)"

fun read_value :: "nat \<Rightarrow> string \<Rightarrow> (json \<times> string) option"
and read_elements :: "nat \<Rightarrow> string \<Rightarrow> (json list \<times> string) option"
and read_members :: "nat \<Rightarrow> string \<Rightarrow> ((string \<times> json) list \<times> string) option" where
  "read_value 0 s = None"
| "read_value (Suc n) s =
     (case skip_ws s of
        [] \<Rightarrow> None
      | c # t \<Rightarrow>
          if c = CHR ''{''
          then (if has_prefix (skip_ws t) ''}'' then Some (JObj [], tl (skip_ws t))
                else map_option (\<lambda>(kvs, r). (JObj kvs, r)) (read_members n t))
          else if c = CHR ''[''
          then (if has_prefix (skip_ws t) '']'' then Some (JArr [], tl (skip_ws t))
                else map_option (\<lambda>(vs, r). (JArr vs, r)) (read_elements n t))
          else if c = CHR 0x22 then map_option (\<lambda>(v, r). (JStr v, r)) (read_string t)
          else if c = CHR ''t'' then read_word ''true'' (JBool True) (c # t)
          else if c = CHR ''f'' then read_word ''false'' (JBool False) (c # t)
          else if c = CHR ''n'' then read_word ''null'' JNull (c # t)
          else map_option (\<lambda>k. (JNum (take k (c # t)), drop k (c # t))) (number_len (c # t)))"
| "read_elements 0 s = None"
| "read_elements (Suc n) s =
     (case read_value n s of
        None \<Rightarrow> None
      | Some (v, r) \<Rightarrow>
          (case skip_ws r of
             [] \<Rightarrow> None
           | c # t \<Rightarrow> if c = CHR '','' then map_option (\<lambda>(vs, u). (v # vs, u)) (read_elements n t)
                      else if c = CHR '']'' then Some ([v], t) else None))"
| "read_members 0 s = None"
| "read_members (Suc n) s =
     (case skip_ws s of
        [] \<Rightarrow> None
      | q # s1 \<Rightarrow>
          if q \<noteq> CHR 0x22 then None
          else case read_string s1 of
            None \<Rightarrow> None
          | Some (k, s2) \<Rightarrow>
              (case skip_ws s2 of
                 [] \<Rightarrow> None
               | d # s3 \<Rightarrow>
                   if d \<noteq> CHR '':'' then None
                   else case read_value n s3 of
                     None \<Rightarrow> None
                   | Some (v, r) \<Rightarrow>
                       (case skip_ws r of
                          [] \<Rightarrow> None
                        | c # t \<Rightarrow> if c = CHR '','' then map_option (\<lambda>(kvs, u). ((k, v) # kvs, u)) (read_members n t)
                                   else if c = CHR ''}'' then Some ([(k, v)], t) else None)))"

text \<open>\<open>Decoder.Decode\<close>: one value and the rest of the stream; then nothing but white space may follow.\<close>

definition decode_value :: "string \<Rightarrow> (json \<times> string) option" where
  "decode_value s = read_value (Suc (2 * length s)) s"

definition decode_single :: "string \<Rightarrow> json option" where
  "decode_single s = (case decode_value s of Some (v, r) \<Rightarrow> if skip_ws r = [] then Some v else None | None \<Rightarrow> None)"

subsection \<open>Structs\<close>

text \<open>
  A member sets the field whose name it equals up to case; the last one wins, and null leaves a field as
  it is. With \<open>DisallowUnknownFields\<close> a member without a field is an error (\<open>strict\<close>). A struct is its
  list of fields, each with how its value is set (\<open>None\<close>: the value has another type).
\<close>

definition set_string :: "(string \<Rightarrow> 'a \<Rightarrow> 'a) \<Rightarrow> json \<Rightarrow> 'a \<Rightarrow> 'a option" where
  "set_string f v r = (case v of JStr s \<Rightarrow> Some (f s r) | JNull \<Rightarrow> Some r | _ \<Rightarrow> None)"

definition set_bool :: "(bool \<Rightarrow> 'a \<Rightarrow> 'a) \<Rightarrow> json \<Rightarrow> 'a \<Rightarrow> 'a option" where
  "set_bool f v r = (case v of JBool b \<Rightarrow> Some (f b r) | JNull \<Rightarrow> Some r | _ \<Rightarrow> None)"

text \<open>An \<open>int\<close> field takes a number without fraction and exponent that fits.\<close>

definition set_int :: "(int \<Rightarrow> 'a \<Rightarrow> 'a) \<Rightarrow> json \<Rightarrow> 'a \<Rightarrow> 'a option" where
  "set_int f v r = (case v of JNum t \<Rightarrow> (case atoi t of (z, ok) \<Rightarrow> if ok then Some (f z r) else None)
     | JNull \<Rightarrow> Some r | _ \<Rightarrow> None)"

text \<open>A slice: null makes it nil, and a value of the wrong type among its elements is an error.\<close>

fun read_list :: "(json \<Rightarrow> 'b option) \<Rightarrow> json list \<Rightarrow> 'b list option" where
  "read_list f [] = Some []"
| "read_list f (v # vs) = (case (f v, read_list f vs) of (Some x, Some xs) \<Rightarrow> Some (x # xs) | _ \<Rightarrow> None)"

definition set_list :: "(json \<Rightarrow> 'b option) \<Rightarrow> ('b list \<Rightarrow> 'a \<Rightarrow> 'a) \<Rightarrow> json \<Rightarrow> 'a \<Rightarrow> 'a option" where
  "set_list f g v r = (case v of JArr vs \<Rightarrow> map_option (\<lambda>xs. g xs r) (read_list f vs) | JNull \<Rightarrow> Some (g [] r) | _ \<Rightarrow> None)"

definition read_text :: "json \<Rightarrow> string option" where
  "read_text v = (case v of JStr s \<Rightarrow> Some s | JNull \<Rightarrow> Some '''' | _ \<Rightarrow> None)"

type_synonym 'a fields = "(string \<times> (json \<Rightarrow> 'a \<Rightarrow> 'a option)) list"

fun set_members :: "bool \<Rightarrow> 'a fields \<Rightarrow> (string \<times> json) list \<Rightarrow> 'a \<Rightarrow> 'a option" where
  "set_members strict fs [] r = Some r"
| "set_members strict fs ((k, v) # kvs) r =
     (case find (\<lambda>f. equal_fold k (fst f)) fs of
        None \<Rightarrow> if strict then None else set_members strict fs kvs r
      | Some f \<Rightarrow> (case snd f v r of None \<Rightarrow> None | Some r1 \<Rightarrow> set_members strict fs kvs r1))"

definition decode_struct :: "bool \<Rightarrow> 'a fields \<Rightarrow> 'a \<Rightarrow> json \<Rightarrow> 'a option" where
  "decode_struct strict fs zero v = (case v of JObj kvs \<Rightarrow> set_members strict fs kvs zero | JNull \<Rightarrow> Some zero | _ \<Rightarrow> None)"

subsection \<open>Reading what was written\<close>

lemma code_inj: "code c = code d \<longleftrightarrow> c = d"
  by (simp add: code_def)

lemma char_of_code [simp]: "char_of (code c) = c"
  by (simp add: code_def)

lemma hex_val_hex_digit: "d < 16 \<Longrightarrow> is_hex (hex_digit d) \<and> hex_val (hex_digit d) = d"
proof -
  assume "d < 16"
  then have "d \<in> set [0..<16]" by simp
  moreover have "\<forall>d \<in> set [0..<16]. is_hex (hex_digit d) \<and> hex_val (hex_digit d) = d" by code_simp
  ultimately show ?thesis by blast
qed

lemma take4: "take 4 (a # b # c # d # t) = [a, b, c, d]" and drop4: "drop 4 (a # b # c # d # t) = t"
  by (simp_all add: eval_nat_numeral)

lemma read_hex4_quoted: "n < 128 \<Longrightarrow> read_hex4 (CHR ''0'' # CHR ''0'' # hex_digit (n div 16) # hex_digit (n mod 16) # t) = Some (n, t)"
proof -
  assume "n < 128"
  then have d: "n div 16 < 16" "n mod 16 < 16" by auto
  have z: "is_hex CHR ''0'' \<and> hex_val CHR ''0'' = 0" by code_simp
  have "(n div 16) * 16 + n mod 16 = n" by simp
  with d z hex_val_hex_digit show ?thesis by (simp add: read_hex4_def take4 drop4 mult.commute)
qed

definition put_front :: "string \<Rightarrow> (string \<times> string) option \<Rightarrow> (string \<times> string) option" where
  "put_front w = map_option (\<lambda>(v, r). (w @ v, r))"

lemma put_front_simps [simp]: "put_front w (Some (v, r)) = Some (w @ v, r)" "put_front w None = None"
  by (simp_all add: put_front_def)

lemma read_backslash: "unescape s = Some (w, t) \<Longrightarrow> read_string (CHR 0x5C # s) = put_front w (read_string t)"
  by (simp add: read_string.simps put_front_def)

lemma read_escape_char:
  assumes "code a < 128"
  shows "read_string (escape_char a @ t) = put_front [a] (read_string t)"
proof (cases "a = CHR 0x22 \<or> a = CHR 0x5C \<or> a = CHR 0x08 \<or> a = CHR 0x0C \<or> a = CHR 0x0A \<or> a = CHR 0x0D \<or> a = CHR 0x09")
  case True
  then show ?thesis
    by (elim disjE) (simp_all add: escape_char_def read_backslash unescape_def simple_escape_def)
next
  case plain: False
  show ?thesis
  proof (cases "code a < 32 \<or> a \<in> {CHR ''<'', CHR ''>'', CHR ''&''}")
    case True
    have "simple_escape CHR ''u'' = None" by code_simp
    moreover have "utf8_text (code a) = [a]" using assms by (simp add: utf8_text_def utf8_bytes_def)
    ultimately have "unescape (CHR ''u'' # CHR ''0'' # CHR ''0'' # hex_digit (code a div 16) # hex_digit (code a mod 16) # t) = Some ([a], t)"
      using assms by (simp add: unescape_def read_hex4_quoted)
    moreover have "escape_char a = CHR 0x5C # CHR ''u'' # CHR ''0'' # CHR ''0'' # hex_digit (code a div 16) # hex_digit (code a mod 16) # []"
      using True plain by (simp add: escape_char_def quoted_hex_def)
    ultimately show ?thesis by (simp add: read_backslash)
  next
    case False
    with plain have "escape_char a = [a]" by (simp add: escape_char_def)
    moreover have "rune_len (a # t) = 1" using assms by (simp add: rune_len_def)
    ultimately show ?thesis using plain False by (simp add: read_string.simps put_front_def)
  qed
qed

lemma escape_high:
  assumes "128 \<le> code a" shows "escape_char a = [a]"
proof -
  let ?cs = "[CHR 0x22, CHR 0x5C, CHR 0x08, CHR 0x0C, CHR 0x0A, CHR 0x0D, CHR 0x09, CHR ''<'', CHR ''>'', CHR ''&'']"
  have "list_all (\<lambda>c. code c < 128) ?cs" by code_simp
  with assms have "a \<notin> set ?cs" by (metis list_all_iff not_less)
  with assms show ?thesis by (simp add: escape_char_def)
qed

lemma escape_step:
  "\<not> (a = CHR 0xE2 \<and> has_prefix s [CHR 0x80, CHR 0xA8]) \<Longrightarrow> \<not> (a = CHR 0xE2 \<and> has_prefix s [CHR 0x80, CHR 0xA9]) \<Longrightarrow>
    escape (a # s) = escape_char a @ escape s"
  by (auto split: list.splits)

lemma escape_cont: "128 \<le> code a \<Longrightarrow> a \<noteq> CHR 0xE2 \<Longrightarrow> escape (a # s) = a # escape s"
  by (subst escape_step) (simp_all add: escape_high)

lemma code_E2: "a = CHR 0xE2 \<longleftrightarrow> code a = 0xE2"
proof -
  have "code (CHR 0xE2) = 0xE2" by code_simp
  then show ?thesis by (metis code_inj)
qed

text \<open>A rune as a multi-byte sequence whose later bytes are continuations.\<close>

lemma rune_shape:
  assumes "rune_len (a # t) = Suc n" "128 \<le> code a"
  obtains w r where "t = w @ r" "length w = n" "\<forall>c \<in> set w. 128 \<le> code c \<and> code c \<le> 0xBF"
proof -
  from assms have "\<forall>c \<in> set (take n t). 128 \<le> code c \<and> code c \<le> 0xBF" "n \<le> length t"
    by (auto simp: rune_len_def cont_byte_def split: list.splits if_splits)
  then show thesis using that [of "take n t" "drop n t"] by simp
qed

lemma rune_len_take: "0 < rune_len s \<Longrightarrow> rune_len (take (rune_len s) s) = rune_len s"
  by (rule list_shape [of s]) (simp_all add: rune_len_def split: if_split_asm)

lemma rune_len_front: "rune_len (u @ r) = length u \<Longrightarrow> u \<noteq> [] \<Longrightarrow> rune_len (u @ x) = length u"
  using rune_len_take [of "u @ r"] rune_len_append [of u x] by simp

lemma escape_conts: "\<forall>c \<in> set w. 128 \<le> code c \<and> code c \<le> 0xBF \<Longrightarrow> escape (w @ r) = w @ escape r"
proof (induction w)
  case (Cons c w)
  then have "128 \<le> code c" "c \<noteq> CHR 0xE2" by (auto simp: code_E2)
  with Cons show ?case by (simp add: escape_cont del: escape.simps)
qed simp

lemma read_rune:
  assumes "rune_len (u @ r) = length u" "u \<noteq> []" "128 \<le> code (hd u)"
  shows "read_string (u @ x) = put_front u (read_string x)"
proof -
  obtain a w where u: "u = a # w" using assms(2) by (cases u) auto
  with assms(3) have a: "128 \<le> code a" by simp
  then have "a \<noteq> CHR 0x22" "a \<noteq> CHR 0x5C" using escape_high [OF a] by (auto simp: escape_char_def)
  with a u rune_len_front [OF assms(1,2), of x] show ?thesis
    by (simp add: read_string.simps(2) put_front_def)
qed

lemma escape_wide:
  assumes "rune_len (u @ r) = length u" "u \<noteq> []" "128 \<le> code (hd u)"
  shows "read_string (escape (u @ r) @ x) = put_front u (read_string (escape r @ x))"
proof (cases "u \<in> {[CHR 0xE2, CHR 0x80, CHR 0xA8], [CHR 0xE2, CHR 0x80, CHR 0xA9]}")
  case True
  have "unescape (''u2028'' @ t) = Some ([CHR 0xE2, CHR 0x80, CHR 0xA8], t)"
       "unescape (''u2029'' @ t) = Some ([CHR 0xE2, CHR 0x80, CHR 0xA9], t)" for t
  proof -
    have "simple_escape CHR ''u'' = None" "list_all is_hex ''2028''" "list_all is_hex ''2029''"
      by code_simp+
    moreover have "foldl (\<lambda>n c. 16 * n + hex_val c) 0 ''2028'' = 0x2028" "foldl (\<lambda>n c. 16 * n + hex_val c) 0 ''2029'' = 0x2029"
      by (simp_all add: hex_val_def in_range_def code_def)
    moreover have "utf8_text 0x2028 = [CHR 0xE2, CHR 0x80, CHR 0xA8]" "utf8_text 0x2029 = [CHR 0xE2, CHR 0x80, CHR 0xA9]"
      by (simp_all add: utf8_text_def utf8_bytes_def char_of_def bit_0)
    ultimately show "unescape (''u2028'' @ t) = Some ([CHR 0xE2, CHR 0x80, CHR 0xA8], t)"
       "unescape (''u2029'' @ t) = Some ([CHR 0xE2, CHR 0x80, CHR 0xA9], t)"
      by (simp_all add: unescape_def read_hex4_def take4 drop4)
  qed
  note un = this
  have e: "escape ([CHR 0xE2, CHR 0x80, CHR 0xA8] @ r) @ x = CHR 0x5C # ''u2028'' @ escape r @ x"
    "escape ([CHR 0xE2, CHR 0x80, CHR 0xA9] @ r) @ x = CHR 0x5C # ''u2029'' @ escape r @ x" by simp_all
  from True consider (a) "u = [CHR 0xE2, CHR 0x80, CHR 0xA8]" | (b) "u = [CHR 0xE2, CHR 0x80, CHR 0xA9]" by blast
  then show ?thesis
  proof cases
    case a
    show ?thesis unfolding a e by (rule read_backslash [OF un(1)])
  next
    case b
    show ?thesis unfolding b e by (rule read_backslash [OF un(2)])
  qed
next
  case False
  obtain a w where u: "u = a # w" using assms(2) by (cases u) auto
  with assms have a: "128 \<le> code a" and n: "rune_len (a # w @ r) = Suc (length w)" by auto
  from rune_shape [OF n a] obtain w' r' where "w @ r = w' @ r'" "length w' = length w"
    and c: "\<forall>c \<in> set w'. 128 \<le> code c \<and> code c \<le> 0xBF" by metis
  then have w: "w' = w" by auto
  have "escape (a # w @ r) = a # w @ escape r"
  proof (cases "a = CHR 0xE2")
    case True
    with n have "length w = 2"
      by (auto simp: rune_len_def code_def split: list.splits if_splits)
    then obtain b d where "w = [b, d]" by (auto simp: numeral_2_eq_2 length_Suc_conv)
    with False u True have "escape (a # w @ r) = escape_char a @ escape (w @ r)"
      by (intro escape_step) auto
    then show ?thesis using a c w by (simp add: escape_high escape_conts)
  qed (use a c w in \<open>simp add: escape_cont escape_conts del: escape.simps\<close>)
  then show ?thesis using read_rune [OF assms, of "escape r @ x"] u by simp
qed

lemma read_escape: "valid_utf8 s \<Longrightarrow> read_string (escape s @ CHR 0x22 # x) = Some (s, x)"
proof (induction s rule: valid_utf8.induct)
  case (1 s)
  show ?case
  proof (cases "s = []")
    case True
    then show ?thesis by (simp add: read_string.simps)
  next
    case False
    with 1(2) have v: "rune_len s \<noteq> 0" "valid_utf8 (drop (rune_len s) s)"
      by (auto simp: valid_utf8.simps [of s] split: if_splits)
    with 1(1) False have IH: "read_string (escape (drop (rune_len s) s) @ CHR 0x22 # x) = Some (drop (rune_len s) s, x)" by blast
    obtain a t where s: "s = a # t" using False by (cases s) auto
    show ?thesis
    proof (cases "code a < 128")
      case True
      then have n: "rune_len s = 1" by (simp add: s rune_len_def)
      have "escape s = escape_char a @ escape t"
        unfolding s by (rule escape_step) (use True code_E2 [of a] in auto)
      with IH n True show ?thesis by (simp add: s read_escape_char del: escape.simps)
    next
      case False
      let ?u = "take (rune_len s) s" and ?r = "drop (rune_len s) s"
      have "length ?u = rune_len s" using rune_len_le [of s] by simp
      moreover have "?u \<noteq> []" "128 \<le> code (hd ?u)" using v(1) s False by (cases "rune_len s", auto)+
      ultimately have "read_string (escape (?u @ ?r) @ CHR 0x22 # x) = put_front ?u (read_string (escape ?r @ CHR 0x22 # x))"
        by (intro escape_wide) simp_all
      with IH show ?thesis by simp
    qed
  qed
qed

text \<open>
  What a written value reads as: a number is its text. Values a Go program writes have valid UTF-8 in their
  strings and keys.
\<close>

fun read_back :: "json \<Rightarrow> json" where
  "read_back (JInt z) = JNum (itoa z)"
| "read_back (JArr vs) = JArr (map read_back vs)"
| "read_back (JObj kvs) = JObj (map (\<lambda>(k, v). (k, read_back v)) kvs)"
| "read_back v = v"

fun writable :: "json \<Rightarrow> bool" where
  "writable (JStr s) = valid_utf8 s"
| "writable (JNum t) = False"
| "writable (JArr vs) = list_all writable vs"
| "writable (JObj kvs) = list_all (\<lambda>(k, v). valid_utf8 k \<and> writable v) kvs"
| "writable v = True"


text \<open>The text of a value is followed by a byte that does not extend a number.\<close>

definition ends_number :: "string \<Rightarrow> bool" where
  "ends_number r \<longleftrightarrow> (case r of [] \<Rightarrow> True | c # _ \<Rightarrow> \<not> is_digit c \<and> c \<notin> {CHR ''.'', CHR ''e'', CHR ''E''})"

lemma takeWhile_digits: "list_all p ds \<Longrightarrow> (case r of [] \<Rightarrow> True | c # _ \<Rightarrow> \<not> p c) \<Longrightarrow> takeWhile p (ds @ r) = ds"
  by (induction ds) (auto split: list.splits)

lemma itoa_nat_lead: "0 < n \<Longrightarrow> hd (itoa_nat n) \<noteq> CHR ''0''"
proof (induction n rule: itoa_nat.induct)
  case (1 n)
  show ?case
  proof (cases "n < 10")
    case True
    with 1(2) have "n \<in> set [1..<10]" by simp
    moreover have "\<forall>n \<in> set [1..<10]. digit_char n \<noteq> CHR ''0''" by code_simp
    ultimately show ?thesis using True by (simp add: itoa_nat.simps [of n])
  next
    case False
    with 1 show ?thesis by (simp add: itoa_nat.simps [of n])
  qed
qed

lemma number_itoa_nat: "ends_number r \<Longrightarrow> int_len (itoa_nat n @ r) = Some (length (itoa_nat n))"
proof (cases "n = 0")
  case True
  have "digit_char 0 = CHR ''0''" by code_simp
  with True show ?thesis by (simp add: itoa_nat.simps int_len_def)
next
  case False
  assume "ends_number r"
  then have r: "case r of [] \<Rightarrow> True | c # _ \<Rightarrow> \<not> is_digit c" by (auto simp: ends_number_def split: list.splits)
  obtain c ds where n: "itoa_nat n = c # ds" by (cases "itoa_nat n") auto
  with itoa_nat_digits [of n] itoa_nat_lead [of n] False have "is_digit c" "list_all is_digit ds" "c \<noteq> CHR ''0''" by auto
  with takeWhile_digits [OF _ r, of ds] show ?thesis by (simp add: n int_len_def digits_len_def)
qed

lemma number_itoa: "ends_number r \<Longrightarrow> number_len (itoa z @ r) = Some (length (itoa z))"
proof -
  assume r: "ends_number r"
  then have "frac_len r = Some 0" "exp_len r = Some 0"
    by (auto simp: ends_number_def frac_len_def exp_len_def split: list.splits)
  moreover obtain c ds where n: "itoa_nat (nat z) = c # ds" by (cases "itoa_nat (nat z)") auto
  then have "c \<noteq> CHR ''-''" using itoa_nat_digits [of "nat z"] by (auto simp: in_range_def code_def)
  moreover have "int_len (c # ds @ r) = Some (Suc (length ds))" using number_itoa_nat [OF r, of "nat z"] n by simp
  ultimately show ?thesis using number_itoa_nat [OF r] n
    by (cases "z < 0") (auto simp: number_len_def itoa_def)
qed

lemma itoa_head: "\<exists>c t. itoa z = c # t \<and> (c = CHR ''-'' \<or> is_digit c)"
proof (cases "z < 0")
  case False
  obtain c t where "itoa_nat (nat z) = c # t" by (cases "itoa_nat (nat z)") auto
  with False itoa_nat_digits [of "nat z"] show ?thesis by (auto simp: itoa_def)
qed (simp add: itoa_def)

lemma skip_ws_Cons: "\<not> json_space c \<Longrightarrow> skip_ws (c # t) = c # t"
  by (simp add: skip_ws_def)

text \<open>The text \<open>t\<close> reads as the value \<open>v\<close>, whatever follows that does not extend a number.\<close>

definition reads :: "string \<Rightarrow> json \<Rightarrow> bool" where
  "reads t v \<longleftrightarrow> (\<forall>n r. 2 * length t < n \<longrightarrow> ends_number r \<longrightarrow> read_value n (t @ r) = Some (v, r))"

lemma readsD: "reads t v \<Longrightarrow> 2 * length t < n \<Longrightarrow> ends_number r \<Longrightarrow> read_value n (t @ r) = Some (v, r)"
  by (simp add: reads_def)

lemma readsI: "(\<And>m r. 2 * length t \<le> m \<Longrightarrow> ends_number r \<Longrightarrow> read_value (Suc m) (t @ r) = Some (v, r)) \<Longrightarrow> reads t v"
  unfolding reads_def by (metis less_Suc_eq_le not_less_zero old.nat.exhaust)

lemma skip_ws_append: "list_all json_space w \<Longrightarrow> skip_ws (w @ s) = skip_ws s"
  by (induction w) (auto simp: skip_ws_def)

lemma reads_ws: "list_all json_space w \<Longrightarrow> reads t v \<Longrightarrow> reads (w @ t) v"
proof (rule readsI)
  fix m r
  assume w: "list_all json_space w" and t: "reads t v" and m: "2 * length (w @ t) \<le> m" and r: "ends_number r"
  from w have "read_value (Suc m) ((w @ t) @ r) = read_value (Suc m) (t @ r)" by (simp add: skip_ws_append)
  also have "\<dots> = Some (v, r)" using t m r by (intro readsD) auto
  finally show "read_value (Suc m) ((w @ t) @ r) = Some (v, r)" .
qed

lemma reads_head:
  assumes "reads t v"
  obtains c u where "skip_ws t = c # u" "c \<noteq> CHR '']''" "c \<noteq> CHR ''}''"
proof -
  from readsD [OF assms, of "Suc (2 * length t)" "[]"]
  have "read_value (Suc (2 * length t)) t = Some (v, [])" by (simp add: ends_number_def)
  then obtain c u where c: "skip_ws t = c # u" by (cases "skip_ws t") auto
  have "int_len (CHR '']'' # u) = None" "int_len (CHR ''}'' # u) = None"
    by (simp_all add: int_len_def in_range_def code_def)
  with \<open>read_value (Suc (2 * length t)) t = Some (v, [])\<close> c have "c \<noteq> CHR '']''" "c \<noteq> CHR ''}''"
    by (auto simp: number_len_def)
  with c show thesis by (rule that)
qed

lemma skip_ws_front: "skip_ws t = c # u \<Longrightarrow> skip_ws (t @ r) = c # u @ r"
  by (induction t) (auto simp: skip_ws_def split: if_splits)

lemma reads_number: "reads (itoa z) (JNum (itoa z))"
proof -
  obtain c t where z: "itoa z = c # t" "c = CHR ''-'' \<or> is_digit c" using itoa_head by blast
  then have c: "\<not> json_space c" "c \<notin> set ''{[tfn''" "c \<noteq> CHR 0x22"
    by (auto simp: json_space_def in_range_def code_def)
  show ?thesis
    by (rule readsI) (use c number_itoa [of _ z] z(1) in \<open>simp add: skip_ws_Cons\<close>)
qed

lemma reads_string: "valid_utf8 s \<Longrightarrow> reads (quote s) (JStr s)"
  by (rule readsI) (simp add: quote_def skip_ws_Cons json_space_def read_escape)

lemma ends_punct [simp]: "ends_number (CHR '','' # r)" "ends_number (CHR '']'' # r)" "ends_number (CHR ''}'' # r)"
  by (simp_all add: ends_number_def in_range_def code_def)

lemma ends_ws: "list_all json_space w \<Longrightarrow> ends_number r \<Longrightarrow> ends_number (w @ r)"
  by (cases w) (auto simp: ends_number_def json_space_def in_range_def code_def)

lemma join_Cons: "join '','' (x # xs) = (if xs = [] then x else x @ CHR '','' # join '','' xs)"
  by (cases xs) auto

lemma punct_not_space [simp]: "\<not> json_space CHR '',''" "\<not> json_space CHR '']''" "\<not> json_space CHR ''}''"
  "\<not> json_space CHR '':''" "\<not> json_space CHR 0x22" "\<not> json_space CHR ''{''" "\<not> json_space CHR ''[''"
  by (simp_all add: json_space_def)

lemma reads_elements:
  assumes "\<forall>(t, v) \<in> set tvs. reads t v" "tvs \<noteq> []" "2 * length (join '','' (map fst tvs)) + 1 < n" "list_all json_space w"
  shows "read_elements n (join '','' (map fst tvs) @ w @ CHR '']'' # r) = Some (map snd tvs, r)"
  using assms(1,2,3)
proof (induction tvs arbitrary: n)
  case (Cons tv tvs)
  obtain t v where tv: "tv = (t, v)" by (cases tv)
  with Cons.prems(1) have t: "reads t v" by simp
  obtain m where n: "n = Suc m" using Cons.prems(3) by (cases n) auto
  show ?case
  proof (cases "tvs = []")
    case True
    have "ends_number (w @ CHR '']'' # r)" using assms(4) by (simp add: ends_ws)
    with Cons.prems n True tv t have "read_value m (t @ w @ CHR '']'' # r) = Some (v, w @ CHR '']'' # r)"
      by (intro readsD) auto
    with True n tv assms(4) show ?thesis by (simp add: skip_ws_append skip_ws_Cons)
  next
    case False
    let ?rest = "CHR '','' # join '','' (map fst tvs) @ w @ CHR '']'' # r"
    from Cons.prems n False tv t have v: "read_value m (t @ ?rest) = Some (v, ?rest)"
      by (intro readsD) (auto simp: join_Cons)
    from Cons.prems n False have "read_elements m (join '','' (map fst tvs) @ w @ CHR '']'' # r) = Some (map snd tvs, r)"
      by (intro Cons.IH) (auto simp: join_Cons)
    with v n False tv show ?thesis by (simp add: join_Cons skip_ws_Cons)
  qed
qed simp

text \<open>A member: white space, its key, and a text that reads as its value.\<close>

definition member_text :: "string \<times> string \<times> string \<Rightarrow> string" where
  "member_text m = (case m of (w, k, t) \<Rightarrow> w @ quote k @ '':'' @ t)"

lemma reads_member:
  assumes "list_all json_space w" "valid_utf8 k" "reads t v" "2 * length t < m" "ends_number r"
  shows "read_members (Suc m) (member_text (w, k, t) @ r) =
    (case skip_ws r of [] \<Rightarrow> None
     | c # u \<Rightarrow> if c = CHR '','' then map_option (\<lambda>(kvs, x). ((k, v) # kvs, x)) (read_members m u)
                else if c = CHR ''}'' then Some ([(k, v)], u) else None)"
  using read_escape [OF assms(2), of "CHR '':'' # t @ r"] readsD [OF assms(3,4,5)] assms(1)
  by (simp add: member_text_def quote_def skip_ws_append skip_ws_Cons)

lemma reads_members:
  assumes "\<forall>(m, v) \<in> set mvs. list_all json_space (fst m) \<and> valid_utf8 (fst (snd m)) \<and> reads (snd (snd m)) v" "mvs \<noteq> []"
    "2 * length (join '','' (map (member_text \<circ> fst) mvs)) + 1 < n" "list_all json_space w"
  shows "read_members n (join '','' (map (member_text \<circ> fst) mvs) @ w @ CHR ''}'' # r) =
    Some (map (\<lambda>(m, v). (fst (snd m), v)) mvs, r)"
  using assms(1,2,3)
proof (induction mvs arbitrary: n)
  case (Cons mv mvs)
  obtain w0 k t v where mv: "mv = ((w0, k, t), v)" by (cases mv) auto
  obtain m where n: "n = Suc m" using Cons.prems(3) by (cases n) auto
  from Cons.prems(1) mv have k: "list_all json_space w0" "valid_utf8 k" "reads t v" by auto
  have "length t < length (member_text (w0, k, t))" by (simp add: member_text_def quote_def)
  with Cons.prems(3) n mv have m: "2 * length t < m" by (auto simp: join_Cons split: if_splits)
  show ?case
  proof (cases "mvs = []")
    case True
    have "ends_number (w @ CHR ''}'' # r)" using assms(4) by (simp add: ends_ws)
    from reads_member [OF k m this] assms(4) n mv True show ?thesis
      by (simp add: join_Cons skip_ws_append skip_ws_Cons)
  next
    case False
    from Cons.prems n False have "read_members m (join '','' (map (member_text \<circ> fst) mvs) @ w @ CHR ''}'' # r) =
        Some (map (\<lambda>(m, v). (fst (snd m), v)) mvs, r)"
      by (intro Cons.IH) (auto simp: join_Cons)
    with reads_member [OF k m, of "CHR '','' # join '','' (map (member_text \<circ> fst) mvs) @ w @ CHR ''}'' # r"] n mv False
    show ?thesis by (simp add: join_Cons skip_ws_Cons comp_def del: read_members.simps)
  qed
qed simp

text \<open>Arrays and objects, with white space before the bracket that closes them.\<close>

lemma reads_array:
  assumes "\<forall>(t, v) \<in> set tvs. reads t v" "tvs \<noteq> []" "list_all json_space w"
  shows "reads (''['' @ join '','' (map fst tvs) @ w @ '']'') (JArr (map snd tvs))"
proof -
  obtain t v rest where tv: "tvs = (t, v) # rest" using assms(2) by (cases tvs) auto
  with assms(1) have "reads t v" by simp
  then obtain c u where "skip_ws t = c # u" "c \<noteq> CHR '']''" by (rule reads_head)
  with tv have "\<not> has_prefix (skip_ws (join '','' (map fst tvs) @ x)) '']''" for x
    by (cases rest) (auto simp: skip_ws_front)
  then show ?thesis
    by (intro readsI) (use reads_elements [OF assms(1,2) _ assms(3)] in \<open>simp add: skip_ws_Cons\<close>)
qed

lemma reads_object:
  assumes "\<forall>(m, v) \<in> set mvs. list_all json_space (fst m) \<and> valid_utf8 (fst (snd m)) \<and> reads (snd (snd m)) v" "mvs \<noteq> []"
    "list_all json_space w"
  shows "reads (''{'' @ join '','' (map (member_text \<circ> fst) mvs) @ w @ ''}'') (JObj (map (\<lambda>(m, v). (fst (snd m), v)) mvs))"
proof -
  obtain w0 k t v rest where mv: "mvs = ((w0, k, t), v) # rest" using assms(2) by (cases mvs) auto
  with assms(1) have "list_all json_space w0" by simp
  with mv have "\<not> has_prefix (skip_ws (join '','' (map (member_text \<circ> fst) mvs) @ x)) ''}''" for x
    by (simp add: join_Cons member_text_def quote_def skip_ws_append skip_ws_Cons)
  then show ?thesis
    by (intro readsI) (use reads_members [OF assms(1,2) _ assms(3)] in \<open>simp add: skip_ws_Cons\<close>)
qed

lemma reads_empty: "reads ''[]'' (JArr [])" "reads ''{}'' (JObj [])"
  by (rule readsI, simp add: skip_ws_Cons)+

lemma reads_words: "reads ''null'' JNull" "reads ''true'' (JBool True)" "reads ''false'' (JBool False)"
  by (rule readsI, simp add: skip_ws_Cons json_space_def read_word_def)+

subsection \<open>Indented text\<close>

text \<open>\<open>json.MarshalIndent(v, "", "  ")\<close> of a value at a depth.\<close>

definition newline :: "nat \<Rightarrow> string" where
  "newline d = CHR 0x0A # replicate (2 * d) CHR 0x20"

fun indent_text :: "nat \<Rightarrow> json \<Rightarrow> string" where
  "indent_text d (JArr vs) =
     (if vs = [] then ''[]''
      else ''['' @ join '','' (map (\<lambda>v. newline (Suc d) @ indent_text (Suc d) v) vs) @ newline d @ '']'')"
| "indent_text d (JObj kvs) =
     (if kvs = [] then ''{}''
      else ''{'' @ join '','' (map (\<lambda>(k, v). newline (Suc d) @ quote k @ '':'' @ '' '' @ indent_text (Suc d) v) kvs) @
           newline d @ ''}'')"
| "indent_text d v = json_text v"

lemma newline_space [simp]: "list_all json_space (newline d)"
  by (simp add: newline_def json_space_def list_all_iff)

lemma space_space [simp]: "json_space CHR 0x20"
  by (simp add: json_space_def)

lemma reads_indented: "writable v \<Longrightarrow> reads (indent_text d v) (read_back v)"
proof (induction v arbitrary: d)
  case (JArr vs)
  then have w: "reads (newline e @ indent_text e' v) (read_back v)" if "v \<in> set vs" for v e e'
    using that by (auto simp: list_all_iff intro!: reads_ws [OF newline_space])
  let ?tvs = "map (\<lambda>v. (newline (Suc d) @ indent_text (Suc d) v, read_back v)) vs"
  show ?case
  proof (cases "vs = []")
    case False
    with w have "reads (''['' @ join '','' (map fst ?tvs) @ newline d @ '']'') (JArr (map snd ?tvs))"
      by (intro reads_array) auto
    with False show ?thesis by (simp add: comp_def)
  qed (simp add: reads_empty)
next
  case (JObj kvs)
  then have w: "valid_utf8 k \<and> reads ('' '' @ indent_text e v) (read_back v)" if "(k, v) \<in> set kvs" for k v e
    using that by (fastforce simp: list_all_iff intro!: reads_ws)
  let ?mvs = "map (\<lambda>(k, v). ((newline (Suc d), k, '' '' @ indent_text (Suc d) v), read_back v)) kvs"
  show ?case
  proof (cases "kvs = []")
    case False
    with w have "reads (''{'' @ join '','' (map (member_text \<circ> fst) ?mvs) @ newline d @ ''}'')
        (JObj (map (\<lambda>(m, v). (fst (snd m), v)) ?mvs))"
      by (intro reads_object) auto
    with False show ?thesis by (simp add: comp_def split_def member_text_def)
  qed (simp add: reads_empty)
qed (auto simp: reads_words reads_number reads_string simp del: append_Cons)

lemma reads_text: "writable v \<Longrightarrow> reads (json_text v) (read_back v)"
proof (induction v)
  case (JArr vs)
  then have w: "\<forall>v \<in> set vs. reads (json_text v) (read_back v)" by (auto simp: list_all_iff)
  let ?tvs = "map (\<lambda>v. (json_text v, read_back v)) vs"
  show ?case
  proof (cases "vs = []")
    case False
    with w have "reads (''['' @ join '','' (map fst ?tvs) @ [] @ '']'') (JArr (map snd ?tvs))"
      by (intro reads_array) auto
    then show ?thesis by (simp add: comp_def)
  qed (simp add: reads_empty)
next
  case (JObj kvs)
  then have w: "\<forall>(k, v) \<in> set kvs. valid_utf8 k \<and> reads (json_text v) (read_back v)" by (fastforce simp: list_all_iff)
  let ?mvs = "map (\<lambda>(k, v). (('''' :: string, k, json_text v), read_back v)) kvs"
  show ?case
  proof (cases "kvs = []")
    case False
    with w have "reads (''{'' @ join '','' (map (member_text \<circ> fst) ?mvs) @ [] @ ''}'')
        (JObj (map (\<lambda>(m, v). (fst (snd m), v)) ?mvs))"
      by (intro reads_object) auto
    then show ?thesis by (simp add: comp_def split_def member_text_def)
  qed (simp add: reads_empty)
qed (auto simp: reads_words reads_number reads_string)

text \<open>Reading a value that was written gives it back, and leaves what follows.\<close>

lemma decode_reads: "reads t v \<Longrightarrow> ends_number r \<Longrightarrow> decode_value (t @ r) = Some (v, r)"
  using readsD [of t v "Suc (2 * length (t @ r))" r] by (simp add: decode_value_def)

lemma decode_json_text: "writable v \<Longrightarrow> ends_number r \<Longrightarrow> decode_value (json_text v @ r) = Some (read_back v, r)"
  by (rule decode_reads [OF reads_text])

lemma decode_single_reads: "reads t v \<Longrightarrow> decode_single (t @ [CHR 0x0A]) = Some v"
  using decode_reads [of t v "[CHR 0x0A]"]
  by (simp add: decode_single_def ends_number_def in_range_def code_def skip_ws_def json_space_def)

lemma decode_line: "writable v \<Longrightarrow> decode_single (json_text v @ [CHR 0x0A]) = Some (read_back v)"
  by (rule decode_single_reads [OF reads_text])

lemma decode_indented: "writable v \<Longrightarrow> decode_single (indent_text 0 v @ [CHR 0x0A]) = Some (read_back v)"
  by (rule decode_single_reads [OF reads_indented])

subsection \<open>Plain text\<close>

lemma valid_utf8_ascii: "list_all (\<lambda>c. code c < 128) s \<Longrightarrow> valid_utf8 s"
proof (induction s)
  case (Cons c s)
  then have "rune_len (c # s) = 1" by (simp add: rune_len_def)
  with Cons show ?case by (subst valid_utf8.simps) simp
qed (simp add: valid_utf8.simps)

lemma escape_char_no_line: "CHR 0x0A \<notin> set (escape_char c)"
proof -
  have "hex_digit d \<noteq> CHR 0x0A" if "d < 16" for d
  proof -
    from that have "d \<in> set [0..<16]" by simp
    moreover have "\<forall>d \<in> set [0..<16]. hex_digit d \<noteq> CHR 0x0A" by code_simp
    ultimately show ?thesis by blast
  qed
  moreover have "code c div 16 < 16" "code c mod 16 < 16" by (auto simp: code_def less_mult_imp_div_less)
  ultimately have d: "hex_digit (code c div 16) \<noteq> CHR 0x0A" "hex_digit (code c mod 16) \<noteq> CHR 0x0A" by blast+
  show ?thesis using d [symmetric] by (simp add: escape_char_def quoted_hex_def)
qed

lemma escape_no_line: "CHR 0x0A \<notin> set (escape s)"
proof (induction s rule: escape.induct)
  case (2 a s)
  then show ?case using escape_char_no_line [of a] by (auto split: list.splits)
qed simp

lemma escaped_length: "length (escape s) \<le> 6 * length s"
proof (induction s rule: length_induct)
  case (1 s)
  show ?case
  proof (cases s)
    case (Cons a t)
    have c: "length (escape_char a) \<le> 6"
      unfolding escape_char_def quoted_hex_def by (split if_split, intro conjI impI, simp)+ simp
    show ?thesis
    proof (cases "a = CHR 0xE2 \<and> (has_prefix t [CHR 0x80, CHR 0xA8] \<or> has_prefix t [CHR 0x80, CHR 0xA9])")
      case True
      then obtain b d r where t: "t = b # d # r" by (auto simp: has_prefix_iff)
      with True have "length (escape s) = 6 + length (escape r)" unfolding Cons by auto
      moreover from 1 Cons t have "length (escape r) \<le> 6 * length r" by auto
      ultimately show ?thesis by (simp add: Cons t)
    next
      case False
      then have "escape s = escape_char a @ escape t" unfolding Cons by (intro escape_step) auto
      moreover from 1 Cons have "length (escape t) \<le> 6 * length t" by auto
      ultimately show ?thesis using c by (simp add: Cons)
    qed
  qed simp
qed

lemma lead_zero: "list_all (\<lambda>p. p = [] \<or> \<not> Q (hd p)) ps \<Longrightarrow> Q c \<Longrightarrow> lead ps (c # s) = 0"
proof (rule ccontr)
  assume ps: "list_all (\<lambda>p. p = [] \<or> \<not> Q (hd p)) ps" and c: "Q c" and "lead ps (c # s) \<noteq> 0"
  then obtain p where "p \<in> set ps" "p \<noteq> []" "has_prefix (c # s) p" using lead_pos_iff [of ps "c # s"] by auto
  moreover have "hd p = c" using \<open>p \<noteq> []\<close> \<open>has_prefix (c # s) p\<close> by (cases p) auto
  ultimately show False using ps c by (auto simp: list_all_iff)
qed

definition visible :: "char \<Rightarrow> bool" where
  "visible c \<longleftrightarrow> 32 < code c \<and> code c < 128"

lemma ascii_space_heads: "list_all (\<lambda>p. p = [] \<or> \<not> (32 < code (hd p) \<and> code (hd p) < 128)) ascii_spaces"
  unfolding ascii_spaces_def list.pred_inject list.sel by (simp add: code_def)

lemma wide_space_heads: "list_all (\<lambda>p. p = [] \<or> \<not> (32 < code (hd p) \<and> code (hd p) < 128)) wide_spaces"
  unfolding wide_spaces_def list.pred_inject list.sel by (simp add: code_def)

lemma wide_space_lasts: "list_all (\<lambda>p. p = [] \<or> \<not> (32 < code (hd p) \<and> code (hd p) < 128)) (map rev wide_spaces)"
  unfolding wide_spaces_def list.map list.pred_inject rev.simps append.simps list.sel by (simp add: code_def)

lemma rev_ascii_spaces: "map rev ascii_spaces = ascii_spaces"
  by code_simp

lemma visible_not_space: "visible c \<Longrightarrow> lead spaces (c # s) = 0 \<and> lead (map rev spaces) (c # s) = 0"
  using ascii_space_heads wide_space_heads wide_space_lasts rev_ascii_spaces
    lead_zero [of "\<lambda>c. 32 < code c \<and> code c < 128" _ c s]
  by (simp add: spaces_def visible_def)

lemma trimmed_visible: "s = [] \<or> (visible (hd s) \<and> visible (last s)) \<Longrightarrow> trimmed s"
proof (cases s)
  case (Cons c t)
  assume "s = [] \<or> (visible (hd s) \<and> visible (last s))"
  with Cons have v: "visible c" "visible (last s)" by auto
  obtain d u where d: "rev s = d # u" using Cons by (cases "rev s") auto
  then have "last s = d" by (metis hd_rev list.sel(1))
  with Cons d v show ?thesis by (simp add: trimmed_def visible_not_space)
qed simp

end
