(* ===== verification/UpdateStatus.thy ===== *)
theory UpdateStatus
  imports HostFs GoJsonDecode GoTime
begin

text \<open>
  \<open>internal/osupdate/status.go\<close> and \<open>internal/nvidiaupdate/status.go\<close>: the files the daemon and the update
  workers share, the update channel, and what a restart makes of a pending one. The environment
  variables that move the files are \<open>getenv\<close> (empty when unset).
\<close>

subsection \<open>Where the files are\<close>

definition env_or :: "(string \<Rightarrow> string) \<Rightarrow> string \<Rightarrow> string \<Rightarrow> string" where
  "env_or getenv name path = (if getenv name \<noteq> '''' then getenv name else path)"

definition StatusPath :: "(string \<Rightarrow> string) \<Rightarrow> string" where
  "StatusPath getenv = env_or getenv ''CLOUDLESS_UPDATE_STATUS'' ''/var/lib/cloudless-updater/status.json''"

definition SourcesPath :: "(string \<Rightarrow> string) \<Rightarrow> string" where
  "SourcesPath getenv = env_or getenv ''CLOUDLESS_UPDATE_SOURCES_PATH'' ''/etc/apt/sources.list.d/cloudless.sources''"

definition ChannelPath :: "(string \<Rightarrow> string) \<Rightarrow> string" where
  "ChannelPath getenv = env_or getenv ''CLOUDLESS_UPDATE_CHANNEL_PATH'' ''/etc/cloudless/update-channel''"

definition keyringPath :: string where
  "keyringPath = ''/usr/share/keyrings/cloudless-archive-keyring.pgp''"

subsection \<open>The channel\<close>

definition ValidChannel :: "string \<Rightarrow> bool" where
  "ValidChannel c \<longleftrightarrow> c = ''stable'' \<or> c = ''beta''"

definition channel_of :: "string \<Rightarrow> string" where
  "channel_of b = (if ValidChannel (trim_space b) then trim_space b else ''stable'')"

definition Channel :: "(string \<Rightarrow> string) \<Rightarrow> 'x io \<Rightarrow> ('x, string) host_act" where
  "Channel getenv io = h_try (ReadFile io (ChannelPath getenv))
     (\<lambda>r. h_ret (case r of Inl e \<Rightarrow> ''stable'' | Inr b \<Rightarrow> channel_of b))"

definition suites_line :: "string \<Rightarrow> bool" where
  "suites_line l = has_prefix (trim_space l) ''Suites:''"

definition with_suite :: "string \<Rightarrow> string list \<Rightarrow> string list" where
  "with_suite channel ls = map (\<lambda>l. if suites_line l then ''Suites: '' @ channel else l) ls"

fun join_lines :: "string list \<Rightarrow> string" where
  "join_lines [] = []"
| "join_lines [l] = l"
| "join_lines (l # m # ls) = l @ CHR 0x0A # join_lines (m # ls)"

definition atomicWrite :: "'x io \<Rightarrow> string \<Rightarrow> string \<Rightarrow> ('x, unit) host_act" where
  "atomicWrite io path b = replace_file io ''.cloudless-update-'' path b"

definition SetChannel :: "(string \<Rightarrow> string) \<Rightarrow> 'x io \<Rightarrow> string \<Rightarrow> ('x, unit) host_act" where
  "SetChannel getenv io channel =
     (if \<not> ValidChannel channel then h_fail (Refuse ''update channel must be stable or beta'')
      else h_bind (ReadFile io (SourcesPath getenv)) (\<lambda>sources.
        let ls = split_on CHR 0x0A sources
        in if length (filter suites_line ls) \<noteq> 1
           then h_fail (Refuse ''Cloudless APT source must contain exactly one Suites field'')
           else h_then (atomicWrite io (SourcesPath getenv) (join_lines (with_suite channel ls)))
             (h_try (atomicWrite io (ChannelPath getenv) (channel @ [CHR 0x0A]))
               (\<lambda>r. case r of Inr u \<Rightarrow> h_ret ()
                   | Inl e \<Rightarrow> h_ignore (atomicWrite io (SourcesPath getenv) sources) (h_fail e)))))"

definition Configured :: "(string \<Rightarrow> string) \<Rightarrow> 'x io \<Rightarrow> ('x, bool) host_act" where
  "Configured getenv io = h_try (Stat io keyringPath) (\<lambda>k. case k of Inl e \<Rightarrow> h_ret False
     | Inr _ \<Rightarrow> h_try (ReadFile io (SourcesPath getenv))
         (\<lambda>r. h_ret (case r of Inl e \<Rightarrow> False | Inr b \<Rightarrow> \<not> contains (to_lower b) ''enabled: no'')))"

subsection \<open>The update status\<close>

record Package =
  pk_Name :: string
  pk_Installed :: string
  pk_Candidate :: string

record Status =
  su_State :: string
  su_Channel :: string
  su_Configured :: bool
  su_CurrentVersion :: string
  su_CurrentSourceCommit :: string
  su_AvailableVersion :: string
  su_AvailableSourceCommit :: string
  su_ReleaseTitle :: string
  su_ReleaseSummary :: string
  su_QualificationStatus :: string
  su_QualificationRequired :: bool
  su_Changelog :: "string list"
  su_Message :: string
  su_Progress :: int
  su_Error :: string
  su_CheckedAt :: string
  su_UpdatedAt :: string
  su_RebootRequired :: bool
  su_RebootBootID :: string
  su_Packages :: "Package list"

definition zero_status :: Status where
  "zero_status = \<lparr>su_State = '''', su_Channel = '''', su_Configured = False, su_CurrentVersion = '''',
     su_CurrentSourceCommit = '''', su_AvailableVersion = '''', su_AvailableSourceCommit = '''', su_ReleaseTitle = '''',
     su_ReleaseSummary = '''', su_QualificationStatus = '''', su_QualificationRequired = False, su_Changelog = [],
     su_Message = '''', su_Progress = 0, su_Error = '''', su_CheckedAt = '''', su_UpdatedAt = '''',
     su_RebootRequired = False, su_RebootBootID = '''', su_Packages = []\<rparr>"

text \<open>
  \<open>currentBootID\<close> and \<open>systemBootTime\<close> (the first readable \<open>btime\<close> of \<open>/proc/stat\<close>; the zero time when
  there is none).
\<close>

definition currentBootID :: "'x io \<Rightarrow> ('x, string) host_act" where
  "currentBootID io = h_try (ReadFile io ''/proc/sys/kernel/random/boot_id'')
     (\<lambda>r. h_ret (case r of Inl e \<Rightarrow> '''' | Inr b \<Rightarrow> trim_space b))"

fun boot_seconds :: "string list \<Rightarrow> int option" where
  "boot_seconds [] = None"
| "boot_seconds (l # ls) =
     (case go_fields l of
        [k, v] \<Rightarrow> (case atoi v of (z, ok) \<Rightarrow> if k = ''btime'' \<and> ok then Some z else boot_seconds ls)
      | _ \<Rightarrow> boot_seconds ls)"

definition systemBootTime :: "'x io \<Rightarrow> ('x, int option) host_act" where
  "systemBootTime io = h_try (ReadFile io ''/proc/stat'')
     (\<lambda>r. h_ret (case r of Inl e \<Rightarrow> None | Inr b \<Rightarrow> boot_seconds (scan_lines 65536 b)))"

text \<open>\<open>bootedAt\<close> in nanoseconds, as \<open>parse_rfc3339\<close> gives the time of the update.\<close>

definition reconcileReboot :: "string \<Rightarrow> int option \<Rightarrow> Status \<Rightarrow> Status" where
  "reconcileReboot bootID bootedAt st =
     (if \<not> su_RebootRequired st then st
      else
        let same = su_RebootBootID st \<noteq> '''' \<and> bootID \<noteq> '''' \<and> su_RebootBootID st \<noteq> bootID;
            rebooted = (if su_RebootBootID st = ''''
              then (case (bootedAt, parse_rfc3339 (su_UpdatedAt st)) of (Some b, Some u) \<Rightarrow> u < b | _ \<Rightarrow> same) else same)
        in if \<not> rebooted then st
           else let st1 = st\<lparr>su_RebootRequired := False, su_RebootBootID := '''', su_AvailableVersion := ''''\<rparr>
                in if su_State st1 = ''reboot_required''
                   then st1\<lparr>su_State := ''updated'', su_Message := ''Update installed successfully.''\<rparr> else st1)"

text \<open>The document.\<close>

definition package_json :: "Package \<Rightarrow> json" where
  "package_json p = JObj (fld ''name'' (JStr (pk_Name p)) @ fld ''installed'' (JStr (pk_Installed p)) @
     fld ''candidate'' (JStr (pk_Candidate p)))"

definition package_of :: "json \<Rightarrow> Package option" where
  "package_of v = decode_struct False
     [(''name'', set_string (\<lambda>s p. p\<lparr>pk_Name := s\<rparr>)), (''installed'', set_string (\<lambda>s p. p\<lparr>pk_Installed := s\<rparr>)),
      (''candidate'', set_string (\<lambda>s p. p\<lparr>pk_Candidate := s\<rparr>))]
     \<lparr>pk_Name = '''', pk_Installed = '''', pk_Candidate = ''''\<rparr> v"

definition status_json :: "Status \<Rightarrow> json" where
  "status_json s = JObj (
     fld ''state'' (JStr (su_State s)) @ fld ''channel'' (JStr (su_Channel s)) @ fld ''configured'' (JBool (su_Configured s)) @
     str_omit ''currentVersion'' (su_CurrentVersion s) @ str_omit ''currentSourceCommit'' (su_CurrentSourceCommit s) @
     str_omit ''availableVersion'' (su_AvailableVersion s) @ str_omit ''availableSourceCommit'' (su_AvailableSourceCommit s) @
     str_omit ''releaseTitle'' (su_ReleaseTitle s) @ str_omit ''releaseSummary'' (su_ReleaseSummary s) @
     str_omit ''qualificationStatus'' (su_QualificationStatus s) @ bool_omit ''qualificationRequired'' (su_QualificationRequired s) @
     strs_omit ''changelog'' (su_Changelog s) @ str_omit ''message'' (su_Message s) @ fld ''progress'' (JInt (su_Progress s)) @
     str_omit ''error'' (su_Error s) @ str_omit ''checkedAt'' (su_CheckedAt s) @ str_omit ''updatedAt'' (su_UpdatedAt s) @
     fld ''rebootRequired'' (JBool (su_RebootRequired s)) @ str_omit ''rebootBootId'' (su_RebootBootID s) @
     opt_fld ''packages'' (su_Packages s = []) (JArr (map package_json (su_Packages s))))"

definition status_fields :: "Status fields" where
  "status_fields =
     [(''state'', set_string (\<lambda>x s. s\<lparr>su_State := x\<rparr>)), (''channel'', set_string (\<lambda>x s. s\<lparr>su_Channel := x\<rparr>)),
      (''configured'', set_bool (\<lambda>x s. s\<lparr>su_Configured := x\<rparr>)), (''currentVersion'', set_string (\<lambda>x s. s\<lparr>su_CurrentVersion := x\<rparr>)),
      (''currentSourceCommit'', set_string (\<lambda>x s. s\<lparr>su_CurrentSourceCommit := x\<rparr>)),
      (''availableVersion'', set_string (\<lambda>x s. s\<lparr>su_AvailableVersion := x\<rparr>)),
      (''availableSourceCommit'', set_string (\<lambda>x s. s\<lparr>su_AvailableSourceCommit := x\<rparr>)),
      (''releaseTitle'', set_string (\<lambda>x s. s\<lparr>su_ReleaseTitle := x\<rparr>)), (''releaseSummary'', set_string (\<lambda>x s. s\<lparr>su_ReleaseSummary := x\<rparr>)),
      (''qualificationStatus'', set_string (\<lambda>x s. s\<lparr>su_QualificationStatus := x\<rparr>)),
      (''qualificationRequired'', set_bool (\<lambda>x s. s\<lparr>su_QualificationRequired := x\<rparr>)),
      (''changelog'', set_list read_text (\<lambda>x s. s\<lparr>su_Changelog := x\<rparr>)), (''message'', set_string (\<lambda>x s. s\<lparr>su_Message := x\<rparr>)),
      (''progress'', set_int (\<lambda>x s. s\<lparr>su_Progress := x\<rparr>)), (''error'', set_string (\<lambda>x s. s\<lparr>su_Error := x\<rparr>)),
      (''checkedAt'', set_string (\<lambda>x s. s\<lparr>su_CheckedAt := x\<rparr>)), (''updatedAt'', set_string (\<lambda>x s. s\<lparr>su_UpdatedAt := x\<rparr>)),
      (''rebootRequired'', set_bool (\<lambda>x s. s\<lparr>su_RebootRequired := x\<rparr>)), (''rebootBootId'', set_string (\<lambda>x s. s\<lparr>su_RebootBootID := x\<rparr>)),
      (''packages'', set_list package_of (\<lambda>x s. s\<lparr>su_Packages := x\<rparr>))]"

definition decode_status :: "string \<Rightarrow> Status option" where
  "decode_status b = Option.bind (decode_single b) (decode_struct False status_fields zero_status)"

definition DefaultStatus :: "(string \<Rightarrow> string) \<Rightarrow> 'x io \<Rightarrow> ('x, Status) host_act" where
  "DefaultStatus getenv io = h_bind (Channel getenv io) (\<lambda>c. h_bind (Configured getenv io) (\<lambda>ok.
     h_ret (zero_status\<lparr>su_State := ''idle'', su_Channel := c, su_Configured := ok\<rparr>)))"

definition ReadStatus :: "(string \<Rightarrow> string) \<Rightarrow> 'x io \<Rightarrow> ('x, Status) host_act" where
  "ReadStatus getenv io =
     h_try (ReadFile io (StatusPath getenv)) (\<lambda>r. case r of
         Inl (Sys NotExist) \<Rightarrow> DefaultStatus getenv io
       | Inl e \<Rightarrow> h_fail e
       | Inr b \<Rightarrow>
           (case decode_status b of None \<Rightarrow> h_fail (Refuse ''invalid status'')
            | Some st \<Rightarrow>
                h_bind (Configured getenv io) (\<lambda>ok. h_bind (Channel getenv io) (\<lambda>c.
                h_bind (currentBootID io) (\<lambda>bid. h_bind (systemBootTime io) (\<lambda>at.
                  h_ret (reconcileReboot bid (map_option (\<lambda>s. s * 1000000000) at)
                    (st\<lparr>su_Configured := ok, su_Channel := c\<rparr>))))))))"

definition WriteStatus :: "(string \<Rightarrow> string) \<Rightarrow> 'x io \<Rightarrow> Status \<Rightarrow> ('x, unit) host_act" where
  "WriteStatus getenv io st =
     (let path = StatusPath getenv; tmp = path @ ''.tmp''
      in h_then (MkdirAll io (Dirname path))
           (h_bind (Configured getenv io) (\<lambda>ok. h_bind (Channel getenv io) (\<lambda>c.
            h_bind (if su_RebootRequired st \<and> su_RebootBootID st = '''' then currentBootID io else h_ret (su_RebootBootID st))
              (\<lambda>bid.
                 h_then (WriteFile io tmp (indent_text 0 (status_json (st\<lparr>su_Configured := ok, su_Channel := c, su_RebootBootID := bid\<rparr>)) @ [CHR 0x0A]))
                   (h_try (Chmod io tmp) (\<lambda>r. case r of
                      Inl e \<Rightarrow> h_ignore (Remove io tmp) (h_fail e)
                    | Inr _ \<Rightarrow> Rename io tmp path)))))))"

subsection \<open>The NVIDIA driver update\<close>

record DriverStatus =
  nv_State :: string
  nv_HardwareDetected :: bool
  nv_CurrentDriver :: string
  nv_InstalledPackage :: string
  nv_InstalledVersion :: string
  nv_RecommendedPackage :: string
  nv_CandidateVersion :: string
  nv_UpdateAvailable :: bool
  nv_SecureBoot :: string
  nv_Message :: string
  nv_Progress :: int
  nv_Error :: string
  nv_CheckedAt :: string
  nv_UpdatedAt :: string
  nv_RebootRequired :: bool
  nv_RebootBootID :: string

definition driver_default :: DriverStatus where
  "driver_default = \<lparr>nv_State = ''idle'', nv_HardwareDetected = False, nv_CurrentDriver = '''', nv_InstalledPackage = '''',
     nv_InstalledVersion = '''', nv_RecommendedPackage = '''', nv_CandidateVersion = '''', nv_UpdateAvailable = False,
     nv_SecureBoot = '''', nv_Message = ''Driver updates have not been checked yet.'', nv_Progress = 0, nv_Error = '''',
     nv_CheckedAt = '''', nv_UpdatedAt = '''', nv_RebootRequired = False, nv_RebootBootID = ''''\<rparr>"

definition driver_json :: "DriverStatus \<Rightarrow> json" where
  "driver_json s = JObj (
     fld ''state'' (JStr (nv_State s)) @ fld ''hardwareDetected'' (JBool (nv_HardwareDetected s)) @
     str_omit ''currentDriver'' (nv_CurrentDriver s) @ str_omit ''installedPackage'' (nv_InstalledPackage s) @
     str_omit ''installedVersion'' (nv_InstalledVersion s) @ str_omit ''recommendedPackage'' (nv_RecommendedPackage s) @
     str_omit ''candidateVersion'' (nv_CandidateVersion s) @ fld ''updateAvailable'' (JBool (nv_UpdateAvailable s)) @
     str_omit ''secureBoot'' (nv_SecureBoot s) @ str_omit ''message'' (nv_Message s) @ fld ''progress'' (JInt (nv_Progress s)) @
     str_omit ''error'' (nv_Error s) @ str_omit ''checkedAt'' (nv_CheckedAt s) @ str_omit ''updatedAt'' (nv_UpdatedAt s) @
     fld ''rebootRequired'' (JBool (nv_RebootRequired s)) @ str_omit ''rebootBootId'' (nv_RebootBootID s))"

definition driver_fields :: "DriverStatus fields" where
  "driver_fields =
     [(''state'', set_string (\<lambda>x s. s\<lparr>nv_State := x\<rparr>)), (''hardwareDetected'', set_bool (\<lambda>x s. s\<lparr>nv_HardwareDetected := x\<rparr>)),
      (''currentDriver'', set_string (\<lambda>x s. s\<lparr>nv_CurrentDriver := x\<rparr>)), (''installedPackage'', set_string (\<lambda>x s. s\<lparr>nv_InstalledPackage := x\<rparr>)),
      (''installedVersion'', set_string (\<lambda>x s. s\<lparr>nv_InstalledVersion := x\<rparr>)),
      (''recommendedPackage'', set_string (\<lambda>x s. s\<lparr>nv_RecommendedPackage := x\<rparr>)),
      (''candidateVersion'', set_string (\<lambda>x s. s\<lparr>nv_CandidateVersion := x\<rparr>)),
      (''updateAvailable'', set_bool (\<lambda>x s. s\<lparr>nv_UpdateAvailable := x\<rparr>)), (''secureBoot'', set_string (\<lambda>x s. s\<lparr>nv_SecureBoot := x\<rparr>)),
      (''message'', set_string (\<lambda>x s. s\<lparr>nv_Message := x\<rparr>)), (''progress'', set_int (\<lambda>x s. s\<lparr>nv_Progress := x\<rparr>)),
      (''error'', set_string (\<lambda>x s. s\<lparr>nv_Error := x\<rparr>)), (''checkedAt'', set_string (\<lambda>x s. s\<lparr>nv_CheckedAt := x\<rparr>)),
      (''updatedAt'', set_string (\<lambda>x s. s\<lparr>nv_UpdatedAt := x\<rparr>)), (''rebootRequired'', set_bool (\<lambda>x s. s\<lparr>nv_RebootRequired := x\<rparr>)),
      (''rebootBootId'', set_string (\<lambda>x s. s\<lparr>nv_RebootBootID := x\<rparr>))]"

text \<open>An absent member leaves the zero value, not that of the default document.\<close>

definition zero_driver :: DriverStatus where
  "zero_driver = driver_default\<lparr>nv_State := '''', nv_Message := ''''\<rparr>"

definition decode_driver :: "string \<Rightarrow> DriverStatus option" where
  "decode_driver b = Option.bind (decode_single b) (decode_struct False driver_fields zero_driver)"

definition driver_path :: "(string \<Rightarrow> string) \<Rightarrow> string" where
  "driver_path getenv = env_or getenv ''CLOUDLESS_NVIDIA_STATUS'' ''/var/lib/cloudless-updater/nvidia-driver.json''"

definition reconcileDriver :: "string \<Rightarrow> string \<Rightarrow> DriverStatus \<Rightarrow> DriverStatus" where
  "reconcileDriver now bootID st =
     (if \<not> nv_RebootRequired st \<or> nv_RebootBootID st = '''' \<or> bootID = '''' \<or> nv_RebootBootID st = bootID then st
      else let st1 = st\<lparr>nv_RebootRequired := False, nv_RebootBootID := '''', nv_State := ''idle'', nv_UpdateAvailable := False,
                        nv_Message := ''The NVIDIA driver update is active.'', nv_Progress := 100\<rparr>
           in if nv_UpdatedAt st1 = '''' then st1\<lparr>nv_UpdatedAt := now\<rparr> else st1)"

definition ReadDriver :: "(string \<Rightarrow> string) \<Rightarrow> string \<Rightarrow> 'x io \<Rightarrow> ('x, DriverStatus) host_act" where
  "ReadDriver getenv now io =
     h_try (ReadFile io (driver_path getenv)) (\<lambda>r. case r of
         Inl (Sys NotExist) \<Rightarrow> h_ret driver_default
       | Inl e \<Rightarrow> h_fail e
       | Inr b \<Rightarrow> (case decode_driver b of None \<Rightarrow> h_fail (Refuse ''invalid status'')
           | Some st \<Rightarrow> h_bind (currentBootID io) (\<lambda>bid. h_ret (reconcileDriver now bid st))))"

definition WriteDriver :: "(string \<Rightarrow> string) \<Rightarrow> 'x io \<Rightarrow> DriverStatus \<Rightarrow> ('x, unit) host_act" where
  "WriteDriver getenv io st =
     (let path = driver_path getenv; tmp = path @ ''.tmp''
      in h_then (MkdirAll io (Dirname path))
           (h_bind (if nv_RebootRequired st \<and> nv_RebootBootID st = '''' then currentBootID io else h_ret (nv_RebootBootID st))
              (\<lambda>bid. h_then (WriteFile io tmp (indent_text 0 (driver_json (st\<lparr>nv_RebootBootID := bid\<rparr>)) @ [CHR 0x0A])) (Rename io tmp path))))"

end
