(* ===== verification/Privileged.thy ===== *)
theory Privileged
  imports GoJsonDecode
begin

text \<open>
  \<open>internal/privileged/protocol.go\<close> and \<open>peer_linux.go\<close>: the protocol by which the unprivileged daemon asks
  for host mutations. A connection is the bytes the peer sends and how they end; the kernel's credentials
  of the peer and the account database are arguments, as is the time zone database.
\<close>

subsection \<open>Actions and their values\<close>

datatype Action = ActionPowerOff | ActionReboot | ActionSystemUpdateCheck | ActionSystemUpdateApply
  | ActionSystemUpdateChannel | ActionNVIDIAUpdateCheck | ActionNVIDIAUpdateApply | ActionTailscaleInstaller
  | ActionTimezoneSet | ActionClusterNetworkApply | ActionClusterNetworkRemove | ActionRecipeRuntimeRepair
  | ActionRecipeContainerRemove | ActionModelUninstall | ActionModelViewsReconcile | OtherAction string

definition action_names :: "(Action \<times> string) list" where
  "action_names =
     [(ActionPowerOff, ''power.shutdown''), (ActionReboot, ''power.restart''),
      (ActionSystemUpdateCheck, ''update.system.check''), (ActionSystemUpdateApply, ''update.system.apply''),
      (ActionSystemUpdateChannel, ''update.system.channel''), (ActionNVIDIAUpdateCheck, ''update.nvidia.check''),
      (ActionNVIDIAUpdateApply, ''update.nvidia.apply''), (ActionTailscaleInstaller, ''tailscale.install''),
      (ActionTimezoneSet, ''timezone.set''), (ActionClusterNetworkApply, ''cluster.network.apply''),
      (ActionClusterNetworkRemove, ''cluster.network.remove''), (ActionRecipeRuntimeRepair, ''recipe.runtime.repair''),
      (ActionRecipeContainerRemove, ''recipe.container.remove''), (ActionModelUninstall, ''model.uninstall''),
      (ActionModelViewsReconcile, ''model.views.reconcile'')]"

definition action_text :: "Action \<Rightarrow> string" where
  "action_text a = (case a of OtherAction s \<Rightarrow> s | _ \<Rightarrow> the (lookup action_names a))"

definition action_of :: "string \<Rightarrow> Action" where
  "action_of s = (case lookup (map prod.swap action_names) s of Some a \<Rightarrow> a | None \<Rightarrow> OtherAction s)"

definition Valid :: "Action \<Rightarrow> bool" where
  "Valid a = (case a of OtherAction s \<Rightarrow> False | _ \<Rightarrow> True)"

text \<open>The patterns \<open>^[A-Za-z0-9][A-Za-z0-9_.-]{0,n}$\<close>.\<close>

definition part_char :: "char \<Rightarrow> bool" where
  "part_char c \<longleftrightarrow> is_alnum c \<or> c \<in> {CHR ''_'', CHR ''.'', CHR ''-''}"

definition part_pattern :: "nat \<Rightarrow> string \<Rightarrow> bool" where
  "part_pattern n s = (case s of [] \<Rightarrow> False | c # cs \<Rightarrow> is_alnum c \<and> list_all part_char cs \<and> length cs \<le> n)"

definition clusterInterfaceName :: "string \<Rightarrow> bool" where "clusterInterfaceName = part_pattern 31"
definition recipeContainerName :: "string \<Rightarrow> bool" where "recipeContainerName = part_pattern 127"
definition modelIDPart :: "string \<Rightarrow> bool" where "modelIDPart = part_pattern 95"

definition ValidModelID :: "string \<Rightarrow> bool" where
  "ValidModelID v0 =
     (let v = trim_space v0; parts = split_on CHR ''/'' v
      in v \<noteq> '''' \<and> length v \<le> 200 \<and> \<not> contains_any v [CHR 0x5C, CHR 0x00, CHR 0x0D, CHR 0x0A] \<and>
         2 \<le> length parts \<and> list_all (\<lambda>p. modelIDPart p \<and> p \<noteq> ''.'' \<and> p \<noteq> ''..'') parts)"

datatype value_error = BadNetworkRequest | BadNodeIndex | BadInterface | BadChannel | BadTimezone | BadContainer
  | BadModelID | NoValueAccepted | BadAction

definition ParseClusterNetworkValue :: "string \<Rightarrow> value_error + int \<times> string \<times> string" where
  "ParseClusterNetworkValue v =
     (case split_on CHR ''|'' v of
        [i, first, second] \<Rightarrow>
          (case atoi i of (index, ok) \<Rightarrow>
             if \<not> ok \<or> index < 1 \<or> 8 < index then Inl BadNodeIndex
             else if \<not> clusterInterfaceName first \<or> \<not> clusterInterfaceName second \<or>
               first = second \<or> first = ''lo'' \<or> second = ''lo'' then Inl BadInterface
             else Inr (index, first, second))
      | _ \<Rightarrow> Inl BadNetworkRequest)"

text \<open>\<open>time.LoadLocation\<close>: names that leave the database are refused before \<open>zones\<close>, the database, is asked.\<close>

definition LoadLocation :: "(string \<Rightarrow> bool) \<Rightarrow> string \<Rightarrow> bool" where
  "LoadLocation zones name \<longleftrightarrow> name \<in> {'''', ''UTC'', ''Local''} \<or>
     (\<not> contains name ''..'' \<and> hd name \<noteq> CHR ''/'' \<and> hd name \<noteq> CHR 0x5C \<and> zones name)"

record request =
  rq_Action :: Action
  rq_Value :: string

definition validateRequest :: "(string \<Rightarrow> bool) \<Rightarrow> request \<Rightarrow> value_error option" where
  "validateRequest zones req =
     (let v = trim_space (rq_Value req)
      in case rq_Action req of
           ActionSystemUpdateChannel \<Rightarrow> if v \<noteq> ''stable'' \<and> v \<noteq> ''beta'' then Some BadChannel else None
         | ActionTimezoneSet \<Rightarrow>
             if v = '''' \<or> 128 < length v \<or> CHR 0x00 \<in> set v then Some BadTimezone
             else if \<not> LoadLocation zones v then Some BadTimezone else None
         | ActionClusterNetworkApply \<Rightarrow> (case ParseClusterNetworkValue v of Inl e \<Rightarrow> Some e | Inr _ \<Rightarrow> None)
         | ActionRecipeContainerRemove \<Rightarrow>
             if \<not> recipeContainerName v \<or> contains v ''..'' then Some BadContainer else None
         | ActionModelUninstall \<Rightarrow> if \<not> ValidModelID v then Some BadModelID else None
         | a \<Rightarrow> if v \<noteq> '''' then Some NoValueAccepted else if \<not> Valid a then Some BadAction else None)"

subsection \<open>Authorization of the peer\<close>

text \<open>
  What the kernel and the account database say of a peer: its user id if the connection is a Unix socket
  with credentials, the account of a user id (its primary group), its groups when they can be listed, and
  the id of a group.
\<close>

record accounts =
  ac_cred :: "string + nat"
  ac_primary :: "nat \<Rightarrow> string option"
  ac_groups :: "nat \<Rightarrow> string list option"
  ac_group :: "string \<Rightarrow> string option"

definition AuthorizePeer :: "string \<Rightarrow> accounts \<Rightarrow> string option" where
  "AuthorizePeer controlGroup ac =
     (case ac_cred ac of
        Inl e \<Rightarrow> Some e
      | Inr uid \<Rightarrow>
          if uid = 0 then None
          else (case ac_primary ac uid of
                  None \<Rightarrow> Some ''unknown user''
                | Some gid0 \<Rightarrow>
                    (case ac_group ac controlGroup of
                       None \<Rightarrow> Some ''unknown group''
                     | Some g \<Rightarrow>
                         (let gids = (case ac_groups ac uid of Some gs \<Rightarrow> gs | None \<Rightarrow> [gid0])
                          in if g \<in> set gids then None else Some ''not a member''))))"

definition AuthorizePeerUID :: "nat \<Rightarrow> accounts \<Rightarrow> string option" where
  "AuthorizePeerUID allowed ac =
     (case ac_cred ac of Inl e \<Rightarrow> Some e | Inr uid \<Rightarrow> if uid \<noteq> allowed then Some ''not the admitted desktop client'' else None)"

subsection \<open>Messages\<close>

definition maxRequestBytes :: nat where "maxRequestBytes = 1024"

definition request_json :: "request \<Rightarrow> json" where
  "request_json r = JObj (fld ''action'' (JStr (action_text (rq_Action r))) @ str_omit ''value'' (rq_Value r))"

definition json_line :: "json \<Rightarrow> string" where
  "json_line v = json_text v @ [CHR 0x0A]"

definition request_fields :: "request fields" where
  "request_fields =
     [(''action'', set_string (\<lambda>s r. r\<lparr>rq_Action := action_of s\<rparr>)), (''value'', set_string (\<lambda>s r. r\<lparr>rq_Value := s\<rparr>))]"

definition empty_request :: request where
  "empty_request = \<lparr>rq_Action = OtherAction '''', rq_Value = ''''\<rparr>"

definition decode_request :: "string \<Rightarrow> request option" where
  "decode_request line =
     (case decode_single line of None \<Rightarrow> None | Some v \<Rightarrow> decode_struct True request_fields empty_request v)"

record response =
  rs_OK :: bool
  rs_Error :: string

definition response_json :: "response \<Rightarrow> json" where
  "response_json r = JObj (fld ''ok'' (JBool (rs_OK r)) @ str_omit ''error'' (rs_Error r))"

definition response_fields :: "response fields" where
  "response_fields =
     [(''ok'', set_bool (\<lambda>b r. r\<lparr>rs_OK := b\<rparr>)), (''error'', set_string (\<lambda>s r. r\<lparr>rs_Error := s\<rparr>))]"

definition failure :: "string \<Rightarrow> response" where
  "failure e = \<lparr>rs_OK = False, rs_Error = e\<rparr>"

subsection \<open>Server\<close>

text \<open>
  A connection: the bytes the peer sends and whether reading then fails (a deadline, a reset) instead of
  ending. \<open>ReadBytes\<close> over a limited reader gives the first line with its newline, or what there is.
\<close>

record conn =
  cn_bytes :: string
  cn_broken :: bool

definition request_line :: "conn \<Rightarrow> string option" where
  "request_line c =
     (let s = take (Suc maxRequestBytes) (cn_bytes c); line = before CHR 0x0A s
      in if CHR 0x0A \<in> set s then Some (line @ [CHR 0x0A])
         else if cn_broken c \<and> length (cn_bytes c) \<le> maxRequestBytes then None
         else Some s)"

text \<open>The executor is a state transformer with an error.\<close>

type_synonym ('e, 's) executor = "Action \<Rightarrow> string \<Rightarrow> 's \<Rightarrow> 'e option \<times> 's"

definition handleConnection ::
    "(string \<Rightarrow> bool) \<Rightarrow> string option \<Rightarrow> ('e, 's) executor \<Rightarrow> conn \<Rightarrow> 's \<Rightarrow> response \<times> 's" where
  "handleConnection zones unauthorized ex c s =
     (if unauthorized \<noteq> None then (failure ''caller is not authorized'', s)
      else case request_line c of
        None \<Rightarrow> (failure ''invalid request'', s)
      | Some line \<Rightarrow>
          if maxRequestBytes < length line then (failure ''request is too large'', s)
          else (case decode_request line of
                  None \<Rightarrow> (failure ''unsupported privileged action'', s)
                | Some req0 \<Rightarrow>
                    (let req = req0\<lparr>rq_Value := trim_space (rq_Value req0)\<rparr>
                     in if validateRequest zones req \<noteq> None then (failure ''unsupported privileged action'', s)
                        else (case ex (rq_Action req) (rq_Value req) s of
                                (Some e, s1) \<Rightarrow> (failure ''privileged action failed'', s1)
                              | (None, s1) \<Rightarrow> (\<lparr>rs_OK = True, rs_Error = ''''\<rparr>, s1)))))"

text \<open>The connections a server accepts, each with what the account database says of its peer, in the order they execute.\<close>

fun Serve :: "(string \<Rightarrow> bool) \<Rightarrow> (accounts \<Rightarrow> string option) \<Rightarrow> ('e, 's) executor \<Rightarrow> (accounts \<times> conn) list \<Rightarrow> 's \<Rightarrow>
    response list \<times> 's" where
  "Serve zones authorize ex [] s = ([], s)"
| "Serve zones authorize ex ((ac, c) # cs) s =
     (case handleConnection zones (authorize ac) ex c s of
        (r, s1) \<Rightarrow> (case Serve zones authorize ex cs s1 of (rs, s2) \<Rightarrow> (r # rs, s2)))"

subsection \<open>Client\<close>

datatype client_error = UnsupportedAction string | ConnectFailed string | SendFailed string | ReadFailed | Rejected string
  | ExactlyTwoInterfaces

text \<open>
  \<open>peer\<close> sends the bytes of a request and gives the bytes of the reply, or the error of connecting or sending.
\<close>

type_synonym 's peer = "string \<Rightarrow> 's \<Rightarrow> (client_error + string) \<times> 's"

definition decode_response :: "string \<Rightarrow> response option" where
  "decode_response s =
     (case decode_value (take maxRequestBytes s) of
        None \<Rightarrow> None
      | Some (v, rest) \<Rightarrow> decode_struct False response_fields (failure '''') v)"

definition client_reply :: "string \<Rightarrow> client_error option" where
  "client_reply bytes =
     (case decode_response bytes of
        None \<Rightarrow> Some ReadFailed
      | Some r \<Rightarrow> if rs_OK r then None
                 else Some (Rejected (if rs_Error r = '''' then ''request rejected'' else rs_Error r)))"

definition DoValue :: "'s peer \<Rightarrow> Action \<Rightarrow> string \<Rightarrow> 's \<Rightarrow> client_error option \<times> 's" where
  "DoValue peer a v s =
     (if \<not> Valid a then (Some (UnsupportedAction (action_text a)), s)
      else case peer (json_line (request_json \<lparr>rq_Action = a, rq_Value = v\<rparr>)) s of
        (Inl e, s1) \<Rightarrow> (Some e, s1)
      | (Inr bytes, s1) \<Rightarrow> (client_reply bytes, s1))"

definition DoAction :: "'s peer \<Rightarrow> Action \<Rightarrow> 's \<Rightarrow> client_error option \<times> 's" where
  "DoAction peer a = DoValue peer a ''''"

definition ConfigureClusterNetwork :: "'s peer \<Rightarrow> string list \<Rightarrow> int \<Rightarrow> 's \<Rightarrow> client_error option \<times> 's" where
  "ConfigureClusterNetwork peer links nodeIndex s =
     (case links of
        [a, b] \<Rightarrow> DoValue peer ActionClusterNetworkApply (itoa nodeIndex @ ''|'' @ trim_space a @ ''|'' @ trim_space b) s
      | _ \<Rightarrow> (Some ExactlyTwoInterfaces, s))"

text \<open>A client of a server on the other side of the socket.\<close>

definition served :: "(string \<Rightarrow> bool) \<Rightarrow> string option \<Rightarrow> ('e, 's) executor \<Rightarrow> 's peer" where
  "served zones unauthorized ex bytes s =
     (case handleConnection zones unauthorized ex \<lparr>cn_bytes = bytes, cn_broken = False\<rparr> s of
        (r, s1) \<Rightarrow> (Inr (json_line (response_json r)), s1))"

end
