(* ===== verification/HostHelper.thy ===== *)
theory HostHelper
  imports UpdateStatus Privileged GoNet
begin

text \<open>
  \<open>cmd/cloudless-privileged\<close>: what the root helper does for an admitted request. The programs are run by
  \<open>io_run\<close>; the account database gives the ids of the service account and of a group.
\<close>

subsection \<open>The socket\<close>

definition prepareSocketDirectory :: "'x io \<Rightarrow> string \<Rightarrow> ('x, unit) host_act" where
  "prepareSocketDirectory io p =
     (if \<not> IsAbs p then h_fail (Refuse ''socket path must be absolute'')
      else h_then (MkdirAll io (Dirname p))
        (h_try (Lstat io p) (\<lambda>r. case r of
             Inl (Sys NotExist) \<Rightarrow> h_ret ()
           | Inl e \<Rightarrow> h_fail e
           | Inr k \<Rightarrow> if k \<noteq> Sock then h_fail (Refuse ''refusing to replace non-socket path'') else Remove io p)))"

definition protectSocket :: "(string \<Rightarrow> string option) \<Rightarrow> int \<Rightarrow> 'x io \<Rightarrow> string \<Rightarrow> string \<Rightarrow> ('x, unit) host_act" where
  "protectSocket groups uid io p groupName =
     (case groups groupName of
        None \<Rightarrow> h_fail (Refuse ''unknown group'')
      | Some g \<Rightarrow> (case atoi g of (gid, ok) \<Rightarrow>
          if \<not> ok then h_fail (Refuse ''parse control group id'')
          else h_then (Chown io True p uid gid) (Chmod io p)))"

subsection \<open>Cluster network\<close>

definition clusterNetplanPath :: string where
  "clusterNetplanPath = ''/etc/netplan/99-cloudless-spark-cluster.yaml''"

definition link_lines :: "string \<Rightarrow> string \<Rightarrow> int \<Rightarrow> string list" where
  "link_lines name subnet index =
     [''    '' @ name @ '':'', ''      addresses: [10.100.'' @ subnet @ ''.'' @ itoa index @ ''/24]'',
      ''      dhcp4: false'', ''      optional: true'']"

definition netplan_lines :: "int \<Rightarrow> string \<Rightarrow> string \<Rightarrow> string list" where
  "netplan_lines index first second =
     [''network:'', ''  version: 2'', ''  ethernets:''] @ link_lines first ''0'' index @ link_lines second ''1'' index"

definition clusterNetworkContent :: "string \<Rightarrow> value_error + string" where
  "clusterNetworkContent v =
     (case ParseClusterNetworkValue v of Inl e \<Rightarrow> Inl e
      | Inr (index, first, second) \<Rightarrow> Inr (concat (map (\<lambda>l. l @ [CHR 0x0A]) (netplan_lines index first second))))"

definition secureReplace :: "'x io \<Rightarrow> string \<Rightarrow> string \<Rightarrow> ('x, unit) host_act" where
  "secureReplace io p b =
     h_try (Lstat io p) (\<lambda>r. case r of
         Inl (Sys NotExist) \<Rightarrow> replace_file io ''.cloudless-netplan-'' p b
       | Inl e \<Rightarrow> h_fail e
       | Inr (Reg i) \<Rightarrow> replace_file io ''.cloudless-netplan-'' p b
       | Inr k \<Rightarrow> h_fail (Refuse ''refusing to replace non-regular managed file''))"

definition removeManagedFile :: "'x io \<Rightarrow> string \<Rightarrow> ('x, unit) host_act" where
  "removeManagedFile io p =
     h_try (Lstat io p) (\<lambda>r. case r of
         Inl (Sys NotExist) \<Rightarrow> h_ret ()
       | Inl e \<Rightarrow> h_fail e
       | Inr (Reg i) \<Rightarrow> Remove io p
       | Inr k \<Rightarrow> h_fail (Refuse ''refusing to remove non-regular managed file''))"

definition runNetplan :: "'x io \<Rightarrow> ('x, unit) host_act" where
  "runNetplan io = h_each (\<lambda>a. h_then (h_run io [''/usr/sbin/netplan'', a]) (h_ret ())) [''generate'', ''apply'']"

definition applyClusterNetwork :: "'x io \<Rightarrow> string \<Rightarrow> ('x, unit) host_act" where
  "applyClusterNetwork io v =
     (case clusterNetworkContent v of
        Inl e \<Rightarrow> h_fail (Refuse ''invalid cluster network request'')
      | Inr content \<Rightarrow>
          h_then (secureReplace io clusterNetplanPath content)
            (h_try (runNetplan io) (\<lambda>r. case r of Inr u \<Rightarrow> h_ret ()
               | Inl e \<Rightarrow> h_ignore (removeManagedFile io clusterNetplanPath) (h_ignore (runNetplan io) (h_fail e)))))"

definition isReservedClusterAddress :: "string \<Rightarrow> bool" where
  "isReservedClusterAddress cidr =
     (case GoUrl.cut CHR ''/'' cidr of (addr, ones) \<Rightarrow>
        CHR ''/'' \<in> set cidr \<and> ipv4_ok addr \<and> ones \<noteq> '''' \<and> list_all is_digit ones \<and> nat_of_digits ones = 24 \<and>
        take 2 (ipv4_bytes addr) = [10, 100] \<and> ipv4_bytes addr ! 2 \<le> 1)"

text \<open>The addresses a line of \<open>ip -o -4 addr show\<close> gives to remove: the device and the prefix.\<close>

definition address_of_line :: "string \<Rightarrow> (string \<times> string) option" where
  "address_of_line l =
     (case go_fields l of
        a # dev # kind # cidr # rest \<Rightarrow>
          (let iface = trim_suffix dev '':''
           in if kind \<noteq> ''inet'' then None
              else case ParseClusterNetworkValue (''1|'' @ iface @ ''|placeholder'') of
                Inl e \<Rightarrow> None
              | Inr p \<Rightarrow> if isReservedClusterAddress cidr then Some (iface, cidr) else None)
      | _ \<Rightarrow> None)"

definition scan_overflow :: "nat \<Rightarrow> string \<Rightarrow> bool" where
  "scan_overflow limit s = list_ex (\<lambda>l. limit \<le> length l) (split_on CHR 0x0A s)"

definition removeClusterAddresses :: "'x io \<Rightarrow> ('x, unit) host_act" where
  "removeClusterAddresses io =
     h_bind (h_run io [''/usr/sbin/ip'', ''-o'', ''-4'', ''addr'', ''show'']) (\<lambda>out.
       h_bind (h_collect (\<lambda>(iface, cidr). h_then (h_run io [''/usr/sbin/ip'', ''address'', ''del'', cidr, ''dev'', iface]) (h_ret ()))
                 (List.map_filter address_of_line (scan_lines 65536 out)))
         (\<lambda>es. h_join (es @ (if scan_overflow 65536 out then [Refuse ''token too long''] else []))))"

definition removeClusterNetwork :: "'x io \<Rightarrow> ('x, unit) host_act" where
  "removeClusterNetwork io =
     h_then (removeManagedFile io clusterNetplanPath) (h_then (runNetplan io) (removeClusterAddresses io))"

subsection \<open>Managed models\<close>

definition managedModelCacheRoot :: string where "managedModelCacheRoot = ''/var/lib/cloudless/models-cache''"
definition managedModelsPath :: string where "managedModelsPath = ''/home/cloudless/Cloudless/Models''"
definition revision_marker :: string where "revision_marker = ''.cloudless-revision''"

definition model_name :: "string \<Rightarrow> string" where
  "model_name modelID = concat (map (\<lambda>c. if c = CHR ''/'' then ''--'' else [c]) modelID)"

text \<open>A view is removed when its marker is a regular file; no marker is no error.\<close>

definition remove_view :: "'x io \<Rightarrow> string \<Rightarrow> ('x, unit) host_act" where
  "remove_view io candidate =
     h_try (Lstat io (Join candidate revision_marker)) (\<lambda>r. case r of
         Inr (Reg i) \<Rightarrow> RemoveAll io candidate
       | Inl (Sys NotExist) \<Rightarrow> h_ret ()
       | Inl e \<Rightarrow> h_fail e
       | Inr k \<Rightarrow> h_ret ())"

definition uninstallManagedModelAt :: "'x io \<Rightarrow> string \<Rightarrow> string \<Rightarrow> string \<Rightarrow> ('x, unit) host_act" where
  "uninstallManagedModelAt io modelID cacheRoot modelsPath =
     (if \<not> ValidModelID modelID then h_fail (Refuse ''invalid model id'')
      else let name = model_name modelID
           in h_bind (h_collect (\<lambda>a. a)
                [remove_view io (Join modelsPath name), remove_view io (Join modelsPath (name @ ''-Cloudless'')),
                 RemoveAll io (Join modelsPath (''.materializing-'' @ name)),
                 RemoveAll io (Join (Join cacheRoot ''hub'') (''models--'' @ name))]) h_join)"

definition uninstallManagedModel :: "'x io \<Rightarrow> string \<Rightarrow> ('x, unit) host_act" where
  "uninstallManagedModel io modelID = uninstallManagedModelAt io modelID managedModelCacheRoot managedModelsPath"

record snapshot =
  ms_name :: string
  ms_revision :: string
  ms_source :: string

definition managedModelView :: "'x io \<Rightarrow> string \<Rightarrow> ('x, bool) host_act" where
  "managedModelView io p = h_try (Lstat io (Join p revision_marker))
     (\<lambda>r. h_ret (case r of Inr (Reg i) \<Rightarrow> True | _ \<Rightarrow> False))"

text \<open>\<open>strings.Cut(s, "--")\<close>.\<close>

fun cut_dashes :: "string \<Rightarrow> (string \<times> string) option" where
  "cut_dashes [] = None"
| "cut_dashes (c # s) = (if has_prefix (c # s) ''--'' then Some ([], tl s)
     else map_option (\<lambda>(a, b). (c # a, b)) (cut_dashes s))"

definition incomplete_blobs :: "'x io \<Rightarrow> string \<Rightarrow> ('x, bool) host_act" where
  "incomplete_blobs io repo = h_try (WalkTree io (Join repo ''blobs''))
     (\<lambda>r. h_ret (case r of Inl e \<Rightarrow> False
        | Inr items \<Rightarrow> list_ex (\<lambda>(rel, k). k \<noteq> Dir \<and> rel \<noteq> [] \<and> has_suffix (last rel) ''.incomplete'') items))"

text \<open>The snapshot an entry of the cache holds, if it is a complete repository of a valid model.\<close>

definition entry_snapshot :: "'x io \<Rightarrow> string \<Rightarrow> string \<times> bool \<Rightarrow> ('x, snapshot option) host_act" where
  "entry_snapshot io cacheRoot e =
     (case e of (name, isdir) \<Rightarrow>
        if \<not> has_prefix name ''models--'' \<or> \<not> isdir then h_ret None
        else case cut_dashes (drop 8 name) of None \<Rightarrow> h_ret None
        | Some (org, model) \<Rightarrow>
            let modelID = org @ ''/'' @ model; repo = Join (Join cacheRoot ''hub'') name
            in if \<not> ValidModelID modelID then h_ret None
               else h_try (ReadFile io (Join (Join repo ''refs'') ''main'')) (\<lambda>r. case r of
                 Inl e \<Rightarrow> h_ret None
               | Inr b \<Rightarrow>
                   let revision = trim_space b; source = Join (Join repo ''snapshots'') revision;
                       found = Some \<lparr>ms_name = model_name modelID, ms_revision = revision, ms_source = source\<rparr>
                   in if revision \<in> {'''', ''.'', ''..''} \<or> Base revision \<noteq> revision then h_ret None
                      else h_try (Stat io source) (\<lambda>k. if k \<noteq> Inr Dir then h_ret None
                        else h_try (Stat io (Join (Join repo ''.cloudless-complete'') revision)) (\<lambda>m. case m of
                            Inr _ \<Rightarrow> h_ret found
                          | Inl _ \<Rightarrow> h_bind (incomplete_blobs io repo) (\<lambda>bad. h_ret (if bad then None else found))))))"

fun entry_snapshots :: "'x io \<Rightarrow> string \<Rightarrow> (string \<times> bool) list \<Rightarrow> ('x, snapshot list) host_act" where
  "entry_snapshots io cacheRoot [] = h_ret []"
| "entry_snapshots io cacheRoot (e # es) =
     h_bind (entry_snapshot io cacheRoot e) (\<lambda>x. h_bind (entry_snapshots io cacheRoot es) (\<lambda>xs.
       h_ret (case x of Some s \<Rightarrow> s # xs | None \<Rightarrow> xs)))"

text \<open>The result is keyed by the name, which determines the entry: \<open>hub\<close> has each name once.\<close>

definition completeManagedModelSnapshots :: "'x io \<Rightarrow> string \<Rightarrow> ('x, snapshot list) host_act" where
  "completeManagedModelSnapshots io cacheRoot =
     h_try (ReadDir io (Join cacheRoot ''hub'')) (\<lambda>r. case r of
         Inl (Sys NotExist) \<Rightarrow> h_ret []
       | Inl e \<Rightarrow> h_fail e
       | Inr es \<Rightarrow> entry_snapshots io cacheRoot es)"

definition sub_path :: "string \<Rightarrow> string list \<Rightarrow> string" where
  "sub_path p es = (if es = [] then p else p @ ''/'' @ join_path es)"

definition link_item :: "'x io \<Rightarrow> string \<Rightarrow> string \<Rightarrow> string \<Rightarrow> string list \<times> node \<Rightarrow> ('x, unit) host_act" where
  "link_item io cacheRoot source destination item =
     (case item of (rel, k) \<Rightarrow>
        let path = sub_path source rel; target = sub_path destination rel
        in if k = Dir then h_then (MkdirAll io target) (Chmod io target)
           else h_bind (EvalSymlinks io path) (\<lambda>resolved.
             if \<not> pathWithin resolved cacheRoot then h_fail (Refuse ''model snapshot link escapes the managed cache'')
             else h_try (Hardlink io resolved target) (\<lambda>r. case r of
                 Inl (Sys CrossDevice) \<Rightarrow> Symlink io resolved target
               | Inl e \<Rightarrow> h_fail e
               | Inr u \<Rightarrow> h_ret ())))"

definition hardlinkManagedModelTree :: "'x io \<Rightarrow> string \<Rightarrow> string \<Rightarrow> string \<Rightarrow> ('x, unit) host_act" where
  "hardlinkManagedModelTree io cacheRoot source destination =
     h_bind (WalkTree io source) (\<lambda>items. h_each (link_item io (Clean cacheRoot) source destination) items)"

text \<open>On any error the temporary tree is removed again.\<close>

definition or_discard :: "'x io \<Rightarrow> string \<Rightarrow> ('x, unit) host_act \<Rightarrow> ('x, unit) host_act" where
  "or_discard io temporary a = h_try a (\<lambda>r. case r of Inr u \<Rightarrow> h_ret ()
     | Inl e \<Rightarrow> h_ignore (RemoveAll io temporary) (h_fail e))"

definition build_view :: "'x io \<Rightarrow> string \<Rightarrow> string \<Rightarrow> snapshot \<Rightarrow> string \<Rightarrow> ('x, unit) host_act" where
  "build_view io cacheRoot modelsPath s destination =
     (let temporary = Join modelsPath (''.materializing-'' @ ms_name s); marker = Join temporary revision_marker
      in h_ignore (RemoveAll io temporary)
           (or_discard io temporary
             (h_then (hardlinkManagedModelTree io cacheRoot (ms_source s) temporary)
               (h_then (WriteFile io marker (ms_revision s @ [CHR 0x0A]))
                 (h_then (Chmod io marker) (Rename io temporary destination))))))"

definition view_destination :: "'x io \<Rightarrow> string \<Rightarrow> snapshot \<Rightarrow> ('x, string) host_act" where
  "view_destination io modelsPath s =
     (let dest = Join modelsPath (ms_name s)
      in h_try (Lstat io dest) (\<lambda>r. h_bind (managedModelView io dest) (\<lambda>m.
           h_ret (case r of Inr k \<Rightarrow> if m then dest else dest @ ''-Cloudless'' | Inl e \<Rightarrow> dest))))"

definition materializeManagedModelView :: "'x io \<Rightarrow> string \<Rightarrow> string \<Rightarrow> snapshot \<Rightarrow> ('x, unit) host_act" where
  "materializeManagedModelView io cacheRoot modelsPath s =
     h_bind (view_destination io modelsPath s) (\<lambda>dest.
     h_try (ReadFile io (Join dest revision_marker)) (\<lambda>b.
       if (case b of Inr t \<Rightarrow> trim_space t = ms_revision s | Inl e \<Rightarrow> False) then h_ret ()
       else h_try (Lstat io dest) (\<lambda>r. case r of
           Inl (Sys NotExist) \<Rightarrow> build_view io cacheRoot modelsPath s dest
         | Inl e \<Rightarrow> h_fail e
         | Inr k \<Rightarrow> h_bind (managedModelView io dest) (\<lambda>m.
             if \<not> m then h_fail (Refuse ''Models folder entry is reserved by the user'')
             else h_then (RemoveAll io dest) (build_view io cacheRoot modelsPath s dest)))))"

text \<open>One entry of the Models directory: interrupted views go, and so do views of models that are gone.\<close>

definition sweep_entry :: "'x io \<Rightarrow> string \<Rightarrow> string list \<Rightarrow> string \<times> bool \<Rightarrow> ('x, unit) host_act" where
  "sweep_entry io modelsPath expected e =
     (let name = fst e; p = Join modelsPath name
      in if has_prefix name ''.materializing-'' then RemoveAll io p
         else if name \<in> set expected then h_ret ()
         else h_bind (managedModelView io p) (\<lambda>m. if \<not> m then h_ret () else RemoveAll io p))"

definition reconcileManagedModelViewsAt :: "'x io \<Rightarrow> string \<Rightarrow> string \<Rightarrow> ('x, unit) host_act" where
  "reconcileManagedModelViewsAt io cacheRoot modelsPath =
     h_bind (completeManagedModelSnapshots io cacheRoot) (\<lambda>snaps.
     h_then (MkdirAll io modelsPath)
       (h_bind (ReadDir io modelsPath) (\<lambda>es.
         let expected = concat (map (\<lambda>s. [ms_name s, ms_name s @ ''-Cloudless'']) snaps)
         in h_then (h_each (sweep_entry io modelsPath expected) es)
              (h_each (materializeManagedModelView io cacheRoot modelsPath) (sort_key ms_name snaps)))))"

definition reconcileManagedModelViews :: "'x io \<Rightarrow> ('x, unit) host_act" where
  "reconcileManagedModelViews io = reconcileManagedModelViewsAt io managedModelCacheRoot managedModelsPath"

subsection \<open>Recipe runtime ownership\<close>

definition recipe_runtime_root :: string where "recipe_runtime_root = ''/var/lib/cloudless/recipes-runtime''"

definition chown_item :: "'x io \<Rightarrow> int \<Rightarrow> int \<Rightarrow> string list \<times> node \<Rightarrow> ('x, unit) host_act" where
  "chown_item io uid gid item =
     (case item of (rel, k) \<Rightarrow>
        Chown io (case k of Link t \<Rightarrow> False | _ \<Rightarrow> True) (sub_path recipe_runtime_root rel) uid gid)"

definition repairRecipeRuntimeOwnership ::
    "(string \<Rightarrow> string option) \<Rightarrow> (string \<Rightarrow> string option) \<Rightarrow> 'x io \<Rightarrow> ('x, unit) host_act" where
  "repairRecipeRuntimeOwnership users groups io =
     (case users ''cloudlessd'' of None \<Rightarrow> h_fail (Refuse ''lookup cloudless service account'')
      | Some u \<Rightarrow> (case groups ''cloudless-control'' of None \<Rightarrow> h_fail (Refuse ''lookup cloudless control group'')
          | Some g \<Rightarrow> (case (atoi u, atoi g) of ((uid, uok), (gid, gok)) \<Rightarrow>
              if \<not> uok then h_fail (Refuse ''parse cloudless service uid'')
              else if \<not> gok then h_fail (Refuse ''parse cloudless control gid'')
              else h_then (MkdirAll io recipe_runtime_root)
                     (h_bind (WalkTree io recipe_runtime_root) (\<lambda>items. h_each (chown_item io uid gid) items)))))"

subsection \<open>Execution\<close>

record host_env =
  he_getenv :: "string \<Rightarrow> string"
  he_users :: "string \<Rightarrow> string option"
  he_groups :: "string \<Rightarrow> string option"

definition systemctl :: "'x io \<Rightarrow> string list \<Rightarrow> ('x, unit) host_act" where
  "systemctl io args = h_then (h_run io (''/usr/bin/systemctl'' # args)) (h_ret ())"

definition start_unit :: "'x io \<Rightarrow> string \<Rightarrow> ('x, unit) host_act" where
  "start_unit io u = systemctl io [''start'', ''--no-block'', u]"

definition change_channel :: "host_env \<Rightarrow> 'x io \<Rightarrow> string \<Rightarrow> ('x, unit) host_act" where
  "change_channel he io v =
     h_bind (Channel (he_getenv he) io) (\<lambda>previous.
     h_then (SetChannel (he_getenv he) io v)
       (h_try (start_unit io ''cloudless-update-check.service'') (\<lambda>r. case r of Inr u \<Rightarrow> h_ret ()
          | Inl e \<Rightarrow> h_ignore (SetChannel (he_getenv he) io previous) (h_fail e))))"

definition execute :: "host_env \<Rightarrow> 'x io \<Rightarrow> Action \<Rightarrow> string \<Rightarrow> ('x, unit) host_act" where
  "execute he io a v =
     (case a of
        ActionPowerOff \<Rightarrow> systemctl io [''poweroff'', ''--no-wall'']
      | ActionReboot \<Rightarrow> systemctl io [''reboot'', ''--no-wall'']
      | ActionSystemUpdateCheck \<Rightarrow> start_unit io ''cloudless-update-check.service''
      | ActionSystemUpdateApply \<Rightarrow> start_unit io ''cloudless-update-apply.service''
      | ActionSystemUpdateChannel \<Rightarrow> change_channel he io v
      | ActionNVIDIAUpdateCheck \<Rightarrow> start_unit io ''cloudless-nvidia-check.service''
      | ActionNVIDIAUpdateApply \<Rightarrow> start_unit io ''cloudless-nvidia-apply.service''
      | ActionTailscaleInstaller \<Rightarrow> start_unit io ''cloudless-tailscale-install.service''
      | ActionTimezoneSet \<Rightarrow> h_then (h_run io [''/usr/bin/timedatectl'', ''set-timezone'', v]) (h_ret ())
      | ActionClusterNetworkApply \<Rightarrow> applyClusterNetwork io v
      | ActionClusterNetworkRemove \<Rightarrow> removeClusterNetwork io
      | ActionRecipeRuntimeRepair \<Rightarrow> repairRecipeRuntimeOwnership (he_users he) (he_groups he) io
      | ActionRecipeContainerRemove \<Rightarrow> h_then (h_run io [''/usr/bin/docker'', ''rm'', ''-f'', ''--'', v]) (h_ret ())
      | ActionModelUninstall \<Rightarrow> uninstallManagedModel io v
      | ActionModelViewsReconcile \<Rightarrow> reconcileManagedModelViews io
      | OtherAction s \<Rightarrow> h_fail (Refuse ''unsupported action''))"

text \<open>The helper as the executor of the protocol, and the helper's connections.\<close>

definition helper :: "host_env \<Rightarrow> 'x io \<Rightarrow> (host_error, 'x world) executor" where
  "helper he io a v w = (case execute he io a v w of (Inl e, w1) \<Rightarrow> (Some e, w1) | (Inr u, w1) \<Rightarrow> (None, w1))"

definition serve_helper :: "(string \<Rightarrow> bool) \<Rightarrow> host_env \<Rightarrow> 'x io \<Rightarrow> string \<Rightarrow> (accounts \<times> conn) list \<Rightarrow> 'x world \<Rightarrow>
    response list \<times> 'x world" where
  "serve_helper zones he io controlGroup cs w = Serve zones (AuthorizePeer controlGroup) (helper he io) cs w"

end
