(* ===== verification/DesktopAgent.thy ===== *)
theory DesktopAgent
  imports HostFs Privileged DisplayLayout
begin

text \<open>
  \<open>internal/desktop/protocol.go\<close>, \<open>cmd/cloudless-desktop-agent\<close> and \<open>internal/places\<close>: the protocol between the
  daemon and the graphical session, the programs the agent runs for an admitted request, and the
  folders the interface can open.
\<close>

subsection \<open>Requests\<close>

record Request =
  dr_Action :: string
  dr_Layout :: string
  dr_Output :: string
  dr_Width :: int
  dr_Height :: int
  dr_KeyAction :: string
  dr_Value :: string
  dr_PlaceID :: string

definition empty_Request :: Request where
  "empty_Request = \<lparr>dr_Action = '''', dr_Layout = '''', dr_Output = '''', dr_Width = 0, dr_Height = 0,
     dr_KeyAction = '''', dr_Value = '''', dr_PlaceID = ''''\<rparr>"

record Response =
  ds_Output :: string
  ds_Error :: string

definition outputNamePattern :: "string \<Rightarrow> bool" where
  "outputNamePattern s \<longleftrightarrow> s \<noteq> '''' \<and> length s \<le> 64 \<and>
     list_all (\<lambda>c. is_alnum c \<or> c \<in> {CHR ''_'', CHR ''.'', CHR '':'', CHR ''-''}) s"

text \<open>\<open>PlacePath\<close>: the path of a place, or what is wrong with the home or the place.\<close>

definition PlacePath :: "string \<Rightarrow> string \<Rightarrow> string + string" where
  "PlacePath home0 pid =
     (let home = Clean (trim_space home0)
      in if \<not> IsAbs home \<or> home = ''/'' then Inl ''desktop home is invalid''
         else if pid = ''models'' then Inr (Join (Join home ''Cloudless'') ''Models'')
         else if pid = ''outputs'' then Inr (Join (Join home ''Cloudless'') ''Outputs'')
         else if pid = ''workspace'' then Inr (Join (Join home ''Cloudless'') ''Workspace'')
         else if pid = ''downloads'' then Inr (Join home ''Downloads'')
         else Inl ''desktop place is not admitted'')"

definition validateKey :: "string \<Rightarrow> string \<Rightarrow> string option" where
  "validateKey action v =
     (if action = ''text''
      then (if length v \<noteq> 1 \<or> code (hd v) < 0x20 \<or> 0x7E < code (hd v)
            then Some ''virtual keyboard text must be one printable ASCII character'' else None)
      else if action \<in> {''backspace'', ''left'', ''right'', ''enter'', ''shift-enter''}
      then (if v \<noteq> '''' then Some ''virtual keyboard action does not accept text'' else None)
      else Some ''virtual keyboard action is not admitted'')"

definition no_display :: "Request \<Rightarrow> bool" where
  "no_display r \<longleftrightarrow> dr_Layout r = '''' \<and> dr_Output r = '''' \<and> dr_Width r = 0 \<and> dr_Height r = 0"

definition no_key :: "Request \<Rightarrow> bool" where
  "no_key r \<longleftrightarrow> dr_KeyAction r = '''' \<and> dr_Value r = ''''"

definition Validate :: "Request \<Rightarrow> string option" where
  "Validate r =
     (if dr_Action r = ''display.query''
      then (if \<not> no_display r \<or> \<not> no_key r \<or> dr_PlaceID r \<noteq> ''''
            then Some ''display query does not accept parameters'' else None)
      else if dr_Action r = ''display.apply''
      then (if dr_Layout r \<notin> {''single'', ''mirror'', ''extend''} then Some ''display layout is invalid''
            else if \<not> outputNamePattern (dr_Output r) then Some ''display output is invalid''
            else if dr_Width r < 320 \<or> 16384 < dr_Width r \<or> dr_Height r < 200 \<or> 16384 < dr_Height r
            then Some ''display dimensions are invalid''
            else if \<not> no_key r \<or> dr_PlaceID r \<noteq> '''' then Some ''display change contains unrelated parameters''
            else None)
      else if dr_Action r = ''input.key''
      then (if \<not> no_display r \<or> dr_PlaceID r \<noteq> '''' then Some ''input request contains unrelated parameters''
            else validateKey (dr_KeyAction r) (dr_Value r))
      else if dr_Action r = ''place.open''
      then (if \<not> no_display r \<or> \<not> no_key r then Some ''place request contains unrelated parameters''
            else case PlacePath ''/home/cloudless'' (dr_PlaceID r) of Inl e \<Rightarrow> Some e | Inr p \<Rightarrow> None)
      else Some ''desktop action is not admitted'')"

subsection \<open>Messages\<close>

definition Request_json :: "Request \<Rightarrow> json" where
  "Request_json r = JObj (fld ''action'' (JStr (dr_Action r)) @ str_omit ''layout'' (dr_Layout r) @
     str_omit ''output'' (dr_Output r) @ int_omit ''width'' (dr_Width r) @ int_omit ''height'' (dr_Height r) @
     str_omit ''keyAction'' (dr_KeyAction r) @ str_omit ''value'' (dr_Value r) @ str_omit ''placeId'' (dr_PlaceID r))"

definition Request_fields :: "Request fields" where
  "Request_fields =
     [(''action'', set_string (\<lambda>x r. r\<lparr>dr_Action := x\<rparr>)), (''layout'', set_string (\<lambda>x r. r\<lparr>dr_Layout := x\<rparr>)),
      (''output'', set_string (\<lambda>x r. r\<lparr>dr_Output := x\<rparr>)), (''width'', set_int (\<lambda>x r. r\<lparr>dr_Width := x\<rparr>)),
      (''height'', set_int (\<lambda>x r. r\<lparr>dr_Height := x\<rparr>)), (''keyAction'', set_string (\<lambda>x r. r\<lparr>dr_KeyAction := x\<rparr>)),
      (''value'', set_string (\<lambda>x r. r\<lparr>dr_Value := x\<rparr>)), (''placeId'', set_string (\<lambda>x r. r\<lparr>dr_PlaceID := x\<rparr>))]"

definition Response_json :: "Response \<Rightarrow> json" where
  "Response_json r = JObj (str_omit ''output'' (ds_Output r) @ str_omit ''error'' (ds_Error r))"

definition Response_fields :: "Response fields" where
  "Response_fields =
     [(''output'', set_string (\<lambda>x r. r\<lparr>ds_Output := x\<rparr>)), (''error'', set_string (\<lambda>x r. r\<lparr>ds_Error := x\<rparr>))]"

definition empty_Response :: Response where
  "empty_Response = \<lparr>ds_Output = '''', ds_Error = ''''\<rparr>"

text \<open>Both sides decode one value of a bounded stream and refuse members they do not know.\<close>

definition decode_bounded :: "nat \<Rightarrow> 'a fields \<Rightarrow> 'a \<Rightarrow> string \<Rightarrow> 'a option" where
  "decode_bounded limit fs zero s =
     (case decode_value (take limit s) of None \<Rightarrow> None | Some (v, rest) \<Rightarrow> decode_struct True fs zero v)"

subsection \<open>Server\<close>

record ('e, 's) desktop_executor =
  dx_QueryDisplay :: "'s \<Rightarrow> ('e + string) \<times> 's"
  dx_ApplyDisplay :: "string \<Rightarrow> string \<Rightarrow> int \<Rightarrow> int \<Rightarrow> 's \<Rightarrow> 'e option \<times> 's"
  dx_EmitKey :: "string \<Rightarrow> string \<Rightarrow> 's \<Rightarrow> 'e option \<times> 's"
  dx_OpenPlace :: "string \<Rightarrow> 's \<Rightarrow> 'e option \<times> 's"
  dx_text :: "'e \<Rightarrow> string"

definition dispatch :: "('e, 's) desktop_executor \<Rightarrow> Request \<Rightarrow> 's \<Rightarrow> ('e + string) \<times> 's" where
  "dispatch dx r s =
     (let done = (\<lambda>(e, s1). (case e of Some x \<Rightarrow> Inl x | None \<Rightarrow> Inr '''', s1))
      in if dr_Action r = ''display.query'' then dx_QueryDisplay dx s
         else if dr_Action r = ''display.apply''
         then done (dx_ApplyDisplay dx (dr_Layout r) (dr_Output r) (dr_Width r) (dr_Height r) s)
         else if dr_Action r = ''input.key'' then done (dx_EmitKey dx (dr_KeyAction r) (dr_Value r) s)
         else if dr_Action r = ''place.open'' then done (dx_OpenPlace dx (dr_PlaceID r) s)
         else (Inr '''', s))"

definition serveConnection :: "string option \<Rightarrow> ('e, 's) desktop_executor \<Rightarrow> string \<Rightarrow> 's \<Rightarrow> Response \<times> 's" where
  "serveConnection unauthorized dx bytes s =
     (if unauthorized \<noteq> None then (\<lparr>ds_Output = '''', ds_Error = ''desktop client is not authorized''\<rparr>, s)
      else case decode_bounded 4096 Request_fields empty_Request bytes of
        None \<Rightarrow> (\<lparr>ds_Output = '''', ds_Error = ''invalid desktop request''\<rparr>, s)
      | Some r \<Rightarrow>
          (case Validate r of
             Some e \<Rightarrow> (\<lparr>ds_Output = '''', ds_Error = e\<rparr>, s)
           | None \<Rightarrow> (case dispatch dx r s of
                 (Inl e, s1) \<Rightarrow> (\<lparr>ds_Output = '''', ds_Error = dx_text dx e\<rparr>, s1)
               | (Inr out, s1) \<Rightarrow> (\<lparr>ds_Output = out, ds_Error = ''''\<rparr>, s1))))"

subsection \<open>Client\<close>

text \<open>
  \<open>peer\<close> is the connection to the agent: an error of dialling, or whether the request was written in full and
  the bytes of the reply. A reply that carries an error is used even when the write failed.
\<close>

type_synonym 's desktop_peer = "string \<Rightarrow> 's \<Rightarrow> (string + string option \<times> string) \<times> 's"

definition desktop_call :: "'s desktop_peer \<Rightarrow> Request \<Rightarrow> 's \<Rightarrow> (string + Response) \<times> 's" where
  "desktop_call peer r s =
     (case Validate r of
        Some e \<Rightarrow> (Inl e, s)
      | None \<Rightarrow>
          (case peer (json_line (Request_json r)) s of
             (Inl e, s1) \<Rightarrow> (Inl e, s1)
           | (Inr (unsent, bytes), s1) \<Rightarrow>
               (let reply = decode_bounded (2 * 1024 * 1024) Response_fields empty_Response bytes
                in (case (unsent, reply) of
                      (Some e, Some p) \<Rightarrow> Inl (if ds_Error p \<noteq> '''' then ds_Error p else e)
                    | (Some e, None) \<Rightarrow> Inl e
                    | (None, None) \<Rightarrow> Inl ''invalid response''
                    | (None, Some p) \<Rightarrow> if ds_Error p \<noteq> '''' then Inl (ds_Error p) else Inr p, s1))))"

definition client_unit :: "(string + Response) \<times> 's \<Rightarrow> string option \<times> 's" where
  "client_unit r = (case r of (Inl e, s) \<Rightarrow> (Some e, s) | (Inr p, s) \<Rightarrow> (None, s))"

definition client_QueryDisplay :: "'s desktop_peer \<Rightarrow> 's \<Rightarrow> (string + string) \<times> 's" where
  "client_QueryDisplay peer s =
     (case desktop_call peer (empty_Request\<lparr>dr_Action := ''display.query''\<rparr>) s of
        (Inl e, s1) \<Rightarrow> (Inl e, s1) | (Inr p, s1) \<Rightarrow> (Inr (ds_Output p), s1))"

definition client_ApplyDisplay :: "'s desktop_peer \<Rightarrow> string \<Rightarrow> string \<Rightarrow> int \<Rightarrow> int \<Rightarrow> 's \<Rightarrow> string option \<times> 's" where
  "client_ApplyDisplay peer layout out w h s = client_unit (desktop_call peer
     (empty_Request\<lparr>dr_Action := ''display.apply'', dr_Layout := layout, dr_Output := out, dr_Width := w, dr_Height := h\<rparr>) s)"

definition client_EmitKey :: "'s desktop_peer \<Rightarrow> string \<Rightarrow> string \<Rightarrow> 's \<Rightarrow> string option \<times> 's" where
  "client_EmitKey peer action v s = client_unit (desktop_call peer
     (empty_Request\<lparr>dr_Action := ''input.key'', dr_KeyAction := action, dr_Value := v\<rparr>) s)"

definition client_OpenPlace :: "'s desktop_peer \<Rightarrow> string \<Rightarrow> 's \<Rightarrow> string option \<times> 's" where
  "client_OpenPlace peer pid s = client_unit (desktop_call peer
     (empty_Request\<lparr>dr_Action := ''place.open'', dr_PlaceID := pid\<rparr>) s)"

subsection \<open>The session executor\<close>

definition xrandr_query :: "'x io \<Rightarrow> ('x, string) host_act" where
  "xrandr_query io = h_run io [''/usr/bin/xrandr'', ''--query'']"

definition session_ApplyDisplay :: "'x io \<Rightarrow> string \<Rightarrow> string \<Rightarrow> int \<Rightarrow> int \<Rightarrow> ('x, unit) host_act" where
  "session_ApplyDisplay io layout out w h =
     h_bind (xrandr_query io) (\<lambda>before.
       case Parse before of
         None \<Rightarrow> h_fail (Refuse ''parse display layout'')
       | Some snap \<Rightarrow>
           (case BuildPlan snap \<lparr>dp_Layout = layout, dp_Output = out, dp_Width = w, dp_Height = h\<rparr> of
              Inl e \<Rightarrow> h_fail (Refuse ''plan display layout'')
            | Inr plan \<Rightarrow>
                h_then (h_run io (''/usr/bin/xrandr'' # pl_Args plan))
                  (h_bind (xrandr_query io) (\<lambda>after.
                     case Parse after of
                       None \<Rightarrow> h_fail (Refuse ''display server did not apply the requested safe layout'')
                     | Some verified \<Rightarrow>
                         if \<not> Matches_layout verified (pl_Effective plan)
                         then h_fail (Refuse ''display server did not apply the requested safe layout'')
                         else h_ret ()))))"

definition key_symbols :: "(string \<times> string) list" where
  "key_symbols = [(''backspace'', ''BackSpace''), (''left'', ''Left''), (''right'', ''Right''),
     (''enter'', ''Return''), (''shift-enter'', ''shift+Return'')]"

definition session_EmitKey :: "'x io \<Rightarrow> string \<Rightarrow> string \<Rightarrow> ('x, unit) host_act" where
  "session_EmitKey io action v =
     h_then (h_run io (''/usr/bin/xdotool'' #
         (if action = ''text'' then [''type'', ''--clearmodifiers'', ''--delay'', ''0'', v]
          else [''key'', ''--clearmodifiers'', case lookup key_symbols action of Some k \<Rightarrow> k | None \<Rightarrow> ''''])))
       (h_ret ())"

text \<open>\<open>home\<close> is the home of the session, if it has one; \<open>manager\<close> where \<open>pcmanfm\<close> was found.\<close>

definition session_OpenPlace :: "'x io \<Rightarrow> string option \<Rightarrow> string option \<Rightarrow> string \<Rightarrow> ('x, unit) host_act" where
  "session_OpenPlace io home manager pid =
     (case home of None \<Rightarrow> h_fail (Refuse ''resolve desktop home'')
      | Some h \<Rightarrow> (case PlacePath h pid of
            Inl e \<Rightarrow> h_fail (Refuse e)
          | Inr p \<Rightarrow> h_then (MkdirAll io p)
              (case manager of None \<Rightarrow> h_fail (Refuse ''file manager unavailable (pcmanfm not found)'')
               | Some m \<Rightarrow> h_then (h_run io [m, ''--no-desktop'', ''--new-win'', p]) (h_ret ()))))"

fun error_text :: "host_error \<Rightarrow> string" where
  "error_text (Sys NotExist) = ''no such file or directory''"
| "error_text (Sys CrossDevice) = ''invalid cross-device link''"
| "error_text (Sys (Errno e)) = e"
| "error_text (Refuse e) = e"
| "error_text (Command c e) = c @ '': '' @ e"
| "error_text (Joined es) = join [CHR 0x0A] (map error_text es)"

definition unit_outcome :: "(host_error + unit) \<times> 's \<Rightarrow> host_error option \<times> 's" where
  "unit_outcome r = (case r of (Inl e, w) \<Rightarrow> (Some e, w) | (Inr u, w) \<Rightarrow> (None, w))"

definition sessionExecutor :: "'x io \<Rightarrow> string option \<Rightarrow> string option \<Rightarrow> (host_error, 'x world) desktop_executor" where
  "sessionExecutor io home manager =
     \<lparr>dx_QueryDisplay = xrandr_query io,
      dx_ApplyDisplay = (\<lambda>l out w h s. unit_outcome (session_ApplyDisplay io l out w h s)),
      dx_EmitKey = (\<lambda>a v s. unit_outcome (session_EmitKey io a v s)),
      dx_OpenPlace = (\<lambda>p s. unit_outcome (session_OpenPlace io home manager p s)),
      dx_text = error_text\<rparr>"

subsection \<open>Places\<close>

record Place =
  pc_ID :: string
  pc_Label :: string
  pc_Path :: string
  pc_Exists :: bool

text \<open>The home of a user in the account database, and the home and temporary directory of the process.\<close>

record places_env =
  pe_getenv :: "string \<Rightarrow> string"
  pe_home_of :: "string \<Rightarrow> string option"
  pe_home :: "string option"
  pe_temp :: string

definition place_base :: "places_env \<Rightarrow> string" where
  "place_base pe =
     (if pe_getenv pe ''CLOUDLESS_HOME'' \<noteq> '''' then pe_getenv pe ''CLOUDLESS_HOME''
      else Join (case pe_home pe of Some h \<Rightarrow> if h = '''' then pe_temp pe else h | None \<Rightarrow> pe_temp pe) ''Cloudless'')"

definition desktopHome :: "places_env \<Rightarrow> string \<Rightarrow> string" where
  "desktopHome pe fallback =
     (let name = pe_getenv pe ''CLOUDLESS_DESKTOP_USER'';
          own = (case pe_home pe of Some h \<Rightarrow> if h = '''' then fallback else h | None \<Rightarrow> fallback)
      in if pe_getenv pe ''CLOUDLESS_DESKTOP_HOME'' \<noteq> '''' then pe_getenv pe ''CLOUDLESS_DESKTOP_HOME''
         else if name \<noteq> ''''
         then (case pe_home_of pe name of Some h \<Rightarrow> if h \<noteq> '''' then h else own | None \<Rightarrow> own)
         else own)"

definition place_defs :: "places_env \<Rightarrow> (string \<times> string \<times> string) list" where
  "place_defs pe =
     (let b = place_base pe
      in [(''models'', ''Models'', Join b ''Models''), (''outputs'', ''Outputs'', Join b ''Outputs''),
          (''workspace'', ''Workspace'', Join b ''Workspace''), (''downloads'', ''Downloads'', Join (desktopHome pe b) ''Downloads'')])"

fun list_places :: "'x io \<Rightarrow> (string \<times> string \<times> string) list \<Rightarrow> ('x, Place list) host_act" where
  "list_places io [] = h_ret []"
| "list_places io ((i, l, p) # ds) =
     h_try (Stat io p) (\<lambda>r. h_bind (list_places io ds) (\<lambda>ps.
       h_ret (\<lparr>pc_ID = i, pc_Label = l, pc_Path = p, pc_Exists = (case r of Inr k \<Rightarrow> True | Inl e \<Rightarrow> False)\<rparr> # ps)))"

definition ListPlaces :: "places_env \<Rightarrow> 'x io \<Rightarrow> ('x, Place list) host_act" where
  "ListPlaces pe io = list_places io (place_defs pe)"

definition GetPlace :: "places_env \<Rightarrow> 'x io \<Rightarrow> string \<Rightarrow> ('x, Place option) host_act" where
  "GetPlace pe io pid = h_bind (ListPlaces pe io) (\<lambda>ps. h_ret (find (\<lambda>p. pc_ID p = pid) ps))"

text \<open>\<open>Open\<close>: by the agent of the session, or, without a desktop user, by \<open>xdg-open\<close> where it was found.\<close>

definition OpenPlace :: "places_env \<Rightarrow> 'x io \<Rightarrow> 'x world desktop_peer \<Rightarrow> string option \<Rightarrow> Place \<Rightarrow> ('x, unit) host_act" where
  "OpenPlace pe io peer opener p w =
     (if pe_getenv pe ''CLOUDLESS_DESKTOP_USER'' \<noteq> ''''
      then (case client_OpenPlace peer (pc_ID p) w of (Some e, w1) \<Rightarrow> (Inl (Refuse e), w1) | (None, w1) \<Rightarrow> (Inr (), w1))
      else h_then (MkdirAll io (pc_Path p))
             (case opener of None \<Rightarrow> h_fail (Refuse ''no file manager available (xdg-open not found)'')
              | Some b \<Rightarrow> h_then (h_run io [b, pc_Path p]) (h_ret ())) w)"

end
