(* ===== verification/HelperProps.thy ===== *)
theory HelperProps
  imports HostHelper DesktopAgent
begin

text \<open>
  What the host helpers can be made to do: the typing of the requests that are executed, the programs that
  run for them, what the removal of a model removes, and the clients as stand-ins for what they call.
\<close>

subsection \<open>Relations between the world before and after\<close>

locale host_relation =
  fixes R :: "'x world \<Rightarrow> 'x world \<Rightarrow> bool"
  assumes R_refl: "R w w"
    and R_trans: "R u v \<Longrightarrow> R v w \<Longrightarrow> R u w"
begin

definition obeys :: "('x, 'a) host_act \<Rightarrow> bool" where
  "obeys a \<longleftrightarrow> (\<forall>w. R w (snd (a w)))"

lemma obeysD: "obeys a \<Longrightarrow> R w (snd (a w))"
  by (simp add: obeys_def)

lemma obeys_query: "(\<And>w. snd (a w) = w) \<Longrightarrow> obeys a"
  by (simp add: obeys_def R_refl)

lemma obeys_ret: "obeys (h_ret v)" and obeys_fail: "obeys (h_fail e)"
  by (simp_all add: obeys_def h_ret_def h_fail_def R_refl)

lemma obeys_try: "obeys a \<Longrightarrow> (\<And>r. obeys (f r)) \<Longrightarrow> obeys (h_try a f)"
  unfolding obeys_def h_try_def by (metis R_trans prod.case_eq_if)

lemma obeys_bind: "obeys a \<Longrightarrow> (\<And>v. obeys (f v)) \<Longrightarrow> obeys (h_bind a f)"
  unfolding h_bind_def by (rule obeys_try) (auto split: sum.splits intro: obeys_fail)

lemma obeys_then: "obeys a \<Longrightarrow> obeys b \<Longrightarrow> obeys (h_then a b)"
  unfolding h_then_def by (rule obeys_bind)

lemma obeys_ignore: "obeys a \<Longrightarrow> obeys b \<Longrightarrow> obeys (h_ignore a b)"
  unfolding h_ignore_def by (rule obeys_try)

lemma obeys_each: "(\<And>x. x \<in> set xs \<Longrightarrow> obeys (f x)) \<Longrightarrow> obeys (h_each f xs)"
  by (induction xs) (auto intro: obeys_ret obeys_then)

lemma obeys_collect: "(\<And>x. x \<in> set xs \<Longrightarrow> obeys (f x)) \<Longrightarrow> obeys (h_collect f xs)"
  by (induction xs) (auto intro!: obeys_ret obeys_try obeys_bind)

lemma obeys_join: "obeys (h_join es)"
  by (simp add: h_join_def obeys_ret obeys_fail)

lemma obeys_fault: "obeys a \<Longrightarrow> obeys (with_fault io op p a)"
  unfolding with_fault_def by (cases "io_fault io op p") (simp_all add: obeys_fail)

lemma obeys_path: "(\<And>q. obeys (f q)) \<Longrightarrow> obeys (on_path fo mi p f)"
  by (auto simp: obeys_def on_path_def R_refl split: sum.splits)

lemma obeys_if: "(c \<Longrightarrow> obeys a) \<Longrightarrow> (\<not> c \<Longrightarrow> obeys b) \<Longrightarrow> obeys (if c then a else b)"
  by simp

lemma obeys_queries: "obeys (kind_at q)" "obeys (bytes_at q)" "obeys (entries_at q)" "obeys (tree_at q)"
  by (rule obeys_query; simp add: kind_at_def bytes_at_def entries_at_def tree_at_def split: option.splits node.splits)+

lemma obeys_reads: "obeys (Lstat io p)" "obeys (Stat io p)" "obeys (ReadFile io p)" "obeys (ReadDir io p)"
    "obeys (WalkTree io p)" "obeys (EvalSymlinks io p)" "obeys (Chmod io p)"
  unfolding Lstat_def Stat_def ReadFile_def ReadDir_def WalkTree_def EvalSymlinks_def Chmod_def
  by (intro obeys_fault obeys_path obeys_queries obeys_ret)+

lemmas obeys_rules = obeys_ret obeys_fail obeys_try obeys_bind obeys_then obeys_ignore obeys_each
  obeys_collect obeys_join obeys_fault obeys_path obeys_if obeys_reads

end

text \<open>The programs that were run between two states all satisfy \<open>P\<close>.\<close>

definition ran_only :: "(string list \<Rightarrow> bool) \<Rightarrow> 'x world \<Rightarrow> 'x world \<Rightarrow> bool" where
  "ran_only P w w' \<longleftrightarrow> (\<exists>new. w_ran w' = w_ran w @ new \<and> list_all P new)"

interpretation ran: host_relation "ran_only P" for P
  by unfold_locales (auto simp: ran_only_def)

lemma ran_unchanged: "(\<And>w. w_ran (snd (a w)) = w_ran w) \<Longrightarrow> ran.obeys P a"
  by (simp add: ran.obeys_def ran_only_def)

lemma ran_exec: "P argv \<Longrightarrow> ran.obeys P (h_exec io argv)"
  by (auto simp: ran.obeys_def ran_only_def h_exec_def split: prod.splits)

lemma ran_run: "P argv \<Longrightarrow> ran.obeys P (h_run io argv)"
  unfolding h_run_def by (intro ran.obeys_bind ran_exec) (auto intro: ran.obeys_rules)

lemma mkdirs_ran: "w_ran (snd (mkdirs dn es w)) = w_ran w"
  by (induction dn es w rule: mkdirs.induct) (auto split: sum.splits errno.splits)

lemma ran_changes:
  "ran.obeys P (RemoveAll io p)" "ran.obeys P (Remove io p)" "ran.obeys P (MkdirAll io p)" "ran.obeys P (WriteFile io p b)"
  "ran.obeys P (Hardlink io p p')" "ran.obeys P (Symlink io p p')" "ran.obeys P (Rename io p p')"
  "ran.obeys P (Chown io fo p u g)" "ran.obeys P (put_bytes b q)"
  unfolding Remove_def MkdirAll_def WriteFile_def Hardlink_def Symlink_def Rename_def Chown_def link_to_def [abs_def]
  by (intro ran.obeys_fault ran.obeys_path ran_unchanged; fastforce simp: RemoveAll_def remove_at_def set_nodes_def
      mkdirs_ran put_bytes_def Let_def on_path_def place_def rename_to_def chown_at_def
      split: sum.splits option.splits errno.splits node.splits)+

subsection \<open>Typed requests\<close>

text \<open>The type of an action's value: the requests a helper may execute.\<close>

definition plain_actions :: "Action list" where
  "plain_actions = [ActionPowerOff, ActionReboot, ActionSystemUpdateCheck, ActionSystemUpdateApply, ActionNVIDIAUpdateCheck,
     ActionNVIDIAUpdateApply, ActionTailscaleInstaller, ActionClusterNetworkRemove, ActionRecipeRuntimeRepair,
     ActionModelViewsReconcile]"

inductive request_type :: "(string \<Rightarrow> bool) \<Rightarrow> Action \<Rightarrow> string \<Rightarrow> bool" for zones where
  plain: "a \<in> set plain_actions \<Longrightarrow> request_type zones a ''''"
| channel: "ValidChannel c \<Longrightarrow> request_type zones ActionSystemUpdateChannel c"
| timezone: "z \<noteq> '''' \<Longrightarrow> length z \<le> 128 \<Longrightarrow> CHR 0x00 \<notin> set z \<Longrightarrow> z \<in> {''UTC'', ''Local''} \<or>
     (\<not> contains z ''..'' \<and> hd z \<notin> {CHR ''/'', CHR 0x5C} \<and> zones z) \<Longrightarrow> request_type zones ActionTimezoneSet z"
| network: "atoi i = (index, True) \<Longrightarrow> 1 \<le> index \<Longrightarrow> index \<le> 8 \<Longrightarrow> CHR ''|'' \<notin> set i \<Longrightarrow>
     clusterInterfaceName a \<Longrightarrow> clusterInterfaceName b \<Longrightarrow> a \<noteq> b \<Longrightarrow> a \<noteq> ''lo'' \<Longrightarrow> b \<noteq> ''lo'' \<Longrightarrow>
     request_type zones ActionClusterNetworkApply (i @ ''|'' @ a @ ''|'' @ b)"
| container: "recipeContainerName n \<Longrightarrow> \<not> contains n ''..'' \<Longrightarrow> request_type zones ActionRecipeContainerRemove n"
| model: "2 \<le> length ps \<Longrightarrow> list_all (\<lambda>p. modelIDPart p \<and> p \<noteq> ''..'') ps \<Longrightarrow> length (join_path ps) \<le> 200 \<Longrightarrow>
     request_type zones ActionModelUninstall (join_path ps)"

inductive_simps request_type_network: "request_type zones ActionClusterNetworkApply v"
inductive_simps request_type_model: "request_type zones ActionModelUninstall v"
inductive_simps request_type_timezone: "request_type zones ActionTimezoneSet v"
inductive_simps request_type_channel: "request_type zones ActionSystemUpdateChannel v"
inductive_simps request_type_container: "request_type zones ActionRecipeContainerRemove v"
inductive_simps request_type_other: "request_type zones (OtherAction s) v"

inductive_cases request_typeE: "request_type zones a v"

lemma plain_type: "a \<in> set plain_actions \<Longrightarrow> request_type zones a v \<longleftrightarrow> v = ''''"
  by (auto simp: plain_actions_def elim: request_typeE intro!: plain)

text \<open>A string with exactly the given separators.\<close>

lemma split_on_join: "join_path (split_on CHR ''/'' s) = s"
proof (induction s)
  case (Cons c s)
  then show ?case by (cases "split_on CHR ''/'' s"; cases "tl (split_on CHR ''/'' s)") (auto split: list.splits)
qed simp

lemma split_on_three: "split_on c s = [x, y, z] \<Longrightarrow> s = x @ c # y @ c # z"
proof (induction s arbitrary: x)
  case (Cons a s)
  then show ?case
  proof (cases "a = c")
    case True
    with Cons.prems have "split_on c s = [y, z]" "x = []" by auto
    moreover have "split_on c s = [y, z] \<Longrightarrow> s = y @ c # z" for s y
    proof (induction s arbitrary: y)
      case (Cons b s)
      then show ?case
      proof (cases "b = c")
        case True
        with Cons.prems have "split_on c s = [z]" "y = []" by auto
        moreover have "split_on c s = [z] \<Longrightarrow> s = z" for s z
          by (induction s arbitrary: z) (auto split: if_splits list.splits)
        ultimately show ?thesis using True by simp
      qed (auto split: list.splits)
    qed simp
    ultimately show ?thesis using True by simp
  qed (auto split: list.splits)
qed simp

lemma part_pattern_char: "part_pattern n s \<Longrightarrow> c \<in> set s \<Longrightarrow> part_char c"
  by (auto simp: part_pattern_def part_char_def list_all_iff split: list.splits)

lemma part_char_not [simp]: "\<not> part_char CHR ''/''" "\<not> part_char CHR ''|''" "\<not> part_char CHR 0x5C" "\<not> part_char CHR 0x00"
    "\<not> part_char CHR 0x0D" "\<not> part_char CHR 0x0A" "\<not> part_char CHR '' ''"
  by (simp_all add: part_char_def is_alnum_def in_range_def code_def)

lemma part_pattern_no: "part_pattern n s \<Longrightarrow> \<not> part_char c \<Longrightarrow> c \<notin> set s"
  using part_pattern_char by blast

lemma join_path_set: "c \<in> set (join_path ps) \<Longrightarrow> c = CHR ''/'' \<or> (\<exists>p \<in> set ps. c \<in> set p)"
  by (induction ps rule: join_path.induct) auto

lemma split_on_join_path: "ps \<noteq> [] \<Longrightarrow> list_all (\<lambda>p. CHR ''/'' \<notin> set p) ps \<Longrightarrow> split_on CHR ''/'' (join_path ps) = ps"
  by (induction ps rule: join_path.induct) (auto simp: split_on_prefix split_on_none)

lemma part_pattern_shape: "part_pattern n s \<Longrightarrow> s \<noteq> '''' \<and> s \<noteq> ''.''"
  by (auto simp: part_pattern_def is_alnum_def in_range_def code_def split: list.splits)

lemma ValidModelID_iff:
  assumes "trim_space v = v"
  shows "ValidModelID v \<longleftrightarrow> (\<exists>ps. 2 \<le> length ps \<and> list_all (\<lambda>p. modelIDPart p \<and> p \<noteq> ''..'') ps \<and> length v \<le> 200 \<and> v = join_path ps)"
proof
  assume "ValidModelID v"
  with assms show "\<exists>ps. 2 \<le> length ps \<and> list_all (\<lambda>p. modelIDPart p \<and> p \<noteq> ''..'') ps \<and> length v \<le> 200 \<and> v = join_path ps"
    by (intro exI [of _ "split_on CHR ''/'' v"]) (auto simp: ValidModelID_def Let_def split_on_join list_all_iff)
next
  assume "\<exists>ps. 2 \<le> length ps \<and> list_all (\<lambda>p. modelIDPart p \<and> p \<noteq> ''..'') ps \<and> length v \<le> 200 \<and> v = join_path ps"
  then obtain ps where ps: "2 \<le> length ps" "list_all (\<lambda>p. modelIDPart p \<and> p \<noteq> ''..'') ps" "length v \<le> 200" "v = join_path ps" by blast
  then have no: "\<forall>p \<in> set ps. \<forall>c. \<not> part_char c \<longrightarrow> c \<notin> set p" by (auto simp: list_all_iff modelIDPart_def dest: part_pattern_no)
  then have "list_all (\<lambda>p. CHR ''/'' \<notin> set p) ps" by (simp add: list_all_iff)
  with ps(1,4) have "split_on CHR ''/'' v = ps" by (auto intro!: split_on_join_path)
  moreover have "\<not> contains_any v [CHR 0x5C, CHR 0x00, CHR 0x0D, CHR 0x0A]"
    using no by (auto simp: contains_any_def list_ex_iff ps(4) dest!: join_path_set)
  moreover have "v \<noteq> ''''" using calculation(1) ps(1) by auto
  ultimately show "ValidModelID v"
    using ps assms by (auto simp: ValidModelID_def Let_def list_all_iff modelIDPart_def dest: part_pattern_shape)
qed

lemma ParseClusterNetworkValue_iff:
  "ParseClusterNetworkValue v = Inr (index, a, b) \<longleftrightarrow>
    (\<exists>i. v = i @ ''|'' @ a @ ''|'' @ b \<and> CHR ''|'' \<notin> set i \<and> atoi i = (index, True) \<and> 1 \<le> index \<and> index \<le> 8 \<and>
       clusterInterfaceName a \<and> clusterInterfaceName b \<and> a \<noteq> b \<and> a \<noteq> ''lo'' \<and> b \<noteq> ''lo'')"
proof
  assume "ParseClusterNetworkValue v = Inr (index, a, b)"
  then obtain i where s: "split_on CHR ''|'' v = [i, a, b]" and
    "atoi i = (index, True)" "1 \<le> index" "index \<le> 8" "clusterInterfaceName a" "clusterInterfaceName b" "a \<noteq> b" "a \<noteq> ''lo''" "b \<noteq> ''lo''"
    by (auto simp: ParseClusterNetworkValue_def split: list.splits prod.splits if_splits)
  with split_on_three [OF s] split_on_no_sep [of i "CHR ''|''" v]
  show "\<exists>i. v = i @ ''|'' @ a @ ''|'' @ b \<and> CHR ''|'' \<notin> set i \<and> atoi i = (index, True) \<and> 1 \<le> index \<and> index \<le> 8 \<and>
       clusterInterfaceName a \<and> clusterInterfaceName b \<and> a \<noteq> b \<and> a \<noteq> ''lo'' \<and> b \<noteq> ''lo''" by auto
next
  assume "\<exists>i. v = i @ ''|'' @ a @ ''|'' @ b \<and> CHR ''|'' \<notin> set i \<and> atoi i = (index, True) \<and> 1 \<le> index \<and> index \<le> 8 \<and>
       clusterInterfaceName a \<and> clusterInterfaceName b \<and> a \<noteq> b \<and> a \<noteq> ''lo'' \<and> b \<noteq> ''lo''"
  then show "ParseClusterNetworkValue v = Inr (index, a, b)"
    by (auto simp: ParseClusterNetworkValue_def clusterInterfaceName_def split_on_prefix split_on_none part_pattern_no)
qed

lemma validateRequest_iff:
  assumes "trim_space v = v"
  shows "validateRequest zones \<lparr>rq_Action = a, rq_Value = v\<rparr> = None \<longleftrightarrow> request_type zones a v"
proof (cases "a \<in> set plain_actions")
  case True
  then show ?thesis
  proof -
    have "validateRequest zones \<lparr>rq_Action = a, rq_Value = v\<rparr> = (if v \<noteq> '''' then Some NoValueAccepted else None)"
      using True assms by (auto simp: plain_actions_def validateRequest_def Let_def Valid_def)
    then show ?thesis by (simp add: plain_type [OF True])
  qed
next
  case False
  then show ?thesis
  proof (cases a)
    case ActionClusterNetworkApply
    have "validateRequest zones \<lparr>rq_Action = a, rq_Value = v\<rparr> = None \<longleftrightarrow> (\<exists>p. ParseClusterNetworkValue v = Inr p)"
      using assms ActionClusterNetworkApply by (auto simp: validateRequest_def Let_def split: sum.splits)
    also have "\<dots> \<longleftrightarrow> request_type zones a v"
      unfolding ActionClusterNetworkApply request_type_network split_paired_Ex ParseClusterNetworkValue_iff
      by (auto simp: plain_actions_def)
    finally show ?thesis .
  qed (use assms False in \<open>auto simp: validateRequest_def Let_def LoadLocation_def ValidModelID_iff Valid_def plain_actions_def
      ValidChannel_def request_type_model request_type_timezone request_type_channel request_type_container request_type_other\<close>)
qed

text \<open>A connection changes the state only by executing one typed request of an authorized peer.\<close>

lemma handleConnection_typed:
  "(case handleConnection zones u ex c s of (r, s') \<Rightarrow>
     (\<not> rs_OK r \<and> s' = s) \<or>
     (\<exists>a v. u = None \<and> request_type zones a v \<and> s' = snd (ex a v s) \<and> (rs_OK r \<longleftrightarrow> fst (ex a v s) = None)))"
proof (cases "u = None \<and> (\<exists>line req0. request_line c = Some line \<and> length line \<le> maxRequestBytes \<and> decode_request line = Some req0 \<and>
    validateRequest zones (req0\<lparr>rq_Value := trim_space (rq_Value req0)\<rparr>) = None)")
  case True
  then obtain line req0 where u: "u = None" "request_line c = Some line" "length line \<le> maxRequestBytes"
    "decode_request line = Some req0" and v: "validateRequest zones (req0\<lparr>rq_Value := trim_space (rq_Value req0)\<rparr>) = None" by blast
  let ?a = "rq_Action req0" and ?v = "trim_space (rq_Value req0)"
  have "req0\<lparr>rq_Value := ?v\<rparr> = \<lparr>rq_Action = ?a, rq_Value = ?v\<rparr>" by simp
  with v have "request_type zones ?a ?v" by (simp add: validateRequest_iff)
  moreover have "handleConnection zones u ex c s = (case ex ?a ?v s of
      (Some e, s1) \<Rightarrow> (failure ''privileged action failed'', s1) | (None, s1) \<Rightarrow> (\<lparr>rs_OK = True, rs_Error = ''''\<rparr>, s1))"
    using u v by (simp add: handleConnection_def Let_def)
  ultimately show ?thesis using u(1)
    by (cases "ex ?a ?v s"; cases "fst (ex ?a ?v s)") (auto simp: failure_def intro!: exI [of _ ?a] exI [of _ ?v])
next
  case False
  then show ?thesis
    by (auto simp: handleConnection_def Let_def failure_def not_less split: option.splits prod.splits)
qed

text \<open>C12: whatever arrives on the connections of the root helper, in which order and from whom, what it does is a sequence
  of executions of well-typed requests, at most one for each connection of an authorized peer. A request has its type by
  the rules of \<open>request_type\<close>: ten actions without a value, a channel, a time zone, a pair of links, a container
  name, a model id.\<close>

theorem helper_executes_typed_requests:
  "\<exists>reqs. list_all (\<lambda>r. request_type zones (fst r) (snd r)) reqs \<and> length reqs \<le> length (filter (\<lambda>(ac, c). authorize ac = None) cs) \<and>
     snd (Serve zones authorize ex cs s) = fold (\<lambda>r s. snd (ex (fst r) (snd r) s)) reqs s"
proof (induction cs arbitrary: s)
  case (Cons x cs)
  obtain ac c where x: "x = (ac, c)" by (cases x)
  obtain r s1 where h: "handleConnection zones (authorize ac) ex c s = (r, s1)" by fastforce
  from Cons.IH [of s1] obtain reqs where reqs: "list_all (\<lambda>r. request_type zones (fst r) (snd r)) reqs"
    "length reqs \<le> length (filter (\<lambda>(ac, c). authorize ac = None) cs)"
    "snd (Serve zones authorize ex cs s1) = fold (\<lambda>r s. snd (ex (fst r) (snd r) s)) reqs s1" by blast
  from handleConnection_typed [where zones = zones and u = "authorize ac" and ex = ex and c = c and s = s]
  consider "s1 = s" | (run) a v where "authorize ac = None" "request_type zones a v" "s1 = snd (ex a v s)" by (auto simp: h)
  then show ?case
  proof cases
    case 1
    with reqs h x show ?thesis by (auto split: prod.splits intro!: exI [of _ reqs])
  next
    case run
    with reqs h x show ?thesis by (auto split: prod.splits intro!: exI [of _ "(a, v) # reqs"])
  qed
qed simp

subsection \<open>Programs\<close>

text \<open>The command lines the helper runs.\<close>

definition fixed_programs :: "string list list" where
  "fixed_programs =
     [[''/usr/bin/systemctl'', ''poweroff'', ''--no-wall''], [''/usr/bin/systemctl'', ''reboot'', ''--no-wall'']] @
     map (\<lambda>u. [''/usr/bin/systemctl'', ''start'', ''--no-block'', u @ ''.service''])
       [''cloudless-update-check'', ''cloudless-update-apply'', ''cloudless-nvidia-check'', ''cloudless-nvidia-apply'',
        ''cloudless-tailscale-install''] @
     [[''/usr/sbin/netplan'', ''generate''], [''/usr/sbin/netplan'', ''apply''],
      [''/usr/sbin/ip'', ''-o'', ''-4'', ''addr'', ''show'']]"

inductive helper_program :: "(string \<Rightarrow> bool) \<Rightarrow> string list \<Rightarrow> bool" for zones where
  fixed: "argv \<in> set fixed_programs \<Longrightarrow> helper_program zones argv"
| set_timezone: "request_type zones ActionTimezoneSet z \<Longrightarrow> helper_program zones [''/usr/bin/timedatectl'', ''set-timezone'', z]"
| remove_container: "request_type zones ActionRecipeContainerRemove n \<Longrightarrow>
    helper_program zones [''/usr/bin/docker'', ''rm'', ''-f'', ''--'', n]"
| delete_address: "isReservedClusterAddress cidr \<Longrightarrow> clusterInterfaceName iface \<Longrightarrow> iface \<noteq> ''lo'' \<Longrightarrow>
    helper_program zones [''/usr/sbin/ip'', ''address'', ''del'', cidr, ''dev'', iface]"

lemma replace_file_ran: "ran.obeys P (replace_file io stem p b)"
proof -
  have "ran.obeys P (\<lambda>w. if node_at (w_nodes w) q \<noteq> None then (Inl (Sys (Errno ''file exists'')), w) else put_bytes [] q w)" for q
    by (auto simp: ran.obeys_def ran_only_def put_bytes_def Let_def split: option.splits node.splits)
  then show ?thesis unfolding replace_file_def Let_def
    by (intro ran.obeys_rules ran_changes) (auto split: sum.splits intro: ran.obeys_rules)
qed

lemma systemctl_ran: "(\<And>x. helper_program zones (''/usr/bin/systemctl'' # args)) \<Longrightarrow> ran.obeys (helper_program zones) (systemctl io args)"
  unfolding systemctl_def by (intro ran.obeys_rules ran_run)

lemma start_unit_ran: "u \<in> set [''cloudless-update-check.service'', ''cloudless-update-apply.service'', ''cloudless-nvidia-check.service'',
    ''cloudless-nvidia-apply.service'', ''cloudless-tailscale-install.service''] \<Longrightarrow> ran.obeys (helper_program zones) (start_unit io u)"
  unfolding start_unit_def by (rule systemctl_ran, rule fixed) (auto simp: fixed_programs_def)

lemma runNetplan_ran: "ran.obeys (helper_program zones) (runNetplan io)"
  unfolding runNetplan_def
  by (intro ran.obeys_rules ran_run fixed) (auto simp: fixed_programs_def)

lemma managed_file_ran: "ran.obeys P (secureReplace io p b)" "ran.obeys P (removeManagedFile io p)"
  unfolding secureReplace_def removeManagedFile_def
  by (intro ran.obeys_try ran.obeys_reads; auto split: sum.splits host_error.splits errno.splits node.splits
      intro: ran.obeys_rules ran_changes replace_file_ran)+

lemma applyClusterNetwork_ran: "ran.obeys (helper_program zones) (applyClusterNetwork io v)"
  unfolding applyClusterNetwork_def
  by (auto split: sum.splits intro!: ran.obeys_rules managed_file_ran runNetplan_ran)

lemma split_on_append: "split_on c (x @ c # y) = split_on c x @ split_on c y"
  by (induction x) (auto split: list.splits)

lemma placeholder_parse:
  assumes "ParseClusterNetworkValue (''1|'' @ iface @ ''|placeholder'') = Inr p"
  shows "clusterInterfaceName iface \<and> iface \<noteq> ''lo''"
proof -
  obtain index a b where p: "p = (index, a, b)" by (cases p)
  from assms p have "split_on CHR ''|'' (iface @ CHR ''|'' # ''placeholder'') = [a, b]"
    and a: "clusterInterfaceName a" "a \<noteq> ''lo''"
    by (auto simp: ParseClusterNetworkValue_def split: list.splits prod.splits if_splits)
  then have "split_on CHR ''|'' iface = [a]" unfolding split_on_append by (simp add: append_eq_Cons_conv)
  moreover have "split_on CHR ''|'' s = [z] \<Longrightarrow> s = z" for s z
    by (induction s arbitrary: z) (auto split: if_splits list.splits)
  ultimately show ?thesis using a by blast
qed

lemma address_of_line: "address_of_line l = Some (iface, cidr) \<Longrightarrow> isReservedClusterAddress cidr \<and> clusterInterfaceName iface \<and> iface \<noteq> ''lo''"
  using placeholder_parse [of iface]
  by (auto simp: address_of_line_def Let_def split: list.splits sum.splits if_splits)

lemma removeClusterNetwork_ran: "ran.obeys (helper_program zones) (removeClusterNetwork io)"
proof -
  have "ran.obeys (helper_program zones) (h_run io [''/usr/sbin/ip'', ''address'', ''del'', cidr, ''dev'', iface])"
    if "(iface, cidr) \<in> set (List.map_filter address_of_line ls)" for iface cidr ls
  proof -
    from that obtain l where "address_of_line l = Some (iface, cidr)" by (auto simp: map_filter_def)
    from address_of_line [OF this] show ?thesis by (intro ran_run delete_address) auto
  qed
  then show ?thesis
    unfolding removeClusterNetwork_def removeClusterAddresses_def
    by (intro ran.obeys_rules managed_file_ran runNetplan_ran ran_run fixed)
      (auto simp: fixed_programs_def intro!: ran.obeys_rules)
qed

lemma SetChannel_ran: "ran.obeys P (SetChannel getenv io c)"
  unfolding SetChannel_def atomicWrite_def Let_def
  by (intro ran.obeys_rules replace_file_ran) (auto split: sum.splits intro!: ran.obeys_rules replace_file_ran)

lemma Channel_ran: "ran.obeys P (Channel getenv io)"
  unfolding Channel_def by (intro ran.obeys_rules)

lemma change_channel_ran: "ran.obeys (helper_program zones) (change_channel he io v)"
  unfolding change_channel_def
  by (intro ran.obeys_rules SetChannel_ran Channel_ran start_unit_ran)
    (auto split: sum.splits intro!: ran.obeys_rules SetChannel_ran)

lemma uninstall_ran: "ran.obeys P (uninstallManagedModelAt io m c p)"
  unfolding uninstallManagedModelAt_def remove_view_def Let_def
  by (intro ran.obeys_rules; auto split: sum.splits host_error.splits errno.splits node.splits
      intro!: ran.obeys_rules ran_changes)

lemma link_item_ran: "ran.obeys P (link_item io c s d item)"
  unfolding link_item_def Let_def
  by (cases item) (auto split: sum.splits host_error.splits errno.splits intro!: ran.obeys_rules ran_changes)

lemma build_view_ran: "ran.obeys P (build_view io c p s d)"
  unfolding build_view_def or_discard_def hardlinkManagedModelTree_def Let_def
  by (intro ran.obeys_rules link_item_ran ran_changes)
    (auto split: sum.splits intro!: ran.obeys_rules ran_changes)

lemma managedModelView_ran: "ran.obeys P (managedModelView io p)"
  unfolding managedModelView_def by (intro ran.obeys_rules)

lemma materialize_ran: "ran.obeys P (materializeManagedModelView io c p s)"
  unfolding materializeManagedModelView_def view_destination_def Let_def
  by (intro ran.obeys_rules managedModelView_ran)
    (auto split: sum.splits host_error.splits errno.splits intro!: ran.obeys_rules managedModelView_ran build_view_ran ran_changes)

lemma entry_snapshot_ran: "ran.obeys P (entry_snapshot io c e)"
  unfolding entry_snapshot_def incomplete_blobs_def Let_def
  by (auto split: prod.splits option.splits sum.splits intro!: ran.obeys_rules)

lemma entry_snapshots_ran: "ran.obeys P (entry_snapshots io c es)"
  by (induction es) (auto intro!: ran.obeys_rules entry_snapshot_ran)

lemma reconcile_ran: "ran.obeys P (reconcileManagedModelViewsAt io c p)"
  unfolding reconcileManagedModelViewsAt_def completeManagedModelSnapshots_def sweep_entry_def Let_def
  by (intro ran.obeys_rules managedModelView_ran materialize_ran ran_changes)
    (auto split: sum.splits host_error.splits errno.splits intro!: ran.obeys_rules entry_snapshots_ran)

lemma repair_ran: "ran.obeys P (repairRecipeRuntimeOwnership us gs io)"
  unfolding repairRecipeRuntimeOwnership_def chown_item_def
  by (auto split: option.splits prod.splits intro!: ran.obeys_rules ran_changes)

lemma execute_ran:
  assumes "request_type zones a v"
  shows "ran.obeys (helper_program zones) (execute he io a v)"
proof (cases a)
  case ActionTimezoneSet
  with assms show ?thesis by (auto simp: execute_def intro!: ran.obeys_rules ran_run set_timezone)
next
  case ActionRecipeContainerRemove
  with assms show ?thesis by (auto simp: execute_def intro!: ran.obeys_rules ran_run remove_container)
next
  case ActionPowerOff
  then show ?thesis by (auto simp: execute_def intro!: systemctl_ran fixed) (simp add: fixed_programs_def)
next
  case ActionReboot
  then show ?thesis by (auto simp: execute_def intro!: systemctl_ran fixed) (simp add: fixed_programs_def)
qed (simp_all add: execute_def uninstallManagedModel_def reconcileManagedModelViews_def ran.obeys_fail change_channel_ran
      applyClusterNetwork_ran removeClusterNetwork_ran repair_ran uninstall_ran reconcile_ran start_unit_ran)

text \<open>C13: whatever arrives on the connections, and whatever the programs answer, the only programs the root helper runs
  are ten fixed command lines, the time zone command on an admitted zone, the removal of an admitted container, and the
  removal of a reserved cluster address from a proper interface other than the loopback.\<close>

theorem helper_runs_admitted_programs:
  "ran_only (helper_program zones) w (snd (serve_helper zones he io controlGroup cs w))"
proof -
  obtain reqs where reqs: "list_all (\<lambda>r. request_type zones (fst r) (snd r)) reqs"
    "snd (serve_helper zones he io controlGroup cs w) = fold (\<lambda>r s. snd (helper he io (fst r) (snd r) s)) reqs w"
    using helper_executes_typed_requests [of zones "AuthorizePeer controlGroup" cs "helper he io" w]
    unfolding serve_helper_def by blast
  have "snd (helper he io a v w) = snd (execute he io a v w)" for a v w
    by (simp add: helper_def split: prod.splits sum.splits)
  then have "ran_only (helper_program zones) w (snd (helper he io a v w))" if "request_type zones a v" for a v w
    using execute_ran [OF that, of he io] by (simp add: ran.obeys_def)
  then have "ran_only (helper_program zones) w (fold (\<lambda>r s. snd (helper he io (fst r) (snd r) s)) reqs w)"
    using reqs(1)
  proof (induction reqs arbitrary: w)
    case (Cons r reqs)
    then have "request_type zones (fst r) (snd r)" by simp
    then have "ran_only (helper_program zones) w (snd (helper he io (fst r) (snd r) w))" by (rule Cons.prems(1))
    from ran.R_trans [OF this Cons.IH] Cons.prems show ?case by simp
  qed (simp add: ran.R_refl)
  with reqs(2) show ?thesis by simp
qed

subsection \<open>Removing a model\<close>

definition plain_name :: "string \<Rightarrow> bool" where
  "plain_name e \<longleftrightarrow> e \<noteq> '''' \<and> e \<noteq> ''.'' \<and> e \<noteq> ''..'' \<and> CHR ''/'' \<notin> set e"

lemma elements_Join:
  assumes "IsAbs a" "plain_name e"
  shows "elements (Join a e) = clean_elements a @ [e]"
proof -
  have "split_on CHR ''/'' (a @ CHR ''/'' # e) = split_on CHR ''/'' a @ [e]"
    using assms(2) by (simp add: split_on_append split_on_none plain_name_def)
  then have "elements (a @ ''/'' @ e) = elements a @ [e]"
    using assms(2) by (simp add: elements_def plain_name_def)
  moreover have abs: "IsAbs (a @ ''/'' @ e)" using assms(1) by (auto simp: IsAbs_def has_prefix_iff)
  ultimately have c: "clean_elements (a @ ''/'' @ e) = clean_elements a @ [e]"
    using assms by (simp add: clean_elements_def clean_step_def plain_name_def)
  have "Join a e = Clean (a @ ''/'' @ e)" using assms by (auto simp: Join_def IsAbs_def plain_name_def)
  then have "Join a e = CHR ''/'' # join_path (clean_elements a @ [e])" by (simp only: Clean_def abs c if_True)
  moreover have "elements (join_path (clean_elements a @ [e])) = clean_elements a @ [e]"
    by (rule elements_join) (use assms(2) clean_elements_ok in \<open>auto simp: plain_name_def\<close>)
  ultimately show ?thesis by (simp add: elements_slash)
qed

lemma IsAbs_Join: "IsAbs a \<Longrightarrow> IsAbs (Join a e)"
proof -
  assume a: "IsAbs a"
  then have "IsAbs (a @ ''/'' @ e)" "a \<noteq> ''''" by (auto simp: IsAbs_def has_prefix_iff)
  with a show ?thesis by (simp add: Join_def)
qed

text \<open>Without following a final link, a path ends in its own last name.\<close>

lemma walk_path_last:
  "walk_path ns fo mi n at es = Inr q \<Longrightarrow> \<not> fo \<Longrightarrow> es \<noteq> [] \<Longrightarrow> last es \<noteq> ''..'' \<Longrightarrow> \<exists>d. q = d @ [last es]"
proof (induction ns fo mi n at es rule: walk_path.induct)
  case (2 ns fo mi n at e es)
  show ?case
  proof (cases "e = ''..''")
    case True
    with 2 show ?thesis by (cases "es = []") auto
  next
    case False
    show ?thesis
    proof (cases "es = []")
      case True
      with 2 False show ?thesis by (auto split: option.splits node.splits if_splits)
    next
      case ne: False
      then have "elements t @ es \<noteq> []" "last (elements t @ es) = last es" for t by auto
      with 2 False ne show ?thesis by (auto split: option.splits node.splits nat.splits)
    qed
  qed
qed simp

text \<open>Nothing but entries below a path whose last name is one of \<open>names\<close> disappears, and nothing else changes.\<close>

definition below_named :: "string set \<Rightarrow> string list \<Rightarrow> bool" where
  "below_named names k \<longleftrightarrow> (\<exists>d e. e \<in> names \<and> plain_name e \<and> prefix (d @ [e]) k)"

definition loses_only :: "string set \<Rightarrow> 'x world \<Rightarrow> 'x world \<Rightarrow> bool" where
  "loses_only names w w' \<longleftrightarrow> w_data w' = w_data w \<and> w_chowned w' = w_chowned w \<and> w_ext w' = w_ext w \<and> w_ran w' = w_ran w \<and>
     (\<forall>k. lookup (w_nodes w') k = lookup (w_nodes w) k \<or> (lookup (w_nodes w') k = None \<and> below_named names k))"

interpretation loses: host_relation "loses_only names" for names
proof unfold_locales
  fix u v w :: "'a world"
  assume "loses_only names u v" and "loses_only names v w"
  then show "loses_only names u w" unfolding loses_only_def by metis
qed (simp add: loses_only_def)

lemma lookup_filter_key: "lookup (filter (\<lambda>kv. P (fst kv)) m) k = (if P k then lookup m k else None)"
  by (induction m) auto

lemma loses_RemoveAll:
  assumes "elements p = d @ [e]" "e \<in> names" "plain_name e"
  shows "loses.obeys names (RemoveAll io p)"
proof -
  have "below_named names k" if "find_path ns False True p = Inr q" "prefix q k" for ns q k
    using walk_path_last [of ns False True max_links "[]" "elements p" q] that assms
    by (auto simp: find_path_def below_named_def plain_name_def)
  moreover have "lookup (filter (\<lambda>kv. \<not> below q kv) ns) k = (if \<not> prefix q k then lookup ns k else None)" for q ns k
    unfolding below_def by (rule lookup_filter_key)
  moreover have "lookup (filter (\<lambda>kv. \<not> below q kv \<or> io_kept io (fst kv)) ns) k =
      (if \<not> prefix q k \<or> io_kept io k then lookup ns k else None)" for q ns k
    unfolding below_def by (rule lookup_filter_key)
  ultimately show ?thesis
    by (auto simp: loses.obeys_def loses_only_def RemoveAll_def set_nodes_def remove_tree_def
        split: sum.splits option.splits errno.splits)
qed

lemma loses_at:
  "IsAbs dir \<Longrightarrow> plain_name e \<Longrightarrow> e \<in> names \<Longrightarrow> loses.obeys names (RemoveAll io (Join dir e))"
  by (rule loses_RemoveAll [OF elements_Join])

lemma loses_view:
  "IsAbs dir \<Longrightarrow> plain_name e \<Longrightarrow> e \<in> names \<Longrightarrow> loses.obeys names (remove_view io (Join dir e))"
  unfolding remove_view_def
  by (intro loses.obeys_rules; auto split: sum.splits host_error.splits errno.splits node.splits
      intro: loses.obeys_rules loses_at)

lemma model_name_plain:
  assumes "ValidModelID m"
  shows "CHR ''/'' \<notin> set (model_name m)" "model_name m \<noteq> ''''" "model_name m \<noteq> ''.''" "model_name m \<noteq> ''..''"
proof -
  show "CHR ''/'' \<notin> set (model_name m)" by (auto simp: model_name_def split: if_splits)
  have "CHR ''/'' \<in> set m"
  proof (rule ccontr)
    assume "CHR ''/'' \<notin> set m"
    moreover have "set (trim_space m) \<subseteq> set m"
      by (metis (no_types, lifting) set_append Un_upper2 Un_upper1 dual_order.trans rev_append rev_rev_ident set_rev trim_lead_suffix trim_space_def trim_left_space_def trim_right_space_def)
    ultimately have "split_on CHR ''/'' (trim_space m) = [trim_space m]" by (intro split_on_none) auto
    with assms show False by (simp add: ValidModelID_def Let_def)
  qed
  then obtain a b where "m = a @ CHR ''/'' # b" by (auto simp: in_set_conv_decomp)
  then have "model_name m = model_name a @ ''--'' @ model_name b" by (simp add: model_name_def)
  then show "model_name m \<noteq> ''''" "model_name m \<noteq> ''.''" "model_name m \<noteq> ''..''"
    by (auto simp: append_eq_Cons_conv)
qed

definition model_entries :: "string \<Rightarrow> string set" where
  "model_entries m = {model_name m, model_name m @ ''-Cloudless'', ''.materializing-'' @ model_name m, ''models--'' @ model_name m}"

lemma uninstall_at_confined:
  assumes "IsAbs cacheRoot" "IsAbs modelsPath"
  shows "let w' = snd (uninstallManagedModelAt io m cacheRoot modelsPath w)
    in if ValidModelID m then loses_only (model_entries m) w w' else w' = w"
proof (cases "ValidModelID m")
  case True
  note n = model_name_plain [OF True]
  have pl: "plain_name e" if "e \<in> model_entries m" for e
    using that n by (auto simp: model_entries_def plain_name_def)
  have "loses.obeys (model_entries m) (uninstallManagedModelAt io m cacheRoot modelsPath)"
    unfolding uninstallManagedModelAt_def Let_def
    by (intro loses.obeys_rules; auto simp: True intro!: loses_view loses_at pl assms IsAbs_Join loses.obeys_rules;
        simp add: model_entries_def)
  with True show ?thesis by (simp add: loses.obeys_def Let_def)
qed (simp add: uninstallManagedModelAt_def h_fail_def)


text \<open>C30: whatever the file system answers, the removal of a model removes entries below paths whose last name is one
  of the four names made of the model id, and changes nothing else; an invalid id changes nothing at all.\<close>

theorem uninstall_confined:
  "let w' = snd (uninstallManagedModel io m w)
   in if ValidModelID m then loses_only (model_entries m) w w' else w' = w"
  unfolding uninstallManagedModel_def
  by (rule uninstall_at_confined) (simp_all add: managedModelCacheRoot_def managedModelsPath_def IsAbs_def)

end
