(* ===== verification/HelperClientProps.thy ===== *)
theory HelperClientProps
  imports HelperProps
begin

text \<open>
  The clients of the host helpers: over the socket they are the direct call of the executor behind it,
  for the requests it admits.
\<close>

subsection \<open>The client as the helper\<close>

lemma action_of_text: "Valid a \<Longrightarrow> action_of (action_text a) = a"
  by (cases a) (simp_all add: Valid_def, code_simp+)

lemma action_text_ascii: "Valid a \<Longrightarrow> list_all (\<lambda>c. code c < 128) (action_text a)"
  by (cases a) (simp_all add: Valid_def, code_simp+)

lemma field_names: "equal_fold ''action'' ''action''" "\<not> equal_fold ''value'' ''action''" "equal_fold ''value'' ''value''"
    "equal_fold ''ok'' ''ok''" "\<not> equal_fold ''error'' ''ok''" "equal_fold ''error'' ''error''"
  by code_simp+

lemma key_ascii: "valid_utf8 ''action''" "valid_utf8 ''value''" "valid_utf8 ''ok''" "valid_utf8 ''error''"
  by (rule valid_utf8_ascii, code_simp)+

lemma decode_request_line:
  assumes "Valid a" "valid_utf8 v"
  shows "decode_request (json_line (request_json \<lparr>rq_Action = a, rq_Value = v\<rparr>)) = Some \<lparr>rq_Action = a, rq_Value = v\<rparr>"
proof -
  let ?r = "\<lparr>rq_Action = a, rq_Value = v\<rparr>"
  have "writable (request_json ?r)"
    using assms valid_utf8_ascii [OF action_text_ascii [OF assms(1)]] by (simp add: request_json_def fld_def str_omit_def opt_fld_def key_ascii)
  from decode_line [OF this] have "decode_request (json_line (request_json ?r)) = decode_struct True request_fields empty_request (read_back (request_json ?r))"
    by (simp add: decode_request_def json_line_def)
  then show ?thesis
    by (cases "v = ''''"; simp add: request_json_def fld_def str_omit_def opt_fld_def decode_struct_def
        field_names request_fields_def set_string_def empty_request_def action_of_text assms(1))
qed

lemma decode_response_line:
  assumes "valid_utf8 (rs_Error r)" "length (json_line (response_json r)) \<le> maxRequestBytes"
  shows "decode_response (json_line (response_json r)) = Some r"
proof -
  have "writable (response_json r)"
    using assms(1) by (simp add: response_json_def fld_def str_omit_def opt_fld_def key_ascii)
  from decode_json_text [OF this, of "[CHR 0x0A]"]
  have "decode_value (json_line (response_json r)) = Some (read_back (response_json r), [CHR 0x0A])"
    by (simp add: json_line_def ends_number_def in_range_def code_def)
  with assms(2) show ?thesis
    by (cases "rs_Error r = ''''"; simp add: decode_response_def response_json_def fld_def str_omit_def opt_fld_def decode_struct_def
        field_names response_fields_def set_string_def set_bool_def failure_def)
qed

lemma request_line_json:
  assumes "length (json_line (request_json r)) \<le> maxRequestBytes"
  shows "request_line \<lparr>cn_bytes = json_line (request_json r), cn_broken = b\<rparr> = Some (json_line (request_json r))"
proof -
  have "CHR 0x0A \<notin> set (json_text (request_json r))"
    by (auto simp: request_json_def fld_def str_omit_def opt_fld_def quote_def escape_no_line simp del: escape.simps)
  moreover have "c \<notin> set xs \<Longrightarrow> takeWhile (\<lambda>x. x \<noteq> c) (xs @ [c]) = xs" for c and xs :: string
    by (induction xs) auto
  ultimately have "before CHR 0x0A (json_line (request_json r)) = json_text (request_json r)"
    by (simp add: before_def json_line_def)
  with assms show ?thesis by (simp add: request_line_def Let_def json_line_def)
qed

lemma failure_lines:
  "client_reply (json_line (response_json (failure ''unsupported privileged action''))) = Some (Rejected ''unsupported privileged action'')"
  "client_reply (json_line (response_json (failure ''privileged action failed''))) = Some (Rejected ''privileged action failed'')"
  "client_reply (json_line (response_json \<lparr>rs_OK = True, rs_Error = ''''\<rparr>)) = None"
proof -
  have len: "length (json_line (response_json r)) \<le> 80 + 6 * length (rs_Error r)" for r
    using escaped_length [of "rs_Error r"] escaped_length [of "''ok''"] escaped_length [of "''error''"]
    by (simp add: json_line_def response_json_def fld_def str_omit_def opt_fld_def quote_def del: escape.simps)
  have "valid_utf8 ''unsupported privileged action''" "valid_utf8 ''privileged action failed''" "valid_utf8 ''''"
    by (rule valid_utf8_ascii, code_simp)+
  then have "decode_response (json_line (response_json (failure ''unsupported privileged action''))) = Some (failure ''unsupported privileged action'')"
    "decode_response (json_line (response_json (failure ''privileged action failed''))) = Some (failure ''privileged action failed'')"
    "decode_response (json_line (response_json \<lparr>rs_OK = True, rs_Error = ''''\<rparr>)) = Some \<lparr>rs_OK = True, rs_Error = ''''\<rparr>"
    using len [of "failure ''unsupported privileged action''"] len [of "failure ''privileged action failed''"]
      len [of "\<lparr>rs_OK = True, rs_Error = ''''\<rparr>"]
    by (auto intro!: decode_response_line simp: maxRequestBytes_def failure_def)
  then show "client_reply (json_line (response_json (failure ''unsupported privileged action''))) = Some (Rejected ''unsupported privileged action'')"
    "client_reply (json_line (response_json (failure ''privileged action failed''))) = Some (Rejected ''privileged action failed'')"
    "client_reply (json_line (response_json \<lparr>rs_OK = True, rs_Error = ''''\<rparr>)) = None"
    by (simp_all add: client_reply_def failure_def)
qed

text \<open>The call over the socket is the call of the executor, for typed requests and only for them.\<close>

definition direct_call :: "(string \<Rightarrow> bool) \<Rightarrow> ('e, 's) executor \<Rightarrow> Action \<Rightarrow> string \<Rightarrow> 's \<Rightarrow> client_error option \<times> 's" where
  "direct_call zones ex a v s =
     (if \<not> Valid a then (Some (UnsupportedAction (action_text a)), s)
      else if validateRequest zones \<lparr>rq_Action = a, rq_Value = v\<rparr> \<noteq> None then (Some (Rejected ''unsupported privileged action''), s)
      else (case ex a (trim_space v) s of
              (Some e, s1) \<Rightarrow> (Some (Rejected ''privileged action failed''), s1) | (None, s1) \<Rightarrow> (None, s1)))"

lemma validate_trim: "validateRequest zones \<lparr>rq_Action = a, rq_Value = trim_space v\<rparr> = validateRequest zones \<lparr>rq_Action = a, rq_Value = v\<rparr>"
  by (simp add: validateRequest_def)

text \<open>C14: a call of the client over the socket is the direct call of the helper's executor: for a value in valid UTF-8 whose
  request fits the limit, the executor is called exactly when the request is admitted, with the trimmed value, and its
  outcome is what the client reports.\<close>

theorem DoValue_calls_executor:
  assumes "valid_utf8 v" "length (json_line (request_json \<lparr>rq_Action = a, rq_Value = v\<rparr>)) \<le> maxRequestBytes"
  shows "DoValue (served zones None ex) a v s = direct_call zones ex a v s"
proof (cases "Valid a")
  case True
  let ?r = "\<lparr>rq_Action = a, rq_Value = v\<rparr>" and ?t = "\<lparr>rq_Action = a, rq_Value = trim_space v\<rparr>"
  have line: "handleConnection zones None ex \<lparr>cn_bytes = json_line (request_json ?r), cn_broken = False\<rparr> s =
      (if validateRequest zones ?t \<noteq> None then (failure ''unsupported privileged action'', s)
       else (case ex a (trim_space v) s of (Some e, s1) \<Rightarrow> (failure ''privileged action failed'', s1)
             | (None, s1) \<Rightarrow> (\<lparr>rs_OK = True, rs_Error = ''''\<rparr>, s1)))"
    using assms(2) by (simp add: handleConnection_def request_line_json decode_request_line [OF True assms(1)])
  show ?thesis
  proof (cases "validateRequest zones ?r")
    case None
    then show ?thesis using True line
      by (auto simp: DoValue_def served_def direct_call_def validate_trim failure_lines split: prod.splits option.splits)
  next
    case (Some e)
    then show ?thesis using True line
      by (simp add: DoValue_def served_def direct_call_def validate_trim failure_lines)
  qed
qed (simp add: DoValue_def direct_call_def)

lemma length_request: "Valid a \<Longrightarrow> length (json_line (request_json \<lparr>rq_Action = a, rq_Value = v\<rparr>)) \<le> 250 + 6 * length v"
proof -
  assume "Valid a"
  then have "length (action_text a) \<le> 24" by (cases a) (simp_all add: Valid_def action_text_def action_names_def)
  then show ?thesis
    using escaped_length [of v] escaped_length [of "''action''"] escaped_length [of "''value''"] escaped_length [of "action_text a"]
    by (simp add: json_line_def request_json_def fld_def str_omit_def opt_fld_def quote_def del: escape.simps)
qed

definition log_executor :: "(unit, (Action \<times> string) list) executor" where
  "log_executor a v s = (None, s @ [(a, v)])"

theorem DoValue_calls_executor_witness:
  "DoValue (served (\<lambda>z. True) None log_executor) ActionRecipeContainerRemove '' vllm-1 '' [] = (None, [(ActionRecipeContainerRemove, ''vllm-1'')])"
proof -
  have "valid_utf8 '' vllm-1 ''" by (rule valid_utf8_ascii) code_simp
  moreover have "length (json_line (request_json \<lparr>rq_Action = ActionRecipeContainerRemove, rq_Value = '' vllm-1 ''\<rparr>)) \<le> maxRequestBytes"
    using length_request [of ActionRecipeContainerRemove "'' vllm-1 ''"] by (simp add: maxRequestBytes_def Valid_def)
  ultimately have "DoValue (served (\<lambda>z. True) None log_executor) ActionRecipeContainerRemove '' vllm-1 '' [] =
      direct_call (\<lambda>z. True) log_executor ActionRecipeContainerRemove '' vllm-1 '' []"
    by (rule DoValue_calls_executor)
  also have "\<dots> = (None, [(ActionRecipeContainerRemove, ''vllm-1'')])"
    by (simp add: direct_call_def log_executor_def Valid_def) code_simp
  finally show ?thesis .
qed


lemma part_char_ascii: "part_char c \<Longrightarrow> code c < 128"
proof -
  have "code CHR ''_'' < 128" "code CHR ''.'' < 128" "code CHR ''-'' < 128" by code_simp+
  moreover have "is_alnum c \<Longrightarrow> code c \<le> code CHR ''z''"
    by (auto simp: is_alnum_def in_range_def code_def)
  moreover have "code CHR ''z'' < 128" by code_simp
  ultimately show "part_char c \<Longrightarrow> code c < 128" by (auto simp: part_char_def)
qed


lemma part_char_visible: "part_char c \<Longrightarrow> 32 < code c"
  by (auto simp: part_char_def is_alnum_def in_range_def code_def)

lemma part_pattern_trimmed: "part_pattern n s \<Longrightarrow> trim_space s = s"
proof (rule trim_space_id)
  assume s: "part_pattern n s"
  then obtain c t where c: "s = c # t" by (auto simp: part_pattern_def split: list.splits)
  have "part_char (hd s)" "part_char (last s)" using part_pattern_char [OF s] c by auto
  then show "trimmed s" by (intro trimmed_visible) (simp add: visible_def part_char_visible part_char_ascii)
qed






end
