(* ===== verification/DesktopProps.thy ===== *)
theory DesktopProps
  imports HelperClientProps
begin

text \<open>
  The desktop agent: the programs it runs, the folders it opens, and the client as the executor behind the
  socket. The views of the models: a snapshot that holds the marker's name.
\<close>

subsection \<open>Programs of the agent\<close>

text \<open>A folder \<open>p\<close> of the interface below the home \<open>h\<close>.\<close>

definition place_of :: "string \<Rightarrow> string \<Rightarrow> bool" where
  "place_of h p \<longleftrightarrow> IsAbs (Clean (trim_space h)) \<and>
     elements p \<in> (\<lambda>es. clean_elements (Clean (trim_space h)) @ es) `
       {[''Cloudless'', ''Models''], [''Cloudless'', ''Outputs''], [''Cloudless'', ''Workspace''], [''Downloads'']}"

lemma PlacePath_place:
  assumes "PlacePath h pid = Inr p"
  shows "place_of h p"
proof -
  let ?h = "Clean (trim_space h)"
  have n: "plain_name ''Cloudless''" "plain_name ''Models''" "plain_name ''Outputs''" "plain_name ''Workspace''" "plain_name ''Downloads''"
    by (simp_all add: plain_name_def)
  from assms have a: "IsAbs ?h" by (auto simp: PlacePath_def Let_def split: if_splits)
  have c: "clean_elements (Join a e) = clean_elements a @ [e]" if "IsAbs a" "plain_name e" for a e
    using elements_Join [OF that] IsAbs_Join [OF that(1), of e] clean_rooted_no_dotdot [OF that(1)] that(2)
    by (simp add: clean_elements_def [of "Join a e"] foldl_clean_plain clean_step_def plain_name_def)
  show ?thesis using assms a n c IsAbs_Join [OF a]
    by (auto simp: place_of_def PlacePath_def Let_def elements_Join split: if_splits)
qed

inductive desktop_program :: "string option \<Rightarrow> string option \<Rightarrow> string list \<Rightarrow> bool" for home manager where
  query: "desktop_program home manager [''/usr/bin/xrandr'', ''--query'']"
| layout: "Parse b = Some snap \<Longrightarrow> l \<in> {''single'', ''mirror'', ''extend''} \<Longrightarrow> outputNamePattern out \<Longrightarrow>
     320 \<le> w \<Longrightarrow> w \<le> 16384 \<Longrightarrow> 200 \<le> h \<Longrightarrow> h \<le> 16384 \<Longrightarrow>
     BuildPlan snap \<lparr>dp_Layout = l, dp_Output = out, dp_Width = w, dp_Height = h\<rparr> = Inr plan \<Longrightarrow>
     desktop_program home manager (''/usr/bin/xrandr'' # pl_Args plan)"
| character: "0x20 \<le> code c \<Longrightarrow> code c \<le> 0x7E \<Longrightarrow>
     desktop_program home manager [''/usr/bin/xdotool'', ''type'', ''--clearmodifiers'', ''--delay'', ''0'', [c]]"
| key: "k \<in> {''BackSpace'', ''Left'', ''Right'', ''Return'', ''shift+Return''} \<Longrightarrow>
     desktop_program home manager [''/usr/bin/xdotool'', ''key'', ''--clearmodifiers'', k]"
| folder: "home = Some h \<Longrightarrow> manager = Some m \<Longrightarrow> place_of h p \<Longrightarrow>
     desktop_program home manager [m, ''--no-desktop'', ''--new-win'', p]"

abbreviation "agent_ran home manager \<equiv> ran.obeys (desktop_program home manager)"

lemma xrandr_query_ran: "agent_ran home manager (xrandr_query io)"
  unfolding xrandr_query_def by (intro ran_run query)

lemma apply_ran:
  assumes "l \<in> {''single'', ''mirror'', ''extend''}" "outputNamePattern out" "320 \<le> w" "w \<le> 16384" "200 \<le> h" "h \<le> 16384"
  shows "agent_ran home manager (session_ApplyDisplay io l out w h)"
proof -
  have "agent_ran home manager (h_run io (''/usr/bin/xrandr'' # pl_Args plan))"
    if "Parse b = Some snap" "BuildPlan snap \<lparr>dp_Layout = l, dp_Output = out, dp_Width = w, dp_Height = h\<rparr> = Inr plan" for b snap plan
    by (rule ran_run, rule layout [OF that(1) assms that(2)])
  then show ?thesis unfolding session_ApplyDisplay_def
    by (intro ran.obeys_rules xrandr_query_ran)
      (auto split: option.splits sum.splits intro!: ran.obeys_rules xrandr_query_ran)
qed

lemma key_ran:
  assumes "validateKey a v = None"
  shows "agent_ran home manager (session_EmitKey io a v)"
proof (cases "a = ''text''")
  case True
  with assms obtain c where "v = [c]" "0x20 \<le> code c" "code c \<le> 0x7E"
    by (cases v) (auto simp: validateKey_def not_less split: if_splits)
  with True show ?thesis by (auto simp: session_EmitKey_def intro!: ran.obeys_rules ran_run character)
next
  case False
  with assms have "the (lookup key_symbols a) \<in> {''BackSpace'', ''Left'', ''Right'', ''Return'', ''shift+Return''}" "lookup key_symbols a \<noteq> None"
    by (auto simp: validateKey_def key_symbols_def split: if_splits)
  with False show ?thesis by (auto simp: session_EmitKey_def intro!: ran.obeys_rules ran_run key)
qed

lemma folder_ran: "agent_ran home manager (session_OpenPlace io home manager pid)"
  unfolding session_OpenPlace_def
  by (auto split: option.splits sum.splits intro!: ran.obeys_rules ran_changes ran_run folder PlacePath_place)

lemma outcome_ran: "ran.obeys P a \<Longrightarrow> ran_only P w (snd (unit_outcome (a w)))"
proof -
  assume "ran.obeys P a"
  then have "ran_only P w (snd (a w))" by (rule ran.obeysD)
  then show ?thesis by (auto simp: unit_outcome_def split: prod.splits sum.splits)
qed

lemma dispatch_ran:
  assumes "Validate r = None"
  shows "ran_only (desktop_program home manager) w (snd (dispatch (sessionExecutor io home manager) r w))"
proof -
  have drop: "snd (case x of (e, s1) \<Rightarrow> (case e of Some x \<Rightarrow> Inl x | None \<Rightarrow> Inr out, s1)) = snd x" for x :: "'e option \<times> 's" and out :: string
    by (cases x) simp
  show ?thesis
    using assms by (cases "dr_Action r = ''display.apply''"; cases "dr_Action r = ''input.key''")
      (auto simp: Validate_def dispatch_def sessionExecutor_def Let_def drop not_less split: if_splits
        intro: outcome_ran apply_ran key_ran folder_ran ran.obeysD [OF xrandr_query_ran])
qed

text \<open>C15: whatever bytes arrive at the agent, the programs it runs are the display query, a plan of an admitted display
  request for a layout the server reported, a printable character or one of five keys, and the file manager on one of the
  four folders below the session's home.\<close>

theorem agent_runs_admitted_programs:
  "ran_only (desktop_program home manager) w (snd (serveConnection unauthorized (sessionExecutor io home manager) bytes w))"
proof -
  have "ran_only (desktop_program home manager) w s1"
    if "Validate r = None" "dispatch (sessionExecutor io home manager) r w = (x, s1)" for r x s1
    using dispatch_ran [OF that(1), of home manager w io] that(2) by simp
  then show ?thesis
    by (auto simp: serveConnection_def ran.R_refl split: option.splits prod.splits sum.splits)
qed


subsection \<open>The marker of a view\<close>








end
