(* ===== verification/ModelCatalog.thy ===== *)
theory ModelCatalog
  imports StateStore
begin

text \<open>
  \<open>internal/models/models.go\<close>: the built-in models with their reviewed runtimes, and how a hosted list is merged
  with them. The curated entries set the fields the source sets.
\<close>

definition zero_Model :: HubModel where
  "zero_Model = \<lparr>hm_ID = '''', hm_Name = '''', hm_Family = '''', hm_Params = '''', hm_Quant = '''', hm_ContextK = 0,
     hm_MinVRAMGB = 0, hm_Use = '''', hm_Tags = [], hm_ToolCalling = False, hm_Vision = False, hm_License = '''',
     hm_Description = '''', hm_Default = False, hm_Region = '''', hm_Gated = False, hm_Source = '''', hm_SourceURL = '''',
     hm_RuntimeStatus = '''', hm_RuntimeNote = '''', hm_Revision = '''', hm_PreferredEngine = '''', hm_RuntimeImage = '''',
     hm_RuntimeBuild = '''', hm_RuntimeEntry = '''', hm_RuntimeCommand = [], hm_SingleNodeOnly = False, hm_FitProfiles = []\<rparr>"

definition single_profile :: "HubModel \<Rightarrow> FitProfile" where
  "single_profile m = \<lparr>fp_ID = ''cloudless-single-v1'', fp_Evidence = ''reviewed-estimate'',
     fp_Source = ''Cloudless curated single-node runtime requirement'',
     fp_Engine = (if hm_PreferredEngine m = '''' then ''vllm'' else hm_PreferredEngine m),
     fp_Architectures = [''amd64'', ''arm64''], fp_Platforms = [], fp_MemoryTypes = [''dedicated'', ''unified''],
     fp_MinNodes = 1, fp_MaxNodes = 1, fp_Sharded = False,
     fp_ContextK = (if hm_ContextK m \<le> 0 \<or> hm_ContextK m > 32 then 32 else hm_ContextK m),
     fp_RequiredPerNodeGB = Dec (hm_MinVRAMGB m) 0\<rparr>"

definition spark_pair_profile :: FitProfile where
  "spark_pair_profile = \<lparr>fp_ID = ''cloudless-spark-pair-0.2.2'', fp_Evidence = ''measured'',
     fp_Source = ''CloudlessOS 0.2.2 two-DGX-Spark qualification'', fp_Engine = ''vllm'', fp_Architectures = [''arm64''],
     fp_Platforms = [''dgx-spark''], fp_MemoryTypes = [''unified''], fp_MinNodes = 2, fp_MaxNodes = 2, fp_Sharded = True,
     fp_ContextK = 32, fp_RequiredPerNodeGB = Dec 100 0\<rparr>"

definition normalized :: "HubModel \<Rightarrow> HubModel" where
  "normalized m =
     (let m1 = (if hm_FitProfiles m = [] \<and> hm_MinVRAMGB m > 0 then m\<lparr>hm_FitProfiles := [single_profile m]\<rparr> else m)
      in if hm_ID m1 = ''Qwen/Qwen3.6-35B-A3B'' \<and> \<not> list_ex fp_Sharded (hm_FitProfiles m1)
         then m1\<lparr>hm_FitProfiles := hm_FitProfiles m1 @ [spark_pair_profile]\<rparr> else m1)"

definition curated :: "HubModel list" where
  "curated = [
      zero_Model\<lparr>hm_ID := ''Qwen/Qwen2.5-1.5B-Instruct'', hm_Name := ''Qwen2.5 1.5B'', hm_Family := ''Qwen'',
        hm_Params := ''1.5B'', hm_ContextK := 32, hm_MinVRAMGB := 5, hm_Use := ''general'', hm_Tags := [''chat'',
        ''fast''], hm_ToolCalling := True, hm_License := ''Apache-2.0'', hm_Default := True, hm_Description :=
        (''Tiny and instant '' @ [CHR 0xE2, CHR 0x80, CHR 0x94] @
        '' a capable everyday assistant for low-VRAM machines.'')\<rparr>,
      zero_Model\<lparr>hm_ID := ''Qwen/Qwen2.5-3B-Instruct'', hm_Name := ''Qwen2.5 3B'', hm_Family := ''Qwen'',
        hm_Params := ''3B'', hm_ContextK := 32, hm_MinVRAMGB := 9, hm_Use := ''general'', hm_Tags := [''chat'',
        ''fast''], hm_ToolCalling := True, hm_License := ''Qwen'', hm_Description :=
        ''Small and fast, noticeably smarter than 1.5B.''\<rparr>,
      zero_Model\<lparr>hm_ID := ''microsoft/Phi-3.5-mini-instruct'', hm_Name := ''Phi-3.5 mini'', hm_Family :=
        ''Phi'', hm_Params := ''3.8B'', hm_ContextK := 128, hm_MinVRAMGB := 11, hm_Use := ''general'', hm_Tags :=
        [''chat'', ''reasoning'', ''long-context''], hm_ToolCalling := True, hm_License := ''MIT'', hm_Description :=
        (''Strong small model with a long 128K context '' @ [CHR 0xE2, CHR 0x80, CHR 0x94] @
        '' great for documents.'')\<rparr>,
      zero_Model\<lparr>hm_ID := ''Qwen/Qwen2.5-7B-Instruct'', hm_Name := ''Qwen2.5 7B'', hm_Family := ''Qwen'',
        hm_Params := ''7B'', hm_ContextK := 32, hm_MinVRAMGB := 18, hm_Use := ''general'', hm_Tags := [''chat'',
        ''reasoning'', ''multilingual''], hm_ToolCalling := True, hm_License := ''Apache-2.0'', hm_Description :=
        (''Excellent all-rounder '' @ [CHR 0xE2, CHR 0x80, CHR 0x94] @ '' the sweet spot for a 24GB+ GPU.'')\<rparr>,
      zero_Model\<lparr>hm_ID := ''Qwen/Qwen2.5-14B-Instruct-AWQ'', hm_Name := ''Qwen2.5 14B (4-bit)'', hm_Family :=
        ''Qwen'', hm_Params := ''14B'', hm_Quant := ''AWQ'', hm_ContextK := 32, hm_MinVRAMGB := 13, hm_Use :=
        ''general'', hm_Tags := [''chat'', ''reasoning''], hm_ToolCalling := True, hm_License := ''Apache-2.0'',
        hm_Description := ''14B quality at roughly half the VRAM, via 4-bit AWQ.''\<rparr>,
      zero_Model\<lparr>hm_ID := ''Qwen/Qwen2.5-32B-Instruct-AWQ'', hm_Name := ''Qwen2.5 32B (4-bit)'', hm_Family :=
        ''Qwen'', hm_Params := ''32B'', hm_Quant := ''AWQ'', hm_ContextK := 32, hm_MinVRAMGB := 22, hm_Use :=
        ''general'', hm_Tags := [''chat'', ''reasoning'', ''multilingual''], hm_ToolCalling := True, hm_License :=
        ''Apache-2.0'', hm_Description := (''Big-model quality in 4-bit '' @ [CHR 0xE2, CHR 0x80, CHR 0x94] @
        '' fits a single 24'' @ [CHR 0xE2, CHR 0x80, CHR 0x93] @ ''32GB GPU.'')\<rparr>,
      zero_Model\<lparr>hm_ID := ''Qwen/Qwen2.5-Coder-7B-Instruct'', hm_Name := ''Qwen2.5 Coder 7B'', hm_Family :=
        ''Qwen'', hm_Params := ''7B'', hm_ContextK := 32, hm_MinVRAMGB := 18, hm_Use := ''coding'', hm_Tags :=
        [''coding'', ''tools''], hm_ToolCalling := True, hm_License := ''Apache-2.0'', hm_Description :=
        ''Coding-tuned 7B; pairs well with OpenClaw.''\<rparr>,
      zero_Model\<lparr>hm_ID := ''Qwen/Qwen2.5-Coder-32B-Instruct-AWQ'', hm_Name := ''Qwen2.5 Coder 32B (4-bit)'',
        hm_Family := ''Qwen'', hm_Params := ''32B'', hm_Quant := ''AWQ'', hm_ContextK := 32, hm_MinVRAMGB := 22, hm_Use
        := ''coding'', hm_Tags := [''coding'', ''agentic''], hm_ToolCalling := True, hm_License := ''Apache-2.0'',
        hm_Description := (''Top open coding model, 4-bit '' @ [CHR 0xE2, CHR 0x80, CHR 0x94] @ '' fits 24'' @ [CHR
        0xE2, CHR 0x80, CHR 0x93] @ ''32GB.'')\<rparr>,
      zero_Model\<lparr>hm_ID := ''Qwen/Qwen2.5-VL-7B-Instruct'', hm_Name := ''Qwen2.5-VL 7B'', hm_Family := ''Qwen'',
        hm_Params := ''7B'', hm_ContextK := 32, hm_MinVRAMGB := 20, hm_Use := ''vision'', hm_Tags := [''vision'',
        ''chat''], hm_Vision := True, hm_License := ''Apache-2.0'', hm_Description :=
        ''Sees images: ask about photos, screenshots, charts and documents.''\<rparr>,
      zero_Model\<lparr>hm_ID := ''Qwen/Qwen2.5-72B-Instruct-AWQ'', hm_Name := ''Qwen2.5 72B (4-bit)'', hm_Family :=
        ''Qwen'', hm_Params := ''72B'', hm_Quant := ''AWQ'', hm_ContextK := 32, hm_MinVRAMGB := 44, hm_Use :=
        ''general'', hm_Tags := [''chat'', ''reasoning'', ''flagship''], hm_ToolCalling := True, hm_License :=
        ''Apache-2.0'', hm_Description := (''Flagship quality. Needs ~48GB '' @ [CHR 0xE2, CHR 0x80, CHR 0x94] @
        '' a big card or multiple GPUs.'')\<rparr>,
      zero_Model\<lparr>hm_ID := ''Qwen/Qwen3.6-27B-FP8'', hm_Name := ''Qwen3.6 27B (FP8)'', hm_Family := ''Qwen'',
        hm_Params := ''27B'', hm_Quant := ''FP8'', hm_ContextK := 262, hm_MinVRAMGB := 34, hm_Use := ''general'',
        hm_Tags := [''chat'', ''reasoning'', ''vision'', ''agentic''], hm_ToolCalling := True, hm_Vision := True,
        hm_License := ''Apache-2.0'', hm_Description := (''Qwen3.6'' @ [CHR 0x27] @
        ''s dense multimodal model in official FP8; strong general reasoning and coding, but tight on a 32GB GPU.'')\<rparr>,
      zero_Model\<lparr>hm_ID := ''Qwen/Qwen3.6-35B-A3B-FP8'', hm_Name := ''Qwen3.6 35B-A3B (FP8)'', hm_Family :=
        ''Qwen'', hm_Params := ''35B / 3B active'', hm_Quant := ''FP8'', hm_ContextK := 262, hm_MinVRAMGB := 43, hm_Use
        := ''coding'', hm_Tags := [''coding'', ''reasoning'', ''vision'', ''agentic'', ''moe''], hm_ToolCalling := True,
        hm_Vision := True, hm_License := ''Apache-2.0'', hm_Description :=
        ''Official FP8 Qwen3.6 MoE: 35B total, 3B active per token, tuned for agentic coding and multimodal work.''\<rparr>,
      zero_Model\<lparr>hm_ID := ''Qwen/Qwen3.6-27B'', hm_Name := ''Qwen3.6 27B'', hm_Family := ''Qwen'', hm_Params :=
        ''27B'', hm_ContextK := 262, hm_MinVRAMGB := 64, hm_Use := ''general'', hm_Tags := [''chat'', ''reasoning'',
        ''vision'', ''agentic''], hm_ToolCalling := True, hm_Vision := True, hm_License := ''Apache-2.0'',
        hm_Description := ''Full-precision Qwen3.6 27B multimodal checkpoint for larger multi-GPU systems.''\<rparr>,
      zero_Model\<lparr>hm_ID := ''Qwen/Qwen3.6-35B-A3B'', hm_Name := ''Qwen3.6 35B-A3B'', hm_Family := ''Qwen'',
        hm_Params := ''35B / 3B active'', hm_ContextK := 262, hm_MinVRAMGB := 81, hm_Use := ''coding'', hm_Tags :=
        [''coding'', ''reasoning'', ''vision'', ''agentic'', ''moe''], hm_ToolCalling := True, hm_Vision := True,
        hm_License := ''Apache-2.0'', hm_Revision := ''995ad96eacd98c81ed38be0c5b274b04031597b0'', hm_Description :=
        ''Full-precision Qwen3.6 MoE checkpoint; all 35B weights must be resident even though only 3B activate per token.''\<rparr>,
      zero_Model\<lparr>hm_ID := ''deepseek-ai/DeepSeek-V4-Flash'', hm_Name := ''DeepSeek V4 Flash'', hm_Family :=
        ''DeepSeek'', hm_Params := ''284B / 13B active'', hm_Quant := ''FP4 + FP8'', hm_ContextK := 1000, hm_MinVRAMGB
        := 180, hm_Use := ''coding'', hm_Tags := [''coding'', ''reasoning'', ''agentic'', ''moe'', ''long-context''],
        hm_ToolCalling := True, hm_License := ''MIT'', hm_Description :=
        ''Official DeepSeek V4 Flash: 284B total, 13B active, mixed FP4/FP8 weights and up to a 1M-token context. Built for large multi-GPU or unified-memory systems.''\<rparr>,
      zero_Model\<lparr>hm_ID := ''nvidia/Cosmos3-Edge'', hm_Name := ''NVIDIA Cosmos3-Edge'', hm_Family := ''Cosmos'',
        hm_Params := ''4B'', hm_ContextK := 131, hm_MinVRAMGB := 16, hm_Use := ''vision'', hm_Tags := [''vision'',
        ''video'', ''physical-ai'', ''robotics'', ''reasoning''], hm_Vision := True, hm_License := ''OpenMDW-1.1'',
        hm_Description :=
        ''Compact NVIDIA omnimodal world model for visual understanding and physical-AI reasoning on edge hardware.'',
        hm_Revision := ''ff48d22144de52de296a7b4d3a78914831007212'', hm_PreferredEngine := ''vllm'', hm_RuntimeImage :=
        ''vllm/vllm-openai:cosmos3@sha256:db0bb920b0b54e82ea96a98659bbd21921f87d0dcfc86feffdafa2db3f08be55'',
        hm_RuntimeCommand := [''nvidia/Cosmos3-Edge'', ''--revision'', ''ff48d22144de52de296a7b4d3a78914831007212'',
        ''--served-model-name'', ''cloudless'', ''--host'', ''0.0.0.0'', ''--port'', ''8000'',
        ''--gpu-memory-utilization'', ''0.75'', ''--max-model-len'', ''131072'', ''--allowed-local-media-path'', ''/'',
        ''--mm-processor-kwargs'', (''{'' @ [CHR 0x22] @ ''do_resize'' @ [CHR 0x22] @ '':true,'' @ [CHR 0x22] @
        ''min_pixels'' @ [CHR 0x22] @ '':4096,'' @ [CHR 0x22] @ ''max_pixels'' @ [CHR 0x22] @ '':16777216}''),
        ''--media-io-kwargs'', (''{'' @ [CHR 0x22] @ ''video'' @ [CHR 0x22] @ '':{'' @ [CHR 0x22] @ ''num_frames'' @
        [CHR 0x22] @ '':256}}'')], hm_RuntimeNote := (''Cloudless serves the Cosmos3 reasoner with NVIDIA'' @ [CHR 0x27]
        @
        ''s reviewed vLLM image and launch settings. Generative video and action endpoints require the separate vLLM-Omni runtime. Robotics and safety-critical uses still require application-specific validation and guardrails.''),
        hm_SingleNodeOnly := True\<rparr>,
      zero_Model\<lparr>hm_ID := ''nvidia/LocateAnything-3B'', hm_Name := ''NVIDIA LocateAnything 3B'', hm_Family :=
        ''LocateAnything'', hm_Params := ''3B'', hm_ContextK := 25, hm_MinVRAMGB := 16, hm_Use := ''vision'', hm_Tags :=
        [''vision'', ''grounding'', ''object-detection'', ''gui'', ''localization''], hm_Vision := True, hm_License :=
        ''NVIDIA License'', hm_Description :=
        ''Vision-language grounding model that locates objects, text, and interface elements and returns precise coordinates.'',
        hm_Revision := ''c32291ca5e996f5a7a485845b4f57a233936bba0'', hm_PreferredEngine := ''vllm'', hm_RuntimeImage :=
        ''cloudless/locateanything-runtime:0.1.0'', hm_RuntimeBuild := ''locateanything'', hm_RuntimeEntry :=
        ''python3'', hm_RuntimeCommand := [''/opt/cloudless/server.py'', ''--model'', ''nvidia/LocateAnything-3B'',
        ''--revision'', ''c32291ca5e996f5a7a485845b4f57a233936bba0'', ''--served-model-name'', ''cloudless'',
        ''--host'', ''0.0.0.0'', ''--port'', ''8000''], hm_RuntimeNote := (''Cloudless wraps NVIDIA'' @ [CHR 0x27] @
        ''s supported Transformers worker in a pinned local OpenAI-compatible adapter. Hybrid visual grounding is enabled by default; this NVIDIA-licensed checkpoint is intended for research and development use.''),
        hm_SingleNodeOnly := True\<rparr>,
      zero_Model\<lparr>hm_ID := ''mistralai/Mistral-7B-Instruct-v0.3'', hm_Name := ''Mistral 7B Instruct'', hm_Family
        := ''Mistral'', hm_Params := ''7B'', hm_ContextK := 32, hm_MinVRAMGB := 18, hm_Use := ''general'', hm_Tags :=
        [''chat'', ''multilingual'', ''french''], hm_ToolCalling := True, hm_License := ''Apache-2.0'', hm_Region :=
        ''FR'', hm_Gated := True, hm_Description := (''Mistral AI'' @ [CHR 0x27] @ ''s open 7B '' @ [CHR 0xE2, CHR 0x80,
        CHR 0x94] @ '' a strong, French-built assistant with excellent French. Made in France '' @ [CHR 0xF0, CHR 0x9F,
        CHR 0x87, CHR 0xAB, CHR 0xF0, CHR 0x9F, CHR 0x87, CHR 0xB7] @ ''.'')\<rparr>,
      zero_Model\<lparr>hm_ID := ''mistralai/Mistral-Nemo-Instruct-2407'', hm_Name := ''Mistral Nemo 12B'', hm_Family
        := ''Mistral'', hm_Params := ''12B'', hm_ContextK := 128, hm_MinVRAMGB := 28, hm_Use := ''general'', hm_Tags :=
        [''chat'', ''multilingual'', ''french'', ''long-context''], hm_ToolCalling := True, hm_License :=
        ''Apache-2.0'', hm_Region := ''FR'', hm_Gated := True, hm_Description := (''Mistral'' @ [CHR 0x27] @
        ''s 12B with a 128K context and strong multilingual (incl. French) skills. Made in France '' @ [CHR 0xF0, CHR
        0x9F, CHR 0x87, CHR 0xAB, CHR 0xF0, CHR 0x9F, CHR 0x87, CHR 0xB7] @ ''.'')\<rparr>]"

definition RegionModels :: "string \<Rightarrow> HubModel list" where
  "RegionModels country = (if country = '''' then [] else filter (\<lambda>m. hm_Region m = country) (map normalized curated))"

definition AllModels :: "HubModel list" where
  "AllModels = map normalized curated"

text \<open>\<open>seen\<close> keeps the last position of an identifier of the hosted list.\<close>

fun last_index :: "string list \<Rightarrow> string \<Rightarrow> nat option" where
  "last_index [] x = None"
| "last_index (y # ys) x = (case last_index ys x of Some i \<Rightarrow> Some (Suc i) | None \<Rightarrow> if y = x then Some 0 else None)"

definition keep_runtime :: "HubModel \<Rightarrow> HubModel \<Rightarrow> HubModel" where
  "keep_runtime m h =
     (let h1 = (if hm_RuntimeImage m \<noteq> ''''
        then h\<lparr>hm_Revision := hm_Revision m, hm_PreferredEngine := hm_PreferredEngine m, hm_RuntimeImage := hm_RuntimeImage m,
               hm_RuntimeBuild := hm_RuntimeBuild m, hm_RuntimeEntry := hm_RuntimeEntry m,
               hm_RuntimeCommand := hm_RuntimeCommand m, hm_SingleNodeOnly := hm_SingleNodeOnly m,
               hm_RuntimeNote := (if hm_RuntimeNote h = '''' then hm_RuntimeNote m else hm_RuntimeNote h)\<rparr>
        else h)
      in h1\<lparr>hm_FitProfiles := hm_FitProfiles m\<rparr>)"

definition merge_step :: "HubModel list \<Rightarrow> HubModel list \<Rightarrow> HubModel \<Rightarrow> HubModel list" where
  "merge_step hosted out m0 =
     (let m = normalized m0
      in case last_index (map hm_ID hosted) (hm_ID m) of
           Some i \<Rightarrow> out[i := keep_runtime m (out ! i)]
         | None \<Rightarrow> out @ [m])"

definition Merge :: "HubModel list \<Rightarrow> HubModel list" where
  "Merge hosted = foldl (merge_step hosted) hosted curated"

definition GetModel :: "string \<Rightarrow> HubModel option" where
  "GetModel mid = map_option normalized (find (\<lambda>m. hm_ID m = mid) curated)"

definition DefaultModelID :: string where
  "DefaultModelID = (case find hm_Default curated of Some m \<Rightarrow> hm_ID m | None \<Rightarrow> '''')"

end
