(* ===== verification/Capabilities.thy ===== *)
theory Capabilities
  imports EnginePolicy GoUrl GoJson
begin

text \<open>
  \<open>internal/capabilities/capabilities.go\<close>: which features a machine has. A registry is an association list in the
  order in which a map happens to be walked.
\<close>

record Requirement =
  cr_Platforms :: "string list"
  cr_Architectures :: "string list"
  cr_MinCloudlessVersion :: string
  cr_MinDGXOSVersion :: string
  cr_RequiredFeatures :: "string list"

record Facts =
  cf_Platform :: string
  cf_Architecture :: string
  cf_CloudlessVersion :: string
  cf_DGXOSVersion :: string

record FeatureStatus =
  cs_Available :: bool
  cs_Reason :: string
  cs_SupportLevel :: string
  cs_Requirement :: Requirement

record Snapshot =
  cn_Facts :: Facts
  cn_Features :: "(string, FeatureStatus) gomap"

definition zero_Requirement :: Requirement where
  "zero_Requirement = \<lparr>cr_Platforms = [], cr_Architectures = [], cr_MinCloudlessVersion = '''', cr_MinDGXOSVersion = '''',
     cr_RequiredFeatures = []\<rparr>"

definition feature_definitions :: "(string, Requirement) gomap" where
  "feature_definitions =
     [(''dgx-appliance'', zero_Requirement\<lparr>cr_Platforms := [DGXSpark]\<rparr>),
      (''unified-accelerator-memory'', zero_Requirement\<lparr>cr_Platforms := [DGXSpark]\<rparr>),
      (''nvidia-cdi'', zero_Requirement\<lparr>cr_Platforms := [DGXSpark]\<rparr>),
      (''dgx-vendor-update-boundary'', zero_Requirement\<lparr>cr_Platforms := [DGXSpark]\<rparr>),
      (''spark-cluster'', zero_Requirement\<lparr>cr_Platforms := [DGXSpark], cr_Architectures := [''arm64'']\<rparr>),
      (''generic-nvidia-driver-management'', zero_Requirement\<lparr>cr_Platforms := [Generic]\<rparr>)]"

definition supportLevels :: "(string, string) gomap" where
  "supportLevels =
     [(''dgx-appliance'', ''supported''), (''unified-accelerator-memory'', ''supported''), (''nvidia-cdi'', ''supported''),
      (''dgx-vendor-update-boundary'', ''supported''), (''spark-cluster'', ''preview''),
      (''generic-nvidia-driver-management'', ''preview'')]"

subsection \<open>Versions\<close>

fun numbers :: "string list \<Rightarrow> int list option" where
  "numbers [] = Some []"
| "numbers (f # fs) = (case atoi f of (n, ok) \<Rightarrow> if \<not> ok \<or> n < 0 then None else map_option (Cons n) (numbers fs))"

text \<open>The numbers of a version, and whether it is a pre-release.\<close>

definition parseVersion :: "string \<Rightarrow> (int list \<times> bool) option" where
  "parseVersion value0 =
     (let v = trim_space (trim_prefix (to_lower_text value0) ''v''); stop = (\<lambda>c. c \<in> {CHR ''-'', CHR ''~'', CHR ''+''});
          core = takeWhile (\<lambda>c. \<not> stop c) v; rest = dropWhile (\<lambda>c. \<not> stop c) v
      in if v = '''' \<or> v = ''development'' then None
         else map_option (\<lambda>ns. (ns, rest \<noteq> [] \<and> hd rest \<noteq> CHR ''+'')) (numbers (split_on CHR ''.'' core)))"

text \<open>\<open>Some\<close> tells which is greater at the first place where they differ; what is missing counts as zero.\<close>

fun compare_numbers :: "int list \<Rightarrow> int list \<Rightarrow> bool option" where
  "compare_numbers [] [] = None"
| "compare_numbers (a # xs) [] = (if a \<noteq> 0 then Some (a > 0) else compare_numbers xs [])"
| "compare_numbers [] (b # ys) = (if b \<noteq> 0 then Some (0 > b) else compare_numbers [] ys)"
| "compare_numbers (a # xs) (b # ys) = (if a \<noteq> b then Some (a > b) else compare_numbers xs ys)"

definition versionAtLeast :: "string \<Rightarrow> string \<Rightarrow> bool" where
  "versionAtLeast current minimum =
     (case (parseVersion current, parseVersion minimum) of
        (Some (xs, xpre), Some (ys, ypre)) \<Rightarrow>
          (case compare_numbers xs ys of Some b \<Rightarrow> b | None \<Rightarrow> if xpre \<noteq> ypre then \<not> xpre else True)
      | _ \<Rightarrow> False)"

subsection \<open>Requirements\<close>

definition has_value :: "string list \<Rightarrow> string \<Rightarrow> bool" where
  "has_value vs want = list_ex (\<lambda>v. equal_fold (trim_space v) (trim_space want)) vs"

definition evaluateBase :: "Facts \<Rightarrow> Requirement \<Rightarrow> FeatureStatus" where
  "evaluateBase facts req =
     (let st = \<lparr>cs_Available = True, cs_Reason = '''', cs_SupportLevel = '''', cs_Requirement = req\<rparr>;
          no = (\<lambda>why. st\<lparr>cs_Available := False, cs_Reason := why\<rparr>)
      in if cr_Platforms req \<noteq> [] \<and> \<not> has_value (cr_Platforms req) (cf_Platform facts)
         then no (''Requires platform '' @ join '' or '' (cr_Platforms req))
         else if cr_Architectures req \<noteq> [] \<and> \<not> has_value (cr_Architectures req) (cf_Architecture facts)
         then no (''Requires architecture '' @ join '' or '' (cr_Architectures req))
         else if cr_MinCloudlessVersion req \<noteq> '''' \<and> \<not> versionAtLeast (cf_CloudlessVersion facts) (cr_MinCloudlessVersion req)
         then no (''Requires CloudlessOS '' @ cr_MinCloudlessVersion req @ '' or newer'')
         else if cr_MinDGXOSVersion req \<noteq> '''' \<and> \<not> versionAtLeast (cf_DGXOSVersion facts) (cr_MinDGXOSVersion req)
         then no (''Requires DGX OS '' @ cr_MinDGXOSVersion req @ '' or newer'')
         else st)"

definition unavailable :: "string \<Rightarrow> Requirement \<Rightarrow> FeatureStatus" where
  "unavailable why req = \<lparr>cs_Available = False, cs_Reason = why, cs_SupportLevel = '''', cs_Requirement = req\<rparr>"

text \<open>
  The features that are being resolved are a stack; the features that have been resolved are threaded through.
\<close>

type_synonym features = "(string, FeatureStatus) gomap"

function (sequential) resolve :: "Facts \<Rightarrow> (string, Requirement) gomap \<Rightarrow> string list \<Rightarrow> features \<Rightarrow> string \<Rightarrow> FeatureStatus \<times> features"
  and resolve_required :: "Facts \<Rightarrow> (string, Requirement) gomap \<Rightarrow> string list \<Rightarrow> features \<Rightarrow> FeatureStatus \<Rightarrow> string list \<Rightarrow>
    FeatureStatus \<times> features" where
  "resolve facts reg resolving fs fid =
     (case lookup fs fid of
        Some st \<Rightarrow> (st, fs)
      | None \<Rightarrow>
          (case lookup reg fid of
             None \<Rightarrow> (unavailable ''Unknown required feature'' zero_Requirement, fs)
           | Some req \<Rightarrow>
               if fid \<in> set resolving then (unavailable ''Capability dependency cycle'' req, fs)
               else (let st = evaluateBase facts req;
                         r = (if cs_Available st then resolve_required facts reg (fid # resolving) fs st (cr_RequiredFeatures req)
                              else (st, fs))
                     in (fst r, put fid (fst r) (snd r)))))"
| "resolve_required facts reg resolving fs st [] = (st, fs)"
| "resolve_required facts reg resolving fs st (d # ds) =
     (let r = resolve facts reg resolving fs d
      in if \<not> cs_Available (fst r)
         then (st\<lparr>cs_Available := False, cs_Reason := ''Requires '' @ d @ '': '' @ cs_Reason (fst r)\<rparr>, snd r)
         else resolve_required facts reg resolving (snd r) st ds)"
  by pat_completeness auto

definition unresolved :: "(string, Requirement) gomap \<Rightarrow> string list \<Rightarrow> nat" where
  "unresolved reg resolving = card (set (map fst reg) - set resolving)"

lemma unresolved_less: "lookup reg fid = Some req \<Longrightarrow> fid \<notin> set resolving \<Longrightarrow> unresolved reg (fid # resolving) < unresolved reg resolving"
proof -
  assume "lookup reg fid = Some req" "fid \<notin> set resolving"
  then have "(fid, req) \<in> set reg" by (simp add: lookup_Some_in_set)
  with \<open>fid \<notin> set resolving\<close> have "fid \<in> set (map fst reg) - set resolving" by force
  moreover have "set (map fst reg) - set (fid # resolving) \<subset> set (map fst reg) - set resolving" using calculation by auto
  ultimately show ?thesis unfolding unresolved_def by (intro psubset_card_mono) auto
qed

termination resolve
  by (relation "inv_image (less_than <*lex*> less_than) (\<lambda>x. case x of
      Inl (facts, reg, resolving, fs, fid) \<Rightarrow> (unresolved reg resolving, 0)
    | Inr (facts, reg, resolving, fs, st, ds) \<Rightarrow> (unresolved reg resolving, Suc (length ds)))")
    (auto simp: unresolved_less)

definition evaluate_one :: "Facts \<Rightarrow> (string, Requirement) gomap \<Rightarrow> features \<Rightarrow> string \<Rightarrow> features" where
  "evaluate_one facts reg fs fid =
     (let r = resolve facts reg [] fs fid
      in put fid ((fst r)\<lparr>cs_SupportLevel := (case lookup supportLevels fid of Some l \<Rightarrow> l | None \<Rightarrow> ''experimental'')\<rparr>) (snd r))"

definition Evaluate :: "Facts \<Rightarrow> (string, Requirement) gomap \<Rightarrow> Snapshot" where
  "Evaluate facts reg = \<lparr>cn_Facts = facts, cn_Features = foldl (evaluate_one facts reg) [] (map fst reg)\<rparr>"

fun check_features :: "features \<Rightarrow> FeatureStatus \<Rightarrow> string list \<Rightarrow> FeatureStatus" where
  "check_features fs st [] = st"
| "check_features fs st (d # ds) =
     (case lookup fs d of
        Some r \<Rightarrow> if cs_Available r then check_features fs st ds
                   else st\<lparr>cs_Available := False, cs_Reason := ''Requires unavailable feature '' @ d\<rparr>
      | None \<Rightarrow> st\<lparr>cs_Available := False, cs_Reason := ''Requires unavailable feature '' @ d\<rparr>)"

definition Check :: "Snapshot \<Rightarrow> Requirement \<Rightarrow> FeatureStatus" where
  "Check sn req =
     (let st = evaluateBase (cn_Facts sn) req
      in if \<not> cs_Available st then st else check_features (cn_Features sn) st (cr_RequiredFeatures req))"

subsection \<open>The machine\<close>

text \<open>\<open>strings.Cut(line, "=")\<close> with both sides trimmed, and quotes dropped from the value; the last line of a key counts.\<close>

definition release_value :: "string \<Rightarrow> (string \<times> string) option" where
  "release_value l = (if CHR ''='' \<in> set l
     then Some (trim_space (takeWhile (\<lambda>c. c \<noteq> CHR ''='') l),
                trim_chars [CHR 0x22, CHR 0x27] (trim_space (tl (dropWhile (\<lambda>c. c \<noteq> CHR ''='') l))))
     else None)"

definition dgxOSVersion :: "host \<Rightarrow> string \<Rightarrow> string" where
  "dgxOSVersion h path =
     (case h_read h path of
        None \<Rightarrow> ''''
      | Some b \<Rightarrow>
          (let vs = rev (List.map_filter release_value (scan_lines 65536 b));
               value_of = (\<lambda>k. case lookup vs k of Some v \<Rightarrow> v | None \<Rightarrow> '''')
           in if value_of ''DGX_OTA_VERSION'' \<noteq> '''' then value_of ''DGX_OTA_VERSION'' else value_of ''DGX_SWBUILD_VERSION''))"

text \<open>\<open>build\<close> is the version the binary was built with, \<open>goarch\<close> its architecture.\<close>

definition CurrentFacts :: "host \<Rightarrow> string \<Rightarrow> string \<Rightarrow> Facts" where
  "CurrentFacts h goarch build =
     (let version = trim_space (h_env h ''CLOUDLESS_VERSION''); dgx = trim_space (h_env h ''CLOUDLESS_DGX_OS_VERSION'')
      in \<lparr>cf_Platform = Detect h, cf_Architecture = Architecture goarch h,
          cf_CloudlessVersion = (if version = '''' then build else version),
          cf_DGXOSVersion = (if dgx = '''' then dgxOSVersion h ''/etc/dgx-release'' else dgx)\<rparr>)"

definition CurrentFeatures :: "host \<Rightarrow> string \<Rightarrow> string \<Rightarrow> Snapshot" where
  "CurrentFeatures h goarch build = Evaluate (CurrentFacts h goarch build) feature_definitions"

end
