(* ===== verification/Catalog.thy ===== *)
theory Catalog
  imports ModelCatalog Capabilities
begin

text \<open>
  \<open>internal/catalog/catalog.go\<close> and \<open>internal/customengine/registry.go\<close>: the installable applications, what a host
  offers of them, and the container specifications they run as. The embedded document is part of the machine; a
  map is an association list in the order it happens to be walked.
\<close>

record ConfigFile =
  cg_File :: string
  cg_Path :: string
  cg_Lang :: string
  cg_Env :: bool

record AdminInfo =
  ad_Note :: string
  ad_User :: string
  ad_Pass :: string
  ad_ManagedPassword :: string

record Field =
  fd_Key :: string
  fd_Label :: string
  fd_Help :: string
  fd_Type :: string
  fd_Options :: "string list"
  fd_Default :: string
  fd_File :: string
  fd_Path :: string

record HealthContract =
  hc_Kind :: string
  hc_Path :: string
  hc_Port :: int
  hc_TimeoutSeconds :: int

record LLMContract =
  lc_Consumes :: bool
  lc_Route :: string
  lc_Pinning :: string
  lc_MinContext :: int
  lc_ProbePath :: string

record ResourceContract =
  rc_MemoryGB :: int
  rc_DiskGB :: int
  rc_VRAMGB :: int

record ExposureContract =
  ex_Risk :: string
  ex_LAN :: string
  ex_Public :: string
  ex_RequireAuth :: bool

record App =
  ap_ID :: string
  ap_Name :: string
  ap_Description :: string
  ap_Category :: string
  ap_Tagline :: string
  ap_Long :: string
  ap_Examples :: "string list"
  ap_Image :: string
  ap_ArchImages :: "(string, string) gomap"
  ap_Architectures :: "string list"
  ap_Platforms :: "string list"
  ap_ArchPlatforms :: "(string, string list) gomap"
  ap_MinCloudlessVersion :: string
  ap_MinDGXOSVersion :: string
  ap_SupportLevel :: string
  ap_RequiredFeatures :: "string list"
  ap_Ports :: "(int, int) gomap"
  ap_Env :: "(string, string) gomap"
  ap_GPUs :: string
  ap_OpenPath :: string
  ap_EmbeddedPath :: string
  ap_MinVRAMGB :: int
  ap_Verified :: bool
  ap_Preinstall :: bool
  ap_Prefetch :: bool
  ap_Service :: bool
  ap_Hidden :: bool
  ap_LocalOnly :: bool
  ap_Engine :: bool
  ap_NeedsEngine :: bool
  ap_Network :: string
  ap_IPC :: string
  ap_Ulimits :: "string list"
  ap_Command :: "string list"
  ap_ArchCommands :: "(string, string list) gomap"
  ap_Volumes :: "(string, string) gomap"
  ap_DataPath :: string
  ap_DataUID :: int
  ap_Build :: string
  ap_Config :: "ConfigFile list"
  ap_Settings :: "Field list"
  ap_Admin :: "AdminInfo option"
  ap_Dependencies :: "string list"
  ap_Health :: HealthContract
  ap_LLM :: "LLMContract option"
  ap_Resources :: ResourceContract
  ap_Exposure :: ExposureContract

record Pack =
  pa_ID :: string
  pa_Name :: string
  pa_Description :: string
  pa_Category :: string
  pa_Icon :: string
  pa_Tagline :: string
  pa_Long :: string
  pa_Examples :: "string list"
  pa_Apps :: "string list"
  pa_LaunchApp :: string

record ManifestDocument =
  mf_Schema :: string
  mf_Version :: int
  mf_Description :: string
  mf_Apps :: "App list"
  mf_Packs :: "Pack list"

text \<open>What the package reads: the host, the architecture and version the binary was built for, its document.\<close>

record machine =
  mc_host :: host
  mc_goarch :: string
  mc_build :: string
  mc_doc :: ManifestDocument

abbreviation host_arch :: "machine \<Rightarrow> string" where
  "host_arch mc \<equiv> Architecture (mc_goarch mc) (mc_host mc)"

subsection \<open>Applications on a host\<close>

definition ContainerName :: "App \<Rightarrow> string" where "ContainerName a = ''cloudless-'' @ ap_ID a"
definition TunnelName :: "App \<Rightarrow> string" where "TunnelName a = ''cloudless-tunnel-'' @ ap_ID a"
definition LanName :: "App \<Rightarrow> string" where "LanName a = ''cloudless-lan-'' @ ap_ID a"

definition Availability :: "machine \<Rightarrow> App \<Rightarrow> FeatureStatus" where
  "Availability mc a =
     Check (CurrentFeatures (mc_host mc) (mc_goarch mc) (mc_build mc))
       \<lparr>cr_Platforms = (case lookup (ap_ArchPlatforms a) (host_arch mc) of Some ps \<Rightarrow> ps | None \<Rightarrow> ap_Platforms a),
        cr_Architectures = ap_Architectures a, cr_MinCloudlessVersion = ap_MinCloudlessVersion a,
        cr_MinDGXOSVersion = ap_MinDGXOSVersion a, cr_RequiredFeatures = ap_RequiredFeatures a\<rparr>"

definition SupportsHost :: "machine \<Rightarrow> App \<Rightarrow> bool" where
  "SupportsHost mc a = cs_Available (Availability mc a)"

definition HostImage :: "machine \<Rightarrow> App \<Rightarrow> string" where
  "HostImage mc a = (case lookup (ap_ArchImages a) (host_arch mc) of
     Some img \<Rightarrow> if img \<noteq> '''' then img else ap_Image a | None \<Rightarrow> ap_Image a)"

definition forHost :: "machine \<Rightarrow> App \<Rightarrow> App" where
  "forHost mc a = a\<lparr>ap_Image := HostImage mc a,
     ap_Command := (case lookup (ap_ArchCommands a) (host_arch mc) of
        Some cmd \<Rightarrow> if cmd \<noteq> [] then cmd else ap_Command a | None \<Rightarrow> ap_Command a)\<rparr>"

text \<open>Some host port: the first one of the walk.\<close>

definition PrimaryHostPort :: "App \<Rightarrow> int" where
  "PrimaryHostPort a = (case ap_Ports a of [] \<Rightarrow> 0 | (h, c) # ps \<Rightarrow> h)"

definition Launchable :: "App \<Rightarrow> bool" where
  "Launchable a \<longleftrightarrow> \<not> ap_Service a \<and> \<not> ap_Hidden a"

definition HasWebPort :: "App \<Rightarrow> bool" where
  "HasWebPort a \<longleftrightarrow> Launchable a \<and> \<not> ap_LocalOnly a \<and> PrimaryHostPort a > 0 \<and>
     (ex_LAN (ap_Exposure a) = ''opt-in'' \<or> ex_Public (ap_Exposure a) = ''opt-in'')"

definition LanShareable :: "App \<Rightarrow> bool" where
  "LanShareable a \<longleftrightarrow> HasWebPort a \<and> ex_LAN (ap_Exposure a) = ''opt-in''"

definition Tunnelable :: "App \<Rightarrow> bool" where
  "Tunnelable a \<longleftrightarrow> HasWebPort a \<and> ex_Public (ap_Exposure a) = ''opt-in'' \<and> ex_RequireAuth (ap_Exposure a)"

subsection \<open>Container specifications\<close>

definition zero_RunSpec :: RunSpec where
  "zero_RunSpec = \<lparr>rs_Name = '''', rs_Image = '''', rs_RestartPolicy = '''', rs_Ports = [], rs_Env = [], rs_Labels = [],
     rs_Volumes = [], rs_SecretFiles = [], rs_GPUs = '''', rs_Network = '''', rs_NetworkAlias = '''', rs_IPC = '''',
     rs_Ulimits = [], rs_ExtraHosts = [], rs_EntryPoint = '''', rs_User = '''', rs_Args = [], rs_ReadOnly = False,
     rs_CapAdd = [], rs_CapDrop = [], rs_SecurityOpts = [], rs_Tmpfs = [], rs_PidsLimit = 0, rs_ShmSize = '''', rs_Devices = []\<rparr>"

definition SocatImage :: string where "SocatImage = ''alpine/socat:latest''"
definition EngineAlias :: string where "EngineAlias = ''cloudless-ai''"
definition EnginePort :: int where "EnginePort = 8000"

definition LanSidecarSpec :: "App \<Rightarrow> string \<Rightarrow> RunSpec" where
  "LanSidecarSpec a ip =
     (let port = itoa (PrimaryHostPort a)
      in zero_RunSpec\<lparr>rs_Name := LanName a, rs_Image := SocatImage, rs_Network := ''host'',
           rs_Args := [''TCP-LISTEN:'' @ port @ '',bind='' @ ip @ '',fork,reuseaddr'', ''TCP:127.0.0.1:'' @ port]\<rparr>)"

definition AppSpec :: "App \<Rightarrow> RunSpec" where
  "AppSpec a = zero_RunSpec\<lparr>rs_Name := ContainerName a, rs_Image := ap_Image a, rs_Ports := ap_Ports a, rs_Env := ap_Env a,
     rs_GPUs := ap_GPUs a, rs_Network := ap_Network a, rs_IPC := ap_IPC a, rs_Ulimits := ap_Ulimits a, rs_Args := ap_Command a,
     rs_Volumes := ap_Volumes a, rs_NetworkAlias := (if ap_Engine a then EngineAlias else '''')\<rparr>"

definition defaultModelSentinel :: string where "defaultModelSentinel = ''Qwen/Qwen2.5-1.5B-Instruct''"
definition dgxSparkDefaultModel :: string where "dgxSparkDefaultModel = ''Qwen/Qwen3.6-35B-A3B''"

definition DefaultModel :: "machine \<Rightarrow> string" where
  "DefaultModel mc = (let v = h_env (mc_host mc) ''CLOUDLESS_DEFAULT_MODEL''
     in if v \<noteq> '''' then v else if IsDGXSpark (mc_host mc) then dgxSparkDefaultModel else defaultModelSentinel)"

text \<open>
  The first argument that is one of the flags gets the value as its next argument, or, written with \<open>=\<close>, the
  value after it; an argument list without the flag stays as it is.
\<close>

definition flag_hit :: "string \<Rightarrow> string \<Rightarrow> bool" where
  "flag_hit a f \<longleftrightarrow> a = f \<or> has_prefix a (f @ ''='')"

fun set_flag :: "string list \<Rightarrow> string \<Rightarrow> string list \<Rightarrow> string list" where
  "set_flag flags v [] = []"
| "set_flag flags v (a # as) =
     (case find (flag_hit a) flags of
        Some f \<Rightarrow> if a = f then a # v # tl as else (f @ ''='' @ v) # as
      | None \<Rightarrow> a # set_flag flags v as)"

definition enforcePrivateEngineContract :: "RunSpec \<Rightarrow> RunSpec" where
  "enforcePrivateEngineContract spec = spec\<lparr>rs_Ports := [(EnginePort, EnginePort)],
     rs_Args := set_flag [''--served-model-name'', ''--alias''] ''cloudless'' (set_flag [''--port''] (itoa EnginePort) (rs_Args spec))\<rparr>"

definition EngineSpec :: "machine \<Rightarrow> App \<Rightarrow> string \<Rightarrow> RunSpec" where
  "EngineSpec mc a model0 =
     (let rs = AppSpec a; model = (if model0 = '''' then DefaultModel mc else model0);
          plain = rs\<lparr>rs_Args := map (\<lambda>x. if x = defaultModelSentinel then model else x) (rs_Args rs)\<rparr>
      in enforcePrivateEngineContract (case GetModel model of
           Some m \<Rightarrow> if hm_PreferredEngine m = ap_ID a \<and> hm_RuntimeImage m \<noteq> ''''
             then rs\<lparr>rs_Image := hm_RuntimeImage m, rs_EntryPoint := hm_RuntimeEntry m, rs_Args := hm_RuntimeCommand m\<rparr>
             else plain
         | None \<Rightarrow> plain))"

definition EngineSpecOverride :: "machine \<Rightarrow> App \<Rightarrow> string \<Rightarrow> string list \<Rightarrow> RunSpec" where
  "EngineSpecOverride mc a model override =
     (let rs = EngineSpec mc a model
      in enforcePrivateEngineContract (if override \<noteq> [] then rs\<lparr>rs_Args := override\<rparr> else rs))"

subsection \<open>The catalog of a host\<close>

definition AllApps :: "machine \<Rightarrow> App list" where
  "AllApps mc = map (forHost mc) (filter (SupportsHost mc) (mf_Apps (mc_doc mc)))"

definition GetApp :: "machine \<Rightarrow> string \<Rightarrow> App option" where
  "GetApp mc aid = map_option (forHost mc) (find (\<lambda>a. ap_ID a = aid \<and> SupportsHost mc a) (mf_Apps (mc_doc mc)))"

definition Engines :: "machine \<Rightarrow> App list" where
  "Engines mc = filter ap_Engine (AllApps mc)"

definition DefaultEngine :: "machine \<Rightarrow> string" where
  "DefaultEngine mc =
     (case find (\<lambda>a. ap_Engine a \<and> ap_Preinstall a) (AllApps mc) of
        Some a \<Rightarrow> ap_ID a
      | None \<Rightarrow> (case find ap_Engine (AllApps mc) of Some a \<Rightarrow> ap_ID a | None \<Rightarrow> ''''))"

definition Bundled :: "machine \<Rightarrow> App list" where
  "Bundled mc = filter (\<lambda>a. (ap_Preinstall a \<or> ap_Prefetch a) \<and> ap_Image a \<noteq> '''') (AllApps mc)"

definition DefaultPins :: "string list" where "DefaultPins = []"

subsection \<open>Packs\<close>

definition Packs :: "machine \<Rightarrow> Pack list" where
  "Packs mc = filter (\<lambda>p. list_all (\<lambda>i. GetApp mc i \<noteq> None) (pa_Apps p)) (mf_Packs (mc_doc mc))"

definition GetPack :: "machine \<Rightarrow> string \<Rightarrow> Pack option" where
  "GetPack mc pid = find (\<lambda>p. pa_ID p = pid) (Packs mc)"

definition Pinnable :: "machine \<Rightarrow> App \<Rightarrow> bool" where
  "Pinnable mc a \<longleftrightarrow> \<not> ap_Service a \<and> (\<not> ap_Hidden a \<or> list_ex (\<lambda>p. pa_LaunchApp p = ap_ID a) (Packs mc))"

subsection \<open>Custom engines\<close>

definition CustomPrefix :: string where "CustomPrefix = ''custom-''"

definition CustomApp :: "machine \<Rightarrow> CustomEngine \<Rightarrow> App option" where
  "CustomApp mc def =
     (case GetApp mc (ce_Base def) of
        None \<Rightarrow> None
      | Some base \<Rightarrow>
          if \<not> ap_Engine base \<or> (ce_Base def \<noteq> ''vllm'' \<and> ce_Base def \<noteq> ''sglang'') then None
          else Some (base\<lparr>ap_ID := ce_ID def, ap_Name := ce_Name def,
            ap_Description := ''Locally built '' @ trim_suffix (ce_Name def) '' Engine'' @ '' runtime.'',
            ap_Image := (if ce_ResolvedImage def \<noteq> '''' then ce_ResolvedImage def else ce_Image def),
            ap_Command := (if ce_Base def = ''vllm'' \<and> ce_CommandMode def = ''vllm-entrypoint'' \<and>
                take 2 (ap_Command base) = [''vllm'', ''serve''] then drop 2 (ap_Command base) else ap_Command base),
            ap_ArchImages := [], ap_ArchCommands := [], ap_Architectures := [], ap_ArchPlatforms := [], ap_Platforms := [],
            ap_Preinstall := False, ap_Prefetch := False, ap_Verified := False, ap_SupportLevel := ''experimental''\<rparr>))"

definition CustomApps :: "machine \<Rightarrow> CustomEngine list \<Rightarrow> App list" where
  "CustomApps mc defs = List.map_filter (CustomApp mc) defs"

definition AllEngines :: "machine \<Rightarrow> CustomEngine list \<Rightarrow> App list" where
  "AllEngines mc defs = Engines mc @ CustomApps mc defs"

definition GetEngine :: "machine \<Rightarrow> CustomEngine list \<Rightarrow> string \<Rightarrow> App option" where
  "GetEngine mc defs eid =
     (let custom = (case find (\<lambda>d. ce_ID d = eid) defs of Some d \<Rightarrow> CustomApp mc d | None \<Rightarrow> None)
      in case GetApp mc eid of Some a \<Rightarrow> if ap_Engine a then Some a else custom | None \<Rightarrow> custom)"

definition IsCustom :: "string \<Rightarrow> bool" where
  "IsCustom eid = has_prefix eid CustomPrefix"

end
