(* ===== verification/AppManifest.thy ===== *)
theory AppManifest
  imports Catalog
begin

text \<open>
  \<open>internal/catalog/manifest.go\<close>: what a catalog document must satisfy before any recipe reaches the container
  engine, dependencies in the order they are started, and packs. Decoding the document is the caller's part: the
  functions here start from the decoded document, if it decodes.
\<close>

subsection \<open>One application\<close>

definition appIDPattern :: "string \<Rightarrow> bool" where
  "appIDPattern s \<longleftrightarrow> (case s of [] \<Rightarrow> False | c # t \<Rightarrow>
     (is_digit c \<or> is_lower c) \<and>
     list_all (\<lambda>x. is_digit x \<or> is_lower x \<or> x = CHR ''-'') t)"

text \<open>\<open>strings.ToUpper\<close> as far as its result is compared with ASCII text: U+0131 and U+017F become \<open>I\<close> and \<open>S\<close>.\<close>

definition to_upper_char :: "char \<Rightarrow> char" where
  "to_upper_char c = (case find (\<lambda>p. snd p = c) lower_of of Some p \<Rightarrow> fst p | None \<Rightarrow> c)"

fun to_upper_text :: "string \<Rightarrow> string" where
  "to_upper_text [] = []"
| "to_upper_text (c # s) =
     (if has_prefix (c # s) [CHR 0xC4, CHR 0xB1] then CHR ''I'' # to_upper_text (drop 1 s)
      else if has_prefix (c # s) [CHR 0xC5, CHR 0xBF] then CHR ''S'' # to_upper_text (drop 1 s)
      else to_upper_char c # to_upper_text s)"

definition managed_scheme :: string where "managed_scheme = ''cloudless-managed://''"

definition credential_shaped :: "string \<Rightarrow> bool" where
  "credential_shaped key =
     (let k = to_upper_text (trim_space key)
      in contains k ''API_KEY'' \<or> has_suffix k ''_PASSWORD'' \<or> has_suffix k ''_SECRET'')"

definition validate_env :: "string \<times> string \<Rightarrow> string option" where
  "validate_env kv = (case kv of (key, v) \<Rightarrow> checks [
     fail_if (credential_shaped key \<and> trim_space v \<noteq> '''' \<and> \<not> has_prefix v managed_scheme)
       (key @ '' must be blank or use a cloudless-managed credential''),
     fail_if (has_prefix v managed_scheme \<and> \<not> appIDPattern (trim_space (trim_prefix v managed_scheme)))
       (key @ '' has invalid managed credential name'')])"

definition hasPasswordlessNotebookCommand :: "string list \<Rightarrow> bool" where
  "hasPasswordlessNotebookCommand command =
     list_ex (\<lambda>a. trim_space a = ''--ServerApp.token='' \<or> trim_space a = ''--ServerApp.password='') command"

definition visible :: "App \<Rightarrow> bool" where
  "visible a \<longleftrightarrow> \<not> ap_Service a \<and> \<not> ap_Hidden a"

definition validate_shape :: "App \<Rightarrow> string option" where
  "validate_shape a = checks [
     fail_if (\<not> appIDPattern (ap_ID a)) ''invalid id'',
     fail_if (trim_space (ap_Name a) = '''') ''name is required'',
     fail_if (ap_SupportLevel a \<notin> {''experimental'', ''preview'', ''supported''}) ''unsupported support level'',
     fail_if (AppManifest.visible a \<and> (trim_space (ap_Category a) = '''' \<or> trim_space (ap_Tagline a) = '''' \<or>
         trim_space (ap_Long a) = '''' \<or> length (ap_Examples a) < 3))
       ''visible applications require category, tagline, long description, and at least three examples'',
     fail_if (trim_space (ap_Image a) = '''' \<and> ap_ArchImages a = [] \<and> trim_space (ap_Build a) = '''')
       ''image, archImages, or build is required'',
     first_error (\<lambda>(h, c). fail_if (h < 1 \<or> h > 65535 \<or> c < 1 \<or> c > 65535) ''invalid port mapping'') (ap_Ports a),
     fail_if (ap_EmbeddedPath a \<noteq> '''' \<and> ap_EmbeddedPath a \<noteq> ''/apps/'' @ ap_ID a @ ''/'') ''wrong embeddedPath'',
     fail_if (ap_EmbeddedPath a \<noteq> '''' \<and> length (ap_Ports a) \<noteq> 1) ''embedded apps must expose exactly one port'',
     fail_if (AppManifest.visible a \<and> (ap_Ports a = [] \<or> \<not> has_prefix (ap_OpenPath a) ''/''))
       ''visible applications require a launch port and absolute openPath'',
     fail_if (AppManifest.visible a \<and> ap_Volumes a = [] \<and> ap_DataPath a = '''' \<and> ap_Config a = [])
       ''visible applications require an explicit persistence contract'']"

definition validate_contracts :: "App \<Rightarrow> string option" where
  "validate_contracts a =
     (let r = ap_Resources a; h = ap_Health a; x = ap_Exposure a
      in checks [
        fail_if (rc_MemoryGB r < 0 \<or> rc_DiskGB r < 0 \<or> rc_VRAMGB r < 0 \<or> ap_MinVRAMGB a < 0) ''resource values must be non-negative'',
        fail_if (hc_Kind h \<notin> {'''', ''container'', ''http'', ''openai''}) ''unsupported health kind'',
        fail_if (hc_Kind h \<in> {''http'', ''openai''} \<and> \<not> has_prefix (hc_Path h) ''/'') ''http health path must begin with /'',
        fail_if (hc_Port h < 0 \<or> hc_Port h > 65535) ''health port is invalid'',
        fail_if (hc_Port h > 0 \<and> lookup (ap_Ports a) (hc_Port h) = None)
          ''health port must be one of the app's published host ports'',
        (case ap_LLM a of None \<Rightarrow> None | Some l \<Rightarrow> if \<not> lc_Consumes l then None else checks [
           fail_if (lc_Route l \<notin> {''gateway'', ''direct''}) ''invalid LLM route'',
           fail_if (lc_Pinning l \<notin> {''none'', ''dynamic''}) ''invalid LLM pinning'']),
        fail_if (ex_LAN x \<notin> {'''', ''none'', ''opt-in''} \<or> ex_Public x \<notin> {'''', ''none'', ''opt-in''})
          ''exposure must be none or opt-in'',
        fail_if (ex_Public x = ''opt-in'' \<and> \<not> ex_RequireAuth x) ''public exposure requires authentication'',
        fail_if (case ap_Admin a of None \<Rightarrow> False | Some ad \<Rightarrow> ad_Pass ad \<noteq> '''')
          ''published applications must not embed a fixed administrator password'',
        first_error validate_env (ap_Env a),
        fail_if (hasPasswordlessNotebookCommand (ap_Command a) \<and>
            (\<not> ap_LocalOnly a \<or> ex_LAN x \<noteq> ''none'' \<or> ex_Public x \<noteq> ''none'' \<or> ex_Risk x \<noteq> ''code-execution-ui''))
          ''passwordless notebook runtimes must be local-only, non-shareable code-execution surfaces''])"

definition validateApp :: "App \<Rightarrow> string option" where
  "validateApp a = checks [validate_shape a, validate_contracts a]"

subsection \<open>The document\<close>

datatype manifest_error =
    Undecodable | UnsupportedSchema | NoApps | AppInvalid nat string | DuplicateApp string
  | SelfDependency string | UnknownDependency string string | DependencyCycle string
  | PackIncomplete nat | DuplicatePack string | PackTooSmall string | PackUnknownApp string string
  | PackVisibleApp string string | PackRepeats string string | PackLaunchApp string

definition with_support :: "App \<Rightarrow> App" where
  "with_support a = (if ap_SupportLevel a = ''''
     then a\<lparr>ap_SupportLevel := (if ap_Verified a then ''supported'' else ''preview'')\<rparr> else a)"

definition with_defaults :: "App \<Rightarrow> App" where
  "with_defaults a =
     (let a1 = (if rc_VRAMGB (ap_Resources a) = 0 then a\<lparr>ap_Resources := (ap_Resources a)\<lparr>rc_VRAMGB := ap_MinVRAMGB a\<rparr>\<rparr> else a);
          a2 = (if ap_MinVRAMGB a1 = 0 then a1\<lparr>ap_MinVRAMGB := rc_VRAMGB (ap_Resources a1)\<rparr> else a1);
          h = ap_Health a2
      in a2\<lparr>ap_Health := h\<lparr>hc_Kind := (if hc_Kind h = '''' then ''container'' else hc_Kind h),
            hc_TimeoutSeconds := (if hc_TimeoutSeconds h = 0 then 60 else hc_TimeoutSeconds h)\<rparr>\<rparr>)"

text \<open>The applications one after the other: completed, checked, and with an identifier of their own.\<close>

fun parse_apps :: "nat \<Rightarrow> string list \<Rightarrow> App list \<Rightarrow> manifest_error + App list" where
  "parse_apps i seen [] = Inr []"
| "parse_apps i seen (a0 # as) =
     (let a = with_support a0
      in case validateApp a of
           Some e \<Rightarrow> Inl (AppInvalid i e)
         | None \<Rightarrow>
             if ap_ID a \<in> set seen then Inl (DuplicateApp (ap_ID a))
             else map_sum id (Cons (with_defaults a)) (parse_apps (Suc i) (ap_ID a # seen) as))"

definition check_dependencies :: "App list \<Rightarrow> manifest_error option" where
  "check_dependencies as = first_error (\<lambda>a. first_error (\<lambda>d. checks [
     fail_if (d = ap_ID a) (SelfDependency (ap_ID a)),
     fail_if (\<not> list_ex (\<lambda>b. ap_ID b = d) as) (UnknownDependency (ap_ID a) d)]) (ap_Dependencies a)) as"

text \<open>\<open>byID\<close>: of applications with the same identifier the last one counts.\<close>

definition by_id :: "App list \<Rightarrow> string \<Rightarrow> App option" where
  "by_id as aid = find (\<lambda>a. ap_ID a = aid) (rev as)"

function (sequential) visit :: "App list \<Rightarrow> string list \<Rightarrow> string list \<Rightarrow> string \<Rightarrow> string + string list"
  and visit_all :: "App list \<Rightarrow> string list \<Rightarrow> string list \<Rightarrow> string list \<Rightarrow> string + string list" where
  "visit as visiting finished aid =
     (if aid \<in> set visiting then Inl aid
      else if aid \<in> set finished then Inr finished
      else (case by_id as aid of
              None \<Rightarrow> Inr (aid # finished)
            | Some a \<Rightarrow> map_sum id (Cons aid) (visit_all as (aid # visiting) finished (ap_Dependencies a))))"
| "visit_all as visiting finished [] = Inr finished"
| "visit_all as visiting finished (d # ds) =
     (case visit as visiting finished d of Inl e \<Rightarrow> Inl e | Inr finished1 \<Rightarrow> visit_all as visiting finished1 ds)"
  by pat_completeness auto

definition unvisited :: "App list \<Rightarrow> string list \<Rightarrow> nat" where
  "unvisited as visiting = card (ap_ID ` set as - set visiting)"

lemma by_id_mem: "by_id as aid = Some a \<Longrightarrow> a \<in> set as \<and> ap_ID a = aid"
  by (auto simp: by_id_def find_Some_iff in_set_conv_nth rev_nth)
    (metis diff_less length_greater_0_conv length_pos_if_in_set less_trans nth_mem zero_less_Suc diff_Suc_less)+

lemma unvisited_less: "by_id as aid = Some a \<Longrightarrow> aid \<notin> set visiting \<Longrightarrow> unvisited as (aid # visiting) < unvisited as visiting"
  using by_id_mem [of as aid a] unfolding unvisited_def by (intro psubset_card_mono) auto

termination visit
  by (relation "inv_image (less_than <*lex*> less_than) (\<lambda>x. case x of
      Inl (as, visiting, finished, aid) \<Rightarrow> (unvisited as visiting, 0)
    | Inr (as, visiting, finished, ds) \<Rightarrow> (unvisited as visiting, Suc (length ds)))")
    (auto simp: unvisited_less)

definition validateDependencyGraph :: "App list \<Rightarrow> string option" where
  "validateDependencyGraph as = (case visit_all as [] [] (remdups (map ap_ID as)) of Inl e \<Rightarrow> Some e | Inr _ \<Rightarrow> None)"

fun check_components :: "App list \<Rightarrow> string \<Rightarrow> string list \<Rightarrow> string list \<Rightarrow> manifest_error option" where
  "check_components as p seen [] = None"
| "check_components as p seen (i # is) =
     (case by_id as i of
        None \<Rightarrow> Some (PackUnknownApp p i)
      | Some a \<Rightarrow> if \<not> ap_Hidden a then Some (PackVisibleApp p i)
                   else if i \<in> set seen then Some (PackRepeats p i)
                   else check_components as p (i # seen) is)"

definition check_pack :: "App list \<Rightarrow> string list \<Rightarrow> nat \<Rightarrow> Pack \<Rightarrow> manifest_error option" where
  "check_pack as seen i p = checks [
     fail_if (\<not> appIDPattern (pa_ID p) \<or> trim_space (pa_Name p) = '''' \<or> trim_space (pa_Description p) = '''') (PackIncomplete i),
     fail_if (pa_ID p \<in> set seen) (DuplicatePack (pa_ID p)),
     fail_if (length (pa_Apps p) < 2) (PackTooSmall (pa_ID p)),
     check_components as (pa_ID p) [] (pa_Apps p),
     fail_if (pa_LaunchApp p \<noteq> '''' \<and> pa_LaunchApp p \<notin> set (pa_Apps p)) (PackLaunchApp (pa_ID p))]"

fun check_packs :: "App list \<Rightarrow> string list \<Rightarrow> nat \<Rightarrow> Pack list \<Rightarrow> manifest_error option" where
  "check_packs as seen i [] = None"
| "check_packs as seen i (p # ps) =
     (case check_pack as seen i p of Some e \<Rightarrow> Some e | None \<Rightarrow> check_packs as (pa_ID p # seen) (Suc i) ps)"

definition ManifestSchema :: string where "ManifestSchema = ''cloudless.apps.v2''"

definition ParseManifest :: "ManifestDocument option \<Rightarrow> manifest_error + ManifestDocument" where
  "ParseManifest decoded =
     (case decoded of
        None \<Rightarrow> Inl Undecodable
      | Some doc \<Rightarrow>
          if mf_Schema doc \<noteq> ManifestSchema \<or> mf_Version doc \<noteq> 2 then Inl UnsupportedSchema
          else if mf_Apps doc = [] then Inl NoApps
          else bind_res (parse_apps 0 [] (mf_Apps doc)) (\<lambda>as.
            case checks [check_dependencies as, map_option DependencyCycle (validateDependencyGraph as),
                   check_packs as [] 0 (mf_Packs doc)] of
              Some e \<Rightarrow> Inl e
            | None \<Rightarrow> Inr (doc\<lparr>mf_Apps := as\<rparr>)))"

subsection \<open>Starting order\<close>

text \<open>
  The walk has no guard against a cycle; \<open>fuel\<close> bounds its depth, and \<open>None\<close> is a walk that needs more. The
  outcome is an error or what has been put out.
\<close>

fun deps :: "machine \<Rightarrow> nat \<Rightarrow> App \<Rightarrow> App list \<Rightarrow> (string + App list) option"
  and deps_all :: "machine \<Rightarrow> nat \<Rightarrow> string list \<Rightarrow> App list \<Rightarrow> (string + App list) option" where
  "deps mc 0 a out = None"
| "deps mc (Suc n) a out = deps_all mc n (ap_Dependencies a) out"
| "deps_all mc n [] out = Some (Inr out)"
| "deps_all mc n (d # ds) out =
     (if list_ex (\<lambda>b. ap_ID b = d) out then deps_all mc n ds out
      else (case GetApp mc d of
              None \<Rightarrow> Some (Inl d)
            | Some b \<Rightarrow> (case deps mc n b out of
                None \<Rightarrow> None
              | Some (Inl e) \<Rightarrow> Some (Inl e)
              | Some (Inr out1) \<Rightarrow> deps_all mc n ds (out1 @ [b]))))"

definition depth_bound :: "machine \<Rightarrow> nat" where
  "depth_bound mc = Suc (length (mf_Apps (mc_doc mc)))"

definition Dependencies :: "machine \<Rightarrow> string \<Rightarrow> (string + App list) option" where
  "Dependencies mc aid = (case GetApp mc aid of None \<Rightarrow> Some (Inl aid) | Some a \<Rightarrow> deps mc (depth_bound mc) a [])"

definition add_new :: "App list \<Rightarrow> App list \<Rightarrow> App list" where
  "add_new = foldl (\<lambda>out a. if list_ex (\<lambda>b. ap_ID b = ap_ID a) out then out else out @ [a])"

fun pack_order :: "machine \<Rightarrow> string list \<Rightarrow> App list \<Rightarrow> (string + App list) option" where
  "pack_order mc [] out = Some (Inr out)"
| "pack_order mc (i # is) out =
     (case Dependencies mc i of
        None \<Rightarrow> None
      | Some (Inl e) \<Rightarrow> Some (Inl e)
      | Some (Inr ds) \<Rightarrow> pack_order mc is (add_new out (ds @ (case GetApp mc i of Some a \<Rightarrow> [a] | None \<Rightarrow> []))))"

definition PackInstallOrder :: "machine \<Rightarrow> string \<Rightarrow> (string + App list) option" where
  "PackInstallOrder mc pid = (case GetPack mc pid of None \<Rightarrow> Some (Inl pid) | Some p \<Rightarrow> pack_order mc (pa_Apps p) [])"

end
