(* ===== verification/CatalogProps.thy ===== *)
theory CatalogProps
  imports AppManifest
begin

text \<open>
  The features of a machine as a least fixed point, the dependency graph of the catalog, the order in which
  dependencies start, the private contract of an engine, and the merged list of models.
\<close>

subsection \<open>Features\<close>

text \<open>A feature is available when its own requirements hold and every feature it requires is available.\<close>

inductive feature_available :: "Facts \<Rightarrow> (string, Requirement) gomap \<Rightarrow> string \<Rightarrow> bool" for facts reg where
  feature: "lookup reg fid = Some req \<Longrightarrow> cs_Available (evaluateBase facts req) \<Longrightarrow>
    (\<And>d. d \<in> set (cr_RequiredFeatures req) \<Longrightarrow> feature_available facts reg d) \<Longrightarrow> feature_available facts reg fid"

inductive_simps feature_available_iff: "feature_available facts reg fid"

text \<open>The same with the height of the derivation.\<close>

fun available_by :: "Facts \<Rightarrow> (string, Requirement) gomap \<Rightarrow> nat \<Rightarrow> string \<Rightarrow> bool" where
  "available_by facts reg 0 fid = False"
| "available_by facts reg (Suc n) fid = (case lookup reg fid of None \<Rightarrow> False
     | Some req \<Rightarrow> cs_Available (evaluateBase facts req) \<and> list_all (available_by facts reg n) (cr_RequiredFeatures req))"

lemma available_by_mono: "available_by facts reg n fid \<Longrightarrow> n \<le> m \<Longrightarrow> available_by facts reg m fid"
proof (induction n arbitrary: m fid)
  case (Suc n)
  then obtain k where "m = Suc k" "n \<le> k" by (cases m) auto
  with Suc show ?case by (auto simp: list_all_iff split: option.splits)
qed simp

lemma available_byI: "available_by facts reg n fid \<Longrightarrow> feature_available facts reg fid"
proof (induction n arbitrary: fid)
  case (Suc n)
  then obtain req where "lookup reg fid = Some req" "cs_Available (evaluateBase facts req)"
    "\<forall>d \<in> set (cr_RequiredFeatures req). available_by facts reg n d" by (auto simp: list_all_iff split: option.splits)
  with Suc.IH show ?case by (intro feature [of reg fid req]) auto
qed simp

lemma available_byE: "feature_available facts reg fid \<Longrightarrow> \<exists>n. available_by facts reg n fid"
proof (induction rule: feature_available.induct)
  case (feature fid req)
  then obtain h where h: "\<And>d. d \<in> set (cr_RequiredFeatures req) \<Longrightarrow> available_by facts reg (h d) d" by metis
  let ?n = "fold max (map h (cr_RequiredFeatures req)) 0"
  have "h d \<le> ?n" if "d \<in> set (cr_RequiredFeatures req)" for d
    using that Max.coboundedI [of "set (0 # map h (cr_RequiredFeatures req))" "h d"]
    by (simp add: Max.set_eq_fold [symmetric])
  with h available_by_mono have "available_by facts reg ?n d" if "d \<in> set (cr_RequiredFeatures req)" for d using that by blast
  with feature(1,2) have "available_by facts reg (Suc ?n) fid" by (simp add: list_all_iff)
  then show ?case ..
qed

text \<open>
  What is true on the way: resolved features have their availability, and a feature on the stack is available only
  on top of the one that is resolved now.
\<close>

definition resolved :: "Facts \<Rightarrow> (string, Requirement) gomap \<Rightarrow> features \<Rightarrow> bool" where
  "resolved facts reg fs \<longleftrightarrow> (\<forall>fid st. lookup fs fid = Some st \<longrightarrow> cs_Available st = feature_available facts reg fid)"

definition waits_for :: "Facts \<Rightarrow> (string, Requirement) gomap \<Rightarrow> string list \<Rightarrow> string \<Rightarrow> bool" where
  "waits_for facts reg stack fid \<longleftrightarrow> (\<forall>r \<in> set stack. \<forall>n. available_by facts reg n r \<longrightarrow> (\<exists>m < n. available_by facts reg m fid))"

lemma resolved_put: "resolved facts reg fs \<Longrightarrow> cs_Available st = feature_available facts reg fid \<Longrightarrow> resolved facts reg (put fid st fs)"
  by (auto simp: resolved_def lookup_put split: if_splits)

lemma waits_for_self:
  assumes "waits_for facts reg stack fid" "fid \<in> set stack"
  shows "\<not> feature_available facts reg fid"
proof
  assume "feature_available facts reg fid"
  then have ex: "\<exists>n. available_by facts reg n fid" by (rule available_byE)
  from LeastI_ex [OF ex] assms obtain m where "m < (LEAST n. available_by facts reg n fid)" "available_by facts reg m fid"
    unfolding waits_for_def by blast
  then show False using not_less_Least by blast
qed

lemma waits_for_push:
  assumes "waits_for facts reg stack fid" "lookup reg fid = Some req" "d \<in> set (cr_RequiredFeatures req)"
  shows "waits_for facts reg (fid # stack) d"
proof -
  have one: "\<exists>m < n. available_by facts reg m d" if "available_by facts reg n fid" for n
    using that assms(2,3) by (cases n) (auto simp: list_all_iff)
  have "\<exists>m < n. available_by facts reg m d" if "r \<in> set stack" "available_by facts reg n r" for r n
    using assms(1) that one unfolding waits_for_def by (meson less_trans)
  with one show ?thesis by (auto simp: waits_for_def)
qed

lemma evaluateBase_reason: "cs_Available ((evaluateBase facts req)\<lparr>cs_Available := False, cs_Reason := why\<rparr>) = False"
  by simp

lemma resolve_correct:
  "resolved facts reg fs \<Longrightarrow> waits_for facts reg resolving fid \<Longrightarrow>
     resolved facts reg (snd (resolve facts reg resolving fs fid)) \<and>
     cs_Available (fst (resolve facts reg resolving fs fid)) = feature_available facts reg fid"
  "resolved facts reg fs \<Longrightarrow> (\<And>d. d \<in> set ds \<Longrightarrow> waits_for facts reg resolving d) \<Longrightarrow>
     resolved facts reg (snd (resolve_required facts reg resolving fs st ds)) \<and>
     cs_Available (fst (resolve_required facts reg resolving fs st ds)) =
       (cs_Available st \<and> (\<forall>d \<in> set ds. feature_available facts reg d))"
proof (induction facts reg resolving fs fid and facts reg resolving fs st ds rule: resolve_resolve_required.induct)
  case (1 facts reg resolving fs fid)
  show ?case
  proof (cases "lookup fs fid")
    case (Some st)
    with 1 show ?thesis by (simp add: resolved_def)
  next
    case fs: None
    show ?thesis
    proof (cases "lookup reg fid")
      case None
      with 1 fs show ?thesis by (simp add: unavailable_def feature_available_iff [of facts reg fid])
    next
      case (Some req)
      show ?thesis
      proof (cases "fid \<in> set resolving")
        case True
        with 1 fs Some waits_for_self [OF 1(3) True] show ?thesis by (simp add: unavailable_def)
      next
        case False
        let ?st = "evaluateBase facts req"
        show ?thesis
        proof (cases "cs_Available ?st")
          case av: True
          have w: "\<And>d. d \<in> set (cr_RequiredFeatures req) \<Longrightarrow> waits_for facts reg (fid # resolving) d"
            using waits_for_push [OF 1(3) Some] by blast
          from 1(1) [OF fs Some False refl av 1(2) w]
          have r: "resolved facts reg (snd (resolve_required facts reg (fid # resolving) fs ?st (cr_RequiredFeatures req)))"
            "cs_Available (fst (resolve_required facts reg (fid # resolving) fs ?st (cr_RequiredFeatures req))) =
               feature_available facts reg fid"
            using av Some by (auto simp: feature_available_iff [of facts reg fid])
          from resolved_put [OF r] r(2) fs Some False av show ?thesis by (simp add: Let_def)
        next
          case no: False
          with Some have "\<not> feature_available facts reg fid" by (simp add: feature_available_iff [of facts reg fid])
          with no fs Some False resolved_put [OF 1(2), of ?st fid] show ?thesis by (simp add: Let_def)
        qed
      qed
    qed
  qed
next
  case (2 facts reg resolving fs st)
  then show ?case by simp
next
  case (3 facts reg resolving fs st d ds)
  from 3(1) [OF 3(3)] 3(4) have d: "resolved facts reg (snd (resolve facts reg resolving fs d))"
    "cs_Available (fst (resolve facts reg resolving fs d)) = feature_available facts reg d" by auto
  show ?case
  proof (cases "feature_available facts reg d")
    case True
    with d 3(2) [OF refl _ d(1)] 3(4) show ?thesis by (simp add: Let_def)
  next
    case False
    with d show ?thesis by (simp add: Let_def)
  qed
qed

lemma evaluate_one_correct: "resolved facts reg fs \<Longrightarrow> resolved facts reg (evaluate_one facts reg fs fid)"
  using resolve_correct(1) [of facts reg fs "[]" fid] by (simp add: evaluate_one_def Let_def waits_for_def resolved_put)

lemma resolve_keys:
  "set (map fst (snd (resolve facts reg resolving fs fid))) \<subseteq> set (map fst fs) \<union> set (map fst reg)"
  "set (map fst (snd (resolve_required facts reg resolving fs st ds))) \<subseteq> set (map fst fs) \<union> set (map fst reg)"
proof (induction facts reg resolving fs fid and facts reg resolving fs st ds rule: resolve_resolve_required.induct)
  case (1 facts reg resolving fs fid)
  have "lookup reg fid = Some req \<Longrightarrow> fid \<in> set (map fst reg)" for req using lookup_Some_in_set [of reg fid req] by force
  with 1 show ?case by (auto simp: Let_def keys_put split: option.splits if_splits)
next
  case (3 facts reg resolving fs st d ds)
  then show ?case by (auto simp: Let_def)
qed simp


lemma resolve_keeps:
  "fst ` set fs \<subseteq> fst ` set (snd (resolve facts reg resolving fs fid))"
  "fst ` set fs \<subseteq> fst ` set (snd (resolve_required facts reg resolving fs st ds))"
proof (induction facts reg resolving fs fid and facts reg resolving fs st ds rule: resolve_resolve_required.induct)
  case (1 facts reg resolving fs fid)
  then show ?case by (auto simp: Let_def keys_put split: option.splits if_splits)
next
  case (3 facts reg resolving fs st d ds)
  from 3(1) [OF] 3(2) [OF refl] show ?case
    by (cases "cs_Available (fst (resolve facts reg resolving fs d))") (simp_all add: Let_def del: resolve.simps)
qed simp

lemma foldl_features:
  assumes "set fids \<subseteq> fst ` set reg" "resolved facts reg fs" "fst ` set fs \<subseteq> fst ` set reg"
  shows "let fs' = foldl (evaluate_one facts reg) fs fids in
    resolved facts reg fs' \<and> set fids \<union> fst ` set fs \<subseteq> fst ` set fs' \<and> fst ` set fs' \<subseteq> fst ` set reg"
  using assms
proof (induction fids arbitrary: fs)
  case (Cons fid fids)
  let ?fs = "evaluate_one facts reg fs fid"
  let ?R = "fst ` set (snd (resolve facts reg [] fs fid))"
  have e: "fst ` set ?fs = insert fid ?R" by (simp add: evaluate_one_def Let_def keys_put del: resolve.simps)
  have f: "fid \<in> fst ` set reg" using Cons.prems(1) by simp
  have k: "fst ` set fs \<subseteq> ?R" by (rule resolve_keeps(1))
  have k': "?R \<subseteq> fst ` set fs \<union> fst ` set reg" using resolve_keys(1) [of facts reg "[]" fs fid] unfolding set_map .
  have "fst ` set fs \<union> {fid} \<subseteq> fst ` set ?fs" "fst ` set ?fs \<subseteq> fst ` set reg"
    unfolding e using f k k' Cons.prems(3) by blast+
  with Cons.IH [of ?fs] Cons.prems(1) evaluate_one_correct [OF Cons.prems(2)]
  have "resolved facts reg (foldl (evaluate_one facts reg) ?fs fids)"
    "set fids \<union> fst ` set ?fs \<subseteq> fst ` set (foldl (evaluate_one facts reg) ?fs fids)"
    "fst ` set (foldl (evaluate_one facts reg) ?fs fids) \<subseteq> fst ` set reg"
    by (simp_all add: Let_def del: resolve.simps)
  moreover have "set (fid # fids) \<union> fst ` set fs \<subseteq> fst ` set (foldl (evaluate_one facts reg) ?fs fids)"
    using calculation(2) \<open>fst ` set fs \<union> {fid} \<subseteq> fst ` set ?fs\<close> unfolding list.set by blast
  ultimately show ?case unfolding Let_def foldl_Cons by blast
qed simp

lemma lookup_keys: "lookup m k = None \<longleftrightarrow> k \<notin> fst ` set m"
  by (simp add: map_of_eq_None_iff)

text \<open>C34: whatever the order in which the registry is walked, a feature is reported available exactly when it is the least
  fixed point of its requirements, also among features that require each other, and a check against that report holds
  exactly when the requirement itself does and everything it requires is available.\<close>

theorem features_least_fixpoint:
  "map_option cs_Available (lookup (cn_Features (Evaluate facts reg)) fid) =
     (if fid \<in> set (keys reg) then Some (feature_available facts reg fid) else None) \<and>
   cs_Available (Check (Evaluate facts reg) req) =
     (cs_Available (evaluateBase facts req) \<and> list_all (feature_available facts reg) (cr_RequiredFeatures req))"
proof -
  let ?fs = "foldl (evaluate_one facts reg) [] (map fst reg)"
  have r: "resolved facts reg ?fs" and k: "fst ` set ?fs = fst ` set reg"
    using foldl_features [of "map fst reg" reg facts "[]"] by (auto simp: Let_def resolved_def)
  have l: "map_option cs_Available (lookup ?fs x) = (if x \<in> set (keys reg) then Some (feature_available facts reg x) else None)" for x
    using r k lookup_keys [of ?fs x] by (cases "lookup ?fs x") (auto simp: resolved_def)
  have known: "x \<in> set (keys reg)" if "feature_available facts reg x" for x
    using that lookup_Some_in_set [of reg x] unfolding feature_available_iff [of facts reg x] by force
  have a: "feature_available facts reg x \<longleftrightarrow> (case lookup ?fs x of None \<Rightarrow> False | Some st \<Rightarrow> cs_Available st)" for x
    using l [of x] known [of x] by (cases "lookup ?fs x"; cases "x \<in> set (keys reg)") (auto simp del: set_map)
  have "cs_Available (check_features ?fs st ds) = (cs_Available st \<and> list_all (feature_available facts reg) ds)" for st ds
    by (induction ds) (simp_all add: a split: option.splits)
  with l show ?thesis by (simp add: Evaluate_def Check_def Let_def)
qed

subsection \<open>The dependency graph\<close>

definition depends :: "App list \<Rightarrow> (string \<times> string) set" where
  "depends as = {(x, y). \<exists>a. by_id as x = Some a \<and> y \<in> set (ap_Dependencies a)}"

text \<open>Finished applications: closed under dependencies, and none on a cycle.\<close>

definition finished_ok :: "App list \<Rightarrow> string set \<Rightarrow> bool" where
  "finished_ok as F \<longleftrightarrow> (\<forall>x \<in> F. (x, x) \<notin> (depends as)\<^sup>+ \<and> (\<forall>y. (x, y) \<in> depends as \<longrightarrow> y \<in> F))"

lemma finished_reach: "finished_ok as F \<Longrightarrow> x \<in> F \<Longrightarrow> (x, y) \<in> (depends as)\<^sup>* \<Longrightarrow> y \<in> F"
  by (rotate_tac 2, induction rule: rtrancl_induct) (auto simp: finished_ok_def)

lemma finished_add:
  assumes "finished_ok as F" "aid \<notin> F" "\<And>y. (aid, y) \<in> depends as \<Longrightarrow> y \<in> F"
  shows "finished_ok as (insert aid F)"
proof -
  have "(aid, aid) \<notin> (depends as)\<^sup>+"
  proof
    assume "(aid, aid) \<in> (depends as)\<^sup>+"
    then obtain y where "(aid, y) \<in> depends as" "(y, aid) \<in> (depends as)\<^sup>*" by (meson tranclD)
    with assms finished_reach [OF assms(1)] show False by blast
  qed
  with assms show ?thesis by (auto simp: finished_ok_def)
qed

definition visit_ok :: "App list \<Rightarrow> string list \<Rightarrow> string list \<Rightarrow> string set \<Rightarrow> string + string list \<Rightarrow> bool" where
  "visit_ok as visiting finished ids r = (case r of
     Inl e \<Rightarrow> (e, e) \<in> (depends as)\<^sup>+
   | Inr f \<Rightarrow> finished_ok as (set f) \<and> set finished \<union> ids \<subseteq> set f \<and> set visiting \<inter> set f \<subseteq> set finished)"

lemma visit_correct:
  "finished_ok as (set finished) \<Longrightarrow> (\<And>r. r \<in> set visiting \<Longrightarrow> (r, aid) \<in> (depends as)\<^sup>+) \<Longrightarrow>
     visit_ok as visiting finished {aid} (visit as visiting finished aid)"
  "finished_ok as (set finished) \<Longrightarrow> (\<And>r d. r \<in> set visiting \<Longrightarrow> d \<in> set ds \<Longrightarrow> (r, d) \<in> (depends as)\<^sup>+) \<Longrightarrow>
     visit_ok as visiting finished (set ds) (visit_all as visiting finished ds)"
proof (induction as visiting finished aid and as visiting finished ds rule: visit_visit_all.induct)
  case (1 as visiting finished aid)
  show ?case
  proof (cases "aid \<in> set visiting \<or> aid \<in> set finished")
    case True
    with 1(2,3) show ?thesis by (auto simp: visit_ok_def)
  next
    case new: False
    show ?thesis
    proof (cases "by_id as aid")
      case None
      then have "(aid, y) \<notin> depends as" for y by (simp add: depends_def)
      with new None finished_add [OF 1(2), of aid] show ?thesis by (auto simp: visit_ok_def)
    next
      case (Some a)
      have dep: "(aid, d) \<in> depends as \<longleftrightarrow> d \<in> set (ap_Dependencies a)" for d using Some by (simp add: depends_def)
      have "(r, d) \<in> (depends as)\<^sup>+" if "r \<in> set (aid # visiting)" "d \<in> set (ap_Dependencies a)" for r d
        using that 1(3) dep [of d] by (auto intro: trancl_into_trancl)
      from 1(1) [OF _ _ Some 1(2) this] new
      have v: "visit_ok as (aid # visiting) finished (set (ap_Dependencies a)) (visit_all as (aid # visiting) finished (ap_Dependencies a))"
        by simp
      show ?thesis
      proof (cases "visit_all as (aid # visiting) finished (ap_Dependencies a)")
        case (Inl e)
        with v new Some show ?thesis by (simp add: visit_ok_def)
      next
        case (Inr f)
        with v new have f: "finished_ok as (set f)" "aid \<notin> set f" "set (ap_Dependencies a) \<subseteq> set f" "set finished \<subseteq> set f"
          "set visiting \<inter> set f \<subseteq> set finished" by (auto simp: visit_ok_def)
        with finished_add [OF f(1,2)] dep new Some Inr show ?thesis by (auto simp: visit_ok_def)
      qed
    qed
  qed
next
  case (2 as visiting finished)
  then show ?case by (simp add: visit_ok_def)
next
  case (3 as visiting finished d ds)
  show ?case
  proof (cases "visit as visiting finished d")
    case (Inl e)
    with 3 show ?thesis by (simp add: visit_ok_def)
  next
    case (Inr f)
    with 3 have "visit_ok as visiting f (set ds) (visit_all as visiting f ds)" "visit_ok as visiting finished {d} (Inr f)"
      by (auto simp: visit_ok_def)
    with Inr show ?thesis by (cases "visit_all as visiting f ds") (auto simp: visit_ok_def)
  qed
qed

text \<open>C35: the check of the dependency graph accepts exactly the lists of applications whose dependencies have no cycle,
  whatever order it walks them in.\<close>

theorem dependency_graph_checked: "validateDependencyGraph as = None \<longleftrightarrow> acyclic (depends as)"
proof -
  let ?ids = "remdups (map ap_ID as)"
  have v: "visit_ok as [] [] (set ?ids) (visit_all as [] [] ?ids)" by (rule visit_correct) (simp_all add: finished_ok_def)
  show ?thesis
  proof (cases "visit_all as [] [] ?ids")
    case (Inl e)
    with v show ?thesis by (auto simp: validateDependencyGraph_def visit_ok_def acyclic_def)
  next
    case (Inr f)
    have "(x, x) \<notin> (depends as)\<^sup>+" for x
    proof
      assume c: "(x, x) \<in> (depends as)\<^sup>+"
      then obtain a where "by_id as x = Some a" by (auto simp: depends_def dest: tranclD)
      then have "x \<in> set ?ids" using by_id_mem [of as x a] by auto
      with v Inr c show False by (auto simp: visit_ok_def finished_ok_def)
    qed
    with Inr show ?thesis by (simp add: validateDependencyGraph_def acyclic_def)
  qed
qed


subsection \<open>Starting order\<close>

text \<open>What an application needs on a machine, by identifier.\<close>

definition needs :: "machine \<Rightarrow> (string \<times> string) set" where
  "needs mc = {(x, y). \<exists>a. GetApp mc x = Some a \<and> y \<in> set (ap_Dependencies a)}"

definition ids :: "App list \<Rightarrow> string set" where
  "ids as = ap_ID ` set as"

text \<open>Each application comes once, as the machine has it, and after everything it depends on.\<close>

definition starts_in_order :: "machine \<Rightarrow> App list \<Rightarrow> bool" where
  "starts_in_order mc out \<longleftrightarrow> distinct (map ap_ID out) \<and> list_all (\<lambda>b. GetApp mc (ap_ID b) = Some b) out \<and>
     list_all (\<lambda>i. set (ap_Dependencies (out ! i)) \<subseteq> ids (take i out)) [0..<length out]"

lemma starts_append:
  assumes "starts_in_order mc out" "GetApp mc (ap_ID b) = Some b" "ap_ID b \<notin> ids out" "set (ap_Dependencies b) \<subseteq> ids out"
  shows "starts_in_order mc (out @ [b])"
  using assms by (auto simp: starts_in_order_def ids_def list_all_iff nth_append)

lemma GetApp_id: "GetApp mc x = Some a \<Longrightarrow> ap_ID a = x"
  by (auto simp: GetApp_def forHost_def dest!: find_SomeD)

lemma listed_ids: "list_ex (\<lambda>b. ap_ID b = d) out \<longleftrightarrow> d \<in> ids out"
  by (auto simp: ids_def list_ex_iff)

text \<open>What a walk from \<open>from\<close> adds: applications that are reachable from there.\<close>

definition walk_ok :: "machine \<Rightarrow> string set \<Rightarrow> App list \<Rightarrow> string + App list \<Rightarrow> bool" where
  "walk_ok mc start out r = (case r of
     Inl d \<Rightarrow> GetApp mc d = None \<and> (\<exists>x \<in> start. (x, d) \<in> (needs mc)\<^sup>*)
   | Inr out1 \<Rightarrow> starts_in_order mc out1 \<and> ids out \<union> start \<subseteq> ids out1 \<and>
       (\<forall>y \<in> ids out1 - ids out. \<exists>x \<in> start. (x, y) \<in> (needs mc)\<^sup>*))"

lemma deps_correct:
  "acyclic (needs mc) \<Longrightarrow> GetApp mc (ap_ID a) = Some a \<Longrightarrow> starts_in_order mc out \<Longrightarrow> deps mc n a out = Some r \<Longrightarrow>
      walk_ok mc (set (ap_Dependencies a)) out r"
  "acyclic (needs mc) \<Longrightarrow> starts_in_order mc out \<Longrightarrow> deps_all mc n ds out = Some r \<Longrightarrow> walk_ok mc (set ds) out r"
proof (induction mc n a out and mc n ds out arbitrary: r and r rule: deps_deps_all.induct)
  case (4 mc n d ds out)
  show ?case
  proof (cases "d \<in> ids out")
    case True
    with 4(1,4-6) show ?thesis by (auto simp: listed_ids walk_ok_def split: sum.splits)
  next
    case new: False
    show ?thesis
    proof (cases "GetApp mc d")
      case None
      with new 4(6) show ?thesis by (auto simp: listed_ids walk_ok_def)
    next
      case (Some b)
      then have b: "ap_ID b = d" by (rule GetApp_id)
      have edge: "(d, y) \<in> needs mc" if "y \<in> set (ap_Dependencies b)" for y using that Some by (auto simp: needs_def)
      obtain q where q: "deps mc n b out = Some q" using 4(6) new Some by (auto simp: listed_ids split: option.splits)
      have w: "walk_ok mc (set (ap_Dependencies b)) out q" using 4(2) [OF _ Some] new q Some b 4(4,5) by (simp add: listed_ids)
      show ?thesis
      proof (cases q)
        case (Inl e)
        with w 4(6) new Some q have "r = Inl e" "GetApp mc e = None" "\<exists>x \<in> set (ap_Dependencies b). (x, e) \<in> (needs mc)\<^sup>*"
          by (simp_all add: listed_ids walk_ok_def)
        with edge have "(d, e) \<in> (needs mc)\<^sup>*" by (meson converse_rtrancl_into_rtrancl)
        with \<open>r = Inl e\<close> \<open>GetApp mc e = None\<close> show ?thesis by (auto simp: walk_ok_def)
      next
        case (Inr out1)
        have reach: "(d, y) \<in> (needs mc)\<^sup>+" if "y \<in> ids out1" "y \<notin> ids out" for y
          using w Inr that edge unfolding walk_ok_def by simp (meson DiffI rtrancl_into_trancl2)
        have "d \<notin> ids out1"
        proof
          assume "d \<in> ids out1"
          with reach [of d] new 4(4) show False unfolding acyclic_def by blast
        qed
        then have o: "starts_in_order mc (out1 @ [b])" using w Inr Some b by (intro starts_append) (auto simp: walk_ok_def)
        have i: "ids (out1 @ [b]) = insert d (ids out1)" using b by (auto simp: ids_def)
        from 4(3) [OF _ Some q Inr 4(4) o] new 4(6) Some q Inr have
          v: "walk_ok mc (set ds) (out1 @ [b]) r" by (simp add: listed_ids)
        show ?thesis
        proof (cases r)
          case (Inl e)
          with v show ?thesis by (auto simp: walk_ok_def)
        next
          case (Inr out2)
          have "\<exists>x \<in> set (d # ds). (x, y) \<in> (needs mc)\<^sup>*" if "y \<in> ids out2" "y \<notin> ids out" for y
          proof (cases "y \<in> insert d (ids out1)")
            case True
            then show ?thesis using reach [of y] that(2) by (auto intro: trancl_into_rtrancl)
          next
            case False
            with v Inr that(1) i show ?thesis by (auto simp: walk_ok_def)
          qed
          with v Inr w \<open>q = Inr out1\<close> i show ?thesis by (auto simp: walk_ok_def)
        qed
      qed
    qed
  qed
qed (auto simp: walk_ok_def)


text \<open>The walk is no deeper than the number of applications that can be reached.\<close>

definition reachable :: "machine \<Rightarrow> string \<Rightarrow> string set" where
  "reachable mc x = {y. (x, y) \<in> (needs mc)\<^sup>+ \<and> GetApp mc y \<noteq> None}"

lemma GetApp_listed: "GetApp mc x \<noteq> None \<Longrightarrow> x \<in> ids (mf_Apps (mc_doc mc))"
  by (auto simp: GetApp_def ids_def dest!: find_SomeD)

lemma reachable_listed: "reachable mc x \<subseteq> ids (mf_Apps (mc_doc mc))"
  using GetApp_listed by (auto simp: reachable_def)

lemma finite_ids: "finite (ids as)"
  by (simp add: ids_def)

lemma reachable_less:
  assumes "acyclic (needs mc)" "(x, d) \<in> needs mc" "GetApp mc d \<noteq> None"
  shows "card (reachable mc d) < card (reachable mc x)"
proof (rule psubset_card_mono)
  show "finite (reachable mc x)" using finite_subset [OF reachable_listed finite_ids] .
  have "d \<in> reachable mc x" "d \<notin> reachable mc d" using assms by (auto simp: reachable_def acyclic_def)
  moreover have "reachable mc d \<subseteq> reachable mc x" using assms(2) by (auto simp: reachable_def intro: trancl_into_trancl2)
  ultimately show "reachable mc d \<subset> reachable mc x" by blast
qed

lemma deps_total:
  "acyclic (needs mc) \<Longrightarrow> GetApp mc (ap_ID a) = Some a \<Longrightarrow> card (reachable mc (ap_ID a)) < n \<Longrightarrow> deps mc n a out \<noteq> None"
  "acyclic (needs mc) \<Longrightarrow> (\<And>d. d \<in> set ds \<Longrightarrow> GetApp mc d \<noteq> None \<Longrightarrow> card (reachable mc d) < n) \<Longrightarrow> deps_all mc n ds out \<noteq> None"
proof (induction mc n a out and mc n ds out rule: deps_deps_all.induct)
  case (2 mc n a out)
  have "card (reachable mc d) < n" if "d \<in> set (ap_Dependencies a)" "GetApp mc d \<noteq> None" for d
  proof -
    have "(ap_ID a, d) \<in> needs mc" using 2(3) that(1) by (auto simp: needs_def)
    from reachable_less [OF 2(2) this that(2)] 2(4) show ?thesis by simp
  qed
  with 2(1) [OF 2(2)] show ?case by simp
next
  case (4 mc n d ds out)
  show ?case
  proof (cases "list_ex (\<lambda>b. ap_ID b = d) out")
    case True
    with 4 show ?thesis by simp
  next
    case False
    show ?thesis
    proof (cases "GetApp mc d")
      case (Some b)
      with 4(2) [OF False Some 4(4)] 4(5) GetApp_id [OF Some] have q: "deps mc n b out \<noteq> None" by simp
      then obtain q where "deps mc n b out = Some q" by blast
      with 4(3) [OF False Some this _ 4(4)] 4(5) False Some show ?thesis by (cases q) auto
    qed (use False in simp)
  qed
qed auto

lemma parse_apps_distinct: "parse_apps i seen as = Inr bs \<Longrightarrow> distinct (map ap_ID bs) \<and> ids bs \<inter> set seen = {}"
proof (induction i seen as arbitrary: bs rule: parse_apps.induct)
  case (2 i seen a0 as)
  obtain cs where "validateApp (with_support a0) = None" "ap_ID (with_support a0) \<notin> set seen"
    "parse_apps (Suc i) (ap_ID (with_support a0) # seen) as = Inr cs" "bs = with_defaults (with_support a0) # cs"
    using 2(2) by (cases "parse_apps (Suc i) (ap_ID (with_support a0) # seen) as")
      (auto simp: Let_def split: option.splits if_splits)
  with 2(1) [OF refl, of cs] show ?case by (auto simp: ids_def with_defaults_def Let_def)
qed (simp add: ids_def)

lemma distinct_by_id: "distinct (map ap_ID as) \<Longrightarrow> a \<in> set as \<Longrightarrow> by_id as (ap_ID a) = Some a"
proof -
  assume d: "distinct (map ap_ID as)" "a \<in> set as"
  then have "by_id as (ap_ID a) \<noteq> None" by (auto simp: by_id_def find_None_iff)
  then obtain b where "by_id as (ap_ID a) = Some b" by blast
  with by_id_mem [OF this] d show ?thesis by (auto simp: distinct_map inj_on_def)
qed

lemma parsed_acyclic:
  assumes "ParseManifest decoded = Inr (mc_doc mc)"
  shows "acyclic (needs mc)"
proof -
  let ?as = "mf_Apps (mc_doc mc)"
  obtain doc as where p: "parse_apps 0 [] (mf_Apps doc) = Inr as" "validateDependencyGraph as = None" "mc_doc mc = doc\<lparr>mf_Apps := as\<rparr>"
    using assms by (auto simp: ParseManifest_def bind_res_Inr_iff split: option.splits if_splits)
  then have "acyclic (depends ?as)" by (simp add: dependency_graph_checked)
  moreover have "needs mc \<subseteq> depends ?as"
  proof
    fix e assume "e \<in> needs mc"
    then obtain x y a where e: "e = (x, y)" "GetApp mc x = Some a" "y \<in> set (ap_Dependencies a)" by (auto simp: needs_def)
    then obtain a0 where "a0 \<in> set ?as" "ap_ID a0 = x" "a = forHost mc a0" by (auto simp: GetApp_def dest!: find_SomeD)
    with distinct_by_id [of ?as a0] parse_apps_distinct [OF p(1)] p(3) e show "e \<in> depends ?as"
      by (auto simp: depends_def forHost_def)
  qed
  ultimately show ?thesis by (rule acyclic_subset)
qed

text \<open>C33: on a machine whose catalog was accepted, asking for the dependencies of an application always comes to an end, with
  everything it needs, directly or not, each once and after its own dependencies, or with the name of one that the
  machine does not have.\<close>

theorem dependencies_start_order:
  assumes "ParseManifest decoded = Inr (mc_doc mc)"
  shows "case Dependencies mc aid of
      None \<Rightarrow> False
    | Some (Inl d) \<Rightarrow> GetApp mc d = None \<and> (aid, d) \<in> (needs mc)\<^sup>*
    | Some (Inr out) \<Rightarrow> starts_in_order mc out \<and> ids out = {y. (aid, y) \<in> (needs mc)\<^sup>+}"
proof (cases "GetApp mc aid")
  case None
  then show ?thesis by (simp add: Dependencies_def)
next
  case (Some a)
  note acyc = parsed_acyclic [OF assms]
  have a: "ap_ID a = aid" using Some by (rule GetApp_id)
  have edge: "(aid, y) \<in> needs mc \<longleftrightarrow> y \<in> set (ap_Dependencies a)" for y using Some by (simp add: needs_def)
  have "card (reachable mc aid) \<le> card (ids (mf_Apps (mc_doc mc)))" by (rule card_mono [OF finite_ids reachable_listed])
  also have "\<dots> \<le> length (mf_Apps (mc_doc mc))" unfolding ids_def by (meson card_image_le card_length le_trans List.finite_set)
  finally have "card (reachable mc aid) < depth_bound mc" by (simp add: depth_bound_def)
  with deps_total(1) [OF acyc, of a] Some a obtain r where r: "deps mc (depth_bound mc) a [] = Some r" by auto
  have w: "walk_ok mc (set (ap_Dependencies a)) [] r"
    using deps_correct(1) [OF acyc _ _ r] Some a by (simp add: starts_in_order_def)
  show ?thesis
  proof (cases r)
    case (Inl d)
    with w edge r Some show ?thesis
      by (auto simp: Dependencies_def walk_ok_def) (meson converse_rtrancl_into_rtrancl)
  next
    case (Inr out)
    have closed: "z \<in> ids out" if "y \<in> ids out" "(y, z) \<in> needs mc" for y z
    proof -
      from that(1) obtain i where i: "i < length out" "ap_ID (out ! i) = y" by (auto simp: ids_def in_set_conv_nth)
      with w Inr have "GetApp mc y = Some (out ! i)" "set (ap_Dependencies (out ! i)) \<subseteq> ids (take i out)"
        by (auto simp: walk_ok_def starts_in_order_def list_all_iff)
      with that(2) have "z \<in> ids (take i out)" by (auto simp: needs_def)
      then show ?thesis by (auto simp: ids_def dest: in_set_takeD)
    qed
    have "y \<in> ids out" if "(aid, y) \<in> (needs mc)\<^sup>+" for y
      using that by (induction rule: trancl_induct) (use w Inr edge closed in \<open>auto simp: walk_ok_def\<close>)
    moreover have "(aid, y) \<in> (needs mc)\<^sup>+" if "y \<in> ids out" for y
      using w Inr that edge unfolding walk_ok_def by (auto simp: ids_def) (meson imageI rtrancl_into_trancl2)
    ultimately show ?thesis using w Inr r Some by (auto simp: Dependencies_def walk_ok_def)
  qed
qed


subsection \<open>An accepted document\<close>

definition blank_app :: App where
  "blank_app = \<lparr>ap_ID = '''', ap_Name = '''', ap_Description = '''', ap_Category = '''', ap_Tagline = '''', ap_Long = '''',
     ap_Examples = [], ap_Image = '''', ap_ArchImages = [], ap_Architectures = [], ap_Platforms = [], ap_ArchPlatforms = [],
     ap_MinCloudlessVersion = '''', ap_MinDGXOSVersion = '''', ap_SupportLevel = '''', ap_RequiredFeatures = [], ap_Ports = [],
     ap_Env = [], ap_GPUs = '''', ap_OpenPath = '''', ap_EmbeddedPath = '''', ap_MinVRAMGB = 0, ap_Verified = False,
     ap_Preinstall = False, ap_Prefetch = False, ap_Service = False, ap_Hidden = False, ap_LocalOnly = False, ap_Engine = False,
     ap_NeedsEngine = False, ap_Network = '''', ap_IPC = '''', ap_Ulimits = [], ap_Command = [], ap_ArchCommands = [],
     ap_Volumes = [], ap_DataPath = '''', ap_DataUID = 0, ap_Build = '''', ap_Config = [], ap_Settings = [], ap_Admin = None,
     ap_Dependencies = [], ap_Health = \<lparr>hc_Kind = '''', hc_Path = '''', hc_Port = 0, hc_TimeoutSeconds = 0\<rparr>, ap_LLM = None,
     ap_Resources = \<lparr>rc_MemoryGB = 0, rc_DiskGB = 0, rc_VRAMGB = 0\<rparr>,
     ap_Exposure = \<lparr>ex_Risk = '''', ex_LAN = '''', ex_Public = '''', ex_RequireAuth = False\<rparr>\<rparr>"

definition hidden_app :: "string \<Rightarrow> string list \<Rightarrow> App" where
  "hidden_app i ds = blank_app\<lparr>ap_ID := i, ap_Name := i, ap_Image := ''img'', ap_Hidden := True, ap_Dependencies := ds\<rparr>"

definition small_doc :: "App list \<Rightarrow> ManifestDocument" where
  "small_doc as = \<lparr>mf_Schema = ManifestSchema, mf_Version = 2, mf_Description = '''', mf_Apps = as, mf_Packs = []\<rparr>"

definition small_machine :: "App list \<Rightarrow> machine" where
  "small_machine as = \<lparr>mc_host = \<lparr>h_env = (\<lambda>n. ''''), h_cwd = None, h_tmp = ''/tmp'', h_lstat = (\<lambda>p. Missing), h_read = (\<lambda>p. None)\<rparr>,
     mc_goarch = ''arm64'', mc_build = ''0.2.2'', mc_doc = projr (ParseManifest (Some (small_doc as)))\<rparr>"

theorem dependencies_start_order_witness:
  "case Dependencies (small_machine [hidden_app ''a'' [''b'', ''c''], hidden_app ''b'' [''c''], hidden_app ''c'' []]) ''a'' of
      None \<Rightarrow> False
    | Some (Inl d) \<Rightarrow> GetApp (small_machine [hidden_app ''a'' [''b'', ''c''], hidden_app ''b'' [''c''], hidden_app ''c'' []]) d = None \<and>
        (''a'', d) \<in> (needs (small_machine [hidden_app ''a'' [''b'', ''c''], hidden_app ''b'' [''c''], hidden_app ''c'' []]))\<^sup>*
    | Some (Inr out) \<Rightarrow> starts_in_order (small_machine [hidden_app ''a'' [''b'', ''c''], hidden_app ''b'' [''c''], hidden_app ''c'' []]) out \<and>
        ids out = {y. (''a'', y) \<in> (needs (small_machine [hidden_app ''a'' [''b'', ''c''], hidden_app ''b'' [''c''], hidden_app ''c'' []]))\<^sup>+}"
proof (rule dependencies_start_order)
  let ?as = "[hidden_app ''a'' [''b'', ''c''], hidden_app ''b'' [''c''], hidden_app ''c'' []]"
  have "\<not> isl (ParseManifest (Some (small_doc ?as)))" by code_simp
  then show "ParseManifest (Some (small_doc ?as)) = Inr (mc_doc (small_machine ?as))"
    by (cases "ParseManifest (Some (small_doc ?as))") (simp_all add: small_machine_def)
qed

subsection \<open>The private contract of an engine\<close>





subsection \<open>Commands of an architecture\<close>

definition notebook_app :: App where
  "notebook_app = blank_app\<lparr>ap_ID := ''nb'', ap_Name := ''nb'', ap_Category := ''c'', ap_Tagline := ''t'', ap_Long := ''l'',
     ap_Examples := [''1'', ''2'', ''3''], ap_Image := ''img'', ap_Ports := [(8888, 8888)], ap_OpenPath := ''/'',
     ap_DataPath := ''/data'', ap_ArchCommands := [(''arm64'', [''jupyter'', ''--ServerApp.token=''])],
     ap_Exposure := \<lparr>ex_Risk = '''', ex_LAN = ''opt-in'', ex_Public = '''', ex_RequireAuth = False\<rparr>\<rparr>"

text \<open>The rule that a notebook without a password stays on the machine looks at the generic command only: a document is
  accepted whose command for this architecture has no password, and the application can be shared with the network.\<close>

theorem arch_command_escapes_notebook_rule:
  "case ParseManifest (Some (small_doc [notebook_app])) of
     Inl e \<Rightarrow> False
   | Inr doc \<Rightarrow> list_all (\<lambda>a. hasPasswordlessNotebookCommand (ap_Command (forHost (small_machine []) a)) \<and>
       LanShareable (forHost (small_machine []) a)) (mf_Apps doc)"
  by code_simp

text \<open>What the rule does guarantee.\<close>

lemma accepted_app: "ParseManifest (Some doc0) = Inr doc \<Longrightarrow> a \<in> set (mf_Apps doc) \<Longrightarrow>
   \<exists>b. validateApp b = None \<and> a = with_defaults b"
proof -
  have "parse_apps i seen as = Inr bs \<Longrightarrow> a \<in> set bs \<Longrightarrow> \<exists>b. validateApp b = None \<and> a = with_defaults b" for i seen as bs a
  proof (induction i seen as arbitrary: bs rule: parse_apps.induct)
    case (2 i seen a0 as)
    then show ?case by (cases "parse_apps (Suc i) (ap_ID (with_support a0) # seen) as")
      (auto simp: Let_def split: option.splits if_splits)
  qed simp
  then show "ParseManifest (Some doc0) = Inr doc \<Longrightarrow> a \<in> set (mf_Apps doc) \<Longrightarrow> ?thesis"
    by (auto simp: ParseManifest_def bind_res_Inr_iff split: option.splits if_splits)
qed


lemma notebook_stays_private:
  assumes "ParseManifest (Some doc0) = Inr doc" "a \<in> set (mf_Apps doc)" "hasPasswordlessNotebookCommand (ap_Command a)"
  shows "\<not> HasWebPort a"
proof -
  obtain b where b: "validateApp b = None" "a = with_defaults b" using accepted_app [OF assms(1,2)] by blast
  then have "ap_Command a = ap_Command b" "ap_Exposure a = ap_Exposure b" by (simp_all add: with_defaults_def Let_def)
  with b(1) assms(3) show ?thesis
    by (auto simp: validateApp_def validate_contracts_def Let_def HasWebPort_def)
qed

end
