(* ===== verification/Spec2Isabelle.thy ===== *)
theory Spec2Isabelle
  imports RecipeOpsProps RecipeStoreProps DisplayLayoutProps JobsProps StateProps BrokerProps ReviewedProps
    SecurityAuditProps GatewayProps ObserverProps DesktopProps CatalogProps
begin

text \<open>
  \<^bold>\<open>CloudlessOS orchestrator: a verification library.\<close>

  The orchestrator (\<open>src/orchestrator\<close>) is the daemon of an appliance that runs language models: it installs and switches
  inference engines in containers, keeps its settings and keys in a state file, runs signed recipes of third parties, and
  exposes a gateway to the models. This library models its core, the packages that decide and that keep state, as HOL
  functions translated from the Go sources, and proves what makes them correct.

  \<^bold>\<open>How the parts work together.\<close> The HTTP API (\<open>internal/api\<close>) starts jobs (\<open>internal/jobs\<close>) and records what they do:
  settings and the inference operation in the state file (\<open>internal/state\<close>), recipes in the recipe index
  (\<open>internal/localrecipes\<close>), their lifecycle in the operation journal (\<open>internal/recipeops\<close>), security events in the audit
  log (\<open>internal/securityaudit\<close>). It never runs Docker itself: requests go to the engine broker (\<open>internal/engine\<close>), which
  admits only managed names, reviewed mounts and proper image references, and runs commands of a reviewed recipe only in its
  pinned checkout. Clients reach the models through the gateway (\<open>internal/api/gateway.go\<close>) with a scoped key; the gateway
  is exposed to networks by forwarder containers that go through the same broker.

  \<^bold>\<open>Theories.\<close> Each model theory follows one or two Go files, in the order of the file; its \<open>...Props\<close> theories hold the
  lemmas and the properties.
  \<^item> \<open>Prelude\<close>, \<open>GoStrings\<close>, \<open>GoTime\<close>, \<open>GoUrl\<close>, \<open>GoPath\<close>, \<open>GoJson\<close>, \<open>GoNet\<close>, \<open>GoFloat\<close>, \<open>Sha256\<close>: results as sums,
    finite maps as association lists, and what the sources use of the Go library: strings as bytes with UTF-8 white space,
    RFC 3339 times, URLs, cleaned paths, JSON rendering, IP addresses, \<open>float64\<close> as exact arithmetic with rounding, SHA-256.
  \<^item> \<open>Recipes\<close>, \<open>RecipeProfiles\<close>, \<open>RecipeValidation\<close>, \<open>RecipeStore\<close>: \<open>localrecipes/store.go\<close>, \<open>review.go\<close> and
    \<open>managed_container.go\<close>. \<open>RecipeStoreProps\<close>: validation is a projection and contains container recipes, no operation makes
    the index unreadable, what is created is read back.
  \<^item> \<open>RecipeOps\<close>, \<open>RecipeOpsStore\<close>: \<open>recipeops/operation.go\<close> and \<open>inventory.go\<close>. \<open>RecipeOpsInv\<close>, \<open>RecipeOpsSystem\<close>,
    \<open>RecipeOpsProps\<close>: the invariant of the journal over every schedule of calls, faults and restarts, the evolution of a
    record, admission on evidence, exclusive admission, failed saves.
  \<^item> \<open>Jobs\<close>, \<open>JobsProps\<close>: \<open>jobs/jobs.go\<close> with subscribers and their channels. \<open>JobObservers\<close>, \<open>ObserverProps\<close>: the observers
    of \<open>internal/api\<close> that mirror a job into the audit log, the inference journal, the downloads and the recipe journal.
  \<^item> \<open>StateStore\<close>, \<open>StateOps\<close>, \<open>StateProps\<close>: \<open>state/state.go\<close>, every method on memory and file; refinement of the durable
    file by the memory over restarts, API keys, restart offers, the inference journal.
  \<^item> \<open>DisplayLayout\<close>, \<open>DisplayLayoutProps\<close>: \<open>displaylayout/layout.go\<close>, parsing of \<open>xrandr\<close> and planning.
  \<^item> \<open>EnginePolicy\<close>, \<open>DockerArgs\<close>, \<open>DockerBroker\<close>: \<open>platform/platform.go\<close>, \<open>engine/policy.go\<close>, \<open>docker.go\<close> and the server side of
    \<open>broker.go\<close>. \<open>EngineProps\<close>, \<open>BrokerProps\<close>: the arguments of an admitted specification parse to admitted options, every
    command of a broker request is of an admitted form, editable command lines round-trip.
  \<^item> \<open>ReviewedPolicy\<close>, \<open>ReviewedProps\<close>: \<open>engine/reviewed_recipe_policy.go\<close>, the adapter that lets a reviewed recipe use Docker:
    authentication against journal and checkout, the grammar of its commands, the check of the rendered compose plan.
  \<^item> \<open>SecurityAudit\<close>, \<open>SecurityAuditProps\<close>: \<open>securityaudit/log.go\<close>, redaction, rotation, reading back.
  \<^item> \<open>Gateway\<close>, \<open>GatewayProxy\<close>, \<open>GatewayAPI\<close>, \<open>Tailscale\<close>: \<open>api/gateway_security.go\<close>, \<open>api/gateway.go\<close> and
    \<open>remoteaccess/tailscale.go\<close>. \<open>GatewayRate\<close>: token buckets over every history of calls. \<open>GatewayStream\<close>: rewriting and
    recording of streamed answers. \<open>GatewayProps\<close>: admission, exposure, the identity of the API.
  \<^item> \<open>HostFs\<close>, \<open>GoJsonDecode\<close>: a file system with inodes, links and faults, the programs that ran, and JSON decoding by bytes.
    \<open>Privileged\<close>, \<open>HostHelper\<close>, \<open>UpdateStatus\<close>: \<open>internal/privileged\<close>, \<open>cmd/cloudless-privileged\<close>, \<open>internal/osupdate\<close> and
    \<open>internal/nvidiaupdate\<close>, the root helper with its protocol. \<open>DesktopAgent\<close>: \<open>internal/desktop\<close>,
    \<open>cmd/cloudless-desktop-agent\<close> and \<open>internal/places\<close>. \<open>HelperProps\<close>, \<open>HelperClientProps\<close>, \<open>DesktopProps\<close>: only typed requests are
    executed, only admitted programs run, a removal stays below its names, the client is the executor behind the socket.
  \<^item> \<open>Capabilities\<close>, \<open>ModelCatalog\<close>, \<open>Catalog\<close>, \<open>AppManifest\<close>: \<open>internal/capabilities\<close>, \<open>internal/models\<close>,
    \<open>internal/catalog\<close> and \<open>internal/customengine\<close>. \<open>CatalogProps\<close>: features as a least fixed point, acyclic dependencies and the
    starting order, what escapes the private contract of an engine and the rule for notebooks.
  \<^bold>\<open>Conventions.\<close> A method of a store runs under its mutex and is one step from the memory and the disk to new ones. The
  clock, random bytes and the outcome of each write or external call are arguments (\<open>now\<close>, \<open>rand\<close>, \<open>fault\<close>), so a theorem
  holds for all of them. Errors are values of a sum or an option, in the order the code checks. The Docker daemon, Git, the
  Tailscale tool, HTTP backends and JSON decoding are parameters; no theorem assumes more of them than its statement says. Maps
  whose iteration order Go leaves open are association lists whose order no result depends on.

  \<^bold>\<open>Bounds and fuel.\<close> Recursion is structural or has a measure, except where noted: \<open>BuildPlan\<close> calls itself at most once, so its
  fuel of 2 always suffices (\<open>BuildPlan_succeeds\<close>); the wait for a tunnel address is bounded by the number of polls before its
  deadline; reading a stream to its end needs one read per byte at most (\<open>alias_stream_complete\<close>). Integers of the sources are
  64 bit and are wrapped where the code can overflow them.

  \<^bold>\<open>Not modelled.\<close> Deadlines and cancellation, the scheduling of goroutines below the level of a mutex, the HTTP server itself, the
  bulk of \<open>internal/api\<close> and of \<open>sparkcluster\<close> (orchestration of Docker, SSH and files around the modelled stores), the system
  updater, the readings of host hardware, YAML decoding, and the signature verification of remote catalogues.
\<close>

end
